(* ===== verification/Prelude.thy ===== *)
theory Prelude
  imports
    Complex_Main
    "HOL-Library.Word"
    "HOL-Library.State_Monad"
    "HOL-Library.List_Lexorder"
    "HOL-Library.Char_ord"
    "HOL-Library.Product_Lexorder"
begin

text \<open>
  The shared vocabulary of the development.

  \<^item> Errors are values of \<open>err\<close>: one constructor for every sentinel error of the source,
    \<open>ErrNew\<close> for \<^verbatim>\<open>errors.New\<close> and for \<^verbatim>\<open>fmt.Errorf\<close> without \<^verbatim>\<open>%w\<close>, \<open>ErrWrap\<close> for
    \<^verbatim>\<open>fmt.Errorf("...: %w", err)\<close>. A Go pair \<^verbatim>\<open>(T, error)\<close> is \<open>err + 'a\<close>.
  \<^item> Programs that read and write the database are values of the library's state monad. The
    combinator \<open>attempt m h k\<close> is the Go idiom \<^verbatim>\<open>x, err := m; if err != nil { h } ; k\<close>.
  \<^item> The locale \<open>evolution\<close> is the proof interface for such programs: a preorder on states that
    every primitive respects is respected by every program composed of them.
  \<^item> The parts of the Go standard library the source calls: \<^verbatim>\<open>strconv\<close>, \<^verbatim>\<open>strings\<close>,
    \<^verbatim>\<open>time.ParseDuration\<close>, and \<^verbatim>\<open>encoding/json\<close> at the level of JSON values.
\<close>

section \<open>Collections\<close>

named_theorems go_simps \<open>unfolding rules for the models of Go library functions\<close>
named_theorems evolve \<open>programs that respect the relations of the development\<close>

section \<open>Lists\<close>

lemma find_SomeD: "find P xs = Some x \<Longrightarrow> x \<in> set xs \<and> P x"
  by (induction xs) (auto split: if_splits)

lemma find_append: "find P (xs @ ys) = (case find P xs of None \<Rightarrow> find P ys | Some x \<Rightarrow> Some x)"
  by (induction xs) auto

lemma find_isSome: "(\<exists>x. find P xs = Some x) \<longleftrightarrow> list_ex P xs"
  by (induction xs) auto

section \<open>Errors\<close>

datatype err =
    ErrDb                       \<comment> \<open>the database call itself failed (connection, timeout, constraint)\<close>
  | ErrNoRows                   \<comment> \<open>pgx.ErrNoRows, where the source passes it on\<close>
  | ErrNotFound                 \<comment> \<open>ports.ErrNotFound\<close>
  | ErrUnauthorized             \<comment> \<open>postgres.ErrUnauthorized\<close>
  | ErrQuotaExceeded            \<comment> \<open>postgres.ErrQuotaExceeded\<close>
  | ErrIdempotencyConflict      \<comment> \<open>postgres.ErrIdempotencyConflict\<close>
  | ErrJSON                     \<comment> \<open>an error of encoding/json\<close>
  | ErrDuration                 \<comment> \<open>an error of time.ParseDuration\<close>
  | ErrDelivery bool bool string  \<comment> \<open>channels.DeliveryError: Retryable, InvalidToken and its text\<close>
  | ErrAdapter string           \<comment> \<open>any other error returned by a channel adapter\<close>
  | ErrRender string            \<comment> \<open>an error returned by the template renderer\<close>
  | ErrNew string               \<comment> \<open>errors.New, fmt.Errorf without %w\<close>
  | ErrWrap string err          \<comment> \<open>fmt.Errorf("...: %w", err)\<close>
  | ErrTagged err string        \<comment> \<open>fmt.Errorf("%w: ...", err)\<close>

type_synonym 'a result = "err + 'a"

fun errors_Is :: "err \<Rightarrow> err \<Rightarrow> bool" where
  "errors_Is (ErrWrap m e) t = (ErrWrap m e = t \<or> errors_Is e t)"
| "errors_Is (ErrTagged e m) t = (ErrTagged e m = t \<or> errors_Is e t)"
| "errors_Is e t = (e = t)"

text \<open>The text of an error, as \<^verbatim>\<open>err.Error()\<close> gives it.\<close>

fun error_text :: "err \<Rightarrow> string" where
  "error_text ErrDb = ''database error''"
| "error_text ErrNoRows = ''no rows in result set''"
| "error_text ErrNotFound = ''not found''"
| "error_text ErrUnauthorized = ''unauthorized''"
| "error_text ErrQuotaExceeded = ''quota exceeded''"
| "error_text ErrIdempotencyConflict = ''idempotency key reused with different event''"
| "error_text ErrJSON = ''json error''"
| "error_text ErrDuration = ''time: invalid duration''"
| "error_text (ErrDelivery r i m) = m"
| "error_text (ErrAdapter m) = m"
| "error_text (ErrRender m) = m"
| "error_text (ErrNew m) = m"
| "error_text (ErrWrap m e) = m @ '': '' @ error_text e"
| "error_text (ErrTagged e m) = error_text e @ '': '' @ m"

section \<open>Programs over a state\<close>

abbreviation ret :: "'a \<Rightarrow> ('s, 'a) state" where
  "ret \<equiv> State_Monad.return"

definition attempt ::
  "('s, 'a result) state \<Rightarrow> (err \<Rightarrow> ('s, 'b) state) \<Rightarrow> ('a \<Rightarrow> ('s, 'b) state) \<Rightarrow> ('s, 'b) state" where
  "attempt m h k = State_Monad.bind m (\<lambda>r. case r of Inl e \<Rightarrow> h e | Inr x \<Rightarrow> k x)"

lemma run_attempt:
  "run_state (attempt m h k) s =
     (case run_state m s of (Inl e, s') \<Rightarrow> run_state (h e) s' | (Inr x, s') \<Rightarrow> run_state (k x) s')"
  by (auto simp: attempt_def split: prod.splits sum.splits)

lemma run_attempt_Inl [simp]:
  "run_state m s = (Inl e, s') \<Longrightarrow> run_state (attempt m h k) s = run_state (h e) s'"
  by (simp add: run_attempt)

lemma run_attempt_Inr [simp]:
  "run_state m s = (Inr x, s') \<Longrightarrow> run_state (attempt m h k) s = run_state (k x) s'"
  by (simp add: run_attempt)

text \<open>Fail with the error \<open>e\<close>, the Go \<^verbatim>\<open>return zero, e\<close>.\<close>

definition failed :: "err \<Rightarrow> ('s, 'a result) state" where
  "failed e = ret (Inl e)"

lemma run_failed [simp]: "run_state (failed e) s = (Inl e, s)"
  by (simp add: failed_def)

definition wrapped :: "string \<Rightarrow> err \<Rightarrow> ('s, 'a result) state" where
  "wrapped m e = ret (Inl (ErrWrap m e))"

lemma run_wrapped [simp]: "run_state (wrapped m e) s = (Inl (ErrWrap m e), s)"
  by (simp add: wrapped_def)

text \<open>
  The interface of the effect proofs. A relation between the state before and the state after that
  is reflexive and transitive composes along programs, so it is enough to establish it for the
  primitive operations of the store.
\<close>

locale evolution =
  fixes R :: "'s \<Rightarrow> 's \<Rightarrow> bool"
  assumes evolution_refl: "R s s"
    and evolution_trans: "R s t \<Longrightarrow> R t u \<Longrightarrow> R s u"
begin

lemma evolve_ret: "state_io_rel R (ret x)"
  by (simp add: state_io_rel_def evolution_refl)

lemma evolve_bind:
  "state_io_rel R m \<Longrightarrow> (\<And>x. state_io_rel R (f x)) \<Longrightarrow> state_io_rel R (State_Monad.bind m f)"
  by (auto simp: state_io_rel_def split: prod.splits) (metis evolution_trans snd_conv)

lemma evolve_bind_run:
  assumes "state_io_rel R m" "\<And>w x w'. run_state m w = (x, w') \<Longrightarrow> state_io_rel R (f x)"
  shows "state_io_rel R (State_Monad.bind m f)"
proof -
  have "R w (snd (run_state (State_Monad.bind m f) w))" for w
  proof -
    obtain x w' where m: "run_state m w = (x, w')" by (cases "run_state m w")
    have "R w w'" using assms(1) m unfolding state_io_rel_def by (metis snd_conv)
    moreover have "R w' (snd (run_state (f x) w'))" using assms(2) [OF m] by (simp add: state_io_rel_def)
    ultimately show ?thesis using m by (simp add: evolution_trans)
  qed
  then show ?thesis by (simp add: state_io_rel_def)
qed

lemma evolve_sum:
  "(\<And>e. state_io_rel R (h e)) \<Longrightarrow> (\<And>x. state_io_rel R (k x)) \<Longrightarrow>
   state_io_rel R (case r of Inl e \<Rightarrow> h e | Inr x \<Rightarrow> k x)"
  by (cases r) auto

lemma evolve_attempt:
  "state_io_rel R m \<Longrightarrow> (\<And>e. state_io_rel R (h e)) \<Longrightarrow> (\<And>x. state_io_rel R (k x)) \<Longrightarrow>
   state_io_rel R (attempt m h k)"
  unfolding attempt_def by (intro evolve_bind evolve_sum)

lemma evolve_failed: "state_io_rel R (failed e)"
  unfolding failed_def by (rule evolve_ret)

lemma evolve_wrapped: "state_io_rel R (wrapped m e)"
  unfolding wrapped_def by (rule evolve_ret)

lemma evolve_if:
  "(b \<Longrightarrow> state_io_rel R p) \<Longrightarrow> (\<not> b \<Longrightarrow> state_io_rel R q) \<Longrightarrow> state_io_rel R (if b then p else q)"
  by simp

lemma evolve_option:
  "(x = None \<Longrightarrow> state_io_rel R p) \<Longrightarrow> (\<And>y. x = Some y \<Longrightarrow> state_io_rel R (q y)) \<Longrightarrow>
   state_io_rel R (case x of None \<Rightarrow> p | Some y \<Rightarrow> q y)"
  by (cases x) auto

lemma evolve_prod:
  "(\<And>a b. x = (a, b) \<Longrightarrow> state_io_rel R (q a b)) \<Longrightarrow> state_io_rel R (case x of (a, b) \<Rightarrow> q a b)"
  by (cases x) auto

lemma evolve_let: "(\<And>y. state_io_rel R (q y)) \<Longrightarrow> state_io_rel R (let y = x in q y)"
  by simp

lemmas evolve_rules =
  evolve_ret evolve_bind evolve_attempt evolve_failed evolve_wrapped evolve_if evolve_option
  evolve_prod evolve_let evolve_sum

end

lemma state_io_relD: "state_io_rel R m \<Longrightarrow> run_state m s = (x, s') \<Longrightarrow> R s s'"
  unfolding state_io_rel_def by (metis snd_conv)

lemma state_io_rel_mono: "state_io_rel R m \<Longrightarrow> (\<And>s t. R s t \<Longrightarrow> Q s t) \<Longrightarrow> state_io_rel Q m"
  by (simp add: state_io_rel_def)

section \<open>Strings\<close>

definition has_prefix :: "string \<Rightarrow> string \<Rightarrow> bool" where
  "has_prefix p s \<longleftrightarrow> take (length p) s = p"

definition has_suffix :: "string \<Rightarrow> string \<Rightarrow> bool" where
  "has_suffix p s \<longleftrightarrow> length p \<le> length s \<and> drop (length s - length p) s = p"

text \<open>\<^verbatim>\<open>strings.Contains\<close>: some suffix of the text starts with the pattern.\<close>

fun str_contains :: "string \<Rightarrow> string \<Rightarrow> bool" where
  "str_contains p [] = (p = [])"
| "str_contains p (c # s) = (has_prefix p (c # s) \<or> str_contains p s)"

definition is_space :: "char \<Rightarrow> bool" where
  "is_space c \<longleftrightarrow> c \<in> set [CHR '' '', CHR 0x09, CHR 0x0A, CHR 0x0B, CHR 0x0C, CHR 0x0D]"

text \<open>\<^verbatim>\<open>strings.Fields\<close>: the maximal runs of characters that are not white space.\<close>

fun fields_acc :: "string \<Rightarrow> string \<Rightarrow> string list" where
  "fields_acc acc [] = (if acc = [] then [] else [rev acc])"
| "fields_acc acc (c # s) =
     (if is_space c then (if acc = [] then fields_acc [] s else rev acc # fields_acc [] s)
      else fields_acc (c # acc) s)"

definition str_fields :: "string \<Rightarrow> string list" where
  "str_fields s = fields_acc [] s"

definition trim_space :: "string \<Rightarrow> string" where
  "trim_space s = rev (dropWhile is_space (rev (dropWhile is_space s)))"

definition is_digit :: "char \<Rightarrow> bool" where
  "is_digit c \<longleftrightarrow> 48 \<le> (of_char c :: nat) \<and> (of_char c :: nat) \<le> 57"

definition digit_val :: "char \<Rightarrow> int" where
  "digit_val c = of_char c - 48"

text \<open>\<^verbatim>\<open>strings.ToLower\<close> on the ASCII letters; other bytes are left alone.\<close>

definition lower_char :: "char \<Rightarrow> char" where
  "lower_char c = (if 65 \<le> (of_char c :: nat) \<and> (of_char c :: nat) \<le> 90
                   then char_of ((of_char c :: nat) + 32) else c)"

definition to_lower :: "string \<Rightarrow> string" where
  "to_lower s = map lower_char s"

fun itoa_nat :: "nat \<Rightarrow> string" where
  "itoa_nat n = (if n < 10 then [char_of (48 + n)] else itoa_nat (n div 10) @ [char_of (48 + n mod 10)])"

declare itoa_nat.simps [simp del]

definition itoa :: "int \<Rightarrow> string" where
  "itoa i = (if i < 0 then CHR ''-'' # itoa_nat (nat (- i)) else itoa_nat (nat i))"

definition digits_val :: "string \<Rightarrow> int" where
  "digits_val s = foldl (\<lambda>a c. 10 * a + digit_val c) 0 s"

text \<open>\<^verbatim>\<open>strconv.Atoi\<close> on a 64-bit platform: a sign, at least one digit, and the int64 range.\<close>

definition atoi :: "string \<Rightarrow> int option" where
  "atoi s =
     (let neg = (s \<noteq> [] \<and> hd s = CHR ''-'');
          ds = (if s \<noteq> [] \<and> (hd s = CHR ''-'' \<or> hd s = CHR ''+'') then tl s else s);
          v = (if neg then - digits_val ds else digits_val ds)
      in if ds = [] \<or> \<not> list_all is_digit ds then None
         else if v < - (2 ^ 63) \<or> 2 ^ 63 \<le> v then None else Some v)"

text \<open>\<^verbatim>\<open>%q\<close>: a double-quoted string with the quote and the backslash escaped.\<close>

definition quote_char :: "char \<Rightarrow> string" where
  "quote_char c = (if c = CHR 0x22 \<or> c = CHR 0x5C then [CHR 0x5C, c]
     else if c = CHR 0x0A then [CHR 0x5C, CHR ''n''] else if c = CHR 0x09 then [CHR 0x5C, CHR ''t'']
     else if c = CHR 0x0D then [CHR 0x5C, CHR ''r''] else [c])"

definition go_quote :: "string \<Rightarrow> string" where
  "go_quote s = [CHR 0x22] @ concat (map quote_char s) @ [CHR 0x22]"

section \<open>Time\<close>

text \<open>
  A \<^verbatim>\<open>time.Time\<close> is the number of nanoseconds since the Unix epoch; the zero time is
  1 January of year 1. A \<^verbatim>\<open>time.Duration\<close> is a number of nanoseconds.
\<close>

type_synonym time = int
type_synonym duration = int

definition zero_time :: time where
  "zero_time = - (62135596800 * 1000000000)"

definition second :: duration where "second = 1000000000"
definition minute :: duration where "minute = 60 * second"
definition hour :: duration where "hour = 60 * minute"

lemmas duration_defs = second_def minute_def hour_def

definition max_duration :: duration where "max_duration = 2 ^ 63 - 1"
definition min_duration :: duration where "min_duration = - (2 ^ 63)"

text \<open>\<^verbatim>\<open>Time.Sub\<close> saturates.\<close>

definition time_sub :: "time \<Rightarrow> time \<Rightarrow> duration" where
  "time_sub t u = max min_duration (min max_duration (t - u))"

text \<open>The value of an int64 expression: reduced into the signed 64-bit range.\<close>

definition wrap64 :: "int \<Rightarrow> int" where
  "wrap64 i = (i + 2 ^ 63) mod 2 ^ 64 - 2 ^ 63"

lemma wrap64_id: "- (2 ^ 63) \<le> i \<Longrightarrow> i < 2 ^ 63 \<Longrightarrow> wrap64 i = i"
  by (simp add: wrap64_def)

definition millisecond :: duration where "millisecond = 1000000"

subsection \<open>ParseDuration\<close>

text \<open>
  \<^verbatim>\<open>time.ParseDuration\<close>. The library multiplies the fraction in floating point; the model takes
  the exact quotient, rounded down.
\<close>

definition duration_unit :: "string \<Rightarrow> int option" where
  "duration_unit u = map_of
     [(''ns'', 1), (''us'', 1000), ([CHR 0xC2, CHR 0xB5, CHR ''s''], 1000),
      ([CHR 0xCE, CHR 0xBC, CHR ''s''], 1000), (''ms'', 1000000), (''s'', 1000000000),
      (''m'', 60000000000), (''h'', 3600000000000)] u"

fun leading_int :: "int \<Rightarrow> string \<Rightarrow> (int \<times> string) option" where
  "leading_int x [] = Some (x, [])"
| "leading_int x (c # s) =
     (if \<not> is_digit c then Some (x, c # s)
      else if x > 2 ^ 63 div 10 then None
      else if 10 * x + digit_val c > 2 ^ 63 then None
      else leading_int (10 * x + digit_val c) s)"

fun leading_fraction :: "int \<Rightarrow> int \<Rightarrow> bool \<Rightarrow> string \<Rightarrow> int \<times> int \<times> string" where
  "leading_fraction x scale over [] = (x, scale, [])"
| "leading_fraction x scale over (c # s) =
     (if \<not> is_digit c then (x, scale, c # s)
      else if over then leading_fraction x scale True s
      else if x > (2 ^ 63 - 1) div 10 then leading_fraction x scale True s
      else if 10 * x + digit_val c > 2 ^ 63 then leading_fraction x scale True s
      else leading_fraction (10 * x + digit_val c) (10 * scale) False s)"

definition is_num_char :: "char \<Rightarrow> bool" where
  "is_num_char c \<longleftrightarrow> c = CHR ''.'' \<or> is_digit c"

text \<open>One round of the parser: a number with its unit. The result is its value and the rest.\<close>

definition duration_item :: "string \<Rightarrow> (int \<times> string) option" where
  "duration_item s =
    (if s = [] \<or> \<not> is_num_char (hd s) then None
     else case leading_int 0 s of
       None \<Rightarrow> None
     | Some (v, s1) \<Rightarrow>
        (let pre = (length s1 \<noteq> length s);
             dot = (s1 \<noteq> [] \<and> hd s1 = CHR ''.'');
             (f, scale, s2) = (if dot then leading_fraction 0 1 False (tl s1) else (0, 1, s1));
             post = (dot \<and> length s2 \<noteq> length (tl s1));
             u = takeWhile (\<lambda>c. \<not> is_num_char c) s2;
             s3 = dropWhile (\<lambda>c. \<not> is_num_char c) s2
         in if \<not> pre \<and> \<not> post then None
            else if u = [] then None
            else case duration_unit u of
              None \<Rightarrow> None
            | Some unit \<Rightarrow>
                if v > 2 ^ 63 div unit then None
                else (let v' = v * unit + (if f > 0 then (f * unit) div scale else 0)
                      in if v' > 2 ^ 63 then None else Some (v', s3))))"

lemma leading_int_length: "leading_int x s = Some (v, s') \<Longrightarrow> length s' \<le> length s"
  by (induction x s rule: leading_int.induct) (auto split: if_splits)

lemma leading_fraction_length: "leading_fraction x sc ov s = (f, sc', s') \<Longrightarrow> length s' \<le> length s"
  by (induction x sc ov s rule: leading_fraction.induct) (auto split: if_splits)

lemma duration_item_length: "duration_item s = Some (v, s') \<Longrightarrow> length s' < length s"
proof -
  assume item: "duration_item s = Some (v, s')"
  have unit_shorter: "length (dropWhile (\<lambda>c. \<not> is_num_char c) t) < length t"
    if "takeWhile (\<lambda>c. \<not> is_num_char c) t \<noteq> []" for t
    using that by (cases t) (auto simp: length_dropWhile_le less_Suc_eq_le)
  have tail: "length (tl t) \<le> length t" for t :: string by simp
  from item show ?thesis
    by (auto simp: duration_item_def Let_def split: if_splits option.splits prod.splits
        dest!: leading_int_length leading_fraction_length unit_shorter)
qed

function parse_duration_loop :: "int \<Rightarrow> string \<Rightarrow> int option" where
  "parse_duration_loop d s =
     (if s = [] then Some d
      else case duration_item s of
        None \<Rightarrow> None
      | Some (v, s') \<Rightarrow>
          (let d' = (d + v) mod 2 ^ 64 in if d' > 2 ^ 63 then None else parse_duration_loop d' s'))"
  by pat_completeness auto
termination
  by (relation "measure (\<lambda>(d, s). length s)") (auto dest: duration_item_length)

declare parse_duration_loop.simps [simp del]

definition parse_duration :: "string \<Rightarrow> duration option" where
  "parse_duration s0 =
     (let neg = (s0 \<noteq> [] \<and> hd s0 = CHR ''-'');
          s = (if s0 \<noteq> [] \<and> (hd s0 = CHR ''-'' \<or> hd s0 = CHR ''+'') then tl s0 else s0)
      in if s = ''0'' then Some 0
         else if s = [] then None
         else case parse_duration_loop 0 s of
           None \<Rightarrow> None
         | Some d \<Rightarrow> if neg then Some (- d)
                     else if d > 2 ^ 63 - 1 then None else Some d)"

end
