(* ===== verification/Json.thy ===== *)
theory Json
  imports Prelude
begin

text \<open>
  JSON values and the part of \<^verbatim>\<open>encoding/json\<close> the source relies on. A \<^verbatim>\<open>json.RawMessage\<close>, or a
  \<^verbatim>\<open>jsonb\<close> column, is a \<open>raw\<close>: \<open>None\<close> for an empty (or nil) message, \<open>Some j\<close> for the message
  whose value is \<open>j\<close>. Raw messages the program handles come out of a JSON document or out of a
  \<^verbatim>\<open>jsonb\<close> column, so a non-empty one is always well formed; where bytes of unknown origin are
  parsed, malformed bytes are \<open>None\<close> too, as both are refused.

  A number written without fraction and exponent is \<open>JInt\<close>, any other one \<open>JDec\<close>: Go decodes the
  first kind into integer fields and refuses the second. An object is the list of its members in
  order, duplicates included.
\<close>

datatype json =
    JNull
  | JBool bool
  | JInt int
  | JDec rat
  | JStr string
  | JArr "json list"
  | JObj "(string \<times> json) list"

type_synonym raw = "json option"

section \<open>Decoding into Go values\<close>

text \<open>
  Decoding a value into a variable that already holds \<open>old\<close>; \<open>None\<close> is an
  \<^verbatim>\<open>UnmarshalTypeError\<close>. The literal null leaves a string, number or boolean as it is.
\<close>

fun dec_str :: "json \<Rightarrow> string \<Rightarrow> string option" where
  "dec_str (JStr s) old = Some s"
| "dec_str JNull old = Some old"
| "dec_str j old = None"

fun dec_bool :: "json \<Rightarrow> bool \<Rightarrow> bool option" where
  "dec_bool (JBool b) old = Some b"
| "dec_bool JNull old = Some old"
| "dec_bool j old = None"

fun dec_int :: "json \<Rightarrow> int \<Rightarrow> int option" where
  "dec_int (JInt i) old = (if - (2 ^ 63) \<le> i \<and> i < 2 ^ 63 then Some i else None)"
| "dec_int JNull old = Some old"
| "dec_int j old = None"

fun dec_raw :: "json \<Rightarrow> raw \<Rightarrow> raw option" where
  "dec_raw j old = Some (Some j)"

text \<open>A map with values of any type: an object, or null, which makes the map nil.\<close>

fun dec_map :: "json \<Rightarrow> (string \<times> json) list option \<Rightarrow> (string \<times> json) list option option" where
  "dec_map (JObj kvs) old = Some (Some (case old of None \<Rightarrow> kvs | Some o0 \<Rightarrow> o0 @ kvs))"
| "dec_map JNull old = Some None"
| "dec_map j old = None"

fun dec_list :: "(json \<Rightarrow> 'a option) \<Rightarrow> json \<Rightarrow> 'a list \<Rightarrow> 'a list option" where
  "dec_list f (JArr js) old = those (map f js)"
| "dec_list f JNull old = Some []"
| "dec_list f j old = None"

text \<open>
  One field of a struct: every member whose key is the field's name (letter case aside, as
  \<^verbatim>\<open>encoding/json\<close> matches keys) is decoded into it, in order, and one member of the wrong type
  makes the whole decoding fail.
\<close>

fun dec_field :: "(json \<Rightarrow> 'a \<Rightarrow> 'a option) \<Rightarrow> string \<Rightarrow> (string \<times> json) list \<Rightarrow> 'a \<Rightarrow> 'a option" where
  "dec_field f name [] old = Some old"
| "dec_field f name ((k, j) # kvs) old =
     (if to_lower k = name then
        (case f j old of None \<Rightarrow> None | Some v \<Rightarrow> dec_field f name kvs v)
      else dec_field f name kvs old)"

text \<open>The members a struct is decoded from: null decodes into a struct without changing it.\<close>

fun obj_members :: "json \<Rightarrow> (string \<times> json) list option" where
  "obj_members (JObj kvs) = Some kvs"
| "obj_members JNull = Some []"
| "obj_members j = None"

abbreviation str_field :: "string \<Rightarrow> (string \<times> json) list \<Rightarrow> string option" where
  "str_field name kvs \<equiv> dec_field dec_str name kvs []"

abbreviation int_field :: "string \<Rightarrow> (string \<times> json) list \<Rightarrow> int option" where
  "int_field name kvs \<equiv> dec_field dec_int name kvs 0"

abbreviation bool_field :: "string \<Rightarrow> (string \<times> json) list \<Rightarrow> bool option" where
  "bool_field name kvs \<equiv> dec_field dec_bool name kvs False"

abbreviation raw_field :: "string \<Rightarrow> (string \<times> json) list \<Rightarrow> raw option" where
  "raw_field name kvs \<equiv> dec_field dec_raw name kvs None"

abbreviation list_field :: "(json \<Rightarrow> 'a option) \<Rightarrow> string \<Rightarrow> (string \<times> json) list \<Rightarrow> 'a list option" where
  "list_field f name kvs \<equiv> dec_field (dec_list f) name kvs []"

abbreviation strs_field :: "string \<Rightarrow> (string \<times> json) list \<Rightarrow> string list option" where
  "strs_field name kvs \<equiv> list_field (\<lambda>j. dec_str j []) name kvs"

section \<open>Maps with values of any type\<close>

text \<open>
  Unmarshalling into a \<^verbatim>\<open>map[string]any\<close> keeps the last member of each key; \<open>obj_get\<close> reads it.
\<close>

definition obj_get :: "(string \<times> json) list \<Rightarrow> string \<Rightarrow> json option" where
  "obj_get kvs k = map_of (rev kvs) k"

definition obj_put :: "string \<Rightarrow> json \<Rightarrow> (string \<times> json) list \<Rightarrow> (string \<times> json) list" where
  "obj_put k v kvs = filter (\<lambda>(k', _). k' \<noteq> k) kvs @ [(k, v)]"

lemma obj_get_put: "obj_get (obj_put k v kvs) k' = (if k' = k then Some v else obj_get kvs k')"
proof -
  have "map_of (filter (\<lambda>(a, _). a \<noteq> k) xs) k' = map_of xs k'" if "k' \<noteq> k" for xs :: "(string \<times> json) list"
    using that by (induction xs) auto
  then show ?thesis by (auto simp: obj_get_def obj_put_def rev_filter)
qed

text \<open>The concatenation of two \<^verbatim>\<open>jsonb\<close> objects: members of the right one win.\<close>

fun jsonb_concat :: "(string \<times> json) list \<Rightarrow> (string \<times> json) list \<Rightarrow> (string \<times> json) list" where
  "jsonb_concat xs [] = xs"
| "jsonb_concat xs ((k, v) # ys) = jsonb_concat (obj_put k v xs) ys"

lemma obj_get_Cons: "obj_get ((k, v) # kvs) k' = (case obj_get kvs k' of None \<Rightarrow> if k' = k then Some v else None | Some w \<Rightarrow> Some w)"
  by (auto simp: obj_get_def map_add_def split: option.splits)

lemma obj_get_jsonb_concat:
  "obj_get (jsonb_concat xs ys) k = (case obj_get ys k of Some v \<Rightarrow> Some v | None \<Rightarrow> obj_get xs k)"
proof (induction xs ys rule: jsonb_concat.induct)
  case (1 xs)
  then show ?case by (simp add: obj_get_def)
next
  case (2 xs j v ys)
  then show ?case by (auto simp: obj_get_put obj_get_Cons split: option.splits)
qed

text \<open>A string attribute: \<^verbatim>\<open>attrs[k].(string)\<close>.\<close>

definition obj_str :: "(string \<times> json) list \<Rightarrow> string \<Rightarrow> string option" where
  "obj_str kvs k = (case obj_get kvs k of Some (JStr s) \<Rightarrow> Some s | _ \<Rightarrow> None)"

section \<open>Comparing decoded values\<close>

text \<open>
  \<^verbatim>\<open>reflect.DeepEqual\<close> of two values unmarshalled into \<^verbatim>\<open>any\<close>: numbers by value, objects as maps.
  The canonical form drops overridden members and sorts the rest by key.
\<close>

definition last_members :: "(string \<times> json) list \<Rightarrow> (string \<times> json) list" where
  "last_members kvs = map (\<lambda>k. (k, the (obj_get kvs k))) (sort (remdups (map fst kvs)))"

fun json_canon :: "json \<Rightarrow> json" where
  "json_canon JNull = JNull"
| "json_canon (JBool b) = JBool b"
| "json_canon (JInt i) = JDec (of_int i)"
| "json_canon (JDec r) = JDec r"
| "json_canon (JStr s) = JStr s"
| "json_canon (JArr js) = JArr (map json_canon js)"
| "json_canon (JObj kvs) = JObj (last_members (map (\<lambda>(k, j). (k, json_canon j)) kvs))"

definition json_deep_equal :: "raw \<Rightarrow> raw \<Rightarrow> bool" where
  "json_deep_equal a b \<longleftrightarrow> map_option json_canon a = map_option json_canon b"

lemma json_deep_equal_refl [simp]: "json_deep_equal a a"
  by (simp add: json_deep_equal_def)

text \<open>The empty object, the text \<^verbatim>\<open>{}\<close>.\<close>

abbreviation empty_obj :: raw where
  "empty_obj \<equiv> Some (JObj [])"

text \<open>\<^verbatim>\<open>if len(x) == 0 { x = "{}" }\<close>\<close>

definition or_empty_obj :: "raw \<Rightarrow> raw" where
  "or_empty_obj r = (case r of None \<Rightarrow> empty_obj | Some j \<Rightarrow> Some j)"

section \<open>Encoding\<close>

text \<open>
  \<^verbatim>\<open>json.Marshal\<close> of a value: no white space, the members of a map sorted by key, strings with the
  characters escaped that the package escapes. The values the source marshals to text hold no fractions;
  a fraction is given as the quotient it is.
\<close>

definition hex_nibble :: "nat \<Rightarrow> char" where
  "hex_nibble n = (if n < 10 then char_of (48 + n) else char_of (87 + n))"

definition escape_char :: "char \<Rightarrow> string" where
  "escape_char c =
    (let n = (of_char c :: nat) in
     if c = CHR 0x22 \<or> c = CHR 0x5C then [CHR 0x5C, c]
     else if n = 8 then [CHR 0x5C, CHR ''b''] else if n = 12 then [CHR 0x5C, CHR ''f'']
     else if n = 10 then [CHR 0x5C, CHR ''n''] else if n = 13 then [CHR 0x5C, CHR ''r'']
     else if n = 9 then [CHR 0x5C, CHR ''t'']
     else if n < 32 \<or> c = CHR ''<'' \<or> c = CHR ''>'' \<or> c = CHR ''&''
     then [CHR 0x5C, CHR ''u'', CHR ''0'', CHR ''0'', hex_nibble (n div 16), hex_nibble (n mod 16)]
     else [c])"

definition json_string :: "string \<Rightarrow> string" where
  "json_string s = [CHR 0x22] @ concat (map escape_char s) @ [CHR 0x22]"

fun comma_list :: "string list \<Rightarrow> string" where
  "comma_list [] = []"
| "comma_list [s] = s"
| "comma_list (s # t # ss) = s @ '','' @ comma_list (t # ss)"

fun marshal_json :: "json \<Rightarrow> string" where
  "marshal_json JNull = ''null''"
| "marshal_json (JBool b) = (if b then ''true'' else ''false'')"
| "marshal_json (JInt i) = itoa i"
| "marshal_json (JDec r) = (case quotient_of r of (a, b) \<Rightarrow> itoa a @ ''/'' @ itoa b)"
| "marshal_json (JStr s) = json_string s"
| "marshal_json (JArr js) = ''['' @ comma_list (map marshal_json js) @ '']''"
| "marshal_json (JObj kvs) = ''{'' @ comma_list (map snd (sort_key fst
     (map (\<lambda>(k, j). (k, json_string k @ '':'' @ marshal_json j)) kvs))) @ ''}''"

end
