(* ===== verification/Domain.thy ===== *)
theory Domain
  imports Json
begin

text \<open>
  \<^verbatim>\<open>internal/domain/domain.go\<close>: the entities the engine works on, one record per struct. A field
  carries the prefix of its record, as record fields share one name space. Optional (pointer)
  fields are options, raw JSON is \<open>raw\<close>, Go's \<^verbatim>\<open>int\<close> is \<open>int\<close>; status and kind fields stay
  strings, as they are in the code and in the database.
\<close>

section \<open>Callers and events\<close>

record principal =
  p_TenantID :: string
  p_WorkspaceID :: string
  p_AppID :: string
  p_KeyID :: string
  p_UserID :: string
  p_ActorType :: string
  p_Scopes :: "string list"

fun HasScope_loop :: "string list \<Rightarrow> string \<Rightarrow> bool" where
  "HasScope_loop [] required = False"
| "HasScope_loop (scope # scopes) required =
     (if scope = required \<or> scope = ''*'' then True else HasScope_loop scopes required)"

definition HasScope :: "principal \<Rightarrow> string \<Rightarrow> bool" where
  "HasScope p required = HasScope_loop (p_Scopes p) required"

text \<open>A principal with only the tenant and the workspace set, as the workers build it.\<close>

definition tenant_principal :: "string \<Rightarrow> string \<Rightarrow> principal" where
  "tenant_principal tenant workspace =
     \<lparr>p_TenantID = tenant, p_WorkspaceID = workspace, p_AppID = [], p_KeyID = [], p_UserID = [],
      p_ActorType = [], p_Scopes = []\<rparr>"

record event =
  ev_Type :: string
  ev_SchemaVersion :: int
  ev_ExternalID :: string
  ev_AnonymousID :: string
  ev_IdempotencyKey :: string
  ev_OccurredAt :: time
  ev_Source :: string
  ev_SourceEventID :: string
  ev_CorrelationID :: string
  ev_CausationID :: string
  ev_Traceparent :: string
  ev_DataClassification :: string
  ev_ConsentContext :: raw
  ev_Payload :: raw

text \<open>An event with the fields a Go composite literal leaves out at their zero values.\<close>

definition mk_event :: "string \<Rightarrow> string \<Rightarrow> string \<Rightarrow> string \<Rightarrow> time \<Rightarrow> raw \<Rightarrow> event" where
  "mk_event ty ext anon key occurred payload =
     \<lparr>ev_Type = ty, ev_SchemaVersion = 1, ev_ExternalID = ext, ev_AnonymousID = anon,
      ev_IdempotencyKey = key, ev_OccurredAt = occurred, ev_Source = [], ev_SourceEventID = [],
      ev_CorrelationID = [], ev_CausationID = [], ev_Traceparent = [], ev_DataClassification = [],
      ev_ConsentContext = None, ev_Payload = payload\<rparr>"

record accepted_event =
  ae_ID :: string
  ae_Principal :: principal
  ae_Type :: string
  ae_SchemaVersion :: int
  ae_ExternalID :: string
  ae_AnonymousID :: string
  ae_IdempotencyKey :: string
  ae_OccurredAt :: time
  ae_ReceivedAt :: time
  ae_Source :: string
  ae_SourceEventID :: string
  ae_CorrelationID :: string
  ae_CausationID :: string
  ae_Traceparent :: string
  ae_DataClassification :: string
  ae_ConsentContext :: raw
  ae_Payload :: raw

section \<open>Profiles, consent and delivery policy\<close>

record profile =
  pf_ID :: string
  pf_ExternalID :: string
  pf_AnonymousID :: string
  pf_Attributes :: raw
  pf_Version :: int
  pf_UpdatedAt :: time

record consent =
  co_ProfileID :: string
  co_Channel :: string
  co_Topic :: string
  co_State :: string
  co_OccurredAt :: time

record device_token =
  dt_ID :: string
  dt_TenantID :: string
  dt_WorkspaceID :: string
  dt_AppID :: string
  dt_ProfileID :: string
  dt_Platform :: string
  dt_Provider :: string
  dt_Token :: string
  dt_Status :: string
  dt_LastSeenAt :: time
  dt_CreatedAt :: time
  dt_UpdatedAt :: time

record suppression =
  su_ID :: string
  su_TenantID :: string
  su_Channel :: string
  su_Endpoint :: string
  su_Reason :: string
  su_SourceEventID :: "string option"
  su_CreatedAt :: time

record segment =
  sg_ID :: string
  sg_TenantID :: string
  sg_WorkspaceID :: string
  sg_Name :: string
  sg_Description :: string
  sg_Type :: string
  sg_Status :: string
  sg_DSL :: raw
  sg_Version :: int
  sg_CreatedAt :: time
  sg_UpdatedAt :: time

record segment_member =
  sm_SegmentID :: string
  sm_ProfileID :: string
  sm_TenantID :: string
  sm_Membership :: string
  sm_CreatedAt :: time

record stage_rule =
  sr_ID :: string
  sr_TenantID :: string
  sr_WorkspaceID :: string
  sr_Stage :: string
  sr_SegmentID :: string
  sr_Priority :: int
  sr_Enabled :: bool
  sr_CreatedAt :: time

record sending_identity =
  si_ID :: string
  si_TenantID :: string
  si_WorkspaceID :: string
  si_Channel :: string
  si_FromAddress :: "string option"
  si_FromName :: "string option"
  si_ReplyTo :: "string option"
  si_Provider :: string
  si_Config :: raw
  si_MaxSendRate :: int
  si_Verified :: bool
  si_CreatedAt :: time

text \<open>\<^verbatim>\<open>ports.RenderedMessage\<close>\<close>

record rendered_message =
  rm_Channel :: string
  rm_Endpoint :: string
  rm_Subject :: string
  rm_HTML :: string
  rm_Text :: string
  rm_Body :: string
  rm_Title :: string
  rm_Data :: "(string \<times> string) list"
  rm_Identity :: sending_identity
  rm_IdempotencyKey :: string

record template =
  te_ID :: string
  te_TenantID :: string
  te_WorkspaceID :: string
  te_Name :: string
  te_Channel :: string
  te_SubjectTemplate :: "string option"
  te_HTMLTemplate :: "string option"
  te_TextTemplate :: "string option"
  te_BodyTemplate :: "string option"
  te_TitleTemplate :: "string option"
  te_PushData :: "(string \<times> string) list"
  te_SendingIdentityID :: "string option"
  te_Version :: int
  te_CreatedAt :: time
  te_UpdatedAt :: time

record delivery_attempt =
  da_ID :: string
  da_CampaignID :: string
  da_TenantID :: string
  da_ExperimentID :: "string option"
  da_Variant :: string
  da_ProfileID :: string
  da_Channel :: string
  da_Endpoint :: string
  da_Decision :: string
  da_Reason :: string
  da_ProviderMessageID :: string
  da_PolicySnapshot :: raw
  da_AttemptedAt :: time
  da_CreatedAt :: time
  da_CostMicros :: int

text \<open>The last field is the column \<^verbatim>\<open>cost_micros\<close> of the table, which the struct does not carry.\<close>

record campaign_recipient =
  cq_ProfileID :: string
  cq_Endpoint :: string

record campaign =
  ca_ID :: string
  ca_TenantID :: string
  ca_WorkspaceID :: string
  ca_Name :: string
  ca_Description :: "string option"
  ca_SegmentID :: string
  ca_TemplateID :: string
  ca_ExperimentID :: "string option"
  ca_ConversionGoal :: raw
  ca_AttributionWindow :: "string option"
  ca_Status :: string
  ca_ScheduledAt :: "time option"
  ca_ManifestKey :: "string option"
  ca_SegmentVersion :: int
  ca_TemplateVersion :: int
  ca_EvaluatedAt :: "time option"
  ca_RecipientCount :: int
  ca_CreatedAt :: time
  ca_UpdatedAt :: time

record delivery_job =
  dj_ID :: string
  dj_CampaignID :: string
  dj_TenantID :: string
  dj_Shard :: int
  dj_Status :: string
  dj_Recipients :: "campaign_recipient list"
  dj_Attempts :: int
  dj_AvailableAt :: time
  dj_LockedUntil :: "time option"
  dj_ErrorMessage :: "string option"
  dj_CreatedAt :: time
  dj_UpdatedAt :: time

section \<open>Experiments and feature flags\<close>

record experiment_rec =
  ex_ID :: string
  ex_TenantID :: string
  ex_WorkspaceID :: string
  ex_Name :: string
  ex_Description :: "string option"
  ex_SubjectType :: string
  ex_Status :: string
  ex_Method :: string
  ex_Seed :: string
  ex_HoldoutPct :: int
  ex_PrimaryGoal :: raw
  ex_GuardrailGoals :: raw
  ex_WinnerVariant :: "string option"
  ex_CreatedAt :: time
  ex_UpdatedAt :: time

record experiment_variant =
  xv_ID :: string
  xv_ExperimentID :: string
  xv_TenantID :: string
  xv_Label :: string
  xv_Weight :: int
  xv_IsControl :: bool
  xv_TemplateID :: "string option"
  xv_CreatedAt :: time

record experiment_assignment =
  xa_ExperimentID :: string
  xa_TenantID :: string
  xa_WorkspaceID :: string
  xa_ProfileID :: string
  xa_Variant :: string
  xa_AssignedAt :: time

record flag_variant =
  fv_Label :: string
  fv_Value :: raw
  fv_Weight :: int

record flag_targeting_rule =
  fr_DSL :: raw
  fr_Variant :: string

record feature_flag =
  ff_ID :: string
  ff_TenantID :: string
  ff_WorkspaceID :: string
  ff_AppID :: string
  ff_Environment :: string
  ff_Key :: string
  ff_Name :: "string option"
  ff_Description :: "string option"
  ff_FlagType :: string
  ff_DefaultValue :: raw
  ff_Variants :: "flag_variant list"
  ff_TargetingRules :: "flag_targeting_rule list"
  ff_RolloutPct :: int
  ff_Seed :: string
  ff_Enabled :: bool
  ff_Status :: string
  ff_CurrentVersionID :: "string option"
  ff_CreatedAt :: time
  ff_UpdatedAt :: time

section \<open>Journeys\<close>

record journey =
  jo_ID :: string
  jo_TenantID :: string
  jo_WorkspaceID :: string
  jo_Name :: string
  jo_Description :: "string option"
  jo_Status :: string
  jo_Graph :: raw
  jo_LatestVersion :: int
  jo_CurrentVersionID :: "string option"
  jo_CreatedAt :: time
  jo_UpdatedAt :: time

record journey_version =
  jv_ID :: string
  jv_JourneyID :: string
  jv_TenantID :: string
  jv_WorkspaceID :: string
  jv_Version :: int
  jv_Graph :: raw
  jv_ManifestKey :: "string option"
  jv_EntryKind :: string
  jv_EntryEventType :: "string option"
  jv_EntrySegmentID :: "string option"
  jv_EntrySchedule :: "string option"
  jv_ReentryPolicy :: string
  jv_MaxReentries :: int
  jv_LatePolicy :: string
  jv_ConversionGoal :: raw
  jv_AttributionWindow :: "string option"
  jv_Status :: string
  jv_PublishedBy :: "string option"
  jv_PublishedAt :: time

record journey_run =
  jr_ID :: string
  jr_TenantID :: string
  jr_WorkspaceID :: string
  jr_JourneyID :: string
  jr_JourneyVersionID :: string
  jr_ProfileID :: string
  jr_SubjectExternalID :: "string option"
  jr_EntryKey :: string
  jr_ReentrySequence :: int
  jr_Status :: string
  jr_CurrentNodeID :: string
  jr_State :: raw
  jr_WaitEventType :: "string option"
  jr_WaitUntil :: "time option"
  jr_GoalReached :: bool
  jr_EnteredAt :: time
  jr_UpdatedAt :: time
  jr_CompletedAt :: "time option"

record journey_step =
  js_ID :: string
  js_RunID :: string
  js_TenantID :: string
  js_NodeID :: string
  js_Kind :: string
  js_Status :: string
  js_Attempts :: int
  js_AvailableAt :: time
  js_LockedUntil :: "time option"
  js_ErrorMessage :: "string option"
  js_CreatedAt :: time
  js_UpdatedAt :: time

record journey_transition =
  jt_ID :: string
  jt_RunID :: string
  jt_TenantID :: string
  jt_FromNode :: "string option"
  jt_ToNode :: "string option"
  jt_NodeType :: string
  jt_Outcome :: string
  jt_Detail :: raw
  jt_OccurredAt :: time

record message_intent =
  mi_ID :: string
  mi_RunID :: string
  mi_TenantID :: string
  mi_WorkspaceID :: string
  mi_JourneyID :: string
  mi_JourneyVersionID :: string
  mi_NodeID :: string
  mi_ProfileID :: string
  mi_ExperimentID :: "string option"
  mi_Variant :: string
  mi_TemplateID :: string
  mi_Channel :: string
  mi_Endpoint :: string
  mi_Transactional :: bool
  mi_Status :: string
  mi_Attempts :: int
  mi_AvailableAt :: time
  mi_LockedUntil :: "time option"
  mi_Decision :: "string option"
  mi_Reason :: "string option"
  mi_ProviderMessageID :: "string option"
  mi_PolicySnapshot :: raw
  mi_ErrorMessage :: "string option"
  mi_CostMicros :: int
  mi_CreatedAt :: time
  mi_UpdatedAt :: time

text \<open>
  \<^verbatim>\<open>domain.JourneyStep{RunID, TenantID, NodeID, Kind, Status: "pending", AvailableAt}\<close>, the
  literal every node of the engine builds its next step with.
\<close>

definition mk_step :: "string \<Rightarrow> string \<Rightarrow> string \<Rightarrow> string \<Rightarrow> time \<Rightarrow> journey_step" where
  "mk_step run tenant nodeID kind available =
     \<lparr>js_ID = [], js_RunID = run, js_TenantID = tenant, js_NodeID = nodeID, js_Kind = kind,
      js_Status = ''pending'', js_Attempts = 0, js_AvailableAt = available, js_LockedUntil = None,
      js_ErrorMessage = None, js_CreatedAt = zero_time, js_UpdatedAt = zero_time\<rparr>"

definition mk_transition ::
  "string \<Rightarrow> string \<Rightarrow> string option \<Rightarrow> string option \<Rightarrow> string \<Rightarrow> string \<Rightarrow> raw \<Rightarrow> journey_transition" where
  "mk_transition run tenant from_node to_node node_type outcome detail =
     \<lparr>jt_ID = [], jt_RunID = run, jt_TenantID = tenant, jt_FromNode = from_node,
      jt_ToNode = to_node, jt_NodeType = node_type, jt_Outcome = outcome, jt_Detail = detail,
      jt_OccurredAt = zero_time\<rparr>"

end
