(* ===== verification/Directory.thy ===== *)
theory Directory
  imports Domain
begin

text \<open>
  The tables of the directory: users, roles and the bindings between them, teams
  with their members and roles, API keys, sessions of local users, and the catalog of permissions. The structs of
  \<^verbatim>\<open>internal/domain/domain.go\<close> that the operations on them exchange follow the rows.

  A column that holds a digest holds its hexadecimal text. A table is a list of rows in the order of their insertion,
  which is the order of \<^verbatim>\<open>created_at\<close>.
\<close>

section \<open>Rows\<close>

record user_row =
  us_ID :: string
  us_TenantID :: string
  us_OIDCIssuer :: string
  us_OIDCSubject :: string
  us_Email :: "string option"
  us_DisplayName :: "string option"
  us_PasswordHash :: "string option"
  us_DisabledAt :: "time option"
  us_CreatedAt :: time
  us_UpdatedAt :: time

record role_row =
  rl_ID :: string
  rl_TenantID :: string
  rl_Name :: string
  rl_Permissions :: "string list"
  rl_System :: bool
  rl_CreatedAt :: time

text \<open>A binding without a workspace holds in every workspace of the tenant.\<close>

record binding_row =
  rb_ID :: string
  rb_TenantID :: string
  rb_WorkspaceID :: "string option"
  rb_UserID :: string
  rb_RoleID :: string

record team_row =
  tm_ID :: string
  tm_TenantID :: string
  tm_WorkspaceID :: string
  tm_Name :: string
  tm_Description :: string
  tm_CreatedAt :: time
  tm_UpdatedAt :: time

record api_key_row =
  ak_ID :: string
  ak_TenantID :: string
  ak_WorkspaceID :: string
  ak_AppID :: string
  ak_Name :: string
  ak_KeyHash :: string
  ak_Scopes :: "string list"
  ak_ExpiresAt :: "time option"
  ak_RevokedAt :: "time option"
  ak_LastUsedAt :: "time option"
  ak_CreatedAt :: time

record session_row =
  ss_ID :: string
  ss_TenantID :: string
  ss_WorkspaceID :: string
  ss_AppID :: string
  ss_UserID :: string
  ss_TokenHash :: string
  ss_ExpiresAt :: time
  ss_RevokedAt :: "time option"
  ss_LastUsedAt :: "time option"
  ss_CreatedAt :: time

text \<open>A member of a team and a role of a team are pairs, the primary keys of their tables.\<close>

record directory =
  dir_permissions :: "string list"
  dir_users :: "user_row list"
  dir_roles :: "role_row list"
  dir_bindings :: "binding_row list"
  dir_teams :: "team_row list"
  dir_members :: "(string \<times> string) list"
  dir_team_roles :: "(string \<times> string) list"
  dir_keys :: "api_key_row list"
  dir_sessions :: "session_row list"

definition empty_directory :: directory where
  "empty_directory = \<lparr>dir_permissions = [], dir_users = [], dir_roles = [], dir_bindings = [],
     dir_teams = [], dir_members = [], dir_team_roles = [], dir_keys = [], dir_sessions = []\<rparr>"

section \<open>Structs\<close>

record api_key =
  ky_ID :: string
  ky_Name :: string
  ky_Scopes :: "string list"
  ky_ExpiresAt :: "time option"
  ky_RevokedAt :: "time option"
  ky_LastUsedAt :: "time option"
  ky_CreatedAt :: time

record oidc_claims =
  oc_Issuer :: string
  oc_Subject :: string
  oc_Email :: string
  oc_Name :: string
  oc_TenantID :: string
  oc_WorkspaceID :: string
  oc_AppID :: string

record role =
  ro_ID :: string
  ro_Name :: string
  ro_Permissions :: "string list"
  ro_System :: bool
  ro_CreatedAt :: time

record team =
  ta_ID :: string
  ta_TenantID :: string
  ta_WorkspaceID :: string
  ta_Name :: string
  ta_Description :: string
  ta_MemberIDs :: "string list"
  ta_RoleIDs :: "string list"
  ta_CreatedAt :: time
  ta_UpdatedAt :: time

record user =
  ur_ID :: string
  ur_OIDCIssuer :: string
  ur_OIDCSubject :: string
  ur_Email :: string
  ur_DisplayName :: string
  ur_Password :: string
  ur_Local :: bool
  ur_RoleIDs :: "string list"
  ur_CreatedAt :: time
  ur_DisabledAt :: "time option"

record auth_session =
  at_AccessToken :: string
  at_TokenType :: string
  at_ExpiresAt :: time

end
