(* ===== verification/World.thy ===== *)
theory World
  imports Directory
begin

text \<open>
  The state the engine runs on: the PostgreSQL tables the modelled operations read and write, the
  queue of accepted events, and the outside world as far as the source relies on it.

  A table is a list of rows in insertion order. The fields \<open>w_fault\<close>, \<open>w_uuid\<close>, \<open>w_sql\<close>, \<open>w_ch\<close>,
  \<open>w_order\<close>, \<open>w_is_uuid\<close>, \<open>w_jsonb_text\<close>, \<open>w_before\<close>, \<open>w_blobs\<close> stand for code that is not part of the repository and are never changed by an operation:
  \<open>w_fault n\<close> tells whether the \<open>n\<close>-th call to the database fails (lost connection, timeout,
  serialisation failure), \<open>w_uuid n\<close> is the \<open>n\<close>-th identifier \<^verbatim>\<open>gen_random_uuid()\<close> hands out,
  \<open>w_is_uuid\<close> tells whether a text is accepted as a UUID, \<open>w_jsonb_text\<close> is the text PostgreSQL prints for
  a \<^verbatim>\<open>jsonb\<close> value, \<open>w_before t i\<close> is the instant \<open>t\<close> minus the interval with the text \<open>i\<close>,
  \<open>w_blobs\<close> tells whether the process has a blob store, \<open>w_sql\<close> and \<open>w_ch\<close> give the first column of the rows an audience query selects in PostgreSQL and
  in ClickHouse (\<open>None\<close> when the store has no ClickHouse connection), \<open>w_order\<close> is the order in
  which a Go map with the given keys is iterated. The field \<open>w_calls\<close> records the messages handed
  to channel adapters and \<open>w_published\<close> the outbox rows taken by the event publisher, in order; they are what the
  outside world has seen. Every call to the database
  advances \<open>w_tick\<close>, so any pattern of failures is possible. A failed statement or transaction
  leaves the tables as they were. The objects of the blob store are \<open>w_snapshots\<close> and \<open>w_manifests\<close>, by key;
  an object is the struct that was marshalled, as unmarshalling gives it back. The keys of the other objects in the
  store (archived events and privacy exports) are \<open>w_objects\<close>.
\<close>

section \<open>Rows\<close>

datatype sql_arg = ArgStr string | ArgInt int | ArgNum rat | ArgAny raw

text \<open>
  The table \<^verbatim>\<open>profiles\<close>. The identifiers are nullable columns, and a profile that has been merged into
  another one names it. The struct the program reads has empty strings for the nulls.
\<close>

record profile_row =
  pr_TenantID :: string
  pr_WorkspaceID :: string
  pr_AppID :: string
  pr_ID :: string
  pr_External :: "string option"
  pr_Anonymous :: "string option"
  pr_Attributes :: raw
  pr_Version :: int
  pr_UpdatedAt :: time
  pr_MergedInto :: "string option"

definition coalesce :: "string option \<Rightarrow> string" where
  "coalesce x = (case x of None \<Rightarrow> [] | Some s \<Rightarrow> s)"

definition pr_Profile :: "profile_row \<Rightarrow> profile" where
  "pr_Profile r = \<lparr>pf_ID = pr_ID r, pf_ExternalID = coalesce (pr_External r), pf_AnonymousID = coalesce (pr_Anonymous r),
     pf_Attributes = pr_Attributes r, pf_Version = pr_Version r, pf_UpdatedAt = pr_UpdatedAt r\<rparr>"

lemma pr_Profile_simps [simp]:
  "pf_ID (pr_Profile r) = pr_ID r" "pf_ExternalID (pr_Profile r) = coalesce (pr_External r)"
  "pf_Attributes (pr_Profile r) = pr_Attributes r"
  by (simp_all add: pr_Profile_def)

record app_row =
  ap_ID :: string
  ap_TenantID :: string
  ap_WorkspaceID :: string

record consent_row =
  cr_TenantID :: string
  cr_WorkspaceID :: string
  cr_AppID :: string
  cr_Consent :: consent
  cr_Evidence :: raw
  cr_SourceEventID :: "string option"

record quota_row =
  tq_TenantID :: string
  tq_MaxBatchSize :: int
  tq_EventsPerMinute :: int
  tq_MaxSends24h :: int
  tq_MaxSends7d :: int
  tq_QuietHoursStart :: "int option"
  tq_QuietHoursEnd :: "int option"
  tq_DefaultTimezone :: string
  tq_RetentionDays :: int

text \<open>The sequence number of a job (a \<^verbatim>\<open>bigserial\<close>) is its position in the table.\<close>

record projection_job =
  pj_EventID :: string
  pj_TenantID :: string
  pj_PartitionKey :: string
  pj_Status :: string
  pj_Attempts :: int
  pj_AvailableAt :: time
  pj_LockedUntil :: "time option"
  pj_LastError :: "string option"
  pj_CompletedAt :: "time option"

record outbox_row =
  ob_ID :: string
  ob_TenantID :: string
  ob_Topic :: string
  ob_PartitionKey :: string
  ob_EventID :: string
  ob_Payload :: json
  ob_Status :: string
  ob_Attempts :: int
  ob_AvailableAt :: time
  ob_LockedUntil :: "time option"
  ob_LastError :: "string option"
  ob_CreatedAt :: time
  ob_PublishedAt :: "time option"

record audit_row =
  au_ID :: string
  au_TenantID :: string
  au_WorkspaceID :: string
  au_AppID :: string
  au_ActorType :: string
  au_ActorID :: string
  au_Action :: string
  au_ResourceType :: string
  au_ResourceID :: string
  au_Metadata :: json
  au_OccurredAt :: time
  au_Seq :: int
  au_PrevHash :: string
  au_RowHash :: string

text \<open>Identity resolution: the keys that name a profile, their namespaces, and the merges with what they replaced.\<close>

record alias_row =
  al_TenantID :: string
  al_AppID :: string
  al_Namespace :: string
  al_Value :: string
  al_ProfileID :: string
  al_SourceEventID :: "string option"

record namespace_row =
  ns_TenantID :: string
  ns_AppID :: string
  ns_Namespace :: string
  ns_Priority :: int

record merge_row =
  im_ID :: string
  im_TenantID :: string
  im_AppID :: string
  im_SourceID :: string
  im_TargetID :: string
  im_SourceEventID :: "string option"
  im_ReversalRef :: string
  im_UndoneAt :: "time option"
  im_MergedAt :: time

record snapshot_profile =
  sp_ID :: string
  sp_ExternalID :: "string option"
  sp_AnonymousID :: "string option"
  sp_Attributes :: raw
  sp_Version :: int
  sp_UpdatedAt :: time

record merge_snapshot =
  ms_Profile :: snapshot_profile
  ms_Aliases :: "(string \<times> string \<times> string option) list"
  ms_Consents :: "(consent \<times> raw \<times> string) list"

record company_row =
  cp_ID :: string
  cp_TenantID :: string
  cp_WorkspaceID :: string
  cp_AppID :: string
  cp_ExternalID :: "string option"
  cp_Name :: string
  cp_Attributes :: raw
  cp_Version :: int

record company_member =
  cm_TenantID :: string
  cm_CompanyID :: string
  cm_ProfileID :: string
  cm_Role :: string

record inapp_row =
  ia_ID :: string
  ia_TenantID :: string
  ia_ProfileID :: string
  ia_Status :: string
  ia_DisplayedAt :: "time option"
  ia_ClickedAt :: "time option"
  ia_DismissedAt :: "time option"
  ia_UpdatedAt :: time

record exposure_row =
  xr_TenantID :: string
  xr_AppID :: string
  xr_FlagID :: string
  xr_Environment :: string
  xr_Variant :: string
  xr_Exposures :: int

record engagement_fact =
  ef_TenantID :: string
  ef_WorkspaceID :: string
  ef_SourceType :: string
  ef_SourceID :: string
  ef_NodeID :: "string option"
  ef_ExperimentID :: "string option"
  ef_Variant :: string
  ef_ProfileID :: string
  ef_Channel :: string
  ef_EventType :: string
  ef_OccurredAt :: time
  ef_SourceEventID :: string
  ef_CostMicros :: int

record conversion_fact =
  cf_TenantID :: string
  cf_WorkspaceID :: string
  cf_SourceType :: string
  cf_SourceID :: string
  cf_ExperimentID :: "string option"
  cf_Variant :: string
  cf_ProfileID :: string
  cf_GoalName :: string
  cf_Value :: rat
  cf_OccurredAt :: time
  cf_SentAt :: time
  cf_SourceEventID :: string
  cf_CostMicros :: int

text \<open>The manifest of a campaign, the struct \<^verbatim>\<open>DispatchNext\<close> uploads.\<close>

record campaign_manifest =
  mf_SegmentID :: string
  mf_SegmentVersion :: int
  mf_DSL :: raw
  mf_CompiledSQL :: string
  mf_CompiledProfileLegs :: "string list"
  mf_CompiledConsentLegs :: "string list"
  mf_CompiledClickHouseLegs :: "string list"
  mf_TemplateID :: string
  mf_TemplateVersion :: int
  mf_ConversionGoal :: raw
  mf_AttributionWindow :: string
  mf_EvaluatedAt :: time
  mf_Recipients :: "campaign_recipient list"

record pipeline_row =
  pl_ID :: string
  pl_TenantID :: string
  pl_WorkspaceID :: string
  pl_AppID :: string
  pl_Direction :: string
  pl_Status :: string

text \<open>
  The connectors subscribed to accepted events (the join of \<^verbatim>\<open>extensions\<close>, \<^verbatim>\<open>extension_versions\<close>
  and \<^verbatim>\<open>extension_subscriptions\<close> restricted to the enabled ones), and the table \<^verbatim>\<open>operation_jobs\<close>; the payload
  of a job is a JSON object, given by its members.
\<close>

record connector_row =
  cn_TenantID :: string
  cn_WorkspaceID :: string
  cn_ExtensionID :: string

record operation_job =
  oj_ID :: string
  oj_TenantID :: string
  oj_WorkspaceID :: string
  oj_Type :: string
  oj_Payload :: "(string \<times> json) list"
  oj_Status :: string
  oj_Attempts :: int
  oj_AvailableAt :: time
  oj_LockedUntil :: "time option"
  oj_LastError :: "string option"
  oj_CreatedAt :: time
  oj_CompletedAt :: "time option"

text \<open>The table \<^verbatim>\<open>privacy_requests\<close>, with the columns the data-subject workflow added.\<close>

record privacy_row =
  pq_ID :: string
  pq_TenantID :: string
  pq_WorkspaceID :: string
  pq_AppID :: string
  pq_ExternalID :: string
  pq_RequestType :: string
  pq_Status :: string
  pq_RequestedBy :: string
  pq_ArtifactKey :: "string option"
  pq_Error :: "string option"
  pq_VerificationStatus :: "string option"
  pq_TokenHash :: "string option"
  pq_SLADueAt :: "time option"
  pq_CreatedAt :: time
  pq_CompletedAt :: "time option"

record world =
  w_now :: time
  w_tick :: nat
  w_fault :: "nat \<Rightarrow> bool"
  w_uuid :: "nat \<Rightarrow> string"
  w_seq :: nat
  w_sql :: "string \<Rightarrow> sql_arg list \<Rightarrow> string list"
  w_ch :: "(string \<Rightarrow> sql_arg list \<Rightarrow> string list) option"
  w_order :: "string list \<Rightarrow> string list"
  w_is_uuid :: "string \<Rightarrow> bool"
  w_jsonb_text :: "json \<Rightarrow> string"
  w_before :: "time \<Rightarrow> string \<Rightarrow> time"
  w_blobs :: bool
  w_calls :: "rendered_message list"
  w_journeys :: "journey list"
  w_versions :: "journey_version list"
  w_runs :: "journey_run list"
  w_steps :: "journey_step list"
  w_transitions :: "journey_transition list"
  w_intents :: "message_intent list"
  w_profiles :: "profile_row list"
  w_apps :: "app_row list"
  w_events :: "accepted_event list"
  w_jobs :: "projection_job list"
  w_outbox :: "outbox_row list"
  w_pipelines :: "pipeline_row list"
  w_connectors :: "connector_row list"
  w_opjobs :: "operation_job list"
  w_windows :: "((string \<times> int) \<times> int) list"
  w_audit :: "audit_row list"
  w_experiments :: "experiment_rec list"
  w_variants :: "experiment_variant list"
  w_assignments :: "experiment_assignment list"
  w_flags :: "feature_flag list"
  w_segments :: "segment list"
  w_members :: "segment_member list"
  w_tokens :: "device_token list"
  w_templates :: "template list"
  w_identities :: "sending_identity list"
  w_suppressions :: "suppression list"
  w_consents :: "consent_row list"
  w_attempts :: "delivery_attempt list"
  w_quotas :: "quota_row list"
  w_checkers :: "((string \<times> string) \<times> bool) list"
  w_namespaces :: "namespace_row list"
  w_aliases :: "alias_row list"
  w_merges :: "merge_row list"
  w_snapshots :: "(string \<times> merge_snapshot) list"
  w_companies :: "company_row list"
  w_company_members :: "company_member list"
  w_inapp :: "inapp_row list"
  w_exposures :: "exposure_row list"
  w_engagements :: "engagement_fact list"
  w_conversions :: "conversion_fact list"
  w_campaigns :: "campaign list"
  w_delivery_jobs :: "delivery_job list"
  w_manifests :: "(string \<times> campaign_manifest) list"
  w_stage_rules :: "stage_rule list"
  w_privacy :: "privacy_row list"
  w_objects :: "string list"
  w_published :: "outbox_row list"
  w_dir :: directory

type_synonym 'a prog = "(world, 'a) state"
type_synonym 'a call = "(world, 'a result) state"

section \<open>Calls to the database\<close>

definition db :: "(world \<Rightarrow> 'a result \<times> world) \<Rightarrow> 'a call" where
  "db f = State (\<lambda>w. let w' = w\<lparr>w_tick := Suc (w_tick w)\<rparr>
                     in if w_fault w (w_tick w) then (Inl ErrDb, w') else f w')"

text \<open>A call that only reads, and one that only writes.\<close>

definition query :: "(world \<Rightarrow> 'a result) \<Rightarrow> 'a call" where
  "query f = db (\<lambda>w. (f w, w))"

definition exec :: "(world \<Rightarrow> world) \<Rightarrow> unit call" where
  "exec g = db (\<lambda>w. (Inr (), g w))"

definition ticked :: "world \<Rightarrow> world" where
  "ticked w = w\<lparr>w_tick := Suc (w_tick w)\<rparr>"

lemma ticked_simps [simp]:
  "w_now (ticked w) = w_now w"
  "w_fault (ticked w) = w_fault w"
  "w_uuid (ticked w) = w_uuid w"
  "w_seq (ticked w) = w_seq w"
  "w_sql (ticked w) = w_sql w"
  "w_ch (ticked w) = w_ch w"
  "w_order (ticked w) = w_order w"
  "w_is_uuid (ticked w) = w_is_uuid w"
  "w_jsonb_text (ticked w) = w_jsonb_text w"
  "w_before (ticked w) = w_before w"
  "w_blobs (ticked w) = w_blobs w"
  "w_calls (ticked w) = w_calls w"
  "w_journeys (ticked w) = w_journeys w"
  "w_versions (ticked w) = w_versions w"
  "w_runs (ticked w) = w_runs w"
  "w_steps (ticked w) = w_steps w"
  "w_transitions (ticked w) = w_transitions w"
  "w_intents (ticked w) = w_intents w"
  "w_profiles (ticked w) = w_profiles w"
  "w_apps (ticked w) = w_apps w"
  "w_events (ticked w) = w_events w"
  "w_jobs (ticked w) = w_jobs w"
  "w_outbox (ticked w) = w_outbox w"
  "w_pipelines (ticked w) = w_pipelines w"
  "w_connectors (ticked w) = w_connectors w"
  "w_opjobs (ticked w) = w_opjobs w"
  "w_windows (ticked w) = w_windows w"
  "w_audit (ticked w) = w_audit w"
  "w_experiments (ticked w) = w_experiments w"
  "w_variants (ticked w) = w_variants w"
  "w_assignments (ticked w) = w_assignments w"
  "w_flags (ticked w) = w_flags w"
  "w_segments (ticked w) = w_segments w"
  "w_members (ticked w) = w_members w"
  "w_tokens (ticked w) = w_tokens w"
  "w_templates (ticked w) = w_templates w"
  "w_identities (ticked w) = w_identities w"
  "w_suppressions (ticked w) = w_suppressions w"
  "w_consents (ticked w) = w_consents w"
  "w_attempts (ticked w) = w_attempts w"
  "w_quotas (ticked w) = w_quotas w"
  "w_checkers (ticked w) = w_checkers w"
  "w_namespaces (ticked w) = w_namespaces w"
  "w_aliases (ticked w) = w_aliases w"
  "w_merges (ticked w) = w_merges w"
  "w_snapshots (ticked w) = w_snapshots w"
  "w_companies (ticked w) = w_companies w"
  "w_company_members (ticked w) = w_company_members w"
  "w_inapp (ticked w) = w_inapp w"
  "w_exposures (ticked w) = w_exposures w"
  "w_engagements (ticked w) = w_engagements w"
  "w_conversions (ticked w) = w_conversions w"
  "w_campaigns (ticked w) = w_campaigns w"
  "w_delivery_jobs (ticked w) = w_delivery_jobs w"
  "w_manifests (ticked w) = w_manifests w"
  "w_stage_rules (ticked w) = w_stage_rules w"
  "w_privacy (ticked w) = w_privacy w"
  "w_objects (ticked w) = w_objects w"
  "w_published (ticked w) = w_published w"
  "w_dir (ticked w) = w_dir w"
  "w_tick (ticked w) = Suc (w_tick w)"
  by (simp_all add: ticked_def)

lemma run_db:
  "run_state (db f) w = (if w_fault w (w_tick w) then (Inl ErrDb, ticked w) else f (ticked w))"
  by (simp add: db_def ticked_def Let_def)

lemma run_query:
  "run_state (query f) w = (if w_fault w (w_tick w) then (Inl ErrDb, ticked w) else (f (ticked w), ticked w))"
  by (simp add: query_def run_db)

lemma run_exec:
  "run_state (exec g) w = (if w_fault w (w_tick w) then (Inl ErrDb, ticked w) else (Inr (), g (ticked w)))"
  by (simp add: exec_def run_db)

lemmas run_call = run_db run_query run_exec

text \<open>The clock of the process, read by \<^verbatim>\<open>time.Now()\<close>; it agrees with the database's \<^verbatim>\<open>now()\<close>.\<close>

definition get_now :: "time prog" where
  "get_now = State (\<lambda>w. (w_now w, w))"

lemma run_get_now [simp]: "run_state get_now w = (w_now w, w)"
  by (simp add: get_now_def)

text \<open>
  The interface between the store and the programs that call it: a preorder of worlds that does
  not look at the call counter, together with what it asks of the writes.
\<close>

locale store_evolution = evolution R for R :: "world \<Rightarrow> world \<Rightarrow> bool" +
  assumes tick_ok: "R w (ticked w)"
begin

lemma evolve_db: "(\<And>w. R w (snd (f w))) \<Longrightarrow> state_io_rel R (db f)"
  unfolding state_io_rel_def run_db by (auto intro: tick_ok evolution_trans)

lemma evolve_query: "state_io_rel R (query f)"
  unfolding query_def by (rule evolve_db) (simp add: evolution_refl)

lemma evolve_exec: "(\<And>w. R w (g w)) \<Longrightarrow> state_io_rel R (exec g)"
  unfolding exec_def by (rule evolve_db) simp

lemma evolve_now: "state_io_rel R get_now"
  by (simp add: state_io_rel_def evolution_refl)

lemmas store_rules = evolve_rules evolve_query evolve_now

end

text \<open>The first instance: programs that only read leave everything but the call counter alone.\<close>

definition read_only :: "world \<Rightarrow> world \<Rightarrow> bool" where
  "read_only w w' \<longleftrightarrow> (\<exists>k. w' = w\<lparr>w_tick := k\<rparr>)"

lemma read_only_refl [simp]: "read_only w w"
  unfolding read_only_def by (rule exI [of _ "w_tick w"]) simp

lemma read_only_trans: "read_only u v \<Longrightarrow> read_only v w \<Longrightarrow> read_only u w"
  by (auto simp: read_only_def)

lemma read_only_ticked [simp]: "read_only w (ticked w)"
  by (auto simp: read_only_def ticked_def)

interpretation ro: store_evolution read_only
  by unfold_locales (auto intro: read_only_trans)

lemma read_onlyD: "read_only w w' \<Longrightarrow> \<exists>k. w' = w\<lparr>w_tick := k\<rparr>"
  by (simp add: read_only_def)

text \<open>A world in which no call to the database fails.\<close>

definition healthy :: "world \<Rightarrow> bool" where
  "healthy w \<longleftrightarrow> (\<forall>n. \<not> w_fault w n)"

lemma healthyD [simp]: "healthy w \<Longrightarrow> \<not> w_fault w n"
  by (simp add: healthy_def)

lemma healthy_ticked [simp]: "healthy (ticked w) = healthy w"
  by (simp add: healthy_def ticked_def)

lemma healthy_read_only: "read_only w w' \<Longrightarrow> healthy w' = healthy w"
  by (auto simp: read_only_def healthy_def)

section \<open>Tables\<close>

text \<open>\<^verbatim>\<open>UPDATE ... WHERE\<close>: the rows satisfying \<open>P\<close> are changed by \<open>f\<close>.\<close>

definition upd_rows :: "('a \<Rightarrow> bool) \<Rightarrow> ('a \<Rightarrow> 'a) \<Rightarrow> 'a list \<Rightarrow> 'a list" where
  "upd_rows P f rows = map (\<lambda>r. if P r then f r else r) rows"

lemma upd_rows_Nil [simp]: "upd_rows P f [] = []"
  and upd_rows_Cons [simp]: "upd_rows P f (r # rs) = (if P r then f r else r) # upd_rows P f rs"
  and upd_rows_append [simp]: "upd_rows P f (rs @ ss) = upd_rows P f rs @ upd_rows P f ss"
  and length_upd_rows [simp]: "length (upd_rows P f rs) = length rs"
  by (simp_all add: upd_rows_def)

lemma map_upd_rows: "(\<And>r. P r \<Longrightarrow> g (f r) = g r) \<Longrightarrow> map g (upd_rows P f rows) = map g rows"
  by (simp add: upd_rows_def)

lemma find_upd_rows:
  assumes "find P rs = Some r" and "\<And>r. P (f r) = P r"
  shows "find P (upd_rows Q f rs) = Some (if Q r then f r else r)"
  using assms by (induction rs) (auto split: if_splits)

lemma set_upd_rows: "set (upd_rows P f rows) = (\<lambda>r. if P r then f r else r) ` set rows"
  by (simp add: upd_rows_def)

text \<open>A new row of \<^verbatim>\<open>operation_jobs\<close>, and the operator \<^verbatim>\<open>payload->>'name'\<close> on texts.\<close>

definition new_op_job :: "string \<Rightarrow> string \<Rightarrow> string \<Rightarrow> string \<Rightarrow> (string \<times> json) list \<Rightarrow> time \<Rightarrow> operation_job" where
  "new_op_job i tenantID workspaceID jobType payload now =
     \<lparr>oj_ID = i, oj_TenantID = tenantID, oj_WorkspaceID = workspaceID, oj_Type = jobType, oj_Payload = payload,
      oj_Status = ''pending'', oj_Attempts = 0, oj_AvailableAt = now, oj_LockedUntil = None, oj_LastError = None,
      oj_CreatedAt = now, oj_CompletedAt = None\<rparr>"

definition payload_text :: "string \<Rightarrow> operation_job \<Rightarrow> string option" where
  "payload_text name j = (case map_of (oj_Payload j) name of Some (JStr s) \<Rightarrow> Some s | _ \<Rightarrow> None)"

text \<open>\<^verbatim>\<open>ORDER BY key LIMIT 1\<close>: the first of the least rows.\<close>

fun least_by :: "('a \<Rightarrow> 'k::linorder) \<Rightarrow> 'a list \<Rightarrow> 'a option" where
  "least_by key [] = None"
| "least_by key (r # rs) =
     (case least_by key rs of None \<Rightarrow> Some r | Some s \<Rightarrow> if key r \<le> key s then Some r else Some s)"

lemma least_by_None: "least_by key rs = None \<longleftrightarrow> rs = []"
  by (cases rs) (auto split: option.splits)

lemma least_by_Some: "least_by key rs = Some r \<Longrightarrow> r \<in> set rs \<and> (\<forall>s \<in> set rs. key r \<le> key s)"
proof (induction rs arbitrary: r)
  case (Cons a rs)
  show ?case
  proof (cases "least_by key rs")
    case None
    with Cons.prems show ?thesis by (auto simp: least_by_None)
  next
    case (Some b)
    with Cons show ?thesis by (fastforce split: if_splits)
  qed
qed simp

text \<open>The identifier the database gives to the next row it inserts.\<close>

definition new_id :: "world \<Rightarrow> string" where
  "new_id w = w_uuid w (w_seq w)"

definition next_id :: "world \<Rightarrow> world" where
  "next_id w = w\<lparr>w_seq := Suc (w_seq w)\<rparr>"

lemma next_id_simps [simp]:
  "w_now (next_id w) = w_now w"
  "w_tick (next_id w) = w_tick w"
  "w_fault (next_id w) = w_fault w"
  "w_uuid (next_id w) = w_uuid w"
  "w_sql (next_id w) = w_sql w"
  "w_ch (next_id w) = w_ch w"
  "w_order (next_id w) = w_order w"
  "w_is_uuid (next_id w) = w_is_uuid w"
  "w_jsonb_text (next_id w) = w_jsonb_text w"
  "w_before (next_id w) = w_before w"
  "w_blobs (next_id w) = w_blobs w"
  "w_calls (next_id w) = w_calls w"
  "w_journeys (next_id w) = w_journeys w"
  "w_versions (next_id w) = w_versions w"
  "w_runs (next_id w) = w_runs w"
  "w_steps (next_id w) = w_steps w"
  "w_transitions (next_id w) = w_transitions w"
  "w_intents (next_id w) = w_intents w"
  "w_profiles (next_id w) = w_profiles w"
  "w_apps (next_id w) = w_apps w"
  "w_events (next_id w) = w_events w"
  "w_jobs (next_id w) = w_jobs w"
  "w_outbox (next_id w) = w_outbox w"
  "w_pipelines (next_id w) = w_pipelines w"
  "w_connectors (next_id w) = w_connectors w"
  "w_opjobs (next_id w) = w_opjobs w"
  "w_windows (next_id w) = w_windows w"
  "w_audit (next_id w) = w_audit w"
  "w_experiments (next_id w) = w_experiments w"
  "w_variants (next_id w) = w_variants w"
  "w_assignments (next_id w) = w_assignments w"
  "w_flags (next_id w) = w_flags w"
  "w_segments (next_id w) = w_segments w"
  "w_members (next_id w) = w_members w"
  "w_tokens (next_id w) = w_tokens w"
  "w_templates (next_id w) = w_templates w"
  "w_identities (next_id w) = w_identities w"
  "w_suppressions (next_id w) = w_suppressions w"
  "w_consents (next_id w) = w_consents w"
  "w_attempts (next_id w) = w_attempts w"
  "w_quotas (next_id w) = w_quotas w"
  "w_checkers (next_id w) = w_checkers w"
  "w_namespaces (next_id w) = w_namespaces w"
  "w_aliases (next_id w) = w_aliases w"
  "w_merges (next_id w) = w_merges w"
  "w_snapshots (next_id w) = w_snapshots w"
  "w_companies (next_id w) = w_companies w"
  "w_company_members (next_id w) = w_company_members w"
  "w_inapp (next_id w) = w_inapp w"
  "w_exposures (next_id w) = w_exposures w"
  "w_engagements (next_id w) = w_engagements w"
  "w_conversions (next_id w) = w_conversions w"
  "w_campaigns (next_id w) = w_campaigns w"
  "w_delivery_jobs (next_id w) = w_delivery_jobs w"
  "w_manifests (next_id w) = w_manifests w"
  "w_stage_rules (next_id w) = w_stage_rules w"
  "w_privacy (next_id w) = w_privacy w"
  "w_objects (next_id w) = w_objects w"
  "w_published (next_id w) = w_published w"
  "w_dir (next_id w) = w_dir w"
  "w_seq (next_id w) = Suc (w_seq w)"
  by (simp_all add: next_id_def)


end
