(* ===== verification/Sha256.thy ===== *)
theory Sha256
  imports Prelude
begin

text \<open>
  \<^verbatim>\<open>crypto/sha256\<close> of the Go standard library, which the deterministic assignment of the program
  is built on: padding, message schedule and compression on 32-bit words, for messages given as
  byte strings.
\<close>

unbundle bit_operations_syntax

type_synonym w32 = "32 word"

definition sha_k :: "w32 list" where
  "sha_k =
   [1116352408, 1899447441, 3049323471, 3921009573, 961987163, 1508970993, 2453635748, 2870763221,
    3624381080, 310598401, 607225278, 1426881987, 1925078388, 2162078206, 2614888103, 3248222580,
    3835390401, 4022224774, 264347078, 604807628, 770255983, 1249150122, 1555081692, 1996064986,
    2554220882, 2821834349, 2952996808, 3210313671, 3336571891, 3584528711, 113926993, 338241895,
    666307205, 773529912, 1294757372, 1396182291, 1695183700, 1986661051, 2177026350, 2456956037,
    2730485921, 2820302411, 3259730800, 3345764771, 3516065817, 3600352804, 4094571909, 275423344,
    430227734, 506948616, 659060556, 883997877, 958139571, 1322822218, 1537002063, 1747873779,
    1955562222, 2024104815, 2227730452, 2361852424, 2428436474, 2756734187, 3204031479, 3329325298]"

definition sha_init :: "w32 list" where
  "sha_init = [1779033703, 3144134277, 1013904242, 2773480762,
               1359893119, 2600822924, 528734635, 1541459225]"

text \<open>\<^verbatim>\<open>bits.RotateLeft32(x, -n)\<close>\<close>

definition rotr :: "nat \<Rightarrow> w32 \<Rightarrow> w32" where
  "rotr n x = drop_bit n x OR push_bit (32 - n) x"

text \<open>Big-endian words of four bytes.\<close>

definition be32 :: "int \<Rightarrow> int \<Rightarrow> int \<Rightarrow> int \<Rightarrow> w32" where
  "be32 a b c d = of_int (((a * 256 + b) * 256 + c) * 256 + d)"

fun words_of_bytes :: "int list \<Rightarrow> w32 list" where
  "words_of_bytes (a # b # c # d # rest) = be32 a b c d # words_of_bytes rest"
| "words_of_bytes _ = []"

definition be64_bytes :: "int \<Rightarrow> int list" where
  "be64_bytes n = map (\<lambda>i. n div 256 ^ (7 - i) mod 256) [0..<8]"

definition sha_pad :: "int list \<Rightarrow> int list" where
  "sha_pad bs = bs @ [128] @ replicate ((119 - length bs mod 64) mod 64) 0 @ be64_bytes (8 * int (length bs))"

definition sched_s0 :: "w32 \<Rightarrow> w32" where
  "sched_s0 x = rotr 7 x XOR rotr 18 x XOR drop_bit 3 x"

definition sched_s1 :: "w32 \<Rightarrow> w32" where
  "sched_s1 x = rotr 17 x XOR rotr 19 x XOR drop_bit 10 x"

text \<open>The schedule grows from its last sixteen words, held in reverse order.\<close>

fun sha_extend :: "nat \<Rightarrow> w32 list \<Rightarrow> w32 list" where
  "sha_extend 0 ws = ws"
| "sha_extend (Suc n) ws =
     sha_extend n ((sched_s1 (ws ! 1) + ws ! 6 + sched_s0 (ws ! 14) + ws ! 15) # ws)"

definition sha_schedule :: "w32 list \<Rightarrow> w32 list" where
  "sha_schedule block = rev (sha_extend 48 (rev block))"

type_synonym sha_state = "w32 \<times> w32 \<times> w32 \<times> w32 \<times> w32 \<times> w32 \<times> w32 \<times> w32"

fun sha_round :: "sha_state \<Rightarrow> w32 \<times> w32 \<Rightarrow> sha_state" where
  "sha_round (a, b, c, d, e, f, g, h) (k, w) =
     (let t1 = h + (rotr 6 e XOR rotr 11 e XOR rotr 25 e) + ((e AND f) XOR (NOT e AND g)) + k + w;
          t2 = (rotr 2 a XOR rotr 13 a XOR rotr 22 a) + ((a AND b) XOR (a AND c) XOR (b AND c))
      in (t1 + t2, a, b, c, d + t1, e, f, g))"

definition sha_block :: "w32 list \<Rightarrow> w32 list \<Rightarrow> w32 list" where
  "sha_block st block =
     (case foldl sha_round (st ! 0, st ! 1, st ! 2, st ! 3, st ! 4, st ! 5, st ! 6, st ! 7)
             (zip sha_k (sha_schedule block)) of
        (a, b, c, d, e, f, g, h) \<Rightarrow> map2 (+) st [a, b, c, d, e, f, g, h])"

function sha_blocks :: "w32 list \<Rightarrow> w32 list \<Rightarrow> w32 list" where
  "sha_blocks st ws =
     (if length ws < 16 then st else sha_blocks (sha_block st (take 16 ws)) (drop 16 ws))"
  by pat_completeness auto
termination by (relation "measure (\<lambda>(st, ws). length ws)") auto

declare sha_blocks.simps [simp del]

text \<open>The digest as its eight words; the first eight bytes are the first two words.\<close>

definition sha256 :: "string \<Rightarrow> w32 list" where
  "sha256 s = sha_blocks sha_init (words_of_bytes (sha_pad (map of_char s)))"

text \<open>\<^verbatim>\<open>binary.BigEndian.Uint64(hash[:8])\<close>\<close>

definition digest_uint64 :: "w32 list \<Rightarrow> 64 word" where
  "digest_uint64 d = push_bit 32 (ucast (d ! 0)) OR ucast (d ! 1)"

text \<open>\<^verbatim>\<open>fmt.Sprintf("%x", digest)\<close>\<close>

definition hex_digit :: "int \<Rightarrow> char" where
  "hex_digit n = (if n < 10 then char_of (48 + n) else char_of (87 + n))"

definition hex_word :: "w32 \<Rightarrow> string" where
  "hex_word w = map (\<lambda>i. hex_digit (uint w div 16 ^ (7 - i) mod 16)) [0..<8]"

definition hex_digest :: "w32 list \<Rightarrow> string" where
  "hex_digest d = concat (map hex_word d)"

text \<open>Padding fills the last block exactly, so no byte of the message is left out.\<close>

lemma sha_pad_multiple: "length (sha_pad bs) mod 64 = 0"
proof -
  define r where "r = length bs mod 64"
  have r: "r < 64" by (simp add: r_def)
  have fill: "(119 - r) mod 64 = (if r \<le> 55 then 55 - r else 119 - r)"
  proof (cases "r \<le> 55")
    case True
    then have "119 - r = 64 + (55 - r)" by simp
    then have "(119 - r) mod 64 = (55 - r) mod 64" by (metis mod_add_self1)
    with True show ?thesis by simp
  next
    case False
    with r show ?thesis by simp
  qed
  have "length (sha_pad bs) = length bs + (9 + (119 - r) mod 64)"
    by (simp add: sha_pad_def be64_bytes_def r_def)
  then have "length (sha_pad bs) mod 64 = (r + (9 + (119 - r) mod 64)) mod 64"
    by (simp add: r_def mod_add_left_eq)
  also have "\<dots> = 0" using r by (auto simp: fill)
  finally show ?thesis .
qed

end
