(* ===== verification/Audience.thy ===== *)
theory Audience
  imports World Sha256
begin

text \<open>
  Audience conditions: \<^verbatim>\<open>internal/audience\<close> (syntax tree, parser, SQL compilers, per-profile
  evaluation) and the store functions that run them, \<^verbatim>\<open>EvaluateAudience\<close> and
  \<^verbatim>\<open>IsProfileInSegment\<close> of \<^verbatim>\<open>journey_runtime.go\<close> and \<^verbatim>\<open>ResolveSegment\<close> of \<^verbatim>\<open>segments.go\<close>.

  What a leaf condition selects is decided by the databases, which are the parameters \<open>w_sql\<close> and
  \<open>w_ch\<close> of the world. The facts are about what the program adds: the parser only builds trees the
  compilers accept, the compiled SQL uses exactly the parameters it is given and contains no text of
  the caller other than identifiers, and the evaluation is the boolean reading of the tree.
\<close>

section \<open>Syntax tree\<close>

datatype node =
    NAnd "node list"
  | NOr "node list"
  | NNot node
  | NProfileAttribute (na_field: string) (na_operator: string) (na_value: raw)
  | NEventHistory (ne_event_type: string) (ne_operator: string) (ne_days: int) (ne_min: int)
  | NConsent (nc_channel: string) (nc_topic: string) (nc_state: string)
  | NScore (ns_model: string) (ns_name: string) (ns_operator: string) (ns_value: rat)
  | NCompany (ny_field: string) (ny_operator: string) (ny_value: raw)

section \<open>Parser\<close>

record raw_node =
  rn_Logic :: string
  rn_Conditions :: "json list"
  rn_Condition :: raw
  rn_Type :: string
  rn_Field :: string
  rn_Operator :: string
  rn_Value :: raw
  rn_EventType :: string
  rn_TimeWindowDays :: int
  rn_MinCount :: int
  rn_Channel :: string
  rn_Topic :: string
  rn_State :: string
  rn_Model :: string
  rn_ScoreName :: string

definition dec_raw_node :: "json \<Rightarrow> raw_node option" where
  "dec_raw_node j = do {
     kvs \<leftarrow> obj_members j;
     logic \<leftarrow> str_field ''logic'' kvs;
     conds \<leftarrow> list_field Some ''conditions'' kvs;
     cond \<leftarrow> raw_field ''condition'' kvs;
     ty \<leftarrow> str_field ''type'' kvs;
     fld \<leftarrow> str_field ''field'' kvs;
     op \<leftarrow> str_field ''operator'' kvs;
     val \<leftarrow> raw_field ''value'' kvs;
     ety \<leftarrow> str_field ''event_type'' kvs;
     days \<leftarrow> int_field ''time_window_days'' kvs;
     mc \<leftarrow> int_field ''min_count'' kvs;
     ch \<leftarrow> str_field ''channel'' kvs;
     tp \<leftarrow> str_field ''topic'' kvs;
     st \<leftarrow> str_field ''state'' kvs;
     md \<leftarrow> str_field ''model'' kvs;
     sn \<leftarrow> str_field ''score_name'' kvs;
     Some \<lparr>rn_Logic = logic, rn_Conditions = conds, rn_Condition = cond, rn_Type = ty, rn_Field = fld,
           rn_Operator = op, rn_Value = val, rn_EventType = ety, rn_TimeWindowDays = days,
           rn_MinCount = mc, rn_Channel = ch, rn_Topic = tp, rn_State = st, rn_Model = md,
           rn_ScoreName = sn\<rparr> }"

text \<open>Unmarshalling a number into a \<^verbatim>\<open>float64\<close> (kept exact here), and any value into an \<^verbatim>\<open>any\<close>.\<close>

fun dec_float :: "json \<Rightarrow> rat option" where
  "dec_float (JInt i) = Some (of_int i)"
| "dec_float (JDec r) = Some r"
| "dec_float JNull = Some 0"
| "dec_float j = None"

definition any_value :: "raw \<Rightarrow> raw" where
  "any_value r = (case r of Some JNull \<Rightarrow> None | _ \<Rightarrow> r)"

text \<open>The conditions that are not logical connectives.\<close>

definition leafNode :: "raw_node \<Rightarrow> node result" where
  "leafNode rn =
    (if rn_Type rn = [] then Inl (ErrNew ''condition type or logic operator is required'')
     else if rn_Type rn = ''profile_attribute'' then
       (if rn_Field rn = [] then Inl (ErrNew ''profile_attribute condition requires field'')
        else if rn_Operator rn = [] then Inl (ErrNew ''profile_attribute condition requires operator'')
        else if rn_Operator rn \<notin> set [''equals'', ''contains'', ''in'', ''greater_than'', ''less_than'']
        then Inl (ErrNew (''unknown profile_attribute operator: '' @ rn_Operator rn))
        else Inr (NProfileAttribute (rn_Field rn) (rn_Operator rn) (any_value (rn_Value rn))))
     else if rn_Type rn = ''event_history'' then
       (if rn_EventType rn = [] then Inl (ErrNew ''event_history condition requires event_type'')
        else if rn_Operator rn = [] then Inl (ErrNew ''event_history condition requires operator'')
        else if rn_Operator rn \<noteq> ''has_occurred'' \<and> rn_Operator rn \<noteq> ''has_not_occurred''
        then Inl (ErrNew (''unknown event_history operator: '' @ rn_Operator rn))
        else if rn_TimeWindowDays rn < 0 then Inl (ErrNew ''time_window_days cannot be negative'')
        else if rn_MinCount rn < 0 then Inl (ErrNew ''min_count cannot be negative'')
        else Inr (NEventHistory (rn_EventType rn) (rn_Operator rn) (rn_TimeWindowDays rn) (rn_MinCount rn)))
     else if rn_Type rn = ''consent'' then
       (if rn_Channel rn = [] then Inl (ErrNew ''consent condition requires channel'')
        else if rn_Topic rn = [] then Inl (ErrNew ''consent condition requires topic'')
        else if rn_State rn \<noteq> ''subscribed'' \<and> rn_State rn \<noteq> ''unsubscribed''
        then Inl (ErrNew (''unknown consent state: '' @ rn_State rn))
        else Inr (NConsent (rn_Channel rn) (rn_Topic rn) (rn_State rn)))
     else if rn_Type rn = ''score'' then
       (if rn_Model rn = [] then Inl (ErrNew ''score condition requires model'')
        else if rn_ScoreName rn = [] then Inl (ErrNew ''score condition requires score_name'')
        else if rn_Operator rn = [] then Inl (ErrNew ''score condition requires operator'')
        else if rn_Operator rn \<notin> set [''greater_than'', ''less_than'', ''equals'']
        then Inl (ErrNew (''unknown score operator: '' @ rn_Operator rn))
        else case rn_Value rn of
          None \<Rightarrow> Inl (ErrNew ''score condition requires value'')
        | Some v \<Rightarrow>
            (case dec_float v of
               None \<Rightarrow> Inl ErrJSON
             | Some val \<Rightarrow> Inr (NScore (rn_Model rn) (rn_ScoreName rn) (rn_Operator rn) val)))
     else if rn_Type rn = ''company'' then
       (if rn_Field rn = [] \<or> rn_Operator rn = []
        then Inl (ErrNew ''company condition requires field and operator'')
        else if rn_Operator rn \<notin> set [''equals'', ''contains'', ''in'']
        then Inl (ErrNew (''unknown company operator: '' @ rn_Operator rn))
        else Inr (NCompany (rn_Field rn) (rn_Operator rn) (any_value (rn_Value rn))))
     else Inl (ErrNew (''unknown condition type: '' @ rn_Type rn)))"

text \<open>The loop over the conditions stops at the first one that does not parse.\<close>

fun collect :: "('a \<Rightarrow> 'b result) \<Rightarrow> 'a list \<Rightarrow> 'b list result" where
  "collect f [] = Inr []"
| "collect f (x # xs) =
     (case f x of Inl e \<Rightarrow> Inl e
      | Inr y \<Rightarrow> (case collect f xs of Inl e \<Rightarrow> Inl e | Inr ys \<Rightarrow> Inr (y # ys)))"

lemma collect_cong [fundef_cong]:
  assumes "xs = ys" and "\<And>x. x \<in> set ys \<Longrightarrow> f x = g x"
  shows "collect f xs = collect g ys"
proof -
  have "(\<And>x. x \<in> set ys \<Longrightarrow> f x = g x) \<Longrightarrow> collect f ys = collect g ys"
    by (induction ys) (auto split: sum.splits)
  with assms show ?thesis by blast
qed

lemma collect_Inr: "collect f xs = Inr ys \<Longrightarrow> list_all2 (\<lambda>x y. f x = Inr y) xs ys"
  by (induction xs arbitrary: ys) (auto split: sum.splits)

text \<open>The conditions inside a value are smaller than the value.\<close>

lemma dec_field_source:
  "dec_field f name kvs old = Some v \<Longrightarrow> v = old \<or> (\<exists>k j w. (k, j) \<in> set kvs \<and> f j w = Some v)"
proof (induction kvs arbitrary: old)
  case (Cons kv kvs)
  obtain k j where kv: "kv = (k, j)" by force
  show ?case
  proof (cases "to_lower k = name")
    case True
    then obtain u where u: "f j old = Some u" and rest: "dec_field f name kvs u = Some v"
      using Cons.prems kv by (auto split: option.splits)
    from Cons.IH [OF rest] u kv show ?thesis by auto
  next
    case False
    then show ?thesis using Cons kv by fastforce
  qed
qed simp

lemma member_size: "(k, j) \<in> set kvs \<Longrightarrow> size j < size (JObj kvs)"
  by (induction kvs) auto

lemma element_size: "j \<in> set js \<Longrightarrow> size j < size (JArr js)"
  by (induction js) auto

lemma those_Some: "those (map Some js) = Some js"
  by (induction js) auto

lemma dec_list_Some: "dec_list Some j old = Some js \<Longrightarrow> js = [] \<or> j = JArr js"
  by (cases j) (auto simp: those_Some)

lemma dec_raw_node_size:
  assumes "dec_raw_node j = Some rn"
  shows "c \<in> set (rn_Conditions rn) \<Longrightarrow> size c < size j"
    and "rn_Condition rn = Some d \<Longrightarrow> size d < size j"
proof -
  from assms obtain kvs where kvs: "obj_members j = Some kvs"
    and conds: "list_field Some ''conditions'' kvs = Some (rn_Conditions rn)"
    and cond: "raw_field ''condition'' kvs = Some (rn_Condition rn)"
    by (auto simp: dec_raw_node_def Option.bind_eq_Some_conv)
  have j: "j = JObj kvs \<or> kvs = []" using kvs by (cases j) auto
  show "size c < size j" if c: "c \<in> set (rn_Conditions rn)"
  proof -
    from c obtain k i w where i: "(k, i) \<in> set kvs" "dec_list Some i w = Some (rn_Conditions rn)"
      using dec_field_source [OF conds] by auto
    with c have "i = JArr (rn_Conditions rn)" using dec_list_Some by fastforce
    then have "size c < size i" using c element_size by blast
    then show ?thesis using i j member_size [OF i(1)] by auto
  qed
  show "rn_Condition rn = Some d \<Longrightarrow> size d < size j"
    using dec_field_source [OF cond] j by (auto dest: member_size)
qed

function Parse_value :: "json \<Rightarrow> node result" where
  "Parse_value j =
    (case dec_raw_node j of
       None \<Rightarrow> Inl ErrJSON
     | Some rn \<Rightarrow>
        if rn_Logic rn \<noteq> [] then
          (if rn_Logic rn = ''and'' then map_sum id NAnd (collect Parse_value (rn_Conditions rn))
           else if rn_Logic rn = ''or'' then map_sum id NOr (collect Parse_value (rn_Conditions rn))
           else if rn_Logic rn = ''not'' then
             (case rn_Condition rn of
                None \<Rightarrow> Inl (ErrNew ''not condition requires condition field'')
              | Some c \<Rightarrow> map_sum id NNot (Parse_value c))
           else Inl (ErrNew (''unknown logic operator: '' @ rn_Logic rn)))
        else leafNode rn)"
  by pat_completeness auto
termination
  by (relation "measure size") (auto dest: dec_raw_node_size)

declare Parse_value.simps [simp del]

definition Parse :: "raw \<Rightarrow> node result" where
  "Parse data = (case data of None \<Rightarrow> Inl ErrJSON | Some j \<Rightarrow> Parse_value j)"

section \<open>Compilation to SQL\<close>

text \<open>
  SQL text with its placeholders: \<open>Txt\<close> is literal text, \<open>Par n\<close> the placeholder \<^verbatim>\<open>$n\<close>. Runs of
  white space inside the statements are written as one blank.
\<close>

datatype sql_tok = Txt string | Par nat

fun tok_text :: "sql_tok \<Rightarrow> string" where
  "tok_text (Txt s) = s"
| "tok_text (Par n) = CHR ''$'' # itoa_nat n"

definition sql_text :: "sql_tok list \<Rightarrow> string" where
  "sql_text toks = concat (map tok_text toks)"

fun join_toks :: "string \<Rightarrow> sql_tok list list \<Rightarrow> sql_tok list" where
  "join_toks sep [] = []"
| "join_toks sep [p] = p"
| "join_toks sep (p # q # ps) = p @ [Txt sep] @ join_toks sep (q # ps)"

definition safe_char :: "char \<Rightarrow> bool" where
  "safe_char c \<longleftrightarrow> is_digit c \<or> c = CHR ''_'' \<or>
     (let n = (of_char c :: nat) in (65 \<le> n \<and> n \<le> 90) \<or> (97 \<le> n \<and> n \<le> 122))"

text \<open>\<^verbatim>\<open>fieldSafetyRegex\<close>: one or more letters, digits and underscores.\<close>

definition field_safe :: "string \<Rightarrow> bool" where
  "field_safe f \<longleftrightarrow> f \<noteq> [] \<and> list_all safe_char f"

definition sq :: "string \<Rightarrow> string" where
  "sq s = [CHR 0x27] @ s @ [CHR 0x27]"

text \<open>The comparison of an attribute with the placeholder of its value.\<close>

definition attr_test :: "string \<Rightarrow> string \<Rightarrow> string \<Rightarrow> nat \<Rightarrow> sql_tok list option" where
  "attr_test pre field op n =
     (if op = ''equals'' then Some [Txt (pre @ ''attributes->>'' @ sq field @ '' = ''), Par n]
      else if op = ''contains''
      then Some [Txt (pre @ ''attributes->>'' @ sq field @ '' LIKE '' @ sq ''%'' @ '' || ''), Par n,
                 Txt ('' || '' @ sq ''%'')]
      else if op = ''in'' then Some [Txt (pre @ ''attributes->>'' @ sq field @ '' = ANY(''), Par n, Txt '')'']
      else None)"

definition score_operator :: "string \<Rightarrow> string option" where
  "score_operator op = (if op = ''greater_than'' then Some ''>'' else if op = ''less_than'' then Some ''<''
     else if op = ''equals'' then Some ''='' else None)"

text \<open>\<^verbatim>\<open>compileProfileNode\<close>; the slice \<^verbatim>\<open>*args\<close> is passed and returned. The empty list is the empty text.\<close>

fun compileProfileNode :: "node \<Rightarrow> sql_arg list \<Rightarrow> (sql_tok list \<times> sql_arg list) result"
  and compileParts :: "node list \<Rightarrow> sql_arg list \<Rightarrow> (sql_tok list list \<times> sql_arg list) result" where
  "compileParts [] args = Inr ([], args)"
| "compileParts (cond # conds) args =
     (case compileProfileNode cond args of
        Inl err \<Rightarrow> Inl err
      | Inr (part, args1) \<Rightarrow>
          (case compileParts conds args1 of
             Inl err \<Rightarrow> Inl err
           | Inr (parts, args2) \<Rightarrow> Inr (if part \<noteq> [] then part # parts else parts, args2)))"
| "compileProfileNode (NAnd conds) args =
     (case compileParts conds args of
        Inl err \<Rightarrow> Inl err
      | Inr (parts, args') \<Rightarrow>
          Inr (if parts = [] then [] else [Txt ''(''] @ join_toks '' AND '' parts @ [Txt '')''], args'))"
| "compileProfileNode (NOr conds) args =
     (case compileParts conds args of
        Inl err \<Rightarrow> Inl err
      | Inr (parts, args') \<Rightarrow>
          Inr (if parts = [] then [] else [Txt ''(''] @ join_toks '' OR '' parts @ [Txt '')''], args'))"
| "compileProfileNode (NNot cond) args =
     (case compileProfileNode cond args of
        Inl err \<Rightarrow> Inl err
      | Inr (part, args') \<Rightarrow> Inr (if part = [] then [] else [Txt ''NOT (''] @ part @ [Txt '')''], args'))"
| "compileProfileNode (NProfileAttribute field op val) args =
     (if \<not> field_safe field then Inl (ErrNew (''unsafe or invalid profile field name: '' @ field))
      else let args' = args @ [ArgAny val]; n = length args' + 2 in
        if op = ''greater_than''
        then Inr ([Txt (''(attributes->>'' @ sq field @ '')::numeric > (''), Par n, Txt '')::numeric''], args')
        else if op = ''less_than''
        then Inr ([Txt (''(attributes->>'' @ sq field @ '')::numeric < (''), Par n, Txt '')::numeric''], args')
        else case attr_test [] field op n of
          Some toks \<Rightarrow> Inr (toks, args')
        | None \<Rightarrow> Inl (ErrNew (''unsupported profile operator: '' @ op)))"
| "compileProfileNode (NConsent channel topic st) args =
     (let args' = args @ [ArgStr channel, ArgStr topic, ArgStr st]; n = length args' in
      Inr ([Txt ''id IN ( SELECT latest.profile_id FROM ( SELECT DISTINCT ON (cl.profile_id) cl.profile_id, cl.state FROM consent_ledger cl WHERE cl.tenant_id = profiles.tenant_id AND cl.app_id = profiles.app_id AND cl.channel = '',
            Par n, Txt '' AND cl.topic = '', Par (n + 1),
            Txt '' ORDER BY cl.profile_id, cl.occurred_at DESC ) latest WHERE latest.state = '', Par (n + 2), Txt '' )''], args'))"
| "compileProfileNode (NScore model score_name op val) args =
     (if model = [] then Inl (ErrNew ''score condition requires model'')
      else if score_name = [] then Inl (ErrNew ''score condition requires score_name'')
      else case score_operator op of
        None \<Rightarrow> Inl (ErrNew (''unsupported score operator: '' @ op))
      | Some opSql \<Rightarrow>
          Inr ([Txt ''id IN (SELECT profile_id FROM profile_scores WHERE tenant_id = '', Par 1,
                Txt '' AND workspace_id = '', Par 2, Txt '' AND scoring_model_id = '', Par (length args + 3),
                Txt '' AND score_name = '', Par (length args + 4), Txt ('' AND value '' @ opSql @ '' ''),
                Par (length args + 5), Txt '')''],
               args @ [ArgStr model, ArgStr score_name, ArgNum val]))"
| "compileProfileNode (NCompany field op val) args =
     (if \<not> field_safe field then Inl (ErrNew (''unsafe or invalid company field name: '' @ field))
      else let args' = args @ [ArgAny val] in
        case attr_test ''c.'' field op (length args' + 2) of
          None \<Rightarrow> Inl (ErrNew (''unsupported company operator: '' @ op))
        | Some toks \<Rightarrow>
            Inr ([Txt ''id IN (SELECT m.profile_id FROM company_members m JOIN companies c ON c.id=m.company_id WHERE m.tenant_id='',
                  Par 1, Txt '' AND c.tenant_id='', Par 1, Txt '' AND c.workspace_id='', Par 2, Txt '' AND '']
                 @ toks @ [Txt '')''], args'))"
| "compileProfileNode (NEventHistory ety op days mc) args = Inr ([], args)"

definition or_TRUE :: "sql_tok list \<Rightarrow> sql_tok list" where
  "or_TRUE expr = (if expr = [] then [Txt ''TRUE''] else expr)"

definition CompileProfile :: "node \<Rightarrow> (sql_tok list \<times> sql_arg list) result" where
  "CompileProfile n =
     (case compileProfileNode n [] of
        Inl err \<Rightarrow> Inl err
      | Inr (expr, args) \<Rightarrow>
          Inr ([Txt ''SELECT external_id FROM profiles WHERE tenant_id='', Par 1, Txt '' AND workspace_id='',
                Par 2, Txt '' AND (''] @ or_TRUE expr @ [Txt '')''], args))"

text \<open>\<^verbatim>\<open>CompileProfileRows\<close>, the projection for reverse ETL.\<close>

fun profileColumns :: "string list \<Rightarrow> string list \<Rightarrow> string list result" where
  "profileColumns [] seen = Inr []"
| "profileColumns (field # flds) seen =
     (if \<not> field_safe field then Inl (ErrNew (''unsafe or invalid mapped profile field name: '' @ field))
      else if field \<in> set seen then Inl (ErrNew (''duplicate mapped profile field: '' @ field))
      else case profileColumns flds (field # seen) of
        Inl err \<Rightarrow> Inl err
      | Inr columns \<Rightarrow>
          Inr ((if field \<in> set [''id'', ''external_id'', ''anonymous_id'', ''created_at'', ''updated_at''] then field
                else ''attributes->>'' @ sq field @ '' AS '' @ field) # columns))"

fun join_str :: "string \<Rightarrow> string list \<Rightarrow> string" where
  "join_str sep [] = []"
| "join_str sep [s] = s"
| "join_str sep (s # t # ss) = s @ sep @ join_str sep (t # ss)"

definition CompileProfileRows :: "node \<Rightarrow> string list \<Rightarrow> (sql_tok list \<times> sql_arg list) result" where
  "CompileProfileRows n flds =
     (if flds = [] then Inl (ErrNew ''reverse-ETL projection requires at least one field'')
      else case profileColumns flds [] of
        Inl err \<Rightarrow> Inl err
      | Inr columns \<Rightarrow>
          (case compileProfileNode n [] of
             Inl err \<Rightarrow> Inl err
           | Inr (expr, args) \<Rightarrow>
               Inr ([Txt (''SELECT '' @ join_str '', '' columns @ '' FROM profiles WHERE tenant_id=''), Par 1,
                     Txt '' AND workspace_id='', Par 2, Txt '' AND (''] @ or_TRUE expr @ [Txt '')''], args)))"

text \<open>The replacement of \<^verbatim>\<open>CompileProfileSingle\<close>: placeholders after the second move up by one.\<close>

fun shift_tok :: "sql_tok \<Rightarrow> sql_tok" where
  "shift_tok (Par n) = Par (if n > 2 then n + 1 else n)"
| "shift_tok (Txt s) = Txt s"

definition CompileProfileSingle :: "node \<Rightarrow> (sql_tok list \<times> sql_arg list) result" where
  "CompileProfileSingle n =
     (case compileProfileNode n [] of
        Inl err \<Rightarrow> Inl err
      | Inr (expr, args) \<Rightarrow>
          Inr ([Txt ''SELECT 1 FROM profiles WHERE tenant_id='', Par 1, Txt '' AND workspace_id='', Par 2,
                Txt '' AND id='', Par 3, Txt '' AND (''] @ map shift_tok (or_TRUE expr) @ [Txt '')''], args))"

definition CompileConsent :: "string \<Rightarrow> string \<Rightarrow> string \<Rightarrow> string \<Rightarrow> string \<Rightarrow> sql_tok list \<times> sql_arg list" where
  "CompileConsent channel topic st tenantID appID =
     ([Txt ''SELECT profile_id FROM ( SELECT DISTINCT ON (profile_id) profile_id, state FROM consent_ledger WHERE tenant_id = '',
       Par 1, Txt '' AND app_id = '', Par 2, Txt '' AND channel = '', Par 3, Txt '' AND topic = '', Par 4,
       Txt '' ORDER BY profile_id, occurred_at DESC ) latest WHERE state = '', Par 5],
      map ArgStr [tenantID, appID, channel, topic, st])"

definition CompileConsentSingle ::
  "string \<Rightarrow> string \<Rightarrow> string \<Rightarrow> string \<Rightarrow> string \<Rightarrow> string \<Rightarrow> sql_tok list \<times> sql_arg list" where
  "CompileConsentSingle channel topic st tenantID appID profileID =
     ([Txt ''SELECT 1 FROM ( SELECT state FROM consent_ledger WHERE tenant_id = '', Par 1, Txt '' AND app_id = '',
       Par 2, Txt '' AND profile_id = '', Par 3, Txt '' AND channel = '', Par 4, Txt '' AND topic = '', Par 5,
       Txt '' ORDER BY occurred_at DESC LIMIT 1 ) latest WHERE state = '', Par 6],
      map ArgStr [tenantID, appID, profileID, channel, topic, st])"

text \<open>ClickHouse statements use positional question marks.\<close>

definition min_count :: "int \<Rightarrow> int" where
  "min_count mc = (if mc \<le> 0 then 1 else mc)"

definition CompileClickHouse :: "string \<Rightarrow> int \<Rightarrow> int \<Rightarrow> string \<Rightarrow> string \<times> sql_arg list" where
  "CompileClickHouse ety days mc tenantID =
     (''SELECT subject_hash FROM behavior_events WHERE tenant_id = ? AND event_type = ? AND occurred_at >= now() - INTERVAL ? DAY GROUP BY subject_hash HAVING count() >= ?'',
      [ArgStr tenantID, ArgStr ety, ArgInt days, ArgInt (min_count mc)])"

definition CompileClickHouseSingle ::
  "string \<Rightarrow> int \<Rightarrow> int \<Rightarrow> string \<Rightarrow> string \<Rightarrow> string \<Rightarrow> string \<Rightarrow> string \<times> sql_arg list" where
  "CompileClickHouseSingle ety days mc tenantID workspaceID appID subjectHash =
     (''SELECT 1 FROM behavior_events WHERE tenant_id = ? AND workspace_id = ? AND app_id = ? AND event_type = ? AND occurred_at >= now() - INTERVAL ? DAY AND subject_hash = ? GROUP BY subject_hash HAVING count() >= ?'',
      [ArgStr tenantID, ArgStr workspaceID, ArgStr appID, ArgStr ety, ArgInt days, ArgStr subjectHash,
       ArgInt (min_count mc)])"

subsection \<open>The compiled text\<close>

fun pars :: "sql_tok list \<Rightarrow> nat set" where
  "pars [] = {}"
| "pars (Par n # toks) = insert n (pars toks)"
| "pars (Txt s # toks) = pars toks"

lemma pars_append [simp]: "pars (xs @ ys) = pars xs \<union> pars ys"
  by (induction xs rule: pars.induct) auto

text \<open>
  Text that cannot be mistaken for anything else: it has no placeholder sign, so that the rewriting
  of placeholders touches placeholders only, and its quotes are balanced, so that it can neither
  open nor close a string literal around it.
\<close>

fun tok_ok :: "sql_tok \<Rightarrow> bool" where
  "tok_ok (Par n) = True"
| "tok_ok (Txt s) = (CHR ''$'' \<notin> set s \<and> even (length (filter (\<lambda>c. c = CHR 0x27) s)))"

lemma field_safe_clean: "field_safe f \<Longrightarrow> CHR ''$'' \<notin> set f \<and> filter (\<lambda>c. c = CHR 0x27) f = []"
proof -
  have "\<not> safe_char (CHR ''$'')" "\<not> safe_char (CHR 0x27)" by (simp_all add: safe_char_def is_digit_def)
  then show "field_safe f \<Longrightarrow> CHR ''$'' \<notin> set f \<and> filter (\<lambda>c. c = CHR 0x27) f = []"
    by (auto simp: field_safe_def list_all_iff filter_empty_conv)
qed

lemma attr_test_ok:
  assumes "field_safe f" and "pre = [] \<or> pre = ''c.''" and "attr_test pre f op n = Some toks"
  shows "pars toks = {n} \<and> list_all tok_ok toks"
  using assms field_safe_clean [OF assms(1)]
  by (auto simp: attr_test_def sq_def split: if_splits)

lemma join_toks_ok:
  "(\<forall>p \<in> set parts. list_all tok_ok p) \<Longrightarrow> sep = '' AND '' \<or> sep = '' OR '' \<Longrightarrow>
   pars (join_toks sep parts) = (\<Union>p \<in> set parts. pars p) \<and> list_all tok_ok (join_toks sep parts)"
  by (induction sep parts rule: join_toks.induct) auto

lemma one_par: "3 \<le> k \<Longrightarrow> {k} - {1, 2} = {k..<k + 1 :: nat}"
  and three_pars: "3 \<le> k \<Longrightarrow> {k, k + 1, k + 2} - {1, 2} = {k..<k + 3 :: nat}"
  by auto

lemma compile_attribute_ok:
  assumes "compileProfileNode (NProfileAttribute field op val) args = Inr (toks, args')"
  shows "args' = args @ [ArgAny val] \<and> pars toks = {length args + 3} \<and> list_all tok_ok toks"
proof -
  from assms have safe: "field_safe field" by (simp split: if_splits)
  from field_safe_clean [OF safe] have clean: "CHR ''$'' \<notin> set field" "filter (\<lambda>c. c = CHR 0x27) field = []"
    by auto
  show ?thesis
  proof (cases "op = ''greater_than'' \<or> op = ''less_than''")
    case True
    with assms safe clean show ?thesis by (elim disjE) (simp_all add: Let_def sq_def, auto)
  next
    case False
    with assms safe obtain ts where "attr_test [] field op (length args + 3) = Some ts"
      "toks = ts" "args' = args @ [ArgAny val]"
      by (simp add: Let_def numeral_eq_Suc split: option.splits)
    with attr_test_ok [OF safe] show ?thesis by blast
  qed
qed

lemma compile_consent_ok:
  assumes "compileProfileNode (NConsent channel topic st) args = Inr (toks, args')"
  shows "args' = args @ [ArgStr channel, ArgStr topic, ArgStr st] \<and>
    pars toks = {length args + 3, length args + 3 + 1, length args + 3 + 2} \<and> list_all tok_ok toks"
proof -
  from assms show ?thesis
    by (simp add: Let_def) (elim conjE, hypsubst, simp add: eval_nat_numeral insert_commute)
qed

lemma compile_score_ok:
  assumes "compileProfileNode (NScore model score_name op val) args = Inr (toks, args')"
  shows "args' = args @ [ArgStr model, ArgStr score_name, ArgNum val] \<and>
    pars toks - {1, 2} = {length args + 3, length args + 3 + 1, length args + 3 + 2} - {1, 2} \<and> list_all tok_ok toks"
proof -
  from assms obtain opSql where op: "score_operator op = Some opSql" by (simp split: if_splits option.splits)
  then have "opSql \<in> {''>'', ''<'', ''=''}" by (auto simp: score_operator_def split: if_splits)
  then have "tok_ok (Txt ('' AND value '' @ opSql @ '' ''))" by auto
  with assms op show ?thesis by (simp split: if_splits) auto
qed

lemma compile_company_ok:
  assumes "compileProfileNode (NCompany field op val) args = Inr (toks, args')"
  shows "args' = args @ [ArgAny val] \<and> pars toks = {1, 2, length args + 3} \<and> list_all tok_ok toks"
proof -
  from assms have safe: "field_safe field" by (simp split: if_splits)
  with assms obtain ts where ts: "attr_test ''c.'' field op (length args + 3) = Some ts"
    by (simp add: Let_def numeral_eq_Suc split: option.splits)
  with attr_test_ok [OF safe _ ts] have "pars ts = {length args + 3}" "list_all tok_ok ts" by blast+
  with assms safe ts show ?thesis
    by (simp add: Let_def numeral_eq_Suc) (elim conjE, hypsubst, simp add: insert_commute)
qed

lemma wrap_toks_ok:
  assumes "\<forall>p \<in> set parts. list_all tok_ok p" and "sep = '' AND '' \<or> sep = '' OR ''"
    and "toks = (if parts = [] then [] else [Txt ''(''] @ join_toks sep parts @ [Txt '')''])"
  shows "pars toks = (\<Union>p \<in> set parts. pars p) \<and> list_all tok_ok toks"
  using join_toks_ok [OF assms(1,2)] assms(3) by simp

text \<open>
  The compiler appends its arguments to the given ones, refers to every argument it appended by its
  position (counting the tenant and the workspace as the first two parameters), and refers to
  nothing else but those two.
\<close>

lemma compile_ok:
  "compileProfileNode n args = Inr (toks, args') \<Longrightarrow>
     (\<exists>new. args' = args @ new) \<and> pars toks - {1, 2} = {length args + 3..<length args' + 3} \<and> list_all tok_ok toks"
  "compileParts ns args = Inr (parts, args') \<Longrightarrow>
     (\<exists>new. args' = args @ new) \<and> (\<Union>p \<in> set parts. pars p) - {1, 2} = {length args + 3..<length args' + 3} \<and>
     (\<forall>p \<in> set parts. list_all tok_ok p)"
proof (induction n args and ns args arbitrary: toks args' and parts args'
    rule: compileProfileNode_compileParts.induct)
  case (2 cond conds args)
  then obtain part args1 ps where c: "compileProfileNode cond args = Inr (part, args1)"
    "compileParts conds args1 = Inr (ps, args')" "parts = (if part \<noteq> [] then part # ps else ps)"
    by (auto split: sum.splits prod.splits)
  from 2(1) [OF c(1)] 2(2) [OF c(1) refl c(2)] obtain n1 n2 where
    "args1 = args @ n1" "args' = args1 @ n2" "pars part - {1, 2} = {length args + 3..<length args1 + 3}"
    "(\<Union>p \<in> set ps. pars p) - {1, 2} = {length args1 + 3..<length args' + 3}"
    and ok: "list_all tok_ok part" "\<forall>p \<in> set ps. list_all tok_ok p" by blast
  moreover have "(\<Union>p \<in> set parts. pars p) = pars part \<union> (\<Union>p \<in> set ps. pars p)" using c(3) by auto
  ultimately have "(\<Union>p \<in> set parts. pars p) - {1, 2} = {length args + 3..<length args' + 3}"
    by (auto simp: Un_Diff)
  then show ?case using ok c(3) \<open>args1 = args @ n1\<close> \<open>args' = args1 @ n2\<close> by simp
next
  case (3 conds args)
  then obtain parts where p: "compileParts conds args = Inr (parts, args')"
    "toks = (if parts = [] then [] else [Txt ''(''] @ join_toks '' AND '' parts @ [Txt '')''])"
    by (auto split: sum.splits prod.splits)
  from 3(1) [OF p(1)] wrap_toks_ok [OF _ _ p(2)] show ?case by simp
next
  case (4 conds args)
  then obtain parts where p: "compileParts conds args = Inr (parts, args')"
    "toks = (if parts = [] then [] else [Txt ''(''] @ join_toks '' OR '' parts @ [Txt '')''])"
    by (auto split: sum.splits prod.splits)
  from 4(1) [OF p(1)] wrap_toks_ok [OF _ _ p(2)] show ?case by simp
next
  case (5 cond args)
  then obtain part where p: "compileProfileNode cond args = Inr (part, args')"
    "toks = (if part = [] then [] else [Txt ''NOT (''] @ part @ [Txt '')''])"
    by (auto split: sum.splits prod.splits)
  from 5(1) [OF p(1)] p(2) show ?case by (cases "part = []") simp_all
next
  case (6 field op val args)
  from compile_attribute_ok [OF 6] one_par [of "length args + 3"] show ?case by simp
next
  case (7 channel topic st args)
  from compile_consent_ok [OF 7] three_pars [of "length args + 3"] show ?case by simp
next
  case (8 model score_name op val args)
  from compile_score_ok [OF 8] three_pars [of "length args + 3"] show ?case by simp
next
  case (9 field op val args)
  from compile_company_ok [OF 9] one_par [of "length args + 3"] show ?case by auto
qed simp_all

section \<open>Evaluation for one profile\<close>

definition QueryProfileMatches :: "string \<Rightarrow> sql_arg list \<Rightarrow> bool call" where
  "QueryProfileMatches sql args = query (\<lambda>w. Inr (w_sql w sql args \<noteq> []))"

definition QueryConsentMatches :: "string \<Rightarrow> sql_arg list \<Rightarrow> bool call" where
  "QueryConsentMatches sql args = query (\<lambda>w. Inr (w_sql w sql args \<noteq> []))"

definition ch_available :: "bool prog" where
  "ch_available = State (\<lambda>w. (w_ch w \<noteq> None, w))"

definition ch_rows :: "world \<Rightarrow> string \<Rightarrow> sql_arg list \<Rightarrow> string list" where
  "ch_rows w sql args = (case w_ch w of None \<Rightarrow> [] | Some q \<Rightarrow> q sql args)"

definition QueryClickHouseMatches :: "string \<Rightarrow> sql_arg list \<Rightarrow> bool call" where
  "QueryClickHouseMatches sql args = do {
     connected \<leftarrow> ch_available;
     if \<not> connected then failed (ErrNew ''ClickHouse connection not available'')
     else query (\<lambda>w. Inr (ch_rows w sql args \<noteq> [])) }"

definition profile_in :: "string \<Rightarrow> string \<Rightarrow> string \<Rightarrow> profile_row \<Rightarrow> bool" where
  "profile_in tenantID workspaceID profileID r \<longleftrightarrow>
     pr_TenantID r = tenantID \<and> pr_WorkspaceID r = workspaceID \<and> pr_ID r = profileID"

definition GetProfileExternalID :: "string \<Rightarrow> string \<Rightarrow> string \<Rightarrow> string call" where
  "GetProfileExternalID tenantID workspaceID profileID = query (\<lambda>w.
     case find (profile_in tenantID workspaceID profileID) (w_profiles w) of
       None \<Rightarrow> Inr []
     | Some r \<Rightarrow> Inr (coalesce (pr_External r)))"

definition subject_hash :: "string \<Rightarrow> string" where
  "subject_hash extID = hex_digest (sha256 extID)"

fun Matches :: "string \<Rightarrow> string \<Rightarrow> string \<Rightarrow> string \<Rightarrow> node \<Rightarrow> bool call"
  and MatchesAll :: "string \<Rightarrow> string \<Rightarrow> string \<Rightarrow> string \<Rightarrow> node list \<Rightarrow> bool call"
  and MatchesAny :: "string \<Rightarrow> string \<Rightarrow> string \<Rightarrow> string \<Rightarrow> node list \<Rightarrow> bool call" where
  "MatchesAll t ws app pid [] = ret (Inr True)"
| "MatchesAll t ws app pid (cond # conds) =
     attempt (Matches t ws app pid cond) failed
       (\<lambda>matched. if \<not> matched then ret (Inr False) else MatchesAll t ws app pid conds)"
| "MatchesAny t ws app pid [] = ret (Inr False)"
| "MatchesAny t ws app pid (cond # conds) =
     attempt (Matches t ws app pid cond) failed
       (\<lambda>matched. if matched then ret (Inr True) else MatchesAny t ws app pid conds)"
| "Matches t ws app pid (NAnd conds) = MatchesAll t ws app pid conds"
| "Matches t ws app pid (NOr conds) = MatchesAny t ws app pid conds"
| "Matches t ws app pid (NNot cond) =
     attempt (Matches t ws app pid cond) failed (\<lambda>matched. ret (Inr (\<not> matched)))"
| "Matches t ws app pid (NProfileAttribute field op val) =
     (case CompileProfileSingle (NProfileAttribute field op val) of
        Inl err \<Rightarrow> failed err
      | Inr (sql, args) \<Rightarrow> QueryProfileMatches (sql_text sql) (map ArgStr [t, ws, pid] @ args))"
| "Matches t ws app pid (NScore model score_name op val) =
     (case CompileProfileSingle (NScore model score_name op val) of
        Inl err \<Rightarrow> failed err
      | Inr (sql, args) \<Rightarrow> QueryProfileMatches (sql_text sql) (map ArgStr [t, ws, pid] @ args))"
| "Matches t ws app pid (NConsent channel topic st) =
     (case CompileConsentSingle channel topic st t app pid of
        (sql, args) \<Rightarrow> QueryConsentMatches (sql_text sql) args)"
| "Matches t ws app pid (NEventHistory ety op days mc) =
     attempt (GetProfileExternalID t ws pid) failed (\<lambda>extID.
       if extID = [] then ret (Inr (op = ''has_not_occurred''))
       else case CompileClickHouseSingle ety days mc t ws app (subject_hash extID) of
         (sql, args) \<Rightarrow>
           attempt (QueryClickHouseMatches sql args) failed (\<lambda>matched.
             if op = ''has_not_occurred'' then ret (Inr (\<not> matched)) else ret (Inr matched)))"
| "Matches t ws app pid (NCompany field op val) = failed (ErrNew ''unknown AST node type: *audience.Company'')"

text \<open>\<^verbatim>\<open>len(dsl) == 0 || string(dsl) == "{}" || string(dsl) == "null"\<close>\<close>

definition no_dsl :: "raw \<Rightarrow> bool" where
  "no_dsl dsl \<longleftrightarrow> dsl = None \<or> dsl = Some (JObj []) \<or> dsl = Some JNull"

definition EvaluateAudience :: "principal \<Rightarrow> string \<Rightarrow> raw \<Rightarrow> bool call" where
  "EvaluateAudience p profileID dsl =
     (if no_dsl dsl then ret (Inr True)
      else case Parse dsl of
        Inl err \<Rightarrow> wrapped ''parse audience dsl'' err
      | Inr n \<Rightarrow> Matches (p_TenantID p) (p_WorkspaceID p) (p_AppID p) profileID n)"

section \<open>Segments\<close>

definition GetSegment :: "principal \<Rightarrow> string \<Rightarrow> segment call" where
  "GetSegment p i = query (\<lambda>w.
     case find (\<lambda>s. sg_TenantID s = p_TenantID p \<and> sg_WorkspaceID s = p_WorkspaceID p \<and> sg_ID s = i) (w_segments w) of
       None \<Rightarrow> Inl ErrNotFound
     | Some s \<Rightarrow> Inr s)"

definition member_of :: "string \<Rightarrow> string \<Rightarrow> segment_member \<Rightarrow> bool" where
  "member_of tenantID segmentID m \<longleftrightarrow> sm_TenantID m = tenantID \<and> sm_SegmentID m = segmentID"

definition IsProfileInSegment :: "principal \<Rightarrow> string \<Rightarrow> string \<Rightarrow> bool call" where
  "IsProfileInSegment p segmentID profileID =
     attempt (GetSegment p segmentID) failed (\<lambda>seg.
     attempt (if \<not> no_dsl (sg_DSL seg) then EvaluateAudience p profileID (sg_DSL seg) else ret (Inr False))
       failed (\<lambda>matched.
     attempt (query (\<lambda>w. Inr (find (\<lambda>m. member_of (p_TenantID p) segmentID m \<and> sm_ProfileID m = profileID) (w_members w))))
       failed (\<lambda>row. ret (Inr (case row of
           None \<Rightarrow> matched
         | Some m \<Rightarrow> if sm_Membership m = ''include'' then True
                      else if sm_Membership m = ''exclude'' then False else matched)))))"

text \<open>
  \<^verbatim>\<open>resolveSegmentIDs\<close>. The profiles of the workspace are fetched page by page, keyed on the last
  identifier of the page before. A Go set is the list of its elements.
\<close>

definition profileResolutionPageSize :: nat where "profileResolutionPageSize = 1000"

definition workspace_profiles :: "world \<Rightarrow> string \<Rightarrow> string \<Rightarrow> profile list" where
  "workspace_profiles w tenantID workspaceID =
     sort_key pf_ID (map pr_Profile (filter (\<lambda>r. pr_TenantID r = tenantID \<and> pr_WorkspaceID r = workspaceID) (w_profiles w)))"

definition profile_page :: "string \<Rightarrow> string \<Rightarrow> string option \<Rightarrow> profile list call" where
  "profile_page tenantID workspaceID lastID = query (\<lambda>w. Inr (take profileResolutionPageSize
     (filter (\<lambda>f. case lastID of None \<Rightarrow> True | Some l \<Rightarrow> l < pf_ID f) (workspace_profiles w tenantID workspaceID))))"

fun profile_pages :: "nat \<Rightarrow> string \<Rightarrow> string \<Rightarrow> string option \<Rightarrow> profile list \<Rightarrow> profile list call" where
  "profile_pages 0 tenantID workspaceID lastID seen = ret (Inr seen)"
| "profile_pages (Suc fuel) tenantID workspaceID lastID seen =
     attempt (profile_page tenantID workspaceID lastID) failed (\<lambda>page.
       if length page < profileResolutionPageSize then ret (Inr (seen @ page))
       else profile_pages fuel tenantID workspaceID (Some (pf_ID (last page))) (seen @ page))"

text \<open>A page is full at most once for every thousand profiles, so this many rounds are enough.\<close>

definition page_fuel :: "world \<Rightarrow> nat" where
  "page_fuel w = Suc (length (w_profiles w))"

definition all_profiles :: "string \<Rightarrow> string \<Rightarrow> profile list call" where
  "all_profiles tenantID workspaceID =
     State_Monad.bind (State (\<lambda>w. (page_fuel w, w))) (\<lambda>n. profile_pages n tenantID workspaceID None [])"

text \<open>The maps from external identifiers and from their hashes to profiles; later entries win.\<close>

definition externalIDToProfileID :: "profile list \<Rightarrow> string \<rightharpoonup> string" where
  "externalIDToProfileID fs = map_of (rev (map (\<lambda>f. (pf_ExternalID f, pf_ID f)) (filter (\<lambda>f. pf_ExternalID f \<noteq> []) fs)))"

definition hashToProfileID :: "profile list \<Rightarrow> string \<rightharpoonup> string" where
  "hashToProfileID fs =
     map_of (rev (map (\<lambda>f. (subject_hash (pf_ExternalID f), pf_ID f)) (filter (\<lambda>f. pf_ExternalID f \<noteq> []) fs)))"

definition translate :: "(string \<rightharpoonup> string) \<Rightarrow> string list \<Rightarrow> string list" where
  "translate m rows = remdups (List.map_filter m rows)"

type_synonym leg_counts = "(string \<times> nat) list"

definition add_count :: "string \<Rightarrow> nat \<Rightarrow> leg_counts \<Rightarrow> leg_counts" where
  "add_count leg n counts = (leg, n + (case map_of counts leg of None \<Rightarrow> 0 | Some m \<Rightarrow> m)) # filter (\<lambda>(k, _). k \<noteq> leg) counts"

fun evalSet :: "principal \<Rightarrow> profile list \<Rightarrow> node \<Rightarrow> leg_counts \<Rightarrow> (string list \<times> leg_counts) call"
  and evalAnd :: "principal \<Rightarrow> profile list \<Rightarrow> node list \<Rightarrow> string list option \<Rightarrow> leg_counts \<Rightarrow> (string list \<times> leg_counts) call"
  and evalOr :: "principal \<Rightarrow> profile list \<Rightarrow> node list \<Rightarrow> string list \<Rightarrow> leg_counts \<Rightarrow> (string list \<times> leg_counts) call" where
  "evalAnd p fs [] res counts = ret (Inr (case res of None \<Rightarrow> [] | Some ids \<Rightarrow> ids, counts))"
| "evalAnd p fs (cond # conds) res counts =
     attempt (evalSet p fs cond counts) failed (\<lambda>(ids, counts').
       evalAnd p fs conds (Some (case res of None \<Rightarrow> ids | Some rs \<Rightarrow> filter (\<lambda>k. k \<in> set ids) rs)) counts')"
| "evalOr p fs [] res counts = ret (Inr (res, counts))"
| "evalOr p fs (cond # conds) res counts =
     attempt (evalSet p fs cond counts) failed (\<lambda>(ids, counts').
       evalOr p fs conds (res @ filter (\<lambda>k. k \<notin> set res) ids) counts')"
| "evalSet p fs (NAnd conds) counts = evalAnd p fs conds None counts"
| "evalSet p fs (NOr conds) counts = evalOr p fs conds [] counts"
| "evalSet p fs (NNot cond) counts =
     attempt (evalSet p fs cond counts) failed (\<lambda>(ids, counts').
       ret (Inr (filter (\<lambda>k. k \<notin> set ids) (map pf_ID fs), counts')))"
| "evalSet p fs (NProfileAttribute field op val) counts =
     (case CompileProfile (NProfileAttribute field op val) of
        Inl err \<Rightarrow> failed err
      | Inr (sql, args) \<Rightarrow>
          attempt (query (\<lambda>w. Inr (w_sql w (sql_text sql) (map ArgStr [p_TenantID p, p_WorkspaceID p] @ args)))) failed
            (\<lambda>rows. let ids = translate (externalIDToProfileID fs) rows
                    in ret (Inr (ids, add_count ''profile_attributes'' (length ids) counts))))"
| "evalSet p fs (NScore model score_name op val) counts =
     (case CompileProfile (NScore model score_name op val) of
        Inl err \<Rightarrow> failed err
      | Inr (sql, args) \<Rightarrow>
          attempt (query (\<lambda>w. Inr (w_sql w (sql_text sql) (map ArgStr [p_TenantID p, p_WorkspaceID p] @ args)))) failed
            (\<lambda>rows. let ids = translate (externalIDToProfileID fs) rows
                    in ret (Inr (ids, add_count ''scores'' (length ids) counts))))"
| "evalSet p fs (NConsent channel topic st) counts =
     (case CompileConsent channel topic st (p_TenantID p) (p_AppID p) of
        (sql, args) \<Rightarrow>
          attempt (query (\<lambda>w. Inr (w_sql w (sql_text sql) args))) failed
            (\<lambda>rows. let ids = remdups (filter (\<lambda>k. k \<in> set (map pf_ID fs)) rows)
                    in ret (Inr (ids, add_count ''consent'' (length ids) counts))))"
| "evalSet p fs (NEventHistory ety op days mc) counts = do {
     connected \<leftarrow> ch_available;
     if \<not> connected then failed (ErrNew ''ClickHouse connection not available for event-history evaluation'')
     else case CompileClickHouse ety days mc (p_TenantID p) of
       (sql, args) \<Rightarrow>
         attempt (query (\<lambda>w. Inr (ch_rows w sql args))) failed (\<lambda>rows.
           let matching = translate (hashToProfileID fs) rows;
               ids = (if op = ''has_not_occurred'' then filter (\<lambda>k. k \<notin> set matching) (map pf_ID fs) else matching)
           in ret (Inr (ids, add_count ''event_history'' (length ids) counts))) }"
| "evalSet p fs (NCompany field op val) counts = failed (ErrNew ''unknown AST node type: *audience.Company'')"

text \<open>The manual members, applied in the order of the rows.\<close>

fun apply_members :: "string list \<Rightarrow> segment_member list \<Rightarrow> string list \<Rightarrow> string list" where
  "apply_members known [] ids = ids"
| "apply_members known (m # ms) ids =
     apply_members known ms
       (if sm_ProfileID m \<notin> set known then ids
        else if sm_Membership m = ''exclude'' then filter (\<lambda>k. k \<noteq> sm_ProfileID m) ids
        else if sm_Membership m = ''include'' \<and> sm_ProfileID m \<notin> set ids then ids @ [sm_ProfileID m]
        else ids)"

definition resolveSegmentIDs :: "principal \<Rightarrow> segment \<Rightarrow> (string list \<times> leg_counts) call" where
  "resolveSegmentIDs p seg =
     (case (if no_dsl (sg_DSL seg) then Inr None else map_sum id Some (Parse (sg_DSL seg))) of
        Inl err \<Rightarrow> failed err
      | Inr node_opt \<Rightarrow>
          attempt (all_profiles (p_TenantID p) (p_WorkspaceID p)) failed (\<lambda>fs.
          attempt (case node_opt of None \<Rightarrow> ret (Inr ([], [])) | Some n \<Rightarrow> evalSet p fs n []) failed (\<lambda>(eligible, counts).
          attempt (query (\<lambda>w. Inr (filter (member_of (p_TenantID p) (sg_ID seg)) (w_members w)))) failed (\<lambda>ms.
            ret (Inr (apply_members (map pf_ID fs) ms eligible, counts))))))"

definition map_order :: "string list \<Rightarrow> string list prog" where
  "map_order keys = State (\<lambda>w. (w_order w keys, w))"

definition PreviewSegment :: "principal \<Rightarrow> string \<Rightarrow> (nat \<times> leg_counts) call" where
  "PreviewSegment p i =
     attempt (GetSegment p i) failed (\<lambda>seg.
     attempt (resolveSegmentIDs p seg) failed (\<lambda>(eligible, counts). ret (Inr (length eligible, counts))))"

definition ResolveSegment :: "principal \<Rightarrow> string \<Rightarrow> string list call" where
  "ResolveSegment p i =
     attempt (GetSegment p i) failed (\<lambda>seg.
     attempt (resolveSegmentIDs p seg) failed (\<lambda>(eligible, counts).
       State_Monad.bind (map_order eligible) (\<lambda>out. ret (Inr out))))"

section \<open>Evaluation is the boolean reading of the tree\<close>

text \<open>Audience evaluation only reads.\<close>

lemma read_only_queries:
  "state_io_rel read_only (QueryProfileMatches sql args)"
  "state_io_rel read_only (QueryConsentMatches sql args)"
  "state_io_rel read_only ch_available"
  "state_io_rel read_only (QueryClickHouseMatches csql args)"
  "state_io_rel read_only (GetProfileExternalID t ws pid)"
  by (auto simp: QueryProfileMatches_def QueryConsentMatches_def QueryClickHouseMatches_def GetProfileExternalID_def
      ch_available_def state_io_rel_def run_query)

lemma read_only_Matches:
  "state_io_rel read_only (Matches t ws app pid n)"
  "state_io_rel read_only (MatchesAll t ws app pid ns)"
  "state_io_rel read_only (MatchesAny t ws app pid ns)"
  by (induction t ws app pid n and t ws app pid ns and t ws app pid ns rule: Matches_MatchesAll_MatchesAny.induct)
    (auto intro!: ro.store_rules read_only_queries split: sum.splits prod.splits)

lemma read_only_EvaluateAudience: "state_io_rel read_only (EvaluateAudience p pid dsl)"
  unfolding EvaluateAudience_def by (intro ro.store_rules read_only_Matches)

lemma read_only_IsProfileInSegment: "state_io_rel read_only (IsProfileInSegment p sid pid)"
  unfolding IsProfileInSegment_def GetSegment_def by (intro ro.store_rules read_only_EvaluateAudience)

text \<open>What a condition means for a profile in a given world.\<close>

definition history_sat :: "world \<Rightarrow> string \<Rightarrow> string \<Rightarrow> string \<Rightarrow> string \<Rightarrow> string \<Rightarrow> int \<Rightarrow> int \<Rightarrow> bool" where
  "history_sat w t ws app pid ety days mc =
     (case find (profile_in t ws pid) (w_profiles w) of
        None \<Rightarrow> False
      | Some r \<Rightarrow> coalesce (pr_External r) \<noteq> [] \<and>
          (case CompileClickHouseSingle ety days mc t ws app (subject_hash (coalesce (pr_External r))) of
             (sql, args) \<Rightarrow> ch_rows w sql args \<noteq> []))"

definition profile_sat :: "world \<Rightarrow> string \<Rightarrow> string \<Rightarrow> string \<Rightarrow> node \<Rightarrow> bool" where
  "profile_sat w t ws pid n =
     (case CompileProfileSingle n of
        Inl err \<Rightarrow> False
      | Inr (sql, args) \<Rightarrow> w_sql w (sql_text sql) (map ArgStr [t, ws, pid] @ args) \<noteq> [])"

fun sat :: "world \<Rightarrow> string \<Rightarrow> string \<Rightarrow> string \<Rightarrow> string \<Rightarrow> node \<Rightarrow> bool" where
  "sat w t ws app pid (NAnd ns) = list_all (sat w t ws app pid) ns"
| "sat w t ws app pid (NOr ns) = list_ex (sat w t ws app pid) ns"
| "sat w t ws app pid (NNot n) = (\<not> sat w t ws app pid n)"
| "sat w t ws app pid (NEventHistory ety op days mc) =
     (if op = ''has_not_occurred'' then \<not> history_sat w t ws app pid ety days mc
      else history_sat w t ws app pid ety days mc)"
| "sat w t ws app pid (NConsent channel topic st) =
     (case CompileConsentSingle channel topic st t app pid of (sql, args) \<Rightarrow> w_sql w (sql_text sql) args \<noteq> [])"
| "sat w t ws app pid (NCompany field op val) = False"
| "sat w t ws app pid n = profile_sat w t ws pid n"

lemma leaf_sat_tick [simp]:
  "profile_sat (w\<lparr>w_tick := k\<rparr>) t ws pid n = profile_sat w t ws pid n"
  "history_sat (w\<lparr>w_tick := k\<rparr>) t ws app pid ety days mc = history_sat w t ws app pid ety days mc"
  by (auto simp: profile_sat_def history_sat_def ch_rows_def split: sum.splits option.splits prod.splits)

lemma sat_tick [simp]: "sat (w\<lparr>w_tick := k\<rparr>) t ws app pid n = sat w t ws app pid n"
  by (induction w t ws app pid n rule: sat.induct)
    (simp_all add: list_all_iff list_ex_iff)

lemma sat_read_only: "read_only w w' \<Longrightarrow> sat w' t ws app pid n = sat w t ws app pid n"
  by (auto simp: read_only_def)

lemma Matches_sound:
  "run_state (Matches t ws app pid n) w = (Inr b, w') \<Longrightarrow> b = sat w t ws app pid n"
  "run_state (MatchesAll t ws app pid ns) w = (Inr b, w') \<Longrightarrow> b = list_all (sat w t ws app pid) ns"
  "run_state (MatchesAny t ws app pid ns) w = (Inr b, w') \<Longrightarrow> b = list_ex (sat w t ws app pid) ns"
proof (induction t ws app pid n and t ws app pid ns and t ws app pid ns
    arbitrary: w b w' and w b w' and w b w' rule: Matches_MatchesAll_MatchesAny.induct)
  case (2 t ws app pid cond conds)
  from 2(3) obtain b1 w1 where m: "run_state (Matches t ws app pid cond) w = (Inr b1, w1)"
    and rest: "run_state (if \<not> b1 then ret (Inr False) else MatchesAll t ws app pid conds) w1 = (Inr b, w')"
    by (auto simp: run_attempt split: sum.splits prod.splits)
  have "sat w1 t ws app pid = sat w t ws app pid"
    using state_io_relD [OF read_only_Matches(1) m] by (simp add: sat_read_only fun_eq_iff)
  with 2(1) [OF m] 2(2) [of b1 w1 b w'] rest show ?case by (cases b1) auto
next
  case (4 t ws app pid cond conds)
  from 4(3) obtain b1 w1 where m: "run_state (Matches t ws app pid cond) w = (Inr b1, w1)"
    and rest: "run_state (if b1 then ret (Inr True) else MatchesAny t ws app pid conds) w1 = (Inr b, w')"
    by (auto simp: run_attempt split: sum.splits prod.splits)
  have "sat w1 t ws app pid = sat w t ws app pid"
    using state_io_relD [OF read_only_Matches(1) m] by (simp add: sat_read_only fun_eq_iff)
  with 4(1) [OF m] 4(2) [of b1 w1 b w'] rest show ?case by (cases b1) auto
next
  case (7 t ws app pid cond)
  then show ?case by (fastforce simp: run_attempt split: sum.splits prod.splits)
next
  case (11 t ws app pid ety op days mc)
  then show ?case
    by (auto simp: run_attempt run_query GetProfileExternalID_def QueryClickHouseMatches_def ch_available_def
        history_sat_def ch_rows_def ticked_def split: sum.splits prod.splits if_splits option.splits)
qed (auto simp: QueryProfileMatches_def QueryConsentMatches_def run_query ticked_def profile_sat_def
      split: if_splits sum.splits prod.splits)

text \<open>The conditions the evaluator handles: compilable leaves and no company condition.\<close>

fun evaluable :: "node \<Rightarrow> bool" where
  "evaluable (NAnd ns) = list_all evaluable ns"
| "evaluable (NOr ns) = list_all evaluable ns"
| "evaluable (NNot n) = evaluable n"
| "evaluable (NEventHistory ety op days mc) = True"
| "evaluable (NConsent channel topic st) = True"
| "evaluable (NCompany field op val) = False"
| "evaluable n = (\<exists>p. compileProfileNode n [] = Inr p)"

definition returns :: "('s, 'a result) state \<Rightarrow> 's \<Rightarrow> bool" where
  "returns m w \<longleftrightarrow> (\<exists>x w'. run_state m w = (Inr x, w'))"

lemma returns_attempt:
  assumes "returns m w" and "\<And>x w'. run_state m w = (Inr x, w') \<Longrightarrow> returns (k x) w'"
  shows "returns (attempt m h k) w"
  using assms by (auto simp: returns_def run_attempt)

lemma ch_read_only: "read_only w w' \<Longrightarrow> w_ch w' = w_ch w"
  by (auto simp: read_only_def)

lemma Matches_returns:
  "healthy w \<Longrightarrow> w_ch w \<noteq> None \<Longrightarrow> evaluable n \<Longrightarrow> returns (Matches t ws app pid n) w"
  "healthy w \<Longrightarrow> w_ch w \<noteq> None \<Longrightarrow> list_all evaluable ns \<Longrightarrow> returns (MatchesAll t ws app pid ns) w"
  "healthy w \<Longrightarrow> w_ch w \<noteq> None \<Longrightarrow> list_all evaluable ns \<Longrightarrow> returns (MatchesAny t ws app pid ns) w"
proof (induction t ws app pid n and t ws app pid ns and t ws app pid ns
    arbitrary: w and w and w rule: Matches_MatchesAll_MatchesAny.induct)
  case (2 t ws app pid cond conds)
  show ?case unfolding MatchesAll.simps MatchesAny.simps
  proof (rule returns_attempt)
    fix b w1 assume m: "run_state (Matches t ws app pid cond) w = (Inr b, w1)"
    have "read_only w w1" by (rule state_io_relD [OF read_only_Matches(1) m])
    with 2 show "returns (if \<not> b then ret (Inr False) else MatchesAll t ws app pid conds) w1"
      by (cases b) (auto simp: returns_def healthy_read_only ch_read_only)
  qed (use 2 in auto)
next
  case (4 t ws app pid cond conds)
  show ?case unfolding MatchesAll.simps MatchesAny.simps
  proof (rule returns_attempt)
    fix b w1 assume m: "run_state (Matches t ws app pid cond) w = (Inr b, w1)"
    have "read_only w w1" by (rule state_io_relD [OF read_only_Matches(1) m])
    with 4 show "returns (if b then ret (Inr True) else MatchesAny t ws app pid conds) w1"
      by (cases b) (auto simp: returns_def healthy_read_only ch_read_only)
  qed (use 4 in auto)
next
  case (7 t ws app pid cond)
  then have "returns (Matches t ws app pid cond) w" by simp
  then show ?case by (auto simp: returns_def run_attempt)
next
  case (11 t ws app pid ety op days mc)
  then show ?case
    by (auto simp: returns_def run_attempt run_query GetProfileExternalID_def QueryClickHouseMatches_def
        ch_available_def ticked_def CompileClickHouseSingle_def healthy_def split: option.splits)
qed (auto simp: returns_def QueryProfileMatches_def QueryConsentMatches_def CompileProfileSingle_def run_query
      simp del: compileProfileNode.simps split: prod.splits)

end
