(* ===== verification/Experiment.thy ===== *)
theory Experiment
  imports Sha256
begin

text \<open>
  \<^verbatim>\<open>internal/experiment/assign.go\<close>: deterministic assignment of a profile to the holdout or to a
  weighted variant, on 64-bit words as the code computes it. A second definition on natural numbers
  is the reference the words are shown to implement, and the reference is shown to split the
  buckets in proportion to the weights.
\<close>

section \<open>The program\<close>

record variant =
  v_Label :: string
  v_Weight :: int

definition BucketOf :: "string \<Rightarrow> 64 word \<Rightarrow> 64 word" where
  "BucketOf key m = (if m = 0 then 0 else digest_uint64 (sha256 key) mod m)"

definition clamp_pct :: "int \<Rightarrow> int" where
  "clamp_pct p = (if p < 0 then 0 else if p > 100 then 100 else p)"

fun total_weight :: "variant list \<Rightarrow> 64 word" where
  "total_weight [] = 0"
| "total_weight (v # vs) = (if v_Weight v > 0 then of_int (v_Weight v) else 0) + total_weight vs"

text \<open>The loop over the variants with the running sum of the weights.\<close>

fun pick_variant :: "64 word \<Rightarrow> 64 word \<Rightarrow> variant list \<Rightarrow> string option" where
  "pick_variant wb cumulative [] = None"
| "pick_variant wb cumulative (v # vs) =
     (let c = (if v_Weight v > 0 then cumulative + of_int (v_Weight v) else cumulative)
      in if wb < c then Some (v_Label v) else pick_variant wb c vs)"

text \<open>The part of \<open>Assign\<close> after the bucket is known.\<close>

definition assign_bucket :: "64 word \<Rightarrow> variant list \<Rightarrow> int \<Rightarrow> string \<times> bool" where
  "assign_bucket bucket variants holdoutPct =
     (let holdoutBuckets = of_int (clamp_pct holdoutPct * 100)
      in if bucket < holdoutBuckets then (''holdout'', True)
         else let totalWeight = total_weight variants;
                  remainingBuckets = 10000 - holdoutBuckets
              in if totalWeight = 0 \<or> remainingBuckets = 0 then ([], False)
                 else let weightedBucket = (bucket - holdoutBuckets) * totalWeight div remainingBuckets
                      in case pick_variant weightedBucket 0 variants of
                           Some label \<Rightarrow> (label, False)
                         | None \<Rightarrow> (v_Label (last variants), False))"

definition Assign :: "string \<Rightarrow> string \<Rightarrow> variant list \<Rightarrow> int \<Rightarrow> string \<times> bool" where
  "Assign seed profileID variants holdoutPct =
     assign_bucket (BucketOf (seed @ '':'' @ profileID) 10000) variants holdoutPct"

section \<open>The reference on natural numbers\<close>

definition weight_of :: "variant \<Rightarrow> nat" where
  "weight_of v = nat (v_Weight v)"

definition weight_sum :: "variant list \<Rightarrow> nat" where
  "weight_sum vs = sum_list (map weight_of vs)"

text \<open>The weights are small enough for the products of the code to stay inside 64 bits.\<close>

definition weights_fit :: "variant list \<Rightarrow> bool" where
  "weights_fit vs \<longleftrightarrow> weight_sum vs * 10000 < 2 ^ 64"

fun pick_ref :: "nat \<Rightarrow> nat \<Rightarrow> variant list \<Rightarrow> string option" where
  "pick_ref x c [] = None"
| "pick_ref x c (v # vs) =
     (if x < c + weight_of v then Some (v_Label v) else pick_ref x (c + weight_of v) vs)"

definition holdout_buckets :: "int \<Rightarrow> nat" where
  "holdout_buckets p = nat (clamp_pct p) * 100"

definition assign_ref :: "nat \<Rightarrow> variant list \<Rightarrow> int \<Rightarrow> string \<times> bool" where
  "assign_ref b vs p =
     (let h = holdout_buckets p; r = 10000 - h; t = weight_sum vs
      in if b < h then (''holdout'', True)
         else if t = 0 then ([], False)
         else (the (pick_ref ((b - h) * t div r) 0 vs), False))"

section \<open>Words implement the reference\<close>

lemma clamp_pct_range [simp]: "0 \<le> clamp_pct p" "clamp_pct p \<le> 100"
  by (auto simp: clamp_pct_def)

lemma holdout_buckets_le: "holdout_buckets p \<le> 10000"
  using clamp_pct_range[of p] by (simp add: holdout_buckets_def nat_le_iff)

lemma weight_sum_Nil [simp]: "weight_sum [] = 0"
  and weight_sum_Cons [simp]: "weight_sum (v # vs) = weight_of v + weight_sum vs"
  and weight_sum_append [simp]: "weight_sum (us @ vs) = weight_sum us + weight_sum vs"
  by (simp_all add: weight_sum_def)

lemma unat_of_int_small: "0 \<le> k \<Longrightarrow> k < 2 ^ 64 \<Longrightarrow> unat (of_int k :: 64 word) = nat k"
proof -
  assume k: "0 \<le> k" "k < 2 ^ 64"
  have "uint (word_of_int k :: 64 word) = k mod 2 ^ 64" by (simp only: uint_word_of_int) simp
  with k show ?thesis by (simp add: unat_eq_nat_uint)
qed

lemma unat_of_int_weight:
  "v_Weight v < 2 ^ 64 \<Longrightarrow> unat (if v_Weight v > 0 then of_int (v_Weight v) else 0 :: 64 word) = weight_of v"
  using unat_of_int_small[of "v_Weight v"] by (simp add: weight_of_def)

lemma unat_add_small:
  "unat (a :: 64 word) + unat b < 2 ^ 64 \<Longrightarrow> unat (a + b) = unat a + unat b"
  by (simp add: unat_word_ariths)

lemma unat_total_weight: "weight_sum vs < 2 ^ 64 \<Longrightarrow> unat (total_weight vs) = weight_sum vs"
proof (induction vs)
  case Nil
  then show ?case by simp
next
  case (Cons v vs)
  have w: "v_Weight v < 2 ^ 64" using Cons.prems by (auto simp: weight_of_def nat_less_iff)
  have IH: "unat (total_weight vs) = weight_sum vs" using Cons by simp
  show ?case
    unfolding total_weight.simps
    by (subst unat_add_small) (use Cons.prems IH unat_of_int_weight[OF w] in simp_all)
qed

lemma pick_variant_ref:
  assumes "unat c + weight_sum vs < 2 ^ 64"
  shows "pick_variant wb c vs = pick_ref (unat wb) (unat c) vs"
  using assms
proof (induction vs arbitrary: c)
  case Nil
  then show ?case by simp
next
  case (Cons v vs)
  let ?w = "if v_Weight v > 0 then of_int (v_Weight v) else 0 :: 64 word"
  have w: "v_Weight v < 2 ^ 64" using Cons.prems by (auto simp: weight_of_def nat_less_iff)
  have c': "(if v_Weight v > 0 then c + of_int (v_Weight v) else c) = c + ?w" by simp
  have u: "unat (c + ?w) = unat c + weight_of v"
    by (subst unat_add_small) (use Cons.prems unat_of_int_weight[OF w] in simp_all)
  have "pick_variant wb (c + ?w) vs = pick_ref (unat wb) (unat c + weight_of v) vs"
    using Cons.IH[of "c + ?w"] Cons.prems u by simp
  then show ?case
    unfolding pick_variant.simps pick_ref.simps Let_def c' by (simp add: word_less_nat_alt u)
qed

lemma pick_ref_Some: "c \<le> x \<Longrightarrow> x < c + weight_sum vs \<Longrightarrow> \<exists>l. pick_ref x c vs = Some l"
proof (induction vs arbitrary: c)
  case (Cons v vs)
  then show ?case by (cases "x < c + weight_of v") auto
qed simp

lemma pick_ref_positive:
  "c \<le> x \<Longrightarrow> pick_ref x c vs = Some l \<Longrightarrow> \<exists>v \<in> set vs. v_Label v = l \<and> 0 < weight_of v"
proof (induction vs arbitrary: c)
  case (Cons v vs)
  show ?case
  proof (cases "x < c + weight_of v")
    case True
    with Cons.prems show ?thesis by auto
  next
    case False
    with Cons.prems Cons.IH[of "c + weight_of v"] show ?thesis by auto
  qed
qed simp

lemma scaled_less: "x < r \<Longrightarrow> 0 < t \<Longrightarrow> x * t div r < (t::nat)"
  by (simp add: div_less_iff_less_mult mult.commute)

lemma unat_holdout: "unat (of_int (clamp_pct p * 100) :: 64 word) = holdout_buckets p"
proof -
  have "clamp_pct p * 100 \<le> 100 * 100" using clamp_pct_range(2)[of p] by linarith
  then have "clamp_pct p * 100 < 2 ^ 64" by (rule le_less_trans) simp
  then show ?thesis
    using unat_of_int_small[of "clamp_pct p * 100"] unfolding holdout_buckets_def
    by (simp only: clamp_pct_range mult_nonneg_nonneg nat_mult_distrib nat_numeral)
qed

lemma weighted_unat:
  assumes "unat (d :: 64 word) \<le> 10000" and "weights_fit vs"
  shows "unat (d * total_weight vs div r) = unat d * weight_sum vs div unat r"
proof -
  have t: "unat (total_weight vs) = weight_sum vs"
    using assms(2) by (intro unat_total_weight) (simp add: weights_fit_def)
  have "unat d * weight_sum vs \<le> 10000 * weight_sum vs" using assms(1) by simp
  also have "\<dots> < 2 ^ 64" using assms(2) by (simp add: weights_fit_def mult.commute)
  finally have "unat (d * total_weight vs) = unat d * weight_sum vs"
    using t by (simp add: unat_word_ariths)
  then show ?thesis by (simp add: unat_div)
qed

lemma assign_bucket_ref:
  assumes b: "unat b < 10000" and fit: "weights_fit vs"
  shows "assign_bucket b vs p = assign_ref (unat b) vs p"
proof -
  define h where "h = (of_int (clamp_pct p * 100) :: 64 word)"
  define k where "k = holdout_buckets p"
  define r where "r = 10000 - h"
  define t where "t = weight_sum vs"
  have h: "unat h = k" unfolding h_def k_def by (rule unat_holdout)
  have k: "k \<le> 10000" unfolding k_def by (rule holdout_buckets_le)
  have r: "unat r = 10000 - k"
    unfolding r_def using h k by (subst unat_sub) (simp_all add: word_le_nat_alt)
  have tt: "unat (total_weight vs) = t"
    using fit unfolding t_def by (intro unat_total_weight) (simp add: weights_fit_def)
  have t0: "total_weight vs = 0 \<longleftrightarrow> t = 0" using tt by (metis unat_eq_zero)
  have unfolded: "assign_bucket b vs p =
    (if b < h then (''holdout'', True)
     else if total_weight vs = 0 \<or> r = 0 then ([], False)
     else case pick_variant ((b - h) * total_weight vs div r) 0 vs of
            Some label \<Rightarrow> (label, False) | None \<Rightarrow> (v_Label (last vs), False))"
    unfolding assign_bucket_def Let_def h_def r_def by (rule refl)
  show ?thesis
  proof (cases "unat b < k")
    case True
    then show ?thesis
      unfolding unfolded by (simp add: assign_ref_def Let_def word_less_nat_alt h flip: k_def)
  next
    case False
    let ?x = "(unat b - k) * t div (10000 - k)"
    have r0: "r \<noteq> 0" using r b False by (metis diff_is_0_eq not_less unat_0 le_trans less_imp_le_nat not_le)
    have d: "unat (b - h) = unat b - k"
      using False h by (subst unat_sub) (simp_all add: word_le_nat_alt)
    have x: "unat ((b - h) * total_weight vs div r) = ?x"
      using weighted_unat[OF _ fit, of "b - h" r] d r b unfolding t_def by simp
    have pick: "pick_variant ((b - h) * total_weight vs div r) 0 vs = pick_ref ?x 0 vs"
      using fit x by (subst pick_variant_ref) (simp_all add: weights_fit_def)
    have "t \<noteq> 0 \<Longrightarrow> ?x < t" using b False by (intro scaled_less) auto
    then have "t \<noteq> 0 \<Longrightarrow> \<exists>l. pick_ref ?x 0 vs = Some l"
      by (intro pick_ref_Some) (simp_all add: t_def)
    with False r0 show ?thesis
      unfolding unfolded pick
      by (auto simp: assign_ref_def Let_def word_less_nat_alt h t0 simp flip: k_def t_def)
  qed
qed

section \<open>The reference splits the buckets in proportion to the weights\<close>

lemma pick_ref_at:
  "pick_ref x c (us @ v # vs) = Some (v_Label v)"
  if "c + weight_sum us \<le> x" "x < c + weight_sum us + weight_of v"
  using that by (induction us arbitrary: c) (auto simp: add.assoc)

lemma pick_ref_only:
  assumes "distinct (map v_Label (us @ v # vs))" "c \<le> x" "x < c + weight_sum (us @ v # vs)"
    and "pick_ref x c (us @ v # vs) = Some (v_Label v)"
  shows "c + weight_sum us \<le> x \<and> x < c + weight_sum us + weight_of v"
  using assms
proof (induction us arbitrary: c)
  case Nil
  show ?case
  proof (rule ccontr)
    assume "\<not> ?case"
    with Nil.prems have "c + weight_of v \<le> x" "pick_ref x (c + weight_of v) vs = Some (v_Label v)"
      by auto
    then show False using pick_ref_positive[of "c + weight_of v" x vs "v_Label v"] Nil.prems(1)
      by (auto simp: image_iff)
  qed
next
  case (Cons u us)
  have "\<not> x < c + weight_of u" using Cons.prems by auto
  with Cons.prems have "pick_ref x (c + weight_of u) (us @ v # vs) = Some (v_Label v)" by simp
  then show ?case
    using Cons.IH[of "c + weight_of u"] Cons.prems \<open>\<not> x < c + weight_of u\<close>
    by (auto simp: add.assoc not_less)
qed

text \<open>The number of points of \<open>{0..<r}\<close> whose scaled image lies in an interval of length \<open>w\<close>.\<close>

lemma card_scaled_interval:
  fixes r t c w :: nat
  assumes t: "0 < t" and le: "c + w \<le> t"
  shows "t * card {x. x < r \<and> c \<le> x * t div r \<and> x * t div r < c + w} < w * r + t"
    and "w * r < t * card {x. x < r \<and> c \<le> x * t div r \<and> x * t div r < c + w} + t"
proof -
  define lo where "lo = (c * r + t - 1) div t"
  define hi where "hi = ((c + w) * r + t - 1) div t"
  have up: "(a + t - 1) div t \<le> x \<longleftrightarrow> a \<le> x * t" for a x
  proof -
    have "(a + t - 1) div t \<le> x \<longleftrightarrow> (a + t - 1) div t < Suc x" by auto
    also have "\<dots> \<longleftrightarrow> a + t - 1 < Suc x * t" using t by (simp add: div_less_iff_less_mult)
    also have "\<dots> \<longleftrightarrow> a \<le> x * t" using t by auto
    finally show ?thesis .
  qed
  have hi_r: "hi \<le> r"
  proof -
    have "(c + w) * r \<le> r * t" using le by (simp add: mult.commute)
    then show ?thesis using up[of "(c + w) * r" r] unfolding hi_def by blast
  qed
  have lo: "lo \<le> x \<longleftrightarrow> c * r \<le> x * t" for x unfolding lo_def by (rule up)
  have hi: "x < hi \<longleftrightarrow> x * t < (c + w) * r" for x
    using up[of "(c + w) * r" x] unfolding hi_def by linarith
  have set_eq: "{x. x < r \<and> c \<le> x * t div r \<and> x * t div r < c + w} = {lo..<hi}" (is "?S = _")
  proof (intro set_eqI)
    fix x
    have "x < r \<Longrightarrow> (c \<le> x * t div r \<longleftrightarrow> c * r \<le> x * t)" by (simp add: less_eq_div_iff_mult_less_eq)
    moreover have "x < r \<Longrightarrow> (x * t div r < c + w \<longleftrightarrow> x * t < (c + w) * r)"
      by (simp add: div_less_iff_less_mult)
    ultimately show "x \<in> ?S \<longleftrightarrow> x \<in> {lo..<hi}"
      using hi_r less_le_trans[of x hi r] by (auto simp: lo hi)
  qed
  have bounds: "t * ((a + t - 1) div t) < a + t" "a \<le> t * ((a + t - 1) div t)" for a
  proof -
    show "a \<le> t * ((a + t - 1) div t)" using up[of a "(a + t - 1) div t"] by (simp add: mult.commute)
    have "t * ((a + t - 1) div t) \<le> a + t - 1" by (metis mult_div_mod_eq le_add1)
    then show "t * ((a + t - 1) div t) < a + t" using t by linarith
  qed
  have lo_hi: "lo \<le> hi" unfolding lo_def hi_def by (intro div_le_mono diff_le_mono) (simp add: algebra_simps)
  have "card ?S = hi - lo" by (simp add: set_eq)
  then have "t * card ?S = t * hi - t * lo" by (simp add: diff_mult_distrib2)
  moreover have "t * lo \<le> t * hi" using lo_hi by simp
  moreover have "t * hi < (c + w) * r + t" "(c + w) * r \<le> t * hi"
    "t * lo < c * r + t" "c * r \<le> t * lo"
    unfolding lo_def hi_def by (rule bounds)+
  ultimately show "t * card ?S < w * r + t" "w * r < t * card ?S + t"
    by (auto simp: algebra_simps)
qed

text \<open>The buckets given to one variant by the reference.\<close>

definition buckets_of :: "string \<Rightarrow> variant list \<Rightarrow> int \<Rightarrow> nat set" where
  "buckets_of l vs p = {b. b < 10000 \<and> assign_ref b vs p = (l, False)}"

lemma buckets_of_card:
  assumes "distinct (map v_Label vs)" "v \<in> set vs" "0 < weight_sum vs"
  shows "\<exists>c. c + weight_of v \<le> weight_sum vs \<and>
    card (buckets_of (v_Label v) vs p) =
    card {x. x < 10000 - holdout_buckets p \<and>
      c \<le> x * weight_sum vs div (10000 - holdout_buckets p) \<and>
      x * weight_sum vs div (10000 - holdout_buckets p) < c + weight_of v}"
proof -
  obtain us ws where vs: "vs = us @ v # ws" using assms(2) by (meson split_list)
  let ?h = "holdout_buckets p" and ?t = "weight_sum vs"
  let ?r = "10000 - ?h"
  let ?S = "{x. x < ?r \<and> weight_sum us \<le> x * ?t div ?r \<and> x * ?t div ?r < weight_sum us + weight_of v}"
  have pick: "the (pick_ref y 0 vs) = v_Label v \<longleftrightarrow> weight_sum us \<le> y \<and> y < weight_sum us + weight_of v"
    if "y < ?t" for y
  proof -
    obtain l where l: "pick_ref y 0 vs = Some l" using pick_ref_Some[of 0 y vs] \<open>y < ?t\<close> by auto
    show ?thesis
      using pick_ref_at[of 0 us y v ws] pick_ref_only[of us v ws 0 y] assms(1) \<open>y < ?t\<close> l
      by (auto simp: vs)
  qed
  have "buckets_of (v_Label v) vs p = (\<lambda>x. x + ?h) ` ?S"
  proof (intro set_eqI iffI)
    fix b
    assume b: "b \<in> buckets_of (v_Label v) vs p"
    then have "?h \<le> b" "b < 10000" and eq: "the (pick_ref ((b - ?h) * ?t div ?r) 0 vs) = v_Label v"
      using assms(3) by (auto simp: buckets_of_def assign_ref_def Let_def split: if_splits)
    then have "(b - ?h) * ?t div ?r < ?t" by (intro scaled_less) (use assms(3) in auto)
    with eq have "b - ?h \<in> ?S" using \<open>?h \<le> b\<close> \<open>b < 10000\<close> by (auto simp: pick)
    then show "b \<in> (\<lambda>x. x + ?h) ` ?S" using \<open>?h \<le> b\<close> by (metis (no_types, lifting) image_eqI le_add_diff_inverse2)
  next
    fix b
    assume "b \<in> (\<lambda>x. x + ?h) ` ?S"
    then obtain x where x: "x \<in> ?S" "b = x + ?h" by blast
    then have "x * ?t div ?r < ?t" by (intro scaled_less) (use assms(3) in auto)
    with x show "b \<in> buckets_of (v_Label v) vs p"
      using assms(3) by (auto simp: buckets_of_def assign_ref_def Let_def pick)
  qed
  then have "card (buckets_of (v_Label v) vs p) = card ?S"
    by (simp add: card_image inj_on_def)
  then show ?thesis by (intro exI[of _ "weight_sum us"]) (simp add: vs)
qed

lemma BucketOf_less: "m \<noteq> 0 \<Longrightarrow> BucketOf key m < m"
  by (simp add: BucketOf_def word_less_nat_alt unat_mod unat_gt_0)

lemma unat_BucketOf: "unat (BucketOf key 10000) < 10000"
  using BucketOf_less[of 10000 key] by (simp add: word_less_nat_alt)

lemma Assign_ref: "weights_fit vs \<Longrightarrow>
  Assign seed pid vs p = assign_ref (unat (BucketOf (seed @ '':'' @ pid) 10000)) vs p"
  by (simp add: Assign_def assign_bucket_ref unat_BucketOf)

lemma assign_ref_cases:
  assumes "b < 10000"
  shows "assign_ref b vs p = (''holdout'', True) \<and> b < holdout_buckets p \<or>
    assign_ref b vs p = ([], False) \<and> holdout_buckets p \<le> b \<and> weight_sum vs = 0 \<or>
    (\<exists>v \<in> set vs. 0 < weight_of v \<and> assign_ref b vs p = (v_Label v, False)) \<and>
      holdout_buckets p \<le> b \<and> 0 < weight_sum vs"
proof -
  let ?x = "(b - holdout_buckets p) * weight_sum vs div (10000 - holdout_buckets p)"
  have "\<exists>v \<in> set vs. v_Label v = the (pick_ref ?x 0 vs) \<and> 0 < weight_of v"
    if "holdout_buckets p \<le> b" "0 < weight_sum vs"
  proof -
    have "?x < weight_sum vs" using that assms by (intro scaled_less) auto
    then show ?thesis
      using pick_ref_Some[of 0 ?x vs] pick_ref_positive[of 0 ?x vs] by auto
  qed
  then show ?thesis by (auto simp: assign_ref_def Let_def not_less) (metis)+
qed

text \<open>The same for the code: the buckets, as 64-bit words, that it gives to one variant.\<close>

lemma card_assign_bucket:
  assumes "weights_fit vs"
  shows "card {b :: 64 word. b < 10000 \<and> assign_bucket b vs p = (l, False)} = card (buckets_of l vs p)"
proof (rule bij_betw_same_card [of unat])
  let ?A = "{b :: 64 word. b < 10000 \<and> assign_bucket b vs p = (l, False)}"
  have "unat ` ?A = buckets_of l vs p"
  proof (intro set_eqI iffI)
    fix n assume "n \<in> unat ` ?A"
    then show "n \<in> buckets_of l vs p"
      using assign_bucket_ref [OF _ assms] by (auto simp: buckets_of_def word_less_nat_alt)
  next
    fix n assume n: "n \<in> buckets_of l vs p"
    then have "n < 10000" by (simp add: buckets_of_def)
    then have u: "unat (of_nat n :: 64 word) = n" by (simp add: unat_of_nat)
    have "assign_bucket (of_nat n) vs p = assign_ref n vs p"
      using assign_bucket_ref [of "of_nat n", OF _ assms] \<open>n < 10000\<close> unfolding u .
    with n \<open>n < 10000\<close> have "(of_nat n :: 64 word) \<in> ?A" by (simp add: buckets_of_def word_less_nat_alt u)
    then have "unat (of_nat n :: 64 word) \<in> unat ` ?A" by (rule imageI)
    then show "n \<in> unat ` ?A" unfolding u .
  qed
  then show "bij_betw unat ?A (buckets_of l vs p)" by (simp add: bij_betw_def inj_on_def word_unat_eq_iff)
qed

lemma assign_bucket_share:
  fixes p :: int
  assumes "weights_fit vs" "distinct (map v_Label vs)" "v \<in> set vs" "0 < weight_sum vs"
  defines "n \<equiv> card {b :: 64 word. b < 10000 \<and> assign_bucket b vs p = (v_Label v, False)}"
  shows "weight_sum vs * n < weight_of v * (10000 - holdout_buckets p) + weight_sum vs"
    and "weight_of v * (10000 - holdout_buckets p) < weight_sum vs * n + weight_sum vs"
proof -
  from buckets_of_card [OF assms(2-4), of p] obtain c where c: "c + weight_of v \<le> weight_sum vs"
    "n = card {x. x < 10000 - holdout_buckets p \<and> c \<le> x * weight_sum vs div (10000 - holdout_buckets p) \<and>
       x * weight_sum vs div (10000 - holdout_buckets p) < c + weight_of v}"
    unfolding n_def card_assign_bucket [OF assms(1)] by blast
  show "weight_sum vs * n < weight_of v * (10000 - holdout_buckets p) + weight_sum vs"
    "weight_of v * (10000 - holdout_buckets p) < weight_sum vs * n + weight_sum vs"
    unfolding c(2) using card_scaled_interval [OF assms(4) c(1)] by auto
qed

end
