(* ===== verification/Flags.thy ===== *)
theory Flags
  imports World Experiment
begin

text \<open>
  Feature flags: \<^verbatim>\<open>internal/flags/evaluate.go\<close>. The audience interface \<^verbatim>\<open>EvalAudience\<close> is the
  argument \<open>eval\<close> of the definitions; the engine passes the store's evaluator.
\<close>

section \<open>Evaluation\<close>

record evaluation_result =
  er_Variant :: string
  er_Value :: raw
  er_Reason :: string

abbreviation flag_result :: "string \<Rightarrow> raw \<Rightarrow> string \<Rightarrow> evaluation_result" where
  "flag_result v x r \<equiv> \<lparr>er_Variant = v, er_Value = x, er_Reason = r\<rparr>"

fun find_variant :: "flag_variant list \<Rightarrow> string \<Rightarrow> flag_variant option" where
  "find_variant [] label = None"
| "find_variant (v # vs) label = (if fv_Label v = label then Some v else find_variant vs label)"

fun targeting :: "(string \<Rightarrow> raw \<Rightarrow> bool call) \<Rightarrow> feature_flag \<Rightarrow> string \<Rightarrow> flag_targeting_rule list \<Rightarrow>
    evaluation_result option call" where
  "targeting eval flag profileID [] = ret (Inr None)"
| "targeting eval flag profileID (rule # rules) =
     attempt (eval profileID (fr_DSL rule)) (wrapped ''evaluate audience rule'') (\<lambda>matches.
       if matches then
         (case find_variant (ff_Variants flag) (fr_Variant rule) of
            Some v \<Rightarrow> ret (Inr (Some (flag_result (fr_Variant rule) (fv_Value v) ''targeted'')))
          | None \<Rightarrow> failed (ErrNew (''targeting rule variant '' @ go_quote (fr_Variant rule) @ '' not found in flag variants'')))
       else targeting eval flag profileID rules)"

definition flag_variants :: "feature_flag \<Rightarrow> variant list" where
  "flag_variants flag = map (\<lambda>v. \<lparr>v_Label = fv_Label v, v_Weight = fv_Weight v\<rparr>) (ff_Variants flag)"

definition rollout :: "feature_flag \<Rightarrow> string \<Rightarrow> evaluation_result" where
  "rollout flag profileID =
    (let bucket = BucketOf (ff_Seed flag @ '':'' @ profileID) 10000;
         rolloutThreshold = of_int (ff_RolloutPct flag * 100);
         excluded = flag_result [] (ff_DefaultValue flag) ''rollout_excluded''
     in if bucket < rolloutThreshold then
          (let variantLabel = fst (Assign (ff_Seed flag) profileID (flag_variants flag) 0)
           in if variantLabel = [] \<or> variantLabel = ''holdout'' then excluded
              else case find_variant (ff_Variants flag) variantLabel of
                Some v \<Rightarrow> flag_result variantLabel (fv_Value v) ''rollout''
              | None \<Rightarrow> excluded)
        else excluded)"

definition Evaluate :: "(string \<Rightarrow> raw \<Rightarrow> bool call) \<Rightarrow> feature_flag \<Rightarrow> string \<Rightarrow> evaluation_result call" where
  "Evaluate eval flag profileID =
     (if ff_Status flag = ''disabled'' \<or> \<not> ff_Enabled flag
      then ret (Inr (flag_result [] (ff_DefaultValue flag) ''disabled''))
      else attempt (targeting eval flag profileID (ff_TargetingRules flag)) failed (\<lambda>hit.
        case hit of
          Some r \<Rightarrow> ret (Inr r)
        | None \<Rightarrow> ret (Inr (rollout flag profileID))))"

section \<open>Properties\<close>

lemma find_variant_Some: "find_variant vs l = Some v \<Longrightarrow> v \<in> set vs \<and> fv_Label v = l"
  by (induction vs) (auto split: if_splits)

lemma find_variant_None: "find_variant vs l = None \<longleftrightarrow> l \<notin> fv_Label ` set vs"
  by (induction vs) auto

text \<open>Every result is the default without a variant, or a declared variant with its own value.\<close>

definition result_ok :: "feature_flag \<Rightarrow> evaluation_result \<Rightarrow> bool" where
  "result_ok flag r \<longleftrightarrow>
     (er_Variant r = [] \<and> er_Value r = ff_DefaultValue flag \<and> er_Reason r \<in> {''disabled'', ''rollout_excluded''}) \<or>
     ((\<exists>v \<in> set (ff_Variants flag). fv_Label v = er_Variant r \<and> fv_Value v = er_Value r) \<and>
      er_Reason r \<in> {''targeted'', ''rollout''})"

lemma rollout_ok: "result_ok flag (rollout flag pid)"
  by (auto simp: result_ok_def rollout_def Let_def dest!: find_variant_Some split: option.splits if_splits)

lemma targeted_ok: "find_variant (ff_Variants flag) l = Some v \<Longrightarrow> result_ok flag (flag_result l (fv_Value v) ''targeted'')"
  by (auto simp: result_ok_def dest: find_variant_Some)

lemma disabled_ok: "result_ok flag (flag_result [] (ff_DefaultValue flag) ''disabled'')"
  by (simp add: result_ok_def)

lemma targeting_ok:
  "run_state (targeting eval flag pid rules) w = (Inr (Some r), w') \<Longrightarrow> result_ok flag r \<and> er_Reason r = ''targeted''"
  by (induction rules arbitrary: w)
    (auto simp: run_attempt targeted_ok split: prod.splits sum.splits if_splits option.splits)

lemma Evaluate_ok: "run_state (Evaluate eval flag pid) w = (Inr r, w') \<Longrightarrow> result_ok flag r"
  unfolding Evaluate_def
  by (auto simp: run_attempt rollout_ok targeting_ok disabled_ok split: if_splits prod.splits sum.splits option.splits)

lemma Evaluate_disabled:
  "ff_Status flag = ''disabled'' \<or> \<not> ff_Enabled flag \<Longrightarrow>
   run_state (Evaluate eval flag pid) w = (Inr (flag_result [] (ff_DefaultValue flag) ''disabled''), w)"
  by (simp add: Evaluate_def)

text \<open>With a pure audience the first matching rule decides, and rollout applies when none matches.\<close>

fun first_rule :: "(raw \<Rightarrow> bool) \<Rightarrow> flag_targeting_rule list \<Rightarrow> flag_targeting_rule option" where
  "first_rule m [] = None"
| "first_rule m (r # rs) = (if m (fr_DSL r) then Some r else first_rule m rs)"

lemma targeting_first:
  assumes "\<And>dsl w. run_state (eval pid dsl) w = (Inr (m dsl), w)"
  shows "run_state (targeting eval flag pid rules) w =
    (case first_rule m rules of
       None \<Rightarrow> (Inr None, w)
     | Some r \<Rightarrow> (case find_variant (ff_Variants flag) (fr_Variant r) of
          Some v \<Rightarrow> (Inr (Some (flag_result (fr_Variant r) (fv_Value v) ''targeted'')), w)
        | None \<Rightarrow> (Inl (ErrNew (''targeting rule variant '' @ go_quote (fr_Variant r) @ '' not found in flag variants'')), w)))"
  by (induction rules) (auto simp: run_attempt assms split: option.splits)

text \<open>
  The bucket that admits a profile to the rollout is the one that picks its variant. Under a rollout
  of at most half of the profiles the second of two equally weighted variants is never served.
\<close>

lemma BucketOf_unat: "unat (BucketOf k 10000) < 10000"
  using BucketOf_less [of 10000 k] by (simp add: word_less_nat_alt)

lemma rollout_half:
  assumes two: "ff_Variants flag = [a, b]" and wa: "fv_Weight a = fv_Weight b" "0 < fv_Weight a"
    and fit: "weights_fit (flag_variants flag)" and pct: "0 \<le> ff_RolloutPct flag" "ff_RolloutPct flag \<le> 50"
    and labels: "fv_Label a \<noteq> fv_Label b" "fv_Label b \<noteq> []"
  shows "er_Variant (rollout flag pid) \<noteq> fv_Label b"
proof -
  let ?b = "BucketOf (ff_Seed flag @ '':'' @ pid) 10000"
  let ?w = "nat (fv_Weight a)"
  have thr: "unat (of_int (ff_RolloutPct flag * 100) :: 64 word) = nat (ff_RolloutPct flag * 100)"
    using pct by (intro unat_of_int_small) auto
  have pick: "Assign (ff_Seed flag) pid (flag_variants flag) 0 = (fv_Label a, False)" if "unat ?b < 5000"
  proof -
    have sum: "weight_sum (flag_variants flag) = 2 * ?w"
      using two wa by (simp add: flag_variants_def weight_of_def)
    have "unat ?b * (2 * ?w) div 10000 < ?w"
    proof -
      have "unat ?b * (2 * ?w) < 5000 * (2 * ?w)" using that wa by (intro mult_strict_right_mono) auto
      then show ?thesis by (simp add: div_less_iff_less_mult)
    qed
    then have "pick_ref (unat ?b * (2 * ?w) div 10000) 0 (flag_variants flag) = Some (fv_Label a)"
      using two by (simp add: flag_variants_def weight_of_def)
    then have "assign_ref (unat ?b) (flag_variants flag) 0 = (fv_Label a, False)"
      using sum wa by (simp add: assign_ref_def holdout_buckets_def clamp_pct_def Let_def)
    then show ?thesis by (simp add: Assign_def assign_bucket_ref [OF BucketOf_unat fit])
  qed
  show ?thesis
  proof (cases "?b < of_int (ff_RolloutPct flag * 100)")
    case True
    then have "unat ?b < nat (ff_RolloutPct flag * 100)" unfolding word_less_nat_alt thr .
    then have "unat ?b < 5000" using pct by linarith
    then show ?thesis using labels pick by (auto simp: rollout_def Let_def split: option.splits)
  next
    case False
    then show ?thesis using labels by (simp add: rollout_def)
  qed
qed

end
