(* ===== verification/Clock.thy ===== *)
theory Clock
  imports Prelude
begin

text \<open>
  The calendar of Go's \<^verbatim>\<open>time\<close> package in UTC, and the text of an instant in the layout
  \<^verbatim>\<open>time.RFC3339Nano\<close>.
\<close>

section \<open>The calendar\<close>

text \<open>Year and day of the year of a day number counted from 1 January of year 1.\<close>

definition year_yday :: "int \<Rightarrow> int \<times> int" where
  "year_yday d0 =
    (let n400 = d0 div 146097; d1 = d0 mod 146097;
         n100 = min 3 (d1 div 36524); d2 = d1 - 36524 * n100;
         n4 = d2 div 1461; d3 = d2 mod 1461;
         n1 = min 3 (d3 div 365)
     in (1 + 400 * n400 + 100 * n100 + 4 * n4 + n1, d3 - 365 * n1))"

definition is_leap :: "int \<Rightarrow> bool" where
  "is_leap y \<longleftrightarrow> y mod 4 = 0 \<and> (y mod 100 \<noteq> 0 \<or> y mod 400 = 0)"

definition month_lengths :: "bool \<Rightarrow> int list" where
  "month_lengths leap = [31, if leap then 29 else 28, 31, 30, 31, 30, 31, 31, 30, 31, 30, 31]"

fun month_day :: "int list \<Rightarrow> int \<Rightarrow> int \<Rightarrow> int \<times> int" where
  "month_day [] m yd = (m, yd + 1)"
| "month_day (l # ls) m yd = (if yd < l then (m, yd + 1) else month_day ls (m + 1) (yd - l))"

definition epoch_days :: int where "epoch_days = 719162"

definition civil :: "time \<Rightarrow> int \<times> int \<times> int" where
  "civil t =
    (let (y, yd) = year_yday (t div (24 * hour) + epoch_days);
         (m, d) = month_day (month_lengths (is_leap y)) 1 yd
     in (y, m, d))"

definition utc_hour :: "time \<Rightarrow> int" where
  "utc_hour t = (t div hour) mod 24"

text \<open>A number padded with zeroes to the given width.\<close>

definition pad_int :: "nat \<Rightarrow> int \<Rightarrow> string" where
  "pad_int width i = (let ds = itoa_nat (nat \<bar>i\<bar>)
     in (if i < 0 then ''-'' else []) @ replicate (width - length ds) (CHR ''0'') @ ds)"

definition utc_minute :: "time \<Rightarrow> int" where
  "utc_minute t = (t div minute) mod 60"

definition utc_second :: "time \<Rightarrow> int" where
  "utc_second t = (t div second) mod 60"

section \<open>Formatting\<close>

text \<open>The fraction of a second: nine digits without the trailing zeroes, nothing for a whole second.\<close>

definition nano_fraction :: "time \<Rightarrow> string" where
  "nano_fraction t =
     (let ds = rev (dropWhile (\<lambda>c. c = CHR ''0'') (rev (pad_int 9 (t mod second))))
      in if ds = [] then [] else CHR ''.'' # ds)"

definition rfc3339_nano :: "time \<Rightarrow> string" where
  "rfc3339_nano t = (case civil t of (y, m, d) \<Rightarrow>
     pad_int 4 y @ ''-'' @ pad_int 2 m @ ''-'' @ pad_int 2 d @ ''T'' @
     pad_int 2 (utc_hour t) @ '':'' @ pad_int 2 (utc_minute t) @ '':'' @ pad_int 2 (utc_second t) @ nano_fraction t @ ''Z'')"

end
