(* ===== verification/AuditLog.thy ===== *)
theory AuditLog
  imports World Sha256 Clock
begin

text \<open>
  The audit trail: \<^verbatim>\<open>audit\<close>, \<^verbatim>\<open>ComputeAuditRowHash\<close>, \<^verbatim>\<open>verifyAuditRows\<close>, \<^verbatim>\<open>VerifyAuditChain\<close> and
  \<^verbatim>\<open>BackfillAuditChain\<close> of \<^verbatim>\<open>internal/postgres/admin.go\<close>. Every row carries the hash of its predecessor
  of the same tenant, and the hash of itself.

  An instant is stored with microseconds (\<^verbatim>\<open>timestamptz\<close>), metadata as a \<^verbatim>\<open>jsonb\<close> value, and both are read
  back from there; the hash of a new row is computed before, from the nanoseconds of the clock and the text
  of \<^verbatim>\<open>json.Marshal\<close>.
\<close>

section \<open>Writing\<close>

definition actorID :: "principal \<Rightarrow> string" where
  "actorID p = (if p_UserID p \<noteq> [] then p_UserID p else p_KeyID p)"

definition actorType :: "principal \<Rightarrow> string" where
  "actorType p = (if p_ActorType p \<noteq> [] then p_ActorType p else if p_UserID p \<noteq> [] then ''user'' else ''api_key'')"

text \<open>The struct \<^verbatim>\<open>auditRow\<close>: a row as the program reads it.\<close>

record auditRow =
  ar_id :: string
  ar_tenantID :: string
  ar_workspaceID :: string
  ar_appID :: string
  ar_actType :: string
  ar_actID :: string
  ar_act :: string
  ar_resType :: string
  ar_resID :: string
  ar_prevHash :: string
  ar_rowHash :: string
  ar_metadata :: string
  ar_occurredAt :: time
  ar_seq :: int

text \<open>\<^verbatim>\<open>fmt.Sprintf("%s|%d|%s|...", ...)\<close>\<close>

fun pipe_join :: "string list \<Rightarrow> string" where
  "pipe_join [] = []"
| "pipe_join [s] = s"
| "pipe_join (s # t # ss) = s @ ''|'' @ pipe_join (t # ss)"

definition sha256_hex :: "string \<Rightarrow> string" where
  "sha256_hex s = hex_digest (sha256 s)"

definition audit_fields :: "auditRow \<Rightarrow> string list" where
  "audit_fields e = [ar_prevHash e, itoa (ar_seq e), ar_id e, ar_tenantID e, ar_workspaceID e, ar_appID e, ar_actType e,
     ar_actID e, ar_act e, ar_resType e, ar_resID e, ar_metadata e, rfc3339_nano (ar_occurredAt e)]"

text \<open>The hash covers every field of the row but the hash itself.\<close>

definition ComputeAuditRowHash :: "auditRow \<Rightarrow> string" where
  "ComputeAuditRowHash e = sha256_hex (pipe_join (audit_fields e))"

definition tenant_audit :: "world \<Rightarrow> string \<Rightarrow> audit_row list" where
  "tenant_audit w tenantID = filter (\<lambda>a. au_TenantID a = tenantID) (w_audit w)"

definition last_link :: "world \<Rightarrow> string \<Rightarrow> int \<times> string" where
  "last_link w tenantID =
     (case least_by (\<lambda>a. - au_Seq a) (tenant_audit w tenantID) of
        None \<Rightarrow> (0, [])
      | Some a \<Rightarrow> (au_Seq a, au_RowHash a))"

text \<open>The row \<^verbatim>\<open>audit\<close> computes, with the instant of the clock and the marshalled metadata.\<close>

definition new_audit :: "principal \<Rightarrow> string \<Rightarrow> string \<Rightarrow> string \<Rightarrow> (string \<times> json) list \<Rightarrow> world \<Rightarrow> auditRow" where
  "new_audit p action resourceType resourceID metadata w =
     (let (lastSeq, lastHash) = last_link w (p_TenantID p);
          appID = (if w_is_uuid w (p_AppID p) then p_AppID p else []);
          e = \<lparr>ar_id = new_id w, ar_tenantID = p_TenantID p, ar_workspaceID = p_WorkspaceID p, ar_appID = appID,
               ar_actType = actorType p, ar_actID = actorID p, ar_act = action, ar_resType = resourceType,
               ar_resID = resourceID, ar_prevHash = lastHash, ar_rowHash = [],
               ar_metadata = marshal_json (JObj metadata), ar_occurredAt = w_now w, ar_seq = lastSeq + 1\<rparr>
      in e\<lparr>ar_rowHash := ComputeAuditRowHash e\<rparr>)"

definition stored_time :: "time \<Rightarrow> time" where
  "stored_time t = t div 1000 * 1000"

definition stored_audit :: "json \<Rightarrow> auditRow \<Rightarrow> audit_row" where
  "stored_audit metadata e =
     \<lparr>au_ID = ar_id e, au_TenantID = ar_tenantID e, au_WorkspaceID = ar_workspaceID e, au_AppID = ar_appID e,
      au_ActorType = ar_actType e, au_ActorID = ar_actID e, au_Action = ar_act e, au_ResourceType = ar_resType e,
      au_ResourceID = ar_resID e, au_Metadata = metadata, au_OccurredAt = stored_time (ar_occurredAt e),
      au_Seq = ar_seq e, au_PrevHash = ar_prevHash e, au_RowHash = ar_rowHash e\<rparr>"

text \<open>\<^verbatim>\<open>Store.audit\<close>, inside the transaction of its caller.\<close>

definition audit :: "principal \<Rightarrow> string \<Rightarrow> string \<Rightarrow> string \<Rightarrow> (string \<times> json) list \<Rightarrow> world \<Rightarrow> world" where
  "audit p action resourceType resourceID metadata w = (next_id w)\<lparr>w_audit := w_audit w @
     [stored_audit (JObj metadata) (new_audit p action resourceType resourceID metadata w)]\<rparr>"

text \<open>Auditing only appends to the trail.\<close>

lemma audit_frame [simp]:
  "w_now (audit p a b c m w) = w_now w"
  "w_tick (audit p a b c m w) = w_tick w"
  "w_fault (audit p a b c m w) = w_fault w"
  "w_uuid (audit p a b c m w) = w_uuid w"
  "w_sql (audit p a b c m w) = w_sql w"
  "w_ch (audit p a b c m w) = w_ch w"
  "w_order (audit p a b c m w) = w_order w"
  "w_is_uuid (audit p a b c m w) = w_is_uuid w"
  "w_jsonb_text (audit p a b c m w) = w_jsonb_text w"
  "w_before (audit p a b c m w) = w_before w"
  "w_blobs (audit p a b c m w) = w_blobs w"
  "w_calls (audit p a b c m w) = w_calls w"
  "w_journeys (audit p a b c m w) = w_journeys w"
  "w_versions (audit p a b c m w) = w_versions w"
  "w_runs (audit p a b c m w) = w_runs w"
  "w_steps (audit p a b c m w) = w_steps w"
  "w_transitions (audit p a b c m w) = w_transitions w"
  "w_intents (audit p a b c m w) = w_intents w"
  "w_profiles (audit p a b c m w) = w_profiles w"
  "w_apps (audit p a b c m w) = w_apps w"
  "w_events (audit p a b c m w) = w_events w"
  "w_jobs (audit p a b c m w) = w_jobs w"
  "w_outbox (audit p a b c m w) = w_outbox w"
  "w_pipelines (audit p a b c m w) = w_pipelines w"
  "w_connectors (audit p a b c m w) = w_connectors w"
  "w_opjobs (audit p a b c m w) = w_opjobs w"
  "w_windows (audit p a b c m w) = w_windows w"
  "w_experiments (audit p a b c m w) = w_experiments w"
  "w_variants (audit p a b c m w) = w_variants w"
  "w_assignments (audit p a b c m w) = w_assignments w"
  "w_flags (audit p a b c m w) = w_flags w"
  "w_segments (audit p a b c m w) = w_segments w"
  "w_members (audit p a b c m w) = w_members w"
  "w_tokens (audit p a b c m w) = w_tokens w"
  "w_templates (audit p a b c m w) = w_templates w"
  "w_identities (audit p a b c m w) = w_identities w"
  "w_suppressions (audit p a b c m w) = w_suppressions w"
  "w_consents (audit p a b c m w) = w_consents w"
  "w_attempts (audit p a b c m w) = w_attempts w"
  "w_quotas (audit p a b c m w) = w_quotas w"
  "w_checkers (audit p a b c m w) = w_checkers w"
  "w_namespaces (audit p a b c m w) = w_namespaces w"
  "w_aliases (audit p a b c m w) = w_aliases w"
  "w_merges (audit p a b c m w) = w_merges w"
  "w_snapshots (audit p a b c m w) = w_snapshots w"
  "w_companies (audit p a b c m w) = w_companies w"
  "w_company_members (audit p a b c m w) = w_company_members w"
  "w_inapp (audit p a b c m w) = w_inapp w"
  "w_exposures (audit p a b c m w) = w_exposures w"
  "w_engagements (audit p a b c m w) = w_engagements w"
  "w_conversions (audit p a b c m w) = w_conversions w"
  "w_campaigns (audit p a b c m w) = w_campaigns w"
  "w_delivery_jobs (audit p a b c m w) = w_delivery_jobs w"
  "w_manifests (audit p a b c m w) = w_manifests w"
  "w_stage_rules (audit p a b c m w) = w_stage_rules w"
  "w_privacy (audit p a b c m w) = w_privacy w"
  "w_objects (audit p a b c m w) = w_objects w"
  "w_published (audit p a b c m w) = w_published w"
  "w_dir (audit p a b c m w) = w_dir w"
  by (simp_all add: audit_def)

section \<open>Verifying\<close>

definition read_audit :: "(json \<Rightarrow> string) \<Rightarrow> audit_row \<Rightarrow> auditRow" where
  "read_audit jsonb_text a =
     \<lparr>ar_id = au_ID a, ar_tenantID = au_TenantID a, ar_workspaceID = au_WorkspaceID a, ar_appID = au_AppID a,
      ar_actType = au_ActorType a, ar_actID = au_ActorID a, ar_act = au_Action a, ar_resType = au_ResourceType a,
      ar_resID = au_ResourceID a, ar_prevHash = au_PrevHash a, ar_rowHash = au_RowHash a,
      ar_metadata = jsonb_text (au_Metadata a), ar_occurredAt = au_OccurredAt a, ar_seq = au_Seq a\<rparr>"

record audit_verification =
  av_Status :: string
  av_Intact :: bool
  av_TotalEvents :: int
  av_FirstBrokenSeq :: "int option"
  av_FirstBrokenID :: string
  av_Reason :: string

definition tampered :: "int \<Rightarrow> auditRow \<Rightarrow> string \<Rightarrow> audit_verification" where
  "tampered count e what = \<lparr>av_Status = ''tampered'', av_Intact = False, av_TotalEvents = count,
     av_FirstBrokenSeq = Some (ar_seq e), av_FirstBrokenID = ar_id e,
     av_Reason = what @ '' mismatch at seq '' @ itoa (ar_seq e)\<rparr>"

fun verify_loop :: "string \<Rightarrow> int \<Rightarrow> auditRow list \<Rightarrow> audit_verification" where
  "verify_loop expectedPrevHash n [] =
     \<lparr>av_Status = ''ok'', av_Intact = True, av_TotalEvents = n, av_FirstBrokenSeq = None, av_FirstBrokenID = [], av_Reason = []\<rparr>"
| "verify_loop expectedPrevHash n (e # events) =
     (if ar_prevHash e \<noteq> expectedPrevHash then tampered (n + 1) e ''prev_hash''
      else if ar_rowHash e \<noteq> ComputeAuditRowHash e then tampered (n + 1) e ''row_hash''
      else verify_loop (ar_rowHash e) (n + 1) events)"

definition verifyAuditRows :: "auditRow list \<Rightarrow> audit_verification" where
  "verifyAuditRows events = verify_loop [] 0 events"

definition VerifyAuditChain :: "principal \<Rightarrow> audit_verification call" where
  "VerifyAuditChain p = query (\<lambda>w. Inr (verifyAuditRows
     (map (read_audit (w_jsonb_text w)) (sort_key au_Seq (tenant_audit w (p_TenantID p))))))"

section \<open>Backfill\<close>

text \<open>
  Every tenant's rows, ordered by instant and identifier, are numbered and hashed anew; a row that
  already has its values is left alone. Each statement is a call of its own. A row is addressed by its
  identifier.
\<close>

text \<open>
  The unique index on tenant and number, which the first run creates; the number of a row that has none
  yet reads as 0.
\<close>

definition seqs_ok :: "audit_row list \<Rightarrow> bool" where
  "seqs_ok rows \<longleftrightarrow> distinct (map (\<lambda>a. (au_TenantID a, au_Seq a)) (filter (\<lambda>a. au_Seq a \<noteq> 0) rows))"

definition relink :: "string \<Rightarrow> int \<Rightarrow> string \<Rightarrow> string \<Rightarrow> unit call" where
  "relink i seq prev hash = db (\<lambda>w.
     let rows = upd_rows (\<lambda>a. au_ID a = i) (\<lambda>a. a\<lparr>au_Seq := seq, au_PrevHash := prev, au_RowHash := hash\<rparr>) (w_audit w)
     in if seqs_ok rows then (Inr (), w\<lparr>w_audit := rows\<rparr>) else (Inl ErrDb, w))"

fun backfill_rows :: "string \<Rightarrow> int \<Rightarrow> auditRow list \<Rightarrow> unit call" where
  "backfill_rows prev n [] = ret (Inr ())"
| "backfill_rows prev n (item # items) =
     (let seq = n + 1;
          expected = ComputeAuditRowHash (item\<lparr>ar_prevHash := prev, ar_seq := seq\<rparr>)
      in if ar_seq item \<noteq> seq \<or> ar_prevHash item \<noteq> prev \<or> ar_rowHash item \<noteq> expected
         then attempt (relink (ar_id item) seq prev expected)
                (wrapped (''failed to backfill audit event '' @ ar_id item))
                (\<lambda>_. backfill_rows expected seq items)
         else backfill_rows expected seq items)"

fun backfill_tenants :: "string list \<Rightarrow> unit call" where
  "backfill_tenants [] = ret (Inr ())"
| "backfill_tenants (tenantID # tenantIDs) =
     attempt (query (\<lambda>w. Inr (map (read_audit (w_jsonb_text w))
                (sort_key (\<lambda>a. (au_OccurredAt a, au_ID a)) (tenant_audit w tenantID)))))
       failed
       (\<lambda>items. attempt (backfill_rows [] 0 items) failed (\<lambda>_. backfill_tenants tenantIDs))"

definition BackfillAuditChain :: "unit call" where
  "BackfillAuditChain =
     attempt (query (\<lambda>w. Inr (remdups (map au_TenantID (w_audit w))))) failed backfill_tenants"

end
