(* ===== verification/Policy.thy ===== *)
theory Policy
  imports AuditLog
begin

text \<open>
  Delivery policy: \<^verbatim>\<open>internal/policy/policy.go\<close> and the store functions of
  \<^verbatim>\<open>internal/postgres/delivery.go\<close> it asks. The specification \<open>eligible\<close> says who may receive a
  marketing message; \<open>Evaluate\<close> answers \<^verbatim>\<open>sent\<close> only to eligible recipients, and to every eligible
  recipient when the database answers.
\<close>

section \<open>Store functions\<close>

definition suppresses :: "string \<Rightarrow> string \<Rightarrow> string \<Rightarrow> suppression \<Rightarrow> bool" where
  "suppresses tenantID channel endpoint s \<longleftrightarrow>
     su_TenantID s = tenantID \<and> su_Channel s = to_lower channel \<and> su_Endpoint s = to_lower endpoint"

definition IsSuppressed :: "principal \<Rightarrow> string \<Rightarrow> string \<Rightarrow> bool call" where
  "IsSuppressed p channel endpoint =
     query (\<lambda>w. Inr (list_ex (suppresses (p_TenantID p) channel endpoint) (w_suppressions w)))"

definition suppression_reasons :: "string list" where
  "suppression_reasons = [''bounce'', ''complaint'', ''unsubscribe'', ''admin'']"

definition SuppressEndpoint :: "principal \<Rightarrow> string \<Rightarrow> string \<Rightarrow> string \<Rightarrow> unit call" where
  "SuppressEndpoint p channel endpoint reason = db (\<lambda>w.
     if reason \<notin> set suppression_reasons then (Inl (ErrNew ''invalid suppression reason''), w)
     else
       (let w1 = (if list_ex (suppresses (p_TenantID p) channel endpoint) (w_suppressions w)
                  then w\<lparr>w_suppressions := upd_rows (suppresses (p_TenantID p) channel endpoint)
                           (\<lambda>s. s\<lparr>su_Reason := reason\<rparr>) (w_suppressions w)\<rparr>
                  else (next_id w)\<lparr>w_suppressions := w_suppressions w @
                    [\<lparr>su_ID = new_id w, su_TenantID = p_TenantID p, su_Channel = to_lower channel,
                      su_Endpoint = to_lower endpoint, su_Reason = reason, su_SourceEventID = None,
                      su_CreatedAt = w_now w\<rparr>]\<rparr>)
        in (Inr (), audit p ''suppression.create'' ''suppression'' endpoint
                      [(''channel'', JStr channel), (''reason'', JStr reason)] w1)))"

definition RemoveSuppression :: "principal \<Rightarrow> string \<Rightarrow> string \<Rightarrow> unit call" where
  "RemoveSuppression p channel endpoint = db (\<lambda>w.
     if \<not> list_ex (suppresses (p_TenantID p) channel endpoint) (w_suppressions w) then (Inl ErrNotFound, w)
     else (Inr (), audit p ''suppression.delete'' ''suppression'' endpoint [(''channel'', JStr channel)]
             (w\<lparr>w_suppressions := filter (\<lambda>s. \<not> suppresses (p_TenantID p) channel endpoint s) (w_suppressions w)\<rparr>)))"

definition ListSuppressions :: "principal \<Rightarrow> suppression list call" where
  "ListSuppressions p = query (\<lambda>w.
     Inr (sort_key (\<lambda>s. - su_CreatedAt s) (filter (\<lambda>s. su_TenantID s = p_TenantID p) (w_suppressions w))))"

definition consent_rows :: "world \<Rightarrow> string \<Rightarrow> string \<Rightarrow> string \<Rightarrow> string \<Rightarrow> consent list" where
  "consent_rows w tenantID profileID channel topic =
     map cr_Consent (filter (\<lambda>r. cr_TenantID r = tenantID \<and> co_ProfileID (cr_Consent r) = profileID \<and>
       co_Channel (cr_Consent r) = to_lower channel \<and> co_Topic (cr_Consent r) = topic) (w_consents w))"

definition latest_consent :: "world \<Rightarrow> string \<Rightarrow> string \<Rightarrow> string \<Rightarrow> string \<Rightarrow> consent option" where
  "latest_consent w tenantID profileID channel topic =
     least_by (\<lambda>c. - co_OccurredAt c) (consent_rows w tenantID profileID channel topic)"

definition LatestConsent :: "principal \<Rightarrow> string \<Rightarrow> string \<Rightarrow> string \<Rightarrow> consent call" where
  "LatestConsent p profileID channel topic = query (\<lambda>w.
     case latest_consent w (p_TenantID p) profileID channel topic of
       None \<Rightarrow> Inl ErrNotFound
     | Some c \<Rightarrow> Inr c)"

definition sent_count :: "world \<Rightarrow> string \<Rightarrow> string \<Rightarrow> time \<Rightarrow> int" where
  "sent_count w tenantID profileID since =
     int (length (filter (\<lambda>a. da_TenantID a = tenantID \<and> da_ProfileID a = profileID \<and> da_Decision a = ''sent'' \<and>
            da_AttemptedAt a \<ge> since) (w_attempts w))
        + length (filter (\<lambda>i. mi_TenantID i = tenantID \<and> mi_ProfileID i = profileID \<and> mi_Decision i = Some ''sent'' \<and>
            mi_UpdatedAt i \<ge> since) (w_intents w)))"

definition SentCountSince :: "principal \<Rightarrow> string \<Rightarrow> time \<Rightarrow> int call" where
  "SentCountSince p profileID since = query (\<lambda>w. Inr (sent_count w (p_TenantID p) profileID since))"

definition tenant_quota :: "world \<Rightarrow> string \<Rightarrow> quota_row option" where
  "tenant_quota w tenantID = find (\<lambda>q. tq_TenantID q = tenantID) (w_quotas w)"

definition GetTenantFatigueQuotas :: "principal \<Rightarrow> (int \<times> int) call" where
  "GetTenantFatigueQuotas p = query (\<lambda>w.
     case tenant_quota w (p_TenantID p) of
       None \<Rightarrow> Inr (5, 20)
     | Some q \<Rightarrow> Inr (tq_MaxSends24h q, tq_MaxSends7d q))"

definition GetTenantQuietHours :: "principal \<Rightarrow> (int option \<times> int option \<times> string) call" where
  "GetTenantQuietHours p = query (\<lambda>w.
     case tenant_quota w (p_TenantID p) of
       None \<Rightarrow> Inr (None, None, ''UTC'')
     | Some q \<Rightarrow> Inr (tq_QuietHoursStart q, tq_QuietHoursEnd q, tq_DefaultTimezone q))"

section \<open>Evaluation\<close>

record recipient =
  rc_ProfileID :: string
  rc_ExternalID :: string
  rc_Endpoint :: string

record caps =
  cp_Channel :: string
  cp_Topic :: string
  cp_MaxSends24h :: int
  cp_MaxSends7d :: int

record verdict =
  vd_Decision :: string
  vd_Reason :: string
  vd_Snapshot :: "(string \<times> json) list"

abbreviation verdict_of :: "string \<Rightarrow> string \<Rightarrow> (string \<times> json) list \<Rightarrow> verdict" where
  "verdict_of d r s \<equiv> \<lparr>vd_Decision = d, vd_Reason = r, vd_Snapshot = s\<rparr>"

definition day :: duration where "day = 24 * hour"

text \<open>The check of one cap; \<open>k\<close> is what follows when the cap is not reached.\<close>

definition fatigue_check ::
  "principal \<Rightarrow> string \<Rightarrow> string \<Rightarrow> int \<Rightarrow> time \<Rightarrow> (string \<times> json) list \<Rightarrow>
   ((string \<times> json) list \<Rightarrow> verdict prog) \<Rightarrow> verdict prog" where
  "fatigue_check p profileID label cap since snapshot k =
     (if cap > 0 then
        attempt (SentCountSince p profileID since)
          (\<lambda>err. ret (verdict_of ''send_failed'' (''failed to check '' @ label @ '' fatigue count: '' @ error_text err) snapshot))
          (\<lambda>sends.
            let snapshot' = snapshot @ [(''sends_'' @ label, JInt sends), (''max_sends_'' @ label, JInt cap)]
            in if sends \<ge> cap
               then ret (verdict_of ''fatigued'' (label @ '' fatigue limit reached ('' @ itoa sends @ ''/'' @ itoa cap @ '' sends)'') snapshot')
               else k snapshot')
      else k snapshot)"

definition policy_topic :: "caps \<Rightarrow> string" where
  "policy_topic c = (if cp_Topic c = [] then ''marketing'' else cp_Topic c)"

definition Evaluate :: "principal \<Rightarrow> recipient \<Rightarrow> caps \<Rightarrow> verdict prog" where
  "Evaluate p rcp c = do {
     now \<leftarrow> get_now;
     attempt (IsSuppressed p (cp_Channel c) (rc_Endpoint rcp))
       (\<lambda>err. ret (verdict_of ''send_failed'' (''failed to check suppression: '' @ error_text err) []))
       (\<lambda>suppressed.
         let s1 = [(''suppressed'', JBool suppressed)] in
         if suppressed then ret (verdict_of ''suppressed'' ''endpoint is suppressed'' s1)
         else
           attempt (LatestConsent p (rc_ProfileID rcp) (cp_Channel c) (policy_topic c))
             (\<lambda>err. if errors_Is err ErrNotFound
                    then ret (verdict_of ''no_consent'' ''no explicit consent found'' (s1 @ [(''consent'', JStr ''missing'')]))
                    else ret (verdict_of ''send_failed'' (''failed to check consent: '' @ error_text err) s1))
             (\<lambda>consent.
               let s2 = s1 @ [(''consent'', JStr (co_State consent))] in
               if co_State consent \<noteq> ''subscribed''
               then ret (verdict_of ''no_consent'' (''consent state is '' @ co_State consent) s2)
               else
                 fatigue_check p (rc_ProfileID rcp) ''24h'' (cp_MaxSends24h c) (now - day) s2 (\<lambda>s3.
                 fatigue_check p (rc_ProfileID rcp) ''7d'' (cp_MaxSends7d c) (now - 7 * day) s3 (\<lambda>s4.
                   ret (verdict_of ''sent'' ''eligible'' s4))))) }"

section \<open>Who may receive a message\<close>

definition below_cap :: "world \<Rightarrow> string \<Rightarrow> string \<Rightarrow> int \<Rightarrow> duration \<Rightarrow> bool" where
  "below_cap w tenantID profileID cap window \<longleftrightarrow>
     (cap > 0 \<longrightarrow> sent_count w tenantID profileID (w_now w - window) < cap)"

definition eligible :: "world \<Rightarrow> string \<Rightarrow> recipient \<Rightarrow> caps \<Rightarrow> bool" where
  "eligible w tenantID rcp c \<longleftrightarrow>
     \<not> list_ex (suppresses tenantID (cp_Channel c) (rc_Endpoint rcp)) (w_suppressions w) \<and>
     (\<exists>consent. latest_consent w tenantID (rc_ProfileID rcp) (cp_Channel c) (policy_topic c) = Some consent \<and>
        co_State consent = ''subscribed'') \<and>
     below_cap w tenantID (rc_ProfileID rcp) (cp_MaxSends24h c) day \<and>
     below_cap w tenantID (rc_ProfileID rcp) (cp_MaxSends7d c) (7 * day)"

lemma tick_irrelevant [simp]:
  "latest_consent (w\<lparr>w_tick := k\<rparr>) t f ch tp = latest_consent w t f ch tp"
  "sent_count (w\<lparr>w_tick := k\<rparr>) t f since = sent_count w t f since"
  "tenant_quota (w\<lparr>w_tick := k\<rparr>) t = tenant_quota w t"
  by (simp_all add: latest_consent_def consent_rows_def sent_count_def tenant_quota_def)

lemma ticked_irrelevant [simp]:
  "latest_consent (ticked w) t f ch tp = latest_consent w t f ch tp"
  "sent_count (ticked w) t f since = sent_count w t f since"
  "tenant_quota (ticked w) t = tenant_quota w t"
  by (simp_all add: ticked_def)

lemmas policy_calls = IsSuppressed_def LatestConsent_def SentCountSince_def GetTenantFatigueQuotas_def
  GetTenantQuietHours_def

lemma read_only_fatigue:
  "(\<And>s. state_io_rel read_only (k s)) \<Longrightarrow> state_io_rel read_only (fatigue_check p f l cap since s k)"
  unfolding fatigue_check_def policy_calls by (intro ro.store_rules) auto

lemma read_only_Evaluate: "state_io_rel read_only (Evaluate p rcp c)"
  unfolding Evaluate_def policy_calls by (intro ro.store_rules read_only_fatigue)

lemma fatigue_check_sent:
  assumes "run_state (fatigue_check p f l cap since s k) w = (v, w')" and "vd_Decision v = ''sent''"
  shows "\<exists>s' w1. run_state (k s') w1 = (v, w') \<and> read_only w w1 \<and>
    (cap > 0 \<longrightarrow> sent_count w (p_TenantID p) f since < cap)"
proof (cases "cap > 0")
  case True
  with assms show ?thesis
    by (auto simp: fatigue_check_def SentCountSince_def run_attempt run_query Let_def split: if_splits)
      (metis read_only_ticked)
next
  case False
  with assms show ?thesis by (auto simp: fatigue_check_def intro: read_only_refl)
qed

lemma Evaluate_sent:
  assumes "run_state (Evaluate p rcp c) w = (v, w')" and "vd_Decision v = ''sent''"
  shows "eligible w (p_TenantID p) rcp c"
proof -
  let ?k = "\<lambda>s4. ret (verdict_of ''sent'' ''eligible'' s4) :: verdict prog"
  from assms obtain consent s2 w1 where w1: "read_only w w1"
    and sup: "\<not> list_ex (suppresses (p_TenantID p) (cp_Channel c) (rc_Endpoint rcp)) (w_suppressions w)"
    and cons: "latest_consent w (p_TenantID p) (rc_ProfileID rcp) (cp_Channel c) (policy_topic c) = Some consent"
      "co_State consent = ''subscribed''"
    and f1: "run_state (fatigue_check p (rc_ProfileID rcp) ''24h'' (cp_MaxSends24h c) (w_now w - day) s2
      (\<lambda>s3. fatigue_check p (rc_ProfileID rcp) ''7d'' (cp_MaxSends7d c) (w_now w - 7 * day) s3 ?k)) w1 = (v, w')"
    by (auto simp: Evaluate_def IsSuppressed_def LatestConsent_def run_attempt run_query ticked_def Let_def read_only_def
        split: if_splits option.splits sum.splits)
  from fatigue_check_sent [OF f1 assms(2)] obtain s3 w2 where w2: "read_only w1 w2"
    and c1: "cp_MaxSends24h c > 0 \<longrightarrow> sent_count w1 (p_TenantID p) (rc_ProfileID rcp) (w_now w - day) < cp_MaxSends24h c"
    and f2: "run_state (fatigue_check p (rc_ProfileID rcp) ''7d'' (cp_MaxSends7d c) (w_now w - 7 * day) s3 ?k) w2 = (v, w')"
    by blast
  from fatigue_check_sent [OF f2 assms(2)]
  have c2: "cp_MaxSends7d c > 0 \<longrightarrow> sent_count w2 (p_TenantID p) (rc_ProfileID rcp) (w_now w - 7 * day) < cp_MaxSends7d c"
    by blast
  from w1 w2 c1 c2 sup cons show ?thesis
    by (auto simp: eligible_def below_cap_def read_only_def)
qed

text \<open>Conversely, when the database answers, an eligible recipient is let through.\<close>

lemma fatigue_check_pass:
  assumes "healthy w" and "cap > 0 \<longrightarrow> sent_count w (p_TenantID p) f since < cap"
  shows "\<exists>s' w1. run_state (fatigue_check p f l cap since s k) w = run_state (k s') w1 \<and> read_only w w1"
proof (cases "cap > 0")
  case True
  with assms have "run_state (fatigue_check p f l cap since s k) w =
      run_state (k (s @ [(''sends_'' @ l, JInt (sent_count w (p_TenantID p) f since)), (''max_sends_'' @ l, JInt cap)])) (ticked w)"
    by (simp add: fatigue_check_def SentCountSince_def run_attempt run_query Let_def)
  then show ?thesis by (metis read_only_ticked)
next
  case False
  then show ?thesis by (auto simp: fatigue_check_def intro: read_only_refl)
qed

lemma Evaluate_eligible:
  assumes "healthy w" and "eligible w (p_TenantID p) rcp c"
  shows "vd_Decision (fst (run_state (Evaluate p rcp c) w)) = ''sent''"
proof -
  let ?k = "\<lambda>s4. ret (verdict_of ''sent'' ''eligible'' s4) :: verdict prog"
  let ?f = "\<lambda>s2. fatigue_check p (rc_ProfileID rcp) ''24h'' (cp_MaxSends24h c) (w_now w - day) s2
      (\<lambda>s3. fatigue_check p (rc_ProfileID rcp) ''7d'' (cp_MaxSends7d c) (w_now w - 7 * day) s3 ?k)"
  from assms obtain s2 where e: "run_state (Evaluate p rcp c) w = run_state (?f s2) (ticked (ticked w))"
    by (auto simp: Evaluate_def eligible_def IsSuppressed_def LatestConsent_def run_attempt run_query Let_def)
  have h: "healthy (ticked (ticked w))" using assms by simp
  have "cp_MaxSends24h c > 0 \<longrightarrow> sent_count (ticked (ticked w)) (p_TenantID p) (rc_ProfileID rcp) (w_now w - day) < cp_MaxSends24h c"
    using assms(2) by (simp add: ticked_def eligible_def below_cap_def)
  from fatigue_check_pass [OF h this] obtain s3 w3 where w3: "read_only (ticked (ticked w)) w3"
    and e3: "run_state (?f s2) (ticked (ticked w)) =
      run_state (fatigue_check p (rc_ProfileID rcp) ''7d'' (cp_MaxSends7d c) (w_now w - 7 * day) s3 ?k) w3" by blast
  have "healthy w3" using healthy_read_only [OF w3] h by simp
  moreover have "cp_MaxSends7d c > 0 \<longrightarrow> sent_count w3 (p_TenantID p) (rc_ProfileID rcp) (w_now w - 7 * day) < cp_MaxSends7d c"
    using assms(2) w3 by (auto simp: read_only_def ticked_def eligible_def below_cap_def)
  ultimately show ?thesis using fatigue_check_pass e e3 by (metis run_state_return fst_conv verdict.select_convs(1))
qed

end
