(* ===== verification/Events.thy ===== *)
theory Events
  imports AuditLog
begin

text \<open>
  Acceptance of events: \<^verbatim>\<open>Store.AcceptEvents\<close> of \<^verbatim>\<open>internal/postgres/store.go\<close>. Deduplication by
  idempotency key, the projection job and the outbox record of every event, the jobs of the
  subscribed connectors, and the quota of the tenant, all in one transaction. The payloads of
  the outbox records and of the jobs are part of it.

  The facts: the idempotency key stays unique, a batch that is accepted twice adds nothing the
  second time, an event that differs under the same key is refused, and accepted events are never
  changed or removed.
\<close>

section \<open>The accepted event\<close>

definition normalized_event :: "event \<Rightarrow> event" where
  "normalized_event e = e\<lparr>
     ev_OccurredAt := ev_OccurredAt e div 1000 * 1000,
     ev_Source := (if ev_Source e = [] then ''api'' else ev_Source e),
     ev_DataClassification := (if ev_DataClassification e = [] then ''internal'' else ev_DataClassification e),
     ev_ConsentContext := or_empty_obj (ev_ConsentContext e)\<rparr>"

definition event_row :: "principal \<Rightarrow> event \<Rightarrow> string \<Rightarrow> time \<Rightarrow> accepted_event" where
  "event_row p e i received =
     \<lparr>ae_ID = i, ae_Principal = p, ae_Type = ev_Type e, ae_SchemaVersion = ev_SchemaVersion e,
      ae_ExternalID = ev_ExternalID e, ae_AnonymousID = ev_AnonymousID e, ae_IdempotencyKey = ev_IdempotencyKey e,
      ae_OccurredAt = ev_OccurredAt e, ae_ReceivedAt = received, ae_Source = ev_Source e,
      ae_SourceEventID = ev_SourceEventID e, ae_CorrelationID = ev_CorrelationID e, ae_CausationID = ev_CausationID e,
      ae_Traceparent = ev_Traceparent e, ae_DataClassification = ev_DataClassification e,
      ae_ConsentContext = ev_ConsentContext e, ae_Payload = ev_Payload e\<rparr>"

definition event_key :: "accepted_event \<Rightarrow> string \<times> string \<times> string" where
  "event_key a = (p_TenantID (ae_Principal a), p_AppID (ae_Principal a), ae_IdempotencyKey a)"

definition same_key :: "principal \<Rightarrow> event \<Rightarrow> accepted_event \<Rightarrow> bool" where
  "same_key p e a \<longleftrightarrow> event_key a = (p_TenantID p, p_AppID p, ev_IdempotencyKey e)"

text \<open>The comparison of a repeated event with the stored one.\<close>

definition same_event :: "event \<Rightarrow> accepted_event \<Rightarrow> bool" where
  "same_event e a \<longleftrightarrow>
     ae_Type a = ev_Type e \<and> ae_SchemaVersion a = ev_SchemaVersion e \<and> ae_ExternalID a = ev_ExternalID e \<and>
     ae_AnonymousID a = ev_AnonymousID e \<and> ae_OccurredAt a = ev_OccurredAt e \<and>
     json_deep_equal (ae_Payload a) (ev_Payload e)"

text \<open>The columns that must be present and valid: a known application, a positive schema version, a payload.\<close>

definition row_valid :: "world \<Rightarrow> principal \<Rightarrow> event \<Rightarrow> bool" where
  "row_valid w p e \<longleftrightarrow> list_ex (\<lambda>a. ap_ID a = p_AppID p) (w_apps w) \<and> ev_SchemaVersion e > 0 \<and> ev_Payload e \<noteq> None"

definition store_event :: "principal \<Rightarrow> event \<Rightarrow> world \<Rightarrow> (string \<times> world) result" where
  "store_event p e w =
     (if \<not> row_valid w p e then Inl ErrDb
      else case find (same_key p e) (w_events w) of
        None \<Rightarrow> Inr (new_id w, (next_id w)\<lparr>w_events := w_events w @ [event_row p e (new_id w) (w_now w)]\<rparr>)
      | Some a \<Rightarrow> if same_event e a then Inr (ae_ID a, w) else Inl ErrIdempotencyConflict)"

definition partition_key :: "event \<Rightarrow> string" where
  "partition_key e = (if ev_ExternalID e = [] then ev_AnonymousID e else ev_ExternalID e)"

definition add_job :: "principal \<Rightarrow> event \<Rightarrow> string \<Rightarrow> world \<Rightarrow> world" where
  "add_job p e i w =
     (if i \<in> set (map pj_EventID (w_jobs w)) then w
      else w\<lparr>w_jobs := w_jobs w @ [\<lparr>pj_EventID = i, pj_TenantID = p_TenantID p, pj_PartitionKey = partition_key e,
                                    pj_Status = ''pending'', pj_Attempts = 0, pj_AvailableAt = w_now w,
                                    pj_LockedUntil = None, pj_LastError = None, pj_CompletedAt = None\<rparr>]\<rparr>)"

text \<open>
  The envelope of an event. Its members are in the order \<^verbatim>\<open>json.Marshal\<close> writes a map; \<^verbatim>\<open>received_at\<close> is the
  one of the stored row. The export topic also names the enabled export pipelines.
\<close>

definition json_of_raw :: "raw \<Rightarrow> json" where
  "json_of_raw r = (case r of None \<Rightarrow> JNull | Some j \<Rightarrow> j)"

definition event_envelope :: "principal \<Rightarrow> event \<Rightarrow> string \<Rightarrow> time \<Rightarrow> json" where
  "event_envelope p e i received = JObj
     [(''anonymous_id'', JStr (ev_AnonymousID e)), (''app_id'', JStr (p_AppID p)), (''causation_id'', JStr (ev_CausationID e)),
      (''consent_context'', json_of_raw (ev_ConsentContext e)), (''correlation_id'', JStr (ev_CorrelationID e)),
      (''data_classification'', JStr (ev_DataClassification e)), (''event_id'', JStr i), (''event_type'', JStr (ev_Type e)),
      (''external_id'', JStr (ev_ExternalID e)), (''occurred_at'', JStr (rfc3339_nano (ev_OccurredAt e))),
      (''payload'', json_of_raw (ev_Payload e)), (''received_at'', JStr (rfc3339_nano received)),
      (''schema_version'', JInt (ev_SchemaVersion e)), (''source'', JStr (ev_Source e)),
      (''source_event_id'', JStr (ev_SourceEventID e)), (''tenant_id'', JStr (p_TenantID p)),
      (''traceparent'', JStr (ev_Traceparent e)), (''workspace_id'', JStr (p_WorkspaceID p))]"

definition received_at :: "string \<Rightarrow> world \<Rightarrow> time" where
  "received_at i w = (case find (\<lambda>a. ae_ID a = i) (w_events w) of None \<Rightarrow> w_now w | Some a \<Rightarrow> ae_ReceivedAt a)"

definition exports :: "world \<Rightarrow> principal \<Rightarrow> string list" where
  "exports w p = sort (map pl_ID (filter (\<lambda>l. pl_TenantID l = p_TenantID p \<and> pl_WorkspaceID l = p_WorkspaceID p \<and>
     pl_AppID l = p_AppID p \<and> pl_Direction l = ''export'' \<and> pl_Status l = ''enabled'') (w_pipelines w)))"

definition outbox_payload :: "principal \<Rightarrow> event \<Rightarrow> string \<Rightarrow> string \<Rightarrow> world \<Rightarrow> json" where
  "outbox_payload p e topic i w =
     (case event_envelope p e i (received_at i w) of
        JObj kvs \<Rightarrow> JObj (if topic = ''exports.events.v1'' then kvs @ [(''export_pipeline_ids'', JArr (map JStr (exports w p)))] else kvs)
      | j \<Rightarrow> j)"

definition add_outbox :: "principal \<Rightarrow> event \<Rightarrow> string \<Rightarrow> string \<Rightarrow> world \<Rightarrow> world" where
  "add_outbox p e topic i w =
     (if (topic, i) \<in> set (map (\<lambda>o'. (ob_Topic o', ob_EventID o')) (w_outbox w)) then w
      else (next_id w)\<lparr>w_outbox := w_outbox w @ [\<lparr>ob_ID = new_id w, ob_TenantID = p_TenantID p, ob_Topic = topic,
        ob_PartitionKey = partition_key e, ob_EventID = i, ob_Payload = outbox_payload p e topic i w, ob_Status = ''pending'', ob_Attempts = 0, ob_AvailableAt = w_now w,
        ob_LockedUntil = None, ob_LastError = None, ob_CreatedAt = w_now w, ob_PublishedAt = None\<rparr>]\<rparr>)"

text \<open>The payload of a connector job is the object built from these texts and the envelope.\<close>

definition connector_payload :: "principal \<Rightarrow> event \<Rightarrow> string \<Rightarrow> time \<Rightarrow> string \<Rightarrow> (string \<times> json) list" where
  "connector_payload p e i received extensionID =
     [(''tenant_id'', JStr (p_TenantID p)), (''workspace_id'', JStr (p_WorkspaceID p)), (''extension_id'', JStr extensionID),
      (''event_id'', JStr i), (''event_type'', JStr (ev_Type e)), (''event'', event_envelope p e i received)]"

definition runs_connector :: "string \<Rightarrow> string \<Rightarrow> operation_job \<Rightarrow> bool" where
  "runs_connector extensionID i j \<longleftrightarrow> oj_Type j = ''connector.run'' \<and>
     payload_text ''extension_id'' j = Some extensionID \<and> payload_text ''event_id'' j = Some i"

definition add_connector_jobs :: "principal \<Rightarrow> event \<Rightarrow> string \<Rightarrow> world \<Rightarrow> world" where
  "add_connector_jobs p e i w =
     (let cs = filter (\<lambda>c. cn_TenantID c = p_TenantID p \<and> cn_WorkspaceID c = p_WorkspaceID p \<and>
                  \<not> list_ex (runs_connector (cn_ExtensionID c) i) (w_opjobs w)) (w_connectors w)
      in w\<lparr>w_seq := w_seq w + length cs, w_opjobs := w_opjobs w @
        map (\<lambda>(k, c). new_op_job (w_uuid w k) (p_TenantID p) (p_WorkspaceID p) ''connector.run''
               (connector_payload p e i (received_at i w) (cn_ExtensionID c)) (w_now w)) (enumerate (w_seq w) cs)\<rparr>)"

definition accept_one :: "principal \<Rightarrow> event \<Rightarrow> world \<Rightarrow> (string \<times> world) result" where
  "accept_one p event w =
     (let e = normalized_event event in
      case store_event p e w of
        Inl err \<Rightarrow> Inl err
      | Inr (i, w1) \<Rightarrow>
          (let w2 = add_outbox p e ''events.accepted.v1'' i (add_job p e i w1);
               w3 = (if exports w2 p \<noteq> [] then add_outbox p e ''exports.events.v1'' i w2 else w2)
           in Inr (i, add_connector_jobs p e i w3)))"

fun accept_all :: "principal \<Rightarrow> event list \<Rightarrow> world \<Rightarrow> (string list \<times> world) result" where
  "accept_all p [] w = Inr ([], w)"
| "accept_all p (e # es) w =
     (case accept_one p e w of
        Inl err \<Rightarrow> Inl err
      | Inr (i, w1) \<Rightarrow> (case accept_all p es w1 of Inl err \<Rightarrow> Inl err | Inr (ids, w2) \<Rightarrow> Inr (i # ids, w2)))"

text \<open>The window of the current minute is increased by the size of the batch.\<close>

definition window_key :: "world \<Rightarrow> principal \<Rightarrow> string \<times> int" where
  "window_key w p = (p_TenantID p, w_now w div minute)"

definition count_window :: "principal \<Rightarrow> nat \<Rightarrow> world \<Rightarrow> int \<times> world" where
  "count_window p n w =
     (let k = window_key w p; c = (case map_of (w_windows w) k of None \<Rightarrow> 0 | Some c \<Rightarrow> c) + int n
      in (c, w\<lparr>w_windows := (k, c) # filter (\<lambda>(k', _). k' \<noteq> k) (w_windows w)\<rparr>))"

definition accept_tx :: "principal \<Rightarrow> event list \<Rightarrow> world \<Rightarrow> (string list \<times> world) result" where
  "accept_tx p events w =
     (case find (\<lambda>q. tq_TenantID q = p_TenantID p) (w_quotas w) of
        None \<Rightarrow> Inl ErrNoRows
      | Some q \<Rightarrow>
          if int (length events) > tq_MaxBatchSize q
          then Inl (ErrTagged ErrQuotaExceeded (''maximum batch size is '' @ itoa (tq_MaxBatchSize q)))
          else case accept_all p events w of
            Inl err \<Rightarrow> Inl err
          | Inr (ids, w1) \<Rightarrow>
              (case count_window p (length events) w1 of
                 (windowCount, w2) \<Rightarrow>
                   if windowCount > tq_EventsPerMinute q then Inl (ErrTagged ErrQuotaExceeded ''events per minute'')
                   else Inr (ids, audit p ''events.accept'' ''event_batch'' [] [(''count'', JInt (int (length events)))] w2)))"

definition AcceptEvents :: "principal \<Rightarrow> event list \<Rightarrow> string list call" where
  "AcceptEvents p events =
     db (\<lambda>w. case accept_tx p events w of Inl e \<Rightarrow> (Inl e, w) | Inr (ids, w') \<Rightarrow> (Inr ids, w'))"

section \<open>Facts\<close>

definition events_unique :: "world \<Rightarrow> bool" where
  "events_unique w \<longleftrightarrow> distinct (map event_key (w_events w))"

lemma frame_events [simp]:
  "w_events (add_job p e i w) = w_events w"
  "w_events (add_outbox p e t i w) = w_events w"
  "w_events (add_connector_jobs p e i w) = w_events w"
  "w_events (snd (count_window p n w)) = w_events w"
  "w_events (audit p a b c m w) = w_events w"
  by (simp_all add: add_job_def add_outbox_def add_connector_jobs_def count_window_def audit_def Let_def)

lemma same_key_row [simp]: "same_key p e (event_row p e i t)"
  by (simp add: same_key_def event_key_def event_row_def)

lemma same_event_row [simp]: "same_event e (event_row p e i t)"
  by (simp add: same_event_def event_row_def)

text \<open>
  An event is settled when it is stored under its key, with its job, its outbox records and the jobs
  of its connectors. Accepting a settled event changes nothing; accepting any event keeps what is
  settled.
\<close>

definition settled :: "world \<Rightarrow> principal \<Rightarrow> event \<Rightarrow> string \<Rightarrow> bool" where
  "settled w p e i \<longleftrightarrow> row_valid w p e \<and>
     (\<exists>a. find (same_key p e) (w_events w) = Some a \<and> same_event e a \<and> ae_ID a = i) \<and>
     i \<in> set (map pj_EventID (w_jobs w)) \<and>
     (''events.accepted.v1'', i) \<in> set (map (\<lambda>o'. (ob_Topic o', ob_EventID o')) (w_outbox w)) \<and>
     (exports w p \<noteq> [] \<longrightarrow> (''exports.events.v1'', i) \<in> set (map (\<lambda>o'. (ob_Topic o', ob_EventID o')) (w_outbox w))) \<and>
     (\<forall>c \<in> set (w_connectors w). cn_TenantID c = p_TenantID p \<longrightarrow> cn_WorkspaceID c = p_WorkspaceID p \<longrightarrow>
        list_ex (runs_connector (cn_ExtensionID c) i) (w_opjobs w))"

text \<open>What acceptance does to the tables it writes: rows are only ever added.\<close>

definition grows :: "world \<Rightarrow> world \<Rightarrow> bool" where
  "grows w w' \<longleftrightarrow> (\<exists>es. w_events w' = w_events w @ es) \<and> (\<exists>js. w_jobs w' = w_jobs w @ js) \<and>
     (\<exists>os. w_outbox w' = w_outbox w @ os) \<and> (\<exists>cs. w_opjobs w' = w_opjobs w @ cs) \<and>
     w_apps w' = w_apps w \<and> w_pipelines w' = w_pipelines w \<and> w_connectors w' = w_connectors w"

lemma grows_refl [simp]: "grows w w"
  by (simp add: grows_def)

lemma grows_trans: "grows u v \<Longrightarrow> grows v w \<Longrightarrow> grows u w"
  by (auto simp: grows_def)

lemma grows_parts:
  "grows w v \<Longrightarrow> grows w (add_job p e i v)"
  "grows w v \<Longrightarrow> grows w (add_outbox p e t i v)"
  "grows w v \<Longrightarrow> grows w (add_connector_jobs p e i v)"
  by (auto simp: grows_def add_job_def add_outbox_def add_connector_jobs_def Let_def)

lemma grows_store: "store_event p e w = Inr (i, w1) \<Longrightarrow> grows w w1"
  by (auto simp: store_event_def grows_def next_id_def split: if_splits option.splits)

lemma accept_one_grows: "accept_one p e w = Inr (i, w') \<Longrightarrow> grows w w'"
  by (auto simp: accept_one_def Let_def split: sum.splits dest!: grows_store
      intro!: grows_parts)

lemma accept_all_grows: "accept_all p es w = Inr (ids, w') \<Longrightarrow> grows w w'"
  by (induction es arbitrary: w ids) (auto split: sum.splits prod.splits dest!: accept_one_grows intro: grows_trans)

lemma exports_grows: "grows w w' \<Longrightarrow> exports w' p = exports w p"
  by (simp add: grows_def exports_def)

lemma settled_grows: "settled w p e i \<Longrightarrow> grows w w' \<Longrightarrow> settled w' p e i"
  using exports_grows [of w w' p]
  by (auto simp: settled_def grows_def row_valid_def find_append)

lemma store_event_settles:
  assumes "store_event p e w = Inr (i, w1)"
  shows "row_valid w1 p e \<and> (\<exists>a. find (same_key p e) (w_events w1) = Some a \<and> same_event e a \<and> ae_ID a = i)"
  using assms
  by (auto simp: store_event_def row_valid_def find_append next_id_def event_row_def same_event_def
      split: if_splits option.splits)
    (auto simp: same_key_def event_key_def)

lemma exports_frame [simp]:
  "exports (add_outbox p e t i w) q = exports w q" "exports (add_job p e i w) q = exports w q"
  by (simp_all add: exports_def add_outbox_def add_job_def)

lemma outbox_added: "(t, i) \<in> set (map (\<lambda>o'. (ob_Topic o', ob_EventID o')) (w_outbox (add_outbox p e t i w)))"
  by (auto simp: add_outbox_def)

lemma connector_jobs_added:
  assumes "c \<in> set (w_connectors w)" "cn_TenantID c = p_TenantID p" "cn_WorkspaceID c = p_WorkspaceID p"
  shows "list_ex (runs_connector (cn_ExtensionID c) i) (w_opjobs (add_connector_jobs p e i w))"
proof (cases "list_ex (runs_connector (cn_ExtensionID c) i) (w_opjobs w)")
  case False
  let ?cs = "filter (\<lambda>c. cn_TenantID c = p_TenantID p \<and> cn_WorkspaceID c = p_WorkspaceID p \<and>
    \<not> list_ex (runs_connector (cn_ExtensionID c) i) (w_opjobs w)) (w_connectors w)"
  from False assms have "c \<in> set (map snd (enumerate (w_seq w) ?cs))" by simp
  then obtain k where "(k, c) \<in> set (enumerate (w_seq w) ?cs)" by (auto simp del: map_snd_enumerate)
  moreover have "runs_connector (cn_ExtensionID c) i (new_op_job u (p_TenantID p) (p_WorkspaceID p) ''connector.run''
      (connector_payload p e i r (cn_ExtensionID c)) now)" for u r now
    by (simp add: runs_connector_def payload_text_def new_op_job_def connector_payload_def)
  ultimately show ?thesis by (force simp: add_connector_jobs_def Let_def list_ex_iff)
qed (simp add: add_connector_jobs_def Let_def)

lemma connectors_frame [simp]: "w_connectors (add_connector_jobs p e i w) = w_connectors w"
  by (simp add: add_connector_jobs_def Let_def)

lemma accept_one_settles:
  assumes "accept_one p e w = Inr (i, w')"
  shows "settled w' p (normalized_event e) i"
proof -
  let ?e = "normalized_event e"
  from assms obtain w1 where w1: "store_event p ?e w = Inr (i, w1)"
    and w': "w' = add_connector_jobs p ?e i
      (if exports (add_outbox p ?e ''events.accepted.v1'' i (add_job p ?e i w1)) p \<noteq> []
       then add_outbox p ?e ''exports.events.v1'' i (add_outbox p ?e ''events.accepted.v1'' i (add_job p ?e i w1))
       else add_outbox p ?e ''events.accepted.v1'' i (add_job p ?e i w1))"
    by (auto simp: accept_one_def Let_def split: sum.splits)
  let ?w3 = "if exports (add_outbox p ?e ''events.accepted.v1'' i (add_job p ?e i w1)) p \<noteq> []
       then add_outbox p ?e ''exports.events.v1'' i (add_outbox p ?e ''events.accepted.v1'' i (add_job p ?e i w1))
       else add_outbox p ?e ''events.accepted.v1'' i (add_job p ?e i w1)"
  have g3: "grows w1 ?w3" by (auto intro!: grows_parts)
  have jobs: "i \<in> set (map pj_EventID (w_jobs ?w3))"
    by (auto simp: add_outbox_def add_job_def)
  have outbox: "(''events.accepted.v1'', i) \<in> set (map (\<lambda>o'. (ob_Topic o', ob_EventID o')) (w_outbox ?w3))"
    by (auto simp: add_outbox_def)
  have export: "exports ?w3 p \<noteq> [] \<Longrightarrow> (''exports.events.v1'', i) \<in> set (map (\<lambda>o'. (ob_Topic o', ob_EventID o')) (w_outbox ?w3))"
    using outbox_added by (simp del: set_map split: if_splits)
  have conn: "\<forall>c \<in> set (w_connectors w'). cn_TenantID c = p_TenantID p \<longrightarrow> cn_WorkspaceID c = p_WorkspaceID p \<longrightarrow>
      list_ex (runs_connector (cn_ExtensionID c) i) (w_opjobs w')"
    unfolding w' by (auto intro!: connector_jobs_added)
  have g: "grows ?w3 w'" unfolding w' by (rule grows_parts(3)) simp
  from store_event_settles [OF w1] have "row_valid w' p ?e"
    "\<exists>a. find (same_key p ?e) (w_events w') = Some a \<and> same_event ?e a \<and> ae_ID a = i"
    using grows_trans [OF g3 g] by (auto simp: grows_def row_valid_def find_append)
  then show ?thesis
    using jobs outbox export conn g exports_grows [OF g, of p] unfolding settled_def grows_def by auto
qed

lemma accept_settled:
  assumes "settled w p (normalized_event e) i"
  shows "accept_one p e w = Inr (i, w)"
proof -
  let ?e = "normalized_event e"
  have store: "store_event p ?e w = Inr (i, w)" using assms by (auto simp: settled_def store_event_def)
  have job: "add_job p ?e i w = w" using assms by (simp add: settled_def add_job_def)
  have out: "add_outbox p ?e ''events.accepted.v1'' i w = w" using assms by (simp add: settled_def add_outbox_def)
  have ex: "exports w p \<noteq> [] \<Longrightarrow> add_outbox p ?e ''exports.events.v1'' i w = w"
    using assms by (simp add: settled_def add_outbox_def)
  have "filter (\<lambda>c. cn_TenantID c = p_TenantID p \<and> cn_WorkspaceID c = p_WorkspaceID p \<and>
      \<not> list_ex (runs_connector (cn_ExtensionID c) i) (w_opjobs w)) (w_connectors w) = []"
    using assms unfolding settled_def filter_empty_conv by blast
  then have conn: "add_connector_jobs p ?e i w = w" by (simp add: add_connector_jobs_def)
  show ?thesis using store job out ex conn by (auto simp: accept_one_def Let_def)
qed

lemma accept_all_settles:
  "accept_all p es w = Inr (ids, w') \<Longrightarrow> list_all2 (\<lambda>e i. settled w' p (normalized_event e) i) es ids"
proof (induction es arbitrary: w ids)
  case (Cons e es)
  then obtain i w1 ids' where s: "accept_one p e w = Inr (i, w1)" "accept_all p es w1 = Inr (ids', w')" "ids = i # ids'"
    by (auto split: sum.splits)
  from accept_one_settles [OF s(1)] settled_grows accept_all_grows [OF s(2)]
  have "settled w' p (normalized_event e) i" by blast
  with Cons.IH [OF s(2)] s(3) show ?case by simp
qed simp

lemma accept_all_settled:
  "list_all2 (\<lambda>e i. settled w p (normalized_event e) i) es ids \<Longrightarrow> accept_all p es w = Inr (ids, w)"
  by (induction rule: list_all2_induct) (simp_all add: accept_settled)

text \<open>A batch accepted once is accepted again with the same identifiers and adds no row.\<close>

lemma accept_all_replay: "accept_all p es w = Inr (ids, w') \<Longrightarrow> accept_all p es w' = Inr (ids, w')"
  by (intro accept_all_settled accept_all_settles)

text \<open>The key stays unique.\<close>

lemma store_event_unique: "events_unique w \<Longrightarrow> store_event p e w = Inr (i, w1) \<Longrightarrow> events_unique w1"
  by (auto simp: store_event_def events_unique_def find_None_iff same_key_def split: if_splits option.splits)
    (auto simp: event_key_def event_row_def)

lemma accept_one_unique:
  assumes "events_unique w" and "accept_one p e w = Inr (i, w')"
  shows "events_unique w'"
proof -
  from assms(2) obtain w1 where w1: "store_event p (normalized_event e) w = Inr (i, w1)"
    and "w_events w' = w_events w1"
    by (auto simp: accept_one_def Let_def split: sum.splits)
  with store_event_unique [OF assms(1) w1] show ?thesis by (simp add: events_unique_def)
qed

lemma accept_all_unique: "events_unique w \<Longrightarrow> accept_all p es w = Inr (ids, w1) \<Longrightarrow> events_unique w1"
proof (induction es arbitrary: w ids)
  case (Cons e es)
  then obtain i w2 ids' where s: "accept_one p e w = Inr (i, w2)" "accept_all p es w2 = Inr (ids', w1)"
    by (auto split: sum.splits)
  from Cons.IH [OF accept_one_unique [OF Cons.prems(1) s(1)] s(2)] show ?case .
qed simp

text \<open>A different event under a stored key is refused.\<close>

lemma store_event_conflict:
  assumes "row_valid w p e" and "find (same_key p e) (w_events w) = Some a" and "\<not> same_event e a"
  shows "store_event p e w = Inl ErrIdempotencyConflict"
  using assms by (simp add: store_event_def)

text \<open>The whole call: what a repetition may change is the count of the window and the audit trail.\<close>

lemma accept_tx_Inr:
  assumes "accept_tx p es w = Inr (ids, w')"
  obtains w1 where "accept_all p es w = Inr (ids, w1)"
    "w' = audit p ''events.accept'' ''event_batch'' [] [(''count'', JInt (int (length es)))] (snd (count_window p (length es) w1))"
  using assms by (auto simp: accept_tx_def split: option.splits if_splits sum.splits prod.splits)

lemma frame_settled:
  "settled (audit p' a b c m w) p e i = settled w p e i" "settled (snd (count_window p' n w)) p e i = settled w p e i"
  "settled (ticked w) p e i = settled w p e i"
  by (simp_all add: settled_def row_valid_def exports_def audit_def count_window_def Let_def ticked_def)

lemma frame_writes [simp]:
  "w_jobs (audit p a b c m w) = w_jobs w" "w_outbox (audit p a b c m w) = w_outbox w" "w_opjobs (audit p a b c m w) = w_opjobs w"
  "w_jobs (snd (count_window p n w)) = w_jobs w" "w_outbox (snd (count_window p n w)) = w_outbox w"
  "w_opjobs (snd (count_window p n w)) = w_opjobs w"
  by (simp_all add: audit_def count_window_def Let_def)

lemma AcceptEvents_replay:
  assumes "run_state (AcceptEvents p es) w = (Inr ids, w1)" and "run_state (AcceptEvents p es) w1 = (r, w2)"
  shows "(r = Inr ids \<or> (\<exists>e. r = Inl e)) \<and> w_events w2 = w_events w1 \<and> w_jobs w2 = w_jobs w1 \<and> w_outbox w2 = w_outbox w1 \<and>
    w_opjobs w2 = w_opjobs w1"
proof -
  from assms(1) have "accept_tx p es (ticked w) = Inr (ids, w1)"
    by (auto simp: AcceptEvents_def run_db split: if_splits sum.splits)
  then obtain v where v: "accept_all p es (ticked w) = Inr (ids, v)"
    and w1: "w1 = audit p ''events.accept'' ''event_batch'' [] [(''count'', JInt (int (length es)))] (snd (count_window p (length es) v))" by (rule accept_tx_Inr)
  have "list_all2 (\<lambda>e i. settled (ticked w1) p (normalized_event e) i) es ids"
    using accept_all_settles [OF v] by (simp add: w1 frame_settled)
  from accept_all_settled [OF this] have again: "accept_all p es (ticked w1) = Inr (ids, ticked w1)" .
  show ?thesis
  proof (cases "accept_tx p es (ticked w1)")
    case (Inl e)
    with assms(2) show ?thesis by (auto simp: AcceptEvents_def run_db split: if_splits)
  next
    case (Inr x)
    obtain ids' w3 where x: "x = (ids', w3)" by (cases x)
    from accept_tx_Inr [OF Inr [unfolded x]] again
    have "ids' = ids" "w3 = audit p ''events.accept'' ''event_batch'' [] [(''count'', JInt (int (length es)))] (snd (count_window p (length es) (ticked w1)))" by auto
    with assms(2) Inr x show ?thesis by (auto simp: AcceptEvents_def run_db split: if_splits)
  qed
qed

end
