(* ===== verification/Catalog.thy ===== *)
theory Catalog
  imports World Experiment
begin

text \<open>
  The configuration the engine reads while it runs: experiments and their assignments
  (\<^verbatim>\<open>experiments.go\<close>), device tokens (\<^verbatim>\<open>device_tokens.go\<close>), published flags (\<^verbatim>\<open>flags.go\<close>), templates
  and sending identities (\<^verbatim>\<open>templates.go\<close>), all under \<^verbatim>\<open>internal/postgres\<close>.

  The contract of an assignment is the locale \<open>sticky_assignment\<close>: the first answer for a subject is
  kept, whatever is proposed later. The store's table implements it.
\<close>

section \<open>Experiments\<close>

definition experiment_in :: "principal \<Rightarrow> string \<Rightarrow> experiment_rec \<Rightarrow> bool" where
  "experiment_in p i e \<longleftrightarrow> ex_TenantID e = p_TenantID p \<and> ex_WorkspaceID e = p_WorkspaceID p \<and> ex_ID e = i"

definition listExperimentVariants :: "principal \<Rightarrow> string \<Rightarrow> experiment_variant list call" where
  "listExperimentVariants p experimentID = query (\<lambda>w.
     Inr (sort_key (\<lambda>v. (xv_CreatedAt v, xv_Label v))
       (filter (\<lambda>v. xv_ExperimentID v = experimentID \<and> list_ex (experiment_in p experimentID) (w_experiments w)) (w_variants w))))"

definition GetExperiment :: "principal \<Rightarrow> string \<Rightarrow> (experiment_rec \<times> experiment_variant list) call" where
  "GetExperiment p i =
     attempt (query (\<lambda>w. case find (experiment_in p i) (w_experiments w) of None \<Rightarrow> Inl ErrNotFound | Some e \<Rightarrow> Inr e))
       failed (\<lambda>e.
     attempt (listExperimentVariants p i) failed (\<lambda>vs. ret (Inr (e, vs))))"

definition assigned_to :: "string \<Rightarrow> string \<Rightarrow> experiment_assignment \<Rightarrow> bool" where
  "assigned_to experimentID profileID a \<longleftrightarrow> xa_ExperimentID a = experimentID \<and> xa_ProfileID a = profileID"

definition assign_row :: "principal \<Rightarrow> string \<Rightarrow> string \<Rightarrow> string \<Rightarrow> world \<Rightarrow> experiment_assignment result \<times> world" where
  "assign_row p experimentID profileID variant w =
     (if \<not> list_ex (experiment_in p experimentID) (w_experiments w) then (Inl ErrNotFound, w)
      else case find (assigned_to experimentID profileID) (w_assignments w) of
        Some a \<Rightarrow> (Inr a, w)
      | None \<Rightarrow>
          (let a = \<lparr>xa_ExperimentID = experimentID, xa_TenantID = p_TenantID p, xa_WorkspaceID = p_WorkspaceID p,
                     xa_ProfileID = profileID, xa_Variant = variant, xa_AssignedAt = w_now w\<rparr>
           in (Inr a, w\<lparr>w_assignments := w_assignments w @ [a]\<rparr>)))"

definition AssignExperiment :: "principal \<Rightarrow> string \<Rightarrow> string \<Rightarrow> string \<Rightarrow> experiment_assignment call" where
  "AssignExperiment p experimentID profileID variant = db (assign_row p experimentID profileID variant)"

definition experiment_variants :: "experiment_variant list \<Rightarrow> variant list" where
  "experiment_variants vs = map (\<lambda>c. \<lparr>v_Label = xv_Label c, v_Weight = xv_Weight c\<rparr>) vs"

subsection \<open>Assignments are sticky\<close>

text \<open>
  The interface: a store \<open>'s\<close>, the answer it holds for a key, and the operation that proposes one.
\<close>

locale sticky_assignment =
  fixes holds :: "'s \<Rightarrow> 'k \<Rightarrow> 'v option"
    and propose :: "'k \<Rightarrow> 'v \<Rightarrow> 's \<Rightarrow> 'v option \<times> 's"
  assumes first: "holds s k = None \<Longrightarrow> fst (propose k v s) = Some v' \<Longrightarrow> v' = v"
    and kept: "holds s k = Some v \<Longrightarrow> holds (snd (propose k' v' s)) k = Some v"
    and stored: "fst (propose k v s) = Some v' \<Longrightarrow> holds (snd (propose k v s)) k = Some v'"
    and answered: "holds s k = Some v \<Longrightarrow> fst (propose k v' s) = Some v'' \<Longrightarrow> v'' = v"
begin

fun propose_all :: "('k \<times> 'v) list \<Rightarrow> 's \<Rightarrow> 's" where
  "propose_all [] s = s"
| "propose_all ((k, v) # kvs) s = propose_all kvs (snd (propose k v s))"

lemma kept_all: "holds s k = Some v \<Longrightarrow> holds (propose_all kvs s) k = Some v"
  by (induction kvs s rule: propose_all.induct) (auto intro: kept)

lemma sticky:
  assumes "fst (propose k v s) = Some x"
    and "fst (propose k v' (propose_all kvs (snd (propose k v s)))) = Some y"
  shows "y = x"
  using answered [OF kept_all [OF stored [OF assms(1)]] assms(2)] .

end

definition assignment_of :: "world \<Rightarrow> string \<times> string \<Rightarrow> string option" where
  "assignment_of w k = map_option xa_Variant (find (assigned_to (fst k) (snd k)) (w_assignments w))"

definition propose_variant :: "principal \<Rightarrow> string \<times> string \<Rightarrow> string \<Rightarrow> world \<Rightarrow> string option \<times> world" where
  "propose_variant p k v w =
     (case assign_row p (fst k) (snd k) v w of
        (Inl _, w') \<Rightarrow> (None, w')
      | (Inr a, w') \<Rightarrow> (Some (xa_Variant a), w'))"

interpretation assigned: sticky_assignment assignment_of "propose_variant p"
proof unfold_locales
  fix s k v v'
  assume "assignment_of s k = None" "fst (propose_variant p k v s) = Some v'"
  then show "v' = v"
    by (auto simp: assignment_of_def propose_variant_def assign_row_def Let_def split: if_splits)
next
  fix s k v k' v'
  assume "assignment_of s k = Some v"
  then show "assignment_of (snd (propose_variant p k' v' s)) k = Some v"
    by (auto simp: assignment_of_def propose_variant_def assign_row_def Let_def find_append split: option.splits)
next
  fix k v s v'
  assume "fst (propose_variant p k v s) = Some v'"
  then show "assignment_of (snd (propose_variant p k v s)) k = Some v'"
    by (auto simp: assignment_of_def propose_variant_def assign_row_def Let_def find_append assigned_to_def
        split: option.splits if_splits)
next
  fix s k v v' v''
  assume "assignment_of s k = Some v" "fst (propose_variant p k v' s) = Some v''"
  then show "v'' = v"
    by (auto simp: assignment_of_def propose_variant_def assign_row_def Let_def split: if_splits)
qed

section \<open>Device tokens\<close>

definition token_key :: "device_token \<Rightarrow> string \<times> string \<times> string" where
  "token_key t = (dt_TenantID t, dt_AppID t, dt_Token t)"

definition RegisterDeviceToken ::
  "string \<Rightarrow> string \<Rightarrow> string \<Rightarrow> string \<Rightarrow> string \<Rightarrow> string \<Rightarrow> string \<Rightarrow> device_token call" where
  "RegisterDeviceToken tenantID workspaceID appID profileID platform provider token = db (\<lambda>w.
     let refresh = (\<lambda>t. t\<lparr>dt_WorkspaceID := workspaceID, dt_ProfileID := profileID, dt_Platform := platform,
           dt_Provider := provider, dt_Status := ''active'', dt_LastSeenAt := w_now w, dt_UpdatedAt := w_now w\<rparr>);
         hit = (\<lambda>t. token_key t = (tenantID, appID, token))
     in case find hit (w_tokens w) of
          Some t \<Rightarrow> (Inr (refresh t), w\<lparr>w_tokens := upd_rows hit refresh (w_tokens w)\<rparr>)
        | None \<Rightarrow>
            (let t = \<lparr>dt_ID = new_id w, dt_TenantID = tenantID, dt_WorkspaceID = workspaceID, dt_AppID = appID,
                       dt_ProfileID = profileID, dt_Platform = platform, dt_Provider = provider, dt_Token = token,
                       dt_Status = ''active'', dt_LastSeenAt = w_now w, dt_CreatedAt = w_now w, dt_UpdatedAt = w_now w\<rparr>
             in (Inr t, (next_id w)\<lparr>w_tokens := w_tokens w @ [t]\<rparr>)))"

definition RetireDeviceToken :: "string \<Rightarrow> string \<Rightarrow> string \<Rightarrow> unit call" where
  "RetireDeviceToken tenantID appID token = exec (\<lambda>w. w\<lparr>w_tokens := upd_rows
     (\<lambda>t. token_key t = (tenantID, appID, token) \<and> dt_Status t = ''active'')
     (\<lambda>t. t\<lparr>dt_Status := ''retired'', dt_UpdatedAt := w_now w\<rparr>) (w_tokens w)\<rparr>)"

definition RetireDeviceTokenByID :: "string \<Rightarrow> string \<Rightarrow> unit call" where
  "RetireDeviceTokenByID tenantID i = exec (\<lambda>w. w\<lparr>w_tokens := upd_rows
     (\<lambda>t. dt_TenantID t = tenantID \<and> dt_ID t = i \<and> dt_Status t = ''active'')
     (\<lambda>t. t\<lparr>dt_Status := ''retired'', dt_UpdatedAt := w_now w\<rparr>) (w_tokens w)\<rparr>)"

definition active_tokens :: "world \<Rightarrow> string \<Rightarrow> string \<Rightarrow> string \<Rightarrow> device_token list" where
  "active_tokens w tenantID workspaceID profileID = sort_key (\<lambda>t. - dt_LastSeenAt t)
     (filter (\<lambda>t. dt_TenantID t = tenantID \<and> dt_WorkspaceID t = workspaceID \<and> dt_ProfileID t = profileID \<and>
                  dt_Status t = ''active'') (w_tokens w))"

definition ListActiveDeviceTokens :: "string \<Rightarrow> string \<Rightarrow> string \<Rightarrow> device_token list call" where
  "ListActiveDeviceTokens tenantID workspaceID profileID =
     query (\<lambda>w. Inr (active_tokens w tenantID workspaceID profileID))"

section \<open>Flags, templates, identities\<close>

definition ListActiveFlags :: "string \<Rightarrow> string \<Rightarrow> string \<Rightarrow> feature_flag list call" where
  "ListActiveFlags tenantID appID environment = query (\<lambda>w. Inr (sort_key ff_Key
     (filter (\<lambda>f. ff_TenantID f = tenantID \<and> ff_AppID f = appID \<and> ff_Environment f = environment \<and>
                  ff_Status f = ''published'' \<and> ff_Enabled f) (w_flags w))))"

definition GetTemplate :: "principal \<Rightarrow> string \<Rightarrow> template call" where
  "GetTemplate p i = query (\<lambda>w.
     case find (\<lambda>t. te_TenantID t = p_TenantID p \<and> te_WorkspaceID t = p_WorkspaceID p \<and> te_ID t = i) (w_templates w) of
       None \<Rightarrow> Inl ErrNotFound
     | Some t \<Rightarrow> Inr t)"

definition GetSendingIdentity :: "principal \<Rightarrow> string \<Rightarrow> sending_identity call" where
  "GetSendingIdentity p i = query (\<lambda>w.
     case find (\<lambda>s. si_TenantID s = p_TenantID p \<and> si_WorkspaceID s = p_WorkspaceID p \<and> si_ID s = i) (w_identities w) of
       None \<Rightarrow> Inl ErrNotFound
     | Some s \<Rightarrow> Inr s)"

definition ListSendingIdentities :: "principal \<Rightarrow> sending_identity list call" where
  "ListSendingIdentities p = query (\<lambda>w. Inr (sort_key (\<lambda>s. - si_CreatedAt s)
     (filter (\<lambda>s. si_TenantID s = p_TenantID p \<and> si_WorkspaceID s = p_WorkspaceID p) (w_identities w))))"

end
