(* ===== verification/Schedule.thy ===== *)
theory Schedule
  imports Clock
begin

text \<open>
  The schedules of \<^verbatim>\<open>internal/journey/enroll.go\<close>: a five-field cron expression of which only the
  minute field may differ from the wildcard. The main facts say which texts are accepted and that
  an accepted schedule fires exactly at the minutes it denotes.
\<close>

section \<open>Validation and firing\<close>

fun only_wildcards :: "string list \<Rightarrow> bool" where
  "only_wildcards [] = True"
| "only_wildcards (field # rest) = (if field \<noteq> ''*'' then False else only_wildcards rest)"

definition validateSchedule :: "string \<Rightarrow> string list result" where
  "validateSchedule schedule =
    (if trim_space schedule = [] then Inr [''*'', ''*'', ''*'', ''*'', ''*'']
     else let fields = str_fields schedule in
       if length fields \<noteq> 5 then Inl (ErrNew ''schedule must have exactly five fields'')
       else if \<not> only_wildcards (tl fields)
       then Inl (ErrNew ''schedule only supports wildcard hour, day, month, and weekday fields'')
       else let minute_field = hd fields in
         if minute_field = ''*'' then Inr fields
         else if has_prefix ''*/'' minute_field then
           (case atoi (drop 2 minute_field) of
              None \<Rightarrow> Inl (ErrNew ''schedule minute interval must be between 1 and 59'')
            | Some interval \<Rightarrow>
                if interval < 1 \<or> interval > 59
                then Inl (ErrNew ''schedule minute interval must be between 1 and 59'')
                else Inr fields)
         else
           (case atoi minute_field of
              None \<Rightarrow> Inl (ErrNew ''schedule minute must be *, */1-59, or 0-59'')
            | Some exact \<Rightarrow>
                if exact < 0 \<or> exact > 59
                then Inl (ErrNew ''schedule minute must be *, */1-59, or 0-59'')
                else Inr fields))"

text \<open>
  \<^verbatim>\<open>fmt.Sscanf(field, "*/%d", &interval)\<close> on a field that \<open>validateSchedule\<close> let through, where
  what follows the slash is a decimal number and nothing else.
\<close>

definition sscanf_interval :: "string \<Rightarrow> int option" where
  "sscanf_interval field = atoi (drop 2 field)"

definition isScheduledDue :: "string \<Rightarrow> time \<Rightarrow> bool" where
  "isScheduledDue schedule now =
    (case validateSchedule schedule of
       Inl err \<Rightarrow> False
     | Inr fields \<Rightarrow>
        (let minField = hd fields;
             exact = (utc_minute now = (case atoi minField of Some n \<Rightarrow> n | None \<Rightarrow> 0))
         in if minField = ''*'' then True
            else if has_prefix ''*/'' minField then
              (case sscanf_interval minField of
                 Some interval \<Rightarrow> if interval > 0 then utc_minute now mod interval = 0 else exact
               | None \<Rightarrow> exact)
            else exact))"

section \<open>What a schedule denotes\<close>

text \<open>The reference: a schedule is a way of choosing minutes of the hour.\<close>

datatype minute_spec = EveryMinute | EveryNth int | AtMinute int

fun fires_at :: "minute_spec \<Rightarrow> int \<Rightarrow> bool" where
  "fires_at EveryMinute m = True"
| "fires_at (EveryNth n) m = (n dvd m)"
| "fires_at (AtMinute n) m = (m = n)"

fun valid_spec :: "minute_spec \<Rightarrow> bool" where
  "valid_spec EveryMinute = True"
| "valid_spec (EveryNth n) = (1 \<le> n \<and> n \<le> 59)"
| "valid_spec (AtMinute n) = (0 \<le> n \<and> n \<le> 59)"

definition denotes :: "string \<Rightarrow> minute_spec \<Rightarrow> bool" where
  "denotes schedule spec \<longleftrightarrow>
     (trim_space schedule = [] \<and> spec = EveryMinute) \<or>
     (\<exists>m. trim_space schedule \<noteq> [] \<and> str_fields schedule = [m, ''*'', ''*'', ''*'', ''*''] \<and>
          (case spec of
             EveryMinute \<Rightarrow> m = ''*''
           | EveryNth n \<Rightarrow> m \<noteq> ''*'' \<and> has_prefix ''*/'' m \<and> atoi (drop 2 m) = Some n
           | AtMinute n \<Rightarrow> m \<noteq> ''*'' \<and> \<not> has_prefix ''*/'' m \<and> atoi m = Some n))"

lemma only_wildcards_replicate: "only_wildcards fs \<longleftrightarrow> fs = replicate (length fs) ''*''"
  by (induction fs) auto

lemma five_fields: "length fs = 5 \<Longrightarrow> only_wildcards (tl fs) \<longleftrightarrow> fs = [hd fs, ''*'', ''*'', ''*'', ''*'']"
  by (cases fs) (auto simp: only_wildcards_replicate numeral_eq_Suc)

lemma validateSchedule_Inr:
  "validateSchedule schedule = Inr fields \<longleftrightarrow>
   (\<exists>spec. denotes schedule spec \<and> valid_spec spec) \<and>
   fields = (if trim_space schedule = [] then replicate 5 ''*'' else str_fields schedule)"
proof (cases "trim_space schedule = []")
  case True
  then show ?thesis
    by (auto simp: validateSchedule_def denotes_def numeral_eq_Suc intro: exI [of _ EveryMinute])
next
  case False
  show ?thesis
  proof (cases "\<exists>m. str_fields schedule = [m, ''*'', ''*'', ''*'', ''*'']")
    case True
    then obtain m where m: "str_fields schedule = [m, ''*'', ''*'', ''*'', ''*'']" by blast
    have "(\<exists>spec. denotes schedule spec \<and> valid_spec spec) \<longleftrightarrow>
      (m = ''*'' \<or>
       (m \<noteq> ''*'' \<and> has_prefix ''*/'' m \<and> (\<exists>n. atoi (drop 2 m) = Some n \<and> 1 \<le> n \<and> n \<le> 59)) \<or>
       (m \<noteq> ''*'' \<and> \<not> has_prefix ''*/'' m \<and> (\<exists>n. atoi m = Some n \<and> 0 \<le> n \<and> n \<le> 59)))"
      (is "?l \<longleftrightarrow> ?r")
    proof
      assume ?l
      then obtain spec where "denotes schedule spec" "valid_spec spec" by blast
      then show ?r using False m by (cases spec) (auto simp: denotes_def)
    next
      assume ?r
      then consider "denotes schedule EveryMinute"
        | n where "denotes schedule (EveryNth n)" "1 \<le> n" "n \<le> 59"
        | n where "denotes schedule (AtMinute n)" "0 \<le> n" "n \<le> 59"
        using False m by (auto simp: denotes_def)
      then show ?l by cases (metis valid_spec.simps)+
    qed
    then show ?thesis
      using False m by (auto simp: validateSchedule_def Let_def split: option.splits)
  next
    case other: False
    then have "\<not> (\<exists>spec. denotes schedule spec)"
      using False by (auto simp: denotes_def)
    moreover have "validateSchedule schedule \<noteq> Inr fields"
      using False other five_fields [of "str_fields schedule"]
      by (auto simp: validateSchedule_def Let_def split: if_splits)
    ultimately show ?thesis by blast
  qed
qed

lemma isScheduledDue_denotes:
  assumes "denotes schedule spec" and "valid_spec spec"
  shows "isScheduledDue schedule now \<longleftrightarrow> fires_at spec (utc_minute now)"
proof -
  have "validateSchedule schedule =
      Inr (if trim_space schedule = [] then replicate 5 ''*'' else str_fields schedule)"
    using assms validateSchedule_Inr by blast
  then show ?thesis
    using assms unfolding isScheduledDue_def denotes_def
    by (cases spec) (auto simp: sscanf_interval_def numeral_eq_Suc dvd_eq_mod_eq_0 Let_def)
qed

lemma isScheduledDue_valid:
  "isScheduledDue schedule now \<Longrightarrow> \<exists>fields. validateSchedule schedule = Inr fields"
  by (auto simp: isScheduledDue_def split: sum.splits)

lemma isScheduledDue_iff:
  "isScheduledDue schedule now \<longleftrightarrow>
   (\<exists>spec. denotes schedule spec \<and> valid_spec spec \<and> fires_at spec (utc_minute now))"
  using isScheduledDue_denotes isScheduledDue_valid validateSchedule_Inr by metis

end
