(* ===== verification/JourneyGraph.thy ===== *)
theory JourneyGraph
  imports Schedule Json
begin

text \<open>
  Journey graphs: \<^verbatim>\<open>internal/journey/graph.go\<close>, the configuration types and decoders of
  \<^verbatim>\<open>nodes.go\<close>, and \<^verbatim>\<open>validate.go\<close>.

  The main fact is \<open>Validate_iff\<close>: the validator accepts a graph exactly when it is well formed in
  the sense of \<open>graph_wf\<close>, a declarative specification whose reachability is the reflexive
  transitive closure of the edges. From it follows that in an accepted graph every branch a node
  may take has a successor (\<open>wf_successor\<close>), which is what the engine relies on.
\<close>

section \<open>Graphs\<close>

record node =
  n_ID :: string
  n_Type :: string
  n_Config :: raw

record edge =
  e_From :: string
  e_To :: string
  e_Branch :: string

record graph =
  g_EntryNodeID :: string
  g_Nodes :: "node list"
  g_Edges :: "edge list"

definition NodeTypeEntry :: string where "NodeTypeEntry = ''entry''"
definition NodeTypeDelay :: string where "NodeTypeDelay = ''delay''"
definition NodeTypeCondition :: string where "NodeTypeCondition = ''condition''"
definition NodeTypeSplit :: string where "NodeTypeSplit = ''split''"
definition NodeTypeMessage :: string where "NodeTypeMessage = ''message''"
definition NodeTypeWaitEvent :: string where "NodeTypeWaitEvent = ''wait_event''"
definition NodeTypeAction :: string where "NodeTypeAction = ''action''"
definition NodeTypeGoal :: string where "NodeTypeGoal = ''goal''"
definition NodeTypeExit :: string where "NodeTypeExit = ''exit''"
definition NodeTypeAIDecision :: string where "NodeTypeAIDecision = ''ai_decision''"
definition NodeTypeExtensionAction :: string where "NodeTypeExtensionAction = ''extension_action''"
definition NodeTypeExtensionCondition :: string where
  "NodeTypeExtensionCondition = ''extension_condition''"

lemmas node_types [go_simps] =
  NodeTypeEntry_def NodeTypeDelay_def NodeTypeCondition_def NodeTypeSplit_def NodeTypeMessage_def
  NodeTypeWaitEvent_def NodeTypeAction_def NodeTypeGoal_def NodeTypeExit_def NodeTypeAIDecision_def
  NodeTypeExtensionAction_def NodeTypeExtensionCondition_def

section \<open>Node configurations\<close>

record extension_node_config =
  xc_ExtensionID :: string
  xc_ExtensionVersion :: int
  xc_TimeoutMS :: int
  xc_Branches :: "string list"
  xc_Fallback :: string
  xc_Config :: raw

record entry_config =
  ec_Trigger :: string
  ec_EventType :: string
  ec_SegmentID :: string
  ec_Schedule :: string
  ec_ReentryPolicy :: string
  ec_MaxReentries :: int
  ec_LatePolicy :: string

record delay_config =
  dc_Duration :: string

record condition_config =
  cc_DSL :: raw

record split_branch =
  sb_Label :: string
  sb_Weight :: int
  sb_SegmentID :: string

record split_config =
  sc_Mode :: string
  sc_ExperimentID :: string
  sc_Branches :: "split_branch list"

record message_config =
  mc_TemplateID :: string
  mc_ExperimentID :: string
  mc_Channel :: string
  mc_Transactional :: bool

record wait_config =
  wc_EventType :: string
  wc_Timeout :: string

record action_config =
  ac_Action :: string
  ac_Set :: "(string \<times> json) list option"

record goal_config =
  gc_Name :: string
  gc_EventType :: string
  gc_Filter :: raw
  gc_ValueField :: string
  gc_Window :: string

record exit_config =
  tc_Reason :: string

record ai_decision_config =
  aic_PromptVersionID :: string
  aic_Prompt :: string
  aic_TimeoutMS :: int
  aic_MaxCostCents :: int
  aic_Branches :: "string list"
  aic_Fallback :: string

record feature_flag_node_config =
  fc_FlagKey :: string

text \<open>The dynamic type of the value \<^verbatim>\<open>DecodeConfig\<close> returns.\<close>

datatype config =
    CfgEntry entry_config
  | CfgDelay delay_config
  | CfgCondition condition_config
  | CfgSplit split_config
  | CfgMessage message_config
  | CfgWait wait_config
  | CfgAction action_config
  | CfgGoal goal_config
  | CfgExit exit_config
  | CfgAIDecision ai_decision_config
  | CfgExtension extension_node_config
  | CfgFeatureFlag feature_flag_node_config

section \<open>Decoding\<close>

text \<open>The decoders \<^verbatim>\<open>encoding/json\<close> derives from the struct tags.\<close>

definition dec_extension :: "(string \<times> json) list \<Rightarrow> extension_node_config option" where
  "dec_extension kvs = do {
     ext \<leftarrow> str_field ''extension_id'' kvs;
     ver \<leftarrow> int_field ''extension_version'' kvs;
     tmo \<leftarrow> int_field ''timeout_ms'' kvs;
     brs \<leftarrow> strs_field ''branches'' kvs;
     fb \<leftarrow> str_field ''fallback'' kvs;
     cfg \<leftarrow> raw_field ''config'' kvs;
     Some \<lparr>xc_ExtensionID = ext, xc_ExtensionVersion = ver, xc_TimeoutMS = tmo,
           xc_Branches = brs, xc_Fallback = fb, xc_Config = cfg\<rparr> }"

definition dec_entry :: "(string \<times> json) list \<Rightarrow> entry_config option" where
  "dec_entry kvs = do {
     trg \<leftarrow> str_field ''trigger'' kvs;
     ety \<leftarrow> str_field ''event_type'' kvs;
     seg \<leftarrow> str_field ''segment_id'' kvs;
     sch \<leftarrow> str_field ''schedule'' kvs;
     rep \<leftarrow> str_field ''reentry_policy'' kvs;
     mre \<leftarrow> int_field ''max_reentries'' kvs;
     lat \<leftarrow> str_field ''late_policy'' kvs;
     Some \<lparr>ec_Trigger = trg, ec_EventType = ety, ec_SegmentID = seg, ec_Schedule = sch,
           ec_ReentryPolicy = rep, ec_MaxReentries = mre, ec_LatePolicy = lat\<rparr> }"

definition dec_delay :: "(string \<times> json) list \<Rightarrow> delay_config option" where
  "dec_delay kvs = do { d \<leftarrow> str_field ''duration'' kvs; Some \<lparr>dc_Duration = d\<rparr> }"

definition dec_condition :: "(string \<times> json) list \<Rightarrow> condition_config option" where
  "dec_condition kvs = do { d \<leftarrow> raw_field ''dsl'' kvs; Some \<lparr>cc_DSL = d\<rparr> }"

definition dec_split_branch :: "json \<Rightarrow> split_branch option" where
  "dec_split_branch j = do {
     kvs \<leftarrow> obj_members j;
     lab \<leftarrow> str_field ''label'' kvs;
     wgt \<leftarrow> int_field ''weight'' kvs;
     seg \<leftarrow> str_field ''segment_id'' kvs;
     Some \<lparr>sb_Label = lab, sb_Weight = wgt, sb_SegmentID = seg\<rparr> }"

definition dec_split :: "(string \<times> json) list \<Rightarrow> split_config option" where
  "dec_split kvs = do {
     mode \<leftarrow> str_field ''mode'' kvs;
     ex \<leftarrow> str_field ''experiment_id'' kvs;
     brs \<leftarrow> list_field dec_split_branch ''branches'' kvs;
     Some \<lparr>sc_Mode = mode, sc_ExperimentID = ex, sc_Branches = brs\<rparr> }"

definition dec_message :: "(string \<times> json) list \<Rightarrow> message_config option" where
  "dec_message kvs = do {
     tpl \<leftarrow> str_field ''template_id'' kvs;
     ex \<leftarrow> str_field ''experiment_id'' kvs;
     ch \<leftarrow> str_field ''channel'' kvs;
     tr \<leftarrow> bool_field ''transactional'' kvs;
     Some \<lparr>mc_TemplateID = tpl, mc_ExperimentID = ex, mc_Channel = ch, mc_Transactional = tr\<rparr> }"

definition dec_wait :: "(string \<times> json) list \<Rightarrow> wait_config option" where
  "dec_wait kvs = do {
     ety \<leftarrow> str_field ''event_type'' kvs;
     tmo \<leftarrow> str_field ''timeout'' kvs;
     Some \<lparr>wc_EventType = ety, wc_Timeout = tmo\<rparr> }"

definition dec_action :: "(string \<times> json) list \<Rightarrow> action_config option" where
  "dec_action kvs = do {
     act \<leftarrow> str_field ''action'' kvs;
     st \<leftarrow> dec_field dec_map ''set'' kvs None;
     Some \<lparr>ac_Action = act, ac_Set = st\<rparr> }"

definition dec_goal :: "(string \<times> json) list \<Rightarrow> goal_config option" where
  "dec_goal kvs = do {
     nm \<leftarrow> str_field ''name'' kvs;
     ety \<leftarrow> str_field ''event_type'' kvs;
     flt \<leftarrow> raw_field ''filter'' kvs;
     vf \<leftarrow> str_field ''value_field'' kvs;
     win \<leftarrow> str_field ''window'' kvs;
     Some \<lparr>gc_Name = nm, gc_EventType = ety, gc_Filter = flt, gc_ValueField = vf, gc_Window = win\<rparr> }"

definition dec_exit :: "(string \<times> json) list \<Rightarrow> exit_config option" where
  "dec_exit kvs = do { r \<leftarrow> str_field ''reason'' kvs; Some \<lparr>tc_Reason = r\<rparr> }"

definition dec_ai_decision :: "(string \<times> json) list \<Rightarrow> ai_decision_config option" where
  "dec_ai_decision kvs = do {
     pv \<leftarrow> str_field ''prompt_version_id'' kvs;
     pr \<leftarrow> str_field ''prompt'' kvs;
     tmo \<leftarrow> int_field ''timeout_ms'' kvs;
     cost \<leftarrow> int_field ''max_cost_cents'' kvs;
     brs \<leftarrow> strs_field ''branches'' kvs;
     fb \<leftarrow> str_field ''fallback'' kvs;
     Some \<lparr>aic_PromptVersionID = pv, aic_Prompt = pr, aic_TimeoutMS = tmo, aic_MaxCostCents = cost,
           aic_Branches = brs, aic_Fallback = fb\<rparr> }"

definition dec_feature_flag :: "(string \<times> json) list \<Rightarrow> feature_flag_node_config option" where
  "dec_feature_flag kvs = do { k \<leftarrow> str_field ''flag_key'' kvs; Some \<lparr>fc_FlagKey = k\<rparr> }"

definition decodeNodeConfig :: "((string \<times> json) list \<Rightarrow> 'a option) \<Rightarrow> node \<Rightarrow> 'a result" where
  "decodeNodeConfig dec node =
     (case Option.bind (Option.bind (or_empty_obj (n_Config node)) obj_members) dec of
        None \<Rightarrow> Inl (ErrWrap (''decode '' @ n_Type node @ '' node config'') ErrJSON)
      | Some cfg \<Rightarrow> Inr cfg)"

text \<open>
  \<^verbatim>\<open>DecodeConfig\<close>. The statement \<^verbatim>\<open>return cfg, decodeNodeConfig(node, &cfg)\<close> reads the variable
  after the call has filled it.
\<close>

definition DecodeConfig :: "node \<Rightarrow> config result" where
  "DecodeConfig node =
    (let ty = n_Type node in
     if ty = NodeTypeEntry then map_sum id CfgEntry (decodeNodeConfig dec_entry node)
     else if ty = NodeTypeDelay then map_sum id CfgDelay (decodeNodeConfig dec_delay node)
     else if ty = NodeTypeCondition then map_sum id CfgCondition (decodeNodeConfig dec_condition node)
     else if ty = NodeTypeSplit then map_sum id CfgSplit (decodeNodeConfig dec_split node)
     else if ty = NodeTypeMessage then map_sum id CfgMessage (decodeNodeConfig dec_message node)
     else if ty = NodeTypeWaitEvent then map_sum id CfgWait (decodeNodeConfig dec_wait node)
     else if ty = NodeTypeAction then map_sum id CfgAction (decodeNodeConfig dec_action node)
     else if ty = NodeTypeGoal then map_sum id CfgGoal (decodeNodeConfig dec_goal node)
     else if ty = NodeTypeExit then map_sum id CfgExit (decodeNodeConfig dec_exit node)
     else if ty = NodeTypeAIDecision then map_sum id CfgAIDecision (decodeNodeConfig dec_ai_decision node)
     else if ty = NodeTypeExtensionAction then map_sum id CfgExtension (decodeNodeConfig dec_extension node)
     else if ty = NodeTypeExtensionCondition then map_sum id CfgExtension (decodeNodeConfig dec_extension node)
     else if ty = ''feature_flag'' then map_sum id CfgFeatureFlag (decodeNodeConfig dec_feature_flag node)
     else if ty \<in> set [''nested_journey'', ''webhook_action'', ''integration_action'', ''experiment'', ''holdout'']
     then Inl (ErrNew (''unsupported node type: '' @ ty))
     else Inl (ErrNew (''unknown node type: '' @ ty)))"

definition dec_node :: "json \<Rightarrow> node option" where
  "dec_node j = do {
     kvs \<leftarrow> obj_members j;
     i \<leftarrow> str_field ''id'' kvs;
     t \<leftarrow> str_field ''type'' kvs;
     c \<leftarrow> raw_field ''config'' kvs;
     Some \<lparr>n_ID = i, n_Type = t, n_Config = c\<rparr> }"

definition dec_edge :: "json \<Rightarrow> edge option" where
  "dec_edge j = do {
     kvs \<leftarrow> obj_members j;
     f \<leftarrow> str_field ''from'' kvs;
     t \<leftarrow> str_field ''to'' kvs;
     b \<leftarrow> str_field ''branch'' kvs;
     Some \<lparr>e_From = f, e_To = t, e_Branch = b\<rparr> }"

definition dec_graph :: "json \<Rightarrow> graph option" where
  "dec_graph j = do {
     kvs \<leftarrow> obj_members j;
     e \<leftarrow> str_field ''entry_node_id'' kvs;
     ns \<leftarrow> list_field dec_node ''nodes'' kvs;
     es \<leftarrow> list_field dec_edge ''edges'' kvs;
     Some \<lparr>g_EntryNodeID = e, g_Nodes = ns, g_Edges = es\<rparr> }"

fun decode_all :: "node list \<Rightarrow> unit result" where
  "decode_all [] = Inr ()"
| "decode_all (node # rest) =
     (case DecodeConfig node of Inl err \<Rightarrow> Inl err | Inr cfg \<Rightarrow> decode_all rest)"

definition ParseGraph :: "raw \<Rightarrow> graph result" where
  "ParseGraph data =
     (case Option.bind data dec_graph of
        None \<Rightarrow> Inl ErrJSON
      | Some graph \<Rightarrow>
          (case decode_all (g_Nodes graph) of Inl err \<Rightarrow> Inl err | Inr _ \<Rightarrow> Inr graph))"

section \<open>Validation\<close>

definition maxAIDecisionTimeout :: duration where "maxAIDecisionTimeout = 5 * second"
definition maxExtensionTimeout :: duration where "maxExtensionTimeout = 10 * second"

definition validateDuration :: "string \<Rightarrow> string \<Rightarrow> string \<Rightarrow> unit result" where
  "validateDuration nodeID field raw_text =
     (case parse_duration raw_text of
        None \<Rightarrow> Inl (ErrWrap (''node '' @ nodeID @ '' has invalid '' @ field) ErrDuration)
      | Some duration \<Rightarrow>
          if duration < 0 then Inl (ErrNew (''node '' @ nodeID @ '' has negative '' @ field))
          else Inr ())"

definition validateDurations :: "node \<Rightarrow> unit result" where
  "validateDurations node =
    (let ty = n_Type node; nid = n_ID node in
     if ty = NodeTypeDelay then
       (case DecodeConfig node of
          Inl err \<Rightarrow> Inl err
        | Inr (CfgDelay cfg) \<Rightarrow> validateDuration nid ''duration'' (dc_Duration cfg)
        | Inr _ \<Rightarrow> Inl (ErrNew (''delay node '' @ nid @ '' has invalid config'')))
     else if ty = NodeTypeWaitEvent then
       (case DecodeConfig node of
          Inl err \<Rightarrow> Inl err
        | Inr (CfgWait cfg) \<Rightarrow> validateDuration nid ''timeout'' (wc_Timeout cfg)
        | Inr _ \<Rightarrow> Inl (ErrNew (''wait_event node '' @ nid @ '' has invalid config'')))
     else if ty = NodeTypeAIDecision then
       (case DecodeConfig node of
          Inl err \<Rightarrow> Inl err
        | Inr (CfgAIDecision cfg) \<Rightarrow>
            if aic_PromptVersionID cfg = []
            then Inl (ErrNew (''ai_decision node '' @ nid @ '' requires prompt_version_id''))
            else if aic_TimeoutMS cfg \<le> 0
            then Inl (ErrNew (''ai_decision node '' @ nid @ '' requires a positive timeout_ms''))
            else if wrap64 (aic_TimeoutMS cfg * millisecond) > maxAIDecisionTimeout
            then Inl (ErrNew (''ai_decision node '' @ nid @ '' timeout_ms exceeds maximum of '' @
                              itoa (maxAIDecisionTimeout div millisecond)))
            else if aic_MaxCostCents cfg \<le> 0
            then Inl (ErrNew (''ai_decision node '' @ nid @ '' requires a positive max_cost_cents''))
            else Inr ()
        | Inr _ \<Rightarrow> Inl (ErrNew (''ai_decision node '' @ nid @ '' has invalid config'')))
     else if ty = NodeTypeExtensionAction \<or> ty = NodeTypeExtensionCondition then
       (case DecodeConfig node of
          Inl err \<Rightarrow> Inl err
        | Inr (CfgExtension cfg) \<Rightarrow>
            if xc_ExtensionID cfg = []
            then Inl (ErrNew (ty @ '' node '' @ nid @ '' requires extension_id''))
            else if xc_ExtensionVersion cfg \<le> 0
            then Inl (ErrNew (ty @ '' node '' @ nid @ '' requires a positive extension_version''))
            else if xc_TimeoutMS cfg \<le> 0
            then Inl (ErrNew (ty @ '' node '' @ nid @ '' requires a positive timeout_ms''))
            else if wrap64 (xc_TimeoutMS cfg * millisecond) > maxExtensionTimeout
            then Inl (ErrNew (ty @ '' node '' @ nid @ '' timeout_ms exceeds maximum of '' @
                              itoa (maxExtensionTimeout div millisecond)))
            else Inr ()
        | Inr _ \<Rightarrow> Inl (ErrNew (ty @ '' node '' @ nid @ '' has invalid config'')))
     else Inr ())"

text \<open>
  \<^verbatim>\<open>validateExactBranches\<close>. The map \<^verbatim>\<open>want\<close> is the list of the labels still wanted. When several
  labels are missing Go reports one in map order; the model reports the first.
\<close>

fun want_labels :: "node \<Rightarrow> string list \<Rightarrow> string list \<Rightarrow> string list result" where
  "want_labels node [] want = Inr want"
| "want_labels node (label # labels) want =
     (if label = []
      then Inl (ErrNew (n_Type node @ '' node '' @ n_ID node @ '' has empty branch label in config''))
      else if label \<in> set want
      then Inl (ErrNew (n_Type node @ '' node '' @ n_ID node @ '' has duplicate branch label: '' @ label))
      else want_labels node labels (want @ [label]))"

fun match_edges :: "node \<Rightarrow> edge list \<Rightarrow> string list \<Rightarrow> string list result" where
  "match_edges node [] want = Inr want"
| "match_edges node (edge # edges) want =
     (if e_Branch edge \<notin> set want
      then Inl (ErrNew (n_Type node @ '' node '' @ n_ID node @ '' has unexpected branch label: '' @ e_Branch edge))
      else match_edges node edges (remove1 (e_Branch edge) want))"

definition validateExactBranches :: "node \<Rightarrow> edge list \<Rightarrow> string list \<Rightarrow> unit result" where
  "validateExactBranches node edges labels =
     (if length edges \<noteq> length labels
      then Inl (ErrNew (n_Type node @ '' node '' @ n_ID node @ '' must have exactly '' @
                        itoa (int (length labels)) @ '' outgoing edges''))
      else case want_labels node labels [] of
        Inl err \<Rightarrow> Inl err
      | Inr want \<Rightarrow>
          (case match_edges node edges want of
             Inl err \<Rightarrow> Inl err
           | Inr (label # _) \<Rightarrow>
               Inl (ErrNew (n_Type node @ '' node '' @ n_ID node @ '' is missing branch label: '' @ label))
           | Inr [] \<Rightarrow> Inr ()))"

definition validateOutgoing :: "node \<Rightarrow> edge list \<Rightarrow> unit result" where
  "validateOutgoing node edges =
    (let ty = n_Type node; nid = n_ID node in
     if ty \<in> set [NodeTypeEntry, NodeTypeDelay, NodeTypeAction, NodeTypeMessage, NodeTypeGoal] then
       (case edges of
          [edge] \<Rightarrow>
            if e_Branch edge \<noteq> []
            then Inl (ErrNew (ty @ '' node '' @ nid @ '' outgoing edge must be unlabeled''))
            else Inr ()
        | _ \<Rightarrow> Inl (ErrNew (ty @ '' node '' @ nid @ '' must have exactly one outgoing edge'')))
     else if ty = NodeTypeCondition then validateExactBranches node edges [''true'', ''false'']
     else if ty = NodeTypeSplit then
       (case DecodeConfig node of
          Inl err \<Rightarrow> Inl err
        | Inr (CfgSplit cfg) \<Rightarrow> validateExactBranches node edges (map sb_Label (sc_Branches cfg))
        | Inr _ \<Rightarrow> Inl (ErrNew (''split node '' @ nid @ '' has invalid config'')))
     else if ty = NodeTypeWaitEvent then validateExactBranches node edges [''success'', ''timeout'']
     else if ty = NodeTypeAIDecision then
       (case DecodeConfig node of
          Inl err \<Rightarrow> Inl err
        | Inr (CfgAIDecision cfg) \<Rightarrow>
            if aic_Fallback cfg = []
            then Inl (ErrNew (''ai_decision node '' @ nid @ '' requires fallback''))
            else if aic_Fallback cfg \<notin> set (aic_Branches cfg)
            then Inl (ErrNew (''ai_decision node '' @ nid @ '' fallback branch '' @
                              go_quote (aic_Fallback cfg) @ '' is not declared''))
            else validateExactBranches node edges (aic_Branches cfg)
        | Inr _ \<Rightarrow> Inl (ErrNew (''ai_decision node '' @ nid @ '' has invalid config'')))
     else if ty = NodeTypeExtensionAction \<or> ty = NodeTypeExtensionCondition then
       (case DecodeConfig node of
          Inl err \<Rightarrow> Inl err
        | Inr (CfgExtension cfg) \<Rightarrow>
            if xc_Fallback cfg = []
            then Inl (ErrNew (ty @ '' node '' @ nid @ '' requires fallback''))
            else if xc_Fallback cfg \<notin> set (xc_Branches cfg)
            then Inl (ErrNew (ty @ '' node '' @ nid @ '' fallback branch '' @
                              go_quote (xc_Fallback cfg) @ '' is not declared''))
            else validateExactBranches node edges (xc_Branches cfg)
        | Inr _ \<Rightarrow> Inl (ErrNew (ty @ '' node '' @ nid @ '' has invalid config'')))
     else if ty = NodeTypeExit then
       (if edges \<noteq> [] then Inl (ErrNew (''exit node '' @ nid @ '' must not have outgoing edges'')) else Inr ())
     else (case DecodeConfig node of Inl err \<Rightarrow> Inl err | Inr _ \<Rightarrow> Inr ()))"

text \<open>
  The map \<^verbatim>\<open>outgoing\<close> from a node to its edges, as an association list; a missing key reads as the
  empty slice.
\<close>

type_synonym out_map = "(string \<times> edge list) list"

definition out_get :: "out_map \<Rightarrow> string \<Rightarrow> edge list" where
  "out_get outgoing k = (case map_of outgoing k of None \<Rightarrow> [] | Some es \<Rightarrow> es)"

fun out_append :: "edge \<Rightarrow> out_map \<Rightarrow> out_map" where
  "out_append e [] = [(e_From e, [e])]"
| "out_append e ((k, es) # rest) =
     (if k = e_From e then (k, es @ [e]) # rest else (k, es) # out_append e rest)"

fun visit_edges :: "edge list \<Rightarrow> string list \<Rightarrow> string list \<Rightarrow> string list \<times> string list" where
  "visit_edges [] reachable queue = (reachable, queue)"
| "visit_edges (edge # edges) reachable queue =
     (if e_To edge \<in> set reachable then visit_edges edges reachable queue
      else visit_edges edges (e_To edge # reachable) (queue @ [e_To edge]))"

definition out_targets :: "out_map \<Rightarrow> string set" where
  "out_targets outgoing = e_To ` set (concat (map snd outgoing))"

lemma finite_out_targets [simp]: "finite (out_targets outgoing)"
  by (simp add: out_targets_def)

lemma out_get_targets: "e \<in> set (out_get outgoing k) \<Longrightarrow> e_To e \<in> out_targets outgoing"
proof (cases "map_of outgoing k")
  case (Some es)
  assume "e \<in> set (out_get outgoing k)"
  with Some have "(k, es) \<in> set outgoing" "e \<in> set es" by (simp_all add: out_get_def map_of_SomeD)
  then show ?thesis unfolding out_targets_def by (auto intro!: imageI bexI [of _ "(k, es)"])
qed (simp add: out_get_def)

lemma visit_edges_reachable:
  "set (fst (visit_edges edges reachable queue)) = set reachable \<union> e_To ` set edges"
  by (induction edges reachable queue rule: visit_edges.induct) auto

lemma visit_edges_queue:
  "\<exists>new. snd (visit_edges edges reachable queue) = queue @ new \<and>
         set new = e_To ` set edges - set reachable"
proof (induction edges reachable queue rule: visit_edges.induct)
  case (2 e es rs qs)
  show ?case
  proof (cases "e_To e \<in> set rs")
    case True
    then show ?thesis using 2(1) by auto
  next
    case False
    with 2(2) obtain new where "snd (visit_edges (e # es) rs qs) = (qs @ [e_To e]) @ new"
      "set new = e_To ` set es - set (e_To e # rs)" by auto
    then show ?thesis using False by (intro exI [of _ "e_To e # new"]) auto
  qed
qed simp

lemma reach_loop_decreases:
  assumes "visit_edges (out_get outgoing current) reachable queue = (reachable', queue')"
  shows "((outgoing, reachable', queue'), outgoing, reachable, current # queue)
    \<in> measures [\<lambda>(out, r, q). card (out_targets out - set r), \<lambda>(out, r, q). length q]"
proof -
  have r: "set reachable' = set reachable \<union> e_To ` set (out_get outgoing current)"
    and q: "e_To ` set (out_get outgoing current) \<subseteq> set reachable \<Longrightarrow> queue' = queue"
    using assms visit_edges_reachable [of "out_get outgoing current" reachable queue]
      visit_edges_queue [of "out_get outgoing current" reachable queue]
    by (auto simp flip: set_empty)
  show ?thesis
  proof (cases "e_To ` set (out_get outgoing current) \<subseteq> set reachable")
    case True
    then show ?thesis using r q by (simp add: Un_absorb2)
  next
    case False
    then have "out_targets outgoing - set reachable' \<subset> out_targets outgoing - set reachable"
      using r out_get_targets [of _ outgoing current] by auto
    then show ?thesis by (simp add: psubset_card_mono)
  qed
qed

function reach_loop :: "out_map \<Rightarrow> string list \<Rightarrow> string list \<Rightarrow> string list" where
  "reach_loop outgoing reachable [] = reachable"
| "reach_loop outgoing reachable (current # queue) =
     (case visit_edges (out_get outgoing current) reachable queue of
        (reachable', queue') \<Rightarrow> reach_loop outgoing reachable' queue')"
  by pat_completeness auto
termination
  by (relation "measures [\<lambda>(out, r, q). card (out_targets out - set r), \<lambda>(out, r, q). length q]")
    (simp, metis reach_loop_decreases)

definition reachableNodes :: "string \<Rightarrow> out_map \<Rightarrow> string list" where
  "reachableNodes entryNodeID outgoing = reach_loop outgoing [entryNodeID] [entryNodeID]"

text \<open>
  \<^verbatim>\<open>Validate\<close>, one definition per loop. The map \<^verbatim>\<open>nodes\<close> holds the nodes checked so far.
\<close>

definition validateEntry :: "graph \<Rightarrow> node \<Rightarrow> unit result" where
  "validateEntry graph node =
     (if n_ID node \<noteq> g_EntryNodeID graph
      then Inl (ErrNew (''entry node '' @ n_ID node @ '' does not match entry_node_id '' @ g_EntryNodeID graph))
      else case DecodeConfig node of
        Inl err \<Rightarrow> Inl (ErrWrap (''entry node '' @ n_ID node @ '' has invalid config'') err)
      | Inr (CfgEntry cfg) \<Rightarrow>
          if ec_Trigger cfg = ''scheduled'' then
            (if ec_SegmentID cfg = []
             then Inl (ErrNew (''entry node '' @ n_ID node @ '' scheduled trigger requires segment_id''))
             else case validateSchedule (ec_Schedule cfg) of
               Inl err \<Rightarrow> Inl (ErrWrap (''entry node '' @ n_ID node @ '' has invalid schedule'') err)
             | Inr _ \<Rightarrow> Inr ())
          else Inr ()
      | Inr _ \<Rightarrow> Inl (ErrNew (''entry node '' @ n_ID node @ '' has invalid config'')))"

fun validate_nodes ::
  "graph \<Rightarrow> node list \<Rightarrow> (string \<rightharpoonup> node) \<Rightarrow> nat \<Rightarrow> ((string \<rightharpoonup> node) \<times> nat) result" where
  "validate_nodes graph [] nodes entryCount = Inr (nodes, entryCount)"
| "validate_nodes graph (node # rest) nodes entryCount =
     (if n_ID node = [] then Inl (ErrNew ''node id is required'')
      else if nodes (n_ID node) \<noteq> None then Inl (ErrNew (''duplicate node id: '' @ n_ID node))
      else case DecodeConfig node of
        Inl err \<Rightarrow> Inl err
      | Inr _ \<Rightarrow>
         (case (if n_Type node = NodeTypeEntry then validateEntry graph node else Inr ()) of
            Inl err \<Rightarrow> Inl err
          | Inr _ \<Rightarrow>
             (case validateDurations node of
                Inl err \<Rightarrow> Inl err
              | Inr _ \<Rightarrow>
                  validate_nodes graph rest (nodes(n_ID node \<mapsto> node))
                    (if n_Type node = NodeTypeEntry then Suc entryCount else entryCount))))"

fun validate_edges :: "(string \<rightharpoonup> node) \<Rightarrow> edge list \<Rightarrow> out_map \<Rightarrow> out_map result" where
  "validate_edges nodes [] outgoing = Inr outgoing"
| "validate_edges nodes (edge # rest) outgoing =
     (if nodes (e_From edge) = None
      then Inl (ErrNew (''edge references missing from node: '' @ e_From edge))
      else if nodes (e_To edge) = None
      then Inl (ErrNew (''edge references missing to node: '' @ e_To edge))
      else validate_edges nodes rest (out_append edge outgoing))"

fun validate_outgoing :: "node list \<Rightarrow> out_map \<Rightarrow> unit result" where
  "validate_outgoing [] outgoing = Inr ()"
| "validate_outgoing (node # rest) outgoing =
     (case validateOutgoing node (out_get outgoing (n_ID node)) of
        Inl err \<Rightarrow> Inl err
      | Inr _ \<Rightarrow> validate_outgoing rest outgoing)"

fun validate_reachable :: "node list \<Rightarrow> string list \<Rightarrow> unit result" where
  "validate_reachable [] reachable = Inr ()"
| "validate_reachable (node # rest) reachable =
     (if n_ID node \<notin> set reachable then Inl (ErrNew (''unreachable node: '' @ n_ID node))
      else validate_reachable rest reachable)"

fun validate_exit :: "node list \<Rightarrow> string list \<Rightarrow> unit result" where
  "validate_exit [] reachable = Inl (ErrNew ''graph must have at least one reachable exit node'')"
| "validate_exit (node # rest) reachable =
     (if n_ID node \<in> set reachable \<and> n_Type node = NodeTypeExit then Inr ()
      else validate_exit rest reachable)"

definition Validate :: "graph option \<Rightarrow> unit result" where
  "Validate graph_ptr =
    (case graph_ptr of
       None \<Rightarrow> Inl (ErrNew ''graph is required'')
     | Some graph \<Rightarrow>
        (case validate_nodes graph (g_Nodes graph) Map.empty 0 of
           Inl err \<Rightarrow> Inl err
         | Inr (nodes, entryCount) \<Rightarrow>
             if entryCount \<noteq> 1
             then Inl (ErrNew (''expected exactly one entry node, got '' @ itoa (int entryCount)))
             else if nodes (g_EntryNodeID graph) = None
             then Inl (ErrNew (''entry_node_id references missing node: '' @ g_EntryNodeID graph))
             else
               (case validate_edges nodes (g_Edges graph) [] of
                  Inl err \<Rightarrow> Inl err
                | Inr outgoing \<Rightarrow>
                    (case validate_outgoing (g_Nodes graph) outgoing of
                       Inl err \<Rightarrow> Inl err
                     | Inr _ \<Rightarrow>
                        (let reachable = reachableNodes (g_EntryNodeID graph) outgoing in
                         case validate_reachable (g_Nodes graph) reachable of
                           Inl err \<Rightarrow> Inl err
                         | Inr _ \<Rightarrow> validate_exit (g_Nodes graph) reachable)))))"

fun findNextNode_loop :: "edge list \<Rightarrow> string \<Rightarrow> string \<Rightarrow> string result" where
  "findNextNode_loop [] fromID branch =
     Inl (ErrNew (''no edge from '' @ fromID @ '' with branch '' @ go_quote branch))"
| "findNextNode_loop (edge # rest) fromID branch =
     (if e_From edge = fromID \<and> e_Branch edge = branch then Inr (e_To edge)
      else findNextNode_loop rest fromID branch)"

definition findNextNode :: "graph \<Rightarrow> string \<Rightarrow> string \<Rightarrow> string result" where
  "findNextNode graph fromID branch = findNextNode_loop (g_Edges graph) fromID branch"

section \<open>Well-formed graphs\<close>

text \<open>The edges leaving a node, and the edge relation.\<close>

definition edges_from :: "graph \<Rightarrow> string \<Rightarrow> edge list" where
  "edges_from g i = filter (\<lambda>e. e_From e = i) (g_Edges g)"

definition edge_rel :: "edge list \<Rightarrow> (string \<times> string) set" where
  "edge_rel es = (\<lambda>e. (e_From e, e_To e)) ` set es"

text \<open>The branch labels a node must offer; \<open>None\<close> for the types that are not constrained.\<close>

definition branch_labels :: "node \<Rightarrow> string list option" where
  "branch_labels n =
    (let ty = n_Type n in
     if ty \<in> set [NodeTypeEntry, NodeTypeDelay, NodeTypeAction, NodeTypeMessage, NodeTypeGoal] then Some [[]]
     else if ty = NodeTypeCondition then Some [''true'', ''false'']
     else if ty = NodeTypeWaitEvent then Some [''success'', ''timeout'']
     else if ty = NodeTypeExit then Some []
     else case DecodeConfig n of
       Inr (CfgSplit cfg) \<Rightarrow> Some (map sb_Label (sc_Branches cfg))
     | Inr (CfgAIDecision cfg) \<Rightarrow> Some (aic_Branches cfg)
     | Inr (CfgExtension cfg) \<Rightarrow> Some (xc_Branches cfg)
     | _ \<Rightarrow> None)"

text \<open>The fallback branch of a decision node.\<close>

definition fallback_ok :: "node \<Rightarrow> bool" where
  "fallback_ok n = (case DecodeConfig n of
       Inr (CfgAIDecision cfg) \<Rightarrow> aic_Fallback cfg \<in> set (aic_Branches cfg)
     | Inr (CfgExtension cfg) \<Rightarrow> xc_Fallback cfg \<in> set (xc_Branches cfg)
     | _ \<Rightarrow> True)"

text \<open>
  The labels a configuration declares are distinct and non-empty; the single unlabelled edge of a
  linear node is the only empty label.
\<close>

definition labels_ok :: "node \<Rightarrow> string list \<Rightarrow> bool" where
  "labels_ok n labels \<longleftrightarrow> distinct labels \<and>
     (n_Type n \<notin> set [NodeTypeEntry, NodeTypeDelay, NodeTypeAction, NodeTypeMessage, NodeTypeGoal] \<longrightarrow> [] \<notin> set labels)"

definition outgoing_ok :: "node \<Rightarrow> edge list \<Rightarrow> bool" where
  "outgoing_ok n es \<longleftrightarrow> fallback_ok n \<and>
     (case branch_labels n of
        None \<Rightarrow> True
      | Some labels \<Rightarrow> labels_ok n labels \<and> distinct (map e_Branch es) \<and> set (map e_Branch es) = set labels)"

definition node_ok :: "graph \<Rightarrow> node \<Rightarrow> bool" where
  "node_ok g n \<longleftrightarrow> n_ID n \<noteq> [] \<and> (\<exists>cfg. DecodeConfig n = Inr cfg) \<and>
     (n_Type n = NodeTypeEntry \<longrightarrow> validateEntry g n = Inr ()) \<and> validateDurations n = Inr ()"

definition graph_wf :: "graph \<Rightarrow> bool" where
  "graph_wf g \<longleftrightarrow>
     distinct (map n_ID (g_Nodes g)) \<and>
     (\<forall>n \<in> set (g_Nodes g). node_ok g n) \<and>
     (\<exists>!n. n \<in> set (g_Nodes g) \<and> n_Type n = NodeTypeEntry) \<and>
     (\<forall>e \<in> set (g_Edges g). e_From e \<in> n_ID ` set (g_Nodes g) \<and> e_To e \<in> n_ID ` set (g_Nodes g)) \<and>
     (\<forall>n \<in> set (g_Nodes g). outgoing_ok n (edges_from g (n_ID n))) \<and>
     (\<forall>n \<in> set (g_Nodes g). (g_EntryNodeID g, n_ID n) \<in> (edge_rel (g_Edges g))\<^sup>*) \<and>
     (\<exists>n \<in> set (g_Nodes g). n_Type n = NodeTypeExit)"

section \<open>The validator accepts exactly the well-formed graphs\<close>

subsection \<open>Reachability\<close>

definition out_rel :: "out_map \<Rightarrow> (string \<times> string) set" where
  "out_rel outgoing = {(i, e_To e) | i e. e \<in> set (out_get outgoing i)}"

lemma reach_loop_sound:
  assumes "set reachable \<subseteq> (out_rel outgoing)\<^sup>* `` {r}" and "set queue \<subseteq> set reachable"
  shows "set (reach_loop outgoing reachable queue) \<subseteq> (out_rel outgoing)\<^sup>* `` {r}"
  using assms
proof (induction outgoing reachable queue rule: reach_loop.induct)
  case (2 outgoing reachable current queue)
  let ?v = "visit_edges (out_get outgoing current) reachable queue"
  have step: "e_To ` set (out_get outgoing current) \<subseteq> (out_rel outgoing)\<^sup>* `` {r}"
    using 2(2,3) by (auto simp: out_rel_def intro: rtrancl_into_rtrancl)
  have "set (fst ?v) \<subseteq> (out_rel outgoing)\<^sup>* `` {r}"
    using 2(2) step by (simp add: visit_edges_reachable)
  moreover have "set (snd ?v) \<subseteq> set (fst ?v)"
    using 2(3) visit_edges_queue [of "out_get outgoing current" reachable queue]
    by (auto simp: visit_edges_reachable)
  ultimately show ?case using 2(1) by (cases ?v) simp
qed simp

lemma reach_loop_closed:
  assumes "\<forall>i \<in> set reachable - set queue. out_rel outgoing `` {i} \<subseteq> set reachable"
    and "set queue \<subseteq> set reachable"
  shows "set reachable \<subseteq> set (reach_loop outgoing reachable queue) \<and>
    out_rel outgoing `` set (reach_loop outgoing reachable queue) \<subseteq> set (reach_loop outgoing reachable queue)"
  using assms
proof (induction outgoing reachable queue rule: reach_loop.induct)
  case (2 outgoing reachable current queue)
  let ?v = "visit_edges (out_get outgoing current) reachable queue"
  have cur: "out_rel outgoing `` {current} = e_To ` set (out_get outgoing current)"
    by (auto simp: out_rel_def)
  obtain new where new: "snd ?v = queue @ new" "set new = e_To ` set (out_get outgoing current) - set reachable"
    using visit_edges_queue by metis
  have r: "set (fst ?v) = set reachable \<union> e_To ` set (out_get outgoing current)"
    by (rule visit_edges_reachable)
  have "\<forall>i \<in> set (fst ?v) - set (snd ?v). out_rel outgoing `` {i} \<subseteq> set (fst ?v)"
  proof
    fix i assume "i \<in> set (fst ?v) - set (snd ?v)"
    then have "i \<in> set reachable" "i \<notin> set queue" using r new by auto
    then show "out_rel outgoing `` {i} \<subseteq> set (fst ?v)"
      using 2(2) r cur by (cases "i = current") auto
  qed
  moreover have "set (snd ?v) \<subseteq> set (fst ?v)" using 2(3) r new by auto
  ultimately have "set (fst ?v) \<subseteq> set (reach_loop outgoing reachable (current # queue)) \<and>
    out_rel outgoing `` set (reach_loop outgoing reachable (current # queue))
      \<subseteq> set (reach_loop outgoing reachable (current # queue))"
    using 2(1) by (cases ?v) simp
  then show ?case using r by auto
qed auto

lemma reachableNodes_correct: "set (reachableNodes r outgoing) = (out_rel outgoing)\<^sup>* `` {r}"
proof
  show "set (reachableNodes r outgoing) \<subseteq> (out_rel outgoing)\<^sup>* `` {r}"
    unfolding reachableNodes_def by (rule reach_loop_sound) auto
  have "r \<in> set (reachableNodes r outgoing)"
    and "out_rel outgoing `` set (reachableNodes r outgoing) \<subseteq> set (reachableNodes r outgoing)"
    using reach_loop_closed [of "[r]" "[r]" outgoing] by (auto simp: reachableNodes_def)
  then show "(out_rel outgoing)\<^sup>* `` {r} \<subseteq> set (reachableNodes r outgoing)"
    by (auto elim!: rtrancl_induct)
qed

lemma out_get_append:
  "out_get (out_append e outgoing) i = (if i = e_From e then out_get outgoing i @ [e] else out_get outgoing i)"
  by (induction outgoing) (auto simp: out_get_def)

lemma validate_edges_Inr:
  "validate_edges nodes es outgoing = Inr out' \<Longrightarrow>
   (\<forall>i. out_get out' i = out_get outgoing i @ filter (\<lambda>e. e_From e = i) es) \<and>
   (\<forall>e \<in> set es. nodes (e_From e) \<noteq> None \<and> nodes (e_To e) \<noteq> None)"
  by (induction nodes es outgoing rule: validate_edges.induct) (auto simp: out_get_append split: if_splits)

lemma validate_edges_ok:
  "(\<forall>e \<in> set es. nodes (e_From e) \<noteq> None \<and> nodes (e_To e) \<noteq> None) \<Longrightarrow>
   \<exists>out'. validate_edges nodes es outgoing = Inr out'"
  by (induction nodes es outgoing rule: validate_edges.induct) auto

subsection \<open>Branches\<close>

lemma want_labels_Inr:
  "want_labels n labels want = Inr w \<longleftrightarrow>
   [] \<notin> set labels \<and> distinct labels \<and> set labels \<inter> set want = {} \<and> w = want @ labels"
  by (induction n labels want rule: want_labels.induct) auto

lemma match_edges_Nil:
  "distinct want \<Longrightarrow> match_edges n es want = Inr [] \<longleftrightarrow>
   distinct (map e_Branch es) \<and> set (map e_Branch es) = set want"
  by (induction n es want rule: match_edges.induct) (auto simp: image_iff)

lemma validateExactBranches_Inr:
  "validateExactBranches n es labels = Inr () \<longleftrightarrow>
   [] \<notin> set labels \<and> distinct labels \<and> distinct (map e_Branch es) \<and> set (map e_Branch es) = set labels"
proof -
  have len: "length es = length labels"
    if "distinct labels" "distinct (map e_Branch es)" "set (map e_Branch es) = set labels"
    using that by (metis distinct_card length_map)
  have "validateExactBranches n es labels = Inr () \<longleftrightarrow> length es = length labels \<and>
      (\<exists>w. want_labels n labels [] = Inr w \<and> match_edges n es w = Inr [])"
    by (auto simp: validateExactBranches_def split: sum.splits list.splits)
  also have "\<dots> \<longleftrightarrow> length es = length labels \<and> [] \<notin> set labels \<and> distinct labels \<and>
      distinct (map e_Branch es) \<and> set (map e_Branch es) = set labels"
    by (simp add: want_labels_Inr) (metis match_edges_Nil list.set_map)
  finally show ?thesis using len by blast
qed

lemma single_edge: "distinct (map e_Branch es) \<and> set (map e_Branch es) = {b} \<longleftrightarrow> (\<exists>e. es = [e] \<and> e_Branch e = b)"
proof
  assume a: "distinct (map e_Branch es) \<and> set (map e_Branch es) = {b}"
  then have "length es = 1" by (metis card.empty card.insert distinct_card empty_iff finite.emptyI length_map One_nat_def)
  with a show "\<exists>e. es = [e] \<and> e_Branch e = b" by (cases es) auto
qed auto

subsection \<open>Nodes\<close>

lemma map_sum_Inr: "map_sum id f r = Inr y \<longleftrightarrow> (\<exists>x. r = Inr x \<and> y = f x)"
  by (cases r) auto

lemma DecodeConfig_kinds:
  "DecodeConfig n = Inr (CfgEntry c1) \<longleftrightarrow> n_Type n = NodeTypeEntry \<and> decodeNodeConfig dec_entry n = Inr c1"
  "DecodeConfig n = Inr (CfgDelay c2) \<longleftrightarrow> n_Type n = NodeTypeDelay \<and> decodeNodeConfig dec_delay n = Inr c2"
  "DecodeConfig n = Inr (CfgSplit c3) \<longleftrightarrow> n_Type n = NodeTypeSplit \<and> decodeNodeConfig dec_split n = Inr c3"
  "DecodeConfig n = Inr (CfgWait c4) \<longleftrightarrow> n_Type n = NodeTypeWaitEvent \<and> decodeNodeConfig dec_wait n = Inr c4"
  "DecodeConfig n = Inr (CfgAIDecision c5) \<longleftrightarrow>
     n_Type n = NodeTypeAIDecision \<and> decodeNodeConfig dec_ai_decision n = Inr c5"
  "DecodeConfig n = Inr (CfgExtension c6) \<longleftrightarrow>
     (n_Type n = NodeTypeExtensionAction \<or> n_Type n = NodeTypeExtensionCondition) \<and>
     decodeNodeConfig dec_extension n = Inr c6"
  by (auto simp: DecodeConfig_def Let_def node_types map_sum_Inr)

lemma DecodeConfig_shape:
  assumes "DecodeConfig n = Inr cfg"
  shows "n_Type n = NodeTypeEntry \<Longrightarrow> \<exists>c. cfg = CfgEntry c"
    and "n_Type n = NodeTypeDelay \<Longrightarrow> \<exists>c. cfg = CfgDelay c"
    and "n_Type n = NodeTypeSplit \<Longrightarrow> \<exists>c. cfg = CfgSplit c"
    and "n_Type n = NodeTypeWaitEvent \<Longrightarrow> \<exists>c. cfg = CfgWait c"
    and "n_Type n = NodeTypeAIDecision \<Longrightarrow> \<exists>c. cfg = CfgAIDecision c"
    and "n_Type n = NodeTypeExtensionAction \<or> n_Type n = NodeTypeExtensionCondition \<Longrightarrow> \<exists>c. cfg = CfgExtension c"
  using assms by (auto simp: DecodeConfig_def Let_def node_types map_sum_Inr)

text \<open>The five linear node types, and the node types with labelled branches in their configuration.\<close>

abbreviation linear_types :: "string set" where
  "linear_types \<equiv> set [NodeTypeEntry, NodeTypeDelay, NodeTypeAction, NodeTypeMessage, NodeTypeGoal]"

lemma node_type_cases:
  obtains (linear) "n_Type n \<in> linear_types"
  | (condition) "n_Type n = NodeTypeCondition"
  | (wait) "n_Type n = NodeTypeWaitEvent"
  | (leave) "n_Type n = NodeTypeExit"
  | (split) "n_Type n = NodeTypeSplit"
  | (ai) "n_Type n = NodeTypeAIDecision"
  | (extension) "n_Type n = NodeTypeExtensionAction \<or> n_Type n = NodeTypeExtensionCondition"
  | (other) "n_Type n \<notin> linear_types" "n_Type n \<noteq> NodeTypeCondition" "n_Type n \<noteq> NodeTypeWaitEvent"
      "n_Type n \<noteq> NodeTypeExit" "n_Type n \<noteq> NodeTypeSplit" "n_Type n \<noteq> NodeTypeAIDecision"
      "n_Type n \<noteq> NodeTypeExtensionAction" "n_Type n \<noteq> NodeTypeExtensionCondition"
  by blast

lemma fallback_ok_other:
  "n_Type n \<noteq> NodeTypeAIDecision \<Longrightarrow> n_Type n \<noteq> NodeTypeExtensionAction \<Longrightarrow>
   n_Type n \<noteq> NodeTypeExtensionCondition \<Longrightarrow> fallback_ok n"
  by (auto simp: fallback_ok_def DecodeConfig_kinds split: sum.splits config.splits)

lemma branch_labels_other:
  assumes "n_Type n \<notin> linear_types" "n_Type n \<noteq> NodeTypeCondition" "n_Type n \<noteq> NodeTypeWaitEvent"
    "n_Type n \<noteq> NodeTypeExit" "n_Type n \<noteq> NodeTypeSplit" "n_Type n \<noteq> NodeTypeAIDecision"
    "n_Type n \<noteq> NodeTypeExtensionAction" "n_Type n \<noteq> NodeTypeExtensionCondition"
  shows "branch_labels n = None"
  using assms by (auto simp: branch_labels_def DecodeConfig_kinds split: sum.splits config.splits)

lemma outgoing_ok_branches:
  assumes "branch_labels n = Some labels" and "n_Type n \<notin> linear_types"
  shows "outgoing_ok n es \<longleftrightarrow> fallback_ok n \<and> validateExactBranches n es labels = Inr ()"
  using assms unfolding outgoing_ok_def labels_ok_def validateExactBranches_Inr by auto

lemma validateOutgoing_linear:
  assumes "n_Type n \<in> linear_types"
  shows "validateOutgoing n es = Inr () \<longleftrightarrow> outgoing_ok n es"
proof -
  have "branch_labels n = Some [[]]"
    using assms by (simp only: branch_labels_def Let_def if_True)
  moreover have "fallback_ok n"
    using assms by (intro fallback_ok_other) (auto simp: node_types)
  ultimately have "outgoing_ok n es \<longleftrightarrow> (\<exists>e. es = [e] \<and> e_Branch e = [])"
    using assms single_edge [of es "[]"] by (simp add: outgoing_ok_def labels_ok_def)
  then show ?thesis
    using assms by (simp only: validateOutgoing_def Let_def if_True) (auto split: list.splits)
qed

lemma validateOutgoing_Inr:
  assumes dec: "DecodeConfig n = Inr cfg"
  shows "validateOutgoing n es = Inr () \<longleftrightarrow> outgoing_ok n es"
proof (cases n rule: node_type_cases)
  case linear
  then show ?thesis by (rule validateOutgoing_linear)
next
  case condition
  then have "branch_labels n = Some [''true'', ''false'']" "fallback_ok n" "n_Type n \<notin> linear_types"
    "validateOutgoing n es = validateExactBranches n es [''true'', ''false'']"
    by (simp_all add: branch_labels_def validateOutgoing_def Let_def node_types fallback_ok_other)
  then show ?thesis using outgoing_ok_branches by metis
next
  case wait
  then have "branch_labels n = Some [''success'', ''timeout'']" "fallback_ok n" "n_Type n \<notin> linear_types"
    "validateOutgoing n es = validateExactBranches n es [''success'', ''timeout'']"
    by (simp_all add: branch_labels_def validateOutgoing_def Let_def node_types fallback_ok_other)
  then show ?thesis using outgoing_ok_branches by metis
next
  case leave
  then have "branch_labels n = Some []" "fallback_ok n" "n_Type n \<notin> linear_types"
    "validateOutgoing n es = Inr () \<longleftrightarrow> es = []"
    by (simp_all add: branch_labels_def validateOutgoing_def Let_def node_types fallback_ok_other)
  then show ?thesis using outgoing_ok_branches [of n "[]" es] by (auto simp: validateExactBranches_Inr)
next
  case split
  then obtain c where c: "cfg = CfgSplit c" using DecodeConfig_shape [OF dec] by blast
  with split dec have "branch_labels n = Some (map sb_Label (sc_Branches c))" "fallback_ok n"
    "n_Type n \<notin> linear_types" "validateOutgoing n es = validateExactBranches n es (map sb_Label (sc_Branches c))"
    by (simp_all add: branch_labels_def validateOutgoing_def Let_def node_types fallback_ok_other)
  then show ?thesis using outgoing_ok_branches by metis
next
  case ai
  then obtain c where c: "cfg = CfgAIDecision c" using DecodeConfig_shape [OF dec] by blast
  with ai dec have "branch_labels n = Some (aic_Branches c)" "n_Type n \<notin> linear_types"
    and fb: "fallback_ok n \<longleftrightarrow> aic_Fallback c \<in> set (aic_Branches c)"
    and "validateOutgoing n es = Inr () \<longleftrightarrow> aic_Fallback c \<noteq> [] \<and> aic_Fallback c \<in> set (aic_Branches c) \<and>
      validateExactBranches n es (aic_Branches c) = Inr ()"
    by (simp_all add: branch_labels_def validateOutgoing_def fallback_ok_def Let_def node_types)
  then show ?thesis using outgoing_ok_branches fb validateExactBranches_Inr by metis
next
  case extension
  then obtain c where c: "cfg = CfgExtension c" using DecodeConfig_shape [OF dec] by blast
  with extension dec have "branch_labels n = Some (xc_Branches c)" "n_Type n \<notin> linear_types"
    and fb: "fallback_ok n \<longleftrightarrow> xc_Fallback c \<in> set (xc_Branches c)"
    and "validateOutgoing n es = Inr () \<longleftrightarrow> xc_Fallback c \<noteq> [] \<and> xc_Fallback c \<in> set (xc_Branches c) \<and>
      validateExactBranches n es (xc_Branches c) = Inr ()"
    by (auto simp add: branch_labels_def validateOutgoing_def fallback_ok_def Let_def node_types)
  then show ?thesis using outgoing_ok_branches fb validateExactBranches_Inr by metis
next
  case other
  with branch_labels_other fallback_ok_other have "branch_labels n = None" "fallback_ok n" by blast+
  with other dec show ?thesis by (simp add: validateOutgoing_def Let_def outgoing_ok_def)
qed

lemma validate_outgoing_Inr:
  "(\<forall>n \<in> set ns. \<exists>cfg. DecodeConfig n = Inr cfg) \<Longrightarrow>
   validate_outgoing ns outgoing = Inr () \<longleftrightarrow> (\<forall>n \<in> set ns. outgoing_ok n (out_get outgoing (n_ID n)))"
proof (induction ns)
  case (Cons n ns)
  then obtain cfg where "DecodeConfig n = Inr cfg" by auto
  then have "outgoing_ok n (out_get outgoing (n_ID n)) \<longleftrightarrow>
      validateOutgoing n (out_get outgoing (n_ID n)) = Inr ()" by (simp add: validateOutgoing_Inr)
  with Cons show ?case by (cases "validateOutgoing n (out_get outgoing (n_ID n))") auto
qed simp

lemma validate_reachable_Inr: "validate_reachable ns r = Inr () \<longleftrightarrow> n_ID ` set ns \<subseteq> set r"
  by (induction ns) auto

lemma validate_exit_Inr:
  "validate_exit ns r = Inr () \<longleftrightarrow> (\<exists>n \<in> set ns. n_ID n \<in> set r \<and> n_Type n = NodeTypeExit)"
  by (induction ns) auto

lemma validate_nodes_Cons:
  "validate_nodes g (n # ns) nodes c = Inr p \<longleftrightarrow>
   node_ok g n \<and> n_ID n \<notin> dom nodes \<and>
   validate_nodes g ns (nodes(n_ID n \<mapsto> n)) (if n_Type n = NodeTypeEntry then Suc c else c) = Inr p"
  by (auto simp: node_ok_def dom_def split: sum.splits if_splits simp del: fun_upd_apply)

lemma validate_nodes_Inr:
  "(\<exists>nodes'. validate_nodes g ns nodes c = Inr (nodes', c')) \<longleftrightarrow>
   distinct (map n_ID ns) \<and> n_ID ` set ns \<inter> dom nodes = {} \<and> (\<forall>n \<in> set ns. node_ok g n) \<and>
   c' = c + length (filter (\<lambda>n. n_Type n = NodeTypeEntry) ns)"
proof (induction ns arbitrary: nodes c)
  case (Cons n ns)
  have "n_ID ` set ns \<inter> dom (nodes(n_ID n \<mapsto> n)) = {} \<longleftrightarrow> n_ID n \<notin> n_ID ` set ns \<and> n_ID ` set ns \<inter> dom nodes = {}"
    by auto
  then show ?case by (simp only: validate_nodes_Cons Cons.IH ex_simps) auto
qed auto

lemma validate_nodes_dom:
  "validate_nodes g ns nodes c = Inr (nodes', c') \<Longrightarrow> dom nodes' = dom nodes \<union> n_ID ` set ns"
proof (induction ns arbitrary: nodes c)
  case (Cons n ns)
  from Cons.prems have "dom nodes' = dom (nodes(n_ID n \<mapsto> n)) \<union> n_ID ` set ns"
    unfolding validate_nodes_Cons by (blast dest: Cons.IH)
  then show ?case by auto
qed simp

subsection \<open>Whole graphs\<close>

lemma one_entry:
  "distinct (map n_ID ns) \<Longrightarrow>
   length (filter P ns) = 1 \<longleftrightarrow> (\<exists>!n. n \<in> set ns \<and> P n)"
proof -
  assume "distinct (map n_ID ns)"
  then have "length (filter P ns) = card {n \<in> set ns. P n}"
    by (simp add: distinct_map distinct_card flip: set_filter)
  then have "length (filter P ns) = 1 \<longleftrightarrow> (\<exists>n. {n \<in> set ns. P n} = {n})"
    by (simp add: card_1_singleton_iff)
  then show ?thesis by (simp add: set_eq_iff Ex1_def) blast
qed

lemma out_rel_edges: "(\<And>i. out_get outgoing i = filter (\<lambda>e. e_From e = i) es) \<Longrightarrow> out_rel outgoing = edge_rel es"
  by (auto simp: out_rel_def edge_rel_def)

lemma Validate_nodes_edges:
  "Validate (Some g) = Inr () \<longleftrightarrow>
   (\<exists>nodes outgoing. validate_nodes g (g_Nodes g) Map.empty 0 = Inr (nodes, 1) \<and>
      nodes (g_EntryNodeID g) \<noteq> None \<and> validate_edges nodes (g_Edges g) [] = Inr outgoing \<and>
      validate_outgoing (g_Nodes g) outgoing = Inr () \<and>
      validate_reachable (g_Nodes g) (reachableNodes (g_EntryNodeID g) outgoing) = Inr () \<and>
      validate_exit (g_Nodes g) (reachableNodes (g_EntryNodeID g) outgoing) = Inr ())"
  by (auto simp: Validate_def Let_def split: sum.splits prod.splits if_splits)

lemma entry_in_nodes:
  assumes "\<exists>!n. n \<in> set (g_Nodes g) \<and> n_Type n = NodeTypeEntry" and "\<forall>n \<in> set (g_Nodes g). node_ok g n"
  shows "g_EntryNodeID g \<in> n_ID ` set (g_Nodes g)"
proof -
  from assms(1) obtain n where n: "n \<in> set (g_Nodes g)" "n_Type n = NodeTypeEntry" by blast
  with assms(2) have "validateEntry g n = Inr ()" by (auto simp: node_ok_def)
  then have "n_ID n = g_EntryNodeID g" by (auto simp: validateEntry_def split: if_splits)
  with n(1) show ?thesis by (metis imageI)
qed

lemma Validate_iff: "Validate (Some g) = Inr () \<longleftrightarrow> graph_wf g"
proof
  assume "Validate (Some g) = Inr ()"
  then obtain nodes outgoing where v: "validate_nodes g (g_Nodes g) Map.empty 0 = Inr (nodes, 1)"
    "validate_edges nodes (g_Edges g) [] = Inr outgoing" "validate_outgoing (g_Nodes g) outgoing = Inr ()"
    "validate_reachable (g_Nodes g) (reachableNodes (g_EntryNodeID g) outgoing) = Inr ()"
    "validate_exit (g_Nodes g) (reachableNodes (g_EntryNodeID g) outgoing) = Inr ()"
    unfolding Validate_nodes_edges by blast
  have nodes: "distinct (map n_ID (g_Nodes g))" "\<forall>n \<in> set (g_Nodes g). node_ok g n"
    "length (filter (\<lambda>n. n_Type n = NodeTypeEntry) (g_Nodes g)) = 1"
    using validate_nodes_Inr [of g "g_Nodes g" Map.empty 0 1] v(1) by auto
  have dom: "dom nodes = n_ID ` set (g_Nodes g)" using validate_nodes_dom [OF v(1)] by simp
  have out: "out_get outgoing i = filter (\<lambda>e. e_From e = i) (g_Edges g)" for i
    using validate_edges_Inr [OF v(2)] by (simp add: out_get_def)
  have edges: "\<forall>e \<in> set (g_Edges g). e_From e \<in> dom nodes \<and> e_To e \<in> dom nodes"
    using validate_edges_Inr [OF v(2)] by auto
  show "graph_wf g"
    unfolding graph_wf_def
    using nodes one_entry [OF nodes(1)] edges dom out v(3-5)
    by (simp add: validate_outgoing_Inr node_ok_def validate_reachable_Inr validate_exit_Inr
        reachableNodes_correct out_rel_edges [OF out] edges_from_def image_subset_iff)
next
  assume wf: "graph_wf g"
  let ?ns = "g_Nodes g"
  have "\<exists>nodes. validate_nodes g ?ns Map.empty 0 = Inr (nodes, 1)"
    using wf one_entry [of ?ns "\<lambda>n. n_Type n = NodeTypeEntry"]
    unfolding validate_nodes_Inr graph_wf_def by simp
  then obtain nodes where v: "validate_nodes g ?ns Map.empty 0 = Inr (nodes, 1)" by blast
  have dom: "dom nodes = n_ID ` set ?ns" using validate_nodes_dom [OF v] by simp
  have entry: "nodes (g_EntryNodeID g) \<noteq> None"
    using entry_in_nodes [of g] wf dom unfolding graph_wf_def by blast
  have "\<forall>e \<in> set (g_Edges g). nodes (e_From e) \<noteq> None \<and> nodes (e_To e) \<noteq> None"
    using wf dom unfolding graph_wf_def by (metis domIff)
  then obtain outgoing where e: "validate_edges nodes (g_Edges g) [] = Inr outgoing"
    using validate_edges_ok by blast
  have out: "out_get outgoing i = filter (\<lambda>e. e_From e = i) (g_Edges g)" for i
    using validate_edges_Inr [OF e] by (simp add: out_get_def)
  have "validate_outgoing ?ns outgoing = Inr ()"
    using wf by (auto simp: validate_outgoing_Inr node_ok_def graph_wf_def out edges_from_def)
  moreover have "validate_reachable ?ns (reachableNodes (g_EntryNodeID g) outgoing) = Inr ()"
    and "validate_exit ?ns (reachableNodes (g_EntryNodeID g) outgoing) = Inr ()"
    using wf by (auto simp: validate_reachable_Inr validate_exit_Inr reachableNodes_correct
        out_rel_edges [OF out] graph_wf_def)
  ultimately show "Validate (Some g) = Inr ()"
    using v e entry unfolding Validate_nodes_edges by blast
qed

subsection \<open>Successors\<close>

lemma findNextNode_Inr:
  "(\<exists>e \<in> set (edges_from g i). e_Branch e = b) \<Longrightarrow> \<exists>j. findNextNode g i b = Inr j"
proof -
  have "(\<exists>e \<in> set es. e_From e = i \<and> e_Branch e = b) \<Longrightarrow> \<exists>j. findNextNode_loop es i b = Inr j" for es
    by (induction es) auto
  then show "(\<exists>e \<in> set (edges_from g i). e_Branch e = b) \<Longrightarrow> \<exists>j. findNextNode g i b = Inr j"
    by (auto simp: findNextNode_def edges_from_def)
qed

lemma findNextNode_edge:
  "findNextNode g i b = Inr j \<Longrightarrow> \<exists>e \<in> set (g_Edges g). e_From e = i \<and> e_Branch e = b \<and> e_To e = j"
proof -
  have "findNextNode_loop es i b = Inr j \<Longrightarrow> \<exists>e \<in> set es. e_From e = i \<and> e_Branch e = b \<and> e_To e = j" for es
    by (induction es) (auto split: if_splits)
  then show "findNextNode g i b = Inr j \<Longrightarrow> \<exists>e \<in> set (g_Edges g). e_From e = i \<and> e_Branch e = b \<and> e_To e = j"
    by (simp add: findNextNode_def)
qed

lemma wf_successor:
  assumes "graph_wf g" and "n \<in> set (g_Nodes g)" and "branch_labels n = Some labels" and "b \<in> set labels"
  shows "\<exists>j. findNextNode g (n_ID n) b = Inr j \<and> j \<in> n_ID ` set (g_Nodes g)"
proof -
  have "outgoing_ok n (edges_from g (n_ID n))" using assms by (auto simp: graph_wf_def)
  then have "set labels = e_Branch ` set (edges_from g (n_ID n))"
    using assms(3) by (simp add: outgoing_ok_def)
  then obtain j where j: "findNextNode g (n_ID n) b = Inr j"
    using findNextNode_Inr [of g "n_ID n" b] assms(4) by auto
  with findNextNode_edge [OF j] assms(1) show ?thesis by (auto simp: graph_wf_def)
qed

end
