(* ===== verification/JourneyStore.thy ===== *)
theory JourneyStore
  imports World JourneyGraph
begin

text \<open>
  The durable state of the journey engine: \<^verbatim>\<open>internal/postgres/journey_runtime.go\<close> and the reads of
  \<^verbatim>\<open>journeys.go\<close> it needs. Every transaction is one database call: it either takes effect as a whole
  or, when any of its statements fails, not at all. The constraints of the schema that the
  statements can run into are part of the model: the enrollment key of a run, the key of a message
  intent, at most one live step per run, and the reference from an intent to its template.

  The functions that Go runs inside a caller's transaction (\<^verbatim>\<open>enrollEventTriggered\<close>,
  \<^verbatim>\<open>resolveWaitingRuns\<close>) are functions on worlds.
\<close>

section \<open>Constraints of the schema\<close>

text \<open>The unique index \<^verbatim>\<open>journey_steps_one_live_per_run\<close>.\<close>

definition live :: "journey_step \<Rightarrow> bool" where
  "live s \<longleftrightarrow> js_Status s = ''pending'' \<or> js_Status s = ''processing''"

definition one_live :: "journey_step list \<Rightarrow> bool" where
  "one_live steps \<longleftrightarrow> distinct (map js_RunID (filter live steps))"

definition with_steps :: "world \<Rightarrow> journey_step list \<Rightarrow> world result" where
  "with_steps w steps = (if one_live steps then Inr (w\<lparr>w_steps := steps\<rparr>) else Inl ErrDb)"

definition enroll_key :: "journey_run \<Rightarrow> string \<times> string \<times> string \<times> int" where
  "enroll_key r = (jr_JourneyVersionID r, jr_ProfileID r, jr_EntryKey r, jr_ReentrySequence r)"

definition intent_key :: "message_intent \<Rightarrow> string \<times> string \<times> string" where
  "intent_key i = (mi_RunID i, mi_NodeID i, mi_Endpoint i)"

text \<open>The outcome of a transaction: committed, or rolled back to the world it started from.\<close>

definition transact :: "(world \<Rightarrow> ('a \<times> world) result) \<Rightarrow> 'a call" where
  "transact f = db (\<lambda>w. case f w of Inl e \<Rightarrow> (Inl e, w) | Inr (x, w') \<Rightarrow> (Inr x, w'))"

section \<open>Runs\<close>

definition defaulted_run :: "world \<Rightarrow> journey_run \<Rightarrow> journey_run" where
  "defaulted_run w run = run\<lparr>
     jr_Status := (if jr_Status run = [] then ''active'' else jr_Status run),
     jr_State := or_empty_obj (jr_State run),
     jr_EnteredAt := (if jr_EnteredAt run = zero_time then w_now w else jr_EnteredAt run),
     jr_UpdatedAt := (if jr_UpdatedAt run = zero_time then w_now w else jr_UpdatedAt run)\<rparr>"

text \<open>\<^verbatim>\<open>INSERT ... ON CONFLICT (journey_version_id, profile_id, entry_key, reentry_sequence) DO NOTHING\<close>\<close>

definition insert_run :: "journey_run \<Rightarrow> world \<Rightarrow> string option \<times> world" where
  "insert_run run w =
     (if enroll_key run \<in> set (map enroll_key (w_runs w)) then (None, w)
      else (Some (new_id w), (next_id w)\<lparr>w_runs := w_runs w @ [run\<lparr>jr_ID := new_id w\<rparr>]\<rparr>))"

definition insert_step :: "journey_step \<Rightarrow> world \<Rightarrow> world result" where
  "insert_step step w =
     with_steps (next_id w) (w_steps w @ [step\<lparr>js_ID := new_id w, js_CreatedAt := w_now w, js_UpdatedAt := w_now w\<rparr>])"

definition CreateJourneyRun :: "journey_run \<Rightarrow> bool call" where
  "CreateJourneyRun run =
     (if jr_TenantID run = [] then failed (ErrNew ''tenant_id is required'')
      else db (\<lambda>w. case insert_run (defaulted_run w run) w of (r, w') \<Rightarrow> (Inr (r \<noteq> None), w')))"

definition defaulted_step :: "world \<Rightarrow> journey_step \<Rightarrow> journey_step" where
  "defaulted_step w step = step\<lparr>
     js_Kind := (if js_Kind step = [] then ''advance'' else js_Kind step),
     js_Status := (if js_Status step = [] then ''pending'' else js_Status step),
     js_AvailableAt := (if js_AvailableAt step = zero_time then w_now w else js_AvailableAt step)\<rparr>"

definition EnrollJourneyRun :: "journey_run \<Rightarrow> journey_step \<Rightarrow> (string \<times> bool) call" where
  "EnrollJourneyRun run initialStep =
     (if jr_TenantID run = [] then failed (ErrNew ''tenant_id is required'')
      else transact (\<lambda>w.
        case insert_run (defaulted_run w run) w of
          (None, _) \<Rightarrow> Inr (([], False), w)
        | (Some runID, w1) \<Rightarrow>
            (let step = (defaulted_step w initialStep)\<lparr>
                   js_RunID := runID,
                   js_TenantID := (if js_TenantID initialStep = [] then jr_TenantID run else js_TenantID initialStep),
                   js_LockedUntil := None, js_ErrorMessage := None\<rparr>
             in case insert_step step w1 of
                  Inl e \<Rightarrow> Inl e
                | Inr w2 \<Rightarrow> Inr ((runID, True), w2))))"

definition run_in :: "principal \<Rightarrow> string \<Rightarrow> journey_run \<Rightarrow> bool" where
  "run_in p runID r \<longleftrightarrow> jr_TenantID r = p_TenantID p \<and> jr_WorkspaceID r = p_WorkspaceID p \<and> jr_ID r = runID"

definition or_not_found :: "'a option \<Rightarrow> 'a result" where
  "or_not_found x = (case x of None \<Rightarrow> Inl ErrNotFound | Some y \<Rightarrow> Inr y)"

definition GetJourneyRun :: "principal \<Rightarrow> string \<Rightarrow> journey_run call" where
  "GetJourneyRun p runID = query (\<lambda>w. or_not_found (find (run_in p runID) (w_runs w)))"

definition UpdateJourneyRun :: "principal \<Rightarrow> journey_run \<Rightarrow> journey_run call" where
  "UpdateJourneyRun p run = db (\<lambda>w.
     let rows = upd_rows (run_in p (jr_ID run)) (\<lambda>r. r\<lparr>
           jr_Status := jr_Status run, jr_CurrentNodeID := jr_CurrentNodeID run, jr_State := jr_State run,
           jr_WaitEventType := jr_WaitEventType run, jr_WaitUntil := jr_WaitUntil run,
           jr_GoalReached := jr_GoalReached run, jr_UpdatedAt := w_now w,
           jr_CompletedAt := jr_CompletedAt run\<rparr>) (w_runs w)
     in case find (run_in p (jr_ID run)) rows of
          None \<Rightarrow> (Inl ErrNotFound, w)
        | Some out \<Rightarrow> (Inr out, w\<lparr>w_runs := rows\<rparr>))"

definition CancelJourneyRun :: "principal \<Rightarrow> string \<Rightarrow> string \<Rightarrow> unit call" where
  "CancelJourneyRun p journeyID runID = db (\<lambda>w.
     let target = (\<lambda>r. run_in p runID r \<and> jr_JourneyID r = journeyID);
         open_run = (\<lambda>r. target r \<and> jr_Status r \<noteq> ''completed'' \<and> jr_Status r \<noteq> ''canceled'')
     in if \<not> list_ex open_run (w_runs w) then
          (if list_ex target (w_runs w) then (Inr (), w) else (Inl ErrNotFound, w))
        else (Inr (), w\<lparr>
          w_runs := upd_rows open_run (\<lambda>r. r\<lparr>jr_Status := ''canceled'', jr_CompletedAt := Some (w_now w),
                                              jr_UpdatedAt := w_now w\<rparr>) (w_runs w),
          w_steps := filter (\<lambda>s. \<not> (js_TenantID s = p_TenantID p \<and> js_RunID s = runID \<and> js_Status s \<noteq> ''completed''))
                            (w_steps w)\<rparr>))"

section \<open>Steps\<close>

definition lease :: duration where "lease = 5 * minute"

definition expired :: "time \<Rightarrow> time option \<Rightarrow> bool" where
  "expired now locked = (case locked of None \<Rightarrow> False | Some t \<Rightarrow> t \<le> now)"

text \<open>The steps a worker may claim.\<close>

definition step_matches_run :: "journey_step \<Rightarrow> journey_run \<Rightarrow> bool" where
  "step_matches_run s r \<longleftrightarrow>
     jr_ID r = js_RunID s \<and> js_TenantID s = jr_TenantID r \<and> js_NodeID s = jr_CurrentNodeID r \<and>
     ((js_Kind s = ''advance'' \<and> jr_Status r = ''active'') \<or> (js_Kind s = ''timeout'' \<and> jr_Status r = ''waiting''))"

definition step_due :: "time \<Rightarrow> journey_step \<Rightarrow> bool" where
  "step_due now s \<longleftrightarrow>
     ((js_Status s = ''pending'' \<or> js_Status s = ''failed'') \<and> js_Attempts s < 10 \<and> js_AvailableAt s \<le> now) \<or>
     (js_Status s = ''processing'' \<and> expired now (js_LockedUntil s) \<and> js_Attempts s < 10)"

definition version_active :: "world \<Rightarrow> string \<Rightarrow> bool" where
  "version_active w versionID \<longleftrightarrow> list_ex (\<lambda>v. jv_ID v = versionID \<and> jv_Status v = ''active'') (w_versions w)"

definition claimable_step :: "world \<Rightarrow> journey_step \<Rightarrow> bool" where
  "claimable_step w s \<longleftrightarrow>
     list_ex (\<lambda>r. step_matches_run s r \<and> version_active w (jr_JourneyVersionID r)) (w_runs w) \<and> step_due (w_now w) s"

definition poison_steps :: "world \<Rightarrow> world" where
  "poison_steps w = w\<lparr>w_steps := upd_rows
     (\<lambda>s. js_Status s = ''processing'' \<and> expired (w_now w) (js_LockedUntil s) \<and> js_Attempts s \<ge> 10)
     (\<lambda>s. s\<lparr>js_Status := ''dead'', js_LockedUntil := None,
            js_ErrorMessage := Some ''poison pill: max processing attempts exceeded'', js_UpdatedAt := w_now w\<rparr>)
     (w_steps w)\<rparr>"

definition claim_step :: "world \<Rightarrow> (journey_step option \<times> world) result" where
  "claim_step w =
     (case least_by js_AvailableAt (filter (claimable_step w) (w_steps w)) of
        None \<Rightarrow> Inr (None, w)
      | Some s \<Rightarrow>
          (let take = (\<lambda>s. s\<lparr>js_Status := ''processing'', js_Attempts := js_Attempts s + 1,
                             js_LockedUntil := Some (w_now w + lease), js_UpdatedAt := w_now w\<rparr>)
           in case with_steps w (upd_rows (\<lambda>t. js_ID t = js_ID s) take (w_steps w)) of
                Inl e \<Rightarrow> Inl e
              | Inr w' \<Rightarrow> Inr (Some (take s), w')))"

definition ClaimJourneyStep :: "journey_step option call" where
  "ClaimJourneyStep = attempt (exec poison_steps) failed (\<lambda>_. transact claim_step)"

definition CompleteJourneyStep :: "string \<Rightarrow> unit call" where
  "CompleteJourneyStep stepID = exec (\<lambda>w. w\<lparr>w_steps := upd_rows (\<lambda>s. js_ID s = stepID)
     (\<lambda>s. s\<lparr>js_Status := ''completed'', js_LockedUntil := None, js_UpdatedAt := w_now w\<rparr>) (w_steps w)\<rparr>)"

definition FailJourneyStep :: "string \<Rightarrow> string \<Rightarrow> unit call" where
  "FailJourneyStep stepID errMsg = exec (\<lambda>w. w\<lparr>w_steps := upd_rows (\<lambda>s. js_ID s = stepID)
     (\<lambda>s. s\<lparr>js_Status := (if js_Attempts s \<ge> 10 then ''dead'' else ''failed''), js_ErrorMessage := Some errMsg,
            js_AvailableAt := w_now w + minute, js_LockedUntil := None, js_UpdatedAt := w_now w\<rparr>) (w_steps w)\<rparr>)"

definition RescheduleJourneyStep :: "string \<Rightarrow> time \<Rightarrow> unit call" where
  "RescheduleJourneyStep stepID availableAt = transact (\<lambda>w. map_sum id (Pair ())
     (with_steps w (upd_rows (\<lambda>s. js_ID s = stepID)
        (\<lambda>s. s\<lparr>js_Status := ''pending'', js_Attempts := 0, js_LockedUntil := None,
               js_AvailableAt := availableAt, js_UpdatedAt := w_now w\<rparr>) (w_steps w))))"

definition InsertJourneyStep :: "journey_step \<Rightarrow> unit call" where
  "InsertJourneyStep step = transact (\<lambda>w. map_sum id (Pair ()) (insert_step (defaulted_step w step) w))"

definition insert_transition :: "journey_transition \<Rightarrow> world \<Rightarrow> world" where
  "insert_transition t w = (next_id w)\<lparr>w_transitions := w_transitions w @
     [t\<lparr>jt_ID := new_id w, jt_Detail := or_empty_obj (jt_Detail t), jt_OccurredAt := w_now w\<rparr>]\<rparr>"

definition RecordTransition :: "journey_transition \<Rightarrow> unit call" where
  "RecordTransition t = exec (insert_transition t)"

section \<open>The advance transaction\<close>

definition insert_intent :: "message_intent \<Rightarrow> world \<Rightarrow> world result" where
  "insert_intent i w =
     (if intent_key i \<in> set (map intent_key (w_intents w)) then Inr w
      else if mi_TemplateID i \<notin> set (map te_ID (w_templates w)) then Inl ErrDb
      else Inr ((next_id w)\<lparr>w_intents := w_intents w @
        [i\<lparr>mi_ID := new_id w, mi_ProviderMessageID := None, mi_PolicySnapshot := or_empty_obj (mi_PolicySnapshot i),
           mi_ErrorMessage := None, mi_CostMicros := 0, mi_CreatedAt := w_now w, mi_UpdatedAt := w_now w\<rparr>]\<rparr>))"

fun insert_intents :: "message_intent list \<Rightarrow> world \<Rightarrow> world result" where
  "insert_intents [] w = Inr w"
| "insert_intents (i # is) w = (case insert_intent i w of Inl e \<Rightarrow> Inl e | Inr w' \<Rightarrow> insert_intents is w')"

text \<open>The row after the update: what the engine may change of a run.\<close>

definition advanced_run :: "time \<Rightarrow> journey_run \<Rightarrow> journey_run \<Rightarrow> journey_run" where
  "advanced_run now run r = r\<lparr>
     jr_Status := jr_Status run, jr_CurrentNodeID := jr_CurrentNodeID run, jr_State := or_empty_obj (jr_State run),
     jr_WaitEventType := jr_WaitEventType run, jr_WaitUntil := jr_WaitUntil run,
     jr_GoalReached := jr_GoalReached run, jr_UpdatedAt := now, jr_CompletedAt := jr_CompletedAt run\<rparr>"

definition completed_step :: "time \<Rightarrow> journey_step \<Rightarrow> journey_step" where
  "completed_step now s = s\<lparr>js_Status := ''completed'', js_LockedUntil := None, js_UpdatedAt := now\<rparr>"

definition advance_hit :: "string \<Rightarrow> string \<Rightarrow> string \<Rightarrow> string \<Rightarrow> journey_run \<Rightarrow> bool" where
  "advance_hit runID tenantID dbStatus dbNode r \<longleftrightarrow>
     jr_ID r = runID \<and> jr_TenantID r = tenantID \<and> jr_Status r = dbStatus \<and> jr_CurrentNodeID r = dbNode"

text \<open>The run with its new state and the claimed step completed.\<close>

definition advance_base :: "(journey_run \<Rightarrow> bool) \<Rightarrow> journey_run \<Rightarrow> string \<Rightarrow> world \<Rightarrow> world" where
  "advance_base hit run stepID w = w\<lparr>w_runs := upd_rows hit (advanced_run (w_now w) run) (w_runs w),
     w_steps := upd_rows (\<lambda>s. js_ID s = stepID) (completed_step (w_now w)) (w_steps w)\<rparr>"

definition advance_writes ::
  "string \<Rightarrow> journey_run \<Rightarrow> string \<Rightarrow> string \<Rightarrow> string \<Rightarrow> journey_step option \<Rightarrow> journey_transition \<Rightarrow>
   message_intent list \<Rightarrow> world \<Rightarrow> world result" where
  "advance_writes runID run dbStatus dbNode stepID nextStep trn intents w =
     (let hit = advance_hit runID (jr_TenantID run) dbStatus dbNode
      in if \<not> list_ex hit (w_runs w) then Inl (ErrNew ''advance run state changed concurrently'')
         else
           (let w1 = advance_base hit run stepID w
            in case (case nextStep of None \<Rightarrow> Inr w1 | Some s \<Rightarrow> insert_step (defaulted_step w1 s) w1) of
                 Inl e \<Rightarrow> Inl e
               | Inr w2 \<Rightarrow> insert_intents intents (insert_transition trn w2)))"

definition AdvanceRunTx ::
  "string \<Rightarrow> journey_run \<Rightarrow> string \<Rightarrow> journey_step option \<Rightarrow> journey_transition \<Rightarrow> message_intent list \<Rightarrow> unit call" where
  "AdvanceRunTx runID run stepID nextStep trn intents = transact (\<lambda>w.
     case find (\<lambda>r. jr_ID r = runID \<and> jr_TenantID r = jr_TenantID run) (w_runs w) of
       None \<Rightarrow> Inl ErrNotFound
     | Some dbRun \<Rightarrow>
        (case find (\<lambda>s. js_ID s = stepID) (w_steps w) of
           None \<Rightarrow> Inl ErrNotFound
         | Some claimed \<Rightarrow>
             if js_RunID claimed \<noteq> runID \<or> js_RunID claimed \<noteq> jr_ID run \<or> js_TenantID claimed \<noteq> jr_TenantID run
             then Inl (ErrNew ''advance step does not match run'')
             else if js_Status claimed = ''completed'' then Inr ((), w)
             else if js_Status claimed \<noteq> ''processing''
             then Inl (ErrNew (''advance step '' @ stepID @ '' is '' @ js_Status claimed @ '', expected processing''))
             else
               (let expectedStatus = (if js_Kind claimed = ''timeout'' then ''waiting'' else ''active'')
                in if jr_Status dbRun \<noteq> expectedStatus \<or> jr_CurrentNodeID dbRun \<noteq> js_NodeID claimed
                   then Inr ((), w\<lparr>w_steps := upd_rows
                          (\<lambda>s. js_ID s = stepID \<and> js_RunID s = runID \<and> js_TenantID s = jr_TenantID run)
                          (completed_step (w_now w)) (w_steps w)\<rparr>)
                   else map_sum id (Pair ())
                          (advance_writes runID run (jr_Status dbRun) (jr_CurrentNodeID dbRun) stepID nextStep trn intents w))))"

section \<open>Reads\<close>

definition GetJourneyRunSystem :: "string \<Rightarrow> string \<Rightarrow> journey_run call" where
  "GetJourneyRunSystem tenantID runID =
     query (\<lambda>w. or_not_found (find (\<lambda>r. jr_TenantID r = tenantID \<and> jr_ID r = runID) (w_runs w)))"

definition GetJourneyRunsForProfile :: "string \<Rightarrow> string \<Rightarrow> string \<Rightarrow> journey_run list call" where
  "GetJourneyRunsForProfile tenantID versionID profileID = query (\<lambda>w. Inr (sort_key (\<lambda>r. - jr_ReentrySequence r)
     (filter (\<lambda>r. jr_TenantID r = tenantID \<and> jr_JourneyVersionID r = versionID \<and> jr_ProfileID r = profileID) (w_runs w))))"

definition GetJourneyRuns :: "principal \<Rightarrow> string \<Rightarrow> journey_run list call" where
  "GetJourneyRuns p journeyID = query (\<lambda>w. Inr (sort_key (\<lambda>r. - jr_EnteredAt r)
     (filter (\<lambda>r. jr_TenantID r = p_TenantID p \<and> jr_WorkspaceID r = p_WorkspaceID p \<and> jr_JourneyID r = journeyID) (w_runs w))))"

definition GetJourneyTransitions :: "principal \<Rightarrow> string \<Rightarrow> journey_transition list call" where
  "GetJourneyTransitions p runID = query (\<lambda>w. Inr (sort_key jt_OccurredAt
     (filter (\<lambda>t. jt_TenantID t = p_TenantID p \<and> jt_RunID t = runID \<and>
                  list_ex (\<lambda>r. jr_ID r = jt_RunID t \<and> jr_WorkspaceID r = p_WorkspaceID p) (w_runs w)) (w_transitions w))))"

definition profile_at :: "string \<Rightarrow> string \<Rightarrow> string \<Rightarrow> profile_row \<Rightarrow> bool" where
  "profile_at tenantID workspaceID profileID r \<longleftrightarrow>
     pr_TenantID r = tenantID \<and> pr_WorkspaceID r = workspaceID \<and> pr_ID r = profileID"

definition GetProfileByIDSystem :: "string \<Rightarrow> string \<Rightarrow> string \<Rightarrow> profile call" where
  "GetProfileByIDSystem tenantID workspaceID profileID = query (\<lambda>w.
     map_sum id pr_Profile (or_not_found (find (profile_at tenantID workspaceID profileID) (w_profiles w))))"

definition GetProfileAppID :: "string \<Rightarrow> string \<Rightarrow> string \<Rightarrow> string call" where
  "GetProfileAppID tenantID workspaceID profileID = query (\<lambda>w.
     map_sum id pr_AppID (or_not_found (find (profile_at tenantID workspaceID profileID) (w_profiles w))))"

text \<open>\<^verbatim>\<open>attributes || $4\<close> on \<^verbatim>\<open>jsonb\<close>: objects are merged; a nil map is marshalled as null.\<close>

definition merge_attributes :: "raw \<Rightarrow> (string \<times> json) list option \<Rightarrow> raw" where
  "merge_attributes old attrs =
     (case attrs of
        None \<Rightarrow> (case old of Some (JArr js) \<Rightarrow> Some (JArr (js @ [JNull])) | Some j \<Rightarrow> Some (JArr [j, JNull]) | None \<Rightarrow> None)
      | Some kvs \<Rightarrow>
          (case old of
             Some (JObj okvs) \<Rightarrow> Some (JObj (jsonb_concat okvs kvs))
           | Some (JArr js) \<Rightarrow> Some (JArr (js @ [JObj kvs]))
           | Some j \<Rightarrow> Some (JArr [j, JObj kvs])
           | None \<Rightarrow> None))"

definition UpdateProfileAttributes :: "principal \<Rightarrow> string \<Rightarrow> (string \<times> json) list option \<Rightarrow> unit call" where
  "UpdateProfileAttributes p profileID attrs = exec (\<lambda>w. w\<lparr>w_profiles := upd_rows
     (profile_at (p_TenantID p) (p_WorkspaceID p) profileID)
     (\<lambda>r. r\<lparr>pr_Attributes := merge_attributes (pr_Attributes r) attrs, pr_UpdatedAt := w_now w, pr_Version := pr_Version r + 1\<rparr>) (w_profiles w)\<rparr>)"

definition ListActiveScheduledJourneyVersions :: "journey_version list call" where
  "ListActiveScheduledJourneyVersions = query (\<lambda>w.
     Inr (filter (\<lambda>v. jv_Status v = ''active'' \<and> jv_EntryKind v = ''scheduled'') (w_versions w)))"

definition GetJourneyVersion :: "string \<Rightarrow> string \<Rightarrow> journey_version call" where
  "GetJourneyVersion tenantID versionID =
     query (\<lambda>w. or_not_found (find (\<lambda>v. jv_TenantID v = tenantID \<and> jv_ID v = versionID) (w_versions w)))"

definition GetFirstAppID :: "string \<Rightarrow> string \<Rightarrow> string call" where
  "GetFirstAppID tenantID workspaceID = query (\<lambda>w.
     case least_by ap_ID (filter (\<lambda>a. ap_TenantID a = tenantID \<and> ap_WorkspaceID a = workspaceID) (w_apps w)) of
       None \<Rightarrow> Inl ErrNoRows
     | Some a \<Rightarrow> Inr (ap_ID a))"

section \<open>Enrollment and waiting runs, driven by events\<close>

text \<open>
  The re-entry rule shared by all ways of enrolling: the sequence number of the next run of the
  profile, or \<open>None\<close> when it may not enter again. The runs are sorted by descending sequence.
\<close>

definition reentry_sequence :: "string \<Rightarrow> int \<Rightarrow> journey_run list \<Rightarrow> int option" where
  "reentry_sequence policy maxReentries runs =
     (case runs of
        [] \<Rightarrow> Some 0
      | r # _ \<Rightarrow>
          if policy = ''once'' then None
          else if policy = ''after_exit'' \<and> list_ex (\<lambda>r. jr_Status r = ''active'' \<or> jr_Status r = ''waiting'') runs then None
          else if jr_ReentrySequence r + 1 > maxReentries then None
          else Some (jr_ReentrySequence r + 1))"

definition version_runs :: "world \<Rightarrow> string \<Rightarrow> string \<Rightarrow> journey_run list" where
  "version_runs w versionID profileID = sort_key (\<lambda>r. - jr_ReentrySequence r)
     (filter (\<lambda>r. jr_JourneyVersionID r = versionID \<and> jr_ProfileID r = profileID) (w_runs w))"

definition graph_entry :: "raw \<Rightarrow> string option" where
  "graph_entry data = Option.bind (Option.bind data obj_members) (\<lambda>kvs. str_field ''entry_node_id'' kvs)"

definition event_run :: "accepted_event \<Rightarrow> journey_version \<Rightarrow> string \<Rightarrow> int \<Rightarrow> string \<Rightarrow> time \<Rightarrow> journey_run" where
  "event_run event v profileID seq entry now =
     \<lparr>jr_ID = [], jr_TenantID = p_TenantID (ae_Principal event), jr_WorkspaceID = p_WorkspaceID (ae_Principal event),
      jr_JourneyID = jv_JourneyID v, jr_JourneyVersionID = jv_ID v, jr_ProfileID = profileID,
      jr_SubjectExternalID = Some (ae_ExternalID event), jr_EntryKey = ae_ID event, jr_ReentrySequence = seq,
      jr_Status = ''active'', jr_CurrentNodeID = entry, jr_State = empty_obj, jr_WaitEventType = None,
      jr_WaitUntil = None, jr_GoalReached = False, jr_EnteredAt = now, jr_UpdatedAt = now, jr_CompletedAt = None\<rparr>"

fun enroll_items :: "accepted_event \<Rightarrow> string \<Rightarrow> journey_version list \<Rightarrow> world \<Rightarrow> world result" where
  "enroll_items event profileID [] w = Inr w"
| "enroll_items event profileID (it # items) w =
     (case reentry_sequence (jv_ReentryPolicy it) (jv_MaxReentries it) (version_runs w (jv_ID it) profileID) of
        None \<Rightarrow> enroll_items event profileID items w
      | Some seq \<Rightarrow>
         (case graph_entry (jv_Graph it) of
            None \<Rightarrow> Inl (ErrWrap ''decode entry_node_id from graph'' ErrJSON)
          | Some entry \<Rightarrow>
              if entry = [] then enroll_items event profileID items w
              else case insert_run (event_run event it profileID seq entry (w_now w)) w of
                (None, _) \<Rightarrow> enroll_items event profileID items w
              | (Some runID, w1) \<Rightarrow>
                  (case insert_step (mk_step runID (p_TenantID (ae_Principal event)) entry ''advance'' (w_now w)) w1 of
                     Inl e \<Rightarrow> Inl e
                   | Inr w2 \<Rightarrow> enroll_items event profileID items w2)))"

definition enrollEventTriggered :: "accepted_event \<Rightarrow> string \<Rightarrow> world \<Rightarrow> world result" where
  "enrollEventTriggered event profileID w =
     enroll_items event profileID
       (filter (\<lambda>v. jv_TenantID v = p_TenantID (ae_Principal event) \<and> jv_WorkspaceID v = p_WorkspaceID (ae_Principal event) \<and>
                    jv_EntryKind v = ''event'' \<and> jv_EntryEventType v = Some (ae_Type event) \<and> jv_Status v = ''active'')
          (w_versions w)) w"

definition graph_edges :: "raw \<Rightarrow> edge list option" where
  "graph_edges data = Option.bind (Option.bind data obj_members) (\<lambda>kvs. list_field dec_edge ''edges'' kvs)"

fun success_edge :: "edge list \<Rightarrow> string \<Rightarrow> string" where
  "success_edge [] current = []"
| "success_edge (e # es) current =
     (if e_From e = current \<and> e_Branch e = ''success'' then e_To e else success_edge es current)"

definition resume_base :: "string \<Rightarrow> string \<Rightarrow> world \<Rightarrow> world" where
  "resume_base runID successor w = w\<lparr>
     w_runs := upd_rows (\<lambda>r. jr_ID r = runID \<and> jr_Status r = ''waiting'')
       (\<lambda>r. r\<lparr>jr_Status := ''active'', jr_WaitEventType := None, jr_WaitUntil := None,
              jr_CurrentNodeID := successor, jr_UpdatedAt := w_now w\<rparr>) (w_runs w),
     w_steps := upd_rows (\<lambda>s. js_RunID s = runID \<and> js_Kind s = ''timeout'' \<and>
         (js_Status s = ''pending'' \<or> js_Status s = ''processing'' \<or> js_Status s = ''failed''))
       (\<lambda>s. s\<lparr>js_Status := ''completed'', js_UpdatedAt := w_now w\<rparr>) (w_steps w)\<rparr>"

definition resume_run :: "accepted_event \<Rightarrow> string \<Rightarrow> string \<Rightarrow> string \<Rightarrow> world \<Rightarrow> world result" where
  "resume_run event runID current successor w =
     (if \<not> list_ex (\<lambda>r. jr_ID r = runID \<and> jr_Status r = ''waiting'') (w_runs w) then Inr w
      else
        (case insert_step (mk_step runID (p_TenantID (ae_Principal event)) successor ''advance'' (w_now w))
                (resume_base runID successor w) of
           Inl e \<Rightarrow> Inl e
         | Inr w2 \<Rightarrow> Inr (insert_transition (mk_transition runID (p_TenantID (ae_Principal event))
                            (Some current) (Some successor) ''wait_event'' ''success'' empty_obj) w2)))"

fun resume_items :: "accepted_event \<Rightarrow> (string \<times> string \<times> raw) list \<Rightarrow> world \<Rightarrow> world result" where
  "resume_items event [] w = Inr w"
| "resume_items event ((runID, current, graph_json) # items) w =
     (case graph_edges graph_json of
        None \<Rightarrow> Inl ErrJSON
      | Some es \<Rightarrow>
          (let successor = success_edge es current
           in if successor = [] then resume_items event items w
              else case resume_run event runID current successor w of
                Inl e \<Rightarrow> Inl e
              | Inr w' \<Rightarrow> resume_items event items w'))"

text \<open>The rows of the join of waiting runs with their versions and profiles.\<close>

definition waiting_items :: "world \<Rightarrow> accepted_event \<Rightarrow> (string \<times> string \<times> raw) list" where
  "waiting_items w event = concat (map (\<lambda>r.
     map (\<lambda>v. (jr_ID r, jr_CurrentNodeID r, jv_Graph v))
       (filter (\<lambda>v. jv_ID v = jr_JourneyVersionID r) (w_versions w)))
     (filter (\<lambda>r. jr_TenantID r = p_TenantID (ae_Principal event) \<and> jr_WorkspaceID r = p_WorkspaceID (ae_Principal event) \<and>
                  list_ex (\<lambda>f. pr_ID f = jr_ProfileID r \<and> pr_AppID f = p_AppID (ae_Principal event)) (w_profiles w) \<and>
                  jr_Status r = ''waiting'' \<and> jr_WaitEventType r = Some (ae_Type event) \<and>
                  jr_SubjectExternalID r = Some (ae_ExternalID event)) (w_runs w)))"

definition resolveWaitingRuns :: "accepted_event \<Rightarrow> world \<Rightarrow> world result" where
  "resolveWaitingRuns event w =
     (if ae_ExternalID event = [] then Inr w else resume_items event (waiting_items w event) w)"

text \<open>The journey part of the projection of an accepted event (\<^verbatim>\<open>store.go\<close>), inside its transaction.\<close>

definition project_journeys :: "accepted_event \<Rightarrow> string \<Rightarrow> world \<Rightarrow> world result" where
  "project_journeys event profileID w =
     (case (if profileID \<noteq> [] then enrollEventTriggered event profileID w else Inr w) of
        Inl e \<Rightarrow> Inl (ErrWrap ''enroll event triggered'' e)
      | Inr w1 \<Rightarrow>
          (case (if ae_ExternalID event \<noteq> [] then resolveWaitingRuns event w1 else Inr w1) of
             Inl e \<Rightarrow> Inl (ErrWrap ''resolve waiting runs'' e)
           | Inr w2 \<Rightarrow> Inr w2))"

section \<open>Message intents\<close>

definition intent_due :: "time \<Rightarrow> message_intent \<Rightarrow> bool" where
  "intent_due now i \<longleftrightarrow>
     ((mi_Status i = ''pending'' \<or> mi_Status i = ''failed'') \<and> mi_Attempts i < 3 \<and> mi_AvailableAt i \<le> now) \<or>
     (mi_Status i = ''processing'' \<and> expired now (mi_LockedUntil i))"

definition tenant_in_flight :: "world \<Rightarrow> string \<Rightarrow> nat" where
  "tenant_in_flight w tenantID = length (filter (\<lambda>i. mi_TenantID i = tenantID \<and> mi_Status i = ''processing'' \<and>
     (case mi_LockedUntil i of None \<Rightarrow> False | Some t \<Rightarrow> t > w_now w)) (w_intents w))"

definition claimable_intent :: "world \<Rightarrow> message_intent \<Rightarrow> bool" where
  "claimable_intent w i \<longleftrightarrow>
     version_active w (mi_JourneyVersionID i) \<and> intent_due (w_now w) i \<and> tenant_in_flight w (mi_TenantID i) < 10"

definition taken_intent :: "time \<Rightarrow> message_intent \<Rightarrow> message_intent" where
  "taken_intent now i = i\<lparr>mi_Status := ''processing'', mi_Attempts := mi_Attempts i + 1,
     mi_LockedUntil := Some (now + lease), mi_UpdatedAt := now\<rparr>"

text \<open>The returned row does not carry the cost column, which is left at zero.\<close>

definition ClaimJourneyMessageIntent :: "string \<Rightarrow> message_intent option call" where
  "ClaimJourneyMessageIntent workerID = db (\<lambda>w.
     case least_by (\<lambda>i. (\<not> mi_Transactional i, mi_AvailableAt i)) (filter (claimable_intent w) (w_intents w)) of
       None \<Rightarrow> (Inr None, w)
     | Some i \<Rightarrow> (Inr (Some ((taken_intent (w_now w) i)\<lparr>mi_CostMicros := 0\<rparr>)),
         w\<lparr>w_intents := upd_rows (\<lambda>j. mi_ID j = mi_ID i) (taken_intent (w_now w)) (w_intents w)\<rparr>))"

definition UpdateJourneyMessageIntent :: "message_intent \<Rightarrow> unit call" where
  "UpdateJourneyMessageIntent intent = exec (\<lambda>w. w\<lparr>w_intents := upd_rows (\<lambda>j. mi_ID j = mi_ID intent)
     (\<lambda>j. j\<lparr>mi_Status := mi_Status intent, mi_Attempts := mi_Attempts intent, mi_AvailableAt := mi_AvailableAt intent,
            mi_LockedUntil := mi_LockedUntil intent, mi_Decision := mi_Decision intent, mi_Reason := mi_Reason intent,
            mi_ProviderMessageID := mi_ProviderMessageID intent,
            mi_PolicySnapshot := or_empty_obj (mi_PolicySnapshot intent), mi_ErrorMessage := mi_ErrorMessage intent,
            mi_UpdatedAt := w_now w\<rparr>) (w_intents w)\<rparr>)"

definition GetJourneyDLQ :: "principal \<Rightarrow> (journey_step list \<times> message_intent list) call" where
  "GetJourneyDLQ p =
     attempt (query (\<lambda>w. Inr (sort_key (\<lambda>s. - js_CreatedAt s) (filter (\<lambda>s. js_TenantID s = p_TenantID p \<and>
         list_ex (\<lambda>r. jr_ID r = js_RunID s \<and> jr_WorkspaceID r = p_WorkspaceID p) (w_runs w) \<and> js_Status s = ''dead'') (w_steps w)))))
       failed (\<lambda>steps.
     attempt (query (\<lambda>w. Inr (sort_key (\<lambda>i. - mi_CreatedAt i) (filter (\<lambda>i. mi_TenantID i = p_TenantID p \<and>
         mi_WorkspaceID i = p_WorkspaceID p \<and> mi_Status i = ''dead'') (w_intents w)))))
       failed (\<lambda>intents.
     ret (Inr (steps, map (\<lambda>i. i\<lparr>mi_ExperimentID := None, mi_Variant := [], mi_CostMicros := 0\<rparr>) intents))))"

definition RetryJourneyStep :: "principal \<Rightarrow> string \<Rightarrow> unit call" where
  "RetryJourneyStep p stepID = transact (\<lambda>w.
     let hit = (\<lambda>s. js_ID s = stepID \<and> js_TenantID s = p_TenantID p \<and>
                    list_ex (\<lambda>r. jr_ID r = js_RunID s \<and> jr_WorkspaceID r = p_WorkspaceID p) (w_runs w))
     in if \<not> list_ex hit (w_steps w) then Inl ErrNotFound
        else map_sum id (Pair ()) (with_steps w (upd_rows hit
          (\<lambda>s. s\<lparr>js_Status := ''pending'', js_Attempts := 0, js_AvailableAt := w_now w, js_LockedUntil := None,
                 js_ErrorMessage := None, js_UpdatedAt := w_now w\<rparr>) (w_steps w))))"

definition RetryJourneyMessageIntent :: "principal \<Rightarrow> string \<Rightarrow> unit call" where
  "RetryJourneyMessageIntent p intentID = db (\<lambda>w.
     let hit = (\<lambda>i. mi_ID i = intentID \<and> mi_TenantID i = p_TenantID p \<and> mi_WorkspaceID i = p_WorkspaceID p)
     in if \<not> list_ex hit (w_intents w) then (Inl ErrNotFound, w)
        else (Inr (), w\<lparr>w_intents := upd_rows hit
          (\<lambda>i. i\<lparr>mi_Status := ''pending'', mi_Attempts := 0, mi_AvailableAt := w_now w, mi_LockedUntil := None,
                 mi_ErrorMessage := None, mi_UpdatedAt := w_now w\<rparr>) (w_intents w)\<rparr>))"

end
