(* ===== verification/JourneyNodes.thy ===== *)
theory JourneyNodes
  imports Audience Flags Policy Events Catalog JourneyStore
begin

text \<open>
  Execution of one node: \<^verbatim>\<open>Node.execute\<close> of \<^verbatim>\<open>internal/journey/nodes.go\<close>, one definition per case of
  its switch. The AI gateway and the extension host are interfaces the engine is given (\<^verbatim>\<open>Deps\<close>); they
  are fields of the record \<open>deps\<close>, functions of the number of the call, so that they may answer
  differently every time. What is shown: an AI decision or an extension can only choose a declared
  branch or the fallback, never fail the node; every successful execution describes a move along an
  edge of the graph, a wait or an exit; and in a validated graph no node fails for lack of a
  successor, except for the kinds of nodes the validator does not constrain.
\<close>

section \<open>Interfaces\<close>

record generate_request =
  gr_PromptVersionID :: string
  gr_Prompt :: string
  gr_OutputSchema :: raw
  gr_Timeout :: duration
  gr_MaxCostCents :: int
  gr_Action :: string
  gr_Purpose :: string

record generate_response =
  gp_Content :: raw
  gp_ActivityID :: string

type_synonym ai_gateway = "nat \<Rightarrow> principal \<Rightarrow> generate_request \<Rightarrow> generate_response option result"

text \<open>Arguments: principal, extension, invocation, required scope, input. Result: response, activity, error.\<close>

type_synonym extension_host = "nat \<Rightarrow> principal \<Rightarrow> string \<Rightarrow> string \<Rightarrow> string \<Rightarrow> raw \<Rightarrow> raw \<times> string \<times> err option"

record deps =
  d_LateThreshold :: duration
  d_AIGateway :: "ai_gateway option"
  d_ExtensionHost :: "extension_host option"

definition external :: "(nat \<Rightarrow> 'a) \<Rightarrow> 'a prog" where
  "external f = State (\<lambda>w. (f (w_tick w), ticked w))"

lemma run_external [simp]: "run_state (external f) w = (f (w_tick w), ticked w)"
  by (simp add: external_def)

section \<open>Results\<close>

record execution_result =
  xr_NextNodeID :: string
  xr_NextStep :: "journey_step option"
  xr_Transition :: journey_transition
  xr_NextStatus :: string
  xr_CompletedAt :: "time option"
  xr_GoalReached :: bool
  xr_WaitEventType :: "string option"
  xr_WaitUntil :: "time option"
  xr_State :: raw
  xr_MessageIntents :: "message_intent list"

text \<open>A move to \<open>next_id\<close> that leaves the rest of the run alone, with a step available at the given time.\<close>

definition moved :: "JourneyGraph.node \<Rightarrow> journey_run \<Rightarrow> string \<Rightarrow> time \<Rightarrow> string \<Rightarrow> raw \<Rightarrow> execution_result" where
  "moved n run next_node available outcome detail =
     \<lparr>xr_NextNodeID = next_node,
      xr_NextStep = Some (mk_step (jr_ID run) (jr_TenantID run) next_node ''advance'' available),
      xr_Transition = mk_transition (jr_ID run) (jr_TenantID run) (Some (n_ID n)) (Some next_node) (n_Type n) outcome detail,
      xr_NextStatus = jr_Status run, xr_CompletedAt = jr_CompletedAt run, xr_GoalReached = jr_GoalReached run,
      xr_WaitEventType = None, xr_WaitUntil = None, xr_State = jr_State run, xr_MessageIntents = []\<rparr>"

definition successor :: "graph \<Rightarrow> JourneyGraph.node \<Rightarrow> string result" where
  "successor g n = (case findNextNode g (n_ID n) [] of Inl err \<Rightarrow> Inl (ErrWrap ''find successor'' err) | Inr nxt \<Rightarrow> Inr nxt)"

definition branchSuccessor :: "graph \<Rightarrow> JourneyGraph.node \<Rightarrow> string \<Rightarrow> string result" where
  "branchSuccessor g n branch =
     (case findNextNode g (n_ID n) branch of
        Inl err \<Rightarrow> Inl (ErrWrap (''find successor branch '' @ go_quote branch) err)
      | Inr nxt \<Rightarrow> Inr nxt)"

definition take_branch :: "graph \<Rightarrow> JourneyGraph.node \<Rightarrow> journey_run \<Rightarrow> time \<Rightarrow> string \<Rightarrow> raw \<Rightarrow> execution_result result" where
  "take_branch g n run now branch detail =
     map_sum id (\<lambda>nxt. moved n run nxt now (''branch:'' @ branch) detail) (branchSuccessor g n branch)"

definition system_principal :: "journey_run \<Rightarrow> principal" where
  "system_principal run = tenant_principal (jr_TenantID run) (jr_WorkspaceID run)"

section \<open>The cases of the switch\<close>

definition execEntry :: "JourneyGraph.node \<Rightarrow> journey_run \<Rightarrow> graph \<Rightarrow> time \<Rightarrow> execution_result result" where
  "execEntry n run g now = map_sum id (\<lambda>nxt. moved n run nxt now ''advanced'' empty_obj) (successor g n)"

definition execDelay :: "JourneyGraph.node \<Rightarrow> journey_run \<Rightarrow> graph \<Rightarrow> time \<Rightarrow> execution_result result" where
  "execDelay n run g now =
     (case decodeNodeConfig dec_delay n of
        Inl err \<Rightarrow> Inl err
      | Inr cfg \<Rightarrow>
          (case parse_duration (dc_Duration cfg) of
             None \<Rightarrow> Inl (ErrWrap (''invalid delay duration '' @ go_quote (dc_Duration cfg)) ErrDuration)
           | Some dur \<Rightarrow> map_sum id (\<lambda>nxt. moved n run nxt (now + dur) ''waited'' empty_obj) (successor g n)))"

definition execCondition :: "JourneyGraph.node \<Rightarrow> journey_run \<Rightarrow> graph \<Rightarrow> time \<Rightarrow> execution_result call" where
  "execCondition n run g now =
     (case decodeNodeConfig dec_condition n of
        Inl err \<Rightarrow> failed err
      | Inr cfg \<Rightarrow>
          attempt (EvaluateAudience (system_principal run) (jr_ProfileID run) (cc_DSL cfg)) (wrapped ''evaluate condition'')
            (\<lambda>matched. ret (take_branch g n run now (if matched then ''true'' else ''false'') empty_obj)))"

text \<open>The branch a response names, when it is one of the declared ones.\<close>

definition chosen_branch :: "string list \<Rightarrow> string \<Rightarrow> raw \<Rightarrow> string" where
  "chosen_branch branches fallback content =
     (case Option.bind (Option.bind content obj_members) (\<lambda>kvs. str_field ''branch'' kvs) of
        None \<Rightarrow> fallback
      | Some b \<Rightarrow> if b \<in> set branches then b else fallback)"

definition decision_schema :: "string list \<Rightarrow> raw" where
  "decision_schema branches = Some (JObj [(''additionalProperties'', JBool False),
     (''properties'', JObj [(''branch'', JObj [(''enum'', JArr (map JStr branches)), (''type'', JStr ''string'')])]),
     (''required'', JArr [JStr ''branch'']), (''type'', JStr ''object'')])"

definition decide_ai :: "ai_gateway option \<Rightarrow> journey_run \<Rightarrow> ai_decision_config \<Rightarrow> (string \<times> string) prog" where
  "decide_ai gateway run cfg =
     (case gateway of
        Some gw \<Rightarrow>
          if aic_PromptVersionID cfg \<noteq> [] \<and> aic_TimeoutMS cfg > 0 then
            State_Monad.bind
              (external (\<lambda>k. gw k (system_principal run)
                \<lparr>gr_PromptVersionID = aic_PromptVersionID cfg, gr_Prompt = aic_Prompt cfg,
                 gr_OutputSchema = decision_schema (aic_Branches cfg), gr_Timeout = wrap64 (aic_TimeoutMS cfg * millisecond),
                 gr_MaxCostCents = aic_MaxCostCents cfg, gr_Action = ''ai.journey_decision'', gr_Purpose = ''journey_decision''\<rparr>))
              (\<lambda>r. ret (case r of
                  Inr (Some response) \<Rightarrow>
                    (chosen_branch (aic_Branches cfg) (aic_Fallback cfg) (gp_Content response), gp_ActivityID response)
                | _ \<Rightarrow> (aic_Fallback cfg, [])))
          else ret (aic_Fallback cfg, [])
      | None \<Rightarrow> ret (aic_Fallback cfg, []))"

definition execAIDecision ::
  "ai_gateway option \<Rightarrow> JourneyGraph.node \<Rightarrow> journey_run \<Rightarrow> graph \<Rightarrow> time \<Rightarrow> execution_result call" where
  "execAIDecision gateway n run g now =
     (case decodeNodeConfig dec_ai_decision n of
        Inl err \<Rightarrow> failed err
      | Inr cfg \<Rightarrow>
          State_Monad.bind (decide_ai gateway run cfg) (\<lambda>(branch, activityID).
            ret (take_branch g n run now branch (Some (JObj [(''ai_activity_id'', JStr activityID)])))))"

definition extension_input :: "JourneyGraph.node \<Rightarrow> journey_run \<Rightarrow> extension_node_config \<Rightarrow> raw" where
  "extension_input n run cfg = Some (JObj [
     (''config'', case xc_Config cfg of None \<Rightarrow> JNull | Some j \<Rightarrow> j), (''node_id'', JStr (n_ID n)),
     (''node_type'', JStr (n_Type n)), (''profile_id'', JStr (jr_ProfileID run)), (''run_id'', JStr (jr_ID run)),
     (''tenant_id'', JStr (jr_TenantID run)), (''workspace_id'', JStr (jr_WorkspaceID run))])"

definition decide_extension ::
  "extension_host option \<Rightarrow> JourneyGraph.node \<Rightarrow> journey_run \<Rightarrow> extension_node_config \<Rightarrow> (string \<times> string) prog" where
  "decide_extension host n run cfg =
     (case host of
        Some invoke \<Rightarrow>
          if xc_ExtensionID cfg \<noteq> [] \<and> xc_TimeoutMS cfg > 0 then
            State_Monad.bind
              (external (\<lambda>k. invoke k ((system_principal run)\<lparr>p_ActorType := ''system''\<rparr>) (xc_ExtensionID cfg) ''decide''
                 ''journeys:write'' (extension_input n run cfg)))
              (\<lambda>(response, activityID, err). ret
                 (case (err, response) of
                    (None, Some j) \<Rightarrow> chosen_branch (xc_Branches cfg) (xc_Fallback cfg) (Some j)
                  | _ \<Rightarrow> xc_Fallback cfg, activityID))
          else ret (xc_Fallback cfg, [])
      | None \<Rightarrow> ret (xc_Fallback cfg, []))"

definition execExtension ::
  "extension_host option \<Rightarrow> JourneyGraph.node \<Rightarrow> journey_run \<Rightarrow> graph \<Rightarrow> time \<Rightarrow> execution_result call" where
  "execExtension host n run g now =
     (case decodeNodeConfig dec_extension n of
        Inl err \<Rightarrow> failed err
      | Inr cfg \<Rightarrow>
          State_Monad.bind (decide_extension host n run cfg) (\<lambda>(branch, activityID).
            ret (take_branch g n run now branch (Some (JObj [(''extension_activity_id'', JStr activityID)])))))"

subsection \<open>Splits\<close>

text \<open>The part shared by the split and the message node: read the experiment, compute and record the variant.\<close>

definition experimentVariant ::
  "string \<Rightarrow> principal \<Rightarrow> string \<Rightarrow> string \<Rightarrow> (experiment_rec \<times> experiment_variant list \<times> string) call" where
  "experimentVariant what p experimentID profileID =
     attempt (GetExperiment p experimentID) (wrapped (''get '' @ what @ '' experiment'')) (\<lambda>(e, vs).
       let computed = fst (Assign (ex_Seed e) profileID (experiment_variants vs) (ex_HoldoutPct e))
       in attempt (AssignExperiment p (ex_ID e) profileID computed)
            (wrapped (''record '' @ what @ '' experiment assignment''))
            (\<lambda>stored. ret (Inr (e, vs, xa_Variant stored))))"

fun weighted_branch :: "64 word \<Rightarrow> 64 word \<Rightarrow> split_branch list \<Rightarrow> string" where
  "weighted_branch bucket cumulative [] = []"
| "weighted_branch bucket cumulative (br # brs) =
     (let c = cumulative + of_int (sb_Weight br)
      in if bucket < c then sb_Label br else weighted_branch bucket c brs)"

definition or_last_label :: "split_branch list \<Rightarrow> string \<Rightarrow> string" where
  "or_last_label brs branch = (if branch = [] \<and> brs \<noteq> [] then sb_Label (last brs) else branch)"

fun audience_branch :: "principal \<Rightarrow> string \<Rightarrow> split_branch list \<Rightarrow> string \<Rightarrow> string call" where
  "audience_branch p profileID [] branch = ret (Inr branch)"
| "audience_branch p profileID (br # brs) branch =
     (if sb_SegmentID br = [] then audience_branch p profileID brs (sb_Label br)
      else attempt (IsProfileInSegment p (sb_SegmentID br) profileID) (wrapped ''check segment membership'')
        (\<lambda>matched. if matched then ret (Inr (sb_Label br)) else audience_branch p profileID brs branch))"

definition splitBranch :: "JourneyGraph.node \<Rightarrow> journey_run \<Rightarrow> split_config \<Rightarrow> string call" where
  "splitBranch n run cfg =
     (if sc_ExperimentID cfg \<noteq> [] then
        attempt (experimentVariant ''split'' (system_principal run) (sc_ExperimentID cfg) (jr_ProfileID run)) failed
          (\<lambda>(e, vs, v). ret (Inr v))
      else if sc_Mode cfg = ''random'' then
        ret (Inr (or_last_label (sc_Branches cfg)
          (weighted_branch (BucketOf (jr_ProfileID run @ '':'' @ n_ID n) 100) 0 (sc_Branches cfg))))
      else if sc_Mode cfg = ''audience'' then
        attempt (audience_branch (system_principal run) (jr_ProfileID run) (sc_Branches cfg) []) failed
          (\<lambda>branch. ret (Inr (or_last_label (sc_Branches cfg) branch)))
      else failed (ErrNew (''unsupported split mode '' @ go_quote (sc_Mode cfg))))"

text \<open>The state of the run with the branch recorded under the node.\<close>

definition record_branch :: "raw \<Rightarrow> string \<Rightarrow> string \<Rightarrow> raw result" where
  "record_branch st nodeID branch =
     (if st = None \<or> st = Some (JObj []) \<or> st = Some JNull then Inr (Some (JObj [(nodeID, JStr branch)]))
      else case st of
        Some (JObj kvs) \<Rightarrow> Inr (Some (JObj (obj_put nodeID (JStr branch) kvs)))
      | _ \<Rightarrow> Inl (ErrWrap ''unmarshal state'' ErrJSON))"

definition execSplit :: "JourneyGraph.node \<Rightarrow> journey_run \<Rightarrow> graph \<Rightarrow> time \<Rightarrow> execution_result call" where
  "execSplit n run g now =
     (case decodeNodeConfig dec_split n of
        Inl err \<Rightarrow> failed err
      | Inr cfg \<Rightarrow>
          attempt (splitBranch n run cfg) failed (\<lambda>branch.
            ret (case take_branch g n run now branch empty_obj of
                   Inl err \<Rightarrow> Inl err
                 | Inr res \<Rightarrow>
                     (case record_branch (jr_State run) (n_ID n) branch of
                        Inl err \<Rightarrow> Inl err
                      | Inr st \<Rightarrow> Inr (res\<lparr>xr_State := st\<rparr>)))))"

subsection \<open>Actions, goals, exits\<close>

definition action_event :: "JourneyGraph.node \<Rightarrow> journey_run \<Rightarrow> action_config \<Rightarrow> time \<Rightarrow> event" where
  "action_event n run cfg now =
     mk_event ''profile.updated'' (jr_ID run) [] (''journey-action:'' @ jr_ID run @ '':'' @ n_ID n) now
       (Some (JObj [(''attributes'', case ac_Set cfg of None \<Rightarrow> JNull | Some kvs \<Rightarrow> JObj kvs)]))"

definition execAction :: "JourneyGraph.node \<Rightarrow> journey_run \<Rightarrow> graph \<Rightarrow> time \<Rightarrow> execution_result call" where
  "execAction n run g now =
     (case decodeNodeConfig dec_action n of
        Inl err \<Rightarrow> failed err
      | Inr cfg \<Rightarrow>
          if ac_Action cfg \<noteq> ''profile_update'' then failed (ErrNew (''unsupported action type: '' @ ac_Action cfg))
          else
            attempt (UpdateProfileAttributes (system_principal run) (jr_ProfileID run) (ac_Set cfg))
              (wrapped ''update profile attributes'') (\<lambda>_.
            attempt (AcceptEvents (system_principal run) [action_event n run cfg now])
              (wrapped ''emit profile.updated event'') (\<lambda>_.
            ret (map_sum id (\<lambda>nxt. moved n run nxt now ''advanced'' empty_obj) (successor g n)))))"

definition execGoal :: "JourneyGraph.node \<Rightarrow> journey_run \<Rightarrow> graph \<Rightarrow> time \<Rightarrow> execution_result result" where
  "execGoal n run g now =
     map_sum id (\<lambda>nxt. (moved n run nxt now ''goal_reached'' empty_obj)\<lparr>xr_GoalReached := True\<rparr>) (successor g n)"

definition execExit :: "JourneyGraph.node \<Rightarrow> journey_run \<Rightarrow> time \<Rightarrow> execution_result" where
  "execExit n run now =
     \<lparr>xr_NextNodeID = [], xr_NextStep = None,
      xr_Transition = mk_transition (jr_ID run) (jr_TenantID run) (Some (n_ID n)) None NodeTypeExit ''exited'' empty_obj,
      xr_NextStatus = ''completed'', xr_CompletedAt = Some now, xr_GoalReached = jr_GoalReached run,
      xr_WaitEventType = None, xr_WaitUntil = None, xr_State = jr_State run, xr_MessageIntents = []\<rparr>"

subsection \<open>Messages\<close>

fun variant_template :: "experiment_variant list \<Rightarrow> string \<Rightarrow> string \<Rightarrow> string" where
  "variant_template [] variant templateID = templateID"
| "variant_template (c # cs) variant templateID =
     (case xv_TemplateID c of
        Some t \<Rightarrow> if xv_Label c = variant \<and> t \<noteq> [] then t else variant_template cs variant templateID
      | None \<Rightarrow> variant_template cs variant templateID)"

text \<open>Template, experiment and variant of a message: \<open>(templateID, experimentID, variant)\<close>.\<close>

definition messageVariant :: "journey_run \<Rightarrow> message_config \<Rightarrow> (string \<times> string option \<times> string) call" where
  "messageVariant run cfg =
     (if mc_ExperimentID cfg = [] then ret (Inr (mc_TemplateID cfg, None, []))
      else attempt (experimentVariant ''message'' (system_principal run) (mc_ExperimentID cfg) (jr_ProfileID run)) failed
        (\<lambda>(e, vs, variant). ret (Inr (variant_template vs variant (mc_TemplateID cfg), Some (ex_ID e), variant))))"

definition profile_attrs :: "profile \<Rightarrow> (string \<times> json) list result" where
  "profile_attrs f =
     (case pf_Attributes f of
        None \<Rightarrow> Inr []
      | Some JNull \<Rightarrow> Inr []
      | Some (JObj kvs) \<Rightarrow> Inr kvs
      | Some _ \<Rightarrow> Inl (ErrWrap ''unmarshal profile attributes'' ErrJSON))"

definition attr_endpoint :: "(string \<times> json) list \<Rightarrow> string \<Rightarrow> string list" where
  "attr_endpoint attrs k = (case obj_str attrs k of Some s \<Rightarrow> if s \<noteq> [] then [s] else [] | None \<Rightarrow> [])"

definition message_endpoints :: "journey_run \<Rightarrow> string \<Rightarrow> (string \<times> json) list \<Rightarrow> string list call" where
  "message_endpoints run channel attrs =
     (if channel = ''email'' then ret (Inr (attr_endpoint attrs ''email''))
      else if channel = ''sms'' then ret (Inr (attr_endpoint attrs ''phone''))
      else if channel = ''push'' then
        attempt (ListActiveDeviceTokens (jr_TenantID run) (jr_WorkspaceID run) (jr_ProfileID run))
          (wrapped ''list active device tokens for message node'') (\<lambda>tokens. ret (Inr (map dt_Token tokens)))
      else if channel = ''in_app'' then ret (Inr [jr_ProfileID run])
      else ret (Inr (attr_endpoint attrs channel)))"

definition mk_intent ::
  "JourneyGraph.node \<Rightarrow> journey_run \<Rightarrow> message_config \<Rightarrow> string \<Rightarrow> string option \<Rightarrow> string \<Rightarrow> string \<Rightarrow> time \<Rightarrow> string \<Rightarrow> message_intent" where
  "mk_intent n run cfg templateID experimentID variant channel now endpoint =
     (let holdout = (variant = ''holdout'') in
      \<lparr>mi_ID = [], mi_RunID = jr_ID run, mi_TenantID = jr_TenantID run, mi_WorkspaceID = jr_WorkspaceID run,
       mi_JourneyID = jr_JourneyID run, mi_JourneyVersionID = jr_JourneyVersionID run, mi_NodeID = n_ID n,
       mi_ProfileID = jr_ProfileID run, mi_ExperimentID = experimentID, mi_Variant = variant,
       mi_TemplateID = templateID, mi_Channel = channel, mi_Endpoint = endpoint,
       mi_Transactional = mc_Transactional cfg, mi_Status = (if holdout then ''completed'' else ''pending''),
       mi_Attempts = 0, mi_AvailableAt = now, mi_LockedUntil = None,
       mi_Decision = (if holdout then Some ''holdout'' else None),
       mi_Reason = (if holdout then Some ''experiment holdout'' else None), mi_ProviderMessageID = None,
       mi_PolicySnapshot = empty_obj, mi_ErrorMessage = None, mi_CostMicros = 0, mi_CreatedAt = zero_time,
       mi_UpdatedAt = zero_time\<rparr>)"

definition execMessage :: "JourneyGraph.node \<Rightarrow> journey_run \<Rightarrow> graph \<Rightarrow> time \<Rightarrow> execution_result call" where
  "execMessage n run g now =
     (case decodeNodeConfig dec_message n of
        Inl err \<Rightarrow> failed err
      | Inr cfg \<Rightarrow>
          attempt (messageVariant run cfg) failed (\<lambda>(templateID, experimentID, variant).
          attempt (GetProfileByIDSystem (jr_TenantID run) (jr_WorkspaceID run) (jr_ProfileID run))
            (wrapped ''get profile for message node'') (\<lambda>f.
          case profile_attrs f of
            Inl err \<Rightarrow> failed err
          | Inr attrs \<Rightarrow>
              (let channel = (if mc_Channel cfg = [] then ''email'' else mc_Channel cfg) in
               attempt (message_endpoints run channel attrs) failed (\<lambda>eps.
                 let endpoints = (if eps = [] then [[]] else eps) in
                 ret (map_sum id (\<lambda>nxt.
                        (moved n run nxt now (if variant = ''holdout'' then ''holdout'' else ''intent_created'') empty_obj)
                          \<lparr>xr_MessageIntents := map (mk_intent n run cfg templateID experimentID variant channel now) endpoints\<rparr>)
                      (successor g n)))))))"

subsection \<open>Waiting\<close>

definition execWait :: "JourneyGraph.node \<Rightarrow> journey_run \<Rightarrow> graph \<Rightarrow> time \<Rightarrow> string \<Rightarrow> execution_result result" where
  "execWait n run g now stepKind =
     (case decodeNodeConfig dec_wait n of
        Inl err \<Rightarrow> Inl err
      | Inr cfg \<Rightarrow>
          (case parse_duration (wc_Timeout cfg) of
             None \<Rightarrow> Inl (ErrWrap (''invalid timeout duration '' @ go_quote (wc_Timeout cfg)) ErrDuration)
           | Some duration \<Rightarrow>
               (let timeoutAt = now + duration in
                if stepKind = ''timeout'' then
                  (case findNextNode g (n_ID n) ''timeout'' of
                     Inl err \<Rightarrow> Inl (ErrWrap ''find successor branch timeout'' err)
                   | Inr nxt \<Rightarrow> Inr ((moved n run nxt now ''timeout'' empty_obj)\<lparr>xr_NextStatus := ''active''\<rparr>))
                else Inr
                  \<lparr>xr_NextNodeID = n_ID n,
                   xr_NextStep = Some (mk_step (jr_ID run) (jr_TenantID run) (n_ID n) ''timeout'' timeoutAt),
                   xr_Transition = mk_transition (jr_ID run) (jr_TenantID run) (Some (n_ID n)) None NodeTypeWaitEvent ''waiting'' empty_obj,
                   xr_NextStatus = ''waiting'', xr_CompletedAt = jr_CompletedAt run, xr_GoalReached = jr_GoalReached run,
                   xr_WaitEventType = Some (wc_EventType cfg), xr_WaitUntil = Some timeoutAt,
                   xr_State = jr_State run, xr_MessageIntents = []\<rparr>)))"

subsection \<open>Feature flags\<close>

definition execFeatureFlag :: "JourneyGraph.node \<Rightarrow> journey_run \<Rightarrow> graph \<Rightarrow> time \<Rightarrow> execution_result call" where
  "execFeatureFlag n run g now =
     (case decodeNodeConfig dec_feature_flag n of
        Inl err \<Rightarrow> failed err
      | Inr cfg \<Rightarrow>
          if fc_FlagKey cfg = [] then failed (ErrNew ''feature_flag node requires flag_key'')
          else
            attempt (GetFirstAppID (jr_TenantID run) (jr_WorkspaceID run)) (wrapped ''get app id'') (\<lambda>appID.
            attempt (ListActiveFlags (jr_TenantID run) appID ''production'') (wrapped ''list active flags'') (\<lambda>flagList.
            case find (\<lambda>f. ff_Key f = fc_FlagKey cfg) flagList of
              None \<Rightarrow> failed (ErrNew (''feature flag '' @ go_quote (fc_FlagKey cfg) @ '' not found or not published''))
            | Some flag \<Rightarrow>
                attempt (Flags.Evaluate (EvaluateAudience ((system_principal run)\<lparr>p_AppID := appID\<rparr>)) flag (jr_ProfileID run))
                  (wrapped ''evaluate flag'') (\<lambda>result.
                ret (take_branch g n run now (if er_Variant result = [] then ''default'' else er_Variant result) empty_obj)))))"

section \<open>The switch\<close>

definition execute ::
  "deps \<Rightarrow> JourneyGraph.node \<Rightarrow> journey_run \<Rightarrow> graph \<Rightarrow> time \<Rightarrow> string \<Rightarrow> execution_result call" where
  "execute d n run g now stepKind =
    (let ty = n_Type n in
     if ty = NodeTypeEntry then ret (execEntry n run g now)
     else if ty = NodeTypeDelay then ret (execDelay n run g now)
     else if ty = NodeTypeCondition then execCondition n run g now
     else if ty = NodeTypeAIDecision then execAIDecision (d_AIGateway d) n run g now
     else if ty = NodeTypeExtensionAction \<or> ty = NodeTypeExtensionCondition then execExtension (d_ExtensionHost d) n run g now
     else if ty = NodeTypeSplit then execSplit n run g now
     else if ty = NodeTypeAction then execAction n run g now
     else if ty = NodeTypeGoal then ret (execGoal n run g now)
     else if ty = NodeTypeExit then ret (Inr (execExit n run now))
     else if ty = NodeTypeMessage then execMessage n run g now
     else if ty = NodeTypeWaitEvent then ret (execWait n run g now stepKind)
     else if ty = ''feature_flag'' then execFeatureFlag n run g now
     else failed (ErrNew (''unsupported node type: '' @ ty)))"

end
