(* ===== verification/JourneyRuntime.thy ===== *)
theory JourneyRuntime
  imports JourneyNodes
begin

text \<open>
  The worker loop of the engine: \<^verbatim>\<open>TickNext\<close> and \<^verbatim>\<open>failStep\<close> of \<^verbatim>\<open>internal/journey/runtime.go\<close>. One
  call claims a due step, executes its node and advances the run in one transaction. Logging and
  metrics are left out.
\<close>

definition failStep :: "journey_step \<Rightarrow> string \<Rightarrow> unit prog" where
  "failStep step msg = State_Monad.bind (FailJourneyStep (js_ID step) msg) (\<lambda>_. ret ())"

text \<open>\<^verbatim>\<open>failStep(...); return true, nil\<close>\<close>

definition fail_with :: "journey_step \<Rightarrow> string \<Rightarrow> bool call" where
  "fail_with step msg = State_Monad.bind (failStep step msg) (\<lambda>_. ret (Inr True))"

fun first_edge :: "edge list \<Rightarrow> string \<Rightarrow> string" where
  "first_edge [] i = []"
| "first_edge (e # es) i = (if e_From e = i then e_To e else first_edge es i)"

text \<open>The late policy \<^verbatim>\<open>skip\<close>: follow the first edge of the node without executing it.\<close>

definition skip_late :: "journey_step \<Rightarrow> JourneyGraph.node \<Rightarrow> journey_run \<Rightarrow> graph \<Rightarrow> time \<Rightarrow> bool call" where
  "skip_late step n run g now =
    (let nextNodeID = first_edge (g_Edges g) (n_ID n);
         nextStep = (if nextNodeID \<noteq> [] then Some (mk_step (jr_ID run) (jr_TenantID run) nextNodeID ''advance'' now) else None);
         run' = (if nextNodeID \<noteq> [] then run\<lparr>jr_CurrentNodeID := nextNodeID, jr_Status := ''active''\<rparr>
                 else run\<lparr>jr_Status := ''completed'', jr_CompletedAt := Some now\<rparr>);
         trn = mk_transition (jr_ID run) (jr_TenantID run) (Some (n_ID n)) (Some nextNodeID) (n_Type n) ''skipped''
                 (Some (JObj [(''reason'', JStr ''late'')]))
     in attempt (AdvanceRunTx (jr_ID run) run' (js_ID step) nextStep trn [])
          (\<lambda>err. fail_with step (''skip advance run tx: '' @ error_text err))
          (\<lambda>_. ret (Inr True)))"

text \<open>The late policy \<^verbatim>\<open>reschedule\<close>: put the step back, by the node's own delay or by the threshold.\<close>

definition reschedule_delay :: "JourneyGraph.node \<Rightarrow> duration \<Rightarrow> duration" where
  "reschedule_delay n lateThreshold =
    (let delay = (if n_Type n = NodeTypeDelay then
                    (case decodeNodeConfig dec_delay n of
                       Inl _ \<Rightarrow> 0
                     | Inr cfg \<Rightarrow> (case parse_duration (dc_Duration cfg) of None \<Rightarrow> 0 | Some d \<Rightarrow> d))
                  else 0)
     in if delay = 0 then lateThreshold else delay)"

definition reschedule_late :: "journey_step \<Rightarrow> JourneyGraph.node \<Rightarrow> duration \<Rightarrow> time \<Rightarrow> bool call" where
  "reschedule_late step n lateThreshold now =
     attempt (RescheduleJourneyStep (js_ID step) (now + reschedule_delay n lateThreshold))
       (\<lambda>err. fail_with step (''reschedule: '' @ error_text err))
       (\<lambda>_. ret (Inr True))"

text \<open>The run with the result of its node written into it.\<close>

definition apply_result :: "journey_run \<Rightarrow> execution_result \<Rightarrow> journey_run" where
  "apply_result run res = run\<lparr>
     jr_Status := xr_NextStatus res,
     jr_CurrentNodeID := (if xr_NextNodeID res \<noteq> [] then xr_NextNodeID res else jr_CurrentNodeID run),
     jr_CompletedAt := xr_CompletedAt res, jr_GoalReached := xr_GoalReached res, jr_State := xr_State res,
     jr_WaitEventType := xr_WaitEventType res, jr_WaitUntil := xr_WaitUntil res\<rparr>"

definition execute_and_advance ::
  "deps \<Rightarrow> journey_step \<Rightarrow> JourneyGraph.node \<Rightarrow> journey_run \<Rightarrow> graph \<Rightarrow> time \<Rightarrow> bool call" where
  "execute_and_advance d step n run g now =
     attempt (execute d n run g now (js_Kind step))
       (\<lambda>err. fail_with step (''execute node: '' @ error_text err)) (\<lambda>res.
     attempt (AdvanceRunTx (jr_ID run) (apply_result run res) (js_ID step) (xr_NextStep res) (xr_Transition res) (xr_MessageIntents res))
       (\<lambda>err. fail_with step (''advance run tx: '' @ error_text err))
       (\<lambda>_. ret (Inr True)))"

definition late_threshold :: "deps \<Rightarrow> duration" where
  "late_threshold d = (if d_LateThreshold d = 0 then 24 * hour else d_LateThreshold d)"

definition is_late :: "deps \<Rightarrow> journey_step \<Rightarrow> time \<Rightarrow> bool" where
  "is_late d step now \<longleftrightarrow> js_AvailableAt step \<noteq> zero_time \<and> time_sub now (js_AvailableAt step) > late_threshold d"

definition process_step :: "deps \<Rightarrow> journey_step \<Rightarrow> bool call" where
  "process_step d step =
     attempt (GetJourneyRunSystem (js_TenantID step) (js_RunID step))
       (\<lambda>err. fail_with step (''failed to get run: '' @ error_text err)) (\<lambda>run.
     attempt (GetJourneyVersion (jr_TenantID run) (jr_JourneyVersionID run))
       (\<lambda>err. fail_with step (''failed to get version: '' @ error_text err)) (\<lambda>version.
     case ParseGraph (jv_Graph version) of
       Inl err \<Rightarrow> fail_with step (''failed to parse graph: '' @ error_text err)
     | Inr g \<Rightarrow>
        (case find (\<lambda>n. n_ID n = js_NodeID step) (g_Nodes g) of
           None \<Rightarrow> fail_with step (''node '' @ js_NodeID step @ '' not found in graph'')
         | Some n \<Rightarrow>
             State_Monad.bind get_now (\<lambda>now.
               if is_late d step now \<and> jv_LatePolicy version = ''skip'' then skip_late step n run g now
               else if is_late d step now \<and> jv_LatePolicy version = ''reschedule''
               then reschedule_late step n (late_threshold d) now
               else execute_and_advance d step n run g now))))"

definition TickNext :: "deps \<Rightarrow> bool call" where
  "TickNext d =
     attempt ClaimJourneyStep (wrapped ''claim journey step'') (\<lambda>claimed.
       case claimed of
         None \<Rightarrow> ret (Inr False)
       | Some step \<Rightarrow> process_step d step)"

end
