(* ===== verification/Publish.thy ===== *)
theory Publish
  imports JourneyStore AuditLog
begin

text \<open>
  Drafts and versions of journeys: \<^verbatim>\<open>internal/postgres/journeys.go\<close>, \<^verbatim>\<open>maker_checker.go\<close> and
  \<^verbatim>\<open>internal/journey/publish.go\<close>.

  Three things lie outside the repository and are the fields of the record \<open>publish_env\<close>: the bytes
  \<^verbatim>\<open>json.Marshal\<close> produces for a graph (they contain the original text of the raw configurations, which
  the JSON values of the model do not keep), PostgreSQL's reading of an interval, and its test whether
  a text is a UUID. The blob store is an argument of \<open>Publish\<close>, a function of the number of the call.
\<close>

section \<open>Drafts\<close>

definition journey_in :: "principal \<Rightarrow> string \<Rightarrow> journey \<Rightarrow> bool" where
  "journey_in p i j \<longleftrightarrow> jo_TenantID j = p_TenantID p \<and> jo_WorkspaceID j = p_WorkspaceID p \<and> jo_ID j = i"

text \<open>The check constraint on the status of a journey.\<close>

definition journey_status_ok :: "string \<Rightarrow> bool" where
  "journey_status_ok s \<longleftrightarrow> s \<in> set [''draft'', ''published'', ''archived'']"

definition CreateJourney :: "principal \<Rightarrow> journey \<Rightarrow> journey call" where
  "CreateJourney p j = transact (\<lambda>w.
     if jo_Name j = [] then Inl (ErrNew ''journey name is required'')
     else
       (let status = (if jo_Status j = [] then ''draft'' else jo_Status j);
            out = j\<lparr>jo_ID := new_id w, jo_TenantID := p_TenantID p, jo_WorkspaceID := p_WorkspaceID p,
                    jo_Status := status, jo_Graph := or_empty_obj (jo_Graph j), jo_LatestVersion := 0,
                    jo_CurrentVersionID := None, jo_CreatedAt := w_now w, jo_UpdatedAt := w_now w\<rparr>
        in if \<not> journey_status_ok status then Inl ErrDb
           else Inr (out, audit p ''journey.create'' ''journey'' (jo_ID out) [(''name'', JStr (jo_Name out))]
                            ((next_id w)\<lparr>w_journeys := w_journeys w @ [out]\<rparr>))))"

definition GetJourney :: "principal \<Rightarrow> string \<Rightarrow> journey call" where
  "GetJourney p i = query (\<lambda>w. or_not_found (find (journey_in p i) (w_journeys w)))"

definition updated_journey :: "journey \<Rightarrow> journey \<Rightarrow> time \<Rightarrow> journey \<Rightarrow> journey" where
  "updated_journey existing j now row = row\<lparr>
     jo_Name := (if jo_Name j = [] then jo_Name existing else jo_Name j),
     jo_Description := jo_Description j,
     jo_Status := (if jo_Status j = [] then jo_Status existing else jo_Status j),
     jo_Graph := (case jo_Graph j of None \<Rightarrow> jo_Graph existing | Some g \<Rightarrow> Some g),
     jo_UpdatedAt := now\<rparr>"

text \<open>The existing row is read through the pool, outside the transaction that writes.\<close>

definition UpdateJourney :: "principal \<Rightarrow> journey \<Rightarrow> journey call" where
  "UpdateJourney p j =
     attempt (GetJourney p (jo_ID j)) failed (\<lambda>existing.
       if jo_Status existing = ''published'' \<and> jo_Status j \<noteq> ''draft''
       then failed (ErrNew ''published journeys cannot be edited without reverting to draft'')
       else transact (\<lambda>w.
         let rows = upd_rows (journey_in p (jo_ID j)) (updated_journey existing j (w_now w)) (w_journeys w)
         in case find (journey_in p (jo_ID j)) rows of
              None \<Rightarrow> Inl ErrNotFound
            | Some out \<Rightarrow>
                if \<not> journey_status_ok (jo_Status out) then Inl ErrDb
                else Inr (out, audit p ''journey.update'' ''journey'' (jo_ID out)
                                 [(''status'', JStr (jo_Status out))] (w\<lparr>w_journeys := rows\<rparr>))))"

definition ListJourneys :: "principal \<Rightarrow> journey list call" where
  "ListJourneys p = query (\<lambda>w. Inr (sort_key (\<lambda>j. - jo_CreatedAt j)
     (filter (\<lambda>j. jo_TenantID j = p_TenantID p \<and> jo_WorkspaceID j = p_WorkspaceID p) (w_journeys w))))"

section \<open>Maker and checker\<close>

abbreviation ErrSelfApproval :: err where
  "ErrSelfApproval \<equiv> ErrNew ''self approval forbidden: creator cannot approve their own draft''"

definition GetMakerCheckerPolicy :: "principal \<Rightarrow> string \<Rightarrow> bool call" where
  "GetMakerCheckerPolicy p resourceType =
     (if resourceType = [] then failed (ErrNew ''resource type is required'')
      else query (\<lambda>w. Inr (case map_of (w_checkers w) (p_TenantID p, resourceType) of None \<Rightarrow> False | Some b \<Rightarrow> b)))"

fun EvaluateMakerChecker_loop :: "string \<Rightarrow> string list \<Rightarrow> unit result" where
  "EvaluateMakerChecker_loop approver [] = Inr ()"
| "EvaluateMakerChecker_loop approver (i # ids) =
     (if i \<noteq> [] \<and> i = approver then Inl ErrSelfApproval else EvaluateMakerChecker_loop approver ids)"

definition EvaluateMakerChecker :: "bool \<Rightarrow> string \<Rightarrow> string list \<Rightarrow> unit result" where
  "EvaluateMakerChecker requireChecker approverUserID actorIDs =
     (if \<not> requireChecker then Inr ()
      else if actorIDs = [] then Inl ErrSelfApproval
      else EvaluateMakerChecker_loop approverUserID actorIDs)"

definition audit_actors :: "world \<Rightarrow> string \<Rightarrow> string \<Rightarrow> string \<Rightarrow> string list" where
  "audit_actors w tenantID resourceType resourceID = remdups (filter (\<lambda>a. a \<noteq> []) (map au_ActorID
     (filter (\<lambda>a. au_TenantID a = tenantID \<and> au_ResourceType a = resourceType \<and> au_ResourceID a = resourceID) (w_audit w))))"

text \<open>A failed read of the audit trail contributes no actors.\<close>

definition CheckMakerChecker :: "principal \<Rightarrow> string \<Rightarrow> string \<Rightarrow> string \<Rightarrow> unit call" where
  "CheckMakerChecker p resourceType resourceID creatorOrEditorID =
     (if p_ActorType p \<noteq> ''user'' \<or> p_UserID p = [] then failed (ErrNew ''publishing requires an authenticated user'')
      else attempt (GetMakerCheckerPolicy p resourceType) failed (\<lambda>requireChecker.
        if \<not> requireChecker then ret (Inr ())
        else
          (let named = (if creatorOrEditorID \<noteq> [] then [creatorOrEditorID] else []);
               decide = (\<lambda>actors. ret (EvaluateMakerChecker requireChecker (p_UserID p) actors))
           in if resourceID = [] then decide named
              else attempt (query (\<lambda>w. Inr (audit_actors w (p_TenantID p) resourceType resourceID)))
                     (\<lambda>_. decide named)
                     (\<lambda>actors. decide (named @ filter (\<lambda>a. a \<notin> set named) actors)))))"

section \<open>What is frozen at publication\<close>

record publishEntry =
  pe_EntryKind :: string
  pe_EventType :: string
  pe_SegmentID :: string
  pe_Schedule :: string
  pe_ReentryPolicy :: string
  pe_MaxReentries :: int
  pe_LatePolicy :: string

definition entry_of_config :: "entry_config \<Rightarrow> publishEntry result" where
  "entry_of_config cfg =
    (let entry = \<lparr>pe_EntryKind = ec_Trigger cfg, pe_EventType = ec_EventType cfg, pe_SegmentID = ec_SegmentID cfg,
           pe_Schedule = ec_Schedule cfg,
           pe_ReentryPolicy = (if ec_ReentryPolicy cfg = [] then ''once'' else ec_ReentryPolicy cfg),
           pe_MaxReentries = ec_MaxReentries cfg,
           pe_LatePolicy = (if ec_LatePolicy cfg = [] then ''run'' else ec_LatePolicy cfg)\<rparr>
     in if pe_EntryKind entry = ''event'' then
          (if pe_EventType entry = [] then Inl (ErrNew ''event entry requires event_type'') else Inr entry)
        else if pe_EntryKind entry = ''scheduled'' then
          (if pe_SegmentID entry = [] \<and> pe_Schedule entry = []
           then Inl (ErrNew ''scheduled entry requires segment_id or schedule'') else Inr entry)
        else Inl (ErrNew ''entry trigger must be event or scheduled''))"

fun publishEntryConfig_loop :: "string \<Rightarrow> JourneyGraph.node list \<Rightarrow> publishEntry result" where
  "publishEntryConfig_loop entryID [] = Inl (ErrNew ''entry node not found'')"
| "publishEntryConfig_loop entryID (node # nodes) =
     (if n_ID node \<noteq> entryID \<or> n_Type node \<noteq> NodeTypeEntry then publishEntryConfig_loop entryID nodes
      else case DecodeConfig node of
        Inl err \<Rightarrow> Inl err
      | Inr (CfgEntry cfg) \<Rightarrow> entry_of_config cfg
      | Inr _ \<Rightarrow> Inl (ErrNew (''entry node '' @ n_ID node @ '' has invalid config'')))"

definition publishEntryConfig :: "graph \<Rightarrow> publishEntry result" where
  "publishEntryConfig graph = publishEntryConfig_loop (g_EntryNodeID graph) (g_Nodes graph)"

text \<open>\<^verbatim>\<open>json.Marshal\<close> of a \<^verbatim>\<open>GoalConfig\<close>: all fields but the name are omitted when empty.\<close>

definition goal_json :: "goal_config \<Rightarrow> raw" where
  "goal_json cfg = Some (JObj ([(''name'', JStr (gc_Name cfg))]
     @ (if gc_EventType cfg = [] then [] else [(''event_type'', JStr (gc_EventType cfg))])
     @ (case gc_Filter cfg of None \<Rightarrow> [] | Some j \<Rightarrow> [(''filter'', j)])
     @ (if gc_ValueField cfg = [] then [] else [(''value_field'', JStr (gc_ValueField cfg))])
     @ (if gc_Window cfg = [] then [] else [(''window'', JStr (gc_Window cfg))])))"

fun publishConversionGoal_loop :: "JourneyGraph.node list \<Rightarrow> (raw \<times> string) result" where
  "publishConversionGoal_loop [] = Inr (None, [])"
| "publishConversionGoal_loop (node # nodes) =
     (if n_Type node \<noteq> NodeTypeGoal then publishConversionGoal_loop nodes
      else case DecodeConfig node of
        Inl err \<Rightarrow> Inl err
      | Inr (CfgGoal cfg) \<Rightarrow>
          if gc_EventType cfg = [] \<or> gc_Window cfg = [] then publishConversionGoal_loop nodes
          else Inr (goal_json cfg, gc_Window cfg)
      | Inr _ \<Rightarrow> Inl (ErrNew (''goal node '' @ n_ID node @ '' has invalid config'')))"

definition publishConversionGoal :: "graph \<Rightarrow> (raw \<times> string) result" where
  "publishConversionGoal graph = publishConversionGoal_loop (g_Nodes graph)"

section \<open>Publication\<close>

record publish_env =
  pv_marshal :: "graph \<Rightarrow> string"
  pv_interval :: "string \<Rightarrow> string option"
  pv_uuid :: "string \<Rightarrow> bool"

definition nullif :: "string \<Rightarrow> string option" where
  "nullif s = (if s = [] then None else Some s)"

definition manifest_suffix :: "publish_env \<Rightarrow> graph \<Rightarrow> string" where
  "manifest_suffix env graph = ''/manifests/'' @ hex_digest (sha256 (pv_marshal env graph)) @ ''.json''"

definition new_version ::
  "world \<Rightarrow> journey \<Rightarrow> publishEntry \<Rightarrow> raw \<Rightarrow> string option \<Rightarrow> string \<Rightarrow> string \<Rightarrow> journey_version" where
  "new_version w draft entry goal win approver manifestKey =
     \<lparr>jv_ID = new_id w, jv_JourneyID = jo_ID draft, jv_TenantID = jo_TenantID draft, jv_WorkspaceID = jo_WorkspaceID draft,
      jv_Version = jo_LatestVersion draft + 1, jv_Graph = jo_Graph draft, jv_ManifestKey = Some manifestKey,
      jv_EntryKind = pe_EntryKind entry, jv_EntryEventType = nullif (pe_EventType entry),
      jv_EntrySegmentID = nullif (pe_SegmentID entry), jv_EntrySchedule = nullif (pe_Schedule entry),
      jv_ReentryPolicy = pe_ReentryPolicy entry, jv_MaxReentries = pe_MaxReentries entry, jv_LatePolicy = pe_LatePolicy entry,
      jv_ConversionGoal = goal, jv_AttributionWindow = win, jv_Status = ''active'', jv_PublishedBy = nullif approver,
      jv_PublishedAt = w_now w\<rparr>"

text \<open>The constraints of the table \<^verbatim>\<open>journey_versions\<close>: checks, references, integer range, unique number.\<close>

definition version_ok :: "publish_env \<Rightarrow> world \<Rightarrow> journey_version \<Rightarrow> bool" where
  "version_ok env w v \<longleftrightarrow>
     jv_EntryKind v \<in> set [''event'', ''scheduled''] \<and>
     jv_ReentryPolicy v \<in> set [''once'', ''always'', ''after_exit''] \<and>
     jv_LatePolicy v \<in> set [''run'', ''skip'', ''reschedule''] \<and>
     - (2 ^ 31) \<le> jv_MaxReentries v \<and> jv_MaxReentries v < 2 ^ 31 \<and>
     (case jv_EntrySegmentID v of None \<Rightarrow> True | Some s \<Rightarrow> s \<in> set (map sg_ID (w_segments w))) \<and>
     (case jv_PublishedBy v of None \<Rightarrow> True | Some u \<Rightarrow> pv_uuid env u) \<and>
     (jv_JourneyID v, jv_Version v) \<notin> set (map (\<lambda>u. (jv_JourneyID u, jv_Version u)) (w_versions w))"

definition publish_writes ::
  "publish_env \<Rightarrow> principal \<Rightarrow> journey \<Rightarrow> journey_version \<Rightarrow> world \<Rightarrow> (journey_version \<times> world) result" where
  "publish_writes env p draft v w =
     (if \<not> version_ok env w v then Inl ErrDb
      else Inr (v, audit p ''journey.publish'' ''journey'' (jo_ID draft)
        [(''version'', JInt (jv_Version v)), (''manifest_key'', JStr (coalesce (jv_ManifestKey v)))] ((next_id w)\<lparr>
        w_versions := w_versions w @ [v],
        w_journeys := upd_rows (journey_in p (jo_ID draft)) (\<lambda>j. j\<lparr>jo_Status := ''published'',
          jo_CurrentVersionID := Some (jv_ID v), jo_LatestVersion := jv_Version v, jo_UpdatedAt := w_now w\<rparr>) (w_journeys w)\<rparr>)))"

text \<open>The transaction: the draft row is locked, so what was validated is what is published.\<close>

definition publish_tx ::
  "publish_env \<Rightarrow> principal \<Rightarrow> string \<Rightarrow> string \<Rightarrow> string \<Rightarrow> world \<Rightarrow> (journey_version \<times> world) result" where
  "publish_tx env p journeyID approverUserID manifestKey w =
     (case find (journey_in p journeyID) (w_journeys w) of
        None \<Rightarrow> Inl ErrNotFound
      | Some draft \<Rightarrow>
          (case ParseGraph (jo_Graph draft) of
             Inl err \<Rightarrow> Inl err
           | Inr graph \<Rightarrow>
              (case Validate (Some graph) of
                 Inl err \<Rightarrow> Inl err
               | Inr _ \<Rightarrow>
                  if str_contains ''/manifests/'' manifestKey \<and> \<not> has_suffix (manifest_suffix env graph) manifestKey
                  then Inl (ErrNew ''journey draft changed during publication; retry publish'')
                  else case publishEntryConfig graph of
                    Inl err \<Rightarrow> Inl err
                  | Inr entry \<Rightarrow>
                     (case publishConversionGoal graph of
                        Inl err \<Rightarrow> Inl err
                      | Inr (goal, attributionWindow) \<Rightarrow>
                         (case (if attributionWindow = [] then Some None else map_option Some (pv_interval env attributionWindow)) of
                            None \<Rightarrow> Inl ErrDb
                          | Some win \<Rightarrow> publish_writes env p draft (new_version w draft entry goal win approverUserID manifestKey) w)))))"

definition PublishJourney :: "publish_env \<Rightarrow> principal \<Rightarrow> string \<Rightarrow> string \<Rightarrow> string \<Rightarrow> journey_version call" where
  "PublishJourney env p journeyID approverUserID manifestKey =
     (if approverUserID = [] then failed (ErrNew ''approver user id is required'')
      else if manifestKey = [] then failed (ErrNew ''manifest key is required'')
      else attempt (CheckMakerChecker p ''journeys'' journeyID []) failed (\<lambda>_.
        transact (publish_tx env p journeyID approverUserID manifestKey)))"

definition GetJourneyVersionNumber :: "principal \<Rightarrow> string \<Rightarrow> int \<Rightarrow> journey_version call" where
  "GetJourneyVersionNumber p journeyID version = query (\<lambda>w. or_not_found (find (\<lambda>v. jv_TenantID v = p_TenantID p \<and>
     jv_WorkspaceID v = p_WorkspaceID p \<and> jv_JourneyID v = journeyID \<and> jv_Version v = version) (w_versions w)))"

definition SetJourneyVersionStatus :: "principal \<Rightarrow> string \<Rightarrow> int \<Rightarrow> string \<Rightarrow> unit call" where
  "SetJourneyVersionStatus p journeyID version status = transact (\<lambda>w.
     let hit = (\<lambda>v. jv_TenantID v = p_TenantID p \<and> jv_WorkspaceID v = p_WorkspaceID p \<and>
                    jv_JourneyID v = journeyID \<and> jv_Version v = version)
     in if \<not> list_ex hit (w_versions w) then Inl ErrNotFound
        else if status \<notin> set [''active'', ''paused'', ''archived''] then Inl ErrDb
        else Inr ((), w\<lparr>w_versions := upd_rows hit (\<lambda>v. v\<lparr>jv_Status := status, jv_PublishedAt := w_now w\<rparr>) (w_versions w)\<rparr>))"

section \<open>The publish operation\<close>

abbreviation ErrInvalidGraph :: err where
  "ErrInvalidGraph \<equiv> ErrNew ''invalid journey graph''"

type_synonym blob_store = "nat \<Rightarrow> string \<Rightarrow> string \<Rightarrow> err option"

definition manifest_key :: "publish_env \<Rightarrow> principal \<Rightarrow> string \<Rightarrow> graph \<Rightarrow> string" where
  "manifest_key env p journeyID graph = ''journeys/'' @ p_TenantID p @ ''/'' @ journeyID @ manifest_suffix env graph"

text \<open>
  \<^verbatim>\<open>Publish\<close>; \<open>blobs\<close> is \<open>None\<close> when no blob store is given.
\<close>

definition Publish :: "publish_env \<Rightarrow> blob_store option \<Rightarrow> principal \<Rightarrow> string \<Rightarrow> string \<Rightarrow> journey_version call" where
  "Publish env blobs p journeyID approverUserID =
     (if approverUserID = [] then failed (ErrNew ''approver user id is required'')
      else case blobs of
        None \<Rightarrow> failed (ErrNew ''blob store is required'')
      | Some put \<Rightarrow>
          attempt (GetJourney p journeyID) failed (\<lambda>draft.
            case ParseGraph (jo_Graph draft) of
              Inl err \<Rightarrow> failed (ErrTagged ErrInvalidGraph (error_text err))
            | Inr graph \<Rightarrow>
               (case Validate (Some graph) of
                  Inl err \<Rightarrow> failed (ErrTagged ErrInvalidGraph (error_text err))
                | Inr _ \<Rightarrow>
                   State_Monad.bind
                     (State (\<lambda>w. (put (w_tick w) (manifest_key env p journeyID graph) (pv_marshal env graph), ticked w)))
                     (\<lambda>stored. case stored of
                        Some err \<Rightarrow> wrapped ''put journey manifest'' err
                      | None \<Rightarrow> PublishJourney env p journeyID approverUserID (manifest_key env p journeyID graph)))))"

end
