(* ===== verification/JourneyEnroll.thy ===== *)
theory JourneyEnroll
  imports Schedule Audience Publish
begin

text \<open>
  Enrollment that does not come from events: \<^verbatim>\<open>EnrollScheduledDue\<close> and \<^verbatim>\<open>Backfill\<close> of
  \<^verbatim>\<open>internal/journey/enroll.go\<close>. The slot of a schedule is named by its minute in the layout
  \<^verbatim>\<open>2006-01-02-15-04\<close>; the calendar is the one of Go's \<^verbatim>\<open>time\<close> package.
\<close>

section \<open>Slots\<close>

definition slot_string :: "time \<Rightarrow> string" where
  "slot_string t = (case civil t of (y, m, d) \<Rightarrow>
     pad_int 4 y @ ''-'' @ pad_int 2 m @ ''-'' @ pad_int 2 d @ ''-'' @ pad_int 2 (utc_hour t) @ ''-'' @ pad_int 2 (utc_minute t))"

definition truncate_minute :: "time \<Rightarrow> time" where
  "truncate_minute t = t div minute * minute"

section \<open>Enrolling one profile\<close>

definition enroll_run :: "journey_version \<Rightarrow> string \<Rightarrow> string \<Rightarrow> string \<Rightarrow> string \<Rightarrow> int \<Rightarrow> journey_run" where
  "enroll_run v profileID externalID entryKey entryNodeID reentrySeq =
     \<lparr>jr_ID = [], jr_TenantID = jv_TenantID v, jr_WorkspaceID = jv_WorkspaceID v, jr_JourneyID = jv_JourneyID v,
      jr_JourneyVersionID = jv_ID v, jr_ProfileID = profileID, jr_SubjectExternalID = Some externalID,
      jr_EntryKey = entryKey, jr_ReentrySequence = reentrySeq, jr_Status = ''active'', jr_CurrentNodeID = entryNodeID,
      jr_State = empty_obj, jr_WaitEventType = None, jr_WaitUntil = None, jr_GoalReached = False,
      jr_EnteredAt = zero_time, jr_UpdatedAt = zero_time, jr_CompletedAt = None\<rparr>"

text \<open>
  The body shared by the two loops: \<open>seq_of\<close> chooses the sequence number from the existing runs,
  \<open>what\<close> and \<open>verb\<close> are the words of the error messages. The result tells whether a run was created.
\<close>

definition enroll_profile ::
  "string \<Rightarrow> string \<Rightarrow> journey_version \<Rightarrow> string \<Rightarrow> string \<Rightarrow> time \<Rightarrow> (journey_run list \<Rightarrow> int option) \<Rightarrow> string \<Rightarrow> bool call" where
  "enroll_profile what verb v entryKey entryNodeID now seq_of profileID =
     attempt (GetProfileByIDSystem (jv_TenantID v) (jv_WorkspaceID v) profileID) (wrapped (''get '' @ what @ '' profile'')) (\<lambda>f.
     attempt (GetJourneyRunsForProfile (jv_TenantID v) (jv_ID v) profileID) (wrapped ''get journey runs'') (\<lambda>runs.
       case seq_of runs of
         None \<Rightarrow> ret (Inr False)
       | Some reentrySeq \<Rightarrow>
           attempt (EnrollJourneyRun (enroll_run v profileID (pf_ExternalID f) entryKey entryNodeID reentrySeq)
                      (mk_step [] (jv_TenantID v) entryNodeID ''advance'' now))
             (wrapped (verb @ '' journey run''))
             (\<lambda>(runID, inserted). ret (Inr inserted))))"

fun enroll_profiles :: "(string \<Rightarrow> bool call) \<Rightarrow> string list \<Rightarrow> int \<Rightarrow> int call" where
  "enroll_profiles enroll [] n = ret (Inr n)"
| "enroll_profiles enroll (profileID # rest) n =
     attempt (enroll profileID) failed (\<lambda>inserted. enroll_profiles enroll rest (if inserted then n + 1 else n))"

section \<open>Schedules\<close>

text \<open>With the policy \<^verbatim>\<open>always\<close> the sequence number is the slot itself, so that a repeated firing is recognised.\<close>

definition scheduled_sequence :: "journey_version \<Rightarrow> time \<Rightarrow> journey_run list \<Rightarrow> int option" where
  "scheduled_sequence v slotTime runs =
     (if jv_ReentryPolicy v = ''always'' then
        (if int (length runs) > jv_MaxReentries v then None else Some (slotTime div minute))
      else reentry_sequence (jv_ReentryPolicy v) (jv_MaxReentries v) runs)"

definition sched_key :: "journey_version \<Rightarrow> time \<Rightarrow> string" where
  "sched_key v slotTime = ''sched:'' @ jv_ID v @ '':'' @ slot_string slotTime"

definition enroll_version :: "time \<Rightarrow> journey_version \<Rightarrow> unit call" where
  "enroll_version now v =
     (if \<not> isScheduledDue (case jv_EntrySchedule v of None \<Rightarrow> [] | Some s \<Rightarrow> s) now then ret (Inr ())
      else case jv_EntrySegmentID v of
        None \<Rightarrow> ret (Inr ())
      | Some segmentID \<Rightarrow>
          attempt (ResolveSegment ((tenant_principal (jv_TenantID v) (jv_WorkspaceID v))\<lparr>p_Scopes := [''*'']\<rparr>) segmentID)
            (wrapped ''resolve segment'') (\<lambda>profileIDs.
          case ParseGraph (jv_Graph v) of
            Inl err \<Rightarrow> wrapped ''parse version graph'' err
          | Inr g \<Rightarrow>
              if g_EntryNodeID g = [] then ret (Inr ())
              else attempt (enroll_profiles
                     (enroll_profile ''scheduled'' ''enroll'' v (sched_key v (truncate_minute now)) (g_EntryNodeID g) now
                        (scheduled_sequence v (truncate_minute now))) profileIDs 0)
                     failed (\<lambda>_. ret (Inr ()))))"

fun enroll_versions :: "time \<Rightarrow> journey_version list \<Rightarrow> unit call" where
  "enroll_versions now [] = ret (Inr ())"
| "enroll_versions now (v # vs) = attempt (enroll_version now v) failed (\<lambda>_. enroll_versions now vs)"

definition EnrollScheduledDue :: "unit call" where
  "EnrollScheduledDue =
     attempt ListActiveScheduledJourneyVersions (wrapped ''list active scheduled versions'') (\<lambda>versions.
       State_Monad.bind get_now (\<lambda>now. enroll_versions now versions))"

section \<open>Backfill\<close>

definition backfill_key :: "string \<Rightarrow> time \<Rightarrow> string" where
  "backfill_key segmentID now = ''backfill:'' @ segmentID @ '':'' @ itoa now"

definition Backfill :: "principal \<Rightarrow> string \<Rightarrow> string \<Rightarrow> string \<Rightarrow> int call" where
  "Backfill p journeyID segmentID approverUserID =
     (if approverUserID = [] then failed (ErrNew ''approver user id is required'')
      else attempt (GetJourney p journeyID) failed (\<lambda>j.
        case jo_CurrentVersionID j of
          None \<Rightarrow> failed (ErrNew ''journey is not published'')
        | Some versionID \<Rightarrow>
            attempt (GetJourneyVersion (p_TenantID p) versionID) failed (\<lambda>v.
            attempt (ResolveSegment p segmentID) (wrapped ''resolve segment'') (\<lambda>profileIDs.
              case ParseGraph (jv_Graph v) of
                Inl err \<Rightarrow> wrapped ''parse version graph'' err
              | Inr g \<Rightarrow>
                  if g_EntryNodeID g = [] then failed (ErrNew ''entry node not found in graph'')
                  else State_Monad.bind get_now (\<lambda>now.
                    enroll_profiles
                      (enroll_profile ''backfill'' ''create'' v (backfill_key segmentID now) (g_EntryNodeID g) now
                         (reentry_sequence (jv_ReentryPolicy v) (jv_MaxReentries v))) profileIDs 0)))))"

end
