(* ===== verification/QuietHours.thy ===== *)
theory QuietHours
  imports Domain
begin

text \<open>
  \<^verbatim>\<open>internal/journey/quiethours.go\<close>. A time zone is what \<^verbatim>\<open>time.LoadLocation\<close> returns for a name;
  the zone database is not part of the repository, so it is the parameter \<open>load\<close> of the definitions:
  \<open>load name\<close> is \<open>None\<close> for an unknown name, and otherwise the function that gives, for an instant,
  the offset from UTC in force together with the bounds of the period it is in force for, as
  \<^verbatim>\<open>Location.lookup\<close> does. \<^verbatim>\<open>time.Date\<close> is modelled with the algorithm of the Go library on top of it.
\<close>

section \<open>Local time\<close>

text \<open>Offset in nanoseconds, start and end (exclusive) of the period.\<close>

type_synonym zone = "time \<Rightarrow> duration \<times> time \<times> time"

definition utc_zone :: zone where
  "utc_zone t = (0, min_duration, max_duration)"

definition offset_at :: "zone \<Rightarrow> time \<Rightarrow> duration" where
  "offset_at z t = fst (z t)"

definition local_of :: "zone \<Rightarrow> time \<Rightarrow> int" where
  "local_of z t = t + offset_at z t"

definition day_length :: duration where "day_length = 24 * hour"

text \<open>
  A calendar date is the number of days since the epoch; \<^verbatim>\<open>Year\<close>, \<^verbatim>\<open>Month\<close>, \<^verbatim>\<open>Day\<close> of a time and
  \<^verbatim>\<open>Date\<close> go through it.
\<close>

definition local_day :: "zone \<Rightarrow> time \<Rightarrow> int" where
  "local_day z t = local_of z t div day_length"

definition local_hour :: "zone \<Rightarrow> time \<Rightarrow> int" where
  "local_hour z t = (local_of z t mod day_length) div hour"

text \<open>
  \<^verbatim>\<open>time.Date(year, month, day, h, 0, 0, 0, loc)\<close>: the wall clock is read as if it were UTC; the offset
  in force at that reading is subtracted, and corrected once when the result falls outside the
  period of that offset.
\<close>

definition time_Date :: "zone \<Rightarrow> int \<Rightarrow> int \<Rightarrow> time" where
  "time_Date z d h =
    (let unix = d * day_length + h * hour;
         (offset, start, stop) = z unix
     in if offset \<noteq> 0 then
          (let utc = unix - offset
           in if utc < start \<or> utc \<ge> stop then unix - offset_at z utc else utc)
        else unix)"

text \<open>\<^verbatim>\<open>AddDate(0, 0, 1)\<close>: the same wall clock on the next day.\<close>

definition local_clock :: "zone \<Rightarrow> time \<Rightarrow> int" where
  "local_clock z t = local_of z t mod day_length"

definition time_Date_clock :: "zone \<Rightarrow> int \<Rightarrow> int \<Rightarrow> time" where
  "time_Date_clock z d clock =
    (let unix = d * day_length + clock;
         (offset, start, stop) = z unix
     in if offset \<noteq> 0 then
          (let utc = unix - offset
           in if utc < start \<or> utc \<ge> stop then unix - offset_at z utc else utc)
        else unix)"

definition next_day :: "zone \<Rightarrow> time \<Rightarrow> time" where
  "next_day z t = time_Date_clock z (local_day z t + 1) (local_clock z t)"

section \<open>The check\<close>

definition recipient_timezone :: "profile \<Rightarrow> string \<Rightarrow> string" where
  "recipient_timezone f defaultTimezone =
    (let tz = (if defaultTimezone = [] then ''UTC'' else defaultTimezone)
     in case pf_Attributes f of
          Some (JObj kvs) \<Rightarrow> (case obj_str kvs ''timezone'' of Some t \<Rightarrow> if t \<noteq> [] then t else tz | None \<Rightarrow> tz)
        | _ \<Rightarrow> tz)"

definition recipient_zone :: "(string \<Rightarrow> zone option) \<Rightarrow> profile \<Rightarrow> string \<Rightarrow> zone" where
  "recipient_zone load f defaultTimezone =
     (case load (recipient_timezone f defaultTimezone) of None \<Rightarrow> utc_zone | Some z \<Rightarrow> z)"

text \<open>The result: whether \<open>now\<close> is inside, and the time sending is open again.\<close>

definition IsInQuietHours ::
  "(string \<Rightarrow> zone option) \<Rightarrow> time \<Rightarrow> profile \<Rightarrow> int option \<Rightarrow> int option \<Rightarrow> string \<Rightarrow> (bool \<times> time) result" where
  "IsInQuietHours load now f quietHoursStart quietHoursEnd defaultTimezone =
    (case (quietHoursStart, quietHoursEnd) of
       (Some start, Some end_hour) \<Rightarrow>
         if start = end_hour then Inl (ErrNew ''quiet hours start and end must differ'')
         else
           (let loc = recipient_zone load f defaultTimezone;
                currentHour = local_hour loc now;
                today = local_day loc now
            in if start < end_hour then
                 (if currentHour \<ge> start \<and> currentHour < end_hour then Inr (True, time_Date loc today end_hour)
                  else Inr (False, now))
               else
                 (if currentHour \<ge> start \<or> currentHour < end_hour then
                    (if currentHour \<ge> start
                     then Inr (True, time_Date loc (local_day loc (next_day loc now)) end_hour)
                     else Inr (True, time_Date loc today end_hour))
                  else Inr (False, now)))
     | _ \<Rightarrow> Inr (False, now))"

section \<open>What quiet hours are\<close>

definition quiet_hour :: "int \<Rightarrow> int \<Rightarrow> int \<Rightarrow> bool" where
  "quiet_hour start end_hour h \<longleftrightarrow>
     (if start < end_hour then start \<le> h \<and> h < end_hour else start \<le> h \<or> h < end_hour)"

lemma IsInQuietHours_iff:
  assumes "start \<noteq> end_hour"
  shows "\<exists>t. IsInQuietHours load now f (Some start) (Some end_hour) tz =
    Inr (quiet_hour start end_hour (local_hour (recipient_zone load f tz) now), t)"
  using assms by (auto simp: IsInQuietHours_def quiet_hour_def Let_def)

lemma local_hour_range: "0 \<le> local_hour z t" "local_hour z t < 24"
proof -
  have "0 < day_length" by (simp add: day_length_def duration_defs)
  then have m: "0 \<le> local_of z t mod day_length" "local_of z t mod day_length < day_length" by simp_all
  show "0 \<le> local_hour z t" using m by (simp add: local_hour_def duration_defs pos_imp_zdiv_nonneg_iff)
  show "local_hour z t < 24"
    using m(2) by (simp add: local_hour_def day_length_def duration_defs)
qed

text \<open>
  In a zone with a fixed offset the answer is exact: the reopening lies within a day after \<open>now\<close>, at
  the full hour at which quiet hours end, and every hour mark in between is quiet.
\<close>

definition far_past :: time where "far_past = - (2 ^ 63) * second"
definition far_future :: time where "far_future = (2 ^ 63 - 1) * second"

definition fixed_zone :: "duration \<Rightarrow> zone" where
  "fixed_zone off t = (off, far_past, far_future)"

definition in_range :: "time \<Rightarrow> bool" where
  "in_range t \<longleftrightarrow> far_past + 3 * day_length \<le> t \<and> t < far_future - 3 * day_length"

definition clock_hour :: "int \<Rightarrow> int" where
  "clock_hour l = (l mod day_length) div hour"

lemma day_length_pos [simp]: "0 < day_length" "day_length \<noteq> 0" and hour_pos [simp]: "0 < hour" "hour \<noteq> 0"
  by (simp_all add: day_length_def duration_defs)

lemma day_hours: "day_length = 24 * hour"
  by (simp add: day_length_def)

text \<open>The hour of a local time inside a given day.\<close>

lemma clock_hour_in_day:
  assumes "d * day_length \<le> l" and "l < (d + 1) * day_length"
  shows "clock_hour l = (l - d * day_length) div hour" and "l div day_length = d"
proof -
  show d: "l div day_length = d"
    using assms by (intro int_div_pos_eq [where r = "l - d * day_length"]) (simp_all add: algebra_simps)
  then have "l mod day_length = l - d * day_length"
    by (metis minus_div_mult_eq_mod)
  then show "clock_hour l = (l - d * day_length) div hour" by (simp add: clock_hour_def)
qed

lemma div_bounds:
  fixes h :: int
  assumes h: "0 < h"
  shows "x div h * h \<le> x" and "x < (x div h + 1) * h"
    and "e * h \<le> x \<Longrightarrow> e \<le> x div h" and "x < e * h \<Longrightarrow> x div h < e"
proof -
  have eq: "x div h * h + x mod h = x" by (rule div_mult_mod_eq)
  have m: "0 \<le> x mod h" "x mod h < h" using h by simp_all
  show lo: "x div h * h \<le> x" using eq m by linarith
  have "(x div h + 1) * h = x div h * h + h" by (simp add: algebra_simps)
  then show hi: "x < (x div h + 1) * h" using eq m by linarith
  show "e \<le> x div h" if "e * h \<le> x"
  proof -
    have "e * h < (x div h + 1) * h" using that hi by linarith
    then show ?thesis using h by (simp add: mult_less_cancel_right)
  qed
  show "x div h < e" if "x < e * h"
  proof -
    have "x div h * h < e * h" using that lo by linarith
    then show ?thesis using h by (simp add: mult_less_cancel_right)
  qed
qed

lemmas hour_bounds = div_bounds [OF hour_pos(1)]

lemma hour_nonneg [simp]: "0 \<le> hour"
  by (rule less_imp_le) simp

text \<open>The local day and hour of \<open>l\<close>, and the two spans of quiet hours that can follow it.\<close>

lemmas day_split = div_bounds(1,2) [OF day_length_pos(1)]

lemma next_day_start: "(d + 1) * day_length = d * day_length + day_length" "(d + 2) * day_length = d * day_length + 2 * day_length"
  by (simp_all add: algebra_simps)

lemma hours_in_day: "e \<le> 23 \<Longrightarrow> e * hour < day_length"
proof -
  assume "e \<le> 23"
  then have "e * hour \<le> 23 * hour" by (intro mult_right_mono) auto
  also have "\<dots> < day_length" by (simp add: day_length_def duration_defs)
  finally show ?thesis .
qed

lemma clock_hour_range: "clock_hour l < 24"
proof -
  have "l mod day_length < 24 * hour" using pos_mod_bound [OF day_length_pos(1), of l] unfolding day_hours .
  then show ?thesis unfolding clock_hour_def by (rule hour_bounds)
qed

lemma same_day_span:
  assumes e: "0 \<le> e" "e \<le> 23" and h: "clock_hour l < e"
    and u: "l \<le> u" "u < (l div day_length) * day_length + e * hour"
  shows "clock_hour l \<le> clock_hour u" "clock_hour u < e" "u < l + day_length"
proof -
  let ?d = "l div day_length"
  have u2: "u < (?d + 1) * day_length" using u(2) hours_in_day [OF e(2)] unfolding next_day_start by linarith
  have d: "?d * day_length \<le> l" by (rule day_split)
  have cl: "clock_hour l = (l - ?d * day_length) div hour" by (rule clock_hour_in_day(1) [OF day_split])
  have cu: "clock_hour u = (u - ?d * day_length) div hour" using d u u2 by (intro clock_hour_in_day) auto
  show "clock_hour l \<le> clock_hour u" unfolding cl cu using u by (intro zdiv_mono1) auto
  show "clock_hour u < e" unfolding cu using u d by (intro hour_bounds) auto
  show "u < l + day_length" using u2 d unfolding next_day_start by linarith
qed

lemma overnight_span:
  assumes e: "0 \<le> e" "e < clock_hour l"
    and u: "l \<le> u" "u < (l div day_length + 1) * day_length + e * hour"
  shows "clock_hour l \<le> clock_hour u \<or> clock_hour u < e" "u < l + day_length"
proof -
  let ?d = "l div day_length"
  have d: "?d * day_length \<le> l" "l < (?d + 1) * day_length" by (rule day_split)+
  have cl: "clock_hour l = (l - ?d * day_length) div hour" by (rule clock_hour_in_day(1) [OF day_split])
  have hl: "clock_hour l * hour \<le> l - ?d * day_length" unfolding cl by (rule hour_bounds)
  have eh: "e * hour \<le> clock_hour l * hour" using e by (intro mult_right_mono) auto
  have "clock_hour l < 24" by (rule clock_hour_range)
  then have "e * hour < day_length" using e by (intro hours_in_day) auto
  then have u3: "u < (?d + 1 + 1) * day_length" using u(2) unfolding next_day_start by linarith
  show "u < l + day_length" using u(2) hl eh unfolding next_day_start by linarith
  show "clock_hour l \<le> clock_hour u \<or> clock_hour u < e"
  proof (cases "u < (?d + 1) * day_length")
    case True
    then have "clock_hour u = (u - ?d * day_length) div hour" using d u by (intro clock_hour_in_day) auto
    then show ?thesis unfolding cl using u by (auto intro!: zdiv_mono1)
  next
    case False
    then have "clock_hour u = (u - (?d + 1) * day_length) div hour" using u3 by (intro clock_hour_in_day(1)) linarith+
    then show ?thesis using False u(2) by (auto intro!: hour_bounds)
  qed
qed

lemma clock_hour_mark: "0 \<le> e \<Longrightarrow> e \<le> 23 \<Longrightarrow> clock_hour (d * day_length + e * hour) = e"
proof -
  assume e: "0 \<le> e" "e \<le> 23"
  have "clock_hour (d * day_length + e * hour) = (d * day_length + e * hour - d * day_length) div hour"
    using e hours_in_day [OF e(2)] by (intro clock_hour_in_day(1)) (simp_all add: next_day_start)
  then show ?thesis by simp
qed

lemma fixed_simps [simp]:
  "local_of (fixed_zone off) t = t + off" "local_hour (fixed_zone off) t = clock_hour (t + off)"
  "local_day (fixed_zone off) t = (t + off) div day_length"
  by (simp_all add: local_of_def offset_at_def fixed_zone_def local_hour_def clock_hour_def local_day_def)

lemma fixed_Date:
  assumes "far_past \<le> d * day_length + h * hour - off" and "d * day_length + h * hour - off < far_future"
  shows "time_Date (fixed_zone off) d h = d * day_length + h * hour - off"
  using assms by (simp add: time_Date_def fixed_zone_def offset_at_def Let_def)

lemma fixed_next_day:
  assumes "in_range t"
  shows "next_day (fixed_zone off) t = t + day_length"
proof -
  have "(t + off) div day_length * day_length + (t + off) mod day_length = t + off" by (rule div_mult_mod_eq)
  then have u: "((t + off) div day_length + 1) * day_length + (t + off) mod day_length = t + off + day_length"
    unfolding next_day_start by linarith
  have "far_past \<le> t + day_length \<and> t + day_length < far_future"
    using assms by (simp add: in_range_def) (simp add: day_length_def duration_defs)
  then show ?thesis
    by (simp add: next_day_def time_Date_clock_def local_clock_def fixed_zone_def offset_at_def Let_def local_of_def
        local_day_def) (use u in \<open>simp add: algebra_simps\<close>)
qed

text \<open>The end of the quiet span that contains \<open>now\<close> in a zone with a fixed offset.\<close>

definition open_again :: "int \<Rightarrow> int \<Rightarrow> duration \<Rightarrow> time \<Rightarrow> time \<Rightarrow> bool" where
  "open_again start end_hour off now t \<longleftrightarrow>
     now < t \<and> t \<le> now + day_length \<and> (t + off) mod hour = 0 \<and>
     (\<forall>u. now \<le> u \<and> u < t \<longrightarrow> quiet_hour start end_hour (clock_hour (u + off))) \<and>
     \<not> quiet_hour start end_hour (clock_hour (t + off))"

lemma hour_mark_mod: "(d * day_length + e * hour) mod hour = 0"
  by (simp add: day_length_def algebra_simps)

lemma today_open:
  assumes e: "0 \<le> e" "e \<le> 23" and h: "clock_hour (now + off) < e"
    and q: "\<And>h. clock_hour (now + off) \<le> h \<Longrightarrow> h < e \<Longrightarrow> quiet_hour start e h" "\<not> quiet_hour start e e"
  shows "open_again start e off now ((now + off) div day_length * day_length + e * hour - off)"
proof -
  let ?d = "(now + off) div day_length"
  let ?t = "?d * day_length + e * hour - off"
  have d: "?d * day_length \<le> now + off" by (rule day_split)
  have cl: "clock_hour (now + off) = (now + off - ?d * day_length) div hour" by (rule clock_hour_in_day(1) [OF day_split])
  have before: "now < ?t"
  proof (rule ccontr)
    assume "\<not> now < ?t"
    then have "e * hour \<le> now + off - ?d * day_length" by linarith
    then show False using h hour_bounds(3) unfolding cl by fastforce
  qed
  have "?t \<le> now + day_length" using d hours_in_day [OF e(2)] by linarith
  moreover have "(?t + off) mod hour = 0" using hour_mark_mod [of ?d e] by (simp only: diff_add_cancel)
  moreover have "clock_hour (?t + off) = e" using clock_hour_mark [OF e, of ?d] by (simp only: diff_add_cancel)
  moreover have "quiet_hour start e (clock_hour (u + off))" if "now \<le> u" "u < ?t" for u
    using same_day_span [OF e h, of "u + off"] that q(1) by auto
  ultimately show ?thesis using before q(2) unfolding open_again_def by auto
qed

lemma tomorrow_open:
  assumes e: "0 \<le> e" "e \<le> 23" and h: "e < clock_hour (now + off)"
    and q: "\<And>h. clock_hour (now + off) \<le> h \<or> h < e \<Longrightarrow> quiet_hour start e h" "\<not> quiet_hour start e e"
  shows "open_again start e off now (((now + off) div day_length + 1) * day_length + e * hour - off)"
proof -
  let ?d = "(now + off) div day_length"
  let ?t = "(?d + 1) * day_length + e * hour - off"
  have d: "?d * day_length \<le> now + off" "now + off < (?d + 1) * day_length" by (rule day_split)+
  have eh: "0 \<le> e * hour" using e by simp
  have cl: "clock_hour (now + off) = (now + off - ?d * day_length) div hour" by (rule clock_hour_in_day(1) [OF day_split])
  have "clock_hour (now + off) * hour \<le> now + off - ?d * day_length" unfolding cl by (rule hour_bounds)
  moreover have "e * hour \<le> clock_hour (now + off) * hour" using h by (intro mult_right_mono) auto
  ultimately have "?t \<le> now + day_length" unfolding next_day_start by linarith
  moreover have "now < ?t" using d(2) eh by linarith
  moreover have "(?t + off) mod hour = 0" using hour_mark_mod [of "?d + 1" e] by (simp only: diff_add_cancel)
  moreover have "clock_hour (?t + off) = e" using clock_hour_mark [OF e, of "?d + 1"] by (simp only: diff_add_cancel)
  moreover have "quiet_hour start e (clock_hour (u + off))" if "now \<le> u" "u < ?t" for u
    using overnight_span [OF e(1) h, of "u + off"] that q(1) by auto
  ultimately show ?thesis using q(2) unfolding open_again_def by auto
qed

lemma IsInQuietHours_reopens:
  assumes hours: "start \<noteq> e" "0 \<le> start" "start \<le> 23" "0 \<le> e" "e \<le> 23"
    and zone: "recipient_zone load f tz = fixed_zone off" and range: "in_range now" "\<bar>off\<bar> \<le> day_length"
    and quiet: "IsInQuietHours load now f (Some start) (Some e) tz = Inr (True, t)"
  shows "open_again start e off now t"
proof -
  let ?d = "(now + off) div day_length" and ?h = "clock_hour (now + off)"
  have d: "?d * day_length \<le> now + off" "now + off < ?d * day_length + day_length"
    using day_split [of "now + off"] unfolding next_day_start by auto
  have eh: "0 \<le> e * hour" "e * hour < day_length" using hours hours_in_day by auto
  have pos: "0 < day_length" by simp
  have today: "time_Date (fixed_zone off) ?d e = ?d * day_length + e * hour - off"
    using d eh range pos unfolding in_range_def by (intro fixed_Date) linarith+
  have tomorrow: "time_Date (fixed_zone off) (?d + 1) e = (?d + 1) * day_length + e * hour - off"
    using d eh range pos unfolding in_range_def by (intro fixed_Date) (simp_all only: next_day_start, linarith+)
  have next_eq: "local_day (fixed_zone off) (next_day (fixed_zone off) now) = ?d + 1"
    using fixed_next_day [OF range(1), of off] by (simp add: add.commute add.left_commute div_add_self1)
  show ?thesis
  proof (cases "start < e")
    case True
    then have "start \<le> ?h" "?h < e" "t = ?d * day_length + e * hour - off"
      using quiet zone hours today by (auto simp: IsInQuietHours_def Let_def split: if_splits)
    then show ?thesis using True hours by (auto intro!: today_open simp: quiet_hour_def)
  next
    case False
    show ?thesis
    proof (cases "start \<le> ?h")
      case True
      then have "t = (?d + 1) * day_length + e * hour - off"
        using False quiet zone hours tomorrow next_eq by (auto simp: IsInQuietHours_def Let_def split: if_splits)
      then show ?thesis using True False hours by (auto intro!: tomorrow_open simp: quiet_hour_def)
    next
      case early: False
      then have "?h < e" "t = ?d * day_length + e * hour - off"
        using False quiet zone hours today by (auto simp: IsInQuietHours_def Let_def split: if_splits)
      then show ?thesis using False early hours by (auto intro!: today_open simp: quiet_hour_def)
    qed
  qed
qed

end
