(* ===== verification/JourneyDeliver.thy ===== *)
theory JourneyDeliver
  imports Policy Events Catalog JourneyStore QuietHours
begin

text \<open>
  Delivery of message intents: \<^verbatim>\<open>DeliverNext\<close> of \<^verbatim>\<open>internal/journey/deliver.go\<close> with the adapter lookup of
  \<^verbatim>\<open>internal/channels/registry.go\<close> and the error predicates of \<^verbatim>\<open>ses.go\<close>.

  Channel adapters, the template renderer, the link rewriter and the token signer are fields of the
  configuration. The ones with effects are functions of the number of the call, and adapters and
  renderer may also panic, which the deferred handler of \<^verbatim>\<open>DeliverNext\<close> recovers from. Every message
  handed to an adapter is recorded in \<open>w_calls\<close>. Metrics and logging are left out.
\<close>

section \<open>Adapters\<close>

datatype 'a outcome = Returned 'a | Raised err | Panicked string

type_synonym adapter = "nat \<Rightarrow> rendered_message \<Rightarrow> (string \<times> int) outcome"

record registry =
  rg_adapters :: "(string \<times> adapter) list"
  rg_fallback :: adapter

definition registry_For :: "registry \<Rightarrow> string \<Rightarrow> adapter" where
  "registry_For r provider =
     (if provider \<noteq> [] then (case map_of (rg_adapters r) provider of Some a \<Rightarrow> a | None \<Rightarrow> rg_fallback r)
      else rg_fallback r)"

text \<open>\<^verbatim>\<open>errors.As\<close> finds the first delivery error along the chain of wrapped errors.\<close>

fun delivery_error :: "err \<Rightarrow> (bool \<times> bool) option" where
  "delivery_error (ErrDelivery retryable invalid m) = Some (retryable, invalid)"
| "delivery_error (ErrWrap m e) = delivery_error e"
| "delivery_error (ErrTagged e m) = delivery_error e"
| "delivery_error e = None"

definition IsRetryableError :: "err \<Rightarrow> bool" where
  "IsRetryableError e = (case delivery_error e of Some (r, i) \<Rightarrow> r | None \<Rightarrow> False)"

definition IsInvalidTokenError :: "err \<Rightarrow> bool" where
  "IsInvalidTokenError e = (case delivery_error e of Some (r, i) \<Rightarrow> i | None \<Rightarrow> False)"

record config_rec =
  cf_TrackingSecretKey :: string
  cf_TrackingBaseURL :: string
  cf_Registry :: "registry option"
  cf_Adapter :: "adapter option"
  cf_SESAdapter :: "adapter option"
  cf_WebhookAdapter :: "adapter option"
  cf_FakeAdapter :: "adapter option"
  cf_NewAdapter :: "string \<Rightarrow> adapter"
  cf_Render :: "nat \<Rightarrow> principal \<Rightarrow> string \<Rightarrow> (string \<times> json) list option \<Rightarrow> string outcome"
  cf_RewriteLinks :: "nat \<Rightarrow> string \<Rightarrow> string list \<Rightarrow> string result"
  cf_SignOpenToken :: "string list \<Rightarrow> string result"
  cf_LoadLocation :: "string \<Rightarrow> zone option"

definition or_new :: "config_rec \<Rightarrow> adapter option \<Rightarrow> string \<Rightarrow> adapter" where
  "or_new cfg a provider = (case a of Some ad \<Rightarrow> ad | None \<Rightarrow> cf_NewAdapter cfg provider)"

definition resolve_adapter :: "config_rec \<Rightarrow> string \<Rightarrow> adapter" where
  "resolve_adapter cfg provider =
     (case cf_Adapter cfg of
        Some a \<Rightarrow> a
      | None \<Rightarrow>
          (case cf_Registry cfg of
             Some r \<Rightarrow> registry_For r provider
           | None \<Rightarrow>
               if provider = ''ses'' then or_new cfg (cf_SESAdapter cfg) ''ses''
               else if provider = ''webhook'' then or_new cfg (cf_WebhookAdapter cfg) ''webhook''
               else or_new cfg (cf_FakeAdapter cfg) ''fake''))"

definition send_message :: "adapter \<Rightarrow> rendered_message \<Rightarrow> (string \<times> int) outcome prog" where
  "send_message a msg = State (\<lambda>w. (a (w_tick w) msg, (ticked w)\<lparr>w_calls := w_calls w @ [msg]\<rparr>))"

lemma run_send_message [simp]:
  "run_state (send_message a msg) w = (a (w_tick w) msg, (ticked w)\<lparr>w_calls := w_calls w @ [msg]\<rparr>)"
  by (simp add: send_message_def)

section \<open>Ways to finish\<close>

text \<open>The results \<^verbatim>\<open>(processed, err)\<close> of the function.\<close>

type_synonym delivered = "(bool \<times> err option) prog"

definition done_ok :: delivered where "done_ok = ret (True, None)"

text \<open>\<^verbatim>\<open>_ = store.UpdateJourneyMessageIntent(ctx, intent); return true, nil\<close>\<close>

definition save_and_return :: "message_intent \<Rightarrow> delivered" where
  "save_and_return intent = State_Monad.bind (UpdateJourneyMessageIntent intent) (\<lambda>_. done_ok)"

definition deliver_failed :: "message_intent \<Rightarrow> string \<Rightarrow> string \<Rightarrow> delivered" where
  "deliver_failed intent decision errMsg =
     save_and_return (intent\<lparr>mi_Status := ''failed'', mi_ErrorMessage := Some errMsg, mi_Decision := Some decision\<rparr>)"

definition deliver_completed :: "message_intent \<Rightarrow> string \<Rightarrow> string \<Rightarrow> delivered" where
  "deliver_completed intent decision reason =
     save_and_return (intent\<lparr>mi_Status := ''completed'', mi_Decision := Some decision, mi_Reason := Some reason\<rparr>)"

text \<open>The deferred handler.\<close>

definition recover_panic :: "message_intent \<Rightarrow> string \<Rightarrow> delivered" where
  "recover_panic intent recovered =
    (let panicErr = ''journey delivery panic: '' @ recovered;
         prefix = ''recover journey intent '' @ mi_ID intent @ '': '' @ panicErr
     in State_Monad.bind
          (UpdateJourneyMessageIntent (intent\<lparr>
             mi_Status := (if mi_Attempts intent \<ge> 3 then ''dead'' else ''failed''), mi_LockedUntil := None,
             mi_ErrorMessage := Some panicErr, mi_Decision := Some ''failed''\<rparr>))
          (\<lambda>r. case r of
             Inl updateErr \<Rightarrow> ret (True, Some (ErrNew (prefix @ '' (update intent: '' @ error_text updateErr @ '')'')))
           | Inr _ \<Rightarrow> ret (True, Some (ErrNew prefix))))"

section \<open>The sending identity\<close>

definition mk_identity :: "string \<Rightarrow> string \<Rightarrow> sending_identity" where
  "mk_identity channel provider =
     \<lparr>si_ID = [], si_TenantID = [], si_WorkspaceID = [], si_Channel = channel, si_FromAddress = None, si_FromName = None,
      si_ReplyTo = None, si_Provider = provider, si_Config = None, si_MaxSendRate = 10, si_Verified = False,
      si_CreatedAt = zero_time\<rparr>"

definition push_identity :: "sending_identity list \<Rightarrow> string \<Rightarrow> sending_identity" where
  "push_identity idents provider =
     (case find (\<lambda>i. si_Provider i = provider) idents of
        Some i \<Rightarrow> if si_ID i = [] then mk_identity ''push'' provider else i
      | None \<Rightarrow> mk_identity ''push'' provider)"

definition with_identity ::
  "principal \<Rightarrow> message_intent \<Rightarrow> template \<Rightarrow> (sending_identity \<Rightarrow> delivered) \<Rightarrow> delivered" where
  "with_identity p intent tpl k =
     (if te_Channel tpl = ''push'' then
        attempt (ListActiveDeviceTokens (mi_TenantID intent) (mi_WorkspaceID intent) (mi_ProfileID intent))
          (\<lambda>err. deliver_failed intent ''failed'' (''failed to list active device tokens: '' @ error_text err)) (\<lambda>activeTokens.
          case find (\<lambda>t. dt_Token t = mi_Endpoint intent) activeTokens of
            None \<Rightarrow> deliver_completed intent ''failed'' ''device token no longer active''
          | Some matchingToken \<Rightarrow>
              attempt (ListSendingIdentities p)
                (\<lambda>_. k (mk_identity ''push'' (dt_Provider matchingToken)))
                (\<lambda>idents. k (push_identity idents (dt_Provider matchingToken))))
      else if te_Channel tpl = ''in_app'' then k (mk_identity ''in_app'' ''inapp'')
      else if te_SendingIdentityID tpl \<noteq> None \<and> te_SendingIdentityID tpl \<noteq> Some [] then
        attempt (GetSendingIdentity p (the (te_SendingIdentityID tpl)))
          (\<lambda>err. deliver_failed intent ''render_failed'' (''failed to get sending identity: '' @ error_text err)) k
      else k (mk_identity (te_Channel tpl) ''fake''))"

section \<open>May it be sent now?\<close>

text \<open>Quiet hours hold back messages that are not transactional; an error of the check lets them pass.\<close>

definition reschedule_quiet :: "message_intent \<Rightarrow> time \<Rightarrow> delivered" where
  "reschedule_quiet intent nextOpen =
     save_and_return (intent\<lparr>mi_AvailableAt := nextOpen, mi_Status := ''pending'',
       mi_Attempts := (if mi_Attempts intent > 0 then mi_Attempts intent - 1 else mi_Attempts intent)\<rparr>)"

definition with_quiet_hours :: "config_rec \<Rightarrow> principal \<Rightarrow> message_intent \<Rightarrow> profile \<Rightarrow> delivered \<Rightarrow> delivered" where
  "with_quiet_hours cfg p intent prof k =
     (if mi_Transactional intent then k
      else attempt (GetTenantQuietHours p) (\<lambda>_. k) (\<lambda>(start, stop, tz).
        if start = None \<or> stop = None then k
        else State_Monad.bind get_now (\<lambda>now.
          case IsInQuietHours (cf_LoadLocation cfg) now prof start stop tz of
            Inl _ \<Rightarrow> k
          | Inr (inQuiet, nextOpen) \<Rightarrow> if inQuiet then reschedule_quiet intent nextOpen else k)))"

definition transactional_verdict :: "principal \<Rightarrow> string \<Rightarrow> string \<Rightarrow> verdict prog" where
  "transactional_verdict p channel endpoint =
     attempt (IsSuppressed p channel endpoint)
       (\<lambda>err. ret (verdict_of ''send_failed'' (''failed to check suppression: '' @ error_text err) []))
       (\<lambda>suppressed. ret (if suppressed then verdict_of ''suppressed'' ''endpoint is suppressed'' []
                          else verdict_of ''sent'' ''eligible'' []))"

definition delivery_caps :: "template \<Rightarrow> int \<times> int \<Rightarrow> caps" where
  "delivery_caps tpl quotas = \<lparr>cp_Channel = te_Channel tpl, cp_Topic = ''marketing'',
     cp_MaxSends24h = fst quotas, cp_MaxSends7d = snd quotas\<rparr>"

definition delivery_recipient :: "message_intent \<Rightarrow> profile \<Rightarrow> recipient" where
  "delivery_recipient intent prof = \<lparr>rc_ProfileID = mi_ProfileID intent, rc_ExternalID = pf_ExternalID prof,
     rc_Endpoint = mi_Endpoint intent\<rparr>"

definition delivery_verdict :: "principal \<Rightarrow> message_intent \<Rightarrow> template \<Rightarrow> profile \<Rightarrow> caps \<Rightarrow> verdict prog" where
  "delivery_verdict p intent tpl prof c =
     (if mi_Transactional intent then transactional_verdict p (te_Channel tpl) (mi_Endpoint intent)
      else Policy.Evaluate p (delivery_recipient intent prof) c)"

definition with_snapshot :: "message_intent \<Rightarrow> verdict \<Rightarrow> message_intent" where
  "with_snapshot intent v =
     (if vd_Snapshot v \<noteq> [] then intent\<lparr>mi_PolicySnapshot := Some (JObj (vd_Snapshot v))\<rparr> else intent)"

section \<open>Rendering\<close>

definition template_vars :: "profile \<Rightarrow> (string \<times> json) list option" where
  "template_vars prof = (case pf_Attributes prof of Some (JObj kvs) \<Rightarrow> Some kvs | _ \<Rightarrow> None)"

text \<open>One part of the message; an absent or empty template gives the default text.\<close>

definition render_part ::
  "config_rec \<Rightarrow> principal \<Rightarrow> message_intent \<Rightarrow> (string \<times> json) list option \<Rightarrow> string \<Rightarrow> string option \<Rightarrow> string \<Rightarrow>
   (string \<Rightarrow> delivered) \<Rightarrow> delivered" where
  "render_part cfg p intent vars label tpl dflt k =
     (if tpl = None \<or> tpl = Some [] then k dflt
      else State_Monad.bind (State (\<lambda>w. (cf_Render cfg (w_tick w) p (the tpl) vars, ticked w))) (\<lambda>r.
        case r of
          Returned txt \<Rightarrow> k txt
        | Raised err \<Rightarrow> deliver_completed intent ''render_failed'' (label @ '' render error: '' @ error_text err)
        | Panicked m \<Rightarrow> recover_panic intent m))"

fun replace_first :: "string \<Rightarrow> string \<Rightarrow> string \<Rightarrow> string" where
  "replace_first old new [] = []"
| "replace_first old new (c # s) =
     (if has_prefix old (c # s) then new @ drop (length old) (c # s) else c # replace_first old new s)"

definition trim_suffix :: "string \<Rightarrow> string \<Rightarrow> string" where
  "trim_suffix p s = (if has_suffix p s then take (length s - length p) s else s)"

definition tracking_img :: "config_rec \<Rightarrow> string \<Rightarrow> string" where
  "tracking_img cfg openToken =
     ''<img src='' @ [CHR 0x22] @ trim_suffix ''/'' (cf_TrackingBaseURL cfg) @ ''/o/'' @ openToken @ [CHR 0x22] @
     '' width='' @ [CHR 0x22] @ ''1'' @ [CHR 0x22] @ '' height='' @ [CHR 0x22] @ ''1'' @ [CHR 0x22] @
     '' alt='' @ [CHR 0x22, CHR 0x22] @ '' />''"

definition tracking_subject :: "principal \<Rightarrow> message_intent \<Rightarrow> template \<Rightarrow> string list" where
  "tracking_subject p intent tpl =
     [mi_TenantID intent, p_AppID p, mi_JourneyID intent, mi_ProfileID intent, te_ID tpl, mi_ID intent]"

text \<open>The links and the pixel of a message about \<open>subject\<close>.\<close>

definition add_tracking :: "config_rec \<Rightarrow> string list \<Rightarrow> string \<Rightarrow> string prog" where
  "add_tracking cfg subject htmlBody =
     (if htmlBody \<noteq> [] \<and> cf_TrackingSecretKey cfg \<noteq> [] then
        State_Monad.bind (State (\<lambda>w. (cf_RewriteLinks cfg (w_tick w) htmlBody subject, ticked w))) (\<lambda>r.
          let html = (case r of Inl _ \<Rightarrow> htmlBody | Inr rewritten \<Rightarrow> rewritten)
          in case cf_SignOpenToken cfg subject of
               Inl _ \<Rightarrow> ret html
             | Inr openToken \<Rightarrow>
                 (let img = tracking_img cfg openToken
                  in ret (if str_contains ''</body>'' html then replace_first ''</body>'' (img @ ''</body>'') html
                          else html @ img)))
      else ret htmlBody)"

definition sent_key :: "message_intent \<Rightarrow> string" where
  "sent_key intent = ''sent-'' @ mi_RunID intent @ ''-'' @ mi_NodeID intent"

definition rendered ::
  "message_intent \<Rightarrow> template \<Rightarrow> sending_identity \<Rightarrow> string \<Rightarrow> string \<Rightarrow> string \<Rightarrow> string \<Rightarrow> rendered_message" where
  "rendered intent tpl identity subject html txt body =
     \<lparr>rm_Channel = te_Channel tpl, rm_Endpoint = mi_Endpoint intent, rm_Subject = subject, rm_HTML = html, rm_Text = txt,
      rm_Body = body, rm_Title = [], rm_Data = [], rm_Identity = identity, rm_IdempotencyKey = sent_key intent\<rparr>"

definition with_message ::
  "config_rec \<Rightarrow> principal \<Rightarrow> message_intent \<Rightarrow> template \<Rightarrow> profile \<Rightarrow> sending_identity \<Rightarrow>
   (rendered_message \<Rightarrow> delivered) \<Rightarrow> delivered" where
  "with_message cfg p intent tpl prof identity k =
     (let part = render_part cfg p intent (template_vars prof)
      in part ''subject'' (te_SubjectTemplate tpl) ''Journey Message'' (\<lambda>subject.
         part ''html'' (te_HTMLTemplate tpl) [] (\<lambda>htmlBody.
         part ''text'' (te_TextTemplate tpl) [] (\<lambda>textBody.
         part ''body'' (te_BodyTemplate tpl) [] (\<lambda>bodyPayload.
           State_Monad.bind (add_tracking cfg (tracking_subject p intent tpl) htmlBody) (\<lambda>html.
             k (rendered intent tpl identity subject html textBody bodyPayload)))))))"

section \<open>Publication of the sent event\<close>

definition sent_payload :: "message_intent \<Rightarrow> raw" where
  "sent_payload intent = Some (JObj [
     (''channel'', JStr (mi_Channel intent)), (''endpoint'', JStr (mi_Endpoint intent)),
     (''experiment_id'', case mi_ExperimentID intent of None \<Rightarrow> JNull | Some e \<Rightarrow> JStr e),
     (''journey_id'', JStr (mi_JourneyID intent)), (''journey_version_id'', JStr (mi_JourneyVersionID intent)),
     (''node_id'', JStr (mi_NodeID intent)), (''run_id'', JStr (mi_RunID intent)), (''variant'', JStr (mi_Variant intent))])"

definition sent_event :: "message_intent \<Rightarrow> profile \<Rightarrow> time \<Rightarrow> event" where
  "sent_event intent prof now =
     mk_event ''message.sent'' (pf_ExternalID prof) (pf_AnonymousID prof) (sent_key intent) now (sent_payload intent)"

definition requeue_sent :: "message_intent \<Rightarrow> err \<Rightarrow> delivered" where
  "requeue_sent intent err =
    (let exhausted = (mi_Attempts intent \<ge> 3);
         intent' = intent\<lparr>
           mi_Status := (if exhausted then ''dead'' else ''pending''),
           mi_ErrorMessage := (if exhausted then Some (''message.sent emission failed after '' @ itoa (mi_Attempts intent)
                                 @ '' attempts: '' @ error_text err) else mi_ErrorMessage intent),
           mi_Decision := Some ''provider_sent''\<rparr>
     in attempt (UpdateJourneyMessageIntent intent')
          (\<lambda>updateErr. ret (True, Some (ErrWrap (''emit message.sent event: '' @ error_text err @
                                                ''; requeue provider_sent intent'') updateErr)))
          (\<lambda>_. ret (True, Some (ErrWrap ''emit message.sent event'' err))))"

definition emit_sent :: "principal \<Rightarrow> message_intent \<Rightarrow> profile \<Rightarrow> delivered" where
  "emit_sent p intent prof =
     State_Monad.bind get_now (\<lambda>now.
       attempt (AcceptEvents p [sent_event intent prof now]) (requeue_sent intent) (\<lambda>_.
       attempt (UpdateJourneyMessageIntent (intent\<lparr>mi_Status := ''completed'', mi_Decision := Some ''sent''\<rparr>))
         (\<lambda>err. ret (True, Some err)) (\<lambda>_. done_ok)))"

section \<open>Sending\<close>

text \<open>An adapter error: retire an invalid token, retry a transient failure, give up on the rest.\<close>

definition send_error :: "message_intent \<Rightarrow> err \<Rightarrow> delivered" where
  "send_error intent err =
     (if IsInvalidTokenError err then
        State_Monad.bind (GetFirstAppID (mi_TenantID intent) (mi_WorkspaceID intent)) (\<lambda>app.
        State_Monad.bind (RetireDeviceToken (mi_TenantID intent) (case app of Inl _ \<Rightarrow> ''app-1'' | Inr a \<Rightarrow> a) (mi_Endpoint intent)) (\<lambda>_.
          let reason = ''invalid token retired: '' @ error_text err
          in deliver_completed (intent\<lparr>mi_ErrorMessage := Some reason\<rparr>) ''failed'' reason))
      else if IsRetryableError err then
        (let exhausted = (mi_Attempts intent \<ge> 3); reason = ''transient send error: '' @ error_text err
         in State_Monad.bind
              (UpdateJourneyMessageIntent (intent\<lparr>
                 mi_Status := (if exhausted then ''dead'' else ''failed''),
                 mi_Decision := Some (if exhausted then ''send_failed'' else ''retryable_failed''),
                 mi_Reason := Some reason, mi_ErrorMessage := Some reason\<rparr>))
              (\<lambda>_. ret (True, Some (ErrNew (''transient delivery failure: '' @ error_text err)))))
      else
        (let reason = ''adapter send error: '' @ error_text err
         in deliver_completed (intent\<lparr>mi_ErrorMessage := Some reason\<rparr>) ''send_failed'' reason))"

definition provider_sent :: "message_intent \<Rightarrow> string \<Rightarrow> int \<Rightarrow> message_intent" where
  "provider_sent intent providerMsgID costMicros = intent\<lparr>mi_ProviderMessageID := Some providerMsgID,
     mi_CostMicros := costMicros, mi_Decision := Some ''provider_sent'', mi_Reason := Some ''eligible''\<rparr>"

definition send_and_emit ::
  "adapter \<Rightarrow> principal \<Rightarrow> message_intent \<Rightarrow> profile \<Rightarrow> rendered_message \<Rightarrow> delivered" where
  "send_and_emit a p intent prof msg =
     State_Monad.bind (send_message a msg) (\<lambda>r.
       case r of
         Panicked m \<Rightarrow> recover_panic intent m
       | Raised err \<Rightarrow> send_error intent err
       | Returned (providerMsgID, costMicros) \<Rightarrow>
           (let sent = provider_sent intent providerMsgID costMicros
            in attempt (UpdateJourneyMessageIntent sent)
                 (\<lambda>err. ret (True, Some (ErrWrap ''persist provider_sent decision'' err)))
                 (\<lambda>_. emit_sent p sent prof)))"

section \<open>One delivery\<close>

definition terminal_decision :: "string \<Rightarrow> bool" where
  "terminal_decision d \<longleftrightarrow> d \<in> set [''sent'', ''suppressed'', ''no_consent'', ''fatigued'', ''render_failed'', ''send_failed'', ''failed'']"

text \<open>A fresh message: quiet hours, policy, rendering, sending.\<close>

definition deliver_fresh ::
  "config_rec \<Rightarrow> principal \<Rightarrow> message_intent \<Rightarrow> template \<Rightarrow> sending_identity \<Rightarrow> caps \<Rightarrow> profile \<Rightarrow> delivered" where
  "deliver_fresh cfg p intent tpl identity c prof =
     with_quiet_hours cfg p intent prof (
       State_Monad.bind (delivery_verdict p intent tpl prof c) (\<lambda>v.
         let intent' = with_snapshot intent v
         in if vd_Decision v \<noteq> ''sent'' then deliver_completed intent' (vd_Decision v) (vd_Reason v)
            else with_message cfg p intent' tpl prof identity
                   (send_and_emit (resolve_adapter cfg (si_Provider identity)) p intent' prof)))"

text \<open>
  The reconciliation branch reads the provider's identifier for its log line, which panics when
  there is none.
\<close>

definition deliver_decided ::
  "config_rec \<Rightarrow> principal \<Rightarrow> message_intent \<Rightarrow> template \<Rightarrow> sending_identity \<Rightarrow> caps \<Rightarrow> delivered" where
  "deliver_decided cfg p intent tpl identity c =
     (if (case mi_Decision intent of None \<Rightarrow> False | Some d \<Rightarrow> terminal_decision d) then save_and_return (intent\<lparr>mi_Status := ''completed''\<rparr>)
      else if mi_Decision intent = Some ''provider_sent'' \<and> mi_ProviderMessageID intent = None
      then recover_panic intent ''runtime error: invalid memory address or nil pointer dereference''
      else attempt (GetProfileByIDSystem (mi_TenantID intent) (mi_WorkspaceID intent) (mi_ProfileID intent))
        (\<lambda>err. deliver_failed intent ''failed'' (''failed to load profile: '' @ error_text err)) (\<lambda>prof.
        if mi_Decision intent = Some ''provider_sent'' then emit_sent p intent prof
        else deliver_fresh cfg p intent tpl identity c prof))"

definition deliver_claimed :: "config_rec \<Rightarrow> message_intent \<Rightarrow> delivered" where
  "deliver_claimed cfg intent =
    (let tenant = mi_TenantID intent; workspace = mi_WorkspaceID intent
     in attempt (GetFirstAppID tenant workspace)
          (\<lambda>err. deliver_failed intent ''failed'' (''failed to resolve app: '' @ error_text err)) (\<lambda>appID.
        let p = (tenant_principal tenant workspace)\<lparr>p_AppID := appID, p_Scopes := [''*'']\<rparr>
        in attempt (GetTemplate p (mi_TemplateID intent))
          (\<lambda>err. deliver_failed intent ''render_failed'' (''failed to get template: '' @ error_text err)) (\<lambda>tpl.
        with_identity p intent tpl (\<lambda>identity.
          attempt (GetTenantFatigueQuotas p)
            (\<lambda>_. deliver_decided cfg p intent tpl identity (delivery_caps tpl (5, 20)))
            (\<lambda>quotas. deliver_decided cfg p intent tpl identity (delivery_caps tpl quotas))))))"

definition DeliverNext :: "config_rec \<Rightarrow> string \<Rightarrow> delivered" where
  "DeliverNext cfg workerID =
     attempt (ClaimJourneyMessageIntent workerID)
       (\<lambda>err. ret (False, Some (ErrWrap ''claim journey message intent'' err)))
       (\<lambda>claimed. case claimed of None \<Rightarrow> ret (False, None) | Some intent \<Rightarrow> deliver_claimed cfg intent)"

end
