(* ===== verification/StoreFacts.thy ===== *)
theory StoreFacts
  imports JourneyStore Events Catalog Publish JourneyDeliver
begin

text \<open>
  What every operation of the store respects, whatever its arguments: the uniqueness of enrollments,
  of message intents, of live steps and of event keys, and the history of the engine. Runs and
  versions are never removed, a run keeps its identity and its pinned version, a finished run never
  changes again, a version keeps everything but its status, transitions and events are only appended.
  Both are packed into one preorder, \<open>evolves\<close>, which is an instance of the locale of the store
  interface; every operation is shown to respect it.
\<close>

section \<open>Tables that grow\<close>

text \<open>The old rows are kept in order, each related to its successor by \<open>P\<close>; new rows come after them.\<close>

definition grown :: "('a \<Rightarrow> 'a \<Rightarrow> bool) \<Rightarrow> 'a list \<Rightarrow> 'a list \<Rightarrow> bool" where
  "grown P xs ys \<longleftrightarrow> (\<exists>ms ns. ys = ms @ ns \<and> list_all2 P xs ms)"

lemma grown_refl: "(\<And>x. P x x) \<Longrightarrow> grown P xs xs"
  unfolding grown_def by (intro exI [of _ xs] exI [of _ "[]"]) (simp add: list_all2_refl)

lemma grown_trans:
  assumes P: "\<And>x y z. P x y \<Longrightarrow> P y z \<Longrightarrow> P x z" and "grown P xs ys" "grown P ys zs"
  shows "grown P xs zs"
proof -
  from assms(2) obtain ms ns where ys: "ys = ms @ ns" "list_all2 P xs ms" by (auto simp: grown_def)
  from assms(3) obtain ks ls where zs: "zs = ks @ ls" "list_all2 P (ms @ ns) ks" by (auto simp: grown_def ys)
  then obtain k1 k2 where k: "ks = k1 @ k2" "list_all2 P ms k1" by (auto simp: list_all2_append1)
  have "list_all2 P xs k1" using P ys(2) k(2) by (rule list_all2_trans)
  then show ?thesis unfolding grown_def zs k by (intro exI [of _ k1] exI [of _ "k2 @ ls"]) simp
qed

lemma grown_append: "grown P xs ys \<Longrightarrow> grown P xs (ys @ zs)"
  unfolding grown_def by (metis append.assoc)

lemma grown_upd_rows:
  "(\<And>x. P x x) \<Longrightarrow> (\<And>x. Q x \<Longrightarrow> P x (f x)) \<Longrightarrow> grown P xs (upd_rows Q f xs)"
  unfolding grown_def
  by (intro exI [of _ "upd_rows Q f xs"] exI [of _ "[]"]) (auto simp: upd_rows_def list_all2_conv_all_nth)

lemma grown_mem: "grown P xs ys \<Longrightarrow> x \<in> set xs \<Longrightarrow> \<exists>y \<in> set ys. P x y"
  by (auto simp: grown_def list_all2_conv_all_nth in_set_conv_nth) (metis UnI1 nth_mem)

section \<open>Invariant and history\<close>

definition journey_inv :: "world \<Rightarrow> bool" where
  "journey_inv w \<longleftrightarrow>
     distinct (map enroll_key (w_runs w)) \<and> distinct (map intent_key (w_intents w)) \<and>
     one_live (w_steps w) \<and> events_unique w"

text \<open>The statuses no operation leaves.\<close>

definition final_run :: "journey_run \<Rightarrow> bool" where
  "final_run r \<longleftrightarrow> jr_Status r = ''completed'' \<or> jr_Status r = ''canceled''"

definition run_identity :: "journey_run \<Rightarrow> journey_run" where
  "run_identity r = r\<lparr>jr_Status := [], jr_CurrentNodeID := [], jr_State := None, jr_WaitEventType := None,
     jr_WaitUntil := None, jr_GoalReached := False, jr_UpdatedAt := 0, jr_CompletedAt := None\<rparr>"

definition run_kept :: "journey_run \<Rightarrow> journey_run \<Rightarrow> bool" where
  "run_kept r r' \<longleftrightarrow> run_identity r' = run_identity r \<and> (final_run r \<longrightarrow> r' = r)"

definition version_content :: "journey_version \<Rightarrow> journey_version" where
  "version_content v = v\<lparr>jv_Status := [], jv_PublishedAt := 0\<rparr>"

definition version_kept :: "journey_version \<Rightarrow> journey_version \<Rightarrow> bool" where
  "version_kept v v' \<longleftrightarrow> version_content v' = version_content v"

definition intent_content :: "message_intent \<Rightarrow> message_intent" where
  "intent_content i = i\<lparr>mi_Status := [], mi_Attempts := 0, mi_AvailableAt := 0, mi_LockedUntil := None, mi_Decision := None,
     mi_Reason := None, mi_ProviderMessageID := None, mi_PolicySnapshot := None, mi_ErrorMessage := None, mi_UpdatedAt := 0\<rparr>"

definition intent_kept :: "message_intent \<Rightarrow> message_intent \<Rightarrow> bool" where
  "intent_kept i i' \<longleftrightarrow> intent_content i' = intent_content i"

lemma run_kept_refl [simp]: "run_kept r r" by (simp add: run_kept_def)
lemma run_kept_trans: "run_kept r s \<Longrightarrow> run_kept s t \<Longrightarrow> run_kept r t" by (auto simp: run_kept_def)
lemma version_kept_refl [simp]: "version_kept v v" by (simp add: version_kept_def)
lemma version_kept_trans: "version_kept u v \<Longrightarrow> version_kept v x \<Longrightarrow> version_kept u x" by (simp add: version_kept_def)
lemma intent_kept_refl [simp]: "intent_kept i i" by (simp add: intent_kept_def)
lemma intent_kept_trans: "intent_kept i j \<Longrightarrow> intent_kept j k \<Longrightarrow> intent_kept i k" by (simp add: intent_kept_def)

definition appended :: "'a list \<Rightarrow> 'a list \<Rightarrow> bool" where
  "appended xs ys \<longleftrightarrow> (\<exists>zs. ys = xs @ zs)"

lemma appended_refl [simp]: "appended xs xs" by (simp add: appended_def)
lemma appended_append [simp]: "appended xs (xs @ ys)" by (simp add: appended_def)
lemma appended_trans: "appended xs ys \<Longrightarrow> appended ys zs \<Longrightarrow> appended xs zs" by (auto simp: appended_def)

definition history :: "world \<Rightarrow> world \<Rightarrow> bool" where
  "history w w' \<longleftrightarrow>
     grown run_kept (w_runs w) (w_runs w') \<and> grown version_kept (w_versions w) (w_versions w') \<and>
     grown intent_kept (w_intents w) (w_intents w') \<and> appended (w_transitions w) (w_transitions w') \<and>
     appended (w_events w) (w_events w') \<and> appended (w_calls w) (w_calls w')"

definition evolves :: "world \<Rightarrow> world \<Rightarrow> bool" where
  "evolves w w' \<longleftrightarrow> history w w' \<and> (journey_inv w \<longrightarrow> journey_inv w')"

lemma kept_refl [simp]:
  "grown run_kept rs rs" "grown version_kept vs vs" "grown intent_kept is is"
  by (simp_all add: grown_refl)

lemma history_trans: "history u v \<Longrightarrow> history v w \<Longrightarrow> history u w"
  unfolding history_def
  by (auto intro: grown_trans run_kept_trans version_kept_trans intent_kept_trans appended_trans
      elim!: grown_trans [where P = run_kept, rotated] grown_trans [where P = version_kept, rotated]
        grown_trans [where P = intent_kept, rotated])

lemma evolves_refl [simp]: "evolves w w"
  by (simp add: evolves_def history_def)

lemma evolves_trans: "evolves u v \<Longrightarrow> evolves v w \<Longrightarrow> evolves u w"
  by (auto simp: evolves_def intro: history_trans)

text \<open>The shape in which the operations are checked; what a write does not touch is closed by simplification.\<close>

lemma evolvesI:
  assumes "grown run_kept (w_runs w) (w_runs w')" "grown version_kept (w_versions w) (w_versions w')"
    "grown intent_kept (w_intents w) (w_intents w')" "appended (w_transitions w) (w_transitions w')"
    "appended (w_events w) (w_events w')" "appended (w_calls w) (w_calls w')"
    "distinct (map enroll_key (w_runs w)) \<Longrightarrow> distinct (map enroll_key (w_runs w'))"
    "distinct (map intent_key (w_intents w)) \<Longrightarrow> distinct (map intent_key (w_intents w'))"
    "one_live (w_steps w) \<Longrightarrow> one_live (w_steps w')"
    "events_unique w \<Longrightarrow> events_unique w'"
  shows "evolves w w'"
  using assms by (auto simp: evolves_def history_def journey_inv_def)

text \<open>Writes to the other tables.\<close>

definition untouched :: "world \<Rightarrow> world \<Rightarrow> bool" where
  "untouched w w' \<longleftrightarrow> w_runs w' = w_runs w \<and> w_versions w' = w_versions w \<and> w_intents w' = w_intents w \<and>
     w_transitions w' = w_transitions w \<and> w_events w' = w_events w \<and> w_calls w' = w_calls w \<and> w_steps w' = w_steps w"

lemma evolves_untouched: "untouched w w' \<Longrightarrow> evolves w w'"
  by (rule evolvesI) (simp_all add: untouched_def events_unique_def)

interpretation ev: store_evolution evolves
  by unfold_locales (auto intro: evolves_trans evolves_untouched simp: untouched_def)

lemma read_only_evolves: "state_io_rel read_only m \<Longrightarrow> state_io_rel evolves m"
  by (erule state_io_rel_mono) (auto simp: read_only_def untouched_def intro!: evolves_untouched)

lemma evolve_transact: "(\<And>w x w'. f w = Inr (x, w') \<Longrightarrow> evolves w w') \<Longrightarrow> state_io_rel evolves (transact f)"
  unfolding transact_def by (rule ev.evolve_db) (auto split: sum.splits prod.splits)

section \<open>The writes of the journey tables\<close>

lemma one_live_upd:
  assumes "one_live steps" "\<And>s. P s \<Longrightarrow> js_RunID (f s) = js_RunID s" "\<And>s. P s \<Longrightarrow> live (f s) \<Longrightarrow> live s"
  shows "one_live (upd_rows P f steps)"
proof -
  have runs: "js_RunID ` set (filter live (upd_rows P f ss)) \<subseteq> js_RunID ` set (filter live ss)" for ss
    using assms(2,3) by (force simp: set_upd_rows)
  show ?thesis using assms(1) unfolding one_live_def
  proof (induction steps)
    case (Cons s ss)
    then show ?case using runs [of ss] assms(2,3) [of s] by (auto split: if_splits simp: image_iff)
  qed simp
qed

lemma one_live_filter: "one_live steps \<Longrightarrow> one_live (filter P steps)"
  unfolding one_live_def by (induction steps) (auto simp: image_iff split: if_splits)

lemma with_steps_Inr: "with_steps w ss = Inr w' \<Longrightarrow> w' = w\<lparr>w_steps := ss\<rparr> \<and> one_live ss"
  by (simp add: with_steps_def split: if_splits)

lemma evolves_with_steps: "with_steps w ss = Inr w' \<Longrightarrow> evolves w w'"
  by (drule with_steps_Inr, rule evolvesI) (auto simp: events_unique_def)

lemma evolves_steps: "(one_live (w_steps w) \<Longrightarrow> one_live ss) \<Longrightarrow> evolves w (w\<lparr>w_steps := ss\<rparr>)"
  by (rule evolvesI) (simp_all add: events_unique_def)

lemma evolves_step_rows:
  "(\<And>s. P s \<Longrightarrow> js_RunID (f s) = js_RunID s) \<Longrightarrow> (\<And>s. P s \<Longrightarrow> live (f s) \<Longrightarrow> live s) \<Longrightarrow>
   evolves w (w\<lparr>w_steps := upd_rows P f (w_steps w)\<rparr>)"
  by (rule evolves_steps, rule one_live_upd)

lemma evolves_run_rows:
  assumes "\<And>r. P r \<Longrightarrow> run_kept r (f r)"
  shows "evolves w (w\<lparr>w_runs := upd_rows P f (w_runs w)\<rparr>)"
proof (rule evolvesI)
  have "enroll_key (run_identity x) = enroll_key x" for x by (simp add: enroll_key_def run_identity_def)
  then have "enroll_key (f x) = enroll_key x" if "P x" for x using assms [OF that] unfolding run_kept_def by metis
  then have "map enroll_key (upd_rows P f (w_runs w)) = map enroll_key (w_runs w)" by (rule map_upd_rows)
  then show "distinct (map enroll_key (w_runs (w\<lparr>w_runs := upd_rows P f (w_runs w)\<rparr>)))"
    if "distinct (map enroll_key (w_runs w))" using that by simp
  have "grown run_kept (w_runs w) (upd_rows P f (w_runs w))" using assms by (intro grown_upd_rows) auto
  then show "grown run_kept (w_runs w) (w_runs (w\<lparr>w_runs := upd_rows P f (w_runs w)\<rparr>))" by simp
qed (simp_all add: events_unique_def)

lemma evolves_intent_rows:
  assumes "\<And>i. P i \<Longrightarrow> intent_kept i (f i)"
  shows "evolves w (w\<lparr>w_intents := upd_rows P f (w_intents w)\<rparr>)"
proof (rule evolvesI)
  have "intent_key (intent_content x) = intent_key x" for x by (simp add: intent_key_def intent_content_def)
  then have "intent_key (f x) = intent_key x" if "P x" for x using assms [OF that] unfolding intent_kept_def by metis
  then have "map intent_key (upd_rows P f (w_intents w)) = map intent_key (w_intents w)" by (rule map_upd_rows)
  then show "distinct (map intent_key (w_intents (w\<lparr>w_intents := upd_rows P f (w_intents w)\<rparr>)))"
    if "distinct (map intent_key (w_intents w))" using that by simp
  have "grown intent_kept (w_intents w) (upd_rows P f (w_intents w))" using assms by (intro grown_upd_rows) auto
  then show "grown intent_kept (w_intents w) (w_intents (w\<lparr>w_intents := upd_rows P f (w_intents w)\<rparr>))" by simp
qed (simp_all add: events_unique_def)


lemma untouched_simps [simp]:
  "untouched w (next_id w)" "untouched w (audit p a t i m w)" "untouched w (w\<lparr>w_seq := n\<rparr>)"
  "untouched w (w\<lparr>w_journeys := js\<rparr>)" "untouched w (w\<lparr>w_profiles := fs\<rparr>)" "untouched w (w\<lparr>w_tokens := ts\<rparr>)"
  "untouched w (w\<lparr>w_suppressions := ss\<rparr>)" "untouched w (w\<lparr>w_assignments := as\<rparr>)" "untouched w (w\<lparr>w_now := now\<rparr>)"
  by (simp_all add: untouched_def)

lemma evolves_insert_run: "insert_run run w = (r, w') \<Longrightarrow> evolves w w'"
  unfolding insert_run_def
  by (auto split: if_splits simp: grown_append events_unique_def enroll_key_def intro!: evolvesI)

lemma insert_step_Inr:
  "insert_step step w = Inr w' \<Longrightarrow>
   w' = (next_id w)\<lparr>w_steps := w_steps w @ [step\<lparr>js_ID := new_id w, js_CreatedAt := w_now w, js_UpdatedAt := w_now w\<rparr>]\<rparr> \<and>
   one_live (w_steps w')"
  by (auto simp: insert_step_def dest!: with_steps_Inr)

lemma evolves_insert_step: "insert_step step w = Inr w' \<Longrightarrow> evolves w w'"
  using evolves_trans [OF evolves_untouched [OF untouched_simps(1)]] evolves_with_steps unfolding insert_step_def by blast

lemma evolves_insert_transition: "evolves w (insert_transition t w)"
  by (rule evolvesI) (simp_all add: insert_transition_def events_unique_def)

lemma evolves_insert_intent: "insert_intent i w = Inr w' \<Longrightarrow> evolves w w'"
  unfolding insert_intent_def
  by (auto split: if_splits simp: grown_append events_unique_def intent_key_def intro!: evolvesI)

lemma evolves_insert_intents: "insert_intents is w = Inr w' \<Longrightarrow> evolves w w'"
  by (induction "is" arbitrary: w) (auto split: sum.splits dest!: evolves_insert_intent intro: evolves_trans)

section \<open>The operations of the journey store\<close>

lemma evolve_CreateJourneyRun [evolve]: "state_io_rel evolves (CreateJourneyRun run)"
  unfolding CreateJourneyRun_def
  by (intro ev.evolve_rules ev.evolve_db) (auto split: prod.splits dest: evolves_insert_run)

lemma evolve_EnrollJourneyRun [evolve]: "state_io_rel evolves (EnrollJourneyRun run step)"
  unfolding EnrollJourneyRun_def
  by (intro ev.evolve_rules evolve_transact)
    (auto split: prod.splits option.splits sum.splits simp: Let_def
      dest!: evolves_insert_run evolves_insert_step intro: evolves_trans)

lemma evolve_CancelJourneyRun [evolve]: "state_io_rel evolves (CancelJourneyRun p j r)"
proof -
  have cancel: "evolves w (w\<lparr>w_runs := upd_rows Q f (w_runs w), w_steps := filter P (w_steps w)\<rparr>)"
    if "\<And>r. Q r \<Longrightarrow> run_kept r (f r)" for w P Q f
    using evolves_trans [OF evolves_run_rows [OF that] evolves_steps [of "w\<lparr>w_runs := upd_rows Q f (w_runs w)\<rparr>" "filter P (w_steps w)"]]
      one_live_filter [of "w_steps w" P] by simp
  have kept: "run_kept x (x\<lparr>jr_Status := ''canceled'', jr_CompletedAt := t, jr_UpdatedAt := now\<rparr>)"
    if "jr_Status x \<noteq> ''completed''" "jr_Status x \<noteq> ''canceled''" for x t now
    using that by (simp add: run_kept_def run_identity_def final_run_def)
  show ?thesis unfolding CancelJourneyRun_def
    by (intro ev.evolve_db) (auto simp: Let_def intro!: cancel kept)
qed

lemma live_simps [simp]:
  "\<not> live (s\<lparr>js_Status := ''completed''\<rparr>)" "\<not> live (s\<lparr>js_Status := ''failed''\<rparr>)" "\<not> live (s\<lparr>js_Status := ''dead''\<rparr>)"
  by (simp_all add: live_def)

lemma evolves_poison: "evolves w (poison_steps w)"
  unfolding poison_steps_def by (rule evolves_step_rows) (auto simp: live_def)

lemma evolves_claim: "claim_step w = Inr (x, w') \<Longrightarrow> evolves w w'"
  by (auto simp: claim_step_def Let_def split: option.splits sum.splits dest: evolves_with_steps)

lemma evolve_ClaimJourneyStep [evolve]: "state_io_rel evolves ClaimJourneyStep"
  unfolding ClaimJourneyStep_def
  by (intro ev.evolve_rules ev.evolve_exec evolve_transact evolves_poison) (rule evolves_claim)

lemma evolve_FailJourneyStep [evolve]: "state_io_rel evolves (FailJourneyStep i msg)"
  unfolding FailJourneyStep_def by (intro ev.evolve_exec evolves_step_rows) (auto simp: live_def split: if_splits)

lemma map_sum_Pair: "map_sum id (Pair ()) r = Inr (x, w') \<Longrightarrow> r = Inr w'"
  by (cases r) auto

lemma evolve_RescheduleJourneyStep [evolve]: "state_io_rel evolves (RescheduleJourneyStep i t)"
  unfolding RescheduleJourneyStep_def by (intro evolve_transact) (auto dest!: map_sum_Pair dest: evolves_with_steps)

lemma evolve_RetryJourneyStep [evolve]: "state_io_rel evolves (RetryJourneyStep p i)"
  unfolding RetryJourneyStep_def
  by (intro evolve_transact) (auto simp: Let_def split: if_splits dest!: map_sum_Pair dest: evolves_with_steps)

lemma run_kept_open:
  "jr_Status r = ''active'' \<or> jr_Status r = ''waiting'' \<Longrightarrow> run_identity r' = run_identity r \<Longrightarrow> run_kept r r'"
  by (auto simp: run_kept_def final_run_def)

lemma evolves_advance_base:
  assumes "dbStatus = ''active'' \<or> dbStatus = ''waiting''"
  shows "evolves w (advance_base (advance_hit runID tenant dbStatus dbNode) run stepID w)"
proof -
  let ?w0 = "w\<lparr>w_runs := upd_rows (advance_hit runID tenant dbStatus dbNode) (advanced_run (w_now w) run) (w_runs w)\<rparr>"
  have "evolves w ?w0" using assms
    by (intro evolves_run_rows run_kept_open) (auto simp: advanced_run_def run_identity_def advance_hit_def)
  moreover have "evolves ?w0 (advance_base (advance_hit runID tenant dbStatus dbNode) run stepID w)"
    using evolves_step_rows [of "\<lambda>s. js_ID s = stepID" "completed_step (w_now w)" ?w0]
    by (simp add: advance_base_def completed_step_def live_def)
  ultimately show ?thesis by (rule evolves_trans)
qed

lemma evolves_advance_writes:
  assumes w': "advance_writes runID run dbStatus dbNode stepID nextStep trn intents w = Inr w'"
    and st: "dbStatus = ''active'' \<or> dbStatus = ''waiting''"
  shows "evolves w w'"
proof -
  let ?w1 = "advance_base (advance_hit runID (jr_TenantID run) dbStatus dbNode) run stepID w"
  from w' obtain w2 where w2: "(case nextStep of None \<Rightarrow> Inr ?w1 | Some s \<Rightarrow> insert_step (defaulted_step ?w1 s) ?w1) = Inr w2"
    and ins: "insert_intents intents (insert_transition trn w2) = Inr w'"
    by (auto simp: advance_writes_def Let_def split: if_splits sum.splits)
  have "evolves ?w1 w2" using w2 by (cases nextStep) (auto dest: evolves_insert_step)
  with evolves_advance_base [OF st] have "evolves w w2" by (rule evolves_trans)
  moreover have "evolves w2 w'" using ins by (blast intro: evolves_trans evolves_insert_transition dest: evolves_insert_intents)
  ultimately show ?thesis by (rule evolves_trans)
qed

lemma evolve_AdvanceRunTx [evolve]: "state_io_rel evolves (AdvanceRunTx runID run stepID nextStep trn intents)"
proof -
  have "evolves w (w\<lparr>w_steps := upd_rows P (completed_step (w_now w)) (w_steps w)\<rparr>)" for w P
    by (rule evolves_step_rows) (auto simp: completed_step_def live_def)
  then show ?thesis unfolding AdvanceRunTx_def
    by (intro evolve_transact)
      (auto simp: Let_def split: option.splits if_splits dest!: map_sum_Pair intro: evolves_advance_writes)
qed

subsection \<open>Events\<close>

lemma evolves_enroll_items: "enroll_items event pid items w = Inr w' \<Longrightarrow> evolves w w'"
proof (induction items arbitrary: w)
  case (Cons it items)
  from Cons.prems consider "enroll_items event pid items w = Inr w'"
    | run r w1 step w2 where "insert_run run w = (r, w1)" "insert_step step w1 = Inr w2" "enroll_items event pid items w2 = Inr w'"
    by (auto split: option.splits sum.splits prod.splits if_splits)
  then show ?case
    by cases (use Cons.IH in \<open>blast intro: evolves_trans dest: evolves_insert_run evolves_insert_step\<close>)+
qed simp

lemma evolves_resume_base: "evolves w (resume_base runID nxt w)"
proof -
  let ?w0 = "w\<lparr>w_runs := upd_rows (\<lambda>r. jr_ID r = runID \<and> jr_Status r = ''waiting'')
     (\<lambda>r. r\<lparr>jr_Status := ''active'', jr_WaitEventType := None, jr_WaitUntil := None, jr_CurrentNodeID := nxt,
            jr_UpdatedAt := w_now w\<rparr>) (w_runs w)\<rparr>"
  have "evolves w ?w0" by (intro evolves_run_rows run_kept_open) (auto simp: run_identity_def)
  moreover have "evolves ?w0 (resume_base runID nxt w)"
    using evolves_step_rows [of "\<lambda>s. js_RunID s = runID \<and> js_Kind s = ''timeout'' \<and>
       (js_Status s = ''pending'' \<or> js_Status s = ''processing'' \<or> js_Status s = ''failed'')"
      "\<lambda>s. s\<lparr>js_Status := ''completed'', js_UpdatedAt := w_now w\<rparr>" ?w0]
    by (simp add: resume_base_def live_def)
  ultimately show ?thesis by (rule evolves_trans)
qed

lemma evolves_resume_run: "resume_run event runID current nxt w = Inr w' \<Longrightarrow> evolves w w'"
  by (auto simp: resume_run_def split: if_splits sum.splits dest!: evolves_insert_step
      intro: evolves_trans [OF evolves_resume_base] evolves_trans [OF _ evolves_insert_transition])

lemma evolves_resume_items: "resume_items event items w = Inr w' \<Longrightarrow> evolves w w'"
proof (induction items arbitrary: w)
  case (Cons it items)
  obtain runID current data where it: "it = (runID, current, data)" by (cases it)
  from Cons.prems consider "resume_items event items w = Inr w'"
    | nxt w1 where "resume_run event runID current nxt w = Inr w1" "resume_items event items w1 = Inr w'"
    by (auto simp: it Let_def split: option.splits sum.splits if_splits)
  then show ?case by cases (use Cons.IH in \<open>blast intro: evolves_trans dest: evolves_resume_run\<close>)+
qed simp

lemma evolves_project: "project_journeys event pid w = Inr w' \<Longrightarrow> evolves w w'"
  by (auto simp: project_journeys_def enrollEventTriggered_def resolveWaitingRuns_def
      split: sum.splits if_splits dest!: evolves_enroll_items evolves_resume_items intro: evolves_trans)


subsection \<open>Message intents\<close>

lemma evolve_ClaimJourneyMessageIntent [evolve]: "state_io_rel evolves (ClaimJourneyMessageIntent worker)"
  unfolding ClaimJourneyMessageIntent_def
  by (intro ev.evolve_db)
    (auto split: option.splits simp: taken_intent_def intent_kept_def intent_content_def intro!: evolves_intent_rows)

lemma evolve_UpdateJourneyMessageIntent [evolve]: "state_io_rel evolves (UpdateJourneyMessageIntent i)"
  unfolding UpdateJourneyMessageIntent_def
  by (intro ev.evolve_exec evolves_intent_rows) (simp add: intent_kept_def intent_content_def)

lemma evolve_RetryJourneyMessageIntent [evolve]: "state_io_rel evolves (RetryJourneyMessageIntent p i)"
  unfolding RetryJourneyMessageIntent_def
  by (intro ev.evolve_db) (auto simp: Let_def intent_kept_def intent_content_def intro!: evolves_intent_rows)

section \<open>The other operations\<close>

text \<open>Acceptance of events leaves the journey tables alone and appends to the events.\<close>

definition events_only :: "world \<Rightarrow> world \<Rightarrow> bool" where
  "events_only w w' \<longleftrightarrow> appended (w_events w) (w_events w') \<and> w_runs w' = w_runs w \<and> w_versions w' = w_versions w \<and>
     w_intents w' = w_intents w \<and> w_transitions w' = w_transitions w \<and> w_calls w' = w_calls w \<and> w_steps w' = w_steps w"

lemma events_only_trans: "events_only u v \<Longrightarrow> events_only v w \<Longrightarrow> events_only u w"
  by (auto simp: events_only_def intro: appended_trans)

lemma events_only_parts:
  "events_only w v \<Longrightarrow> events_only w (add_job p e i v)" "events_only w v \<Longrightarrow> events_only w (add_outbox p e t i v)"
  "events_only w v \<Longrightarrow> events_only w (add_connector_jobs p e i v)"
  "events_only w v \<Longrightarrow> events_only w (snd (count_window p n v))" "events_only w v \<Longrightarrow> events_only w (audit p a b c m v)"
  by (simp_all add: events_only_def add_job_def add_outbox_def add_connector_jobs_def count_window_def audit_def Let_def)

lemma events_only_store: "store_event p e w = Inr (i, w1) \<Longrightarrow> events_only w w1"
  by (auto simp: store_event_def events_only_def split: if_splits option.splits)

lemma events_only_accept_one:
  assumes "accept_one p e w = Inr (i, w')"
  shows "events_only w w'"
proof -
  let ?e = "normalized_event e"
  from assms obtain w1 where w1: "store_event p ?e w = Inr (i, w1)"
    and w': "w' = (let w2 = add_outbox p ?e ''events.accepted.v1'' i (add_job p ?e i w1)
       in add_connector_jobs p ?e i (if exports w2 p \<noteq> [] then add_outbox p ?e ''exports.events.v1'' i w2 else w2))"
    by (auto simp: accept_one_def Let_def split: sum.splits)
  show ?thesis unfolding w' Let_def
    using events_only_store [OF w1] by (auto intro!: events_only_parts)
qed

lemma events_only_accept_all: "accept_all p es w = Inr (ids, w') \<Longrightarrow> events_only w w'"
proof (induction es arbitrary: w ids)
  case (Cons e es)
  then obtain i w1 ids' where "accept_one p e w = Inr (i, w1)" "accept_all p es w1 = Inr (ids', w')"
    by (auto split: sum.splits)
  with Cons.IH show ?case by (blast intro: events_only_trans dest: events_only_accept_one)
qed (simp add: events_only_def)

lemma evolve_AcceptEvents [evolve]: "state_io_rel evolves (AcceptEvents p es)"
proof -
  have "evolves w w'" if a: "accept_tx p es w = Inr (ids, w')" for w ids w'
  proof -
    from accept_tx_Inr [OF a] obtain w1 where w1: "accept_all p es w = Inr (ids, w1)"
      and w': "w' = audit p ''events.accept'' ''event_batch'' [] [(''count'', JInt (int (length es)))] (snd (count_window p (length es) w1))" .
    have "events_only w w'" unfolding w'
      by (intro events_only_parts events_only_accept_all [OF w1])
    moreover have "events_unique w \<Longrightarrow> events_unique w'"
      using accept_all_unique [OF _ w1] unfolding w' events_unique_def by simp
    ultimately show ?thesis by (intro evolvesI) (simp_all add: events_only_def)
  qed
  then show ?thesis unfolding AcceptEvents_def by (intro ev.evolve_db) (auto split: sum.splits)
qed

lemma evolve_UpdateProfileAttributes [evolve]: "state_io_rel evolves (UpdateProfileAttributes p f attrs)"
  unfolding UpdateProfileAttributes_def by (intro ev.evolve_exec evolves_untouched) simp

lemma evolve_AssignExperiment [evolve]: "state_io_rel evolves (AssignExperiment p e f v)"
  unfolding AssignExperiment_def assign_row_def
  by (intro ev.store_rules ev.evolve_db) (auto simp: Let_def split: option.splits intro!: evolves_untouched)

lemma evolve_tokens [evolve]:
  "state_io_rel evolves (RegisterDeviceToken t ws app f platform provider token)"
  "state_io_rel evolves (RetireDeviceToken t app token)"
  "state_io_rel evolves (RetireDeviceTokenByID t i)"
  unfolding RegisterDeviceToken_def RetireDeviceToken_def RetireDeviceTokenByID_def
  by (intro ev.evolve_db ev.evolve_exec; auto simp: Let_def untouched_def audit_def split: option.splits intro!: evolves_untouched)+

lemma evolve_suppressions [evolve]:
  "state_io_rel evolves (SuppressEndpoint p ch ep reason)"
  "state_io_rel evolves (RemoveSuppression p ch ep)"
  unfolding SuppressEndpoint_def RemoveSuppression_def
  by (intro ev.store_rules ev.evolve_db ev.evolve_exec; auto simp: Let_def untouched_def audit_def split: option.splits intro!: evolves_untouched)+

lemma evolve_drafts [evolve]:
  "state_io_rel evolves (CreateJourney p j)"
  "state_io_rel evolves (UpdateJourney p j)"
  unfolding CreateJourney_def UpdateJourney_def GetJourney_def
  by (intro ev.store_rules evolve_transact;
      auto simp: Let_def untouched_def audit_def split: option.splits if_splits intro!: evolves_untouched)+

lemma evolves_publish_writes: "publish_writes env p draft v w = Inr (x, w') \<Longrightarrow> evolves w w'"
  by (rule evolvesI) (auto simp: publish_writes_def events_unique_def grown_append audit_def split: if_splits)

lemma publish_tx_Inr:
  assumes "publish_tx env p j approver key w = Inr (v, w')"
  obtains draft graph entry goal win where
    "find (journey_in p j) (w_journeys w) = Some draft" "ParseGraph (jo_Graph draft) = Inr graph"
    "Validate (Some graph) = Inr ()" "publishEntryConfig graph = Inr entry"
    "v = new_version w draft entry goal win approver key" "publish_writes env p draft v w = Inr (v, w')"
    "str_contains ''/manifests/'' key \<longrightarrow> has_suffix (manifest_suffix env graph) key"
  using assms unfolding publish_tx_def
  by (auto simp: publish_writes_def split: option.splits sum.splits if_splits prod.splits)

lemma read_only_CheckMakerChecker: "state_io_rel read_only (CheckMakerChecker p ty i c)"
  unfolding CheckMakerChecker_def GetMakerCheckerPolicy_def Let_def by (intro ro.store_rules)

lemma evolve_publish [evolve]:
  "state_io_rel evolves (PublishJourney env p j approver key)"
  "state_io_rel evolves (SetJourneyVersionStatus p j v st)"
proof -
  show "state_io_rel evolves (PublishJourney env p j approver key)"
    unfolding PublishJourney_def
    by (intro ev.store_rules evolve_transact read_only_evolves [OF read_only_CheckMakerChecker])
      (erule publish_tx_Inr, erule evolves_publish_writes)
  have "grown version_kept vs (upd_rows P (\<lambda>v. v\<lparr>jv_Status := st, jv_PublishedAt := now\<rparr>) vs)" for vs P now
    by (intro grown_upd_rows) (simp_all add: version_kept_def version_content_def)
  then show "state_io_rel evolves (SetJourneyVersionStatus p j v st)"
    unfolding SetJourneyVersionStatus_def
    by (intro evolve_transact) (auto simp: Let_def events_unique_def split: if_splits intro!: evolvesI)
qed

lemma evolve_send_message [evolve]: "state_io_rel evolves (send_message a msg)"
  by (auto simp: state_io_rel_def intro!: evolvesI) (simp_all add: events_unique_def)

end
