(* ===== verification/NodeFacts.thy ===== *)
theory NodeFacts
  imports JourneyNodes StoreFacts
begin

text \<open>
  Facts about the execution of nodes. The locale \<open>node_effects\<close> states what a node may do to the world
  (read, write a profile, accept events, record an experiment assignment, call out); whatever respects
  these respects every node. Its first instance says that executing a node leaves the tables of the
  engine alone: they change only in the transaction that advances the run.
\<close>

section \<open>Effects\<close>

locale node_effects = store_evolution +
  assumes reads_ok: "read_only w w' \<Longrightarrow> R w w'"
    and profile_ok: "state_io_rel R (UpdateProfileAttributes p pid attrs)"
    and accept_ok: "state_io_rel R (AcceptEvents p es)"
    and assign_ok: "state_io_rel R (AssignExperiment p eid pid v)"
begin

lemma evolve_reads: "state_io_rel read_only m \<Longrightarrow> state_io_rel R m"
  by (erule state_io_rel_mono) (rule reads_ok)

lemma evolve_external: "state_io_rel R (external f)"
  by (simp add: state_io_rel_def tick_ok)

lemma evolve_GetExperiment: "state_io_rel R (GetExperiment p i)"
  unfolding GetExperiment_def listExperimentVariants_def by (intro store_rules)

lemma evolve_experimentVariant: "state_io_rel R (experimentVariant what p i f)"
  unfolding experimentVariant_def Let_def by (intro store_rules evolve_GetExperiment assign_ok)

lemma evolve_audience_branch: "state_io_rel R (audience_branch p f brs b)"
  by (induction brs arbitrary: b) (auto intro!: store_rules evolve_reads [OF read_only_IsProfileInSegment])

lemma evolve_splitBranch: "state_io_rel R (splitBranch n run cfg)"
  unfolding splitBranch_def by (intro store_rules evolve_experimentVariant evolve_audience_branch)

lemma evolve_message_endpoints: "state_io_rel R (message_endpoints run ch attrs)"
  unfolding message_endpoints_def ListActiveDeviceTokens_def by (intro store_rules)

lemma evolve_decide:
  "state_io_rel R (decide_ai gw run ai_cfg)" "state_io_rel R (decide_extension host n run ext_cfg)"
  unfolding decide_ai_def decide_extension_def by (intro store_rules evolve_external)+

lemma evolve_targeting: "(\<And>dsl. state_io_rel R (eval f dsl)) \<Longrightarrow> state_io_rel R (targeting eval flag f rules)"
  by (induction rules) (auto intro!: store_rules split: option.splits)

lemma evolve_flag: "(\<And>dsl. state_io_rel R (eval f dsl)) \<Longrightarrow> state_io_rel R (Flags.Evaluate eval flag f)"
  unfolding Flags.Evaluate_def by (auto intro!: store_rules evolve_targeting split: option.splits)

lemma evolve_execute: "state_io_rel R (execute d n run g now kind)"
  unfolding execute_def execCondition_def execAIDecision_def execExtension_def execSplit_def execAction_def execMessage_def
    execFeatureFlag_def messageVariant_def GetProfileByIDSystem_def GetFirstAppID_def ListActiveFlags_def Let_def
  by (intro store_rules evolve_reads [OF read_only_EvaluateAudience] evolve_decide evolve_splitBranch profile_ok accept_ok
      evolve_experimentVariant evolve_message_endpoints evolve_flag)

end

text \<open>What a node never touches.\<close>

definition engine_frame :: "world \<Rightarrow> world \<Rightarrow> bool" where
  "engine_frame w w' \<longleftrightarrow> untouched (w\<lparr>w_events := w_events w'\<rparr>) w' \<and> appended (w_events w) (w_events w') \<and>
     w_now w' = w_now w \<and> w_fault w' = w_fault w \<and> w_templates w' = w_templates w \<and> w_apps w' = w_apps w \<and>
     w_attempts w' = w_attempts w \<and> w_campaigns w' = w_campaigns w \<and> w_delivery_jobs w' = w_delivery_jobs w \<and>
     w_uuid w' = w_uuid w \<and> w_seq w \<le> w_seq w'"

lemma engine_frame_trans: "engine_frame u v \<Longrightarrow> engine_frame v w \<Longrightarrow> engine_frame u w"
  by (auto simp: engine_frame_def untouched_def intro: appended_trans)

lemma engine_frame_untouched:
  "untouched w w' \<Longrightarrow> w_now w' = w_now w \<Longrightarrow> w_fault w' = w_fault w \<Longrightarrow> w_templates w' = w_templates w \<Longrightarrow>
   w_apps w' = w_apps w \<Longrightarrow> w_attempts w' = w_attempts w \<Longrightarrow> w_campaigns w' = w_campaigns w \<Longrightarrow>
   w_delivery_jobs w' = w_delivery_jobs w \<Longrightarrow> w_uuid w' = w_uuid w \<Longrightarrow> w_seq w \<le> w_seq w' \<Longrightarrow> engine_frame w w'"
  by (simp add: engine_frame_def untouched_def)

lemma engine_frame_parts:
  "engine_frame w v \<Longrightarrow> engine_frame w (add_job p e i v)" "engine_frame w v \<Longrightarrow> engine_frame w (add_outbox p e t i v)"
  "engine_frame w v \<Longrightarrow> engine_frame w (add_connector_jobs p e i v)"
  "engine_frame w v \<Longrightarrow> engine_frame w (snd (count_window p n v))" "engine_frame w v \<Longrightarrow> engine_frame w (audit p a b c m v)"
  by (simp_all add: engine_frame_def untouched_def add_job_def add_outbox_def add_connector_jobs_def count_window_def
      audit_def Let_def)

lemma engine_frame_accept_all: "accept_all p es w = Inr (ids, w') \<Longrightarrow> engine_frame w w'"
proof (induction es arbitrary: w ids)
  case (Cons e es)
  then obtain i w1 ids' where one: "accept_one p e w = Inr (i, w1)" and all: "accept_all p es w1 = Inr (ids', w')"
    by (auto split: sum.splits)
  from one obtain w0 where "store_event p (normalized_event e) w = Inr (i, w0)"
    and w1: "w1 = (let w2 = add_outbox p (normalized_event e) ''events.accepted.v1'' i (add_job p (normalized_event e) i w0)
       in add_connector_jobs p (normalized_event e) i
         (if exports w2 p \<noteq> [] then add_outbox p (normalized_event e) ''exports.events.v1'' i w2 else w2))"
    by (auto simp: accept_one_def Let_def split: sum.splits)
  then have "engine_frame w w0"
    by (auto simp: store_event_def engine_frame_def untouched_def next_id_def split: if_splits option.splits)
  then have "engine_frame w w1" unfolding w1 Let_def by (auto intro!: engine_frame_parts)
  with Cons.IH [OF all] show ?case by (blast intro: engine_frame_trans)
qed (simp add: engine_frame_untouched untouched_def)

lemma frame_AcceptEvents: "engine_frame w (snd (case accept_tx p es w of Inl e \<Rightarrow> (Inl e, w) | Inr (ids, w') \<Rightarrow> (Inr ids, w')))"
proof (cases "accept_tx p es w")
  case (Inr r)
  obtain ids w' where r: "r = (ids, w')" by (cases r)
  from Inr [unfolded r] obtain w1 where "accept_all p es w = Inr (ids, w1)"
    and "w' = audit p ''events.accept'' ''event_batch'' [] [(''count'', JInt (int (length es)))] (snd (count_window p (length es) w1))" by (rule accept_tx_Inr)
  then show ?thesis using Inr r by (auto intro!: engine_frame_parts dest: engine_frame_accept_all)
qed (simp add: engine_frame_untouched untouched_def)

interpretation frame: node_effects engine_frame
proof unfold_locales
  show ef_refl: "engine_frame w w" for w by (simp add: engine_frame_untouched untouched_def)
  show "engine_frame u v \<Longrightarrow> engine_frame v w \<Longrightarrow> engine_frame u w" for u v w by (rule engine_frame_trans)
  show ef_tick: "engine_frame w (ticked w)" for w by (simp add: engine_frame_untouched untouched_def)
  show "read_only w w' \<Longrightarrow> engine_frame w w'" for w w' by (auto simp: read_only_def engine_frame_untouched untouched_def)
  have db_ok: "state_io_rel engine_frame (db f)" if "\<And>w. engine_frame w (snd (f w))" for f :: "world \<Rightarrow> 'z result \<times> world"
    unfolding state_io_rel_def run_db using that ef_tick by (auto intro: engine_frame_trans)
  show "state_io_rel engine_frame (UpdateProfileAttributes p pid attrs)" for p pid attrs
    unfolding UpdateProfileAttributes_def exec_def by (rule db_ok) (simp add: engine_frame_untouched)
  show "state_io_rel engine_frame (AcceptEvents p es)" for p es
    unfolding AcceptEvents_def by (rule db_ok) (rule frame_AcceptEvents)
  show "state_io_rel engine_frame (AssignExperiment p eid pid v)" for p eid pid v
    unfolding AssignExperiment_def
    by (rule db_ok) (auto simp: assign_row_def Let_def engine_frame_untouched ef_refl split: option.splits)
qed

interpretation node_ev: node_effects evolves
  by unfold_locales (auto intro: evolve simp: read_only_def untouched_def intro!: evolves_untouched)

section \<open>Results\<close>

text \<open>Every value a program can return satisfies \<open>P\<close>.\<close>

definition yields :: "('a \<Rightarrow> bool) \<Rightarrow> 'a call \<Rightarrow> bool" where
  "yields P m \<longleftrightarrow> (\<forall>w x w'. run_state m w = (Inr x, w') \<longrightarrow> P x)"

lemma yieldsD: "yields P m \<Longrightarrow> run_state m w = (Inr x, w') \<Longrightarrow> P x"
  by (auto simp: yields_def)

lemma yields_ret: "(\<And>x. r = Inr x \<Longrightarrow> P x) \<Longrightarrow> yields P (ret r)"
  by (simp add: yields_def)

lemma yields_failed: "yields P (failed e)" and yields_wrapped: "yields P (wrapped m e)"
  by (simp_all add: yields_def)

lemma yields_bind: "(\<And>x. yields P (k x)) \<Longrightarrow> yields P (State_Monad.bind m k)"
  by (auto simp: yields_def split: prod.splits)

lemma yields_attempt: "(\<And>e. yields P (h e)) \<Longrightarrow> (\<And>x. yields P (k x)) \<Longrightarrow> yields P (attempt m h k)"
  unfolding attempt_def by (rule yields_bind) (auto split: sum.splits)

lemma yields_if: "(b \<Longrightarrow> yields P p) \<Longrightarrow> (\<not> b \<Longrightarrow> yields P q) \<Longrightarrow> yields P (if b then p else q)"
  by simp

lemma yields_option:
  "(x = None \<Longrightarrow> yields P p) \<Longrightarrow> (\<And>y. x = Some y \<Longrightarrow> yields P (q y)) \<Longrightarrow> yields P (case x of None \<Rightarrow> p | Some y \<Rightarrow> q y)"
  by (cases x) auto

lemma yields_sum:
  "(\<And>e. r = Inl e \<Longrightarrow> yields P (h e)) \<Longrightarrow> (\<And>x. r = Inr x \<Longrightarrow> yields P (k x)) \<Longrightarrow>
   yields P (case r of Inl e \<Rightarrow> h e | Inr x \<Rightarrow> k x)"
  by (cases r) auto

lemma yields_prod: "(\<And>a b. x = (a, b) \<Longrightarrow> yields P (q a b)) \<Longrightarrow> yields P (case x of (a, b) \<Rightarrow> q a b)"
  by (cases x) auto

lemmas yields_rules = yields_failed yields_wrapped yields_attempt yields_bind yields_if yields_option yields_sum yields_prod

text \<open>
  What a node may decide: to move along one of its edges, to wait at itself, or to finish the run. The
  transition is recorded for the run and the node, and every message intent belongs to both.
\<close>

definition along_edge :: "graph \<Rightarrow> JourneyGraph.node \<Rightarrow> string \<Rightarrow> bool" where
  "along_edge g n j \<longleftrightarrow> (n_ID n, j) \<in> edge_rel (g_Edges g)"

definition own_intent :: "JourneyGraph.node \<Rightarrow> journey_run \<Rightarrow> message_intent \<Rightarrow> bool" where
  "own_intent n run i \<longleftrightarrow> mi_RunID i = jr_ID run \<and> mi_NodeID i = n_ID n \<and> mi_TenantID i = jr_TenantID run \<and>
     mi_ProfileID i = jr_ProfileID run \<and> mi_Attempts i = 0 \<and>
     (mi_Status i = ''pending'' \<and> mi_Decision i = None \<or> mi_Status i = ''completed'' \<and> mi_Decision i = Some ''holdout'')"

definition node_result :: "graph \<Rightarrow> JourneyGraph.node \<Rightarrow> journey_run \<Rightarrow> execution_result \<Rightarrow> bool" where
  "node_result g n run res \<longleftrightarrow>
     jt_RunID (xr_Transition res) = jr_ID run \<and> jt_FromNode (xr_Transition res) = Some (n_ID n) \<and>
     list_all (own_intent n run) (xr_MessageIntents res) \<and>
     (case xr_NextStep res of
        None \<Rightarrow> n_Type n = NodeTypeExit \<and> xr_NextNodeID res = [] \<and> xr_NextStatus res = ''completed'' \<and> xr_CompletedAt res \<noteq> None
      | Some s \<Rightarrow>
          s = mk_step (jr_ID run) (jr_TenantID run) (xr_NextNodeID res) (js_Kind s) (js_AvailableAt s) \<and>
            (js_Kind s = ''advance'' \<and> along_edge g n (xr_NextNodeID res) \<and> xr_NextStatus res \<in> {jr_Status run, ''active''} \<or>
             js_Kind s = ''timeout'' \<and> n_Type n = NodeTypeWaitEvent \<and> xr_NextNodeID res = n_ID n \<and>
             xr_NextStatus res = ''waiting'' \<and> xr_WaitUntil res = Some (js_AvailableAt s)))"

lemma mk_step_simps [simp]:
  "js_Kind (mk_step run tenant nodeID kind t) = kind" "js_AvailableAt (mk_step run tenant nodeID kind t) = t"
  "js_NodeID (mk_step run tenant nodeID kind t) = nodeID" "js_RunID (mk_step run tenant nodeID kind t) = run"
  "js_TenantID (mk_step run tenant nodeID kind t) = tenant" "js_Status (mk_step run tenant nodeID kind t) = ''pending''"
  "js_Attempts (mk_step run tenant nodeID kind t) = 0"
  by (simp_all add: mk_step_def)

lemma successor_edge: "findNextNode g (n_ID n) b = Inr j \<Longrightarrow> along_edge g n j"
  by (drule findNextNode_edge) (force simp: along_edge_def edge_rel_def)

lemma moved_result: "along_edge g n j \<Longrightarrow> node_result g n run (moved n run j t outcome detail)"
  by (simp add: node_result_def moved_def mk_transition_def)

lemma node_result_state [simp]:
  "node_result g n run (res\<lparr>xr_State := st\<rparr>) = node_result g n run res"
  "node_result g n run (res\<lparr>xr_GoalReached := b\<rparr>) = node_result g n run res"
  by (simp_all add: node_result_def split: option.splits)

lemma successor_Inr: "successor g n = Inr j \<Longrightarrow> along_edge g n j"
  by (auto simp: successor_def split: sum.splits dest: successor_edge)

lemma take_branch_result: "take_branch g n run now b detail = Inr res \<Longrightarrow> node_result g n run res"
  by (auto simp: take_branch_def branchSuccessor_def map_sum_Inr split: sum.splits dest!: successor_edge intro: moved_result)

lemma moved_intents:
  "along_edge g n j \<Longrightarrow> list_all (own_intent n run) is \<Longrightarrow>
   node_result g n run ((moved n run j t outcome detail)\<lparr>xr_MessageIntents := is\<rparr>)"
  by (simp add: node_result_def moved_def mk_transition_def)

lemma mk_intent_own: "own_intent n run (mk_intent n run cfg tpl ex v ch now ep)"
  by (simp add: own_intent_def mk_intent_def Let_def)

lemma execWait_result: "execWait n run g now kind = Inr res \<Longrightarrow> n_Type n = NodeTypeWaitEvent \<Longrightarrow> node_result g n run res"
  unfolding execWait_def
  by (auto simp: Let_def split: sum.splits option.splits if_splits dest!: successor_edge)
    (auto simp: node_result_def moved_def mk_transition_def)

lemma execute_result: "yields (node_result g n run) (execute d n run g now kind)"
proof -
  have pure: "execEntry n run g now = Inr res \<Longrightarrow> node_result g n run res"
    "execDelay n run g now = Inr res \<Longrightarrow> node_result g n run res"
    "execGoal n run g now = Inr res \<Longrightarrow> node_result g n run res" for res
    by (auto simp: execEntry_def execDelay_def execGoal_def map_sum_Inr split: sum.splits option.splits
        dest!: successor_Inr intro: moved_result)
  have exit_ok: "n_Type n = NodeTypeExit \<Longrightarrow> node_result g n run (execExit n run now)"
    by (simp add: execExit_def node_result_def mk_transition_def)
  have split_ok: "yields (node_result g n run) (execSplit n run g now)"
    unfolding execSplit_def by (intro yields_rules yields_ret) (auto split: sum.splits dest: take_branch_result)
  have act: "yields (node_result g n run) (execAction n run g now)"
    unfolding execAction_def by (intro yields_rules yields_ret) (auto simp: map_sum_Inr dest!: successor_Inr intro: moved_result)
  have msg: "yields (node_result g n run) (execMessage n run g now)"
    unfolding execMessage_def Let_def
    by (intro yields_rules yields_ret)
      (auto simp: map_sum_Inr list_all_iff mk_intent_own dest!: successor_Inr intro!: moved_intents)
  show ?thesis
    unfolding execute_def execCondition_def execAIDecision_def execExtension_def execFeatureFlag_def Let_def
    by (intro yields_rules yields_ret split_ok act msg)
      (auto dest: pure take_branch_result execWait_result exit_ok)
qed


section \<open>Decisions made outside\<close>

lemma chosen_branch_in: "fb \<in> set brs \<Longrightarrow> chosen_branch brs fb content \<in> set brs"
  by (auto simp: chosen_branch_def split: option.splits)

lemma decide_ai_in:
  "aic_Fallback cfg \<in> set (aic_Branches cfg) \<Longrightarrow> fst (fst (run_state (decide_ai gw run cfg) w)) \<in> set (aic_Branches cfg)"
  by (auto simp: decide_ai_def chosen_branch_in split: option.splits sum.splits)

lemma decide_extension_in:
  "xc_Fallback cfg \<in> set (xc_Branches cfg) \<Longrightarrow>
   fst (fst (run_state (decide_extension host n run cfg) w)) \<in> set (xc_Branches cfg)"
  by (auto simp: decide_extension_def chosen_branch_in split: option.splits prod.splits)

section \<open>Nodes that always have a way on\<close>

lemma wf_node: "graph_wf g \<Longrightarrow> n \<in> set (g_Nodes g) \<Longrightarrow> node_ok g n \<and> outgoing_ok n (edges_from g (n_ID n))"
  by (simp add: graph_wf_def)

lemma wf_linear:
  assumes "graph_wf g" "n \<in> set (g_Nodes g)" "n_Type n \<in> linear_types"
  shows "\<exists>j. successor g n = Inr j"
  using wf_successor [OF assms(1,2), of "[[]]" "[]"] assms(3) by (auto simp: branch_labels_def successor_def Let_def)

lemma wf_branch:
  assumes "graph_wf g" "n \<in> set (g_Nodes g)" "branch_labels n = Some labels" "b \<in> set labels"
  shows "\<exists>res. take_branch g n run now b detail = Inr res"
  using wf_successor [OF assms] by (auto simp: take_branch_def branchSuccessor_def)

text \<open>The kinds of nodes that need neither the database nor a lucky answer from outside.\<close>

abbreviation self_contained :: "string set" where
  "self_contained \<equiv> set [NodeTypeEntry, NodeTypeDelay, NodeTypeGoal, NodeTypeExit, NodeTypeWaitEvent, NodeTypeAIDecision,
     NodeTypeExtensionAction, NodeTypeExtensionCondition]"

lemma wf_delay:
  assumes "node_ok g n" "n_Type n = NodeTypeDelay"
  obtains cfg dur where "decodeNodeConfig dec_delay n = Inr cfg" "parse_duration (dc_Duration cfg) = Some dur"
proof -
  from assms obtain c where "DecodeConfig n = Inr c" by (auto simp: node_ok_def)
  with DecodeConfig_shape(2) [OF this assms(2)] obtain cfg where c: "DecodeConfig n = Inr (CfgDelay cfg)" by auto
  with assms have "validateDuration (n_ID n) ''duration'' (dc_Duration cfg) = Inr ()" by (simp add: node_ok_def validateDurations_def Let_def)
  then obtain dur where "parse_duration (dc_Duration cfg) = Some dur" by (auto simp: validateDuration_def split: option.splits)
  with c show ?thesis using that by (simp add: DecodeConfig_kinds)
qed

lemma wf_wait:
  assumes "node_ok g n" "n_Type n = NodeTypeWaitEvent"
  obtains cfg dur where "decodeNodeConfig dec_wait n = Inr cfg" "parse_duration (wc_Timeout cfg) = Some dur"
proof -
  from assms obtain c where "DecodeConfig n = Inr c" by (auto simp: node_ok_def)
  with DecodeConfig_shape(4) [OF this assms(2)] obtain cfg where c: "DecodeConfig n = Inr (CfgWait cfg)" by auto
  with assms have "validateDuration (n_ID n) ''timeout'' (wc_Timeout cfg) = Inr ()"
    by (simp add: node_ok_def validateDurations_def Let_def node_types)
  then obtain dur where "parse_duration (wc_Timeout cfg) = Some dur" by (auto simp: validateDuration_def split: option.splits)
  with c show ?thesis using that by (simp add: DecodeConfig_kinds)
qed

lemma wf_ai:
  assumes "node_ok g n" "outgoing_ok n es" "n_Type n = NodeTypeAIDecision"
  obtains cfg where "decodeNodeConfig dec_ai_decision n = Inr cfg" "aic_Fallback cfg \<in> set (aic_Branches cfg)"
    "branch_labels n = Some (aic_Branches cfg)"
proof -
  from assms obtain c where "DecodeConfig n = Inr c" by (auto simp: node_ok_def)
  with DecodeConfig_shape(5) [OF this assms(3)] obtain cfg where c: "DecodeConfig n = Inr (CfgAIDecision cfg)" by auto
  moreover from c assms(3) have "branch_labels n = Some (aic_Branches cfg)" by (simp add: branch_labels_def Let_def node_types)
  moreover from c assms(2) have "aic_Fallback cfg \<in> set (aic_Branches cfg)" by (simp add: outgoing_ok_def fallback_ok_def)
  ultimately show ?thesis using that by (simp add: DecodeConfig_kinds)
qed

lemma wf_extension:
  assumes "node_ok g n" "outgoing_ok n es" "n_Type n = NodeTypeExtensionAction \<or> n_Type n = NodeTypeExtensionCondition"
  obtains cfg where "decodeNodeConfig dec_extension n = Inr cfg" "xc_Fallback cfg \<in> set (xc_Branches cfg)"
    "branch_labels n = Some (xc_Branches cfg)"
proof -
  from assms obtain c where "DecodeConfig n = Inr c" by (auto simp: node_ok_def)
  with DecodeConfig_shape(6) [OF this assms(3)] obtain cfg where c: "DecodeConfig n = Inr (CfgExtension cfg)" by auto
  moreover from c assms(3) have "branch_labels n = Some (xc_Branches cfg)" by (auto simp: branch_labels_def Let_def node_types)
  moreover from c assms(2) have "xc_Fallback cfg \<in> set (xc_Branches cfg)" by (simp add: outgoing_ok_def fallback_ok_def)
  ultimately show ?thesis using that by (simp add: DecodeConfig_kinds)
qed

lemma execAIDecision_total:
  assumes g: "graph_wf g" and n: "n \<in> set (g_Nodes g)" and ty: "n_Type n = NodeTypeAIDecision"
  shows "\<exists>res w'. run_state (execAIDecision gw n run g now) w = (Inr res, w')"
proof -
  from wf_node [OF g n] wf_ai ty obtain cfg where c: "decodeNodeConfig dec_ai_decision n = Inr cfg"
    "aic_Fallback cfg \<in> set (aic_Branches cfg)" "branch_labels n = Some (aic_Branches cfg)" by metis
  obtain b act w' where d: "run_state (decide_ai gw run cfg) w = ((b, act), w')" by (metis prod.exhaust)
  with decide_ai_in [OF c(2), of gw run w] have "b \<in> set (aic_Branches cfg)" by simp
  from wf_branch [OF g n c(3) this] obtain res where
    "take_branch g n run now b (Some (JObj [(''ai_activity_id'', JStr act)])) = Inr res" by blast
  with c(1) d show ?thesis by (simp add: execAIDecision_def)
qed

lemma execExtension_total:
  assumes g: "graph_wf g" and n: "n \<in> set (g_Nodes g)"
    and ty: "n_Type n = NodeTypeExtensionAction \<or> n_Type n = NodeTypeExtensionCondition"
  shows "\<exists>res w'. run_state (execExtension host n run g now) w = (Inr res, w')"
proof -
  from wf_node [OF g n] wf_extension ty obtain cfg where c: "decodeNodeConfig dec_extension n = Inr cfg"
    "xc_Fallback cfg \<in> set (xc_Branches cfg)" "branch_labels n = Some (xc_Branches cfg)" by metis
  obtain b act w' where d: "run_state (decide_extension host n run cfg) w = ((b, act), w')" by (metis prod.exhaust)
  with decide_extension_in [OF c(2), of host n run w] have "b \<in> set (xc_Branches cfg)" by simp
  from wf_branch [OF g n c(3) this] obtain res where
    "take_branch g n run now b (Some (JObj [(''extension_activity_id'', JStr act)])) = Inr res" by blast
  with c(1) d show ?thesis by (simp add: execExtension_def)
qed

lemma execWait_total:
  assumes "graph_wf g" "n \<in> set (g_Nodes g)" "n_Type n = NodeTypeWaitEvent"
  shows "\<exists>res. execWait n run g now kind = Inr res"
proof -
  from wf_node [OF assms(1,2)] wf_wait assms(3) obtain cfg dur where
    "decodeNodeConfig dec_wait n = Inr cfg" "parse_duration (wc_Timeout cfg) = Some dur" by metis
  moreover have "\<exists>j. findNextNode g (n_ID n) ''timeout'' = Inr j"
    using wf_successor [OF assms(1,2), of "[''success'', ''timeout'']" "''timeout''"] assms(3)
    by (auto simp: branch_labels_def Let_def node_types)
  ultimately show ?thesis by (auto simp: execWait_def Let_def)
qed

lemma execute_total:
  assumes g: "graph_wf g" and n: "n \<in> set (g_Nodes g)" and ty: "n_Type n \<in> self_contained"
  shows "\<exists>res w'. run_state (execute d n run g now kind) w = (Inr res, w')"
proof -
  from ty consider (lin) "n_Type n = NodeTypeEntry \<or> n_Type n = NodeTypeGoal" | (delay) "n_Type n = NodeTypeDelay"
    | (exit) "n_Type n = NodeTypeExit" | (wait) "n_Type n = NodeTypeWaitEvent" | (ai) "n_Type n = NodeTypeAIDecision"
    | (ext) "n_Type n = NodeTypeExtensionAction \<or> n_Type n = NodeTypeExtensionCondition" by auto
  then show ?thesis
  proof cases
    case lin
    then obtain j where "successor g n = Inr j" using wf_linear [OF g n] by auto
    with lin show ?thesis by (auto simp: execute_def Let_def execEntry_def execGoal_def node_types)
  next
    case delay
    with wf_linear [OF g n] wf_node [OF g n] wf_delay obtain j cfg dur where "successor g n = Inr j"
      "decodeNodeConfig dec_delay n = Inr cfg" "parse_duration (dc_Duration cfg) = Some dur" by (metis list.set_intros(1,2))
    with delay show ?thesis by (simp add: execute_def Let_def execDelay_def node_types)
  next
    case exit
    then show ?thesis by (simp add: execute_def Let_def node_types)
  next
    case wait
    with execWait_total [OF g n] show ?thesis by (auto simp: execute_def Let_def node_types)
  next
    case ai
    with execAIDecision_total [OF g n] show ?thesis by (simp add: execute_def Let_def node_types)
  next
    case ext
    with execExtension_total [OF g n] show ?thesis by (auto simp: execute_def Let_def node_types)
  qed
qed

end
