(* ===== verification/Identity.thy ===== *)
theory Identity
  imports JourneyStore
begin

text \<open>
  Identity resolution of \<^verbatim>\<open>internal/postgres/store.go\<close>: which profile an event is about, the merge of
  profiles that turn out to be one person, and its reversal. All of it runs inside the transaction that
  projects an event; each statement is a call that may fail, and a transaction whose body fails leaves the
  tables as they were. The snapshot of a merge goes to the blob store, which takes no part in the
  transaction.
\<close>

section \<open>Transactions\<close>

definition rolled_back :: "world \<Rightarrow> world \<Rightarrow> world" where
  "rolled_back w w' = w\<lparr>w_tick := w_tick w', w_seq := w_seq w', w_snapshots := w_snapshots w'\<rparr>"

text \<open>\<^verbatim>\<open>Begin\<close>, the body, and \<^verbatim>\<open>Commit\<close> or the deferred \<^verbatim>\<open>Rollback\<close>.\<close>

definition in_tx :: "'a call \<Rightarrow> 'a call" where
  "in_tx body = State (\<lambda>w.
     if w_fault w (w_tick w) then (Inl ErrDb, ticked w)
     else case run_state body (ticked w) of
       (Inl e, w1) \<Rightarrow> (Inl e, rolled_back w w1)
     | (Inr x, w1) \<Rightarrow> if w_fault w1 (w_tick w1) then (Inl ErrDb, rolled_back w (ticked w1)) else (Inr x, ticked w1))"

text \<open>A statement that computes on the tables and may violate a constraint.\<close>

definition stmt :: "(world \<Rightarrow> ('a \<times> world) result) \<Rightarrow> 'a call" where
  "stmt f = db (\<lambda>w. case f w of Inl e \<Rightarrow> (Inl e, w) | Inr (x, w') \<Rightarrow> (Inr x, w'))"

section \<open>Profiles\<close>

definition profile_id_is :: "string \<Rightarrow> profile_row \<Rightarrow> bool" where
  "profile_id_is i r \<longleftrightarrow> pr_ID r = i"

definition find_profile :: "string \<Rightarrow> world \<Rightarrow> profile_row option" where
  "find_profile i w = find (profile_id_is i) (w_profiles w)"

definition app_profile :: "accepted_event \<Rightarrow> profile_row \<Rightarrow> bool" where
  "app_profile event r \<longleftrightarrow> pr_TenantID r = p_TenantID (ae_Principal event) \<and> pr_AppID r = p_AppID (ae_Principal event)"

definition external_key :: "profile_row \<Rightarrow> (string \<times> string \<times> string) option" where
  "external_key r = map_option (\<lambda>x. (pr_TenantID r, pr_AppID r, x)) (pr_External r)"

definition anonymous_key :: "profile_row \<Rightarrow> (string \<times> string \<times> string) option" where
  "anonymous_key r = map_option (\<lambda>x. (pr_TenantID r, pr_AppID r, x)) (pr_Anonymous r)"

text \<open>The keys that are not null.\<close>

definition present :: "'a option list \<Rightarrow> 'a list" where
  "present xs = map the (filter (\<lambda>x. x \<noteq> None) xs)"

text \<open>The two partial unique indexes of the table.\<close>

definition profiles_ok :: "profile_row list \<Rightarrow> bool" where
  "profiles_ok rows \<longleftrightarrow> distinct (present (map external_key rows)) \<and> distinct (present (map anonymous_key rows))"

definition with_profiles :: "world \<Rightarrow> profile_row list \<Rightarrow> world result" where
  "with_profiles w rows = (if profiles_ok rows then Inr (w\<lparr>w_profiles := rows\<rparr>) else Inl ErrDb)"

definition write_profiles :: "(world \<Rightarrow> profile_row list) \<Rightarrow> unit call" where
  "write_profiles f = stmt (\<lambda>w. map_sum id (Pair ()) (with_profiles w (f w)))"

definition new_profile :: "accepted_event \<Rightarrow> string option \<Rightarrow> string option \<Rightarrow> world \<Rightarrow> profile_row" where
  "new_profile event external anonymous w =
     \<lparr>pr_TenantID = p_TenantID (ae_Principal event), pr_WorkspaceID = p_WorkspaceID (ae_Principal event),
      pr_AppID = p_AppID (ae_Principal event), pr_ID = new_id w, pr_External = external, pr_Anonymous = anonymous,
      pr_Attributes = empty_obj, pr_Version = 1, pr_UpdatedAt = w_now w, pr_MergedInto = None\<rparr>"

text \<open>\<^verbatim>\<open>INSERT ... ON CONFLICT(key) DO UPDATE SET updated_at=profiles.updated_at RETURNING id\<close>\<close>

definition upsert_profile :: "(profile_row \<Rightarrow> bool) \<Rightarrow> (world \<Rightarrow> profile_row) \<Rightarrow> string call" where
  "upsert_profile conflict row = stmt (\<lambda>w.
     case find conflict (w_profiles w) of
       Some r \<Rightarrow> Inr (pr_ID r, w)
     | None \<Rightarrow> map_sum id (Pair (pr_ID (row w))) (with_profiles (next_id w) (w_profiles w @ [row w])))"

text \<open>The value \<^verbatim>\<open>x || y\<close> of two \<^verbatim>\<open>jsonb\<close> values: objects are merged, anything else is concatenated as arrays.\<close>

definition as_array :: "json \<Rightarrow> json list" where
  "as_array j = (case j of JArr js \<Rightarrow> js | _ \<Rightarrow> [j])"

definition jsonb_or :: "raw \<Rightarrow> raw \<Rightarrow> raw" where
  "jsonb_or x y =
     (case (x, y) of
        (Some (JObj a), Some (JObj b)) \<Rightarrow> Some (JObj (jsonb_concat a b))
      | (Some a, Some b) \<Rightarrow> Some (JArr (as_array a @ as_array b))
      | _ \<Rightarrow> None)"

definition move_consents :: "string \<Rightarrow> string \<Rightarrow> unit call" where
  "move_consents to_id from_id = exec (\<lambda>w. w\<lparr>w_consents := upd_rows (\<lambda>c. co_ProfileID (cr_Consent c) = from_id)
     (\<lambda>c. c\<lparr>cr_Consent := (cr_Consent c)\<lparr>co_ProfileID := to_id\<rparr>\<rparr>) (w_consents w)\<rparr>)"

definition move_aliases :: "string \<Rightarrow> string \<Rightarrow> unit call" where
  "move_aliases to_id from_id = exec (\<lambda>w. w\<lparr>w_aliases := upd_rows (\<lambda>a. al_ProfileID a = from_id)
     (\<lambda>a. a\<lparr>al_ProfileID := to_id\<rparr>) (w_aliases w)\<rparr>)"

section \<open>ensureProfile\<close>

text \<open>\<^verbatim>\<open>UPDATE profiles target SET ... FROM profiles anonymous WHERE target.id=$1 AND anonymous.id=$2\<close>\<close>

definition absorb_anonymous :: "string \<Rightarrow> string \<Rightarrow> unit call" where
  "absorb_anonymous targetID anonymousID = write_profiles (\<lambda>w.
     case find_profile anonymousID w of
       None \<Rightarrow> w_profiles w
     | Some an \<Rightarrow> upd_rows (profile_id_is targetID)
         (\<lambda>r. r\<lparr>pr_Attributes := jsonb_or (pr_Attributes an) (pr_Attributes r),
                pr_Anonymous := (case pr_Anonymous r of None \<Rightarrow> pr_Anonymous an | Some x \<Rightarrow> Some x),
                pr_Version := pr_Version r + 1, pr_UpdatedAt := w_now w\<rparr>) (w_profiles w))"

definition merge_anonymous :: "string \<Rightarrow> string \<Rightarrow> string call" where
  "merge_anonymous externalID anonymousID =
     attempt (absorb_anonymous externalID anonymousID) failed (\<lambda>_.
     attempt (move_consents externalID anonymousID) failed (\<lambda>_.
     attempt (move_aliases externalID anonymousID) failed (\<lambda>_.
     attempt (write_profiles (\<lambda>w. upd_rows (profile_id_is anonymousID)
        (\<lambda>r. r\<lparr>pr_MergedInto := Some externalID, pr_External := None, pr_Version := pr_Version r + 1,
               pr_UpdatedAt := w_now w\<rparr>) (w_profiles w))) failed (\<lambda>_.
     ret (Inr externalID)))))"

definition insert_external :: "accepted_event \<Rightarrow> string call" where
  "insert_external event = upsert_profile
     (\<lambda>r. app_profile event r \<and> pr_External r = Some (ae_ExternalID event))
     (new_profile event (Some (ae_ExternalID event))
        (if ae_AnonymousID event = [] then None else Some (ae_AnonymousID event)))"

definition ensureProfile :: "accepted_event \<Rightarrow> string call" where
  "ensureProfile event =
     (if ae_ExternalID event \<noteq> [] then
        (if ae_AnonymousID event \<noteq> [] then
           attempt (query (\<lambda>w. Inr (find (\<lambda>r. app_profile event r \<and> pr_Anonymous r = Some (ae_AnonymousID event) \<and>
                                          pr_MergedInto r = None) (w_profiles w)))) failed (\<lambda>anon.
             case anon of
               None \<Rightarrow> insert_external event
             | Some an \<Rightarrow>
                 attempt (query (\<lambda>w. Inr (find (\<lambda>r. app_profile event r \<and> pr_External r = Some (ae_ExternalID event))
                                             (w_profiles w)))) failed (\<lambda>ext.
                   case ext of
                     None \<Rightarrow> attempt (write_profiles (\<lambda>w. upd_rows (profile_id_is (pr_ID an))
                               (\<lambda>r. r\<lparr>pr_External := Some (ae_ExternalID event), pr_UpdatedAt := w_now w\<rparr>) (w_profiles w)))
                               failed (\<lambda>_. ret (Inr (pr_ID an)))
                   | Some ex \<Rightarrow> if pr_ID ex \<noteq> pr_ID an then merge_anonymous (pr_ID ex) (pr_ID an)
                                else ret (Inr (pr_ID ex))))
         else insert_external event)
      else upsert_profile (\<lambda>r. app_profile event r \<and> pr_Anonymous r = Some (ae_AnonymousID event))
             (new_profile event None (Some (ae_AnonymousID event))))"

section \<open>Merging\<close>

definition snapshot_key :: "accepted_event \<Rightarrow> string \<Rightarrow> string" where
  "snapshot_key event sourceID = ''identity-merges/'' @ p_TenantID (ae_Principal event) @ ''/'' @
     p_AppID (ae_Principal event) @ ''/'' @ ae_ID event @ ''/'' @ sourceID @ ''.json''"

definition app_aliases :: "accepted_event \<Rightarrow> string \<Rightarrow> world \<Rightarrow> alias_row list" where
  "app_aliases event profileID w = sort_key (\<lambda>a. (al_Namespace a, al_Value a))
     (filter (\<lambda>a. al_TenantID a = p_TenantID (ae_Principal event) \<and> al_AppID a = p_AppID (ae_Principal event) \<and>
                  al_ProfileID a = profileID) (w_aliases w))"

definition app_consents :: "accepted_event \<Rightarrow> string \<Rightarrow> world \<Rightarrow> consent_row list" where
  "app_consents event profileID w =
     sort_key (\<lambda>c. (co_Channel (cr_Consent c), co_Topic (cr_Consent c), co_OccurredAt (cr_Consent c), coalesce (cr_SourceEventID c)))
       (filter (\<lambda>c. cr_TenantID c = p_TenantID (ae_Principal event) \<and> cr_AppID c = p_AppID (ae_Principal event) \<and>
                    co_ProfileID (cr_Consent c) = profileID) (w_consents w))"

text \<open>A consent whose source event is gone cannot be scanned into the string of the snapshot.\<close>

definition snapshot_consent :: "consent_row \<Rightarrow> (consent \<times> raw \<times> string) option" where
  "snapshot_consent c = map_option (\<lambda>i. (cr_Consent c, cr_Evidence c, i)) (cr_SourceEventID c)"

definition take_snapshot :: "accepted_event \<Rightarrow> string \<Rightarrow> merge_snapshot call" where
  "take_snapshot event sourceID =
     attempt (query (\<lambda>w. case find (\<lambda>r. profile_id_is sourceID r \<and> app_profile event r) (w_profiles w) of
                None \<Rightarrow> Inl ErrNoRows
              | Some r \<Rightarrow> Inr \<lparr>sp_ID = pr_ID r, sp_ExternalID = pr_External r, sp_AnonymousID = pr_Anonymous r,
                  sp_Attributes = pr_Attributes r, sp_Version = pr_Version r, sp_UpdatedAt = pr_UpdatedAt r\<rparr>)) failed (\<lambda>sp.
     attempt (query (\<lambda>w. Inr (map (\<lambda>a. (al_Namespace a, al_Value a, al_SourceEventID a)) (app_aliases event sourceID w)))) failed (\<lambda>als.
     attempt (query (\<lambda>w. case those (map snapshot_consent (app_consents event sourceID w)) of
                None \<Rightarrow> Inl ErrDb | Some cs \<Rightarrow> Inr cs)) failed (\<lambda>cs.
     ret (Inr \<lparr>ms_Profile = sp, ms_Aliases = als, ms_Consents = cs\<rparr>))))"

text \<open>The blob store overwrites an object of the same key.\<close>

definition put_snapshot :: "string \<Rightarrow> merge_snapshot \<Rightarrow> unit call" where
  "put_snapshot key snapshot = db (\<lambda>w.
     if \<not> w_blobs w then (Inl (ErrNew ''identity merge snapshot blob store is not configured''), w)
     else (Inr (), w\<lparr>w_snapshots := (key, snapshot) # filter (\<lambda>(k, _). k \<noteq> key) (w_snapshots w)\<rparr>))"

definition absorb_source :: "string \<Rightarrow> string \<Rightarrow> unit call" where
  "absorb_source targetID sourceID = write_profiles (\<lambda>w.
     case find_profile sourceID w of
       None \<Rightarrow> w_profiles w
     | Some src \<Rightarrow> upd_rows (profile_id_is targetID)
         (\<lambda>r. r\<lparr>pr_Attributes := jsonb_or (pr_Attributes src) (pr_Attributes r),
                pr_Version := pr_Version r + 1, pr_UpdatedAt := w_now w\<rparr>) (w_profiles w))"

definition drop_shadowed :: "string \<Rightarrow> string \<Rightarrow> unit call" where
  "drop_shadowed sourceID targetID = exec (\<lambda>w. w\<lparr>w_aliases := filter (\<lambda>a. \<not> (al_ProfileID a = sourceID \<and>
     list_ex (\<lambda>b. al_ProfileID b = targetID \<and> al_Namespace b = al_Namespace a \<and> al_Value b = al_Value a) (w_aliases w)))
     (w_aliases w)\<rparr>)"

definition retire_source :: "string \<Rightarrow> string \<Rightarrow> unit call" where
  "retire_source sourceID targetID = write_profiles (\<lambda>w. upd_rows (profile_id_is sourceID)
     (\<lambda>r. r\<lparr>pr_MergedInto := Some targetID, pr_External := None, pr_Anonymous := None, pr_Version := pr_Version r + 1,
            pr_UpdatedAt := w_now w\<rparr>) (w_profiles w))"

text \<open>\<^verbatim>\<open>ON CONFLICT (source_event_id, source_profile_id) DO NOTHING\<close>\<close>

definition record_merge :: "accepted_event \<Rightarrow> string \<Rightarrow> string \<Rightarrow> string \<Rightarrow> unit call" where
  "record_merge event sourceID targetID key = exec (\<lambda>w.
     if list_ex (\<lambda>m. im_SourceEventID m = Some (ae_ID event) \<and> im_SourceID m = sourceID) (w_merges w) then w
     else (next_id w)\<lparr>w_merges := w_merges w @ [\<lparr>im_ID = new_id w, im_TenantID = p_TenantID (ae_Principal event),
            im_AppID = p_AppID (ae_Principal event), im_SourceID = sourceID, im_TargetID = targetID,
            im_SourceEventID = Some (ae_ID event), im_ReversalRef = key, im_UndoneAt = None, im_MergedAt = w_now w\<rparr>]\<rparr>)"

definition mergeProfiles :: "accepted_event \<Rightarrow> string \<Rightarrow> string \<Rightarrow> unit call" where
  "mergeProfiles event sourceID targetID =
     (if sourceID = targetID then ret (Inr ())
      else
        attempt (take_snapshot event sourceID) failed (\<lambda>snapshot.
        attempt (put_snapshot (snapshot_key event sourceID) snapshot) failed (\<lambda>_.
        attempt (absorb_source targetID sourceID) failed (\<lambda>_.
        attempt (move_consents targetID sourceID) failed (\<lambda>_.
        attempt (drop_shadowed sourceID targetID) failed (\<lambda>_.
        attempt (move_aliases targetID sourceID) failed (\<lambda>_.
        attempt (retire_source sourceID targetID) failed (\<lambda>_.
        record_merge event sourceID targetID (snapshot_key event sourceID)))))))))"

section \<open>Resolution\<close>

definition normalizeIdentityValue :: "string \<Rightarrow> string \<Rightarrow> string" where
  "normalizeIdentityValue namespace value =
     (if namespace = ''email'' \<or> namespace = ''phone'' then to_lower (trim_space value) else trim_space value)"

definition str_values :: "(string \<times> json) list \<Rightarrow> (string \<times> string) list" where
  "str_values kvs = concat (map (\<lambda>(k, j). case j of
     JStr s \<Rightarrow> if trim_space s \<noteq> [] then [(k, normalizeIdentityValue k s)] else []
   | _ \<Rightarrow> []) (last_members kvs))"

text \<open>
  The assignments to the map \<^verbatim>\<open>values\<close> in order; the last one of a namespace counts, and the keys are
  sorted by namespace.
\<close>

definition identityKeys :: "accepted_event \<Rightarrow> (string \<times> string) list" where
  "identityKeys event =
     (case Option.bind (ae_Payload event) (\<lambda>j. dec_map j None) of
        None \<Rightarrow> []
      | Some members \<Rightarrow>
          (let body = (case members of None \<Rightarrow> [] | Some kvs \<Rightarrow> kvs);
               nested = (\<lambda>k. case obj_get body k of Some (JObj kvs) \<Rightarrow> str_values kvs | _ \<Rightarrow> []);
               direct = (\<lambda>k. case obj_get body k of
                           Some (JStr s) \<Rightarrow> if trim_space s \<noteq> [] then [(k, normalizeIdentityValue k s)] else [] | _ \<Rightarrow> []);
               values = nested ''identities'' @ nested ''identity'' @ direct ''email'' @ direct ''phone'' @ direct ''user_id'' @
                        (if ae_ExternalID event \<noteq> [] then [(''user_id'', normalizeIdentityValue ''user_id'' (ae_ExternalID event))] else [])
           in map (\<lambda>k. (k, the (map_of (rev values) k))) (sort (remdups (map fst values)))))"

text \<open>The profile a key names: a registered namespace and a profile that is not merged away.\<close>

definition alias_candidates :: "accepted_event \<Rightarrow> string \<times> string \<Rightarrow> world \<Rightarrow> (int \<times> string) list" where
  "alias_candidates event key w = concat (map (\<lambda>a.
     concat (map (\<lambda>n. map (\<lambda>r. (ns_Priority n, pr_ID r))
         (filter (\<lambda>r. pr_ID r = al_ProfileID a \<and> pr_MergedInto r = None) (w_profiles w)))
       (filter (\<lambda>n. ns_TenantID n = al_TenantID a \<and> ns_AppID n = al_AppID a \<and> ns_Namespace n = al_Namespace a) (w_namespaces w))))
     (filter (\<lambda>a. al_TenantID a = p_TenantID (ae_Principal event) \<and> al_AppID a = p_AppID (ae_Principal event) \<and>
                  al_Namespace a = fst key \<and> al_Value a = snd key) (w_aliases w)))"

definition lookup_key :: "accepted_event \<Rightarrow> string \<times> string \<Rightarrow> (int \<times> string) option call" where
  "lookup_key event key = query (\<lambda>w. Inr (least_by (\<lambda>c. c) (alias_candidates event key w)))"

fun collect_candidates :: "accepted_event \<Rightarrow> (string \<times> string) list \<Rightarrow> (int \<times> string) list \<Rightarrow> (int \<times> string) list call" where
  "collect_candidates event [] candidates = ret (Inr candidates)"
| "collect_candidates event (key # keys) candidates =
     attempt (lookup_key event key) failed (\<lambda>found.
       case found of
         None \<Rightarrow> collect_candidates event keys candidates
       | Some c \<Rightarrow> collect_candidates event keys
                     (if snd c \<in> set (map snd candidates) then candidates else candidates @ [c]))"

fun merge_losers :: "accepted_event \<Rightarrow> string \<Rightarrow> (int \<times> string) list \<Rightarrow> string call" where
  "merge_losers event winner [] = ret (Inr winner)"
| "merge_losers event winner (loser # losers) =
     attempt (mergeProfiles event (snd loser) winner) failed (\<lambda>_. merge_losers event winner losers)"

definition resolveIdentity :: "accepted_event \<Rightarrow> string call" where
  "resolveIdentity event =
     (if identityKeys event = [] then ret (Inr [])
      else attempt (collect_candidates event (identityKeys event) []) failed (\<lambda>candidates.
        case sort candidates of
          [] \<Rightarrow> ret (Inr [])
        | winner # losers \<Rightarrow> merge_losers event (snd winner) losers))"

section \<open>Unmerging\<close>

definition find_merge :: "accepted_event \<Rightarrow> string \<Rightarrow> string \<Rightarrow> world \<Rightarrow> merge_row option result" where
  "find_merge event mergeID sourceProfileID w =
     (let here = (\<lambda>m. im_TenantID m = p_TenantID (ae_Principal event) \<and> im_AppID m = p_AppID (ae_Principal event))
      in if mergeID \<noteq> [] then
           (if \<not> w_is_uuid w mergeID then Inl ErrDb else Inr (find (\<lambda>m. here m \<and> im_ID m = mergeID) (w_merges w)))
         else if \<not> w_is_uuid w sourceProfileID then Inl ErrDb
         else Inr (least_by (\<lambda>m. - im_MergedAt m)
                (filter (\<lambda>m. here m \<and> im_SourceID m = sourceProfileID \<and> im_UndoneAt m = None) (w_merges w))))"

definition restore_profile :: "snapshot_profile \<Rightarrow> string \<Rightarrow> string \<Rightarrow> unit call" where
  "restore_profile sp sourceID targetID = write_profiles (\<lambda>w. upd_rows
     (\<lambda>r. pr_ID r = sourceID \<and> pr_MergedInto r = Some targetID)
     (\<lambda>r. r\<lparr>pr_External := sp_ExternalID sp, pr_Anonymous := sp_AnonymousID sp, pr_Attributes := sp_Attributes sp,
            pr_Version := sp_Version sp, pr_MergedInto := None, pr_UpdatedAt := sp_UpdatedAt sp\<rparr>) (w_profiles w))"

fun restore_aliases :: "accepted_event \<Rightarrow> string \<Rightarrow> string \<Rightarrow> (string \<times> string \<times> string option) list \<Rightarrow> unit call" where
  "restore_aliases event sourceID targetID [] = ret (Inr ())"
| "restore_aliases event sourceID targetID ((namespace, value, _) # rest) =
     attempt (exec (\<lambda>w. w\<lparr>w_aliases := upd_rows (\<lambda>a. al_TenantID a = p_TenantID (ae_Principal event) \<and>
         al_AppID a = p_AppID (ae_Principal event) \<and> al_Namespace a = namespace \<and> al_Value a = value \<and> al_ProfileID a = targetID)
         (\<lambda>a. a\<lparr>al_ProfileID := sourceID\<rparr>) (w_aliases w)\<rparr>)) failed (\<lambda>_. restore_aliases event sourceID targetID rest)"

fun restore_consents :: "accepted_event \<Rightarrow> string \<Rightarrow> (consent \<times> raw \<times> string) list \<Rightarrow> unit call" where
  "restore_consents event sourceID [] = ret (Inr ())"
| "restore_consents event sourceID ((_, _, sourceEventID) # rest) =
     attempt (exec (\<lambda>w. w\<lparr>w_consents := upd_rows (\<lambda>c. cr_TenantID c = p_TenantID (ae_Principal event) \<and>
         cr_AppID c = p_AppID (ae_Principal event) \<and> cr_SourceEventID c = Some sourceEventID)
         (\<lambda>c. c\<lparr>cr_Consent := (cr_Consent c)\<lparr>co_ProfileID := sourceID\<rparr>\<rparr>) (w_consents w)\<rparr>)) failed
       (\<lambda>_. restore_consents event sourceID rest)"

definition get_snapshot :: "string \<Rightarrow> merge_snapshot call" where
  "get_snapshot key = query (\<lambda>w.
     if key = [] \<or> \<not> w_blobs w then Inl (ErrNew ''identity merge has no reversible snapshot'')
     else case map_of (w_snapshots w) key of None \<Rightarrow> Inl (ErrNew ''object not found'') | Some s \<Rightarrow> Inr s)"

definition apply_unmerge :: "accepted_event \<Rightarrow> merge_row \<Rightarrow> unit call" where
  "apply_unmerge event m =
     attempt (get_snapshot (im_ReversalRef m)) failed (\<lambda>snapshot.
        if sp_ID (ms_Profile snapshot) \<noteq> im_SourceID m then failed (ErrNew ''identity merge snapshot source mismatch'')
        else
          attempt (restore_profile (ms_Profile snapshot) (im_SourceID m) (im_TargetID m)) failed (\<lambda>_.
          attempt (restore_aliases event (im_SourceID m) (im_TargetID m) (ms_Aliases snapshot)) failed (\<lambda>_.
          attempt (restore_consents event (im_SourceID m) (ms_Consents snapshot)) failed (\<lambda>_.
          exec (\<lambda>w. w\<lparr>w_merges := upd_rows (\<lambda>x. im_ID x = im_ID m) (\<lambda>x. x\<lparr>im_UndoneAt := Some (w_now w)\<rparr>) (w_merges w)\<rparr>)))))"

definition unmergeProfile :: "accepted_event \<Rightarrow> unit call" where
  "unmergeProfile event =
     (case Option.bind (Option.bind (ae_Payload event) obj_members)
             (\<lambda>kvs. Option.bind (str_field ''merge_id'' kvs) (\<lambda>a. map_option (Pair a) (str_field ''source_profile_id'' kvs))) of
        None \<Rightarrow> failed ErrJSON
      | Some (mergeID, sourceProfileID) \<Rightarrow>
          attempt (query (find_merge event mergeID sourceProfileID)) failed (\<lambda>found.
            case found of
              None \<Rightarrow> ret (Inr ())
            | Some m \<Rightarrow> if im_UndoneAt m \<noteq> None then ret (Inr ()) else apply_unmerge event m))"

end
