(* ===== verification/Projection.thy ===== *)
theory Projection
  imports Identity Policy
begin

text \<open>
  The projection of accepted events: \<^verbatim>\<open>ClaimProjectionJob\<close>, \<^verbatim>\<open>ProjectEvent\<close>, \<^verbatim>\<open>FailProjectionJob\<close> of
  \<^verbatim>\<open>internal/postgres/store.go\<close>, the facts of \<^verbatim>\<open>fact_projection.go\<close>, and the projector of
  \<^verbatim>\<open>internal/projector/projector.go\<close>. A projection is one transaction: it settles which profile the event is
  about, applies the event, and drives the journeys. Values decoded into \<^verbatim>\<open>any\<close> keep their exact numbers.
\<close>

section \<open>Payloads\<close>

definition payload_members :: "accepted_event \<Rightarrow> (string \<times> json) list option" where
  "payload_members event = Option.bind (ae_Payload event) obj_members"

definition with_body :: "'b option \<Rightarrow> err \<Rightarrow> ('b \<Rightarrow> 'a call) \<Rightarrow> 'a call" where
  "with_body body e k = (case body of None \<Rightarrow> failed e | Some b \<Rightarrow> k b)"

section \<open>Companies\<close>

record company_body =
  cb_ExternalID :: string
  cb_Name :: string
  cb_Attributes :: raw

definition dec_company :: "json \<Rightarrow> company_body \<Rightarrow> company_body option" where
  "dec_company j old = Option.bind (obj_members j) (\<lambda>kvs.
     Option.bind (dec_field dec_str ''external_id'' kvs (cb_ExternalID old)) (\<lambda>ext.
     Option.bind (dec_field dec_str ''name'' kvs (cb_Name old)) (\<lambda>name.
     map_option (\<lambda>attrs. \<lparr>cb_ExternalID = ext, cb_Name = name, cb_Attributes = attrs\<rparr>)
       (dec_field dec_raw ''attributes'' kvs (cb_Attributes old)))))"

definition dec_member :: "json \<Rightarrow> (string \<times> string) option" where
  "dec_member j = Option.bind (obj_members j) (\<lambda>kvs.
     Option.bind (str_field ''profile_external_id'' kvs) (\<lambda>ext. map_option (Pair ext) (str_field ''role'' kvs)))"

definition dec_company_update :: "(string \<times> json) list \<Rightarrow> (company_body \<times> (string \<times> string) list) option" where
  "dec_company_update kvs =
     Option.bind (dec_field dec_company ''company'' kvs \<lparr>cb_ExternalID = [], cb_Name = [], cb_Attributes = None\<rparr>) (\<lambda>c.
     Option.bind (list_field dec_member ''members'' kvs) (\<lambda>ms. if cb_Name c = [] then None else Some (c, ms)))"

definition upsert_company :: "accepted_event \<Rightarrow> company_body \<Rightarrow> string call" where
  "upsert_company event c = db (\<lambda>w.
     let ext = (if cb_ExternalID c = [] then None else Some (cb_ExternalID c));
         attrs = or_empty_obj (cb_Attributes c);
         hit = (\<lambda>r. cp_TenantID r = p_TenantID (ae_Principal event) \<and> cp_AppID r = p_AppID (ae_Principal event) \<and>
                    ext \<noteq> None \<and> cp_ExternalID r = ext)
     in case find hit (w_companies w) of
          Some r \<Rightarrow> (Inr (cp_ID r), w\<lparr>w_companies := upd_rows hit (\<lambda>r. r\<lparr>cp_Name := cb_Name c,
                       cp_Attributes := jsonb_or (cp_Attributes r) attrs, cp_Version := cp_Version r + 1\<rparr>) (w_companies w)\<rparr>)
        | None \<Rightarrow> (Inr (new_id w), (next_id w)\<lparr>w_companies := w_companies w @ [\<lparr>cp_ID = new_id w,
                     cp_TenantID = p_TenantID (ae_Principal event), cp_WorkspaceID = p_WorkspaceID (ae_Principal event),
                     cp_AppID = p_AppID (ae_Principal event), cp_ExternalID = ext, cp_Name = cb_Name c, cp_Attributes = attrs,
                     cp_Version = 1\<rparr>]\<rparr>))"

definition put_member :: "accepted_event \<Rightarrow> string \<Rightarrow> string \<Rightarrow> string \<Rightarrow> unit call" where
  "put_member event companyID profileID role = exec (\<lambda>w.
     let hit = (\<lambda>m. cm_CompanyID m = companyID \<and> cm_ProfileID m = profileID)
     in if list_ex hit (w_company_members w)
        then w\<lparr>w_company_members := upd_rows hit (\<lambda>m. m\<lparr>cm_Role := role\<rparr>) (w_company_members w)\<rparr>
        else w\<lparr>w_company_members := w_company_members w @ [\<lparr>cm_TenantID = p_TenantID (ae_Principal event),
               cm_CompanyID = companyID, cm_ProfileID = profileID, cm_Role = role\<rparr>]\<rparr>)"

fun put_members :: "accepted_event \<Rightarrow> string \<Rightarrow> (string \<times> string) list \<Rightarrow> unit call" where
  "put_members event companyID [] = ret (Inr ())"
| "put_members event companyID ((ext, role) # members) =
     (if ext = [] then put_members event companyID members
      else attempt (query (\<lambda>w. case find (\<lambda>r. app_profile event r \<and> pr_WorkspaceID r = p_WorkspaceID (ae_Principal event) \<and>
                                           pr_External r = Some ext) (w_profiles w) of
                 None \<Rightarrow> Inl ErrNoRows | Some r \<Rightarrow> Inr (pr_ID r))) failed (\<lambda>profileID.
           attempt (put_member event companyID profileID role) failed (\<lambda>_. put_members event companyID members)))"

definition project_company :: "accepted_event \<Rightarrow> unit call" where
  "project_company event =
     with_body (Option.bind (payload_members event) dec_company_update)
       (ErrNew ''company.updated payload requires company name'') (\<lambda>(c, members).
     attempt (upsert_company event c) failed (\<lambda>companyID.
     attempt (exec (\<lambda>w. w\<lparr>w_company_members := filter (\<lambda>m. \<not> (cm_TenantID m = p_TenantID (ae_Principal event) \<and>
        cm_CompanyID m = companyID)) (w_company_members w)\<rparr>)) failed (\<lambda>_.
     put_members event companyID members)))"

section \<open>Profiles and consent\<close>

definition dec_attributes :: "(string \<times> json) list \<Rightarrow> (string \<times> json) list option" where
  "dec_attributes kvs = Option.bind (dec_field dec_map ''attributes'' kvs None) (\<lambda>m. m)"

definition project_profile :: "accepted_event \<Rightarrow> string \<Rightarrow> unit call" where
  "project_profile event profileID =
     with_body (Option.bind (payload_members event) dec_attributes)
       (ErrNew ''profile.updated payload requires an attributes object'') (\<lambda>attrs.
     write_profiles (\<lambda>w. upd_rows (profile_id_is profileID)
       (\<lambda>r. r\<lparr>pr_Attributes := merge_attributes (pr_Attributes r) (Some attrs), pr_Version := pr_Version r + 1,
              pr_UpdatedAt := w_now w\<rparr>) (w_profiles w)))"

record consent_body =
  cs_Channel :: string
  cs_Topic :: string
  cs_State :: string
  cs_Evidence :: "(string \<times> json) list option"

definition dec_consent :: "(string \<times> json) list \<Rightarrow> consent_body option" where
  "dec_consent kvs =
     Option.bind (str_field ''channel'' kvs) (\<lambda>ch.
     Option.bind (str_field ''topic'' kvs) (\<lambda>topic.
     Option.bind (str_field ''state'' kvs) (\<lambda>st.
     map_option (\<lambda>ev. \<lparr>cs_Channel = ch, cs_Topic = (if topic = [] then ''marketing'' else topic), cs_State = st, cs_Evidence = ev\<rparr>)
       (dec_field dec_map ''evidence'' kvs None))))"

text \<open>\<^verbatim>\<open>ON CONFLICT(source_event_id,channel,topic) DO NOTHING\<close>\<close>

definition add_consent :: "accepted_event \<Rightarrow> string \<Rightarrow> consent_body \<Rightarrow> world \<Rightarrow> world" where
  "add_consent event profileID b w =
     (if list_ex (\<lambda>c. cr_SourceEventID c = Some (ae_ID event) \<and> co_Channel (cr_Consent c) = to_lower (cs_Channel b) \<and>
                      co_Topic (cr_Consent c) = cs_Topic b) (w_consents w) then w
      else w\<lparr>w_consents := w_consents w @ [\<lparr>cr_TenantID = p_TenantID (ae_Principal event),
             cr_WorkspaceID = p_WorkspaceID (ae_Principal event), cr_AppID = p_AppID (ae_Principal event),
             cr_Consent = \<lparr>co_ProfileID = profileID, co_Channel = to_lower (cs_Channel b), co_Topic = cs_Topic b,
                           co_State = cs_State b, co_OccurredAt = ae_OccurredAt event\<rparr>,
             cr_Evidence = Some (case cs_Evidence b of None \<Rightarrow> JNull | Some kvs \<Rightarrow> JObj kvs),
             cr_SourceEventID = Some (ae_ID event)\<rparr>]\<rparr>)"

text \<open>The address of the channel among the attributes; a failed read shows in the next statement.\<close>

definition consent_endpoint :: "string \<Rightarrow> string \<Rightarrow> world \<Rightarrow> string" where
  "consent_endpoint channel profileID w =
     (case find_profile profileID w of
        None \<Rightarrow> []
      | Some r \<Rightarrow>
         (case Option.bind (pr_Attributes r) (\<lambda>j. dec_map j None) of
            None \<Rightarrow> []
          | Some attrs \<Rightarrow>
              (let kvs = (case attrs of None \<Rightarrow> [] | Some kvs \<Rightarrow> kvs)
               in if channel = ''sms'' then coalesce (obj_str kvs ''phone'')
                  else if channel = ''email'' then coalesce (obj_str kvs ''email'') else [])))"

definition add_suppression :: "accepted_event \<Rightarrow> string \<Rightarrow> string \<Rightarrow> string \<Rightarrow> world \<Rightarrow> world" where
  "add_suppression event channel endpoint reason w =
     (if list_ex (suppresses (p_TenantID (ae_Principal event)) channel endpoint) (w_suppressions w) then w
      else (next_id w)\<lparr>w_suppressions := w_suppressions w @ [\<lparr>su_ID = new_id w, su_TenantID = p_TenantID (ae_Principal event),
             su_Channel = to_lower channel, su_Endpoint = to_lower endpoint, su_Reason = reason,
             su_SourceEventID = Some (ae_ID event), su_CreatedAt = w_now w\<rparr>]\<rparr>)"

definition lift_suppression :: "accepted_event \<Rightarrow> string \<Rightarrow> string \<Rightarrow> world \<Rightarrow> world" where
  "lift_suppression event channel endpoint w = w\<lparr>w_suppressions := filter (\<lambda>s.
     \<not> (suppresses (p_TenantID (ae_Principal event)) channel endpoint s \<and> su_Reason s = ''unsubscribe'')) (w_suppressions w)\<rparr>"

definition project_consent :: "accepted_event \<Rightarrow> string \<Rightarrow> unit call" where
  "project_consent event profileID =
     with_body (Option.bind (payload_members event) dec_consent) ErrJSON (\<lambda>b.
     if cs_Channel b = [] \<or> (cs_State b \<noteq> ''subscribed'' \<and> cs_State b \<noteq> ''unsubscribed'')
     then failed (ErrNew ''consent.changed requires channel and subscribed/unsubscribed state'')
     else
       attempt (exec (add_consent event profileID b)) failed (\<lambda>_.
       attempt (query (\<lambda>w. Inr (consent_endpoint (cs_Channel b) profileID w))) failed (\<lambda>endpoint.
       if endpoint = [] then ret (Inr ())
       else if cs_State b = ''unsubscribed'' then exec (add_suppression event (cs_Channel b) endpoint ''unsubscribe'')
       else exec (lift_suppression event (cs_Channel b) endpoint))))"

definition project_bounce :: "accepted_event \<Rightarrow> unit call" where
  "project_bounce event =
     with_body (Option.bind (payload_members event) (\<lambda>kvs. Option.bind (str_field ''channel'' kvs) (\<lambda>ch.
        Option.bind (str_field ''endpoint'' kvs) (\<lambda>ep. map_option (\<lambda>_. (ch, ep)) (str_field ''bounce_type'' kvs))))) ErrJSON (\<lambda>(ch, ep).
     if ep = [] then failed (ErrNew ''bounce/complaint event payload requires an endpoint'')
     else exec (add_suppression event (if ch = [] then ''email'' else ch) ep
            (if ae_Type event = ''message.complained'' then ''complaint'' else ''bounce'')))"

section \<open>Identities\<close>

text \<open>A \<^verbatim>\<open>map[string]string\<close>: every value is a string or null.\<close>

fun dec_str_members :: "(string \<times> json) list \<Rightarrow> (string \<times> string) list option" where
  "dec_str_members [] = Some []"
| "dec_str_members ((k, j) # kvs) =
     Option.bind (dec_str j []) (\<lambda>s. map_option (Cons (k, s)) (dec_str_members kvs))"

definition dec_str_map :: "json \<Rightarrow> (string \<times> string) list option \<Rightarrow> (string \<times> string) list option option" where
  "dec_str_map j old =
     (case j of
        JObj kvs \<Rightarrow> map_option (\<lambda>m. Some (case old of None \<Rightarrow> m | Some o0 \<Rightarrow> o0 @ m)) (dec_str_members kvs)
      | JNull \<Rightarrow> Some None
      | _ \<Rightarrow> None)"

definition dec_alias :: "(string \<times> json) list \<Rightarrow> (string \<times> string) list option" where
  "dec_alias kvs =
     Option.bind (str_field ''namespace'' kvs) (\<lambda>ns.
     Option.bind (str_field ''value'' kvs) (\<lambda>v.
     map_option (\<lambda>ids. case ids of None \<Rightarrow> [(ns, v)] | Some m \<Rightarrow> if m = [] then [(ns, v)] else m)
       (dec_field dec_str_map ''identities'' kvs None)))"

definition put_alias :: "accepted_event \<Rightarrow> string \<Rightarrow> string \<Rightarrow> string \<Rightarrow> world \<Rightarrow> world" where
  "put_alias event profileID namespace value w =
     (let hit = (\<lambda>a. al_TenantID a = p_TenantID (ae_Principal event) \<and> al_AppID a = p_AppID (ae_Principal event) \<and>
                     al_Namespace a = namespace \<and> al_Value a = value)
      in if list_ex hit (w_aliases w)
         then w\<lparr>w_aliases := upd_rows hit (\<lambda>a. a\<lparr>al_ProfileID := profileID, al_SourceEventID := Some (ae_ID event)\<rparr>) (w_aliases w)\<rparr>
         else w\<lparr>w_aliases := w_aliases w @ [\<lparr>al_TenantID = p_TenantID (ae_Principal event), al_AppID = p_AppID (ae_Principal event),
                al_Namespace = namespace, al_Value = value, al_ProfileID = profileID, al_SourceEventID = Some (ae_ID event)\<rparr>]\<rparr>)"

fun put_aliases :: "accepted_event \<Rightarrow> string \<Rightarrow> (string \<times> string) list \<Rightarrow> string list \<Rightarrow> unit call" where
  "put_aliases event profileID m [] = ret (Inr ())"
| "put_aliases event profileID m (k # ks) =
     (let namespace = trim_space k; value = normalizeIdentityValue namespace (coalesce (map_of (rev m) k))
      in if namespace = [] \<or> value = [] then failed (ErrNew ''identity.alias contains an empty namespace or value'')
         else attempt (exec (put_alias event profileID namespace value)) failed (\<lambda>_. put_aliases event profileID m ks))"

text \<open>The aliases are visited in the order of the Go map.\<close>

definition project_alias :: "accepted_event \<Rightarrow> string \<Rightarrow> unit call" where
  "project_alias event profileID =
     with_body (Option.bind (payload_members event) dec_alias) ErrJSON (\<lambda>m.
     State_Monad.bind (State (\<lambda>w. (w_order w (remdups (map fst m)), w))) (put_aliases event profileID m))"

definition project_merge :: "accepted_event \<Rightarrow> string \<Rightarrow> unit call" where
  "project_merge event profileID =
     with_body (Option.bind (payload_members event) (str_field ''source_external_id'')) ErrJSON (\<lambda>ext.
     attempt (query (\<lambda>w. Inr (find (\<lambda>r. app_profile event r \<and> pr_External r = Some ext) (w_profiles w)))) failed (\<lambda>src.
       case src of
         None \<Rightarrow> ret (Inr ())
       | Some r \<Rightarrow> if pr_ID r \<noteq> profileID then mergeProfiles event (pr_ID r) profileID else ret (Inr ())))"

section \<open>In-app messages and exposures\<close>

definition message_id :: "accepted_event \<Rightarrow> string option" where
  "message_id event = Option.bind (payload_members event) (str_field ''message_id'')"

definition inapp_rule :: "string \<Rightarrow> time \<Rightarrow> (inapp_row \<Rightarrow> bool) \<times> (inapp_row \<Rightarrow> inapp_row)" where
  "inapp_rule ty now =
     (if ty = ''message.impression''
      then (\<lambda>m. ia_DismissedAt m = None \<and> ia_DisplayedAt m = None \<and> ia_ClickedAt m = None,
            \<lambda>m. m\<lparr>ia_DisplayedAt := Some now, ia_Status := ''displayed'', ia_UpdatedAt := now\<rparr>)
      else if ty = ''message.clicked''
      then (\<lambda>m. ia_ClickedAt m = None, \<lambda>m. m\<lparr>ia_ClickedAt := Some now, ia_Status := ''clicked'', ia_UpdatedAt := now\<rparr>)
      else if ty = ''message.dismissed''
      then (\<lambda>m. ia_DismissedAt m = None, \<lambda>m. m\<lparr>ia_DismissedAt := Some now, ia_Status := ''dismissed'', ia_UpdatedAt := now\<rparr>)
      else (\<lambda>m. ia_Status m \<noteq> ''expired'', \<lambda>m. m\<lparr>ia_Status := ''expired'', ia_UpdatedAt := now\<rparr>))"

definition project_inapp :: "accepted_event \<Rightarrow> unit call" where
  "project_inapp event =
     with_body (message_id event) ErrJSON (\<lambda>i.
     if i = [] then failed (ErrNew (ae_Type event @ '' payload requires message_id''))
     else stmt (\<lambda>w.
       if \<not> w_is_uuid w i then Inl ErrDb
       else case inapp_rule (ae_Type event) (w_now w) of (guard, upd) \<Rightarrow>
         Inr ((), w\<lparr>w_inapp := upd_rows (\<lambda>m. ia_ID m = i \<and> ia_TenantID m = p_TenantID (ae_Principal event) \<and> guard m)
                upd (w_inapp w)\<rparr>)))"

definition count_exposure :: "accepted_event \<Rightarrow> string \<Rightarrow> string \<Rightarrow> string \<Rightarrow> world \<Rightarrow> (unit \<times> world) result" where
  "count_exposure event flagID variant env w =
     (let hit = (\<lambda>x. xr_FlagID x = flagID \<and> xr_Environment x = env \<and> xr_Variant x = variant)
      in if flagID \<notin> set (map ff_ID (w_flags w)) then Inl ErrDb
         else Inr ((), if list_ex hit (w_exposures w)
           then w\<lparr>w_exposures := upd_rows hit (\<lambda>x. x\<lparr>xr_Exposures := xr_Exposures x + 1\<rparr>) (w_exposures w)\<rparr>
           else w\<lparr>w_exposures := w_exposures w @ [\<lparr>xr_TenantID = p_TenantID (ae_Principal event), xr_AppID = p_AppID (ae_Principal event),
                  xr_FlagID = flagID, xr_Environment = env, xr_Variant = variant, xr_Exposures = 1\<rparr>]\<rparr>))"

definition project_exposure :: "accepted_event \<Rightarrow> unit call" where
  "project_exposure event =
     with_body (Option.bind (payload_members event) (\<lambda>kvs. Option.bind (str_field ''flag_id'' kvs) (\<lambda>f.
        Option.bind (str_field ''variant'' kvs) (\<lambda>v. map_option (\<lambda>e. (f, v, e)) (str_field ''environment'' kvs))))) ErrJSON
     (\<lambda>(flagID, variant, env).
       if flagID = [] \<or> variant = [] \<or> env = []
       then failed (ErrNew ''feature_flag.exposure payload requires flag_id, variant, and environment'')
       else stmt (count_exposure event flagID variant env))"

section \<open>Facts\<close>

text \<open>\<^verbatim>\<open>j ->> key\<close>\<close>

definition jsonb_field :: "string \<Rightarrow> raw \<Rightarrow> json option" where
  "jsonb_field k j = (case j of Some (JObj kvs) \<Rightarrow> obj_get kvs k | _ \<Rightarrow> None)"

definition jsonb_field_text :: "world \<Rightarrow> string \<Rightarrow> raw \<Rightarrow> string option" where
  "jsonb_field_text w k j = (case jsonb_field k j of
     None \<Rightarrow> None | Some JNull \<Rightarrow> None | Some (JStr s) \<Rightarrow> Some s | Some v \<Rightarrow> Some (w_jsonb_text w v))"

text \<open>
  \<^verbatim>\<open>left @> right\<close>: the structure of the right value occurs in the left one. An array may contain a scalar
  directly, at the top level only.
\<close>

fun is_scalar :: "json \<Rightarrow> bool" where
  "is_scalar (JArr js) = False"
| "is_scalar (JObj kvs) = False"
| "is_scalar j = True"

definition same_scalar :: "json \<Rightarrow> json \<Rightarrow> bool" where
  "same_scalar a b \<longleftrightarrow> is_scalar a \<and> is_scalar b \<and> json_canon a = json_canon b"

fun contains_in :: "json \<Rightarrow> json \<Rightarrow> bool" where
  "contains_in (JObj b) a = (case a of
     JObj as \<Rightarrow> (\<forall>kv \<in> set b. case obj_get as (fst kv) of None \<Rightarrow> False | Some x \<Rightarrow> contains_in (snd kv) x) | _ \<Rightarrow> False)"
| "contains_in (JArr bs) a = (case a of
     JArr as \<Rightarrow> (\<forall>y \<in> set bs. \<exists>x \<in> set as. contains_in y x) | _ \<Rightarrow> False)"
| "contains_in b a = same_scalar a b"

definition jsonb_contains :: "json \<Rightarrow> json \<Rightarrow> bool" where
  "jsonb_contains a b \<longleftrightarrow> contains_in b a \<or> (case a of JArr as \<Rightarrow> is_scalar b \<and> (\<exists>x \<in> set as. same_scalar x b) | _ \<Rightarrow> False)"

text \<open>A message that was sent, from a campaign or a journey, as the fact queries see it.\<close>

record sent_message =
  sn_SourceType :: string
  sn_SourceID :: string
  sn_NodeID :: "string option"
  sn_ExperimentID :: "string option"
  sn_Variant :: string
  sn_ProfileID :: string
  sn_Channel :: string
  sn_Endpoint :: string
  sn_Decision :: string
  sn_ProviderMessageID :: string
  sn_SentAt :: time
  sn_Goal :: raw
  sn_Window :: "string option"
  sn_CostMicros :: int

definition campaign_sends :: "accepted_event \<Rightarrow> world \<Rightarrow> sent_message list" where
  "campaign_sends event w = concat (map (\<lambda>a. map (\<lambda>c.
       \<lparr>sn_SourceType = ''campaign'', sn_SourceID = da_CampaignID a, sn_NodeID = None, sn_ExperimentID = da_ExperimentID a,
        sn_Variant = da_Variant a, sn_ProfileID = da_ProfileID a, sn_Channel = da_Channel a, sn_Endpoint = da_Endpoint a,
        sn_Decision = da_Decision a, sn_ProviderMessageID = da_ProviderMessageID a, sn_SentAt = da_AttemptedAt a,
        sn_Goal = ca_ConversionGoal c, sn_Window = ca_AttributionWindow c, sn_CostMicros = da_CostMicros a\<rparr>)
     (filter (\<lambda>c. ca_ID c = da_CampaignID a \<and> ca_TenantID c = p_TenantID (ae_Principal event) \<and>
                  ca_WorkspaceID c = p_WorkspaceID (ae_Principal event)) (w_campaigns w)))
     (filter (\<lambda>a. da_TenantID a = p_TenantID (ae_Principal event)) (w_attempts w)))"

definition intent_sent :: "message_intent \<Rightarrow> raw \<Rightarrow> string option \<Rightarrow> sent_message" where
  "intent_sent i goal win =
     \<lparr>sn_SourceType = ''journey'', sn_SourceID = mi_JourneyID i, sn_NodeID = Some (mi_NodeID i), sn_ExperimentID = mi_ExperimentID i,
      sn_Variant = mi_Variant i, sn_ProfileID = mi_ProfileID i, sn_Channel = mi_Channel i, sn_Endpoint = mi_Endpoint i,
      sn_Decision = coalesce (mi_Decision i), sn_ProviderMessageID = coalesce (mi_ProviderMessageID i), sn_SentAt = mi_UpdatedAt i,
      sn_Goal = goal, sn_Window = win, sn_CostMicros = mi_CostMicros i\<rparr>"

definition here_intents :: "accepted_event \<Rightarrow> world \<Rightarrow> message_intent list" where
  "here_intents event w = filter (\<lambda>i. mi_TenantID i = p_TenantID (ae_Principal event) \<and>
     mi_WorkspaceID i = p_WorkspaceID (ae_Principal event)) (w_intents w)"

definition journey_sends :: "accepted_event \<Rightarrow> world \<Rightarrow> sent_message list" where
  "journey_sends event w = map (\<lambda>i. intent_sent i None None) (here_intents event w)"

definition goal_sends :: "accepted_event \<Rightarrow> world \<Rightarrow> sent_message list" where
  "goal_sends event w = concat (map (\<lambda>i. map (\<lambda>v. intent_sent i (jv_ConversionGoal v) (jv_AttributionWindow v))
     (filter (\<lambda>v. jv_ID v = mi_JourneyVersionID i \<and> jv_TenantID v = p_TenantID (ae_Principal event) \<and>
                  jv_WorkspaceID v = p_WorkspaceID (ae_Principal event)) (w_versions w))) (here_intents event w))"

text \<open>\<^verbatim>\<open>NULLIF(x,'') IS NULL OR col = x\<close>\<close>

definition unless_given :: "string \<Rightarrow> string \<Rightarrow> bool" where
  "unless_given x col \<longleftrightarrow> x = [] \<or> col = x"

record engagement_payload =
  ep_CampaignID :: string
  ep_JourneyID :: string
  ep_NodeID :: string
  ep_Channel :: string
  ep_Endpoint :: string
  ep_ProviderMessageID :: string

definition dec_engagement :: "(string \<times> json) list \<Rightarrow> engagement_payload option" where
  "dec_engagement kvs =
     Option.bind (str_field ''campaign_id'' kvs) (\<lambda>c. Option.bind (str_field ''journey_id'' kvs) (\<lambda>j.
     Option.bind (str_field ''node_id'' kvs) (\<lambda>n. Option.bind (str_field ''channel'' kvs) (\<lambda>ch.
     Option.bind (str_field ''endpoint'' kvs) (\<lambda>e. map_option (\<lambda>m.
       \<lparr>ep_CampaignID = c, ep_JourneyID = j, ep_NodeID = n, ep_Channel = ch, ep_Endpoint = e, ep_ProviderMessageID = m\<rparr>)
       (str_field ''provider_message_id'' kvs))))))"

definition engagement_match :: "string \<Rightarrow> engagement_payload \<Rightarrow> sent_message \<Rightarrow> bool" where
  "engagement_match profileID e s \<longleftrightarrow>
     sn_Decision s \<in> set [''sent'', ''provider_sent''] \<and> unless_given profileID (sn_ProfileID s) \<and>
     unless_given (ep_Endpoint e) (sn_Endpoint s) \<and> unless_given (ep_ProviderMessageID e) (sn_ProviderMessageID s) \<and>
     (if sn_SourceType s = ''campaign''
      then unless_given (ep_CampaignID e) (sn_SourceID s) \<and> ep_JourneyID e = []
      else ep_CampaignID e = [] \<and> unless_given (ep_JourneyID e) (sn_SourceID s) \<and> unless_given (ep_NodeID e) (coalesce (sn_NodeID s)))"

definition engagement_type :: "string \<Rightarrow> string option" where
  "engagement_type ty = map_of [(''message.delivered'', ''delivered''), (''email.opened'', ''opened''), (''link.clicked'', ''clicked''),
     (''message.bounced'', ''bounced''), (''message.complained'', ''complained'')] ty"

definition add_engagement :: "accepted_event \<Rightarrow> string \<Rightarrow> sent_message \<Rightarrow> world \<Rightarrow> world" where
  "add_engagement event ty s w =
     (if list_ex (\<lambda>f. ef_SourceEventID f = ae_ID event \<and> ef_EventType f = ty) (w_engagements w) then w
      else w\<lparr>w_engagements := w_engagements w @ [\<lparr>ef_TenantID = p_TenantID (ae_Principal event),
        ef_WorkspaceID = p_WorkspaceID (ae_Principal event), ef_SourceType = sn_SourceType s, ef_SourceID = sn_SourceID s,
        ef_NodeID = sn_NodeID s, ef_ExperimentID = sn_ExperimentID s, ef_Variant = sn_Variant s, ef_ProfileID = sn_ProfileID s,
        ef_Channel = sn_Channel s, ef_EventType = ty, ef_OccurredAt = ae_OccurredAt event, ef_SourceEventID = ae_ID event,
        ef_CostMicros = sn_CostMicros s\<rparr>]\<rparr>)"

definition projectEngagementFact :: "accepted_event \<Rightarrow> string \<Rightarrow> unit call" where
  "projectEngagementFact event profileID =
     (case engagement_type (ae_Type event) of
        None \<Rightarrow> ret (Inr ())
      | Some ty \<Rightarrow>
          with_body (Option.bind (payload_members event) dec_engagement) ErrJSON (\<lambda>e.
          attempt (query (\<lambda>w. Inr (least_by (\<lambda>s. - sn_SentAt s)
             (filter (engagement_match profileID e) (campaign_sends event w @ journey_sends event w))))) failed (\<lambda>sent.
            case sent of
              None \<Rightarrow> ret (Inr ())
            | Some s \<Rightarrow>
                if ep_Channel e \<noteq> [] \<and> to_lower (ep_Channel e) \<noteq> to_lower (sn_Channel s) then ret (Inr ())
                else exec (add_engagement event ty s))))"

definition conversion_match :: "world \<Rightarrow> accepted_event \<Rightarrow> string \<Rightarrow> sent_message \<Rightarrow> bool" where
  "conversion_match w event profileID s \<longleftrightarrow>
     sn_ProfileID s = profileID \<and> sn_Decision s = ''sent'' \<and>
     jsonb_field_text w ''event_type'' (sn_Goal s) = Some (ae_Type event) \<and>
     (case sn_Window s of None \<Rightarrow> False | Some win \<Rightarrow>
        w_before w (ae_OccurredAt event) win \<le> sn_SentAt s \<and> sn_SentAt s \<le> ae_OccurredAt event) \<and>
     (case ae_Payload event of None \<Rightarrow> False | Some payload \<Rightarrow>
        jsonb_contains payload (case jsonb_field ''filter'' (sn_Goal s) of None \<Rightarrow> JObj [] | Some f \<Rightarrow> f))"

text \<open>
  \<^verbatim>\<open>strconv.ParseFloat\<close> on decimal notation, with an optional exponent. Values are exact; the notations that
  have no rational value (infinities, NaN) and hexadecimal ones are read as zero.
\<close>

definition parse_exponent :: "string \<Rightarrow> int option" where
  "parse_exponent s = (if s = [] then Some 0 else if hd s = CHR ''e'' \<or> hd s = CHR ''E'' then atoi (tl s) else None)"

definition parse_float :: "string \<Rightarrow> rat option" where
  "parse_float s =
    (let neg = (s \<noteq> [] \<and> hd s = CHR ''-'');
         s1 = (if s \<noteq> [] \<and> (hd s = CHR ''-'' \<or> hd s = CHR ''+'') then tl s else s);
         whole = takeWhile is_digit s1; s2 = dropWhile is_digit s1;
         dot = (s2 \<noteq> [] \<and> hd s2 = CHR ''.'');
         frac = (if dot then takeWhile is_digit (tl s2) else []);
         s3 = (if dot then dropWhile is_digit (tl s2) else s2);
         mant = of_int (digits_val (whole @ frac)) / 10 ^ length frac
     in if whole @ frac = [] then None
        else map_option (\<lambda>e. (if neg then -1 else 1) * mant * (if e \<ge> 0 then 10 ^ nat e else 1 / 10 ^ nat (- e))) (parse_exponent s3))"

text \<open>\<^verbatim>\<open>conversionValue\<close>\<close>

fun walk_path :: "string list \<Rightarrow> json \<Rightarrow> json option" where
  "walk_path [] j = Some j"
| "walk_path (part # parts) j = (case j of
     JObj kvs \<Rightarrow> Option.bind (obj_get kvs part) (walk_path parts) | _ \<Rightarrow> None)"

fun split_dots :: "string \<Rightarrow> string \<Rightarrow> string list" where
  "split_dots acc [] = [rev acc]"
| "split_dots acc (c # s) = (if c = CHR ''.'' then rev acc # split_dots [] s else split_dots (c # acc) s)"

definition conversionValue :: "raw \<Rightarrow> string \<Rightarrow> rat" where
  "conversionValue payload field =
     (if field = [] then 0
      else case Option.bind payload (walk_path (split_dots [] field)) of
        Some (JInt i) \<Rightarrow> of_int i
      | Some (JDec r) \<Rightarrow> r
      | Some (JStr s) \<Rightarrow> (case parse_float s of Some r \<Rightarrow> r | None \<Rightarrow> 0)
      | _ \<Rightarrow> 0)"

definition add_conversion :: "accepted_event \<Rightarrow> string \<Rightarrow> sent_message \<Rightarrow> string \<Rightarrow> rat \<Rightarrow> world \<Rightarrow> bool \<times> world" where
  "add_conversion event profileID s goal value w =
     (if list_ex (\<lambda>f. cf_SourceEventID f = ae_ID event \<and> cf_GoalName f = goal) (w_conversions w) then (False, w)
      else (True, w\<lparr>w_conversions := w_conversions w @ [\<lparr>cf_TenantID = p_TenantID (ae_Principal event),
        cf_WorkspaceID = p_WorkspaceID (ae_Principal event), cf_SourceType = sn_SourceType s, cf_SourceID = sn_SourceID s,
        cf_ExperimentID = sn_ExperimentID s, cf_Variant = sn_Variant s, cf_ProfileID = profileID, cf_GoalName = goal,
        cf_Value = value, cf_OccurredAt = ae_OccurredAt event, cf_SentAt = sn_SentAt s, cf_SourceEventID = ae_ID event,
        cf_CostMicros = sn_CostMicros s\<rparr>]\<rparr>))"

definition dec_goal :: "raw \<Rightarrow> (string \<times> string) option" where
  "dec_goal goal = Option.bind (Option.bind goal obj_members) (\<lambda>kvs.
     Option.bind (str_field ''name'' kvs) (\<lambda>n. map_option (Pair n) (str_field ''value_field'' kvs)))"

definition projectConversionFact :: "accepted_event \<Rightarrow> string \<Rightarrow> bool call" where
  "projectConversionFact event profileID =
     attempt (query (\<lambda>w. Inr (least_by (\<lambda>s. - sn_SentAt s)
        (filter (conversion_match w event profileID) (campaign_sends event w @ goal_sends event w))))) failed (\<lambda>sent.
       case sent of
         None \<Rightarrow> ret (Inr False)
       | Some s \<Rightarrow> with_body (dec_goal (sn_Goal s)) ErrJSON (\<lambda>(name, field).
           db (\<lambda>w. case add_conversion event profileID s (if name = [] then ae_Type event else name)
                        (conversionValue (ae_Payload event) field) w of (new, w') \<Rightarrow> (Inr new, w'))))"

section \<open>ProjectEvent\<close>

definition settle_profile :: "accepted_event \<Rightarrow> string call" where
  "settle_profile event =
     (if ae_Type event \<noteq> ''message.bounced'' \<and> ae_Type event \<noteq> ''message.complained'' \<and> ae_Type event \<noteq> ''identity.unmerge''
      then attempt (resolveIdentity event) failed (\<lambda>profileID. if profileID = [] then ensureProfile event else ret (Inr profileID))
      else ret (Inr []))"

definition apply_event :: "accepted_event \<Rightarrow> string \<Rightarrow> unit call" where
  "apply_event event profileID =
    (let ty = ae_Type event in
     if ty = ''company.updated'' then project_company event
     else if ty = ''profile.updated'' then project_profile event profileID
     else if ty = ''consent.changed'' then project_consent event profileID
     else if ty = ''message.bounced'' \<or> ty = ''message.complained'' then project_bounce event
     else if ty = ''identity.alias'' then project_alias event profileID
     else if ty = ''identity.merge'' then project_merge event profileID
     else if ty = ''identity.unmerge'' then unmergeProfile event
     else if ty \<in> set [''message.impression'', ''message.clicked'', ''message.dismissed'', ''message.expire''] then project_inapp event
     else if ty = ''feature_flag.exposure'' then project_exposure event
     else ret (Inr ()))"

definition done_job :: "time \<Rightarrow> projection_job \<Rightarrow> projection_job" where
  "done_job now j = j\<lparr>pj_Status := ''done'', pj_LockedUntil := None, pj_CompletedAt := Some now, pj_LastError := None\<rparr>"

definition finish_job :: "accepted_event \<Rightarrow> unit call" where
  "finish_job event = exec (\<lambda>w. w\<lparr>w_jobs := upd_rows (\<lambda>j. pj_EventID j = ae_ID event) (done_job (w_now w)) (w_jobs w)\<rparr>)"

definition drive_journeys :: "accepted_event \<Rightarrow> string \<Rightarrow> unit call" where
  "drive_journeys event profileID = stmt (\<lambda>w. map_sum id (Pair ()) (project_journeys event profileID w))"

definition project_body :: "accepted_event \<Rightarrow> unit call" where
  "project_body event =
     attempt (settle_profile event) failed (\<lambda>profileID.
     attempt (apply_event event profileID) failed (\<lambda>_.
     attempt (projectEngagementFact event profileID) (wrapped ''project engagement fact'') (\<lambda>_.
     attempt (if profileID \<noteq> [] then projectConversionFact event profileID else ret (Inr False))
       (wrapped ''project conversion fact'') (\<lambda>_.
     attempt (drive_journeys event profileID) failed (\<lambda>_.
     finish_job event)))))"

definition ProjectEvent :: "accepted_event \<Rightarrow> unit call" where
  "ProjectEvent event = in_tx (project_body event)"

section \<open>The queue of projections\<close>

definition job_ready :: "time \<Rightarrow> projection_job \<Rightarrow> bool" where
  "job_ready now j \<longleftrightarrow> (pj_Status j = ''pending'' \<or> pj_Status j = ''processing'' \<and> (case pj_LockedUntil j of None \<Rightarrow> False | Some t \<Rightarrow> t < now)) \<and>
     pj_AvailableAt j \<le> now"

definition job_unfinished :: "projection_job \<Rightarrow> bool" where
  "job_unfinished j \<longleftrightarrow> pj_Status j \<noteq> ''done'' \<and> pj_Status j \<noteq> ''dead''"

definition event_of :: "world \<Rightarrow> projection_job \<Rightarrow> accepted_event option" where
  "event_of w j = find (\<lambda>e. ae_ID e = pj_EventID j) (w_events w)"

text \<open>An earlier job holds back a later one of the same tenant that has its partition key or its subject.\<close>

definition holds_back :: "world \<Rightarrow> projection_job \<Rightarrow> projection_job \<Rightarrow> bool" where
  "holds_back w earlier j \<longleftrightarrow> pj_TenantID earlier = pj_TenantID j \<and> job_unfinished earlier \<and>
     (case (event_of w earlier, event_of w j) of
        (Some ee, Some e) \<Rightarrow> pj_PartitionKey earlier = pj_PartitionKey j \<or>
           (ae_ExternalID e \<noteq> [] \<and> ae_ExternalID ee = ae_ExternalID e) \<or>
           (ae_AnonymousID e \<noteq> [] \<and> ae_AnonymousID ee = ae_AnonymousID e)
      | _ \<Rightarrow> False)"

fun first_job :: "world \<Rightarrow> projection_job list \<Rightarrow> projection_job list \<Rightarrow> (projection_job \<times> accepted_event) option" where
  "first_job w before [] = None"
| "first_job w before (j # js) =
     (case event_of w j of
        Some e \<Rightarrow> if job_ready (w_now w) j \<and> \<not> list_ex (\<lambda>x. holds_back w x j) before then Some (j, e)
                  else first_job w (before @ [j]) js
      | None \<Rightarrow> first_job w (before @ [j]) js)"

definition taken_job :: "time \<Rightarrow> projection_job \<Rightarrow> projection_job" where
  "taken_job now j = j\<lparr>pj_Status := ''processing'', pj_Attempts := pj_Attempts j + 1, pj_LockedUntil := Some (now + 30 * second)\<rparr>"

definition ClaimProjectionJob :: "accepted_event option call" where
  "ClaimProjectionJob = db (\<lambda>w.
     case first_job w [] (w_jobs w) of
       None \<Rightarrow> (Inr None, w)
     | Some (j, e) \<Rightarrow> (Inr (Some e), w\<lparr>w_jobs := upd_rows (\<lambda>x. pj_EventID x = pj_EventID j) (taken_job (w_now w)) (w_jobs w)\<rparr>))"

definition failed_job :: "time \<Rightarrow> string \<Rightarrow> projection_job \<Rightarrow> projection_job" where
  "failed_job now message j = j\<lparr>pj_Status := (if pj_Attempts j \<ge> 10 then ''dead'' else ''pending''),
     pj_AvailableAt := now + min (pj_Attempts j) 10 * (5 * second), pj_LockedUntil := None, pj_LastError := Some message\<rparr>"

definition FailProjectionJob :: "string \<Rightarrow> err \<Rightarrow> unit call" where
  "FailProjectionJob eventID jobErr = db (\<lambda>w.
     let hit = (\<lambda>j. pj_EventID j = eventID)
     in (if list_ex hit (w_jobs w) then Inr () else Inl (ErrNew (''projection job '' @ eventID @ '' not found'')),
         w\<lparr>w_jobs := upd_rows hit (failed_job (w_now w) (take 1000 (error_text jobErr))) (w_jobs w)\<rparr>))"

text \<open>The projector without \<^verbatim>\<open>watch\<close>. The model of \<^verbatim>\<open>ProjectEvent\<close> does not panic.\<close>

definition projectOne :: "accepted_event \<Rightarrow> bool call" where
  "projectOne event =
     attempt (ProjectEvent event)
       (\<lambda>e. attempt (FailProjectionJob (ae_ID event) e) failed (\<lambda>_. ret (Inr False)))
       (\<lambda>_. ret (Inr True))"

text \<open>Failed items do not count, so the loop has a fuel; the result \<open>None\<close> is running out of it.\<close>

fun Drain :: "nat \<Rightarrow> nat \<Rightarrow> nat \<Rightarrow> (nat \<times> err option) option prog" where
  "Drain fuel maxItems processed =
     (if processed \<ge> maxItems then ret (Some (processed, None))
      else case fuel of
        0 \<Rightarrow> ret None
      | Suc fuel' \<Rightarrow>
          attempt ClaimProjectionJob (\<lambda>e. ret (Some (processed, Some e))) (\<lambda>claimed.
            case claimed of
              None \<Rightarrow> ret (Some (processed, None))
            | Some event \<Rightarrow>
                attempt (projectOne event) (\<lambda>e. ret (Some (processed, Some e))) (\<lambda>completed.
                  Drain fuel' maxItems (if completed then Suc processed else processed))))"

declare Drain.simps [simp del]

end
