(* ===== verification/Leases.thy ===== *)
theory Leases
  imports World
begin

text \<open>
  The contract of a queue of jobs in a table: a worker takes a ready row for the time of a lease, and completes it
  or gives it back. The locale \<open>leased_queue\<close> has what the functions on rows promise, and what follows for the table:
  a row is not taken twice within its lease, and a turn of a worker leaves fewer rows ready. The locale \<open>queue_loop\<close>
  concludes that a worker that drains a queue returns.
\<close>

section \<open>Tables and updates\<close>

lemma list_all_upd_rows: "list_all Q xs \<Longrightarrow> (\<And>x. Q x \<Longrightarrow> Q (f x)) \<Longrightarrow> list_all Q (upd_rows P f xs)"
  by (induction xs) (simp_all add: upd_rows_def)

lemma filter_map_shorter:
  "(\<And>x. x \<in> set xs \<Longrightarrow> Q (g x) \<Longrightarrow> Q x) \<Longrightarrow> length (filter Q (map g xs)) \<le> length (filter Q xs)"
  by (induction xs) auto

lemma filter_map_strictly_shorter:
  assumes "\<And>x. x \<in> set xs \<Longrightarrow> Q (g x) \<Longrightarrow> Q x" and "x \<in> set xs" "Q x" "\<not> Q (g x)"
  shows "length (filter Q (map g xs)) < length (filter Q xs)"
  using assms
proof (induction xs)
  case (Cons y ys)
  have "length (filter Q (map g ys)) \<le> length (filter Q ys)" using Cons.prems(1) by (intro filter_map_shorter) auto
  with Cons show ?case by (auto simp: less_Suc_eq_le)
qed simp

definition waiting :: "(time \<Rightarrow> 'r \<Rightarrow> bool) \<Rightarrow> time \<Rightarrow> 'r list \<Rightarrow> nat" where
  "waiting ready now rows = length (filter (ready now) rows)"

text \<open>No row has a negative number of attempts, and the rows with the given identifier have been attempted.\<close>

definition tried :: "('r \<Rightarrow> string) \<Rightarrow> ('r \<Rightarrow> int) \<Rightarrow> string option \<Rightarrow> 'r list \<Rightarrow> bool" where
  "tried ident tries started rows \<longleftrightarrow> list_all (\<lambda>r. (if Some (ident r) = started then 1 else 0) \<le> tries r) rows"

lemma tried_None: "tried ident tries started rows \<Longrightarrow> tried ident tries None rows"
  unfolding tried_def by (erule list.pred_mono_strong) (simp split: if_splits)

section \<open>Leased rows\<close>

locale leased_queue =
  fixes ident :: "'r \<Rightarrow> string" and tries :: "'r \<Rightarrow> int" and ready :: "time \<Rightarrow> 'r \<Rightarrow> bool"
    and taken :: "time \<Rightarrow> 'r \<Rightarrow> 'r" and dropped :: "time \<Rightarrow> string \<Rightarrow> 'r \<Rightarrow> 'r" and finished :: "time \<Rightarrow> 'r \<Rightarrow> 'r"
    and lease :: duration
  assumes lease_lasts: "0 \<le> lease"
    and taken_held: "later \<le> now + lease \<Longrightarrow> \<not> ready later (taken now r)"
    and taken_tries: "tries (taken now r) = tries r + 1"
    and dropped_waits: "1 \<le> tries r \<Longrightarrow> \<not> ready now (dropped now m r)"
    and dropped_for_good: "10 \<le> tries r \<Longrightarrow> \<not> ready later (dropped now m r)"
    and dropped_tries: "tries (dropped now m r) = tries r"
    and finished_for_good: "\<not> ready later (finished now r)"
    and finished_tries: "tries (finished now r) = tries r"
    and idents: "ident (taken now r) = ident r" "ident (dropped now m r) = ident r" "ident (finished now r) = ident r"
begin

text \<open>While the lease of a row lasts, no ready row has its identifier.\<close>

lemma held:
  assumes "r \<in> set (upd_rows (\<lambda>x. ident x = i) (taken now) rows)" and "later \<le> now + lease" and "ready later r"
  shows "ident r \<noteq> i"
  using assms taken_held idents by (auto simp: set_upd_rows split: if_splits)

lemma take_shrinks:
  assumes "r \<in> set rows" and "ready now r"
  shows "waiting ready now (upd_rows (\<lambda>x. ident x = ident r) (taken now) rows) < waiting ready now rows"
  unfolding waiting_def upd_rows_def
  by (rule filter_map_strictly_shorter [of _ _ _ r]) (use assms taken_held [of now now] lease_lasts in \<open>auto split: if_splits\<close>)

lemma take_tried:
  "tried ident tries None rows \<Longrightarrow> tried ident tries (Some i) (upd_rows (\<lambda>x. ident x = i) (taken now) rows)"
  by (auto simp: tried_def list_all_iff set_upd_rows idents taken_tries)

lemma drop_keeps:
  assumes "tried ident tries (Some i) rows"
  shows "waiting ready now (upd_rows (\<lambda>x. ident x = i) (dropped now m) rows) \<le> waiting ready now rows"
    and "tried ident tries (Some i) (upd_rows (\<lambda>x. ident x = i) (dropped now m) rows)"
proof -
  show "waiting ready now (upd_rows (\<lambda>x. ident x = i) (dropped now m) rows) \<le> waiting ready now rows"
    unfolding waiting_def upd_rows_def
    by (rule filter_map_shorter) (use assms dropped_waits in \<open>fastforce simp: tried_def list_all_iff split: if_splits\<close>)
  show "tried ident tries (Some i) (upd_rows (\<lambda>x. ident x = i) (dropped now m) rows)"
    using assms by (auto simp: tried_def list_all_iff set_upd_rows idents dropped_tries)
qed

lemma finish_keeps:
  assumes "tried ident tries started rows"
  shows "waiting ready now (upd_rows P (finished now) rows) \<le> waiting ready now rows"
    and "tried ident tries started (upd_rows P (finished now) rows)"
proof -
  show "waiting ready now (upd_rows P (finished now) rows) \<le> waiting ready now rows"
    unfolding waiting_def upd_rows_def by (rule filter_map_shorter) (use finished_for_good in \<open>auto split: if_splits\<close>)
  show "tried ident tries started (upd_rows P (finished now) rows)"
    using assms by (auto simp: tried_def list_all_iff set_upd_rows idents finished_tries)
qed

end

section \<open>Draining\<close>

locale queue_loop =
  fixes claim :: "'e option call" and handle :: "'e \<Rightarrow> bool call"
    and drain :: "nat \<Rightarrow> nat \<Rightarrow> nat \<Rightarrow> (nat \<times> err option) option prog"
    and calm :: "world \<Rightarrow> bool" and left :: "world \<Rightarrow> nat"
  assumes drain_step: "drain fuel maxItems processed =
     (if processed \<ge> maxItems then ret (Some (processed, None))
      else case fuel of
        0 \<Rightarrow> ret None
      | Suc fuel' \<Rightarrow>
          attempt claim (\<lambda>e. ret (Some (processed, Some e))) (\<lambda>claimed.
            case claimed of
              None \<Rightarrow> ret (Some (processed, None))
            | Some event \<Rightarrow>
                attempt (handle event) (\<lambda>e. ret (Some (processed, Some e))) (\<lambda>completed.
                  drain fuel' maxItems (if completed then Suc processed else processed))))"
    and turn_shrinks: "calm w \<Longrightarrow> run_state claim w = (Inr (Some e), w1) \<Longrightarrow> run_state (handle e) w1 = (Inr b, w2) \<Longrightarrow>
       calm w2 \<and> left w2 < left w"
begin

lemma drain_returns:
  assumes "calm w" and "left w < fuel"
  shows "\<exists>n e w'. run_state (drain fuel maxItems processed) w = (Some (n, e), w')"
  using assms
proof (induction fuel arbitrary: processed w)
  case (Suc fuel)
  show ?case
  proof (cases "processed \<ge> maxItems")
    case False
    obtain c w1 where c: "run_state claim w = (c, w1)" by (cases "run_state claim w")
    consider e where "c = Inl e" | "c = Inr None" | event where "c = Inr (Some event)" by (cases c; cases "projr c") auto
    then show ?thesis
    proof cases
      case (3 event)
      obtain h w2 where h: "run_state (handle event) w1 = (h, w2)" by (cases "run_state (handle event) w1")
      show ?thesis
      proof (cases h)
        case (Inr b)
        from turn_shrinks [OF Suc.prems(1)] c 3 h Inr have "calm w2" "left w2 < left w" by auto
        with Suc.prems(2) have "\<exists>n e w'. run_state (drain fuel maxItems (if b then Suc processed else processed)) w2 = (Some (n, e), w')"
          by (intro Suc.IH) auto
        with False c 3 h Inr show ?thesis by (subst drain_step) (simp add: run_attempt)
      qed (use False c 3 h in \<open>subst drain_step, simp add: run_attempt\<close>)
    qed (use False c in \<open>subst drain_step, simp add: run_attempt\<close>)+
  qed (subst drain_step, simp)
qed simp

end

end
