(* ===== verification/ProjectionFacts.thy ===== *)
theory ProjectionFacts
  imports Projection StoreFacts Leases
begin

text \<open>
  Facts about projection. The locale \<open>projection_effects\<close> lists the writes a projection is made of; what
  respects them respects a whole projection, transaction and rollback included. It is interpreted for the
  evolution of the engine and for the identifiers of profiles staying unique. The rest is what resolution,
  merging, unmerging and consent achieve.
\<close>

section \<open>Effects\<close>

text \<open>The unique index of \<^verbatim>\<open>identity_aliases\<close>.\<close>

definition alias_key :: "alias_row \<Rightarrow> string \<times> string \<times> string \<times> string" where
  "alias_key a = (al_TenantID a, al_AppID a, al_Namespace a, al_Value a)"

definition aliases_ok :: "alias_row list \<Rightarrow> bool" where
  "aliases_ok as \<longleftrightarrow> distinct (map alias_key as)"

lemma aliases_ok_upd: "(\<And>a. P a \<Longrightarrow> alias_key (f a) = alias_key a) \<Longrightarrow> aliases_ok (upd_rows P f as) = aliases_ok as"
  by (simp add: aliases_ok_def map_upd_rows)

lemma aliases_ok_filter: "aliases_ok as \<Longrightarrow> aliases_ok (filter P as)"
  by (simp add: aliases_ok_def distinct_map_filter)

text \<open>The facts of an event and the journeys it drives.\<close>

locale fact_effects = store_evolution +
  assumes engagements_write: "R w (w\<lparr>w_engagements := es\<rparr>)" and conversions_write: "R w (w\<lparr>w_conversions := cv\<rparr>)"
    and journeys_write: "project_journeys event pid w = Inr w' \<Longrightarrow> R w w'"
begin

lemma evolve_stmt: "(\<And>w x w'. f w = Inr (x, w') \<Longrightarrow> R w w') \<Longrightarrow> state_io_rel R (stmt f)"
  unfolding stmt_def by (rule evolve_db) (auto simp: evolution_refl split: sum.splits)

lemma evolve_with_body: "(\<And>b. state_io_rel R (k b)) \<Longrightarrow> state_io_rel R (with_body body e k)"
  unfolding with_body_def by (intro store_rules)

lemma evolve_facts: "state_io_rel R (projectEngagementFact event pid)" "state_io_rel R (projectConversionFact event pid)"
proof -
  have e: "R w (add_engagement event ty s w)" for w ty s
    by (auto simp: add_engagement_def evolution_refl intro: engagements_write conversions_write)
  have c: "state_io_rel R (db (\<lambda>w. case add_conversion event pid s g v w of (new, w') \<Rightarrow> (Inr new, w')))" for s g v
    by (rule evolve_db) (auto simp: add_conversion_def evolution_refl intro: engagements_write conversions_write)
  show "state_io_rel R (projectEngagementFact event pid)" unfolding projectEngagementFact_def by (intro store_rules evolve_with_body evolve_exec e)
  show "state_io_rel R (projectConversionFact event pid)" unfolding projectConversionFact_def by (intro store_rules evolve_with_body c)
qed

lemma evolve_journeys: "state_io_rel R (drive_journeys event pid)"
  unfolding drive_journeys_def by (rule evolve_stmt) (auto dest!: map_sum_Pair intro: journeys_write)

end

text \<open>Everything a projection writes.\<close>

locale projection_effects = fact_effects +
  assumes rollback_ok: "R w (rolled_back w w1)"
    and profiles_ok_write: "profiles_ok rows \<Longrightarrow> R w (w\<lparr>w_profiles := rows\<rparr>)"
    and consents_write: "R w (w\<lparr>w_consents := cs\<rparr>)" 
    and aliases_write: "(aliases_ok (w_aliases w) \<Longrightarrow> aliases_ok as) \<Longrightarrow> R w (w\<lparr>w_aliases := as\<rparr>)"
    and merges_write: "R w (w\<lparr>w_merges := ms\<rparr>)" and snapshots_write: "R w (w\<lparr>w_snapshots := ss\<rparr>)"
    and companies_write: "R w (w\<lparr>w_companies := co\<rparr>)" and members_write: "R w (w\<lparr>w_company_members := cm\<rparr>)"
    and inapp_write: "R w (w\<lparr>w_inapp := ia\<rparr>)" and exposures_write: "R w (w\<lparr>w_exposures := xs\<rparr>)"
    and suppressions_write: "R w (w\<lparr>w_suppressions := su\<rparr>)" and jobs_done: "R w (w\<lparr>w_jobs := upd_rows P (done_job (w_now w)) (w_jobs w)\<rparr>)"
    and id_write: "R w (next_id w)"
begin

lemmas writes = consents_write merges_write snapshots_write companies_write members_write inapp_write
  exposures_write engagements_write conversions_write suppressions_write jobs_done id_write

lemmas id_writes = writes [THEN evolution_trans [OF id_write]]

lemma evolve_in_tx: "state_io_rel R body \<Longrightarrow> state_io_rel R (in_tx body)"
  unfolding state_io_rel_def in_tx_def
  by (auto simp: tick_ok rollback_ok split: prod.splits sum.splits)
    (metis evolution_trans snd_conv tick_ok)

lemma evolve_write_profiles: "state_io_rel R (write_profiles f)"
  unfolding write_profiles_def
  by (rule evolve_stmt) (auto simp: with_profiles_def split: if_splits intro: profiles_ok_write)

lemma evolve_upsert: "state_io_rel R (upsert_profile c row)"
  unfolding upsert_profile_def
  by (rule evolve_stmt)
    (auto simp: with_profiles_def evolution_refl split: option.splits if_splits
      intro: evolution_trans [OF id_write profiles_ok_write])

lemmas tx_rules = store_rules evolve_with_body evolve_exec evolve_write_profiles evolve_upsert writes evolution_refl

lemma evolve_moves: "state_io_rel R (move_consents a b)" "state_io_rel R (move_aliases a b)"
  unfolding move_consents_def move_aliases_def
  by (intro tx_rules, intro tx_rules aliases_write) (simp add: aliases_ok_upd alias_key_def)

lemma evolve_merge: "state_io_rel R (mergeProfiles event a b)"
proof -
  have "state_io_rel R (record_merge event a b c)" for c
    unfolding record_merge_def by (rule evolve_exec) (auto simp: evolution_refl intro: id_writes)
  moreover have "state_io_rel R (put_snapshot c s)" for c s
    unfolding put_snapshot_def by (rule evolve_db) (auto simp: evolution_refl intro: writes)
  ultimately show ?thesis
    unfolding mergeProfiles_def take_snapshot_def absorb_source_def drop_shadowed_def retire_source_def
    by (intro tx_rules evolve_moves aliases_write aliases_ok_filter)
qed

lemma evolve_collect: "state_io_rel R (collect_candidates event keys cs)"
  by (induction keys arbitrary: cs) (auto simp: lookup_key_def intro!: tx_rules)

lemma evolve_losers: "state_io_rel R (merge_losers event winner losers)"
  by (induction losers) (auto intro!: tx_rules evolve_merge)

lemma evolve_settle: "state_io_rel R (settle_profile event)"
  unfolding settle_profile_def resolveIdentity_def ensureProfile_def insert_external_def merge_anonymous_def absorb_anonymous_def
  by (intro tx_rules evolve_collect evolve_moves) (auto split: list.splits intro!: tx_rules evolve_losers)

lemma evolve_unmerge: "state_io_rel R (unmergeProfile event)"
proof -
  have "state_io_rel R (restore_aliases event a b als)" for a b als
    by (induction als) (auto simp: aliases_ok_upd alias_key_def intro!: tx_rules aliases_write)
  moreover have "state_io_rel R (restore_consents event a cs)" for a cs
    by (induction cs) (auto intro!: tx_rules)
  ultimately show ?thesis
    unfolding unmergeProfile_def apply_unmerge_def get_snapshot_def restore_profile_def
    by (intro tx_rules)
qed

lemma evolve_company: "state_io_rel R (project_company event)"
proof -
  have "state_io_rel R (upsert_company event c)" for c
    unfolding upsert_company_def by (rule evolve_db) (auto simp: Let_def intro: writes id_writes split: option.splits)
  moreover have "state_io_rel R (put_member event c pid role)" for c pid role
    unfolding put_member_def by (rule evolve_exec) (auto simp: Let_def intro: writes)
  then have "state_io_rel R (put_members event c ms)" for c ms
    by (induction ms) (auto intro!: tx_rules)
  ultimately show ?thesis unfolding project_company_def by (intro tx_rules)
qed

lemma evolve_apply: "state_io_rel R (apply_event event profileID)"
proof -
  have supp: "R w (add_suppression event c e r w)" "R w (lift_suppression event c e w)" "R w (add_consent event profileID b w)" for w c e r b
    by (auto simp: add_suppression_def lift_suppression_def add_consent_def evolution_refl intro: writes id_writes)
  have "R w (put_alias event profileID ns v w)" for ns v w
  proof -
    let ?hit = "\<lambda>a. al_TenantID a = p_TenantID (ae_Principal event) \<and> al_AppID a = p_AppID (ae_Principal event) \<and>
      al_Namespace a = ns \<and> al_Value a = v"
    have "aliases_ok (w_aliases w @ [a])" if "\<not> list_ex ?hit (w_aliases w)" "aliases_ok (w_aliases w)" "?hit a" for a
      using that by (force simp: aliases_ok_def alias_key_def list_ex_iff)
    then show ?thesis unfolding put_alias_def Let_def
      by (simp only: if_split) (auto intro!: aliases_write simp: aliases_ok_upd alias_key_def)
  qed
  then have "state_io_rel R (put_aliases event profileID m ks)" for m ks
    by (induction ks) (auto simp: Let_def intro!: tx_rules)
  then have "state_io_rel R (project_alias event profileID)"
    unfolding project_alias_def by (intro tx_rules) (simp add: state_io_rel_def evolution_refl)
  moreover have "state_io_rel R (project_inapp event)"
    unfolding project_inapp_def
    by (intro tx_rules evolve_stmt) (auto split: if_splits prod.splits intro: writes)
  moreover have "state_io_rel R (project_exposure event)"
    unfolding project_exposure_def
    by (intro tx_rules evolve_stmt) (auto simp: count_exposure_def Let_def split: if_splits intro: writes)
  moreover have "state_io_rel R (project_consent event profileID)" "state_io_rel R (project_bounce event)"
    unfolding project_consent_def project_bounce_def by (intro tx_rules supp)+
  moreover have "state_io_rel R (project_profile event profileID)" "state_io_rel R (project_merge event profileID)"
    unfolding project_profile_def project_merge_def by (intro tx_rules evolve_merge)+
  ultimately show ?thesis unfolding apply_event_def Let_def by (intro tx_rules evolve_company evolve_unmerge)
qed

lemma evolve_ProjectEvent: "state_io_rel R (ProjectEvent event)"
  unfolding ProjectEvent_def project_body_def finish_job_def
  by (intro evolve_in_tx tx_rules evolve_settle evolve_apply evolve_facts evolve_journeys)

end

text \<open>A projection evolves the engine: outside the journeys it does not touch its tables.\<close>

interpretation prj: projection_effects evolves
  by unfold_locales (erule evolves_project | (rule evolves_untouched, simp add: untouched_def rolled_back_def))+

lemma evolves_ProjectEvent [evolve]: "state_io_rel evolves (ProjectEvent event)"
  by (rule prj.evolve_ProjectEvent)

lemma evolve_projection_jobs [evolve]:
  "state_io_rel evolves ClaimProjectionJob" "state_io_rel evolves (FailProjectionJob i e)"
  unfolding ClaimProjectionJob_def FailProjectionJob_def
  by (intro ev.evolve_db; auto simp: Let_def untouched_def split: option.splits intro!: evolves_untouched)+

text \<open>The identifiers of profiles and the keys of aliases stay unique.\<close>

definition identity_inv :: "world \<Rightarrow> bool" where
  "identity_inv w \<longleftrightarrow> profiles_ok (w_profiles w) \<and> aliases_ok (w_aliases w)"

definition identity_kept :: "world \<Rightarrow> world \<Rightarrow> bool" where
  "identity_kept w w' \<longleftrightarrow> (identity_inv w \<longrightarrow> identity_inv w')"

text \<open>What driving the journeys leaves alone.\<close>

definition journey_frame :: "world \<Rightarrow> world \<Rightarrow> bool" where
  "journey_frame w w' \<longleftrightarrow> w_profiles w' = w_profiles w \<and> w_aliases w' = w_aliases w \<and>
     w_consents w' = w_consents w \<and> w_suppressions w' = w_suppressions w \<and> w_jobs w' = w_jobs w \<and> w_now w' = w_now w"

lemma journey_frame_trans: "journey_frame u v \<Longrightarrow> journey_frame v w \<Longrightarrow> journey_frame u w"
  by (simp add: journey_frame_def)

lemma journey_frame_inserts:
  "insert_run run w = (r, w') \<Longrightarrow> journey_frame w w'" "insert_step step w = Inr w' \<Longrightarrow> journey_frame w w'"
  "journey_frame w (insert_transition trn w)" "journey_frame w (resume_base i nxt w)"
  by (auto simp: insert_run_def insert_step_def with_steps_def insert_transition_def resume_base_def journey_frame_def split: if_splits)

lemma journey_frame_enroll: "enroll_items event pid items w = Inr w' \<Longrightarrow> journey_frame w w'"
proof (induction items arbitrary: w)
  case (Cons it items)
  from Cons.prems consider "enroll_items event pid items w = Inr w'"
    | run r w1 step w2 where "insert_run run w = (r, w1)" "insert_step step w1 = Inr w2" "enroll_items event pid items w2 = Inr w'"
    by (auto split: option.splits sum.splits prod.splits if_splits)
  then show ?case
    by cases (use Cons.IH in \<open>blast intro: journey_frame_trans dest: journey_frame_inserts(1,2)\<close>)+
qed (simp add: journey_frame_def)

lemma journey_frame_resume: "resume_items event items w = Inr w' \<Longrightarrow> journey_frame w w'"
proof (induction items arbitrary: w)
  case (Cons it items)
  obtain runID current data where it: "it = (runID, current, data)" by (cases it)
  have run: "journey_frame v v'" if "resume_run event runID current nxt v = Inr v'" for nxt v v'
    using that by (auto simp: resume_run_def split: if_splits sum.splits dest!: journey_frame_inserts(2)
        intro: journey_frame_trans [OF journey_frame_inserts(4)] journey_frame_trans [OF _ journey_frame_inserts(3)])
      (simp add: journey_frame_def)
  from Cons.prems consider "resume_items event items w = Inr w'"
    | nxt w1 where "resume_run event runID current nxt w = Inr w1" "resume_items event items w1 = Inr w'"
    by (auto simp: it Let_def split: option.splits sum.splits if_splits)
  then show ?case by cases (use Cons.IH run in \<open>blast intro: journey_frame_trans\<close>)+
qed (simp add: journey_frame_def)

lemma journey_frame_project: "project_journeys event pid w = Inr w' \<Longrightarrow> journey_frame w w'"
  by (auto simp: project_journeys_def enrollEventTriggered_def resolveWaitingRuns_def
      split: sum.splits if_splits dest!: journey_frame_enroll journey_frame_resume intro: journey_frame_trans)
    (simp add: journey_frame_def)

interpretation jf: fact_effects journey_frame
  by unfold_locales (auto simp: journey_frame_def ticked_def dest: journey_frame_project)

interpretation ident: projection_effects identity_kept
proof unfold_locales
  show "project_journeys event pid w = Inr w' \<Longrightarrow> identity_kept w w'" for event pid w w'
    by (auto dest!: journey_frame_project simp: journey_frame_def identity_kept_def identity_inv_def)
qed (auto simp: identity_kept_def identity_inv_def rolled_back_def)

section \<open>The queue\<close>

text \<open>A projection leaves every job as it is or settles it.\<close>

definition jobs_settle :: "world \<Rightarrow> world \<Rightarrow> bool" where
  "jobs_settle w w' \<longleftrightarrow> w_now w' = w_now w \<and>
     list_all2 (\<lambda>j j'. j' = j \<or> j' = done_job (w_now w) j) (w_jobs w) (w_jobs w')"

lemma done_job_idem [simp]: "done_job now (done_job now j) = done_job now j"
  by (simp add: done_job_def)

lemma jobs_settle_trans: "jobs_settle u v \<Longrightarrow> jobs_settle v w \<Longrightarrow> jobs_settle u w"
  unfolding jobs_settle_def by (fastforce intro: list_all2_trans [rotated])

lemma jobs_settle_same: "w_now w' = w_now w \<Longrightarrow> w_jobs w' = w_jobs w \<Longrightarrow> jobs_settle w w'"
  by (simp add: jobs_settle_def list_all2_same)

interpretation jobs: projection_effects jobs_settle
proof unfold_locales
  show "project_journeys event pid w = Inr w' \<Longrightarrow> jobs_settle w w'" for event pid w w'
    by (auto dest!: journey_frame_project simp: journey_frame_def intro: jobs_settle_same)
  show "jobs_settle w (w\<lparr>w_jobs := upd_rows P (done_job (w_now w)) (w_jobs w)\<rparr>)" for w P
    by (simp add: jobs_settle_def upd_rows_def list_all2_map2 list_all2_same)
qed (auto simp: rolled_back_def next_id_simps intro: jobs_settle_same jobs_settle_trans)

text \<open>A job that can run: its event is there, it is due and nothing before it holds it back.\<close>

definition job_free :: "world \<Rightarrow> projection_job list \<Rightarrow> projection_job \<Rightarrow> bool" where
  "job_free w before j \<longleftrightarrow> event_of w j \<noteq> None \<and> job_ready (w_now w) j \<and> \<not> list_ex (\<lambda>x. holds_back w x j) before"

fun none_free :: "world \<Rightarrow> projection_job list \<Rightarrow> projection_job list \<Rightarrow> bool" where
  "none_free w before [] = True"
| "none_free w before (j # js) \<longleftrightarrow> \<not> job_free w before j \<and> none_free w (before @ [j]) js"

lemma first_job_rec:
  "first_job w before (j # js) = (if job_free w before j then Some (j, the (event_of w j)) else first_job w (before @ [j]) js)"
  by (auto simp: job_free_def split: option.splits)

lemma first_job_None: "first_job w before js = None \<longleftrightarrow> none_free w before js"
  by (induction js arbitrary: before) (simp_all add: first_job_rec del: first_job.simps(2))

lemma first_job_Some:
  assumes "first_job w before js = Some (j, e)"
  obtains us vs where "js = us @ j # vs" "event_of w j = Some e" "job_free w (before @ us) j" "none_free w before us"
  using assms
proof (induction js arbitrary: before thesis)
  case (Cons x js)
  show ?case
  proof (cases "job_free w before x")
    case True
    with Cons.prems(2) have "x = j" "event_of w j = Some e" by (auto simp: first_job_rec job_free_def simp del: first_job.simps)
    with True show ?thesis by (intro Cons.prems(1) [of "[]" js]) auto
  next
    case False
    with Cons.prems(2) have "first_job w (before @ [x]) js = Some (j, e)" by (simp add: first_job_rec del: first_job.simps)
    then obtain us vs where "js = us @ j # vs" "event_of w j = Some e" "job_free w ((before @ [x]) @ us) j" "none_free w (before @ [x]) us"
      by (rule Cons.IH [rotated])
    with False show ?thesis by (intro Cons.prems(1) [of "x # us" vs]) auto
  qed
qed simp

lemma claim_in_order:
  assumes "run_state ClaimProjectionJob w = (Inr (Some event), w')"
  shows "\<exists>before j rest. w_jobs w = before @ j # rest \<and> event_of w j = Some event \<and> job_ready (w_now w) j \<and>
    \<not> list_ex (\<lambda>earlier. holds_back w earlier j) before \<and> none_free w [] before \<and>
    w_jobs w' = upd_rows (\<lambda>x. pj_EventID x = pj_EventID j) (taken_job (w_now w)) (w_jobs w)"
proof -
  have tick: "event_of (ticked w) = event_of w" "holds_back (ticked w) = holds_back w" "job_free (ticked w) = job_free w"
    by (simp_all add: event_of_def holds_back_def job_free_def fun_eq_iff)
  have "none_free (ticked w) b js = none_free w b js" for b js
    by (induction js arbitrary: b) (simp_all add: tick)
  note tick = tick this
  from assms obtain j where j: "first_job (ticked w) [] (w_jobs w) = Some (j, event)"
    and w': "w_jobs w' = upd_rows (\<lambda>x. pj_EventID x = pj_EventID j) (taken_job (w_now w)) (w_jobs w)"
    by (auto simp: ClaimProjectionJob_def run_db split: if_splits option.splits)
  from j obtain us vs where "w_jobs w = us @ j # vs" "event_of w j = Some event" "job_free w us j" "none_free w [] us"
    by (rule first_job_Some) (simp add: tick)
  with w' show ?thesis by (auto simp: job_free_def)
qed

section \<open>Draining ends\<close>

interpretation prq: leased_queue pj_EventID pj_Attempts job_ready taken_job failed_job done_job "30 * second"
proof unfold_locales
  show "\<not> job_ready now (failed_job now m r)" if "1 \<le> pj_Attempts r" for now m r
  proof -
    have "0 < min (pj_Attempts r) 10 * (5 * second)" using that by (simp add: second_def)
    then show ?thesis by (simp add: job_ready_def failed_job_def)
  qed
qed (simp_all add: job_ready_def taken_job_def failed_job_def done_job_def second_def)

abbreviation jobs_left :: "world \<Rightarrow> nat" where
  "jobs_left w \<equiv> waiting job_ready (w_now w) (w_jobs w)"

abbreviation jobs_tried :: "string option \<Rightarrow> world \<Rightarrow> bool" where
  "jobs_tried started w \<equiv> tried pj_EventID pj_Attempts started (w_jobs w)"

lemma jobs_settle_ready:
  assumes "jobs_settle w w'"
  shows "jobs_left w' \<le> jobs_left w" "jobs_tried started w \<Longrightarrow> jobs_tried started w'"
proof -
  have "list_all2 (\<lambda>j j'. j' = j \<or> j' = done_job now j) js js' \<Longrightarrow> waiting job_ready now js' \<le> waiting job_ready now js" for now js js'
    by (induction rule: list_all2_induct) (auto simp: waiting_def job_ready_def done_job_def)
  with assms show "jobs_left w' \<le> jobs_left w" by (auto simp: jobs_settle_def)
  have "list_all2 (\<lambda>j j'. j' = j \<or> j' = done_job now j) js js' \<Longrightarrow> tried pj_EventID pj_Attempts started js \<Longrightarrow>
     tried pj_EventID pj_Attempts started js'" for now js js'
    by (induction rule: list_all2_induct) (auto simp: tried_def done_job_def)
  with assms show "jobs_tried started w \<Longrightarrow> jobs_tried started w'" by (auto simp: jobs_settle_def)
qed

lemma claim_shrinks:
  assumes "run_state ClaimProjectionJob w = (Inr (Some e), w')" "jobs_tried None w"
  shows "jobs_left w' < jobs_left w \<and> jobs_tried (Some (ae_ID e)) w'"
proof -
  from assms(1) obtain j where j: "first_job (ticked w) [] (w_jobs w) = Some (j, e)"
    and w': "w' = (ticked w)\<lparr>w_jobs := upd_rows (\<lambda>x. pj_EventID x = pj_EventID j) (taken_job (w_now w)) (w_jobs w)\<rparr>"
    by (auto simp: ClaimProjectionJob_def run_db split: if_splits option.splits)
  from j have here: "j \<in> set (w_jobs w)" "job_ready (w_now w) j" "event_of w j = Some e"
    by (auto elim: first_job_Some simp: job_free_def event_of_def)
  from here(3) have id: "ae_ID e = pj_EventID j" by (auto simp: event_of_def find_Some_iff)
  from prq.take_shrinks [OF here(1,2)] prq.take_tried [OF assms(2)] id show ?thesis by (simp add: w')
qed

lemma fail_keeps_ready:
  assumes "jobs_tried (Some i) w" "run_state (FailProjectionJob i e) w = (r, w')"
  shows "jobs_left w' \<le> jobs_left w \<and> jobs_tried (Some i) w'"
  using assms(2) prq.drop_keeps [OF assms(1)] assms(1) by (auto simp: FailProjectionJob_def run_db Let_def split: if_splits)

lemma projectOne_shrinks:
  assumes "jobs_tried (Some (ae_ID event)) w" "run_state (projectOne event) w = (r, w')"
  shows "jobs_left w' \<le> jobs_left w \<and> jobs_tried (Some (ae_ID event)) w'"
proof -
  obtain r1 w1 where p: "run_state (ProjectEvent event) w = (r1, w1)" by fastforce
  with jobs.evolve_ProjectEvent [of event] have "jobs_settle w w1" unfolding state_io_rel_def by (metis snd_conv)
  from jobs_settle_ready [OF this] assms(1) have w1: "jobs_left w1 \<le> jobs_left w" "jobs_tried (Some (ae_ID event)) w1" by auto
  show ?thesis
  proof (cases r1)
    case (Inl e)
    obtain r2 w2 where f: "run_state (FailProjectionJob (ae_ID event) e) w1 = (r2, w2)" by fastforce
    with p Inl assms(2) have "w' = w2" by (auto simp: projectOne_def run_attempt failed_def split: sum.splits)
    with fail_keeps_ready [OF w1(2) f] w1(1) show ?thesis by simp
  next
    case (Inr x)
    with p assms(2) w1 show ?thesis by (auto simp: projectOne_def run_attempt)
  qed
qed

text \<open>Every turn of the loop takes one ready job away, so as many turns as there are ready jobs, and one more, are enough.\<close>

interpretation prl: queue_loop ClaimProjectionJob projectOne Drain "jobs_tried None" jobs_left
proof unfold_locales
  fix w e w1 b w2
  assume "jobs_tried None w" "run_state ClaimProjectionJob w = (Inr (Some e), w1)" "run_state (projectOne e) w1 = (Inr b, w2)"
  with claim_shrinks [of w e w1] projectOne_shrinks [of e w1 "Inr b" w2] tried_None [of _ _ "Some (ae_ID e)" "w_jobs w2"]
  show "jobs_tried None w2 \<and> jobs_left w2 < jobs_left w" by auto
qed (rule Drain.simps)

end
