(* ===== verification/CampaignStore.thy ===== *)
theory CampaignStore
  imports Projection Catalog
begin

text \<open>
  The tables of campaigns: \<^verbatim>\<open>internal/postgres/campaigns.go\<close>. A campaign is drafted and scheduled through
  the API, built by the dispatcher into delivery jobs, and sent by the delivery workers, which keep one
  attempt per campaign, profile, channel and endpoint. PostgreSQL's reading of an interval is an argument.
\<close>

section \<open>Campaigns\<close>

definition campaign_statuses :: "string list" where
  "campaign_statuses = [''draft'', ''scheduled'', ''building'', ''sending'', ''paused'', ''completed'', ''failed'', ''archived'']"

text \<open>The check and the foreign keys of a row.\<close>

definition campaign_valid :: "world \<Rightarrow> campaign \<Rightarrow> bool" where
  "campaign_valid w c \<longleftrightarrow> ca_Status c \<in> set campaign_statuses \<and>
     list_ex (\<lambda>s. sg_ID s = ca_SegmentID c) (w_segments w) \<and> list_ex (\<lambda>t. te_ID t = ca_TemplateID c) (w_templates w) \<and>
     (case ca_ExperimentID c of None \<Rightarrow> True | Some i \<Rightarrow> list_ex (\<lambda>e. ex_ID e = i) (w_experiments w))"

definition campaign_in :: "principal \<Rightarrow> string \<Rightarrow> campaign \<Rightarrow> bool" where
  "campaign_in p i c \<longleftrightarrow> ca_TenantID c = p_TenantID p \<and> ca_WorkspaceID c = p_WorkspaceID p \<and> ca_ID c = i"

definition CreateCampaign :: "principal \<Rightarrow> campaign \<Rightarrow> campaign call" where
  "CreateCampaign p c = transact (\<lambda>w.
     if ca_Name c = [] then Inl (ErrNew ''campaign name is required'')
     else if ca_SegmentID c = [] then Inl (ErrNew ''segment_id is required'')
     else if ca_TemplateID c = [] then Inl (ErrNew ''template_id is required'')
     else
       (let out = c\<lparr>ca_ID := new_id w, ca_TenantID := p_TenantID p, ca_WorkspaceID := p_WorkspaceID p,
                    ca_Status := (if ca_Status c = [] then ''draft'' else ca_Status c), ca_ConversionGoal := None,
                    ca_AttributionWindow := None, ca_ManifestKey := None, ca_EvaluatedAt := None,
                    ca_CreatedAt := w_now w, ca_UpdatedAt := w_now w\<rparr>
        in if \<not> campaign_valid w out then Inl ErrDb
           else Inr (out, audit p ''campaign.create'' ''campaign'' (ca_ID out) [(''name'', JStr (ca_Name out))]
                            ((next_id w)\<lparr>w_campaigns := w_campaigns w @ [out]\<rparr>))))"

definition GetCampaign :: "principal \<Rightarrow> string \<Rightarrow> campaign call" where
  "GetCampaign p i = query (\<lambda>w. or_not_found (find (campaign_in p i) (w_campaigns w)))"

definition GetCampaignSystem :: "string \<Rightarrow> string \<Rightarrow> campaign call" where
  "GetCampaignSystem tenantID i = query (\<lambda>w. or_not_found (find (\<lambda>c. ca_TenantID c = tenantID \<and> ca_ID c = i) (w_campaigns w)))"

text \<open>The columns an update writes; the goal and its window stay.\<close>

definition edited_campaign :: "world \<Rightarrow> campaign \<Rightarrow> campaign \<Rightarrow> campaign" where
  "edited_campaign w c old = old\<lparr>ca_Name := ca_Name c, ca_Description := ca_Description c, ca_SegmentID := ca_SegmentID c,
     ca_TemplateID := ca_TemplateID c, ca_ExperimentID := ca_ExperimentID c, ca_Status := ca_Status c,
     ca_ScheduledAt := ca_ScheduledAt c, ca_ManifestKey := ca_ManifestKey c, ca_SegmentVersion := ca_SegmentVersion c,
     ca_TemplateVersion := ca_TemplateVersion c, ca_EvaluatedAt := ca_EvaluatedAt c, ca_RecipientCount := ca_RecipientCount c,
     ca_UpdatedAt := w_now w\<rparr>"

definition UpdateCampaign :: "principal \<Rightarrow> campaign \<Rightarrow> campaign call" where
  "UpdateCampaign p c = transact (\<lambda>w.
     case find (campaign_in p (ca_ID c)) (w_campaigns w) of
       None \<Rightarrow> Inl ErrNotFound
     | Some old \<Rightarrow>
         (let out = edited_campaign w c old
          in if \<not> campaign_valid w out then Inl ErrDb
             else Inr (out, audit p ''campaign.update'' ''campaign'' (ca_ID out) [(''status'', JStr (ca_Status out))]
                    (w\<lparr>w_campaigns := upd_rows (campaign_in p (ca_ID c)) (edited_campaign w c) (w_campaigns w)\<rparr>))))"

definition ListCampaigns :: "principal \<Rightarrow> campaign list call" where
  "ListCampaigns p = query (\<lambda>w. Inr (sort_key (\<lambda>c. - ca_CreatedAt c)
     (filter (\<lambda>c. ca_TenantID c = p_TenantID p \<and> ca_WorkspaceID c = p_WorkspaceID p) (w_campaigns w))))"

text \<open>\<^verbatim>\<open>ORDER BY scheduled_at ASC NULLS LAST\<close>\<close>

definition schedule_order :: "campaign \<Rightarrow> bool \<times> time" where
  "schedule_order c = (case ca_ScheduledAt c of None \<Rightarrow> (True, 0) | Some t \<Rightarrow> (False, t))"

definition campaign_due :: "time \<Rightarrow> campaign \<Rightarrow> bool" where
  "campaign_due now c \<longleftrightarrow> ca_Status c = ''scheduled'' \<and> (case ca_ScheduledAt c of None \<Rightarrow> True | Some t \<Rightarrow> t \<le> now)"

definition ClaimScheduledCampaign :: "campaign option call" where
  "ClaimScheduledCampaign = db (\<lambda>w.
     case least_by schedule_order (filter (campaign_due (w_now w)) (w_campaigns w)) of
       None \<Rightarrow> (Inr None, w)
     | Some c \<Rightarrow>
         (let build = (\<lambda>c. c\<lparr>ca_Status := ''building'', ca_UpdatedAt := w_now w\<rparr>)
          in (Inr (Some (build c)), w\<lparr>w_campaigns := upd_rows (\<lambda>x. ca_ID x = ca_ID c) build (w_campaigns w)\<rparr>)))"

section \<open>Delivery jobs\<close>

fun insert_jobs :: "string \<Rightarrow> delivery_job list \<Rightarrow> world \<Rightarrow> world" where
  "insert_jobs campaignID [] w = w"
| "insert_jobs campaignID (job # jobs) w = insert_jobs campaignID jobs ((next_id w)\<lparr>w_delivery_jobs := w_delivery_jobs w @
     [\<lparr>dj_ID = new_id w, dj_CampaignID = campaignID, dj_TenantID = dj_TenantID job, dj_Shard = dj_Shard job,
       dj_Status = ''pending'', dj_Recipients = dj_Recipients job, dj_Attempts = 0, dj_AvailableAt = w_now w,
       dj_LockedUntil = None, dj_ErrorMessage = None, dj_CreatedAt = w_now w, dj_UpdatedAt = w_now w\<rparr>]\<rparr>)"

text \<open>\<^verbatim>\<open>NULLIF($7, '')::interval\<close>\<close>

definition cast_interval :: "(string \<Rightarrow> string option) \<Rightarrow> string \<Rightarrow> string option option" where
  "cast_interval interval s = (if s = [] then Some None else map_option Some (interval s))"

definition SaveCampaignManifestAndJobs ::
  "(string \<Rightarrow> string option) \<Rightarrow> string \<Rightarrow> string \<Rightarrow> int \<Rightarrow> int \<Rightarrow> int \<Rightarrow> raw \<Rightarrow> string \<Rightarrow> delivery_job list \<Rightarrow> unit call" where
  "SaveCampaignManifestAndJobs interval campaignID manifestKey recipientCount segmentVersion templateVersion conversionGoal
     attributionWindow jobs = transact (\<lambda>w.
     case cast_interval interval attributionWindow of
       None \<Rightarrow> Inl ErrDb
     | Some window \<Rightarrow>
         if jobs \<noteq> [] \<and> \<not> list_ex (\<lambda>c. ca_ID c = campaignID) (w_campaigns w) then Inl ErrDb
         else Inr ((), insert_jobs campaignID jobs (w\<lparr>w_campaigns := upd_rows (\<lambda>c. ca_ID c = campaignID)
           (\<lambda>c. c\<lparr>ca_Status := ''sending'', ca_ManifestKey := Some manifestKey, ca_RecipientCount := recipientCount,
                  ca_SegmentVersion := segmentVersion, ca_TemplateVersion := templateVersion, ca_ConversionGoal := conversionGoal,
                  ca_AttributionWindow := window, ca_EvaluatedAt := Some (w_now w), ca_UpdatedAt := w_now w\<rparr>) (w_campaigns w)\<rparr>)))"

definition delivery_lease :: duration where "delivery_lease = 5 * minute"

definition job_claimable :: "time \<Rightarrow> delivery_job \<Rightarrow> bool" where
  "job_claimable now j \<longleftrightarrow>
     ((dj_Status j = ''pending'' \<or> dj_Status j = ''failed'') \<and> dj_Attempts j < 3 \<and> dj_AvailableAt j \<le> now) \<or>
     (dj_Status j = ''processing'' \<and> expired now (dj_LockedUntil j))"

definition taken_delivery :: "time \<Rightarrow> delivery_job \<Rightarrow> delivery_job" where
  "taken_delivery now j = j\<lparr>dj_Status := ''processing'', dj_Attempts := dj_Attempts j + 1,
     dj_LockedUntil := Some (now + delivery_lease), dj_UpdatedAt := now\<rparr>"

definition ClaimDeliveryJob :: "string \<Rightarrow> delivery_job option call" where
  "ClaimDeliveryJob workerID = db (\<lambda>w.
     case least_by dj_AvailableAt (filter (job_claimable (w_now w)) (w_delivery_jobs w)) of
       None \<Rightarrow> (Inr None, w)
     | Some j \<Rightarrow> (Inr (Some (taken_delivery (w_now w) j)),
         w\<lparr>w_delivery_jobs := upd_rows (\<lambda>x. dj_ID x = dj_ID j) (taken_delivery (w_now w)) (w_delivery_jobs w)\<rparr>))"

definition job_active :: "delivery_job \<Rightarrow> bool" where
  "job_active j \<longleftrightarrow> dj_Status j = ''pending'' \<or> dj_Status j = ''processing'' \<or> (dj_Status j = ''failed'' \<and> dj_Attempts j < 3)"

definition job_failed :: "delivery_job \<Rightarrow> bool" where
  "job_failed j \<longleftrightarrow> dj_Status j = ''failed'' \<or> dj_Status j = ''dead''"

text \<open>The campaign ends with its last active job.\<close>

definition settle_campaign :: "string \<Rightarrow> world \<Rightarrow> world" where
  "settle_campaign campaignID w =
    (let jobs = filter (\<lambda>j. dj_CampaignID j = campaignID) (w_delivery_jobs w)
     in if list_ex job_active jobs then w
        else w\<lparr>w_campaigns := upd_rows (\<lambda>c. ca_ID c = campaignID)
          (\<lambda>c. c\<lparr>ca_Status := (if list_ex job_failed jobs then ''failed'' else ''completed''), ca_UpdatedAt := w_now w\<rparr>)
          (w_campaigns w)\<rparr>)"

definition end_job :: "(world \<Rightarrow> delivery_job \<Rightarrow> delivery_job) \<Rightarrow> string \<Rightarrow> unit call" where
  "end_job f jobID = transact (\<lambda>w.
     case find (\<lambda>j. dj_ID j = jobID) (w_delivery_jobs w) of
       None \<Rightarrow> Inl ErrNoRows
     | Some j \<Rightarrow> Inr ((), settle_campaign (dj_CampaignID j)
         (w\<lparr>w_delivery_jobs := upd_rows (\<lambda>j. dj_ID j = jobID) (f w) (w_delivery_jobs w)\<rparr>)))"

definition completed_job :: "world \<Rightarrow> delivery_job \<Rightarrow> delivery_job" where
  "completed_job w j = j\<lparr>dj_Status := ''completed'', dj_LockedUntil := None, dj_UpdatedAt := w_now w\<rparr>"

definition CompleteDeliveryJob :: "string \<Rightarrow> unit call" where
  "CompleteDeliveryJob jobID = end_job completed_job jobID"

definition failed_delivery :: "string \<Rightarrow> world \<Rightarrow> delivery_job \<Rightarrow> delivery_job" where
  "failed_delivery errMsg w j = j\<lparr>dj_Status := (if dj_Attempts j \<ge> 3 then ''dead'' else ''failed''), dj_ErrorMessage := Some errMsg,
     dj_AvailableAt := w_now w + minute, dj_LockedUntil := None, dj_UpdatedAt := w_now w\<rparr>"

definition FailDeliveryJob :: "string \<Rightarrow> string \<Rightarrow> unit call" where
  "FailDeliveryJob jobID errMsg = end_job (failed_delivery errMsg) jobID"

section \<open>Delivery attempts\<close>

definition attempt_decisions :: "string list" where
  "attempt_decisions = [''sent'', ''suppressed'', ''no_consent'', ''fatigued'', ''render_failed'', ''send_failed'', ''failed'', ''holdout'',
     ''processing'', ''provider_sent'', ''retryable_failed'', ''event_emitted'']"

text \<open>The unique key.\<close>

definition attempt_is :: "string \<Rightarrow> string \<Rightarrow> string \<Rightarrow> string \<Rightarrow> delivery_attempt \<Rightarrow> bool" where
  "attempt_is campaignID profileID channel endpoint a \<longleftrightarrow> da_CampaignID a = campaignID \<and> da_ProfileID a = profileID \<and>
     da_Channel a = channel \<and> da_Endpoint a = endpoint"

definition CreateDeliveryAttempt :: "delivery_attempt \<Rightarrow> bool call" where
  "CreateDeliveryAttempt a =
     (if da_TenantID a = [] then failed (ErrNew ''tenant_id is required for delivery attempt'')
      else transact (\<lambda>w.
        if list_ex (attempt_is (da_CampaignID a) (da_ProfileID a) (da_Channel a) (da_Endpoint a)) (w_attempts w) then Inr (False, w)
        else if da_Decision a \<notin> set attempt_decisions \<or> \<not> list_ex (\<lambda>c. ca_ID c = da_CampaignID a) (w_campaigns w) then Inl ErrDb
        else Inr (True, (next_id w)\<lparr>w_attempts := w_attempts w @ [a\<lparr>da_ID := new_id w,
               da_AttemptedAt := (if da_AttemptedAt a = zero_time then w_now w else da_AttemptedAt a),
               da_PolicySnapshot := or_empty_obj (da_PolicySnapshot a), da_CreatedAt := w_now w, da_CostMicros := 0\<rparr>]\<rparr>)))"

definition UpdateDeliveryAttempt ::
  "string \<Rightarrow> string \<Rightarrow> string \<Rightarrow> string \<Rightarrow> string \<Rightarrow> string \<Rightarrow> string \<Rightarrow> raw \<Rightarrow> int \<Rightarrow> unit call" where
  "UpdateDeliveryAttempt campaignID profileID channel endpoint decision reason providerMsgID policySnapshot costMicros = transact (\<lambda>w.
     let hit = attempt_is campaignID profileID channel endpoint
     in if list_ex hit (w_attempts w) \<and> decision \<notin> set attempt_decisions then Inl ErrDb
        else Inr ((), w\<lparr>w_attempts := upd_rows hit (\<lambda>a. a\<lparr>da_Decision := decision, da_Reason := reason,
               da_ProviderMessageID := providerMsgID, da_PolicySnapshot := or_empty_obj policySnapshot,
               da_CostMicros := costMicros\<rparr>) (w_attempts w)\<rparr>))"

definition SetDeliveryAttemptExperiment :: "string \<Rightarrow> string \<Rightarrow> string \<Rightarrow> string \<Rightarrow> string \<Rightarrow> string \<Rightarrow> unit call" where
  "SetDeliveryAttemptExperiment tenantID campaignID profileID channel experimentID variant = db (\<lambda>w.
     let hit = (\<lambda>a. da_TenantID a = tenantID \<and> da_CampaignID a = campaignID \<and> da_ProfileID a = profileID \<and> da_Channel a = channel)
     in (if list_ex hit (w_attempts w) then Inr () else Inl ErrNotFound,
         w\<lparr>w_attempts := upd_rows hit (\<lambda>a. a\<lparr>da_ExperimentID := Some experimentID, da_Variant := variant\<rparr>) (w_attempts w)\<rparr>))"

definition DeleteDeliveryAttempt :: "string \<Rightarrow> string \<Rightarrow> string \<Rightarrow> string \<Rightarrow> string \<Rightarrow> unit call" where
  "DeleteDeliveryAttempt tenantID campaignID profileID channel endpoint = exec (\<lambda>w. w\<lparr>w_attempts := filter
     (\<lambda>a. \<not> (da_TenantID a = tenantID \<and> attempt_is campaignID profileID channel endpoint a)) (w_attempts w)\<rparr>)"

definition GetDeliveryAttempt :: "string \<Rightarrow> string \<Rightarrow> string \<Rightarrow> string \<Rightarrow> delivery_attempt call" where
  "GetDeliveryAttempt campaignID profileID channel endpoint = query (\<lambda>w.
     or_not_found (find (attempt_is campaignID profileID channel endpoint) (w_attempts w)))"

section \<open>Addresses\<close>

text \<open>The map from the given profiles to an attribute that is not empty.\<close>

definition profile_texts :: "string \<Rightarrow> string \<Rightarrow> string list \<Rightarrow> world \<Rightarrow> string \<rightharpoonup> string" where
  "profile_texts field tenantID profileIDs w = map_of (concat (map
     (\<lambda>r. case jsonb_field_text w field (pr_Attributes r) of
        Some (c # s) \<Rightarrow> [(pr_ID r, c # s)]
      | _ \<Rightarrow> [])
     (filter (\<lambda>r. pr_TenantID r = tenantID \<and> pr_ID r \<in> set profileIDs) (w_profiles w))))"

definition GetProfileEmails :: "string \<Rightarrow> string list \<Rightarrow> (string \<rightharpoonup> string) call" where
  "GetProfileEmails tenantID profileIDs =
     (if profileIDs = [] then ret (Inr (\<lambda>_. None)) else query (\<lambda>w. Inr (profile_texts ''email'' tenantID profileIDs w)))"

definition GetProfilePhones :: "string \<Rightarrow> string list \<Rightarrow> (string \<rightharpoonup> string) call" where
  "GetProfilePhones tenantID profileIDs =
     (if profileIDs = [] then ret (Inr (\<lambda>_. None)) else query (\<lambda>w. Inr (profile_texts ''phone'' tenantID profileIDs w)))"

definition GetProfileByPhone :: "string \<Rightarrow> string \<Rightarrow> profile call" where
  "GetProfileByPhone tenantID phone = query (\<lambda>w. map_sum id pr_Profile (or_not_found
     (find (\<lambda>r. pr_TenantID r = tenantID \<and> jsonb_field_text w ''phone'' (pr_Attributes r) = Some phone) (w_profiles w))))"

definition GetProfileByID :: "string \<Rightarrow> string \<Rightarrow> string \<Rightarrow> profile call" where
  "GetProfileByID tenantID appID profileID = query (\<lambda>w. map_sum id pr_Profile (or_not_found
     (find (\<lambda>r. pr_TenantID r = tenantID \<and> pr_AppID r = appID \<and> pr_ID r = profileID) (w_profiles w))))"

end
