(* ===== verification/Campaigns.thy ===== *)
theory Campaigns
  imports CampaignStore JourneyDeliver Audience
begin

text \<open>
  Campaigns: \<^verbatim>\<open>DispatchNext\<close> and \<^verbatim>\<open>RedispatchFromManifest\<close> of \<^verbatim>\<open>internal/campaigns/dispatch.go\<close>, which turn a
  due campaign into delivery jobs of at most 500 recipients, and \<^verbatim>\<open>DeliverNext\<close> of
  \<^verbatim>\<open>internal/campaigns/deliver.go\<close>, which sends the messages of one job. The blob store keeps the manifests in
  \<open>w_manifests\<close>; whether one of its calls fails is an argument, a function of the number of the call, and so is
  PostgreSQL's reading of an interval. Adapters, renderer, link rewriter and signer are those of the journeys'
  configuration. Metrics and logging are left out.
\<close>

section \<open>Dispatch\<close>

record dispatch_env =
  de_Interval :: "string \<Rightarrow> string option"
  de_Put :: "nat \<Rightarrow> string \<Rightarrow> err option"
  de_Get :: "nat \<Rightarrow> string \<Rightarrow> err option"

definition put_manifest :: "dispatch_env \<Rightarrow> string \<Rightarrow> campaign_manifest \<Rightarrow> unit call" where
  "put_manifest env key m = State (\<lambda>w.
     case de_Put env (w_tick w) key of
       Some err \<Rightarrow> (Inl err, ticked w)
     | None \<Rightarrow> (Inr (), (ticked w)\<lparr>w_manifests := (key, m) # filter (\<lambda>(k, _). k \<noteq> key) (w_manifests w)\<rparr>))"

definition get_manifest :: "dispatch_env \<Rightarrow> string \<Rightarrow> campaign_manifest call" where
  "get_manifest env key = State (\<lambda>w.
     (case de_Get env (w_tick w) key of
        Some err \<Rightarrow> Inl err
      | None \<Rightarrow> (case map_of (w_manifests w) key of Some m \<Rightarrow> Inr m | None \<Rightarrow> Inl ErrNotFound), ticked w))"

text \<open>The endpoints of the profiles on the channel of the template.\<close>

definition addressed :: "(string \<rightharpoonup> string) \<Rightarrow> string list \<Rightarrow> campaign_recipient list" where
  "addressed endpoints profileIDs = concat (map (\<lambda>pID.
     case endpoints pID of
       Some (c # s) \<Rightarrow> [\<lparr>cq_ProfileID = pID, cq_Endpoint = c # s\<rparr>]
     | _ \<Rightarrow> []) profileIDs)"

fun push_recipients :: "campaign \<Rightarrow> string list \<Rightarrow> campaign_recipient list prog" where
  "push_recipients camp [] = ret []"
| "push_recipients camp (pID # pIDs) =
     State_Monad.bind (ListActiveDeviceTokens (ca_TenantID camp) (ca_WorkspaceID camp) pID) (\<lambda>r.
     State_Monad.bind (push_recipients camp pIDs) (\<lambda>rest.
       ret ((case r of
          Inl _ \<Rightarrow> []
        | Inr tokens \<Rightarrow> map (\<lambda>tok. \<lparr>cq_ProfileID = pID, cq_Endpoint = dt_Token tok\<rparr>) tokens) @ rest)))"

definition campaign_recipients :: "campaign \<Rightarrow> template \<Rightarrow> string list \<Rightarrow> campaign_recipient list call" where
  "campaign_recipients camp tpl profileIDs =
     (if te_Channel tpl = ''sms'' then
        attempt (GetProfilePhones (ca_TenantID camp) profileIDs) (wrapped ''get profile phones'')
          (\<lambda>phones. ret (Inr (addressed phones profileIDs)))
      else if te_Channel tpl = ''push'' then
        State_Monad.bind (push_recipients camp profileIDs) (\<lambda>rs. ret (Inr rs))
      else if te_Channel tpl = ''in_app'' then ret (Inr (map (\<lambda>pID. \<lparr>cq_ProfileID = pID, cq_Endpoint = pID\<rparr>) profileIDs))
      else
        attempt (GetProfileEmails (ca_TenantID camp) profileIDs) (wrapped ''get profile emails'')
          (\<lambda>emails. ret (Inr (addressed emails profileIDs))))"

text \<open>The goal of the campaign's experiment and its window.\<close>

definition goal_window :: "raw \<Rightarrow> string result" where
  "goal_window goal =
     (case goal of
        None \<Rightarrow> Inr []
      | Some v \<Rightarrow>
          (case Option.bind (obj_members v) (str_field ''window'') of
             None \<Rightarrow> Inl (ErrWrap ''decode campaign conversion goal'' ErrJSON)
           | Some win \<Rightarrow> Inr win))"

definition campaign_goal :: "principal \<Rightarrow> campaign \<Rightarrow> (raw \<times> string) call" where
  "campaign_goal p camp =
     (case ca_ExperimentID camp of
        None \<Rightarrow> ret (Inr (None, []))
      | Some i \<Rightarrow>
          attempt (GetExperiment p i) (wrapped ''get campaign experiment goal'') (\<lambda>(e, _).
            ret (case goal_window (ex_PrimaryGoal e) of Inl err \<Rightarrow> Inl err | Inr win \<Rightarrow> Inr (ex_PrimaryGoal e, win))))"

text \<open>The statements of the segment, leaf by leaf: PostgreSQL over profiles, consents, ClickHouse.\<close>

type_synonym legs = "string list \<times> string list \<times> string list"

definition add_legs :: "legs \<Rightarrow> legs \<Rightarrow> legs" where
  "add_legs a b = (fst a @ fst b, fst (snd a) @ fst (snd b), snd (snd a) @ snd (snd b))"

fun compileSegmentLegs :: "Audience.node \<Rightarrow> legs" and compile_all :: "Audience.node list \<Rightarrow> legs" where
  "compileSegmentLegs (NAnd conds) = compile_all conds"
| "compileSegmentLegs (NOr conds) = compile_all conds"
| "compileSegmentLegs (NNot cond) = compileSegmentLegs cond"
| "compileSegmentLegs (NProfileAttribute f op v) =
     ((case CompileProfile (NProfileAttribute f op v) of Inl _ \<Rightarrow> [] | Inr (sql, _) \<Rightarrow> [sql_text sql]), [], [])"
| "compileSegmentLegs (NConsent channel topic st) = ([], [sql_text (fst (CompileConsent channel topic st [] []))], [])"
| "compileSegmentLegs (NEventHistory ety op days mc) = ([], [], [fst (CompileClickHouse ety days mc [])])"
| "compileSegmentLegs (NScore m n op v) = ([], [], [])"
| "compileSegmentLegs (NCompany f op v) = ([], [], [])"
| "compile_all [] = ([], [], [])"
| "compile_all (n # ns) = add_legs (compileSegmentLegs n) (compile_all ns)"

definition manifest_sql :: "raw \<Rightarrow> string \<times> legs" where
  "manifest_sql dsl =
     (case Audience.Parse dsl of
        Inl _ \<Rightarrow> ([], [], [], [])
      | Inr n \<Rightarrow> (case CompileProfile n of Inl _ \<Rightarrow> [] | Inr (sql, _) \<Rightarrow> sql_text sql, compileSegmentLegs n))"

definition manifest_of ::
  "campaign \<Rightarrow> segment \<Rightarrow> template \<Rightarrow> raw \<Rightarrow> string \<Rightarrow> time \<Rightarrow> campaign_recipient list \<Rightarrow> campaign_manifest" where
  "manifest_of camp seg tpl goal win now recipients =
    (let (sql, profileLegs, consentLegs, clickhouseLegs) = manifest_sql (sg_DSL seg)
     in \<lparr>mf_SegmentID = ca_SegmentID camp, mf_SegmentVersion = sg_Version seg, mf_DSL = sg_DSL seg, mf_CompiledSQL = sql,
         mf_CompiledProfileLegs = profileLegs, mf_CompiledConsentLegs = consentLegs, mf_CompiledClickHouseLegs = clickhouseLegs,
         mf_TemplateID = ca_TemplateID camp, mf_TemplateVersion = te_Version tpl, mf_ConversionGoal = goal,
         mf_AttributionWindow = win, mf_EvaluatedAt = now, mf_Recipients = recipients\<rparr>)"

definition manifestKey :: "campaign \<Rightarrow> string" where
  "manifestKey camp = ''manifests/'' @ ca_TenantID camp @ ''/'' @ ca_ID camp @ ''-manifest.json''"

subsection \<open>Shards\<close>

definition shard_size :: nat where "shard_size = 500"

definition mk_job :: "campaign \<Rightarrow> int \<Rightarrow> campaign_recipient list \<Rightarrow> delivery_job" where
  "mk_job camp shard rs = \<lparr>dj_ID = [], dj_CampaignID = ca_ID camp, dj_TenantID = ca_TenantID camp, dj_Shard = shard,
     dj_Status = ''pending'', dj_Recipients = rs, dj_Attempts = 0, dj_AvailableAt = zero_time, dj_LockedUntil = None,
     dj_ErrorMessage = None, dj_CreatedAt = zero_time, dj_UpdatedAt = zero_time\<rparr>"

text \<open>The loop over the slices \<^verbatim>\<open>recipients[i:end]\<close>.\<close>

function shard_loop :: "campaign \<Rightarrow> campaign_recipient list \<Rightarrow> nat \<Rightarrow> int \<Rightarrow> delivery_job list" where
  "shard_loop camp recipients i shardIndex =
     (if i < length recipients then
        let stop = (if i + shard_size > length recipients then length recipients else i + shard_size)
        in mk_job camp shardIndex (take (stop - i) (drop i recipients)) #
           shard_loop camp recipients (i + shard_size) (shardIndex + 1)
      else [])"
  by pat_completeness auto
termination
  by (relation "measure (\<lambda>(camp, rs, i, shard). length rs - i)") (auto simp: shard_size_def)

declare shard_loop.simps [simp del]

definition shards :: "campaign \<Rightarrow> campaign_recipient list \<Rightarrow> delivery_job list" where
  "shards camp recipients = shard_loop camp recipients 0 0"

subsection \<open>The dispatcher\<close>

definition dispatch_campaign :: "dispatch_env \<Rightarrow> principal \<Rightarrow> campaign \<Rightarrow> unit call" where
  "dispatch_campaign env p camp =
     attempt (ResolveSegment p (ca_SegmentID camp)) (wrapped ''resolve segment'') (\<lambda>profileIDs.
     attempt (GetTemplate p (ca_TemplateID camp)) (wrapped ''get template'') (\<lambda>tpl.
     attempt (campaign_recipients camp tpl profileIDs) failed (\<lambda>recipients.
     attempt (GetSegment p (ca_SegmentID camp)) (wrapped ''get segment'') (\<lambda>seg.
     attempt (campaign_goal p camp) failed (\<lambda>(goal, win).
     State_Monad.bind get_now (\<lambda>now.
     attempt (put_manifest env (manifestKey camp) (manifest_of camp seg tpl goal win now recipients))
       (wrapped ''upload manifest to blob store'') (\<lambda>_.
     attempt (SaveCampaignManifestAndJobs (de_Interval env) (ca_ID camp) (manifestKey camp) (int (length recipients))
                (sg_Version seg) (te_Version tpl) goal win (shards camp recipients))
       (wrapped ''save manifest and jobs'') (\<lambda>_. ret (Inr ())))))))))"

text \<open>A worker's principal for a workspace; without an application it uses \<^verbatim>\<open>app-1\<close>.\<close>

definition campaign_principal :: "campaign \<Rightarrow> string result \<Rightarrow> principal" where
  "campaign_principal camp app = (tenant_principal (ca_TenantID camp) (ca_WorkspaceID camp))\<lparr>
     p_AppID := (case app of Inl _ \<Rightarrow> ''app-1'' | Inr appID \<Rightarrow> appID), p_Scopes := [''*'']\<rparr>"

text \<open>The deferred handler marks a campaign that could not be dispatched as failed.\<close>

definition DispatchNext :: "dispatch_env \<Rightarrow> (bool \<times> err option) prog" where
  "DispatchNext env =
     attempt ClaimScheduledCampaign (\<lambda>err. ret (False, Some (ErrWrap ''claim scheduled campaign'' err))) (\<lambda>claimed.
       case claimed of
         None \<Rightarrow> ret (False, None)
       | Some camp \<Rightarrow>
           State_Monad.bind (GetFirstAppID (ca_TenantID camp) (ca_WorkspaceID camp)) (\<lambda>app.
             let p = campaign_principal camp app
             in attempt (dispatch_campaign env p camp)
                  (\<lambda>err. State_Monad.bind (UpdateCampaign p (camp\<lparr>ca_Status := ''failed''\<rparr>)) (\<lambda>_. ret (True, Some err)))
                  (\<lambda>_. ret (True, None))))"

definition RedispatchFromManifest :: "dispatch_env \<Rightarrow> string \<Rightarrow> string \<Rightarrow> campaign_recipient list call" where
  "RedispatchFromManifest env tenantID campaignID =
     attempt (GetCampaignSystem tenantID campaignID) (wrapped ''get campaign'') (\<lambda>camp.
       case ca_ManifestKey camp of
         None \<Rightarrow> failed (ErrNew ''campaign manifest key is not set'')
       | Some key \<Rightarrow>
           if key = [] then failed (ErrNew ''campaign manifest key is not set'')
           else
             attempt (get_manifest env key) (wrapped ''fetch manifest from blob store'') (\<lambda>m.
             attempt (SaveCampaignManifestAndJobs (de_Interval env) (ca_ID camp) key (int (length (mf_Recipients m)))
                        (mf_SegmentVersion m) (mf_TemplateVersion m) (mf_ConversionGoal m) (mf_AttributionWindow m)
                        (shards camp (mf_Recipients m)))
               (wrapped ''save manifest and jobs'') (\<lambda>_. ret (Inr (mf_Recipients m)))))"

section \<open>Delivery\<close>

text \<open>
  What the body of the loop over the recipients comes to: it goes on to the next one, goes on and asks for a
  retry of the job, or panics.
\<close>

datatype stop = Next | Retry string | Crash string

type_synonym turn = "stop prog"

definition next_recipient :: turn where "next_recipient = ret Next"

text \<open>What the turns of one job share: the campaign, its principal, the caps and the experiment with its variants.\<close>

record delivery =
  dv_Campaign :: campaign
  dv_Principal :: principal
  dv_Template :: template
  dv_Quotas :: "int \<times> int"
  dv_Experiment :: "(experiment_rec \<times> experiment_variant list) option"

text \<open>\<^verbatim>\<open>store.UpdateDeliveryAttempt(...)\<close> of the recipient, whatever it returns.\<close>

definition mark_attempt :: "delivery \<Rightarrow> campaign_recipient \<Rightarrow> template \<Rightarrow> string \<Rightarrow> string \<Rightarrow> string \<Rightarrow> raw \<Rightarrow> int \<Rightarrow> unit call" where
  "mark_attempt d rec tpl decision reason providerMsgID snapshot cost =
     UpdateDeliveryAttempt (ca_ID (dv_Campaign d)) (cq_ProfileID rec) (te_Channel tpl) (cq_Endpoint rec)
       decision reason providerMsgID snapshot cost"

definition settle_attempt :: "delivery \<Rightarrow> campaign_recipient \<Rightarrow> template \<Rightarrow> string \<Rightarrow> string \<Rightarrow> turn" where
  "settle_attempt d rec tpl decision reason =
     State_Monad.bind (mark_attempt d rec tpl decision reason [] None 0) (\<lambda>_. next_recipient)"

subsection \<open>The variant and the sending identity\<close>

definition with_variant ::
  "delivery \<Rightarrow> campaign_recipient \<Rightarrow> (template \<Rightarrow> string \<Rightarrow> turn) \<Rightarrow> turn" where
  "with_variant d rec k =
     (case dv_Experiment d of
        None \<Rightarrow> k (dv_Template d) []
      | Some (e, vs) \<Rightarrow>
          attempt (AssignExperiment (dv_Principal d) (ex_ID e) (cq_ProfileID rec)
                     (fst (Assign (ex_Seed e) (cq_ProfileID rec) (experiment_variants vs) (ex_HoldoutPct e))))
            (\<lambda>_. next_recipient) (\<lambda>stored.
            case find (\<lambda>v. xv_Label v = xa_Variant stored \<and> xv_TemplateID v \<noteq> None \<and> xv_TemplateID v \<noteq> Some []) vs of
              None \<Rightarrow> k (dv_Template d) (xa_Variant stored)
            | Some v \<Rightarrow>
                attempt (GetTemplate (dv_Principal d) (the (xv_TemplateID v))) (\<lambda>_. next_recipient)
                  (\<lambda>tpl. k tpl (xa_Variant stored))))"

definition recipient_identity ::
  "delivery \<Rightarrow> campaign_recipient \<Rightarrow> template \<Rightarrow> (sending_identity \<Rightarrow> turn) \<Rightarrow> turn" where
  "recipient_identity d rec tpl k =
     (if te_Channel tpl = ''push'' then
        attempt (ListActiveDeviceTokens (ca_TenantID (dv_Campaign d)) (ca_WorkspaceID (dv_Campaign d)) (cq_ProfileID rec))
          (\<lambda>_. next_recipient) (\<lambda>activeTokens.
          case find (\<lambda>t. dt_Token t = cq_Endpoint rec) activeTokens of
            None \<Rightarrow> next_recipient
          | Some matchingToken \<Rightarrow>
              attempt (ListSendingIdentities (dv_Principal d))
                (\<lambda>_. k (mk_identity ''push'' (dt_Provider matchingToken)))
                (\<lambda>idents. k (push_identity idents (dt_Provider matchingToken))))
      else if te_Channel tpl = ''in_app'' then k (mk_identity ''in_app'' ''inapp'')
      else if te_SendingIdentityID tpl \<noteq> None \<and> te_SendingIdentityID tpl \<noteq> Some [] then
        attempt (GetSendingIdentity (dv_Principal d) (the (te_SendingIdentityID tpl))) (\<lambda>_. next_recipient) k
      else k (mk_identity (te_Channel tpl) ''fake''))"

subsection \<open>The attempt\<close>

definition new_attempt :: "delivery \<Rightarrow> campaign_recipient \<Rightarrow> template \<Rightarrow> string \<Rightarrow> delivery_attempt" where
  "new_attempt d rec tpl variant =
     \<lparr>da_ID = [], da_CampaignID = ca_ID (dv_Campaign d), da_TenantID = ca_TenantID (dv_Campaign d),
      da_ExperimentID = ca_ExperimentID (dv_Campaign d), da_Variant = variant, da_ProfileID = cq_ProfileID rec,
      da_Channel = te_Channel tpl, da_Endpoint = cq_Endpoint rec, da_Decision = ''processing'', da_Reason = [],
      da_ProviderMessageID = [], da_PolicySnapshot = None, da_AttemptedAt = zero_time, da_CreatedAt = zero_time,
      da_CostMicros = 0\<rparr>"

text \<open>The decisions of an attempt that is taken up again.\<close>

definition open_decision :: "string \<Rightarrow> bool" where
  "open_decision s \<longleftrightarrow> s = ''processing'' \<or> s = ''provider_sent'' \<or> s = ''retryable_failed''"

definition with_attempt ::
  "delivery \<Rightarrow> campaign_recipient \<Rightarrow> template \<Rightarrow> string \<Rightarrow> (delivery_attempt \<Rightarrow> turn) \<Rightarrow> turn" where
  "with_attempt d rec tpl variant k =
     attempt (CreateDeliveryAttempt (new_attempt d rec tpl variant)) (\<lambda>_. next_recipient) (\<lambda>inserted.
       if inserted then k (new_attempt d rec tpl variant)
       else
         attempt (GetDeliveryAttempt (ca_ID (dv_Campaign d)) (cq_ProfileID rec) (te_Channel tpl) (cq_Endpoint rec))
           (\<lambda>_. next_recipient) (\<lambda>existing. if open_decision (da_Decision existing) then k existing else next_recipient))"

definition stamp_experiment :: "delivery \<Rightarrow> campaign_recipient \<Rightarrow> template \<Rightarrow> string \<Rightarrow> turn \<Rightarrow> turn" where
  "stamp_experiment d rec tpl variant k =
     (case dv_Experiment d of
        None \<Rightarrow> k
      | Some _ \<Rightarrow>
          attempt (SetDeliveryAttemptExperiment (ca_TenantID (dv_Campaign d)) (ca_ID (dv_Campaign d)) (cq_ProfileID rec)
                     (te_Channel tpl) (coalesce (ca_ExperimentID (dv_Campaign d))) variant)
            (\<lambda>_. next_recipient)
            (\<lambda>_. if variant = ''holdout'' then settle_attempt d rec tpl ''holdout'' ''experiment holdout'' else k))"

subsection \<open>The message\<close>

definition campaign_part ::
  "config_rec \<Rightarrow> delivery \<Rightarrow> campaign_recipient \<Rightarrow> template \<Rightarrow> (string \<times> json) list option \<Rightarrow> string option \<Rightarrow> string \<Rightarrow>
   (string \<Rightarrow> turn) \<Rightarrow> turn" where
  "campaign_part cfg d rec tpl vars source dflt k =
     (if source = None \<or> source = Some [] then k dflt
      else State_Monad.bind (State (\<lambda>w. (cf_Render cfg (w_tick w) (dv_Principal d) (the source) vars, ticked w))) (\<lambda>r.
        case r of
          Returned txt \<Rightarrow> k txt
        | Raised err \<Rightarrow> settle_attempt d rec tpl ''render_failed'' (''render error: '' @ error_text err)
        | Panicked m \<Rightarrow> ret (Crash m)))"

definition campaign_subject :: "delivery \<Rightarrow> campaign_recipient \<Rightarrow> template \<Rightarrow> string list" where
  "campaign_subject d rec tpl = [ca_TenantID (dv_Campaign d), p_AppID (dv_Principal d), ca_ID (dv_Campaign d),
     cq_ProfileID rec, te_ID tpl, ca_ID (dv_Campaign d)]"

definition campaign_key :: "delivery \<Rightarrow> campaign_recipient \<Rightarrow> string" where
  "campaign_key d rec = ''sent-'' @ ca_ID (dv_Campaign d) @ ''-'' @ cq_ProfileID rec"

definition campaign_message ::
  "delivery \<Rightarrow> campaign_recipient \<Rightarrow> template \<Rightarrow> sending_identity \<Rightarrow> string \<Rightarrow> string \<Rightarrow> string \<Rightarrow> string \<Rightarrow> rendered_message" where
  "campaign_message d rec tpl identity subject html txt body =
     \<lparr>rm_Channel = te_Channel tpl, rm_Endpoint = cq_Endpoint rec, rm_Subject = subject, rm_HTML = html, rm_Text = txt,
      rm_Body = body, rm_Title = [], rm_Data = [], rm_Identity = identity, rm_IdempotencyKey = campaign_key d rec\<rparr>"

definition with_campaign_message ::
  "config_rec \<Rightarrow> delivery \<Rightarrow> campaign_recipient \<Rightarrow> template \<Rightarrow> profile \<Rightarrow> sending_identity \<Rightarrow> (rendered_message \<Rightarrow> turn) \<Rightarrow> turn" where
  "with_campaign_message cfg d rec tpl prof identity k =
     (let part = campaign_part cfg d rec tpl (template_vars prof)
      in part (te_SubjectTemplate tpl) ''Campaign'' (\<lambda>subject.
         part (te_HTMLTemplate tpl) [] (\<lambda>htmlBody.
         part (te_TextTemplate tpl) [] (\<lambda>textBody.
         part (te_BodyTemplate tpl) [] (\<lambda>bodyPayload.
           State_Monad.bind (add_tracking cfg (campaign_subject d rec tpl) htmlBody) (\<lambda>html.
             k (campaign_message d rec tpl identity subject html textBody bodyPayload)))))))"

subsection \<open>Sending\<close>

definition campaign_payload :: "delivery \<Rightarrow> campaign_recipient \<Rightarrow> template \<Rightarrow> string \<Rightarrow> raw" where
  "campaign_payload d rec tpl variant = Some (JObj [
     (''campaign_id'', JStr (ca_ID (dv_Campaign d))), (''channel'', JStr (te_Channel tpl)),
     (''endpoint'', JStr (cq_Endpoint rec)), (''experiment_id'', JStr (coalesce (ca_ExperimentID (dv_Campaign d)))),
     (''variant'', JStr variant)])"

definition campaign_event :: "delivery \<Rightarrow> campaign_recipient \<Rightarrow> template \<Rightarrow> string \<Rightarrow> profile \<Rightarrow> time \<Rightarrow> event" where
  "campaign_event d rec tpl variant prof now = mk_event ''message.sent'' (pf_ExternalID prof) (pf_AnonymousID prof)
     (campaign_key d rec) now (campaign_payload d rec tpl variant)"

definition verdict_snapshot :: "verdict \<Rightarrow> raw" where
  "verdict_snapshot v = (if vd_Snapshot v \<noteq> [] then Some (JObj (vd_Snapshot v)) else None)"

text \<open>The event of a message the provider has taken, and the attempt's last decision.\<close>

definition emit_campaign ::
  "delivery \<Rightarrow> campaign_recipient \<Rightarrow> template \<Rightarrow> string \<Rightarrow> profile \<Rightarrow> raw \<Rightarrow> string \<Rightarrow> int \<Rightarrow> turn" where
  "emit_campaign d rec tpl variant prof snapshot providerMsgID cost =
     State_Monad.bind get_now (\<lambda>now.
       attempt (AcceptEvents (dv_Principal d) [campaign_event d rec tpl variant prof now]) (\<lambda>_. next_recipient) (\<lambda>_.
         State_Monad.bind (mark_attempt d rec tpl ''sent'' ''eligible'' providerMsgID snapshot cost) (\<lambda>_. next_recipient)))"

definition campaign_send_error :: "delivery \<Rightarrow> campaign_recipient \<Rightarrow> template \<Rightarrow> err \<Rightarrow> turn" where
  "campaign_send_error d rec tpl err =
     (if IsInvalidTokenError err then
        State_Monad.bind (GetFirstAppID (ca_TenantID (dv_Campaign d)) (ca_WorkspaceID (dv_Campaign d))) (\<lambda>app.
        State_Monad.bind (RetireDeviceToken (ca_TenantID (dv_Campaign d)) (case app of Inl _ \<Rightarrow> ''app-1'' | Inr a \<Rightarrow> a) (cq_Endpoint rec)) (\<lambda>_.
          settle_attempt d rec tpl ''failed'' (''invalid token retired: '' @ error_text err)))
      else if IsRetryableError err then
        State_Monad.bind (mark_attempt d rec tpl ''retryable_failed'' (''transient send error: '' @ error_text err) [] None 0)
          (\<lambda>_. ret (Retry (error_text err)))
      else settle_attempt d rec tpl ''send_failed'' (''adapter send error: '' @ error_text err))"

definition send_campaign ::
  "adapter \<Rightarrow> delivery \<Rightarrow> campaign_recipient \<Rightarrow> template \<Rightarrow> string \<Rightarrow> profile \<Rightarrow> raw \<Rightarrow> rendered_message \<Rightarrow> turn" where
  "send_campaign a d rec tpl variant prof snapshot msg =
     State_Monad.bind (send_message a msg) (\<lambda>r.
       case r of
         Panicked m \<Rightarrow> ret (Crash m)
       | Raised err \<Rightarrow> campaign_send_error d rec tpl err
       | Returned (providerMsgID, cost) \<Rightarrow>
           State_Monad.bind (mark_attempt d rec tpl ''provider_sent'' ''eligible'' providerMsgID snapshot cost)
             (\<lambda>_. emit_campaign d rec tpl variant prof snapshot providerMsgID cost))"

definition adapterFor :: "config_rec \<Rightarrow> string \<Rightarrow> adapter" where
  "adapterFor cfg provider =
     (case cf_Adapter cfg of
        Some a \<Rightarrow> a
      | None \<Rightarrow>
          (case cf_Registry cfg of
             Some r \<Rightarrow> registry_For r provider
           | None \<Rightarrow>
               if provider = ''ses'' then or_new cfg (cf_SESAdapter cfg) ''ses''
               else if provider = ''webhook'' then or_new cfg (cf_WebhookAdapter cfg) ''webhook''
               else or_new cfg (cf_FakeAdapter cfg) ''fake''))"

subsection \<open>One recipient\<close>

definition campaign_caps :: "delivery \<Rightarrow> template \<Rightarrow> caps" where
  "campaign_caps d tpl = \<lparr>cp_Channel = te_Channel tpl, cp_Topic = ''marketing'', cp_MaxSends24h = fst (dv_Quotas d),
     cp_MaxSends7d = snd (dv_Quotas d)\<rparr>"

definition policy_recipient :: "campaign_recipient \<Rightarrow> profile \<Rightarrow> recipient" where
  "policy_recipient rec prof = \<lparr>rc_ProfileID = cq_ProfileID rec, rc_ExternalID = pf_ExternalID prof, rc_Endpoint = cq_Endpoint rec\<rparr>"

definition deliver_attempt ::
  "config_rec \<Rightarrow> delivery \<Rightarrow> campaign_recipient \<Rightarrow> template \<Rightarrow> string \<Rightarrow> sending_identity \<Rightarrow> delivery_attempt \<Rightarrow> turn" where
  "deliver_attempt cfg d rec tpl variant identity a =
     attempt (GetProfileByID (ca_TenantID (dv_Campaign d)) (p_AppID (dv_Principal d)) (cq_ProfileID rec))
       (\<lambda>err. settle_attempt d rec tpl ''failed'' (''failed to load profile: '' @ error_text err)) (\<lambda>prof.
     State_Monad.bind (Policy.Evaluate (dv_Principal d) (policy_recipient rec prof) (campaign_caps d tpl)) (\<lambda>v.
       if vd_Decision v \<noteq> ''sent'' then
         State_Monad.bind (mark_attempt d rec tpl (vd_Decision v) (vd_Reason v) [] (verdict_snapshot v) 0) (\<lambda>_. next_recipient)
       else
         with_campaign_message cfg d rec tpl prof identity (\<lambda>msg.
           if da_Decision a = ''provider_sent''
           then emit_campaign d rec tpl variant prof (verdict_snapshot v) (da_ProviderMessageID a) 0
           else send_campaign (adapterFor cfg (si_Provider identity)) d rec tpl variant prof (verdict_snapshot v) msg)))"

definition deliver_recipient :: "config_rec \<Rightarrow> delivery \<Rightarrow> campaign_recipient \<Rightarrow> turn" where
  "deliver_recipient cfg d rec =
     with_variant d rec (\<lambda>tpl variant.
     recipient_identity d rec tpl (\<lambda>identity.
     with_attempt d rec tpl variant (\<lambda>a.
     stamp_experiment d rec tpl variant (deliver_attempt cfg d rec tpl variant identity a))))"

subsection \<open>One job\<close>

text \<open>The last transient error, if any, or the panic that ended the loop.\<close>

fun deliver_recipients :: "config_rec \<Rightarrow> delivery \<Rightarrow> campaign_recipient list \<Rightarrow> stop \<Rightarrow> turn" where
  "deliver_recipients cfg d [] acc = ret acc"
| "deliver_recipients cfg d (rec # recs) acc =
     State_Monad.bind (deliver_recipient cfg d rec) (\<lambda>r.
       case r of
         Next \<Rightarrow> deliver_recipients cfg d recs acc
       | Retry msg \<Rightarrow> deliver_recipients cfg d recs (Retry msg)
       | Crash m \<Rightarrow> ret (Crash m))"

definition finish_delivery :: "delivery_job \<Rightarrow> stop \<Rightarrow> delivered" where
  "finish_delivery job r =
     (case r of
        Crash m \<Rightarrow>
          (let panicErr = ''delivery panic: '' @ m; prefix = ''recover delivery job '' @ dj_ID job @ '': '' @ panicErr
           in attempt (FailDeliveryJob (dj_ID job) panicErr)
                (\<lambda>failErr. ret (True, Some (ErrNew (prefix @ '' (fail job: '' @ error_text failErr @ '')''))))
                (\<lambda>_. ret (True, Some (ErrNew prefix))))
      | Retry msg \<Rightarrow>
          attempt (FailDeliveryJob (dj_ID job) (''transient send failure: '' @ msg))
            (\<lambda>err. ret (True, Some err)) (\<lambda>_. ret (True, Some (ErrNew (''transient delivery failure: '' @ msg))))
      | Next \<Rightarrow> attempt (CompleteDeliveryJob (dj_ID job)) (\<lambda>err. ret (True, Some err)) (\<lambda>_. done_ok))"

definition give_up_job :: "delivery_job \<Rightarrow> string \<Rightarrow> delivered" where
  "give_up_job job errMsg = State_Monad.bind (FailDeliveryJob (dj_ID job) errMsg) (\<lambda>_. done_ok)"

definition job_experiment ::
  "principal \<Rightarrow> campaign \<Rightarrow> (experiment_rec \<times> experiment_variant list) option call" where
  "job_experiment p camp =
     (if ca_ExperimentID camp = None \<or> ca_ExperimentID camp = Some [] then ret (Inr None)
      else attempt (GetExperiment p (the (ca_ExperimentID camp))) failed (\<lambda>e. ret (Inr (Some e))))"

definition deliver_job :: "config_rec \<Rightarrow> delivery_job \<Rightarrow> delivered" where
  "deliver_job cfg job =
     attempt (GetCampaignSystem (dj_TenantID job) (dj_CampaignID job))
       (\<lambda>err. give_up_job job (''failed to get campaign: '' @ error_text err)) (\<lambda>camp.
     State_Monad.bind (GetFirstAppID (ca_TenantID camp) (ca_WorkspaceID camp)) (\<lambda>app.
       let p = campaign_principal camp app
       in attempt (GetTemplate p (ca_TemplateID camp))
            (\<lambda>err. give_up_job job (''failed to get template: '' @ error_text err)) (\<lambda>tpl.
          State_Monad.bind (GetTenantFatigueQuotas p) (\<lambda>quotas.
          attempt (job_experiment p camp)
            (\<lambda>err. give_up_job job (''failed to get experiment: '' @ error_text err)) (\<lambda>e.
            let d = \<lparr>dv_Campaign = camp, dv_Principal = p, dv_Template = tpl,
                     dv_Quotas = (case quotas of Inl _ \<Rightarrow> (5, 20) | Inr q \<Rightarrow> q), dv_Experiment = e\<rparr>
            in State_Monad.bind (deliver_recipients cfg d (dj_Recipients job) Next) (finish_delivery job))))))"

definition DeliverNext :: "config_rec \<Rightarrow> string \<Rightarrow> delivered" where
  "DeliverNext cfg workerID =
     attempt (ClaimDeliveryJob workerID)
       (\<lambda>err. ret (False, Some (ErrWrap ''claim delivery job'' err)))
       (\<lambda>claimed. case claimed of None \<Rightarrow> ret (False, None) | Some job \<Rightarrow> deliver_job cfg job)"

end
