(* ===== verification/CampaignEffects.thy ===== *)
theory CampaignEffects
  imports Campaigns NodeFacts
begin

text \<open>
  The effects of the campaign programs. The interface \<open>campaign_effects\<close> names the calls they make; whatever
  relation holds of these calls holds of the dispatcher, the repetition of a dispatch and the delivery worker.
  The frame of the calls, what they leave alone, is everything but the tables of campaigns, delivery jobs and
  attempts, the audit trail and the blob store, so all that is proved of the journeys holds while campaigns are sent.
\<close>

definition campaign_frame :: "world \<Rightarrow> world \<Rightarrow> bool" where
  "campaign_frame w w' \<longleftrightarrow> untouched w w' \<and> w_now w' = w_now w \<and> w_fault w' = w_fault w \<and> w_uuid w' = w_uuid w \<and>
     w_profiles w' = w_profiles w \<and> w_suppressions w' = w_suppressions w \<and> w_consents w' = w_consents w \<and>
     w_quotas w' = w_quotas w \<and> w_templates w' = w_templates w \<and> w_segments w' = w_segments w \<and>
     w_experiments w' = w_experiments w \<and> w_assignments w' = w_assignments w"

lemma campaign_frame_trans: "campaign_frame u v \<Longrightarrow> campaign_frame v w \<Longrightarrow> campaign_frame u w"
  by (simp add: campaign_frame_def untouched_def)

interpretation cam: store_evolution campaign_frame
  by unfold_locales (auto simp: campaign_frame_def untouched_def)

lemma frame_transact:
  "(\<And>w x w'. f w = Inr (x, w') \<Longrightarrow> campaign_frame w w') \<Longrightarrow> state_io_rel campaign_frame (transact f)"
  unfolding transact_def by (rule cam.evolve_db) (auto split: sum.splits prod.splits simp: cam.evolution_refl)

lemma frame_insert_jobs: "campaign_frame w (insert_jobs c jobs w)"
proof (induction c jobs w rule: insert_jobs.induct)
  case (2 c job jobs w)
  show ?case unfolding insert_jobs.simps
    by (rule campaign_frame_trans [OF _ 2]) (simp add: campaign_frame_def untouched_def)
qed (simp add: campaign_frame_def untouched_def)

lemma frame_settle_campaign: "campaign_frame w (settle_campaign c w)"
  by (simp add: settle_campaign_def Let_def campaign_frame_def untouched_def)

lemma frame_end_job: "state_io_rel campaign_frame (end_job f j)"
proof -
  have "campaign_frame w (settle_campaign c (w\<lparr>w_delivery_jobs := js\<rparr>))" for w c js
    by (rule campaign_frame_trans [OF _ frame_settle_campaign]) (simp add: campaign_frame_def untouched_def)
  then show ?thesis unfolding end_job_def by (intro frame_transact) (auto split: option.splits)
qed

lemma frame_campaigns:
  "state_io_rel campaign_frame (CreateCampaign p c)"
  "state_io_rel campaign_frame (UpdateCampaign p c)"
  "state_io_rel campaign_frame ClaimScheduledCampaign"
  "state_io_rel campaign_frame (put_manifest env key m)"
  "state_io_rel campaign_frame (SaveCampaignManifestAndJobs interval i key n sv tv goal win jobs)"
proof -
  show "state_io_rel campaign_frame (CreateCampaign p c)" "state_io_rel campaign_frame (UpdateCampaign p c)"
    unfolding CreateCampaign_def UpdateCampaign_def
    by (intro frame_transact; auto simp: Let_def campaign_frame_def untouched_def split: if_splits option.splits)+
  show "state_io_rel campaign_frame ClaimScheduledCampaign"
    unfolding ClaimScheduledCampaign_def
    by (intro cam.evolve_db) (simp add: Let_def campaign_frame_def untouched_def split: option.splits)
  show "state_io_rel campaign_frame (put_manifest env key m)"
    by (simp add: state_io_rel_def put_manifest_def campaign_frame_def untouched_def split: option.splits)
  have "campaign_frame w (insert_jobs i jobs (w\<lparr>w_campaigns := cs\<rparr>))" for w cs
    by (rule campaign_frame_trans [OF _ frame_insert_jobs]) (simp add: campaign_frame_def untouched_def)
  then show "state_io_rel campaign_frame (SaveCampaignManifestAndJobs interval i key n sv tv goal win jobs)"
    unfolding SaveCampaignManifestAndJobs_def by (intro frame_transact) (auto split: option.splits if_splits)
qed

lemma frame_delivery_jobs:
  "state_io_rel campaign_frame (ClaimDeliveryJob worker)"
  "state_io_rel campaign_frame (CompleteDeliveryJob j)"
  "state_io_rel campaign_frame (FailDeliveryJob j msg)"
proof -
  show "state_io_rel campaign_frame (ClaimDeliveryJob worker)"
    unfolding ClaimDeliveryJob_def
    by (intro cam.evolve_db) (simp add: campaign_frame_def untouched_def split: option.splits)
qed (simp_all add: CompleteDeliveryJob_def FailDeliveryJob_def frame_end_job)

lemma frame_attempts:
  "state_io_rel campaign_frame (CreateDeliveryAttempt a)"
  "state_io_rel campaign_frame (UpdateDeliveryAttempt c f ch ep dec reason mid snap cost)"
  "state_io_rel campaign_frame (SetDeliveryAttemptExperiment t c f ch e v)"
  "state_io_rel campaign_frame (DeleteDeliveryAttempt t c f ch ep)"
proof -
  show "state_io_rel campaign_frame (CreateDeliveryAttempt a)"
    unfolding CreateDeliveryAttempt_def
    by (intro cam.store_rules frame_transact) (auto simp: campaign_frame_def untouched_def failed_def intro: cam.store_rules split: if_splits)
  show "state_io_rel campaign_frame (UpdateDeliveryAttempt c f ch ep dec reason mid snap cost)"
    unfolding UpdateDeliveryAttempt_def by (intro frame_transact) (auto simp: Let_def campaign_frame_def untouched_def split: if_splits)
  show "state_io_rel campaign_frame (SetDeliveryAttemptExperiment t c f ch e v)"
    unfolding SetDeliveryAttemptExperiment_def by (intro cam.evolve_db) (simp add: Let_def campaign_frame_def untouched_def)
  show "state_io_rel campaign_frame (DeleteDeliveryAttempt t c f ch ep)"
    unfolding DeleteDeliveryAttempt_def by (intro cam.evolve_exec) (simp add: campaign_frame_def untouched_def)
qed

lemmas campaign_calls = frame_campaigns frame_delivery_jobs frame_attempts

lemma frame_evolves: "state_io_rel campaign_frame m \<Longrightarrow> state_io_rel evolves m"
  by (erule state_io_rel_mono) (simp add: campaign_frame_def evolves_untouched)

lemmas evolve_campaigns [evolve] = campaign_calls [THEN frame_evolves]

section \<open>Programs\<close>

text \<open>Resolving a segment only reads.\<close>

lemma read_only_profile_pages: "state_io_rel read_only (profile_pages fuel t ws lastID seen)"
  by (induction fuel arbitrary: lastID seen) (auto simp: profile_page_def intro!: ro.store_rules)

lemma read_only_evalSet:
  "state_io_rel read_only (evalSet p fs n counts)"
  "state_io_rel read_only (evalAnd p fs ns res counts)"
  "state_io_rel read_only (evalOr p fs ns ids counts)"
  by (induction p fs n counts and p fs ns res counts and p fs ns ids counts rule: evalSet_evalAnd_evalOr.induct)
    (auto intro!: ro.store_rules read_only_queries split: sum.splits prod.splits)

lemma read_only_ResolveSegment: "state_io_rel read_only (ResolveSegment p i)"
proof -
  have pure: "state_io_rel read_only (State (\<lambda>w. (f w, w)))" for f by (simp add: state_io_rel_def)
  have ids: "state_io_rel read_only (resolveSegmentIDs p seg)" for seg
    unfolding resolveSegmentIDs_def all_profiles_def
    by (intro ro.store_rules pure read_only_profile_pages read_only_evalSet)
  show ?thesis unfolding ResolveSegment_def GetSegment_def map_order_def by (intro ro.store_rules ids pure)
qed

lemma read_only_recipients: "state_io_rel read_only (campaign_recipients camp tpl ids)"
proof -
  have "state_io_rel read_only (push_recipients camp ids)" for ids
    by (induction ids) (auto simp: ListActiveDeviceTokens_def intro!: ro.store_rules)
  then show ?thesis unfolding campaign_recipients_def GetProfilePhones_def GetProfileEmails_def wrapped_def
    by (intro ro.store_rules)
qed

lemma read_only_GetExperiment: "state_io_rel read_only (GetExperiment p i)"
  unfolding GetExperiment_def listExperimentVariants_def failed_def by (intro ro.store_rules)

lemma read_only_campaign_goal: "state_io_rel read_only (campaign_goal p camp)"
  unfolding campaign_goal_def wrapped_def by (intro ro.store_rules read_only_GetExperiment)

text \<open>A campaign is saved with jobs or for nobody, and edited only to a status that is not \<^verbatim>\<open>sending\<close>.\<close>

locale campaign_effects = node_effects R for R :: "world \<Rightarrow> world \<Rightarrow> bool" +
  assumes retire_ok: "state_io_rel R (RetireDeviceToken t app tok)"
    and send_ok: "state_io_rel R (send_message a msg)"
    and build_ok: "state_io_rel R ClaimScheduledCampaign"
    and upload_ok: "state_io_rel R (put_manifest env key m)"
    and save_ok: "jobs \<noteq> [] \<or> n = 0 \<Longrightarrow> state_io_rel R (SaveCampaignManifestAndJobs interval c key n sv tv goal win jobs)"
    and edit_ok: "ca_Status camp \<noteq> ''sending'' \<Longrightarrow> state_io_rel R (UpdateCampaign p camp)"
    and claim_job_ok: "state_io_rel R (ClaimDeliveryJob worker)"
    and complete_ok: "state_io_rel R (CompleteDeliveryJob j)"
    and fail_ok: "state_io_rel R (FailDeliveryJob j msg')"
    and create_ok: "state_io_rel R (CreateDeliveryAttempt row)"
    and update_ok: "state_io_rel R (UpdateDeliveryAttempt cid f ch ep dec reason mid snap cost)"
    and stamp_ok: "state_io_rel R (SetDeliveryAttemptExperiment tn cid f ch e v)"
begin

lemmas call_rules = retire_ok send_ok build_ok upload_ok edit_ok claim_job_ok complete_ok fail_ok create_ok update_ok stamp_ok
  accept_ok assign_ok

lemma evolve_tick: "state_io_rel R (State (\<lambda>w. (f w, ticked w)))"
  by (simp add: state_io_rel_def tick_ok)

lemma shards_none: "shards camp rs \<noteq> [] \<or> int (length rs) = 0"
  unfolding shards_def by (subst shard_loop.simps) (simp add: Let_def)

lemma evolve_DispatchNext: "state_io_rel R (DispatchNext env)"
proof -
  have "state_io_rel R (dispatch_campaign env p camp)" for p camp
    unfolding dispatch_campaign_def GetTemplate_def GetSegment_def wrapped_def failed_def
    by (intro store_rules call_rules save_ok shards_none evolve_reads [OF read_only_ResolveSegment]
        evolve_reads [OF read_only_recipients] evolve_reads [OF read_only_campaign_goal])
  then show ?thesis unfolding DispatchNext_def GetFirstAppID_def Let_def by (intro store_rules call_rules) simp_all
qed

lemma evolve_RedispatchFromManifest: "state_io_rel R (RedispatchFromManifest env t i)"
  unfolding RedispatchFromManifest_def GetCampaignSystem_def get_manifest_def wrapped_def failed_def
  by (intro store_rules save_ok shards_none evolve_tick)

lemma evolve_turns:
  "state_io_rel R next_recipient" "state_io_rel R (settle_attempt d rec tpl dec reason)"
  "state_io_rel R (emit_campaign d rec tpl v f snap mid cost)" "state_io_rel R (send_campaign a d rec tpl v f snap msg)"
proof -
  show go: "state_io_rel R next_recipient" unfolding next_recipient_def by (intro store_rules)
  show settle: "state_io_rel R (settle_attempt d rec tpl dec reason)" for dec reason
    unfolding settle_attempt_def mark_attempt_def by (intro store_rules call_rules go)
  show emit: "state_io_rel R (emit_campaign d rec tpl v f snap mid cost)" for mid cost
    unfolding emit_campaign_def mark_attempt_def by (intro store_rules call_rules go)
  show "state_io_rel R (send_campaign a d rec tpl v f snap msg)"
    unfolding send_campaign_def campaign_send_error_def GetFirstAppID_def mark_attempt_def
    by (intro evolve_bind call_rules) (auto split: outcome.splits prod.splits intro!: store_rules call_rules settle emit)
qed

lemma evolve_deliver_attempt: "state_io_rel R (deliver_attempt cfg d rec tpl v ident a)"
proof -
  have part: "state_io_rel R (campaign_part cfg d rec tpl vars src dflt k)"
    if "\<And>x. state_io_rel R (k x)" for vars src dflt k
    unfolding campaign_part_def
    by (intro store_rules evolve_tick) (auto split: outcome.splits intro!: that evolve_turns store_rules)
  have tracking: "state_io_rel R (add_tracking cfg subject html)" for subject html
    unfolding add_tracking_def Let_def by (intro store_rules evolve_tick)
  show ?thesis
    unfolding deliver_attempt_def with_campaign_message_def GetProfileByID_def mark_attempt_def Let_def
    by (intro store_rules call_rules part tracking evolve_turns evolve_reads [OF read_only_Evaluate])
qed

lemma evolve_deliver_recipient: "state_io_rel R (deliver_recipient cfg d rec)"
proof -
  have variant: "state_io_rel R (with_variant d rec k)" if "\<And>x y. state_io_rel R (k x y)" for k
    unfolding with_variant_def GetTemplate_def by (intro store_rules call_rules evolve_turns that)
  have ident: "state_io_rel R (recipient_identity d rec tpl k)" if "\<And>x. state_io_rel R (k x)" for tpl k
    unfolding recipient_identity_def ListActiveDeviceTokens_def ListSendingIdentities_def GetSendingIdentity_def
    by (intro store_rules evolve_turns that)
  have att: "state_io_rel R (with_attempt d rec tpl v k)" if "\<And>x. state_io_rel R (k x)" for tpl v k
    unfolding with_attempt_def GetDeliveryAttempt_def by (intro store_rules call_rules evolve_turns that)
  have stamp: "state_io_rel R (stamp_experiment d rec tpl v k)" if "state_io_rel R k" for tpl v k
    unfolding stamp_experiment_def by (intro store_rules call_rules evolve_turns that)
  show ?thesis unfolding deliver_recipient_def by (intro variant ident att stamp evolve_deliver_attempt)
qed

lemma evolve_DeliverNext: "state_io_rel R (Campaigns.DeliverNext cfg worker)"
proof -
  have loop: "state_io_rel R (deliver_recipients cfg d recs acc)" for d recs acc
    by (induction recs arbitrary: acc) (auto intro!: store_rules evolve_deliver_recipient split: stop.splits)
  have finish: "state_io_rel R (finish_delivery job r)" for job r
    unfolding finish_delivery_def done_ok_def Let_def by (cases r) (auto intro!: store_rules call_rules)
  have give_up: "state_io_rel R (give_up_job job m)" for job m
    unfolding give_up_job_def done_ok_def by (intro store_rules call_rules)
  show ?thesis
    unfolding Campaigns.DeliverNext_def deliver_job_def GetCampaignSystem_def GetFirstAppID_def GetTemplate_def
      GetTenantFatigueQuotas_def job_experiment_def failed_def Let_def
    by (intro store_rules call_rules loop finish give_up evolve_reads [OF read_only_GetExperiment])
qed

end

text \<open>The first instance: no program changes which calls fail.\<close>

definition same_faults :: "world \<Rightarrow> world \<Rightarrow> bool" where
  "same_faults w w' \<longleftrightarrow> w_fault w' = w_fault w"

lemma frame_faults: "state_io_rel campaign_frame m \<Longrightarrow> state_io_rel same_faults m"
  by (erule state_io_rel_mono) (simp add: campaign_frame_def same_faults_def)

lemma engine_faults: "state_io_rel engine_frame m \<Longrightarrow> state_io_rel same_faults m"
  by (erule state_io_rel_mono) (simp add: engine_frame_def same_faults_def)

lemma retire_faults: "state_io_rel same_faults (RetireDeviceToken t app tok)"
  by (simp add: RetireDeviceToken_def state_io_rel_def run_exec same_faults_def)

interpretation hlt: campaign_effects same_faults
  by unfold_locales (auto simp: same_faults_def read_only_def state_io_rel_def [of _ "send_message _ _"]
      intro: campaign_calls [THEN frame_faults] engine_faults frame.profile_ok frame.accept_ok frame.assign_ok retire_faults)

lemma healthy_after: "healthy w \<Longrightarrow> state_io_rel same_faults m \<Longrightarrow> healthy (snd (run_state m w))"
  by (simp add: state_io_rel_def same_faults_def healthy_def)

end
