(* ===== verification/Engine.thy ===== *)
theory Engine
  imports JourneyRuntime JourneyEnroll NodeFacts ProjectionFacts CampaignEffects
begin

text \<open>
  The engine as a transition system. The workers, the HTTP handlers and the event projector run
  concurrently; what they share is the database, and each of its calls is atomic. A step of the
  engine is one such call with any arguments, a read or failed call, a message handed to a channel
  adapter, or the passing of time. Any interleaving of any number of programs is therefore a sequence
  of steps; that each program is one is shown for the worker loops at the end. The operations of the
  store that nothing outside its tests calls (\<^verbatim>\<open>CreateJourneyRun\<close>, \<^verbatim>\<open>UpdateJourneyRun\<close>,
  \<^verbatim>\<open>InsertJourneyStep\<close>, \<^verbatim>\<open>CompleteJourneyStep\<close>, \<^verbatim>\<open>RecordTransition\<close>) are not steps.
\<close>

section \<open>Steps\<close>

abbreviation after :: "world \<Rightarrow> 'a prog \<Rightarrow> world" where
  "after w m \<equiv> snd (run_state m w)"

inductive engine_step :: "world \<Rightarrow> world \<Rightarrow> bool" where
  passes: "w_now w \<le> now \<Longrightarrow> engine_step w (w\<lparr>w_now := now\<rparr>)"
| reads: "read_only w w' \<Longrightarrow> engine_step w w'"
| enrolls: "engine_step w (after w (EnrollJourneyRun run step))"
| cancels: "engine_step w (after w (CancelJourneyRun p journeyID runID))"
| claims: "engine_step w (after w ClaimJourneyStep)"
| fails: "engine_step w (after w (FailJourneyStep stepID msg))"
| reschedules: "engine_step w (after w (RescheduleJourneyStep stepID t))"
| retries: "engine_step w (after w (RetryJourneyStep p stepID))"
| advances: "engine_step w (after w (AdvanceRunTx runID run stepID nextStep trn intents))"
| projects: "engine_step w (after w (ProjectEvent event))"
| claims_intent: "engine_step w (after w (ClaimJourneyMessageIntent worker))"
| updates_intent: "engine_step w (after w (UpdateJourneyMessageIntent intent))"
| retries_intent: "engine_step w (after w (RetryJourneyMessageIntent p intentID))"
| sends: "engine_step w (after w (send_message a msg))"
| accepts: "engine_step w (after w (AcceptEvents p events))"
| updates_profile: "engine_step w (after w (UpdateProfileAttributes p profileID attrs))"
| assigns: "engine_step w (after w (AssignExperiment p experimentID profileID v))"
| registers: "engine_step w (after w (RegisterDeviceToken t ws app profileID platform provider token))"
| retires: "engine_step w (after w (RetireDeviceToken t app token))"
| retires_id: "engine_step w (after w (RetireDeviceTokenByID t tokenID))"
| suppresses: "engine_step w (after w (SuppressEndpoint p channel endpoint reason))"
| unsuppresses: "engine_step w (after w (RemoveSuppression p channel endpoint))"
| creates: "engine_step w (after w (CreateJourney p j))"
| updates: "engine_step w (after w (UpdateJourney p j))"
| publishes: "engine_step w (after w (PublishJourney env p journeyID approver key))"
| switches: "engine_step w (after w (SetJourneyVersionStatus p journeyID version status))"
| claims_projection: "engine_step w (after w ClaimProjectionJob)"
| fails_projection: "engine_step w (after w (FailProjectionJob eventID jobErr))"
| creates_campaign: "engine_step w (after w (CreateCampaign p c))"
| updates_campaign: "engine_step w (after w (UpdateCampaign p c))"
| claims_campaign: "engine_step w (after w ClaimScheduledCampaign)"
| uploads: "engine_step w (after w (put_manifest denv key m))"
| saves_jobs: "engine_step w (after w (SaveCampaignManifestAndJobs interval campaignID key count sv tv goal win jobs))"
| claims_job: "engine_step w (after w (ClaimDeliveryJob worker))"
| completes_job: "engine_step w (after w (CompleteDeliveryJob jobID))"
| fails_job: "engine_step w (after w (FailDeliveryJob jobID msg))"
| creates_attempt: "engine_step w (after w (CreateDeliveryAttempt a))"
| updates_attempt: "engine_step w (after w (UpdateDeliveryAttempt campaignID profileID channel endpoint decision reason providerID snapshot cost))"
| stamps_attempt: "engine_step w (after w (SetDeliveryAttemptExperiment t campaignID profileID channel experimentID variant))"

abbreviation reaches :: "world \<Rightarrow> world \<Rightarrow> bool" where
  "reaches \<equiv> engine_step\<^sup>*\<^sup>*"

lemma engine_step_reaches: "engine_step w w' \<Longrightarrow> reaches w w'"
  by (rule r_into_rtranclp)

lemma after_evolves: "state_io_rel evolves m \<Longrightarrow> evolves w (after w m)"
  by (simp add: state_io_rel_def)

lemma engine_step_evolves: "engine_step w w' \<Longrightarrow> evolves w w'"
proof (induction rule: engine_step.induct)
  case (reads w w')
  then show ?case by (auto simp: read_only_def untouched_def intro!: evolves_untouched)
next
  case (passes w now)
  show ?case by (rule evolves_untouched) simp
qed (auto intro!: after_evolves evolve simp del: run_send_message)

lemma reaches_evolves: "reaches w w' \<Longrightarrow> evolves w w'"
  by (induction rule: rtranclp_induct) (auto intro: evolves_trans engine_step_evolves)

section \<open>Programs are sequences of steps\<close>

lemma step_reaches: "(\<And>w. engine_step w (after w m)) \<Longrightarrow> state_io_rel reaches m"
  by (simp add: state_io_rel_def r_into_rtranclp)

lemmas engine_calls = engine_step.intros(3-39) [THEN step_reaches]

interpretation eng: node_effects reaches
  proof unfold_locales
  show step: "read_only w w' \<Longrightarrow> reaches w w'" for w w' by (blast intro: engine_step.reads)
  show "reaches w (ticked w)" for w by (rule step) simp
qed (auto intro: engine_calls)

lemma reaches_reads: "state_io_rel read_only m \<Longrightarrow> state_io_rel reaches m"
  by (erule state_io_rel_mono) (auto intro: engine_step.reads)

lemma reaches_tick: "state_io_rel reaches (State (\<lambda>w. (f w, ticked w)))"
  by (auto simp: state_io_rel_def intro!: r_into_rtranclp engine_step.reads)

lemma TickNext_reaches: "state_io_rel reaches (TickNext d)"
proof -
  have fail: "state_io_rel reaches (fail_with step msg)" for step msg
    unfolding fail_with_def failStep_def by (intro eng.store_rules engine_calls)
  show ?thesis
    unfolding TickNext_def process_step_def skip_late_def reschedule_late_def execute_and_advance_def Let_def
      GetJourneyRunSystem_def GetJourneyVersion_def
    by (intro eng.store_rules engine_calls eng.evolve_execute fail)
qed

lemma DeliverNext_reaches: "state_io_rel reaches (JourneyDeliver.DeliverNext cfg worker)"
proof -
  have save: "state_io_rel reaches (save_and_return i)" "state_io_rel reaches (deliver_failed i a b)"
    "state_io_rel reaches (deliver_completed i a b)" for i a b
    unfolding deliver_failed_def deliver_completed_def save_and_return_def done_ok_def by (intro eng.store_rules engine_calls)+
  have panic: "state_io_rel reaches (recover_panic i m)" for i m
    unfolding recover_panic_def Let_def by (intro eng.store_rules engine_calls)
  have emit: "state_io_rel reaches (emit_sent p i f)" for p i f
    unfolding emit_sent_def requeue_sent_def done_ok_def Let_def by (intro eng.store_rules engine_calls)
  have send: "state_io_rel reaches (send_and_emit a p i f msg)" for a p i f msg
    unfolding send_and_emit_def send_error_def GetFirstAppID_def Let_def
    by (intro eng.evolve_bind engine_calls) (auto split: outcome.splits intro!: eng.store_rules engine_calls panic emit save)
  have part: "state_io_rel reaches (render_part cfg p i vars label tpl dflt k)"
    if "\<And>x. state_io_rel reaches (k x)" for p i vars label tpl dflt k
    unfolding render_part_def
    by (intro eng.store_rules reaches_tick) (auto split: outcome.splits intro: that panic save)
  have tracking: "state_io_rel reaches (add_tracking cfg subject html)" for subject html
    unfolding add_tracking_def Let_def by (intro eng.store_rules reaches_tick)
  have verdict: "state_io_rel reaches (delivery_verdict p i tpl f c)" for p i tpl f c
    unfolding delivery_verdict_def transactional_verdict_def IsSuppressed_def
    by (intro eng.store_rules reaches_reads [OF read_only_Evaluate])
  have quiet: "state_io_rel reaches (with_quiet_hours cfg p i f k)" if "state_io_rel reaches k" for p i f k
    unfolding with_quiet_hours_def reschedule_quiet_def GetTenantQuietHours_def by (intro eng.store_rules save that)
  have fresh: "state_io_rel reaches (deliver_fresh cfg p i tpl ident c f)" for p i tpl ident c f
    unfolding deliver_fresh_def with_message_def Let_def
    by (intro eng.store_rules quiet part tracking verdict save send)
  have decided: "state_io_rel reaches (deliver_decided cfg p i tpl ident c)" for p i tpl ident c
    unfolding deliver_decided_def GetProfileByIDSystem_def by (intro eng.store_rules save panic emit fresh)
  have ident: "state_io_rel reaches (with_identity p i tpl k)" if "\<And>x. state_io_rel reaches (k x)" for p i tpl k
    unfolding with_identity_def ListActiveDeviceTokens_def ListSendingIdentities_def GetSendingIdentity_def
    by (intro eng.store_rules save that)
  show ?thesis
    unfolding JourneyDeliver.DeliverNext_def deliver_claimed_def GetFirstAppID_def GetTemplate_def GetTenantFatigueQuotas_def Let_def
    by (intro eng.store_rules engine_calls save ident decided)
qed


lemma enroll_profiles_reaches:
  "(\<And>f. state_io_rel reaches (enroll f)) \<Longrightarrow> state_io_rel reaches (enroll_profiles enroll fs n)"
  by (induction fs arbitrary: n) (auto intro!: eng.store_rules)

lemma enroll_profile_reaches: "state_io_rel reaches (enroll_profile what verb v key entry now seq_of f)"
  unfolding enroll_profile_def GetProfileByIDSystem_def GetJourneyRunsForProfile_def by (intro eng.store_rules engine_calls)

lemma EnrollScheduledDue_reaches: "state_io_rel reaches EnrollScheduledDue"
proof -
  have v: "state_io_rel reaches (enroll_version now v)" for now v
    unfolding enroll_version_def
    by (intro eng.store_rules reaches_reads [OF read_only_ResolveSegment] enroll_profiles_reaches enroll_profile_reaches)
  have "state_io_rel reaches (enroll_versions now vs)" for now vs
    by (induction vs) (auto intro!: eng.store_rules v)
  then show ?thesis
    unfolding EnrollScheduledDue_def ListActiveScheduledJourneyVersions_def by (intro eng.store_rules)
qed

lemma Backfill_reaches: "state_io_rel reaches (Backfill p journeyID segmentID approver)"
  unfolding Backfill_def GetJourney_def GetJourneyVersion_def
  by (intro eng.store_rules reaches_reads [OF read_only_ResolveSegment] enroll_profiles_reaches enroll_profile_reaches)

lemma Publish_reaches: "state_io_rel reaches (Publish env blobs p journeyID approver)"
  unfolding Publish_def GetJourney_def by (intro eng.store_rules reaches_tick engine_calls)

lemma Drain_reaches: "state_io_rel reaches (Drain fuel maxItems processed)"
proof (induction fuel arbitrary: processed)
  case 0
  show ?case by (subst Drain.simps) (auto intro!: eng.store_rules)
next
  case (Suc fuel)
  have "state_io_rel reaches (projectOne event)" for event
    unfolding projectOne_def by (intro eng.store_rules engine_calls)
  with Suc show ?case by (subst Drain.simps) (auto intro!: eng.store_rules engine_calls)
qed

section \<open>The campaign workers\<close>

interpretation ceng: campaign_effects reaches
  by unfold_locales (auto intro: engine_calls)

lemmas campaign_programs_reach = ceng.evolve_DispatchNext ceng.evolve_RedispatchFromManifest ceng.evolve_DeliverNext

end
