(* ===== verification/RuntimeFacts.thy ===== *)
theory RuntimeFacts
  imports Engine
begin

text \<open>
  Facts about the worker that advances runs: which step is claimed and for how long it is reserved,
  that the advance transaction takes effect at most once for a step and never partially, and that a
  worker whose database answers never leaves the step it claimed hanging.
\<close>

section \<open>Claiming\<close>

definition taken_step :: "time \<Rightarrow> journey_step \<Rightarrow> journey_step" where
  "taken_step now s = s\<lparr>js_Status := ''processing'', js_Attempts := js_Attempts s + 1,
     js_LockedUntil := Some (now + lease), js_UpdatedAt := now\<rparr>"

lemma claim_step_Some:
  assumes "claim_step w = Inr (Some s, w')"
  obtains s0 where "least_by js_AvailableAt (filter (claimable_step w) (w_steps w)) = Some s0" "s = taken_step (w_now w) s0"
    "w' = w\<lparr>w_steps := upd_rows (\<lambda>t. js_ID t = js_ID s0) (taken_step (w_now w)) (w_steps w)\<rparr>"
  using assms by (auto simp: claim_step_def taken_step_def [abs_def] Let_def split: option.splits sum.splits dest!: with_steps_Inr)

lemma poison_frame [simp]:
  "w_runs (poison_steps w) = w_runs w" "w_versions (poison_steps w) = w_versions w" "w_now (poison_steps w) = w_now w"
  "w_fault (poison_steps w) = w_fault w" "map js_ID (w_steps (poison_steps w)) = map js_ID (w_steps w)"
  by (auto simp: poison_steps_def intro!: map_upd_rows)

lemma claimable_frame:
  "w_runs w' = w_runs w \<Longrightarrow> w_versions w' = w_versions w \<Longrightarrow> w_now w' = w_now w \<Longrightarrow> claimable_step w' s = claimable_step w s"
  by (simp add: claimable_step_def version_active_def)

text \<open>The poisoned steps are not claimable, before or after.\<close>

lemma filter_poison:
  "filter (claimable_step w) (w_steps (poison_steps w)) = filter (claimable_step w) (w_steps w)"
proof -
  have "filter (claimable_step w) (upd_rows (\<lambda>s. js_Status s = ''processing'' \<and> expired now (js_LockedUntil s) \<and> js_Attempts s \<ge> 10)
      (\<lambda>s. s\<lparr>js_Status := ''dead'', js_LockedUntil := None, js_ErrorMessage := m, js_UpdatedAt := u\<rparr>) ss) =
      filter (claimable_step w) ss" for ss now m u
    by (induction ss) (auto simp: claimable_step_def step_due_def)
  then show ?thesis by (simp add: poison_steps_def)
qed

lemma ClaimJourneyStep_Some:
  assumes "run_state ClaimJourneyStep w = (Inr (Some s), w')"
  obtains s0 where "s0 \<in> set (w_steps w)" "claimable_step w s0" "s = taken_step (w_now w) s0"
    "\<forall>t \<in> set (w_steps w). claimable_step w t \<longrightarrow> js_AvailableAt s0 \<le> js_AvailableAt t"
    "w' = (ticked (poison_steps (ticked w)))\<lparr>w_steps := upd_rows (\<lambda>t. js_ID t = js_ID s0) (taken_step (w_now w))
       (w_steps (poison_steps w))\<rparr>"
proof -
  let ?p = "ticked (poison_steps (ticked w))"
  have tick: "w_steps (poison_steps (ticked w)) = w_steps (poison_steps w)" by (simp add: poison_steps_def)
  from assms have "claim_step ?p = Inr (Some s, w')"
    by (auto simp: ClaimJourneyStep_def run_attempt run_exec transact_def run_db split: if_splits sum.splits)
  then obtain s0 where s0: "least_by js_AvailableAt (filter (claimable_step ?p) (w_steps ?p)) = Some s0"
    and s: "s = taken_step (w_now ?p) s0"
    and w': "w' = ?p\<lparr>w_steps := upd_rows (\<lambda>t. js_ID t = js_ID s0) (taken_step (w_now ?p)) (w_steps ?p)\<rparr>"
    by (rule claim_step_Some)
  have c: "claimable_step ?p = claimable_step w" by (intro ext claimable_frame) simp_all
  from s0 have "least_by js_AvailableAt (filter (claimable_step w) (w_steps w)) = Some s0"
    unfolding c by (simp add: tick filter_poison)
  from least_by_Some [OF this] show ?thesis using s w' by (intro that [of s0]) (auto simp: tick)
qed

text \<open>The claim is exclusive until the lease has run out.\<close>

lemma claim_exclusive:
  assumes ids: "distinct (map js_ID (w_steps w))"
    and first: "run_state ClaimJourneyStep w = (Inr (Some s), w1)"
    and later: "w_now w2 < w_now w + lease" "w_steps w2 = w_steps w1"
    and second: "run_state ClaimJourneyStep w2 = (Inr (Some s'), w3)"
  shows "js_ID s' \<noteq> js_ID s"
proof
  assume same: "js_ID s' = js_ID s"
  from first obtain s0 where s: "s = taken_step (w_now w) s0"
    and w1: "w_steps w1 = upd_rows (\<lambda>t. js_ID t = js_ID s0) (taken_step (w_now w)) (w_steps (poison_steps w))"
    by (rule ClaimJourneyStep_Some) simp
  from second obtain t0 where t0: "t0 \<in> set (w_steps w2)" "claimable_step w2 t0" "s' = taken_step (w_now w2) t0"
    by (rule ClaimJourneyStep_Some)
  have "js_ID t0 = js_ID s0" using same s t0(3) by (simp add: taken_step_def)
  with t0(1) later(2) w1 obtain r where "t0 = taken_step (w_now w) r" by (auto simp: set_upd_rows taken_step_def split: if_splits)
  then have "\<not> step_due (w_now w2) t0" using later(1) by (simp add: taken_step_def step_due_def expired_def)
  with t0(2) show False by (simp add: claimable_step_def)
qed

section \<open>The advance transaction\<close>

lemma run_transact:
  "run_state (transact f) w = (if w_fault w (w_tick w) then (Inl ErrDb, ticked w)
     else case f (ticked w) of Inl e \<Rightarrow> (Inl e, ticked w) | Inr (x, w') \<Rightarrow> (Inr x, w'))"
  by (simp add: transact_def run_db)

lemma transact_Inl: "run_state (transact f) w = (Inl e, w') \<Longrightarrow> w' = ticked w"
  by (auto simp: run_transact split: if_splits sum.splits)

lemma transact_Inr: "run_state (transact f) w = (Inr x, w') \<Longrightarrow> f (ticked w) = Inr (x, w')"
  by (auto simp: run_transact split: if_splits sum.splits)

lemma insert_intents_frame:
  "insert_intents is w = Inr w' \<Longrightarrow>
   w_steps w' = w_steps w \<and> w_runs w' = w_runs w \<and> w_transitions w' = w_transitions w \<and> w_fault w' = w_fault w"
proof (induction "is" arbitrary: w)
  case (Cons i rest)
  then obtain w1 where w1: "insert_intent i w = Inr w1" "insert_intents rest w1 = Inr w'" by (auto split: sum.splits)
  from w1(1) have "w_steps w1 = w_steps w \<and> w_runs w1 = w_runs w \<and> w_transitions w1 = w_transitions w \<and> w_fault w1 = w_fault w"
    by (auto simp: insert_intent_def next_id_def split: if_splits)
  with Cons.IH [OF w1(2)] show ?case by simp
qed simp

text \<open>What a committed advance has written.\<close>

lemma advance_writes_Inr:
  assumes "advance_writes runID run dbStatus dbNode stepID nextStep trn intents w = Inr w'"
  shows "list_ex (advance_hit runID (jr_TenantID run) dbStatus dbNode) (w_runs w)"
    and "w_runs w' = upd_rows (advance_hit runID (jr_TenantID run) dbStatus dbNode) (advanced_run (w_now w) run) (w_runs w)"
    and "\<exists>new. length new = (if nextStep = None then 0 else 1) \<and>
      w_steps w' = upd_rows (\<lambda>s. js_ID s = stepID) (completed_step (w_now w)) (w_steps w) @ new"
    and "\<exists>t. w_transitions w' = w_transitions w @ [t] \<and> jt_FromNode t = jt_FromNode trn \<and> jt_ToNode t = jt_ToNode trn \<and>
      jt_Outcome t = jt_Outcome trn \<and> jt_RunID t = jt_RunID trn"
    and "w_fault w' = w_fault w"
proof -
  let ?w1 = "advance_base (advance_hit runID (jr_TenantID run) dbStatus dbNode) run stepID w"
  from assms obtain w2 where w2: "(case nextStep of None \<Rightarrow> Inr ?w1 | Some s \<Rightarrow> insert_step (defaulted_step ?w1 s) ?w1) = Inr w2"
    and hit: "list_ex (advance_hit runID (jr_TenantID run) dbStatus dbNode) (w_runs w)"
    and ins: "insert_intents intents (insert_transition trn w2) = Inr w'"
    by (auto simp: advance_writes_def Let_def split: if_splits sum.splits)
  have base: "w_runs w2 = w_runs ?w1 \<and> w_transitions w2 = w_transitions w \<and> w_fault w2 = w_fault w \<and>
      (\<exists>new. length new = (if nextStep = None then 0 else 1) \<and> w_steps w2 = w_steps ?w1 @ new)"
    using w2 by (cases nextStep) (auto simp: advance_base_def next_id_def dest!: insert_step_Inr)
  note frame = insert_intents_frame [OF ins]
  show "list_ex (advance_hit runID (jr_TenantID run) dbStatus dbNode) (w_runs w)" by (fact hit)
  show "w_runs w' = upd_rows (advance_hit runID (jr_TenantID run) dbStatus dbNode) (advanced_run (w_now w) run) (w_runs w)"
    "\<exists>new. length new = (if nextStep = None then 0 else 1) \<and>
      w_steps w' = upd_rows (\<lambda>s. js_ID s = stepID) (completed_step (w_now w)) (w_steps w) @ new"
    using frame base by (auto simp: advance_base_def insert_transition_def next_id_def)
  show "\<exists>t. w_transitions w' = w_transitions w @ [t] \<and> jt_FromNode t = jt_FromNode trn \<and> jt_ToNode t = jt_ToNode trn \<and>
      jt_Outcome t = jt_Outcome trn \<and> jt_RunID t = jt_RunID trn"
    "w_fault w' = w_fault w"
    using frame base by (auto simp: insert_transition_def next_id_def)
qed

text \<open>The step it adds is as the caller gave it.\<close>

lemma advance_writes_new:
  assumes "advance_writes runID run dbStatus dbNode stepID nextStep trn intents (ticked w) = Inr w'"
    and fresh: "\<And>s. nextStep = Some s \<Longrightarrow> js_Status s = ''pending''"
  shows "\<exists>new. w_steps w' = upd_rows (\<lambda>s. js_ID s = stepID) (completed_step (w_now w)) (w_steps w) @ new \<and>
    (\<forall>t \<in> set new. js_Status t \<noteq> ''processing'')"
proof -
  let ?w1 = "advance_base (advance_hit runID (jr_TenantID run) dbStatus dbNode) run stepID (ticked w)"
  from assms(1) obtain w2 where w2: "(case nextStep of None \<Rightarrow> Inr ?w1 | Some s \<Rightarrow> insert_step (defaulted_step ?w1 s) ?w1) = Inr w2"
    and ins: "insert_intents intents (insert_transition trn w2) = Inr w'"
    by (auto simp: advance_writes_def Let_def split: if_splits sum.splits)
  have "w_steps w' = w_steps w2" using insert_intents_frame [OF ins] by (simp add: insert_transition_def)
  moreover have "\<exists>new. w_steps w2 = w_steps ?w1 @ new \<and> (\<forall>t \<in> set new. js_Status t \<noteq> ''processing'')"
    using w2 fresh by (cases nextStep) (auto simp: defaulted_step_def dest!: insert_step_Inr)
  ultimately show ?thesis by (auto simp: advance_base_def)
qed

text \<open>The three ways to succeed: the step was done already, the run has moved on without it, or the run moves now.\<close>

definition step_of :: "journey_run \<Rightarrow> string \<Rightarrow> string \<Rightarrow> journey_step \<Rightarrow> bool" where
  "step_of run runID stepID s \<longleftrightarrow> js_ID s = stepID \<and> js_RunID s = runID \<and> js_TenantID s = jr_TenantID run"

definition expected_status :: "journey_step \<Rightarrow> string" where
  "expected_status s = (if js_Kind s = ''timeout'' then ''waiting'' else ''active'')"

lemma AdvanceRunTx_cases:
  assumes "run_state (AdvanceRunTx runID run stepID nextStep trn intents) w = (Inr (), w')"
  obtains s where "find (\<lambda>s. js_ID s = stepID) (w_steps w) = Some s" "step_of run runID stepID s" "jr_ID run = runID"
    "js_Status s = ''completed'' \<and> w' = ticked w \<or>
     js_Status s = ''processing'' \<and>
       w' = (ticked w)\<lparr>w_steps := upd_rows (step_of run runID stepID) (completed_step (w_now w)) (w_steps w)\<rparr> \<or>
     js_Status s = ''processing'' \<and>
       advance_writes runID run (expected_status s) (js_NodeID s) stepID nextStep trn intents (ticked w) = Inr w'"
proof -
  note eq = transact_Inr [OF assms [unfolded AdvanceRunTx_def]]
  obtain r where r: "find (\<lambda>r. jr_ID r = runID \<and> jr_TenantID r = jr_TenantID run) (w_runs w) = Some r"
    using eq by (cases "find (\<lambda>r. jr_ID r = runID \<and> jr_TenantID r = jr_TenantID run) (w_runs w)") simp_all
  obtain s where s: "find (\<lambda>s. js_ID s = stepID) (w_steps w) = Some s"
    using eq r by (cases "find (\<lambda>s. js_ID s = stepID) (w_steps w)") simp_all
  have own: "js_RunID s = runID \<and> js_RunID s = jr_ID run \<and> js_TenantID s = jr_TenantID run"
    by (rule ccontr) (use eq r s in \<open>auto split: if_splits\<close>)
  then have own1: "js_RunID s = runID" "jr_ID run = runID" "js_TenantID s = jr_TenantID run" by auto
  then have own_step: "step_of run runID stepID s" using find_SomeD [OF s] by (simp add: step_of_def)
  have st: "js_Status s = ''completed'' \<or> js_Status s = ''processing''"
    by (rule ccontr) (use eq r s own1 in \<open>simp\<close>)
  have fin: "w' = ticked w" if "js_Status s = ''completed''" using eq r s own1 that by simp
  have now: "(if jr_Status r \<noteq> expected_status s \<or> jr_CurrentNodeID r \<noteq> js_NodeID s
      then Inr ((), (ticked w)\<lparr>w_steps := upd_rows (step_of run runID stepID) (completed_step (w_now w)) (w_steps w)\<rparr>)
      else map_sum id (Pair ())
        (advance_writes runID run (jr_Status r) (jr_CurrentNodeID r) stepID nextStep trn intents (ticked w))) = Inr ((), w')"
    if "js_Status s = ''processing''"
    using eq r s own1 that unfolding expected_status_def step_of_def [abs_def] Let_def
    by (cases "js_Kind s = ''timeout''") (auto split: if_splits)
  show ?thesis
  proof (rule that [OF s own_step])
    show "jr_ID run = runID" by (fact own1)
    show "js_Status s = ''completed'' \<and> w' = ticked w \<or>
     js_Status s = ''processing'' \<and>
       w' = (ticked w)\<lparr>w_steps := upd_rows (step_of run runID stepID) (completed_step (w_now w)) (w_steps w)\<rparr> \<or>
     js_Status s = ''processing'' \<and>
       advance_writes runID run (expected_status s) (js_NodeID s) stepID nextStep trn intents (ticked w) = Inr w'"
      using st fin now map_sum_Pair by (metis Inr_inject Pair_inject)
  qed
qed

text \<open>A successful advance leaves the step completed.\<close>

lemma AdvanceRunTx_completes:
  assumes "run_state (AdvanceRunTx runID run stepID nextStep trn intents) w = (Inr (), w')"
  shows "\<exists>s. find (\<lambda>s. js_ID s = stepID) (w_steps w') = Some s \<and> js_Status s = ''completed''"
proof -
  from assms obtain s where s: "find (\<lambda>s. js_ID s = stepID) (w_steps w) = Some s" "step_of run runID stepID s" "jr_ID run = runID"
    and alt: "js_Status s = ''completed'' \<and> w' = ticked w \<or>
     js_Status s = ''processing'' \<and>
       w' = (ticked w)\<lparr>w_steps := upd_rows (step_of run runID stepID) (completed_step (w_now w)) (w_steps w)\<rparr> \<or>
     js_Status s = ''processing'' \<and>
       advance_writes runID run (expected_status s) (js_NodeID s) stepID nextStep trn intents (ticked w) = Inr w'"
    by (rule AdvanceRunTx_cases)
  have upd: "find (\<lambda>s. js_ID s = stepID) (upd_rows Q (completed_step now) (w_steps w)) = Some (if Q s then completed_step now s else s)"
    for Q now by (rule find_upd_rows [OF s(1)]) (simp add: completed_step_def)
  from alt show ?thesis
  proof (elim disjE conjE)
    assume "advance_writes runID run (expected_status s) (js_NodeID s) stepID nextStep trn intents (ticked w) = Inr w'"
    from advance_writes_Inr(3) [OF this] show ?thesis using s upd by (auto simp: find_append completed_step_def step_of_def)
  qed (use s upd in \<open>simp_all add: completed_step_def\<close>)
qed

text \<open>A completed step cannot be advanced again, whatever the caller asks for.\<close>

lemma AdvanceRunTx_completed:
  assumes "find (\<lambda>s. js_ID s = stepID) (w_steps w) = Some s" "js_Status s = ''completed''"
  shows "after w (AdvanceRunTx runID run stepID nextStep trn intents) = ticked w"
  using assms by (auto simp: AdvanceRunTx_def run_transact split: option.splits)


section \<open>A claimed step is always released\<close>

text \<open>No row with this identifier is still being processed.\<close>

definition released :: "string \<Rightarrow> world \<Rightarrow> bool" where
  "released stepID w \<longleftrightarrow> (\<forall>t \<in> set (w_steps w). js_ID t = stepID \<longrightarrow> js_Status t \<noteq> ''processing'')"

text \<open>The situation of a worker after its claim.\<close>

definition holding :: "string \<Rightarrow> world \<Rightarrow> bool" where
  "holding stepID w \<longleftrightarrow> healthy w \<and> distinct (map js_ID (w_steps w)) \<and>
     (\<forall>t \<in> set (w_steps w). js_ID t = stepID \<longrightarrow> js_Status t = ''processing'')"

definition settles :: "string \<Rightarrow> bool call \<Rightarrow> bool" where
  "settles stepID m \<longleftrightarrow> (\<forall>w. holding stepID w \<longrightarrow> (\<exists>w'. run_state m w = (Inr True, w') \<and> released stepID w'))"

lemma settles_attempt:
  assumes "\<And>w. holding sid w \<Longrightarrow> holding sid (after w m)" "\<And>e. settles sid (h e)" "\<And>x. settles sid (k x)"
  shows "settles sid (attempt m h k)"
  unfolding settles_def
proof (intro allI impI)
  fix w
  assume "holding sid w"
  moreover obtain r w1 where m: "run_state m w = (r, w1)" by fastforce
  ultimately have "holding sid w1" using assms(1) by (metis snd_conv)
  then show "\<exists>w'. run_state (attempt m h k) w = (Inr True, w') \<and> released sid w'"
    using assms(2,3) m unfolding settles_def by (cases r) (simp_all add: run_attempt)
qed

lemma holding_frame: "engine_frame w w' \<Longrightarrow> holding sid w \<Longrightarrow> holding sid w'"
  by (simp add: engine_frame_def holding_def untouched_def healthy_def)

lemma holding_after: "state_io_rel engine_frame m \<Longrightarrow> holding sid w \<Longrightarrow> holding sid (after w m)"
  by (rule holding_frame) (auto simp: state_io_rel_def)

lemma holding_query: "holding sid w \<Longrightarrow> holding sid (after w (query f))"
  by (rule holding_after [OF frame.evolve_query])

lemma settles_fail: "settles (js_ID step) (fail_with step msg)"
  unfolding settles_def fail_with_def failStep_def FailJourneyStep_def
  by (auto simp: run_exec holding_def released_def set_upd_rows split: if_splits)

lemma settles_reschedule: "settles (js_ID step) (reschedule_late step n late now)"
proof -
  let ?f = "\<lambda>w. map_sum id (Pair ()) (with_steps w (upd_rows (\<lambda>s. js_ID s = js_ID step)
        (\<lambda>s. s\<lparr>js_Status := ''pending'', js_Attempts := 0, js_LockedUntil := None,
               js_AvailableAt := now + reschedule_delay n late, js_UpdatedAt := w_now w\<rparr>) (w_steps w)))"
  have "\<exists>w'. run_state (reschedule_late step n late now) w = (Inr True, w') \<and> released (js_ID step) w'"
    if w: "holding (js_ID step) w" for w
  proof (cases "?f (ticked w)")
    case (Inl e)
    have "holding (js_ID step) (ticked w)" using w holding_frame frame.tick_ok by blast
    with settles_fail [unfolded settles_def] obtain w' where
      "run_state (fail_with step (''reschedule: '' @ error_text e)) (ticked w) = (Inr True, w')" "released (js_ID step) w'" by blast
    with Inl w show ?thesis
      by (simp add: reschedule_late_def RescheduleJourneyStep_def run_attempt run_transact holding_def)
  next
    case (Inr x)
    then have "released (js_ID step) (snd x)"
      by (auto simp: with_steps_def released_def set_upd_rows split: if_splits)
    with Inr w show ?thesis
      by (cases x) (simp add: reschedule_late_def RescheduleJourneyStep_def run_attempt run_transact holding_def)
  qed
  then show ?thesis unfolding settles_def by blast
qed

lemma AdvanceRunTx_releases:
  assumes w: "holding stepID w" and ok: "run_state (AdvanceRunTx runID run stepID nextStep trn intents) w = (Inr (), w')"
    and fresh: "\<And>s. nextStep = Some s \<Longrightarrow> js_Status s = ''pending''"
  shows "released stepID w'"
proof -
  from ok obtain s where s: "find (\<lambda>s. js_ID s = stepID) (w_steps w) = Some s" "step_of run runID stepID s" "jr_ID run = runID"
    and alt: "js_Status s = ''completed'' \<and> w' = ticked w \<or>
     js_Status s = ''processing'' \<and>
       w' = (ticked w)\<lparr>w_steps := upd_rows (step_of run runID stepID) (completed_step (w_now w)) (w_steps w)\<rparr> \<or>
     js_Status s = ''processing'' \<and>
       advance_writes runID run (expected_status s) (js_NodeID s) stepID nextStep trn intents (ticked w) = Inr w'"
    by (rule AdvanceRunTx_cases)
  have mem: "s \<in> set (w_steps w)" "js_ID s = stepID" using find_SomeD [OF s(1)] by auto
  have inj: "inj_on js_ID (set (w_steps w))" using w by (simp add: holding_def distinct_map)
  have only: "t = s" if "t \<in> set (w_steps w)" "js_ID t = stepID" for t
    by (rule inj_onD [OF inj]) (use mem that in simp_all)
  from alt show ?thesis
  proof (elim disjE conjE)
    assume "js_Status s = ''completed''"
    moreover have "js_Status s = ''processing''" using w mem unfolding holding_def by blast
    ultimately show ?thesis by simp
  next
    assume w': "w' = (ticked w)\<lparr>w_steps := upd_rows (step_of run runID stepID) (completed_step (w_now w)) (w_steps w)\<rparr>"
    show ?thesis unfolding released_def
    proof (intro ballI impI)
      fix t
      assume "t \<in> set (w_steps w')" "js_ID t = stepID"
      then have "t \<in> (\<lambda>r. if step_of run runID stepID r then completed_step (w_now w) r else r) ` set (w_steps w)"
        by (simp add: w' set_upd_rows)
      then obtain t0 where mem0: "t0 \<in> set (w_steps w)"
        and t: "t = (if step_of run runID stepID t0 then completed_step (w_now w) t0 else t0)" by (rule imageE)
      have "js_ID t0 = stepID" using \<open>js_ID t = stepID\<close> t by (simp add: completed_step_def split: if_splits)
      note t0 = mem0 this
      from only [OF t0] t s(2) show "js_Status t \<noteq> ''processing''" by (simp add: completed_step_def)
    qed
  next
    assume adv: "advance_writes runID run (expected_status s) (js_NodeID s) stepID nextStep trn intents (ticked w) = Inr w'"
    obtain new where steps: "w_steps w' = upd_rows (\<lambda>s. js_ID s = stepID) (completed_step (w_now w)) (w_steps w) @ new"
      and new: "\<forall>t \<in> set new. js_Status t \<noteq> ''processing''"
      using advance_writes_new [OF adv fresh] by blast
    have "js_Status (completed_step (w_now w) t) \<noteq> ''processing''" for t by (simp add: completed_step_def)
    with new show ?thesis unfolding released_def steps set_append set_upd_rows by (auto split: if_splits)
  qed
qed

lemma settles_advance:
  assumes "\<And>s. nextStep = Some s \<Longrightarrow> js_Status s = ''pending''"
  shows "settles (js_ID step) (attempt (AdvanceRunTx runID run (js_ID step) nextStep trn intents)
    (\<lambda>err. fail_with step (msg err)) (\<lambda>_. ret (Inr True)))"
  unfolding settles_def
proof (intro allI impI)
  fix w
  assume w: "holding (js_ID step) w"
  let ?m = "AdvanceRunTx runID run (js_ID step) nextStep trn intents"
  obtain r w1 where m: "run_state ?m w = (r, w1)" by fastforce
  show "\<exists>w'. run_state (attempt ?m (\<lambda>err. fail_with step (msg err)) (\<lambda>_. ret (Inr True))) w = (Inr True, w') \<and>
      released (js_ID step) w'"
  proof (cases r)
    case (Inl e)
    have "w1 = ticked w" using m Inl unfolding AdvanceRunTx_def by (intro transact_Inl) simp
    then have "holding (js_ID step) w1" using w holding_frame frame.tick_ok by blast
    with settles_fail [unfolded settles_def] m Inl show ?thesis by (simp add: run_attempt)
  next
    case (Inr u)
    with m have "run_state ?m w = (Inr (), w1)" by simp
    from AdvanceRunTx_releases [OF w this assms] this show ?thesis by (simp add: run_attempt)
  qed
qed

lemma settles_process: "settles (js_ID step) (process_step d step)"
proof -
  have next_ok: "s = mk_step a b c k t \<Longrightarrow> js_Status s = ''pending''" for s a b c k t by simp
  have exec_ok: "settles (js_ID step) (execute_and_advance d step n run g now)" for n run g now
    unfolding settles_def
  proof (intro allI impI)
    fix w
    assume w: "holding (js_ID step) w"
    obtain r w1 where m: "run_state (execute d n run g now (js_Kind step)) w = (r, w1)" by fastforce
    then have w1: "holding (js_ID step) w1" using holding_after [OF frame.evolve_execute w] by (metis snd_conv)
    show "\<exists>w'. run_state (execute_and_advance d step n run g now) w = (Inr True, w') \<and> released (js_ID step) w'"
    proof (cases r)
      case (Inl e)
      with m w1 settles_fail [unfolded settles_def] show ?thesis by (simp add: execute_and_advance_def run_attempt)
    next
      case (Inr res)
      with m have m': "run_state (execute d n run g now (js_Kind step)) w = (Inr res, w1)" by simp
      let ?adv = "attempt (AdvanceRunTx (jr_ID run) (apply_result run res) (js_ID step) (xr_NextStep res) (xr_Transition res)
        (xr_MessageIntents res)) (\<lambda>err. fail_with step (''advance run tx: '' @ error_text err)) (\<lambda>_. ret (Inr True))"
      from yieldsD [OF execute_result m'] have "xr_NextStep res = Some s \<Longrightarrow> js_Status s = ''pending''" for s
        by (auto simp: node_result_def dest!: next_ok)
      then have "settles (js_ID step) ?adv" by (rule settles_advance)
      moreover have "run_state (execute_and_advance d step n run g now) w = run_state ?adv w1"
        unfolding execute_and_advance_def using m' by (rule run_attempt_Inr)
      ultimately show ?thesis using w1 unfolding settles_def by metis
    qed
  qed
  have skip_ok: "settles (js_ID step) (skip_late step n run g now)" for n run g now
    unfolding skip_late_def Let_def by (rule settles_advance) (auto split: if_splits)
  have bind_now: "settles (js_ID step) (State_Monad.bind get_now k)" if "\<And>now. settles (js_ID step) (k now)" for k
    using that by (simp add: settles_def)
  show ?thesis
    unfolding process_step_def GetJourneyRunSystem_def GetJourneyVersion_def
    by (intro settles_attempt holding_query settles_fail)
      (auto split: sum.splits option.splits intro!: settles_fail bind_now exec_ok skip_ok settles_reschedule)
qed

lemma claimed_holding:
  assumes "healthy w" "distinct (map js_ID (w_steps w))" "run_state ClaimJourneyStep w = (Inr (Some s), w1)"
  shows "holding (js_ID s) w1"
proof -
  from assms(3) obtain s0 where s: "s = taken_step (w_now w) s0"
    and w1: "w1 = (ticked (poison_steps (ticked w)))\<lparr>w_steps := upd_rows (\<lambda>t. js_ID t = js_ID s0) (taken_step (w_now w))
       (w_steps (poison_steps w))\<rparr>"
    by (rule ClaimJourneyStep_Some)
  have "map js_ID (upd_rows P (taken_step now) ss) = map js_ID ss" for P now ss
    by (intro map_upd_rows) (simp add: taken_step_def)
  then show ?thesis using assms(1,2) unfolding holding_def w1 s healthy_def
    by (auto simp: set_upd_rows taken_step_def)
qed

lemma TickNext_settles:
  assumes "healthy w" "distinct (map js_ID (w_steps w))" "run_state ClaimJourneyStep w = (Inr (Some s), w1)"
  shows "\<exists>w'. run_state (TickNext d) w = (Inr True, w') \<and> released (js_ID s) w'"
  using claimed_holding [OF assms] settles_process [of s d] assms(3) by (simp add: TickNext_def run_attempt settles_def)

end
