(* ===== verification/IdentityFacts.thy ===== *)
theory IdentityFacts
  imports ProjectionFacts
begin

text \<open>
  What identity resolution achieves: after it every known key of the event names one profile; a merge can be
  undone, giving back the row it retired; and what it does not: a live anonymous profile cannot be merged
  into a known one that has no anonymous identifier yet.
\<close>

section \<open>Successful calls\<close>

lemma attempt_InrE:
  assumes "run_state (attempt m failed k) w = (Inr x, w')"
  obtains y w1 where "run_state m w = (Inr y, w1)" "run_state (k y) w1 = (Inr x, w')"
  using assms by (auto simp: run_attempt split: prod.splits sum.splits)

lemma attempt_wrapped_InrE:
  assumes "run_state (attempt m (wrapped s) k) w = (Inr x, w')"
  obtains y w1 where "run_state m w = (Inr y, w1)" "run_state (k y) w1 = (Inr x, w')"
  using assms by (auto simp: run_attempt wrapped_def failed_def split: prod.splits sum.splits)

lemma exec_InrE:
  assumes "run_state (exec g) w = (Inr x, w')"
  obtains "w' = g (ticked w)"
  using assms by (auto simp: run_exec split: if_splits)

lemma query_InrE:
  assumes "run_state (query f) w = (Inr x, w')"
  obtains "w' = ticked w" "f (ticked w) = Inr x"
  using assms by (auto simp: run_query split: if_splits)

lemma stmt_InrE:
  assumes "run_state (stmt f) w = (Inr x, w')"
  obtains "f (ticked w) = Inr (x, w')"
  using assms by (auto simp: stmt_def run_db split: if_splits sum.splits prod.splits)

lemma write_profiles_InrE:
  assumes "run_state (write_profiles f) w = (Inr x, w')"
  obtains "w' = (ticked w)\<lparr>w_profiles := f (ticked w)\<rparr>" "profiles_ok (f (ticked w))"
  using assms unfolding write_profiles_def
  by (elim stmt_InrE) (auto simp: with_profiles_def split: if_splits)

lemma ret_InrE:
  assumes "run_state (ret (Inr x)) w = (Inr y, w')"
  obtains "y = x" "w' = w"
  using assms by simp

lemmas inr_elims = attempt_InrE exec_InrE query_InrE write_profiles_InrE ret_InrE

section \<open>The effect of a merge\<close>

definition absorbed :: "world \<Rightarrow> raw \<Rightarrow> profile_row \<Rightarrow> profile_row" where
  "absorbed w attrs r = r\<lparr>pr_Attributes := jsonb_or attrs (pr_Attributes r), pr_Version := pr_Version r + 1, pr_UpdatedAt := w_now w\<rparr>"

definition retired :: "world \<Rightarrow> string \<Rightarrow> profile_row \<Rightarrow> profile_row" where
  "retired w target r = r\<lparr>pr_MergedInto := Some target, pr_External := None, pr_Anonymous := None,
     pr_Version := pr_Version r + 1, pr_UpdatedAt := w_now w\<rparr>"

definition shadowed :: "world \<Rightarrow> string \<Rightarrow> string \<Rightarrow> alias_row \<Rightarrow> bool" where
  "shadowed w src target a \<longleftrightarrow> al_ProfileID a = src \<and>
     list_ex (\<lambda>b. al_ProfileID b = target \<and> al_Namespace b = al_Namespace a \<and> al_Value b = al_Value a) (w_aliases w)"

lemma take_snapshot_Inr:
  assumes "run_state (take_snapshot event src) w = (Inr s, w')"
  obtains r k where "find (\<lambda>r. profile_id_is src r \<and> app_profile event r) (w_profiles w) = Some r"
    "ms_Profile s = \<lparr>sp_ID = pr_ID r, sp_ExternalID = pr_External r, sp_AnonymousID = pr_Anonymous r,
       sp_Attributes = pr_Attributes r, sp_Version = pr_Version r, sp_UpdatedAt = pr_UpdatedAt r\<rparr>"
    "ms_Aliases s = map (\<lambda>a. (al_Namespace a, al_Value a, al_SourceEventID a)) (app_aliases event src w)"
    "w' = w\<lparr>w_tick := k\<rparr>"
  using assms unfolding take_snapshot_def
  by (elim attempt_InrE query_InrE ret_InrE) (auto split: option.splits simp: ticked_def app_aliases_def)

lemma mergeProfiles_Inr:
  assumes run: "run_state (mergeProfiles event src target) w = (Inr x, w')" and ne: "src \<noteq> target"
  obtains r s where
    "find (\<lambda>r. profile_id_is src r \<and> app_profile event r) (w_profiles w) = Some r"
    "ms_Profile s = \<lparr>sp_ID = pr_ID r, sp_ExternalID = pr_External r, sp_AnonymousID = pr_Anonymous r,
       sp_Attributes = pr_Attributes r, sp_Version = pr_Version r, sp_UpdatedAt = pr_UpdatedAt r\<rparr>"
    "ms_Aliases s = map (\<lambda>a. (al_Namespace a, al_Value a, al_SourceEventID a)) (app_aliases event src w)"
    "map_of (w_snapshots w') (snapshot_key event src) = Some s"
    "w_profiles w' = upd_rows (profile_id_is src) (retired w target)
       (case find_profile src w of None \<Rightarrow> w_profiles w
        | Some q \<Rightarrow> upd_rows (profile_id_is target) (absorbed w (pr_Attributes q)) (w_profiles w))"
    "w_aliases w' = upd_rows (\<lambda>a. al_ProfileID a = src) (\<lambda>a. a\<lparr>al_ProfileID := target\<rparr>)
       (filter (\<lambda>a. \<not> shadowed w src target a) (w_aliases w))"
    "w_namespaces w' = w_namespaces w" "w_now w' = w_now w" "w_blobs w'" "w_fault w' = w_fault w"
proof -
  from run ne obtain s w1 w2 w3 w4 w5 w6 w7 where
    s: "run_state (take_snapshot event src) w = (Inr s, w1)"
    and put: "run_state (put_snapshot (snapshot_key event src) s) w1 = (Inr (), w2)"
    and ab: "run_state (absorb_source target src) w2 = (Inr (), w3)"
    and co: "run_state (move_consents target src) w3 = (Inr (), w4)"
    and dr: "run_state (drop_shadowed src target) w4 = (Inr (), w5)"
    and al: "run_state (move_aliases target src) w5 = (Inr (), w6)"
    and re: "run_state (retire_source src target) w6 = (Inr (), w7)"
    and rc: "run_state (record_merge event src target (snapshot_key event src)) w7 = (Inr x, w')"
    unfolding mergeProfiles_def by (auto elim!: attempt_InrE)
  from s obtain r k where r: "find (\<lambda>r. profile_id_is src r \<and> app_profile event r) (w_profiles w) = Some r"
    "ms_Profile s = \<lparr>sp_ID = pr_ID r, sp_ExternalID = pr_External r, sp_AnonymousID = pr_Anonymous r,
       sp_Attributes = pr_Attributes r, sp_Version = pr_Version r, sp_UpdatedAt = pr_UpdatedAt r\<rparr>"
    "ms_Aliases s = map (\<lambda>a. (al_Namespace a, al_Value a, al_SourceEventID a)) (app_aliases event src w)"
    and w1: "w1 = w\<lparr>w_tick := k\<rparr>" by (rule take_snapshot_Inr)
  have w2: "w2 = (ticked w1)\<lparr>w_snapshots := (snapshot_key event src, s) # filter (\<lambda>(k, _). k \<noteq> snapshot_key event src) (w_snapshots w1)\<rparr>"
    and bl: "w_blobs w1" using put by (auto simp: put_snapshot_def run_db split: if_splits)
  have w3: "w_profiles w3 = (case find_profile src w of None \<Rightarrow> w_profiles w
        | Some q \<Rightarrow> upd_rows (profile_id_is target) (absorbed w (pr_Attributes q)) (w_profiles w))"
      "w_aliases w3 = w_aliases w" "w_snapshots w3 = w_snapshots w2" "w_namespaces w3 = w_namespaces w" "w_now w3 = w_now w" "w_blobs w3" "w_fault w3 = w_fault w"
    using ab bl unfolding absorb_source_def
    by (auto elim!: write_profiles_InrE simp: w1 w2 find_profile_def absorbed_def [abs_def] split: option.splits)
  have w7: "w_profiles w7 = upd_rows (profile_id_is src) (retired w target) (w_profiles w3)"
      "w_aliases w7 = upd_rows (\<lambda>a. al_ProfileID a = src) (\<lambda>a. a\<lparr>al_ProfileID := target\<rparr>)
         (filter (\<lambda>a. \<not> shadowed w src target a) (w_aliases w))"
      "w_snapshots w7 = w_snapshots w2" "w_namespaces w7 = w_namespaces w" "w_now w7 = w_now w" "w_blobs w7" "w_fault w7 = w_fault w"
    using co dr al re w3 unfolding move_consents_def drop_shadowed_def move_aliases_def retire_source_def
    by (auto elim!: exec_InrE write_profiles_InrE simp: shadowed_def retired_def [abs_def])
  have "w_profiles w' = w_profiles w7 \<and> w_aliases w' = w_aliases w7 \<and> w_snapshots w' = w_snapshots w7 \<and> w_namespaces w' = w_namespaces w7 \<and>
      w_now w' = w_now w7 \<and> w_blobs w' = w_blobs w7 \<and> w_fault w' = w_fault w7"
    using rc unfolding record_merge_def by (elim exec_InrE) (simp split: if_splits)
  with w3 w7 r show thesis by (intro that [OF r]) (simp_all add: w2)
qed

section \<open>Resolution\<close>

text \<open>A key names a profile: an alias points to it, the namespace is registered and the profile is live.\<close>

definition names :: "accepted_event \<Rightarrow> world \<Rightarrow> string \<times> string \<Rightarrow> string \<Rightarrow> bool" where
  "names event w key p \<longleftrightarrow> p \<in> set (map snd (alias_candidates event key w))"

lemma in_joined: "x \<in> set (concat (map f (filter P rows))) \<longleftrightarrow> (\<exists>a\<in>set rows. P a \<and> x \<in> set (f a))"
    "x \<in> set (map g (filter P rows)) \<longleftrightarrow> (\<exists>a\<in>set rows. P a \<and> x = g a)"
  by auto

lemma join_ex:
  "(\<exists>i. \<exists>a\<in>A. K a \<and> (\<exists>n\<in>N. Q a n \<and> (\<exists>r\<in>R. (f r = g a \<and> L r) \<and> (i, p) = (h n, f r)))) \<longleftrightarrow>
   (\<exists>a\<in>A. K a \<and> g a = p \<and> (\<exists>n\<in>N. Q a n)) \<and> (\<exists>r\<in>R. f r = p \<and> L r)"
proof
  assume "(\<exists>a\<in>A. K a \<and> g a = p \<and> (\<exists>n\<in>N. Q a n)) \<and> (\<exists>r\<in>R. f r = p \<and> L r)"
  then obtain a n r where "a \<in> A" "K a" "g a = p" "n \<in> N" "Q a n" "r \<in> R" "f r = p" "L r" by blast
  then show "\<exists>i. \<exists>a\<in>A. K a \<and> (\<exists>n\<in>N. Q a n \<and> (\<exists>r\<in>R. (f r = g a \<and> L r) \<and> (i, p) = (h n, f r)))"
    by (intro exI [of _ "h n"] bexI [of _ a] bexI [of _ n] bexI [of _ r] conjI) simp_all
qed auto

lemma names_iff:
  "names event w key p \<longleftrightarrow>
     (\<exists>a\<in>set (w_aliases w). (al_TenantID a = p_TenantID (ae_Principal event) \<and> al_AppID a = p_AppID (ae_Principal event) \<and>
          al_Namespace a = fst key \<and> al_Value a = snd key) \<and> al_ProfileID a = p \<and>
        (\<exists>n\<in>set (w_namespaces w). ns_TenantID n = al_TenantID a \<and> ns_AppID n = al_AppID a \<and> ns_Namespace n = al_Namespace a)) \<and>
     (\<exists>r\<in>set (w_profiles w). pr_ID r = p \<and> pr_MergedInto r = None)"
proof -
  have "names event w key p \<longleftrightarrow> (\<exists>i. (i, p) \<in> set (alias_candidates event key w))"
    by (force simp: names_def)
  then show ?thesis by (simp only: alias_candidates_def in_joined join_ex)
qed

lemma names_tick [simp]: "names event (w\<lparr>w_tick := k\<rparr>) = names event w"
  by (simp add: names_def alias_candidates_def fun_eq_iff)

lemma names_unique:
  assumes "aliases_ok (w_aliases w)" "names event w key p" "names event w key q"
  shows "p = q"
proof -
  from assms(2,3) obtain a b where "a \<in> set (w_aliases w)" "b \<in> set (w_aliases w)" "alias_key a = alias_key b"
    "al_ProfileID a = p" "al_ProfileID b = q" by (auto simp: names_iff alias_key_def)
  with assms(1) show ?thesis by (auto simp: aliases_ok_def distinct_map dest: inj_onD)
qed

lemma names_merge:
  assumes run: "run_state (mergeProfiles event src target) w = (Inr x, w')" and named: "names event w' key p"
  shows "p = target \<or> p \<noteq> src \<and> names event w key p"
proof (cases "src = target")
  case True
  with run named show ?thesis by (auto simp: mergeProfiles_def)
next
  case False
  from run False obtain r s where
    profiles: "w_profiles w' = upd_rows (profile_id_is src) (retired w target)
       (case find_profile src w of None \<Rightarrow> w_profiles w
        | Some q \<Rightarrow> upd_rows (profile_id_is target) (absorbed w (pr_Attributes q)) (w_profiles w))"
    and aliases: "w_aliases w' = upd_rows (\<lambda>a. al_ProfileID a = src) (\<lambda>a. a\<lparr>al_ProfileID := target\<rparr>)
       (filter (\<lambda>a. \<not> shadowed w src target a) (w_aliases w))"
    and ns: "w_namespaces w' = w_namespaces w" by (rule mergeProfiles_Inr)
  have live: "p \<noteq> src \<and> (\<exists>r\<in>set (w_profiles w). pr_ID r = p \<and> pr_MergedInto r = None)"
    if "r \<in> set (w_profiles w')" "pr_ID r = p" "pr_MergedInto r = None" for r
    using that False unfolding profiles
    by (auto simp: upd_rows_def retired_def absorbed_def profile_id_is_def split: if_splits option.splits)
  show ?thesis
  proof (cases "p = target")
    case False
    with named live show ?thesis
      by (auto simp: names_iff aliases ns upd_rows_def alias_key_def)
  qed simp
qed

lemma merge_losers_Inr:
  assumes "run_state (merge_losers event winner losers) w = (Inr x, w')"
    and "\<And>key p. key \<in> K \<Longrightarrow> names event w key p \<Longrightarrow> p = winner \<or> p \<in> set (map snd losers)"
  shows "x = winner \<and> (\<forall>key\<in>K. \<forall>p. names event w' key p \<longrightarrow> p = winner)"
  using assms
proof (induction losers arbitrary: w)
  case (Cons l losers)
  from Cons.prems(1) obtain y w1 where "run_state (mergeProfiles event (snd l) winner) w = (Inr y, w1)"
    and "run_state (merge_losers event winner losers) w1 = (Inr x, w')" by (auto elim: attempt_InrE)
  then show ?case using Cons.prems(2) by (intro Cons.IH) (auto dest: names_merge)
qed auto

lemma collect_candidates_Inr:
  assumes "run_state (collect_candidates event keys cs) w = (Inr cs', w')" "aliases_ok (w_aliases w)"
  shows "(\<exists>k. w' = w\<lparr>w_tick := k\<rparr>) \<and> set (map snd cs') = set (map snd cs) \<union> {p. \<exists>key\<in>set keys. names event w key p}"
  using assms
proof (induction keys arbitrary: cs w)
  case (Cons key keys)
  from Cons.prems(1) obtain c where c: "c = least_by (\<lambda>c. c) (alias_candidates event key w)"
    and rest: "run_state (collect_candidates event keys (case c of None \<Rightarrow> cs
      | Some c \<Rightarrow> if snd c \<in> set (map snd cs) then cs else cs @ [c])) (ticked w) = (Inr cs', w')"
    by (auto simp: lookup_key_def alias_candidates_def elim!: attempt_InrE query_InrE split: option.splits)
  have "set (map snd (case c of None \<Rightarrow> cs | Some c \<Rightarrow> if snd c \<in> set (map snd cs) then cs else cs @ [c])) =
      set (map snd cs) \<union> {p. names event w key p}"
  proof (cases c)
    case None
    then show ?thesis using c by (auto simp: least_by_None names_def)
  next
    case (Some d)
    with c have "d \<in> set (alias_candidates event key w)" by (metis least_by_Some)
    then have "names event w key (snd d)" by (simp add: names_def)
    then have "{p. names event w key p} = {snd d}" by (auto dest: names_unique [OF Cons.prems(2)])
    with Some show ?thesis by auto
  qed
  with Cons.IH [OF rest] Cons.prems(2) show ?case by (auto simp: ticked_def)
qed (auto intro!: exI [of _ "w_tick w'"])

lemma resolveIdentity_Inr:
  assumes run: "run_state (resolveIdentity event) w = (Inr winner, w')" and ok: "aliases_ok (w_aliases w)" and won: "winner \<noteq> []"
  shows "(\<exists>key\<in>set (identityKeys event). names event w key winner) \<and>
    (\<forall>key\<in>set (identityKeys event). \<forall>p. names event w' key p \<longrightarrow> p = winner)"
proof -
  from run won obtain cs w1 where cs: "run_state (collect_candidates event (identityKeys event) []) w = (Inr cs, w1)"
    and rest: "run_state (case sort cs of [] \<Rightarrow> ret (Inr []) | b # losers \<Rightarrow> merge_losers event (snd b) losers) w1 = (Inr winner, w')"
    by (auto simp: resolveIdentity_def elim!: attempt_InrE split: if_splits)
  from collect_candidates_Inr [OF cs ok]
  have named: "names event w1 key p = names event w key p" "set (map snd cs) = {p. \<exists>key\<in>set (identityKeys event). names event w key p}" for key p
    by auto
  from rest won obtain b losers where b: "sort cs = b # losers"
    and m: "run_state (merge_losers event (snd b) losers) w1 = (Inr winner, w')" by (auto split: list.splits)
  from b have set: "set (map snd cs) = insert (snd b) (set (map snd losers))" by (metis list.simps(15,9) set_map set_sort)
  with named have "p = snd b \<or> p \<in> set (map snd losers)"
    if "key \<in> set (identityKeys event)" "names event w1 key p" for key p using that by auto
  then have "winner = snd b \<and> (\<forall>key\<in>set (identityKeys event). \<forall>p. names event w' key p \<longrightarrow> p = snd b)"
    by (rule merge_losers_Inr [OF m])
  with set named show ?thesis by auto
qed

section \<open>Unmerging\<close>

lemma upd_rows_absorb:
  "(\<And>a. P a \<Longrightarrow> \<not> Q (f a)) \<Longrightarrow> upd_rows Q f (upd_rows P f rows) = upd_rows (\<lambda>a. P a \<or> Q a) f rows"
  by (auto simp: upd_rows_def)

lemma restore_aliases_run:
  assumes "healthy w" "src \<noteq> target"
  shows "\<exists>k. run_state (restore_aliases event src target als) w = (Inr (), w\<lparr>w_tick := k, w_aliases :=
     upd_rows (\<lambda>a. al_TenantID a = p_TenantID (ae_Principal event) \<and> al_AppID a = p_AppID (ae_Principal event) \<and>
         (al_Namespace a, al_Value a) \<in> set (map (\<lambda>(n, v, _). (n, v)) als) \<and> al_ProfileID a = target)
       (\<lambda>a. a\<lparr>al_ProfileID := src\<rparr>) (w_aliases w)\<rparr>)"
  using assms(1)
proof (induction als arbitrary: w)
  case Nil
  show ?case by (auto simp: upd_rows_def intro!: exI [of _ "w_tick w"])
next
  case (Cons x als)
  obtain ns v e where x: "x = (ns, v, e)" by (cases x)
  let ?w = "(ticked w)\<lparr>w_aliases := upd_rows (\<lambda>a. al_TenantID a = p_TenantID (ae_Principal event) \<and>
         al_AppID a = p_AppID (ae_Principal event) \<and> al_Namespace a = ns \<and> al_Value a = v \<and> al_ProfileID a = target)
         (\<lambda>a. a\<lparr>al_ProfileID := src\<rparr>) (w_aliases w)\<rparr>"
  have "healthy ?w" using Cons.prems by (simp add: healthy_def ticked_def)
  from Cons.IH [OF this] obtain k where "run_state (restore_aliases event src target als) ?w = (Inr (), ?w\<lparr>w_tick := k, w_aliases :=
     upd_rows (\<lambda>a. al_TenantID a = p_TenantID (ae_Principal event) \<and> al_AppID a = p_AppID (ae_Principal event) \<and>
         (al_Namespace a, al_Value a) \<in> set (map (\<lambda>(n, v, _). (n, v)) als) \<and> al_ProfileID a = target)
       (\<lambda>a. a\<lparr>al_ProfileID := src\<rparr>) (w_aliases ?w)\<rparr>)" (is "?run = (_, _\<lparr>w_tick := k, w_aliases := ?as\<rparr>)") by blast
  moreover have "?as = upd_rows (\<lambda>a. al_TenantID a = p_TenantID (ae_Principal event) \<and> al_AppID a = p_AppID (ae_Principal event) \<and>
         (al_Namespace a, al_Value a) \<in> set (map (\<lambda>(n, v, _). (n, v)) (x # als)) \<and> al_ProfileID a = target)
       (\<lambda>a. a\<lparr>al_ProfileID := src\<rparr>) (w_aliases w)"
    using assms(2) by (simp add: upd_rows_absorb x) (auto intro!: arg_cong [where f = "\<lambda>P. upd_rows P _ _"])
  ultimately show ?case using Cons.prems by (auto simp: x run_attempt run_exec ticked_def)
qed

lemma restore_consents_run:
  assumes "healthy w"
  shows "\<exists>k cs'. run_state (restore_consents event src cs) w = (Inr (), w\<lparr>w_tick := k, w_consents := cs'\<rparr>)"
  using assms
proof (induction cs arbitrary: w)
  case Nil
  show ?case by (auto intro!: exI [of _ "w_tick w"] exI [of _ "w_consents w"])
next
  case (Cons x cs)
  obtain c r e where x: "x = (c, r, e)" by (cases x)
  let ?w = "(ticked w)\<lparr>w_consents := upd_rows (\<lambda>c. cr_TenantID c = p_TenantID (ae_Principal event) \<and>
         cr_AppID c = p_AppID (ae_Principal event) \<and> cr_SourceEventID c = Some e)
         (\<lambda>c. c\<lparr>cr_Consent := (cr_Consent c)\<lparr>co_ProfileID := src\<rparr>\<rparr>) (w_consents w)\<rparr>"
  have "healthy ?w" using Cons.prems by (simp add: healthy_def ticked_def)
  from Cons.IH [OF this] show ?case
    using Cons.prems by (auto simp: x run_attempt run_exec ticked_def)
qed

text \<open>What the recorded merge says and what the tables hold before it.\<close>

definition mergeable :: "accepted_event \<Rightarrow> string \<Rightarrow> string \<Rightarrow> world \<Rightarrow> bool" where
  "mergeable event src target w \<longleftrightarrow> src \<noteq> target \<and> distinct (map pr_ID (w_profiles w)) \<and> profiles_ok (w_profiles w) \<and>
     aliases_ok (w_aliases w) \<and> list_all (\<lambda>r. pr_ID r = src \<longrightarrow> pr_MergedInto r = None) (w_profiles w) \<and>
     list_all (\<lambda>a. al_ProfileID a \<in> {src, target} \<longrightarrow>
       al_TenantID a = p_TenantID (ae_Principal event) \<and> al_AppID a = p_AppID (ae_Principal event)) (w_aliases w)"

lemma find_unique:
  assumes "distinct (map f xs)" "find (\<lambda>x. f x = k \<and> P x) xs = Some y"
  shows "x \<in> set xs \<and> f x = k \<longleftrightarrow> x = y"
  using assms by (auto simp: find_Some_iff distinct_map dest: inj_onD)

lemma unmerged_profiles:
  assumes ok: "mergeable event src target w"
    and r: "find (\<lambda>r. profile_id_is src r \<and> app_profile event r) (w_profiles w) = Some r"
    and sp: "sp = \<lparr>sp_ID = pr_ID r, sp_ExternalID = pr_External r, sp_AnonymousID = pr_Anonymous r,
       sp_Attributes = pr_Attributes r, sp_Version = pr_Version r, sp_UpdatedAt = pr_UpdatedAt r\<rparr>"
  shows "upd_rows (\<lambda>r. pr_ID r = src \<and> pr_MergedInto r = Some target)
     (\<lambda>r. r\<lparr>pr_External := sp_ExternalID sp, pr_Anonymous := sp_AnonymousID sp, pr_Attributes := sp_Attributes sp,
            pr_Version := sp_Version sp, pr_MergedInto := None, pr_UpdatedAt := sp_UpdatedAt sp\<rparr>)
     (upd_rows (profile_id_is src) (retired w target) (upd_rows (profile_id_is target) (absorbed w attrs) (w_profiles w))) =
     upd_rows (profile_id_is target) (absorbed w attrs) (w_profiles w)"
proof -
  have only: "x \<in> set (w_profiles w) \<and> pr_ID x = src \<longleftrightarrow> x = r" for x
    using ok r by (intro find_unique) (auto simp: mergeable_def profile_id_is_def)
  then have "r \<in> set (w_profiles w)" "pr_ID r = src" by blast+
  then have self: "r\<lparr>pr_MergedInto := None\<rparr> = r" using ok by (auto simp: mergeable_def list_all_iff)
  have "x\<lparr>pr_External := pr_External r, pr_Anonymous := pr_Anonymous r, pr_Attributes := pr_Attributes r,
      pr_Version := pr_Version r, pr_MergedInto := None, pr_UpdatedAt := pr_UpdatedAt r\<rparr> = x"
    if "x \<in> set (w_profiles w)" "pr_ID x = src" for x
    using that only [of x] self by (cases r) simp
  then show ?thesis
    using ok by (auto simp: upd_rows_def profile_id_is_def retired_def absorbed_def sp mergeable_def)
qed

lemma unmerged_aliases:
  assumes ok: "mergeable event src target w"
    and als: "als = map (\<lambda>a. (al_Namespace a, al_Value a, al_SourceEventID a)) (app_aliases event src w)"
  shows "upd_rows (\<lambda>a. al_TenantID a = p_TenantID (ae_Principal event) \<and> al_AppID a = p_AppID (ae_Principal event) \<and>
         (al_Namespace a, al_Value a) \<in> set (map (\<lambda>(n, v, _). (n, v)) als) \<and> al_ProfileID a = target)
       (\<lambda>a. a\<lparr>al_ProfileID := src\<rparr>)
     (upd_rows (\<lambda>a. al_ProfileID a = src) (\<lambda>a. a\<lparr>al_ProfileID := target\<rparr>)
       (filter (\<lambda>a. \<not> shadowed w src target a) (w_aliases w))) = w_aliases w"
proof -
  have here: "al_TenantID a = p_TenantID (ae_Principal event) \<and> al_AppID a = p_AppID (ae_Principal event)"
    if "a \<in> set (w_aliases w)" "al_ProfileID a = src \<or> al_ProfileID a = target" for a
    using ok that by (auto simp: mergeable_def list_all_iff)
  have other: "al_ProfileID b \<noteq> target"
    if "a \<in> set (w_aliases w)" "al_ProfileID a = src" "b \<in> set (w_aliases w)" "al_Namespace b = al_Namespace a" "al_Value b = al_Value a" for a b
  proof
    assume "al_ProfileID b = target"
    then have "alias_key a = alias_key b" using that here [of a] here [of b] by (simp add: alias_key_def)
    with ok that(1,3) have "a = b" by (auto simp: mergeable_def aliases_ok_def distinct_map dest: inj_onD)
    with \<open>al_ProfileID b = target\<close> that(2) ok show False by (simp add: mergeable_def)
  qed
  have none: "filter (\<lambda>a. \<not> shadowed w src target a) (w_aliases w) = w_aliases w"
    using other by (auto simp: filter_id_conv shadowed_def list_ex_iff)
  have keys: "set (map (\<lambda>(n, v, _). (n, v)) als) = {(al_Namespace a, al_Value a) | a. a \<in> set (w_aliases w) \<and> al_ProfileID a = src}"
    using here by (auto simp: als app_aliases_def image_iff)
  have "(if al_ProfileID a = src then a\<lparr>al_ProfileID := target\<rparr> else a) = b \<Longrightarrow>
     (if al_TenantID b = p_TenantID (ae_Principal event) \<and> al_AppID b = p_AppID (ae_Principal event) \<and>
         (al_Namespace b, al_Value b) \<in> set (map (\<lambda>(n, v, _). (n, v)) als) \<and> al_ProfileID b = target
      then b\<lparr>al_ProfileID := src\<rparr> else b) = a" if "a \<in> set (w_aliases w)" for a b
    using that here [of a] other [OF _ _ that] unfolding keys by (auto split: if_splits)
  then show ?thesis unfolding none by (simp add: upd_rows_def comp_def map_idI)
qed

lemma merge_then_unmerge:
  assumes ok: "mergeable event src target w" and healthy: "healthy w"
    and run: "run_state (mergeProfiles event src target) w = (Inr (), w1)"
    and m: "im_SourceID m = src" "im_TargetID m = target" "im_ReversalRef m = snapshot_key event src"
    and here: "p_TenantID (ae_Principal undo) = p_TenantID (ae_Principal event)" "p_AppID (ae_Principal undo) = p_AppID (ae_Principal event)"
  obtains q w2 where "find_profile src w = Some q" "run_state (apply_unmerge undo m) w1 = (Inr (), w2)"
    "w_profiles w2 = upd_rows (profile_id_is target) (absorbed w (pr_Attributes q)) (w_profiles w)"
    "w_aliases w2 = w_aliases w"
proof -
  from ok have ne: "src \<noteq> target" by (simp add: mergeable_def)
  from run ne obtain r s where
    r: "find (\<lambda>r. profile_id_is src r \<and> app_profile event r) (w_profiles w) = Some r"
    and s: "ms_Profile s = \<lparr>sp_ID = pr_ID r, sp_ExternalID = pr_External r, sp_AnonymousID = pr_Anonymous r,
       sp_Attributes = pr_Attributes r, sp_Version = pr_Version r, sp_UpdatedAt = pr_UpdatedAt r\<rparr>"
      "ms_Aliases s = map (\<lambda>a. (al_Namespace a, al_Value a, al_SourceEventID a)) (app_aliases event src w)"
      "map_of (w_snapshots w1) (snapshot_key event src) = Some s"
    and profiles: "w_profiles w1 = upd_rows (profile_id_is src) (retired w target)
       (case find_profile src w of None \<Rightarrow> w_profiles w
        | Some q \<Rightarrow> upd_rows (profile_id_is target) (absorbed w (pr_Attributes q)) (w_profiles w))"
    and aliases: "w_aliases w1 = upd_rows (\<lambda>a. al_ProfileID a = src) (\<lambda>a. a\<lparr>al_ProfileID := target\<rparr>)
       (filter (\<lambda>a. \<not> shadowed w src target a) (w_aliases w))"
    and rest: "w_blobs w1" "w_fault w1 = w_fault w" by (rule mergeProfiles_Inr)
  from r obtain q where q: "find_profile src w = Some q"
    by (cases "find_profile src w") (auto simp: find_profile_def find_None_iff find_Some_iff)
  let ?restored = "upd_rows (profile_id_is target) (absorbed w (pr_Attributes q)) (w_profiles w)"
  have "profiles_ok ?restored" using ok
    by (simp add: profiles_ok_def map_upd_rows absorbed_def external_key_def anonymous_key_def mergeable_def)
  have h1: "healthy w1" using healthy rest by (simp add: healthy_def)
  have key: "snapshot_key event src \<noteq> []" by (simp add: snapshot_key_def)
  have id: "pr_ID r = src" using r by (auto simp: find_Some_iff profile_id_is_def)
  then have sid: "sp_ID (ms_Profile s) = src" by (simp add: s(1))
  have get: "run_state (get_snapshot (im_ReversalRef m)) w1 = (Inr s, ticked w1)"
    using h1 rest(1) s key by (simp add: get_snapshot_def run_query m ticked_def)
  let ?w2 = "(ticked (ticked w1))\<lparr>w_profiles := ?restored\<rparr>"
  have restore: "run_state (restore_profile (ms_Profile s) src target) (ticked w1) = (Inr (), ?w2)"
    using h1 \<open>profiles_ok ?restored\<close> unmerged_profiles [OF ok r s(1), of "pr_Attributes q"]
    by (simp add: restore_profile_def write_profiles_def stmt_def run_db with_profiles_def profiles q)
  have h2: "healthy ?w2" using h1 by (simp add: healthy_def ticked_def)
  obtain k where als: "run_state (restore_aliases undo src target (ms_Aliases s)) ?w2 =
      (Inr (), ?w2\<lparr>w_tick := k, w_aliases := w_aliases w\<rparr>)"
    using restore_aliases_run [OF h2 ne, of undo "ms_Aliases s"] unmerged_aliases [OF ok s(2)]
    by (auto simp: here aliases)
  let ?w3 = "?w2\<lparr>w_tick := k, w_aliases := w_aliases w\<rparr>"
  have h3: "healthy ?w3" using h2 by (simp add: healthy_def)
  obtain k' cs where cons: "run_state (restore_consents undo src (ms_Consents s)) ?w3 = (Inr (), ?w3\<lparr>w_tick := k', w_consents := cs\<rparr>)"
    using restore_consents_run [OF h3] by blast
  show thesis
    by (rule that [OF q, of "snd (run_state (apply_unmerge undo m) w1)"])
      (insert h1, simp_all add: apply_unmerge_def run_attempt get [unfolded m] sid m restore als cons run_exec)
qed

section \<open>A known person meets an anonymous one\<close>

lemma present_clash:
  assumes "i < length xs" "j < length xs" "i \<noteq> j" "xs ! i = Some k" "xs ! j = Some k"
  shows "\<not> distinct (present xs)"
proof
  assume d: "distinct (present xs)"
  have present_append: "present (us @ vs) = present us @ present vs" "present (Some k # vs) = k # present vs" for us vs :: "'a option list"
    by (simp_all add: present_def)
  have in_present: "Some k \<in> set us \<Longrightarrow> k \<in> set (present us)" for us :: "'a option list"
    by (force simp: present_def)
  have "False" if "a < b" "b < length xs" "xs ! a = Some k" "xs ! b = Some k" for a b
  proof -
    have "xs = take a xs @ Some k # drop (Suc a) xs" using that by (metis Cons_nth_drop_Suc append_take_drop_id order_less_trans)
    then have "present xs = present (take a xs) @ k # present (drop (Suc a) xs)" by (metis present_append)
    moreover have "Some k \<in> set (drop (Suc a) xs)"
      using that by (auto simp: in_set_conv_nth intro!: exI [of _ "b - Suc a"])
    ultimately show False using d in_present by auto
  qed
  with assms show False by (metis nat_neq_iff)
qed

text \<open>
  The target is given the anonymous identifier while the anonymous profile still has it, which the unique
  index refuses.
\<close>

lemma absorb_anonymous_fails:
  assumes "healthy w" "find_profile a w = Some an" "pr_Anonymous an = Some x"
    and "ex \<in> set (w_profiles w)" "pr_ID ex = e" "pr_Anonymous ex = None" "e \<noteq> a"
    and "pr_TenantID ex = pr_TenantID an" "pr_AppID ex = pr_AppID an"
  shows "fst (run_state (absorb_anonymous e a) w) = Inl ErrDb"
proof -
  let ?f = "\<lambda>r. r\<lparr>pr_Attributes := jsonb_or (pr_Attributes an) (pr_Attributes r),
                pr_Anonymous := (case pr_Anonymous r of None \<Rightarrow> pr_Anonymous an | Some x \<Rightarrow> Some x),
                pr_Version := pr_Version r + 1, pr_UpdatedAt := w_now w\<rparr>"
  let ?rows = "upd_rows (profile_id_is e) ?f (w_profiles w)"
  from assms(2) obtain i where i: "i < length (w_profiles w)" "w_profiles w ! i = an" "pr_ID an = a"
    by (auto simp: find_profile_def find_Some_iff profile_id_is_def)
  from assms(4) obtain j where j: "j < length (w_profiles w)" "w_profiles w ! j = ex" by (auto simp: in_set_conv_nth)
  have "i \<noteq> j" using i j assms(5,7) by auto
  then have "\<not> distinct (present (map anonymous_key ?rows))"
    using i j assms by (intro present_clash [of i _ j])
      (simp_all add: upd_rows_def anonymous_key_def profile_id_is_def)
  then show ?thesis using assms(1,2)
    by (simp add: absorb_anonymous_def write_profiles_def stmt_def run_db with_profiles_def profiles_ok_def find_profile_def)
qed

lemma ensureProfile_stuck:
  assumes "healthy w" "ae_ExternalID event \<noteq> []" "ae_AnonymousID event \<noteq> []"
    and an: "find (\<lambda>r. app_profile event r \<and> pr_Anonymous r = Some (ae_AnonymousID event) \<and> pr_MergedInto r = None) (w_profiles w) = Some an"
    and ex: "find (\<lambda>r. app_profile event r \<and> pr_External r = Some (ae_ExternalID event)) (w_profiles w) = Some ex"
    and "pr_ID ex \<noteq> pr_ID an" "pr_Anonymous ex = None" "distinct (map pr_ID (w_profiles w))"
  shows "fst (run_state (ensureProfile event) w) = Inl ErrDb"
proof -
  from an ex have here: "an \<in> set (w_profiles w)" "ex \<in> set (w_profiles w)" "app_profile event an" "app_profile event ex"
    "pr_Anonymous an = Some (ae_AnonymousID event)" by (auto simp: find_Some_iff in_set_conv_nth)
  obtain r where r: "find_profile (pr_ID an) w = Some r"
    using here(1) by (cases "find_profile (pr_ID an) w") (auto simp: find_profile_def find_None_iff profile_id_is_def)
  with assms(8) here(1) have "r = an"
    by (auto simp: find_profile_def find_Some_iff profile_id_is_def distinct_map dest: inj_onD)
  let ?w = "ticked (ticked w)"
  have "fst (run_state (absorb_anonymous (pr_ID ex) (pr_ID an)) ?w) = Inl ErrDb"
    using assms here r \<open>r = an\<close>
    by (intro absorb_anonymous_fails [of _ _ an "ae_AnonymousID event" ex]) (simp_all add: find_profile_def app_profile_def)
  then obtain w3 where ab: "run_state (absorb_anonymous (pr_ID ex) (pr_ID an)) ?w = (Inl ErrDb, w3)" by (metis prod.collapse)
  from assms show ?thesis
    by (simp add: ensureProfile_def merge_anonymous_def run_attempt run_query an ex ab failed_def)
qed

section \<open>Unsubscribing\<close>

lemma in_tx_InrE:
  assumes "run_state (in_tx body) w = (Inr x, w')"
  obtains w1 where "run_state body (ticked w) = (Inr x, w1)" "w' = ticked w1"
  using assms by (auto simp: in_tx_def split: if_splits prod.splits sum.splits)

lemma project_consent_unsubscribes:
  assumes run: "run_state (project_consent event pid) w = (Inr (), w')"
    and b: "Option.bind (payload_members event) dec_consent = Some b" "cs_State b = ''unsubscribed''"
  shows "w_profiles w' = w_profiles w \<and> (consent_endpoint (cs_Channel b) pid w \<noteq> [] \<longrightarrow>
    list_ex (suppresses (p_TenantID (ae_Principal event)) (cs_Channel b) (consent_endpoint (cs_Channel b) pid w)) (w_suppressions w'))"
proof -
  have added: "list_ex (suppresses t ch ep) (w_suppressions (add_suppression event ch ep r v))" if "t = p_TenantID (ae_Principal event)" for t ch ep r v
    using that by (auto simp: add_suppression_def suppresses_def)
  have same: "consent_endpoint ch pid (add_consent event pid b v) = consent_endpoint ch pid v"
      "w_profiles (add_consent event pid b v) = w_profiles v" "w_profiles (add_suppression event ch ep r v) = w_profiles v" for ch ep r v
    by (auto simp: consent_endpoint_def find_profile_def add_consent_def add_suppression_def)
  have tick: "consent_endpoint ch pid (ticked v) = consent_endpoint ch pid v" for ch v
    by (simp add: consent_endpoint_def find_profile_def)
  show ?thesis
    using run unfolding project_consent_def with_body_def b
    by (auto simp: b failed_def same tick added elim!: attempt_InrE exec_InrE query_InrE split: if_splits)
qed

lemma unsubscribe_suppresses:
  assumes run: "run_state (ProjectEvent event) w = (Inr (), w')" and ty: "ae_Type event = ''consent.changed''"
    and b: "Option.bind (payload_members event) dec_consent = Some b" "cs_State b = ''unsubscribed''"
  obtains pid w1 where "run_state (settle_profile event) (ticked w) = (Inr pid, w1)"
    "consent_endpoint (cs_Channel b) pid w1 \<noteq> [] \<Longrightarrow>
     list_ex (suppresses (p_TenantID (ae_Principal event)) (cs_Channel b) (consent_endpoint (cs_Channel b) pid w1)) (w_suppressions w')"
proof -
  from run obtain pid w1 w2 w3 y w4 z w5 w6 where s: "run_state (settle_profile event) (ticked w) = (Inr pid, w1)"
    and c: "run_state (project_consent event pid) w1 = (Inr (), w2)"
    and e: "run_state (projectEngagementFact event pid) w2 = (Inr y, w3)"
    and v: "run_state (if pid \<noteq> [] then projectConversionFact event pid else ret (Inr False)) w3 = (Inr z, w4)"
    and d: "run_state (drive_journeys event pid) w4 = (Inr (), w5)"
    and f: "run_state (finish_job event) w5 = (Inr (), w6)" and w': "w' = ticked w6"
    by (auto simp: ProjectEvent_def project_body_def apply_event_def ty Let_def elim!: in_tx_InrE attempt_InrE attempt_wrapped_InrE)
  have "journey_frame w2 w3" using jf.evolve_facts(1) e unfolding state_io_rel_def by (metis snd_conv)
  moreover have "journey_frame w3 w4"
    using jf.evolve_facts(2) [of event pid] v jf.evolution_refl unfolding state_io_rel_def
    by (cases "pid = []") (auto, metis snd_conv)
  moreover have "journey_frame w4 w5" using jf.evolve_journeys d unfolding state_io_rel_def by (metis snd_conv)
  moreover have "w_suppressions w' = w_suppressions w5" using f by (auto simp: w' finish_job_def elim: exec_InrE)
  ultimately have "w_suppressions w' = w_suppressions w2" by (simp add: journey_frame_def)
  with project_consent_unsubscribes [OF c b] s show thesis by (intro that) auto
qed

end
