(* ===== verification/AuditFacts.thy ===== *)
theory AuditFacts
  imports AuditLog "HOL-Library.Multiset"
begin

text \<open>
  Facts about the audit chain. The text that is hashed determines the fields of a row, so two chains that
  verify and end in the same hash agree row by row unless SHA-256 collides on the texts involved; appending
  keeps a chain intact when the stored row reads back as it was hashed, and only then; and the backfill
  that runs with every migration makes any table verify.
\<close>

section \<open>The hashed text\<close>

definition pipe_free :: "string \<Rightarrow> bool" where
  "pipe_free s \<longleftrightarrow> CHR ''|'' \<notin> set s"

lemma pipe_prefix: "pipe_free a \<Longrightarrow> pipe_free b \<Longrightarrow> a @ CHR ''|'' # x = b @ CHR ''|'' # y \<longleftrightarrow> a = b \<and> x = y"
proof (induction a arbitrary: b)
  case Nil
  then show ?case by (cases b) (auto simp: pipe_free_def)
next
  case (Cons c a)
  then show ?case by (cases b) (auto simp: pipe_free_def)
qed

lemma pipe_suffix:
  assumes "pipe_free s" and "pipe_free t"
  shows "x @ CHR ''|'' # s = y @ CHR ''|'' # t \<longleftrightarrow> x = y \<and> s = t"
proof -
  have "x @ CHR ''|'' # s = y @ CHR ''|'' # t \<longleftrightarrow> rev (x @ CHR ''|'' # s) = rev (y @ CHR ''|'' # t)"
    by (simp only: rev_is_rev_conv)
  also have "\<dots> \<longleftrightarrow> rev s @ CHR ''|'' # rev x = rev t @ CHR ''|'' # rev y" by simp
  also have "\<dots> \<longleftrightarrow> rev s = rev t \<and> rev x = rev y" using assms by (intro pipe_prefix) (simp_all add: pipe_free_def)
  finally show ?thesis by auto
qed

lemma digit_char_inj:
  assumes "m < 10" and "n < 10" and "char_of (48 + m) = (char_of (48 + n) :: char)"
  shows "m = (n :: nat)"
proof -
  have "of_char (char_of (48 + m) :: char) = (of_char (char_of (48 + n) :: char) :: nat)" using assms(3) by simp
  with assms(1,2) show ?thesis by simp
qed

lemma itoa_nat_digits: "set (itoa_nat n) \<subseteq> (\<lambda>k. char_of (48 + k)) ` {..<10::nat}"
proof (induction n rule: itoa_nat.induct)
  case (1 n)
  then show ?case by (subst itoa_nat.simps) (auto simp: image_iff)
qed

lemma digit_not:
  assumes "c \<in> (\<lambda>k. char_of (48 + k)) ` {..<10::nat}"
  shows "c \<noteq> CHR ''|''" "c \<noteq> CHR ''-''"
proof -
  from assms obtain k :: nat where k: "k < 10" "c = char_of (48 + k)" by auto
  then have "of_char c = 48 + k" by simp
  with k(1) show "c \<noteq> CHR ''|''" "c \<noteq> CHR ''-''" by auto
qed

lemma pipe_free_simps [simp]:
  "pipe_free []" "pipe_free (c # s) \<longleftrightarrow> c \<noteq> CHR ''|'' \<and> pipe_free s" "pipe_free (s @ t) \<longleftrightarrow> pipe_free s \<and> pipe_free t"
  by (auto simp: pipe_free_def)

lemma pipe_free_itoa_nat [simp]: "pipe_free (itoa_nat n)"
  using itoa_nat_digits [of n] digit_not(1) by (auto simp: pipe_free_def)

lemma pipe_free_itoa [simp]: "pipe_free (itoa i)"
  by (simp add: itoa_def)

lemma pipe_free_pad [simp]: "pipe_free (pad_int n i)"
  by (simp add: pad_int_def Let_def) (auto simp: pipe_free_def)

lemma pipe_free_time [simp]: "pipe_free (rfc3339_nano t)"
proof -
  have "pipe_free (rev (dropWhile P (rev s)))" if "pipe_free s" for P s
    using that by (auto simp: pipe_free_def dest: set_dropWhileD)
  then have "pipe_free (nano_fraction t)" by (simp add: nano_fraction_def Let_def)
  then show ?thesis by (simp add: rfc3339_nano_def split: prod.splits)
qed

text \<open>A row whose fields, the metadata aside, contain no separator.\<close>

definition clean_row :: "auditRow \<Rightarrow> bool" where
  "clean_row e \<longleftrightarrow> list_all pipe_free [ar_prevHash e, ar_id e, ar_tenantID e, ar_workspaceID e, ar_appID e, ar_actType e,
     ar_actID e, ar_act e, ar_resType e, ar_resID e]"

definition audit_text :: "auditRow \<Rightarrow> string" where
  "audit_text e = pipe_join (audit_fields e)"

lemma audit_text_inj:
  assumes "clean_row e" and "clean_row f" and "audit_text e = audit_text f"
  shows "audit_fields e = audit_fields f"
  using assms by (simp add: clean_row_def audit_text_def audit_fields_def pipe_prefix pipe_suffix)

section \<open>Tampering\<close>

lemma verify_intact:
  "av_Intact (verify_loop h n es) \<longleftrightarrow>
   (\<forall>e \<in> set es. ar_rowHash e = ComputeAuditRowHash e) \<and> map ar_prevHash es = butlast (h # map ar_rowHash es)"
  by (induction h n es rule: verify_loop.induct) (auto simp: tampered_def)

lemma verify_intact_snoc:
  "av_Intact (verify_loop h n (es @ [e])) \<longleftrightarrow> av_Intact (verify_loop h n es) \<and>
   ar_prevHash e = last (h # map ar_rowHash es) \<and> ar_rowHash e = ComputeAuditRowHash e"
  by (induction h n es rule: verify_loop.induct) (auto simp: tampered_def)

text \<open>Two intact chains of the same length that end in the same hash.\<close>

lemma chains_agree:
  assumes "length es = length fs" "es \<noteq> []" "av_Intact (verifyAuditRows es)" "av_Intact (verifyAuditRows fs)"
    "ar_rowHash (last es) = ar_rowHash (last fs)" "list_all clean_row es" "list_all clean_row fs"
    "inj_on sha256_hex (audit_text ` (set es \<union> set fs))"
  shows "map audit_fields es = map audit_fields fs"
  using assms
proof (induction es arbitrary: fs rule: rev_induct)
  case (snoc e es)
  then obtain f gs where fs: "fs = gs @ [f]" by (metis append_butlast_last_id length_0_conv)
  note sn = snoc.prems [unfolded fs]
  have ver: "av_Intact (verifyAuditRows es)" "av_Intact (verifyAuditRows gs)" "ar_prevHash e = last ([] # map ar_rowHash es)"
    "ar_prevHash f = last ([] # map ar_rowHash gs)" "ar_rowHash e = ComputeAuditRowHash e" "ar_rowHash f = ComputeAuditRowHash f"
    using sn(3,4) by (simp_all add: verifyAuditRows_def verify_intact_snoc)
  have "sha256_hex (audit_text e) = sha256_hex (audit_text f)"
    using sn(5) ver(5,6) by (simp add: ComputeAuditRowHash_def audit_text_def)
  then have "audit_text e = audit_text f" by (rule inj_onD [OF sn(8)]) simp_all
  then have fields: "audit_fields e = audit_fields f" using audit_text_inj sn(6,7) by simp
  then have prev: "ar_prevHash e = ar_prevHash f" by (simp add: audit_fields_def)
  show ?case
  proof (cases "es = []")
    case True
    with sn(1) fields show ?thesis by (simp add: fs)
  next
    case False
    with sn(1) have "gs \<noteq> []" by auto
    with False prev ver(3,4) have "ar_rowHash (last es) = ar_rowHash (last gs)" by (simp add: last_map)
    moreover have "inj_on sha256_hex (audit_text ` (set es \<union> set gs))" by (rule inj_on_subset [OF sn(8)]) auto
    ultimately have "map audit_fields es = map audit_fields gs" using False sn ver by (intro snoc.IH) simp_all
    then show ?thesis by (simp add: fs fields)
  qed
qed simp

section \<open>The instant of a row\<close>

fun digs :: "nat \<Rightarrow> nat \<Rightarrow> string" where
  "digs 0 n = []"
| "digs (Suc w) n = digs w (n div 10) @ [char_of (48 + n mod 10)]"

lemma length_digs [simp]: "length (digs w n) = w"
  by (induction w n rule: digs.induct) simp_all

lemma zero_char: "char_of (48 :: nat) = CHR ''0''"
  by code_simp

lemma digs_zero: "digs w 0 = replicate w (CHR ''0'')"
  by (induction w) (simp_all add: zero_char replicate_append_same)

lemma pad_digs:
  "0 < w \<Longrightarrow> n < 10 ^ w \<Longrightarrow> replicate (w - length (itoa_nat n)) (CHR ''0'') @ itoa_nat n = digs w n"
proof (induction w arbitrary: n)
  case (Suc w)
  show ?case
  proof (cases "n < 10")
    case True
    then show ?thesis by (subst (1 2) itoa_nat.simps) (simp add: digs_zero)
  next
    case False
    with Suc.prems have "0 < w" "n div 10 < 10 ^ w" by (cases w; simp add: less_mult_imp_div_less)+
    from Suc.IH [OF this] False show ?thesis by (subst (1 2) itoa_nat.simps) simp
  qed
qed simp

definition trim_zeros :: "string \<Rightarrow> string" where
  "trim_zeros s = rev (dropWhile (\<lambda>c. c = CHR ''0'') (rev s))"

lemma trim_digs:
  "trim_zeros (digs (Suc w) n) = (if n mod 10 = 0 then trim_zeros (digs w (n div 10)) else digs (Suc w) n)"
proof -
  have "char_of (48 + n mod 10) = CHR ''0'' \<longleftrightarrow> n mod 10 = 0"
    using digit_char_inj [of "n mod 10" 0] by (auto simp: zero_char)
  then show ?thesis by (simp add: trim_zeros_def)
qed

lemma mod_power_Suc: "n mod 10 ^ Suc k = 0 \<longleftrightarrow> n mod 10 = 0 \<and> (n div 10) mod 10 ^ k = (0 :: nat)"
  by (simp add: mod_mult2_eq) blast

lemma trim_short: "n mod 10 ^ k = 0 \<Longrightarrow> k \<le> w \<Longrightarrow> length (trim_zeros (digs w n)) \<le> w - k"
proof (induction k arbitrary: w n)
  case 0
  then show ?case by (simp add: trim_zeros_def) (metis length_digs length_dropWhile_le length_rev)
next
  case (Suc k)
  then obtain v where w: "w = Suc v" by (cases w) auto
  from Suc.prems(1) have "n mod 10 = 0" "(n div 10) mod 10 ^ k = 0" unfolding mod_power_Suc by auto
  with Suc.IH [of "n div 10" v] Suc.prems(2) show ?case by (simp add: w trim_digs del: digs.simps)
qed

lemma trim_long: "n mod 10 ^ k \<noteq> 0 \<Longrightarrow> k \<le> w \<Longrightarrow> w - k < length (trim_zeros (digs w n))"
proof (induction k arbitrary: w n)
  case (Suc k)
  then obtain v where w: "w = Suc v" by (cases w) auto
  show ?case
  proof (cases "n mod 10 = 0")
    case True
    then have eq: "trim_zeros (digs w n) = trim_zeros (digs v (n div 10))" unfolding w trim_digs by simp
    have "(n div 10) mod 10 ^ k \<noteq> 0" using Suc.prems(1) True unfolding mod_power_Suc by blast
    moreover have "k \<le> v" using Suc.prems(2) w by simp
    ultimately have "v - k < length (trim_zeros (digs v (n div 10)))" by (rule Suc.IH)
    with eq w show ?thesis by simp
  next
    case False
    then have "trim_zeros (digs w n) = digs w n" unfolding w trim_digs by simp
    with w show ?thesis by simp
  qed
qed simp

lemma fraction_digs: "nano_fraction t = (let ds = trim_zeros (digs 9 (nat (t mod second))) in if ds = [] then [] else CHR ''.'' # ds)"
proof -
  have "nat (t mod second) < 10 ^ 9" "0 \<le> t mod second" by (simp_all add: second_def nat_less_iff)
  then have "pad_int 9 (t mod second) = digs 9 (nat (t mod second))" by (simp add: pad_int_def Let_def pad_digs)
  then show ?thesis by (simp add: nano_fraction_def trim_zeros_def)
qed

lemma stored_div: "c mod 1000 = 0 \<Longrightarrow> 0 < c \<Longrightarrow> stored_time t div c = t div c"
proof -
  assume c: "c mod 1000 = 0" "0 < c"
  then obtain d where d: "c = 1000 * d" "0 < d" by (auto simp: mod_0_imp_dvd elim!: dvdE)
  have "t div 1000 * 1000 div (1000 * d) = t div 1000 div d" by (simp add: mult.commute)
  then show ?thesis using d by (simp add: stored_time_def zdiv_zmult2_eq)
qed

lemma rfc_stored:
  assumes "t mod 1000 \<noteq> 0"
  shows "rfc3339_nano (stored_time t) \<noteq> rfc3339_nano t"
proof
  assume "rfc3339_nano (stored_time t) = rfc3339_nano t"
  moreover have "civil (stored_time t) = civil t" "utc_hour (stored_time t) = utc_hour t"
    "utc_minute (stored_time t) = utc_minute t" "utc_second (stored_time t) = utc_second t"
    by (simp_all add: civil_def utc_hour_def utc_minute_def utc_second_def duration_defs stored_div)
  ultimately have eq: "nano_fraction (stored_time t) = nano_fraction t"
    by (simp add: rfc3339_nano_def split: prod.splits)
  have n: "nat (stored_time t mod second) mod 1000 = 0" "nat (t mod second) mod 1000 \<noteq> 0"
  proof -
    have "stored_time t mod second mod 1000 = 0" "t mod second mod 1000 = t mod 1000"
      by (simp_all add: stored_time_def second_def mod_mod_cancel)
    with assms show "nat (stored_time t mod second) mod 1000 = 0" "nat (t mod second) mod 1000 \<noteq> 0"
      by (auto simp: second_def nat_mod_distrib [symmetric] simp flip: nat_numeral)
  qed
  have "length (trim_zeros (digs 9 (nat (stored_time t mod second)))) \<le> 6" using trim_short [of _ 3 9] n(1) by simp
  moreover have "6 < length (trim_zeros (digs 9 (nat (t mod second))))" using trim_long [of _ 3 9] n(2) by simp
  ultimately show False using eq by (auto simp: fraction_digs Let_def split: if_splits)
qed

section \<open>Appending\<close>

definition chain_rows :: "world \<Rightarrow> string \<Rightarrow> auditRow list" where
  "chain_rows w tenantID = map (read_audit (w_jsonb_text w)) (sort_key au_Seq (tenant_audit w tenantID))"

text \<open>The unique index on tenant and sequence number.\<close>

definition seqs_unique :: "world \<Rightarrow> string \<Rightarrow> bool" where
  "seqs_unique w tenantID \<longleftrightarrow> distinct (map au_Seq (tenant_audit w tenantID))"

lemma VerifyAuditChain_run:
  "run_state (VerifyAuditChain p) w =
     (if w_fault w (w_tick w) then (Inl ErrDb, ticked w) else (Inr (verifyAuditRows (chain_rows w (p_TenantID p))), ticked w))"
  by (simp add: VerifyAuditChain_def run_query chain_rows_def tenant_audit_def)

lemma sort_key_snoc:
  assumes "\<forall>x \<in> set xs. f x < f a"
  shows "sort_key f (xs @ [a]) = sort_key f xs @ [a]"
proof (rule properties_for_sort_key)
  show "filter (\<lambda>x. f k = f x) (sort_key f xs @ [a]) = filter (\<lambda>x. f k = f x) (xs @ [a])" for k
    using sort_key_stable [of f "f k" xs] by (simp add: eq_commute [of "f k"])
  show "sorted (map f (sort_key f xs @ [a]))" using assms by (auto simp: sorted_append less_imp_le)
qed simp

lemma last_sorted:
  assumes "distinct (map f xs)" and "least_by (\<lambda>x. - f x) xs = Some a"
  shows "last (sort_key f xs) = a" and "\<forall>x \<in> set xs. f x \<le> (f a :: int)" and "a \<in> set xs"
proof -
  show a: "a \<in> set xs" and le: "\<forall>x \<in> set xs. f x \<le> f a" using least_by_Some [OF assms(2)] by auto
  then have ne: "sort_key f xs \<noteq> []" by (metis empty_iff empty_set set_sort)
  then have l: "last (sort_key f xs) \<in> set xs" by (metis last_in_set set_sort)
  have "f a \<le> f (last (sort_key f xs))"
  proof -
    from ne obtain ys z where z: "sort_key f xs = ys @ [z]" by (metis append_butlast_last_id)
    have "sorted (map f (ys @ [z]))" using sorted_sort_key [of f xs] unfolding z .
    moreover have "a \<in> set (ys @ [z])" using a unfolding z [symmetric] by simp
    ultimately show ?thesis unfolding z by (auto simp: sorted_append)
  qed
  with le l have "f (last (sort_key f xs)) = f a" by force
  with assms(1) a l show "last (sort_key f xs) = a" by (auto simp: distinct_map dest: inj_onD)
qed

lemma tenant_audit_audit:
  "tenant_audit (audit p act rt rid m w) t =
     tenant_audit w t @ (if p_TenantID p = t then [stored_audit (JObj m) (new_audit p act rt rid m w)] else [])"
  by (auto simp: tenant_audit_def audit_def new_audit_def stored_audit_def Let_def split: prod.splits)

lemma new_audit_fields:
  "ar_seq (new_audit p act rt rid m w) = fst (last_link w (p_TenantID p)) + 1"
  "ar_prevHash (new_audit p act rt rid m w) = snd (last_link w (p_TenantID p))"
  "ar_occurredAt (new_audit p act rt rid m w) = w_now w"
  "ar_metadata (new_audit p act rt rid m w) = marshal_json (JObj m)"
  "ar_rowHash (new_audit p act rt rid m w) = ComputeAuditRowHash (new_audit p act rt rid m w)"
  by (simp_all add: new_audit_def ComputeAuditRowHash_def audit_fields_def Let_def split: prod.splits)

lemma last_link_chain:
  assumes "seqs_unique w t"
  shows "snd (last_link w t) = last ([] # map ar_rowHash (chain_rows w t))"
    and "\<forall>a \<in> set (tenant_audit w t). au_Seq a \<le> fst (last_link w t)"
proof -
  have "snd (last_link w t) = last ([] # map ar_rowHash (chain_rows w t)) \<and> (\<forall>a \<in> set (tenant_audit w t). au_Seq a \<le> fst (last_link w t))"
  proof (cases "least_by (\<lambda>a. - au_Seq a) (tenant_audit w t)")
    case None
    then have "tenant_audit w t = []" by (simp add: least_by_None)
    then show ?thesis by (simp add: last_link_def chain_rows_def)
  next
    case (Some a)
    note l = last_sorted [OF assms [unfolded seqs_unique_def] Some]
    have "sort_key au_Seq (tenant_audit w t) \<noteq> []" using l(3) by (metis empty_iff empty_set set_sort)
    with Some l show ?thesis by (simp add: last_link_def chain_rows_def last_map read_audit_def)
  qed
  then show "snd (last_link w t) = last ([] # map ar_rowHash (chain_rows w t))"
    and "\<forall>a \<in> set (tenant_audit w t). au_Seq a \<le> fst (last_link w t)" by simp_all
qed

text \<open>The row as it reads back.\<close>

definition read_back :: "principal \<Rightarrow> string \<Rightarrow> string \<Rightarrow> string \<Rightarrow> (string \<times> json) list \<Rightarrow> world \<Rightarrow> auditRow" where
  "read_back p act rt rid m w = (new_audit p act rt rid m w)\<lparr>
     ar_occurredAt := stored_time (w_now w), ar_metadata := w_jsonb_text w (JObj m)\<rparr>"

lemma read_stored: "read_audit (w_jsonb_text w) (stored_audit (JObj m) (new_audit p act rt rid m w)) = read_back p act rt rid m w"
  by (simp add: read_audit_def stored_audit_def read_back_def new_audit_fields)

lemma chain_rows_audit:
  assumes "seqs_unique w (p_TenantID p)"
  shows "chain_rows (audit p act rt rid m w) (p_TenantID p) = chain_rows w (p_TenantID p) @ [read_back p act rt rid m w]"
proof -
  have "\<forall>a \<in> set (tenant_audit w (p_TenantID p)). au_Seq a < au_Seq (stored_audit (JObj m) (new_audit p act rt rid m w))"
    using last_link_chain(2) [OF assms] by (force simp: stored_audit_def new_audit_fields)
  from sort_key_snoc [OF this] show ?thesis by (simp add: chain_rows_def tenant_audit_audit read_stored)
qed

lemma seqs_unique_audit:
  assumes "seqs_unique w t"
  shows "seqs_unique (audit p act rt rid m w) t"
  using assms last_link_chain(2) [OF assms]
  by (force simp: seqs_unique_def tenant_audit_audit stored_audit_def new_audit_fields)

lemma audit_intact_iff:
  assumes "seqs_unique w (p_TenantID p)"
  shows "av_Intact (verifyAuditRows (chain_rows (audit p act rt rid m w) (p_TenantID p))) \<longleftrightarrow>
    av_Intact (verifyAuditRows (chain_rows w (p_TenantID p))) \<and>
    ComputeAuditRowHash (new_audit p act rt rid m w) = ComputeAuditRowHash (read_back p act rt rid m w)"
proof -
  have "ar_rowHash (read_back p act rt rid m w) = ComputeAuditRowHash (new_audit p act rt rid m w)"
    and "ar_prevHash (read_back p act rt rid m w) = snd (last_link w (p_TenantID p))"
    by (simp_all add: read_back_def new_audit_fields)
  with last_link_chain(1) [OF assms] show ?thesis
    by (simp only: chain_rows_audit [OF assms] verifyAuditRows_def verify_intact_snoc) auto
qed

text \<open>The two texts differ as soon as the clock shows more than microseconds.\<close>

lemma read_back_text:
  assumes "w_now w mod 1000 \<noteq> 0"
  shows "audit_text (read_back p act rt rid m w) \<noteq> audit_text (new_audit p act rt rid m w)"
proof
  let ?n = "new_audit p act rt rid m w" and ?r = "read_back p act rt rid m w"
  assume "audit_text ?r = audit_text ?n"
  then have "rfc3339_nano (ar_occurredAt ?r) = rfc3339_nano (ar_occurredAt ?n)"
    by (simp add: audit_text_def audit_fields_def read_back_def pipe_suffix)
  with rfc_stored [OF assms] show False by (simp add: read_back_def new_audit_fields)
qed

section \<open>Backfill\<close>

text \<open>The rows a pass over one tenant leaves behind.\<close>

definition linked :: "(json \<Rightarrow> string) \<Rightarrow> string \<Rightarrow> int \<Rightarrow> audit_row \<Rightarrow> audit_row" where
  "linked J prev seq a = a\<lparr>au_Seq := seq, au_PrevHash := prev,
     au_RowHash := ComputeAuditRowHash ((read_audit J a)\<lparr>ar_prevHash := prev, ar_seq := seq\<rparr>)\<rparr>"

fun relinked :: "(json \<Rightarrow> string) \<Rightarrow> string \<Rightarrow> int \<Rightarrow> audit_row list \<Rightarrow> audit_row list" where
  "relinked J prev n [] = []"
| "relinked J prev n (a # as) =
     linked J prev (n + 1) a # relinked J (au_RowHash (linked J prev (n + 1) a)) (n + 1) as"

definition replace_rows :: "audit_row list \<Rightarrow> audit_row list \<Rightarrow> audit_row list" where
  "replace_rows bs as = map (\<lambda>a. case find (\<lambda>b. au_ID b = au_ID a) bs of None \<Rightarrow> a | Some b \<Rightarrow> b) as"

lemma linked_simps [simp]:
  "au_ID (linked J prev seq a) = au_ID a" "au_TenantID (linked J prev seq a) = au_TenantID a"
  "au_Seq (linked J prev seq a) = seq" "au_PrevHash (linked J prev seq a) = prev"
  by (simp_all add: linked_def)

lemma relinked_ids [simp]: "map au_ID (relinked J prev n as) = map au_ID as"
  by (induction J prev n as rule: relinked.induct) simp_all

lemma relinked_tenants: "map au_TenantID (relinked J prev n as) = map au_TenantID as"
  by (induction J prev n as rule: relinked.induct) simp_all

lemma relinked_seqs: "map au_Seq (relinked J prev n as) = map (\<lambda>i. n + 1 + int i) [0..<length as]"
proof (induction J prev n as rule: relinked.induct)
  case (2 J prev n a as)
  then show ?case by (simp add: upt_conv_Cons map_Suc_upt [symmetric] del: upt_Suc)
qed simp

lemma read_linked: "ComputeAuditRowHash (read_audit J (linked J prev seq a)) = au_RowHash (linked J prev seq a)"
  by (simp add: linked_def read_audit_def ComputeAuditRowHash_def audit_fields_def)

lemma relinked_intact: "av_Intact (verify_loop prev k (map (read_audit J) (relinked J prev n as)))"
proof (induction J prev n as arbitrary: k rule: relinked.induct)
  case (2 J prev n a as)
  moreover have "ar_prevHash (read_audit J (linked J prev (n + 1) a)) = prev"
    "ar_rowHash (read_audit J (linked J prev (n + 1) a)) = au_RowHash (linked J prev (n + 1) a)" by (simp_all add: read_audit_def)
  ultimately show ?case by (simp add: read_linked)
qed simp

lemma relink_row:
  assumes "distinct (map au_ID as)" and "a \<in> set as"
  shows "upd_rows (\<lambda>x. au_ID x = au_ID a) (\<lambda>x. x\<lparr>au_Seq := s, au_PrevHash := p, au_RowHash := h\<rparr>) as =
    map (\<lambda>x. if au_ID x = au_ID a then a\<lparr>au_Seq := s, au_PrevHash := p, au_RowHash := h\<rparr> else x) as"
  using assms by (auto simp: upd_rows_def distinct_map dest: inj_onD)

lemma backfill_step:
  assumes "run_state (backfill_rows prev n (read_audit J a # items)) w = (Inr x, w')"
    and "distinct (map au_ID (w_audit w))" "a \<in> set (w_audit w)"
  obtains k where "run_state (backfill_rows (au_RowHash (linked J prev (n + 1) a)) (n + 1) items)
      (w\<lparr>w_audit := map (\<lambda>x. if au_ID x = au_ID a then linked J prev (n + 1) a else x) (w_audit w), w_tick := k\<rparr>) = (Inr x, w')"
proof (cases "ar_seq (read_audit J a) \<noteq> n + 1 \<or> ar_prevHash (read_audit J a) \<noteq> prev \<or>
    ar_rowHash (read_audit J a) \<noteq> au_RowHash (linked J prev (n + 1) a)")
  case True
  let ?h = "au_RowHash (linked J prev (n + 1) a)"
  let ?rows = "upd_rows (\<lambda>x. au_ID x = au_ID a) (\<lambda>x. x\<lparr>au_Seq := n + 1, au_PrevHash := prev, au_RowHash := ?h\<rparr>) (w_audit w)"
  from assms(1) True obtain w1 where r: "run_state (relink (au_ID a) (n + 1) prev ?h) w = (Inr (), w1)"
    and rest: "run_state (backfill_rows ?h (n + 1) items) w1 = (Inr x, w')"
    by (auto simp: Let_def run_attempt linked_def read_audit_def split: prod.splits sum.splits)
  from r have "w1 = w\<lparr>w_audit := ?rows, w_tick := Suc (w_tick w)\<rparr>"
    by (auto simp: relink_def run_db Let_def ticked_def split: if_splits)
  also have "?rows = map (\<lambda>x. if au_ID x = au_ID a then linked J prev (n + 1) a else x) (w_audit w)"
    unfolding relink_row [OF assms(2,3)] by (simp add: linked_def)
  finally show thesis using that rest by simp
next
  case False
  then have "linked J prev (n + 1) a = a" by (simp add: linked_def read_audit_def)
  then have "map (\<lambda>x. if au_ID x = au_ID a then linked J prev (n + 1) a else x) (w_audit w) = w_audit w"
    using assms(2,3) by (auto simp: distinct_map intro!: map_idI dest: inj_onD)
  then have same: "w\<lparr>w_audit := map (\<lambda>x. if au_ID x = au_ID a then linked J prev (n + 1) a else x) (w_audit w), w_tick := w_tick w\<rparr> = w" by simp
  have "run_state (backfill_rows prev n (read_audit J a # items)) w =
      run_state (backfill_rows (au_RowHash (linked J prev (n + 1) a)) (n + 1) items) w"
    using False by (simp add: Let_def linked_def)
  with assms(1) show thesis by (intro that [of "w_tick w"]) (simp only: same)
qed

lemma backfill_rows_run:
  assumes "run_state (backfill_rows prev n (map (read_audit J) as)) w = (Inr x, w')"
    and "distinct (map au_ID (w_audit w))" "set as \<subseteq> set (w_audit w)" "distinct (map au_ID as)"
  shows "\<exists>k. w' = w\<lparr>w_audit := replace_rows (relinked J prev n as) (w_audit w), w_tick := k\<rparr>"
  using assms
proof (induction as arbitrary: w prev n)
  case Nil
  then have "w' = w\<lparr>w_audit := replace_rows [] (w_audit w), w_tick := w_tick w\<rparr>" by (simp add: replace_rows_def)
  then show ?case unfolding relinked.simps by (rule exI)
next
  case (Cons a as)
  let ?b = "linked J prev (n + 1) a"
  let ?as1 = "map (\<lambda>x. if au_ID x = au_ID a then ?b else x) (w_audit w)"
  have a: "a \<in> set (w_audit w)" using Cons.prems(3) by simp
  obtain k where k: "run_state (backfill_rows (au_RowHash ?b) (n + 1) (map (read_audit J) as)) (w\<lparr>w_audit := ?as1, w_tick := k\<rparr>) = (Inr x, w')"
    by (rule backfill_step [OF Cons.prems(1) [unfolded list.map] Cons.prems(2) a])
  have ids: "map au_ID ?as1 = map au_ID (w_audit w)" by simp
  have sub: "set as \<subseteq> set ?as1" using Cons.prems(3,4) by (force simp: image_iff)
  have fresh: "find (\<lambda>b. au_ID b = au_ID a) (relinked J (au_RowHash ?b) (n + 1) as) = None"
    using Cons.prems(4) by (auto simp: find_None_iff) (metis image_eqI relinked_ids set_map)
  have rows: "replace_rows (relinked J (au_RowHash ?b) (n + 1) as) ?as1 = replace_rows (relinked J prev n (a # as)) (w_audit w)"
    using fresh by (auto simp: replace_rows_def)
  let ?w1 = "w\<lparr>w_audit := ?as1, w_tick := k\<rparr>"
  have w1: "w_audit ?w1 = ?as1" "distinct (map au_ID as)" using Cons.prems(4) by simp_all
  have dist: "distinct (map au_ID (w_audit ?w1))" using Cons.prems(2) by (simp only: w1 ids)
  have "\<exists>k'. w' = ?w1\<lparr>w_audit := replace_rows (relinked J (au_RowHash ?b) (n + 1) as) (w_audit ?w1), w_tick := k'\<rparr>"
    by (rule Cons.IH [OF k dist _ w1(2)]) (simp only: w1 sub)
  then show ?case unfolding w1 rows by simp
qed

definition replacement :: "audit_row list \<Rightarrow> audit_row \<Rightarrow> audit_row" where
  "replacement bs a = (case find (\<lambda>b. au_ID b = au_ID a) bs of None \<Rightarrow> a | Some b \<Rightarrow> b)"

lemma replace_rows_map: "replace_rows bs as = map (replacement bs) as"
  by (simp add: replace_rows_def replacement_def)

lemma replacement_all:
  "map au_ID bs = map au_ID as \<Longrightarrow> distinct (map au_ID as) \<Longrightarrow> map (replacement bs) as = bs"
proof (induction as arbitrary: bs)
  case (Cons a as)
  then obtain b cs where bs: "bs = b # cs" "au_ID b = au_ID a" "map au_ID cs = map au_ID as" by auto
  have "replacement bs x = replacement cs x" if "x \<in> set as" for x
    using that Cons.prems(2) bs by (auto simp: replacement_def)
  then have "map (replacement bs) as = map (replacement cs) as" by simp
  also have "\<dots> = cs" using bs(3) Cons.prems(2) by (intro Cons.IH) simp_all
  finally have "map (replacement bs) as = cs" .
  moreover have "replacement bs a = b" using bs by (simp add: replacement_def)
  ultimately show ?case by (simp add: bs(1))
qed simp

lemma replacement_tenant:
  assumes "distinct (map au_ID X)" "set as \<subseteq> set X" "map au_ID bs = map au_ID as" "map au_TenantID bs = map au_TenantID as" "a \<in> set X"
  shows "au_ID (replacement bs a) = au_ID a" "au_TenantID (replacement bs a) = au_TenantID a"
    "a \<notin> set as \<Longrightarrow> replacement bs a = a"
proof -
  have "au_ID (replacement bs a) = au_ID a \<and> au_TenantID (replacement bs a) = au_TenantID a \<and> (a \<notin> set as \<longrightarrow> replacement bs a = a)"
  proof (cases "find (\<lambda>b. au_ID b = au_ID a) bs")
    case (Some b)
    from find_SomeD [OF Some] have b: "b \<in> set bs" "au_ID b = au_ID a" by simp_all
    then obtain i where i: "i < length bs" "b = bs ! i" by (auto simp: in_set_conv_nth)
    have len: "length as = length bs" using arg_cong [OF assms(3), of length] by simp
    have nth: "map f bs = map f as \<Longrightarrow> f b = f (as ! i)" for f :: "audit_row \<Rightarrow> string"
      using i len by (metis nth_map)
    have x: "as ! i \<in> set as" "as ! i \<in> set X" using assms(2) i len by auto
    have "inj_on au_ID (set X)" using assms(1) by (simp add: distinct_map)
    moreover have "au_ID (as ! i) = au_ID a" using nth [OF assms(3)] b(2) by simp
    ultimately have "as ! i = a" using x(2) assms(5) by (rule inj_onD)
    moreover have "replacement bs a = b" by (simp add: replacement_def Some)
    ultimately show ?thesis using b(2) x(1) nth [OF assms(4)] by simp
  qed (simp add: replacement_def)
  then show "au_ID (replacement bs a) = au_ID a" "au_TenantID (replacement bs a) = au_TenantID a"
    "a \<notin> set as \<Longrightarrow> replacement bs a = a" by simp_all
qed

lemma filter_replace:
  assumes "distinct (map au_ID X)" "set as \<subseteq> set X" "map au_ID bs = map au_ID as" "map au_TenantID bs = map au_TenantID as"
  shows "filter (\<lambda>a. au_TenantID a = t) (replace_rows bs X) = map (replacement bs) (filter (\<lambda>a. au_TenantID a = t) X)"
proof -
  have "filter (\<lambda>a. au_TenantID a = t) (map (replacement bs) Y) = map (replacement bs) (filter (\<lambda>a. au_TenantID a = t) Y)"
    if "set Y \<subseteq> set X" for Y
    using that replacement_tenant(2) [OF assms] by (induction Y) auto
  then show ?thesis by (simp add: replace_rows_map)
qed

lemma sort_key_unique:
  fixes f :: "'a \<Rightarrow> int"
  assumes "mset xs = mset ys" and "sorted (map f ys)" and "distinct (map f ys)"
  shows "sort_key f xs = ys"
proof (rule map_inj_on [of f])
  have "mset (map f (sort_key f xs)) = mset (map f ys)" using assms(1) by simp
  with assms(2) show "map f (sort_key f xs) = map f ys"
    by (metis properties_for_sort sorted_sort_key)
  show "inj_on f (set (sort_key f xs) \<union> set ys)"
    using assms(3) mset_eq_setD [OF assms(1)] by (simp add: distinct_map)
qed

lemma backfill_tenant:
  fixes w :: world and t :: string
  defines "as \<equiv> sort_key (\<lambda>a. (au_OccurredAt a, au_ID a)) (tenant_audit w t)"
  assumes X: "distinct (map au_ID (w_audit w))" and w': "w_audit w' = replace_rows (relinked (w_jsonb_text w) [] 0 as) (w_audit w)"
    and J: "w_jsonb_text w' = w_jsonb_text w"
  shows "av_Intact (verifyAuditRows (chain_rows w' t))" "s \<noteq> t \<Longrightarrow> chain_rows w' s = chain_rows w s"
    "distinct (map au_ID (w_audit w'))"
proof -
  let ?bs = "relinked (w_jsonb_text w) [] 0 as"
  have sub: "set as \<subseteq> set (w_audit w)" by (auto simp: as_def tenant_audit_def)
  have ms: "mset as = mset (tenant_audit w t)" by (simp add: as_def)
  have da: "distinct (map au_ID as)"
  proof -
    have "distinct (map au_ID (tenant_audit w t))" using X unfolding tenant_audit_def by (rule distinct_map_filter)
    then show ?thesis by (metis ms mset_eq_imp_distinct_iff mset_map)
  qed
  note rep = replacement_tenant [OF X sub relinked_ids relinked_tenants]
  have ten: "tenant_audit w' s = map (replacement ?bs) (tenant_audit w s)" for s
    unfolding tenant_audit_def w' by (rule filter_replace [OF X sub relinked_ids relinked_tenants])
  have "mset (tenant_audit w' t) = mset (map (replacement ?bs) as)" by (simp add: ten ms)
  also have "\<dots> = mset ?bs" using replacement_all [OF relinked_ids da] by simp
  finally have "sort_key au_Seq (tenant_audit w' t) = ?bs"
    by (rule sort_key_unique) (simp_all add: relinked_seqs sorted_map distinct_map inj_on_def sorted_wrt_upt
        sorted_wrt_mono_rel [OF _ sorted_wrt_upt])
  then show "av_Intact (verifyAuditRows (chain_rows w' t))" by (simp add: chain_rows_def J verifyAuditRows_def relinked_intact)
  show "chain_rows w' s = chain_rows w s" if "s \<noteq> t"
  proof -
    have "replacement ?bs a = a" if a: "a \<in> set (tenant_audit w s)" for a
    proof (rule rep(3))
      show "a \<in> set (w_audit w)" using a by (simp add: tenant_audit_def)
      show "a \<notin> set as" using a \<open>s \<noteq> t\<close> by (auto simp: as_def tenant_audit_def)
    qed
    then have "tenant_audit w' s = tenant_audit w s" by (simp add: ten map_idI)
    then show ?thesis by (simp add: chain_rows_def J)
  qed
  have "map au_ID (w_audit w') = map au_ID (w_audit w)" using rep(1) by (simp add: w' replace_rows_map)
  with X show "distinct (map au_ID (w_audit w'))" by simp
qed

lemma backfill_tenants_run:
  assumes "run_state (backfill_tenants ts) w = (Inr x, w')" "distinct (map au_ID (w_audit w))" "distinct ts"
  shows "(\<forall>t \<in> set ts. av_Intact (verifyAuditRows (chain_rows w' t))) \<and> (\<forall>s. s \<notin> set ts \<longrightarrow> chain_rows w' s = chain_rows w s)"
  using assms
proof (induction ts arbitrary: w)
  case (Cons t ts)
  let ?as = "sort_key (\<lambda>a. (au_OccurredAt a, au_ID a)) (tenant_audit w t)"
  have tw: "tenant_audit (ticked w) t = tenant_audit w t" by (simp add: tenant_audit_def)
  have sub: "set ?as \<subseteq> set (w_audit (ticked w))" by (auto simp: tenant_audit_def)
  have "distinct (map au_ID (tenant_audit w t))" using Cons.prems(2) unfolding tenant_audit_def by (rule distinct_map_filter)
  then have da: "distinct (map au_ID ?as)" by (metis mset_eq_imp_distinct_iff mset_map mset_sort)
  from Cons.prems(1) obtain y w1 where r: "run_state (backfill_rows [] 0 (map (read_audit (w_jsonb_text w)) ?as)) (ticked w) = (Inr y, w1)"
    and rest: "run_state (backfill_tenants ts) w1 = (Inr x, w')"
    by (auto simp: run_attempt run_query tw split: if_splits prod.splits sum.splits)
  from backfill_rows_run [OF r _ sub da] Cons.prems(2)
  have w1: "w_audit w1 = replace_rows (relinked (w_jsonb_text w) [] 0 ?as) (w_audit w)" "w_jsonb_text w1 = w_jsonb_text w" by auto
  note t = backfill_tenant [OF Cons.prems(2) w1]
  have "distinct ts" "t \<notin> set ts" using Cons.prems(3) by simp_all
  with Cons.IH [OF rest t(3)] t(1,2) show ?case by simp
qed simp

lemma BackfillAuditChain_launders:
  assumes "distinct (map au_ID (w_audit w))" "run_state BackfillAuditChain w = (Inr x, w')"
  shows "av_Intact (verifyAuditRows (chain_rows w' t))"
proof -
  let ?ts = "remdups (map au_TenantID (w_audit w))"
  from assms(2) have "run_state (backfill_tenants ?ts) (ticked w) = (Inr x, w')"
    by (auto simp: BackfillAuditChain_def run_attempt run_query split: if_splits)
  from backfill_tenants_run [OF this] assms(1)
  have settled: "\<forall>t \<in> set ?ts. av_Intact (verifyAuditRows (chain_rows w' t))" "\<forall>s. s \<notin> set ?ts \<longrightarrow> chain_rows w' s = chain_rows (ticked w) s"
    by auto
  have "chain_rows (ticked w) t = []" if "t \<notin> set ?ts"
  proof -
    have "tenant_audit (ticked w) t = []" using that by (auto simp: tenant_audit_def filter_empty_conv)
    then show ?thesis by (simp add: chain_rows_def)
  qed
  with settled show ?thesis by (cases "t \<in> set ?ts") (auto simp: verifyAuditRows_def)
qed

end
