(* ===== verification/Samples.thy ===== *)
theory Samples
  imports RuntimeFacts IdentityFacts AuditFacts
begin

text \<open>
  A small journey on which the properties are instantiated: an event entry, a delay, a wait for an
  event and an exit; one version of it, one run and its step, in a database whose calls all succeed.
\<close>

definition sample_entry :: JourneyGraph.node where
  "sample_entry = \<lparr>n_ID = ''a'', n_Type = ''entry'',
     n_Config = Some (JObj [(''trigger'', JStr ''event''), (''event_type'', JStr ''signup'')])\<rparr>"

definition sample_delay :: JourneyGraph.node where
  "sample_delay = \<lparr>n_ID = ''d'', n_Type = ''delay'', n_Config = Some (JObj [(''duration'', JStr ''1h'')])\<rparr>"

definition sample_exit :: JourneyGraph.node where
  "sample_exit = \<lparr>n_ID = ''z'', n_Type = ''exit'', n_Config = None\<rparr>"

definition sample_graph :: graph where
  "sample_graph = \<lparr>g_EntryNodeID = ''a'', g_Nodes = [sample_entry, sample_delay, sample_exit],
     g_Edges = [\<lparr>e_From = ''a'', e_To = ''d'', e_Branch = []\<rparr>, \<lparr>e_From = ''d'', e_To = ''z'', e_Branch = []\<rparr>]\<rparr>"

definition sample_json :: json where
  "sample_json = JObj [(''entry_node_id'', JStr ''a''),
     (''nodes'', JArr [
        JObj [(''id'', JStr ''a''), (''type'', JStr ''entry''),
              (''config'', JObj [(''trigger'', JStr ''event''), (''event_type'', JStr ''signup'')])],
        JObj [(''id'', JStr ''d''), (''type'', JStr ''delay''), (''config'', JObj [(''duration'', JStr ''1h'')])],
        JObj [(''id'', JStr ''z''), (''type'', JStr ''exit'')]]),
     (''edges'', JArr [
        JObj [(''from'', JStr ''a''), (''to'', JStr ''d'')],
        JObj [(''from'', JStr ''d''), (''to'', JStr ''z'')]])]"

definition sample_version :: journey_version where
  "sample_version = \<lparr>jv_ID = ''v'', jv_JourneyID = ''j'', jv_TenantID = ''t'', jv_WorkspaceID = ''w'', jv_Version = 1,
     jv_Graph = Some sample_json, jv_ManifestKey = None, jv_EntryKind = ''event'', jv_EntryEventType = Some ''signup'',
     jv_EntrySegmentID = None, jv_EntrySchedule = None, jv_ReentryPolicy = ''once'', jv_MaxReentries = 0,
     jv_LatePolicy = ''run'', jv_ConversionGoal = None, jv_AttributionWindow = None, jv_Status = ''active'',
     jv_PublishedBy = None, jv_PublishedAt = 0\<rparr>"

definition sample_run :: journey_run where
  "sample_run = \<lparr>jr_ID = ''r'', jr_TenantID = ''t'', jr_WorkspaceID = ''w'', jr_JourneyID = ''j'', jr_JourneyVersionID = ''v'',
     jr_ProfileID = ''p'', jr_SubjectExternalID = Some ''x'', jr_EntryKey = ''e'', jr_ReentrySequence = 0,
     jr_Status = ''active'', jr_CurrentNodeID = ''a'', jr_State = empty_obj, jr_WaitEventType = None, jr_WaitUntil = None,
     jr_GoalReached = False, jr_EnteredAt = 0, jr_UpdatedAt = 0, jr_CompletedAt = None\<rparr>"

definition sample_step :: journey_step where
  "sample_step = (mk_step ''r'' ''t'' ''a'' ''advance'' 0)\<lparr>js_ID := ''s''\<rparr>"

text \<open>The n-th identifier is a word of that length; no call fails; the audience queries select nothing.\<close>

definition empty_world :: world where
  "empty_world = \<lparr>w_now = 0, w_tick = 0, w_fault = (\<lambda>_. False), w_uuid = (\<lambda>n. replicate n (CHR ''u'')), w_seq = 0,
     w_sql = (\<lambda>_ _. []), w_ch = Some (\<lambda>_ _. []), w_order = (\<lambda>ks. ks),
     w_is_uuid = (\<lambda>_. False), w_jsonb_text = marshal_json, w_before = (\<lambda>t _. t), w_blobs = True, w_calls = [], w_journeys = [], w_versions = [],
     w_runs = [], w_steps = [], w_transitions = [], w_intents = [], w_profiles = [], w_apps = [], w_events = [], w_jobs = [],
     w_outbox = [], w_pipelines = [], w_connectors = [], w_opjobs = [], w_windows = [], w_audit = [], w_experiments = [],
     w_variants = [], w_assignments = [], w_flags = [], w_segments = [], w_members = [], w_tokens = [], w_templates = [],
     w_identities = [], w_suppressions = [], w_consents = [], w_attempts = [], w_quotas = [], w_checkers = [],
     w_namespaces = [], w_aliases = [], w_merges = [], w_snapshots = [], w_companies = [], w_company_members = [], w_inapp = [],
     w_exposures = [], w_engagements = [], w_conversions = [], w_campaigns = [], w_delivery_jobs = [], w_manifests = [], w_stage_rules = [], w_privacy = [], w_objects = [], w_published = [], w_dir = empty_directory\<rparr>"

definition sample_world :: world where
  "sample_world = empty_world\<lparr>w_versions := [sample_version], w_runs := [sample_run], w_steps := [sample_step]\<rparr>"

lemma sample_healthy: "healthy sample_world" "healthy empty_world"
  by (simp_all add: healthy_def sample_world_def empty_world_def)

lemma sample_inv: "journey_inv sample_world" "journey_inv empty_world"
  by (simp_all add: journey_inv_def sample_world_def empty_world_def one_live_def events_unique_def)

lemma sample_wf: "graph_wf sample_graph"
proof -
  have "Validate (Some sample_graph) = Inr ()" by code_simp
  then show ?thesis by (simp add: Validate_iff)
qed

lemma sample_parse: "ParseGraph (Some sample_json) = Inr sample_graph"
  by code_simp

lemmas claim_eval = ClaimJourneyStep_def run_attempt run_exec transact_def run_db poison_steps_def claim_step_def
  claimable_step_def step_matches_run_def version_active_def step_due_def with_steps_def one_live_def live_def
  sample_world_def empty_world_def sample_step_def sample_run_def sample_version_def mk_step_def ticked_def
  taken_step_def Let_def

lemma sample_claim:
  "run_state ClaimJourneyStep sample_world =
   (Inr (Some (taken_step 0 sample_step)),
    sample_world\<lparr>w_tick := 2, w_steps := [taken_step 0 sample_step]\<rparr>)"
  by (simp add: claim_eval)

text \<open>Two due steps: the first claim takes one, the second the other.\<close>

definition other_step :: journey_step where
  "other_step = (mk_step ''q'' ''t'' ''a'' ''advance'' 0)\<lparr>js_ID := ''y''\<rparr>"

definition two_steps :: world where
  "two_steps = sample_world\<lparr>w_runs := [sample_run, sample_run\<lparr>jr_ID := ''q''\<rparr>], w_steps := [sample_step, other_step]\<rparr>"

definition two_steps_claimed :: world where
  "two_steps_claimed = two_steps\<lparr>w_tick := 2, w_steps := [taken_step 0 sample_step, other_step]\<rparr>"

lemma two_claims:
  "run_state ClaimJourneyStep two_steps = (Inr (Some (taken_step 0 sample_step)), two_steps_claimed)"
  "run_state ClaimJourneyStep two_steps_claimed =
   (Inr (Some (taken_step 0 other_step)),
    two_steps_claimed\<lparr>w_tick := 4, w_steps := [taken_step 0 sample_step, taken_step 0 other_step]\<rparr>)"
  by (simp_all add: claim_eval two_steps_def two_steps_claimed_def other_step_def expired_def lease_def duration_defs)

section \<open>A message, a profile, an event and a draft\<close>

definition sample_profile :: profile where
  "sample_profile = \<lparr>pf_ID = ''p'', pf_ExternalID = ''x'', pf_AnonymousID = [], pf_Attributes = empty_obj, pf_Version = 1,
     pf_UpdatedAt = 0\<rparr>"

definition sample_template :: template where
  "sample_template = \<lparr>te_ID = ''tpl'', te_TenantID = ''t'', te_WorkspaceID = ''w'', te_Name = ''n'', te_Channel = ''email'',
     te_SubjectTemplate = None, te_HTMLTemplate = None, te_TextTemplate = None, te_BodyTemplate = None,
     te_TitleTemplate = None, te_PushData = [], te_SendingIdentityID = None, te_Version = 1, te_CreatedAt = 0, te_UpdatedAt = 0\<rparr>"

definition sample_intent :: message_intent where
  "sample_intent = (mk_intent sample_delay sample_run
     \<lparr>mc_TemplateID = ''tpl'', mc_ExperimentID = [], mc_Channel = ''email'', mc_Transactional = False\<rparr>
     ''tpl'' None [] ''email'' 0 ''e'')\<lparr>mi_ID := ''i''\<rparr>"

definition sample_event :: accepted_event where
  "sample_event = \<lparr>ae_ID = ''ev'', ae_Principal = tenant_principal ''t'' ''w'', ae_Type = ''signup'', ae_SchemaVersion = 1,
     ae_ExternalID = ''x'', ae_AnonymousID = [], ae_IdempotencyKey = ''k'', ae_OccurredAt = 0, ae_ReceivedAt = 0,
     ae_Source = ''api'', ae_SourceEventID = [], ae_CorrelationID = [], ae_CausationID = [], ae_Traceparent = [],
     ae_DataClassification = ''internal'', ae_ConsentContext = empty_obj, ae_Payload = empty_obj\<rparr>"

definition sample_user :: principal where
  "sample_user = (tenant_principal ''t'' ''w'')\<lparr>p_UserID := ''u'', p_ActorType := ''user''\<rparr>"

definition sample_env :: publish_env where
  "sample_env = \<lparr>pv_marshal = (\<lambda>_. []), pv_interval = Some, pv_uuid = (\<lambda>_. True)\<rparr>"

definition sample_draft :: journey where
  "sample_draft = \<lparr>jo_ID = ''j'', jo_TenantID = ''t'', jo_WorkspaceID = ''w'', jo_Name = ''n'',
     jo_Description = None, jo_Status = ''draft'', jo_Graph = Some sample_json, jo_LatestVersion = 1, jo_CurrentVersionID = None,
     jo_CreatedAt = 0, jo_UpdatedAt = 0\<rparr>"

definition sample_draft_world :: world where
  "sample_draft_world = sample_world\<lparr>w_journeys := [sample_draft]\<rparr>"

lemma sample_publication:
  obtains v w' where "run_state (PublishJourney sample_env sample_user ''j'' ''u'' ''k'') sample_draft_world = (Inr v, w')"
    "jv_Graph v = Some sample_json"
proof -
  let ?w = "ticked (ticked sample_draft_world)"
  have h: "healthy sample_draft_world" using sample_healthy(1) by (simp add: healthy_def sample_draft_world_def)
  have c: "run_state (CheckMakerChecker sample_user ''journeys'' ''j'' []) sample_draft_world = (Inr (), ticked sample_draft_world)"
    by (simp add: CheckMakerChecker_def GetMakerCheckerPolicy_def run_attempt run_query sample_user_def tenant_principal_def
        sample_draft_world_def sample_world_def empty_world_def ticked_def)
  have f: "find (journey_in sample_user ''j'') (w_journeys sample_draft_world) = Some sample_draft"
    by (simp add: journey_in_def sample_user_def tenant_principal_def sample_draft_world_def sample_draft_def)
  have d: "jo_Graph sample_draft = Some sample_json" by (simp add: sample_draft_def)
  have v: "Validate (Some sample_graph) = Inr ()" by (simp add: Validate_iff sample_wf)
  have m: "\<not> str_contains ''/manifests/'' ''k''" by code_simp
  have g: "publishConversionGoal sample_graph = Inr (None, [])" by code_simp
  define entry where "entry = \<lparr>pe_EntryKind = ''event'', pe_EventType = ''signup'', pe_SegmentID = [], pe_Schedule = [],
    pe_ReentryPolicy = ''once'', pe_MaxReentries = 0, pe_LatePolicy = ''run''\<rparr>"
  have e: "publishEntryConfig sample_graph = Inr entry" unfolding entry_def by code_simp
  let ?v = "new_version ?w sample_draft entry None None ''u'' ''k''"
  have ok: "version_ok sample_env ?w ?v"
    by (simp add: version_ok_def new_version_def nullif_def entry_def sample_env_def sample_draft_def sample_draft_world_def
        sample_world_def sample_version_def)
  have t: "\<exists>w'. publish_tx sample_env sample_user ''j'' ''u'' ''k'' ?w = Inr (?v, w')"
    by (simp add: publish_tx_def f d sample_parse v m e g publish_writes_def ok del: str_contains.simps)
  then obtain w' where "publish_tx sample_env sample_user ''j'' ''u'' ''k'' ?w = Inr (?v, w')" ..
  then have "run_state (PublishJourney sample_env sample_user ''j'' ''u'' ''k'') sample_draft_world = (Inr ?v, w')"
    by (simp add: PublishJourney_def run_attempt c transact_def run_db h)
  then show ?thesis by (rule that) (simp add: new_version_def d)
qed

section \<open>An experiment, a flag, a tenant with quotas\<close>

definition sample_audit :: audit_row where
  "sample_audit = \<lparr>au_ID = ''a1'', au_TenantID = ''t'', au_WorkspaceID = ''w'', au_AppID = [], au_ActorType = ''user'',
     au_ActorID = ''ann'', au_Action = ''journey.create'', au_ResourceType = ''journey'', au_ResourceID = ''j'',
     au_Metadata = JObj [], au_OccurredAt = 0, au_Seq = 1, au_PrevHash = [], au_RowHash = []\<rparr>"

definition sample_experiment :: experiment_rec where
  "sample_experiment = \<lparr>ex_ID = ''e'', ex_TenantID = ''t'', ex_WorkspaceID = ''w'', ex_Name = ''n'', ex_Description = None,
     ex_SubjectType = ''message'', ex_Status = ''running'', ex_Method = ''ab'', ex_Seed = ''s'', ex_HoldoutPct = 0, ex_PrimaryGoal = None,
     ex_GuardrailGoals = None, ex_WinnerVariant = None, ex_CreatedAt = 0, ex_UpdatedAt = 0\<rparr>"

definition sample_experiment_world :: world where
  "sample_experiment_world = sample_world\<lparr>w_experiments := [sample_experiment]\<rparr>"

definition sample_flag :: feature_flag where
  "sample_flag = \<lparr>ff_ID = ''f'', ff_TenantID = ''t'', ff_WorkspaceID = ''w'', ff_AppID = ''app'', ff_Environment = ''production'',
     ff_Key = ''k'', ff_Name = None, ff_Description = None, ff_FlagType = ''string'', ff_DefaultValue = Some JNull,
     ff_Variants = [\<lparr>fv_Label = ''a'', fv_Value = Some (JInt 1), fv_Weight = 1\<rparr>, \<lparr>fv_Label = ''b'', fv_Value = Some (JInt 2), fv_Weight = 1\<rparr>],
     ff_TargetingRules = [\<lparr>fr_DSL = None, fr_Variant = ''a''\<rparr>, \<lparr>fr_DSL = empty_obj, fr_Variant = ''b''\<rparr>],
     ff_RolloutPct = 50, ff_Seed = ''s'', ff_Enabled = True, ff_Status = ''published'', ff_CurrentVersionID = None,
     ff_CreatedAt = 0, ff_UpdatedAt = 0\<rparr>"

definition sample_app :: principal where
  "sample_app = (tenant_principal ''t'' ''w'')\<lparr>p_AppID := ''app''\<rparr>"

definition sample_signup :: event where
  "sample_signup = mk_event ''signup'' ''x'' [] ''k'' 0 empty_obj"

definition sample_tenant_world :: world where
  "sample_tenant_world = sample_world\<lparr>
     w_apps := [\<lparr>ap_ID = ''app'', ap_TenantID = ''t'', ap_WorkspaceID = ''w''\<rparr>],
     w_quotas := [\<lparr>tq_TenantID = ''t'', tq_MaxBatchSize = 10, tq_EventsPerMinute = 100, tq_MaxSends24h = 5, tq_MaxSends7d = 20,
       tq_QuietHoursStart = None, tq_QuietHoursEnd = None, tq_DefaultTimezone = ''UTC'', tq_RetentionDays = 396\<rparr>]\<rparr>"

lemma sample_tenant_tables [simp]:
  "w_fault sample_tenant_world n = False" "w_events sample_tenant_world = []" "w_pipelines sample_tenant_world = []"
  "w_windows sample_tenant_world = []" "w_now sample_tenant_world = 0"
  "w_apps sample_tenant_world = [\<lparr>ap_ID = ''app'', ap_TenantID = ''t'', ap_WorkspaceID = ''w''\<rparr>]"
  "w_quotas sample_tenant_world = [\<lparr>tq_TenantID = ''t'', tq_MaxBatchSize = 10, tq_EventsPerMinute = 100, tq_MaxSends24h = 5,
     tq_MaxSends7d = 20, tq_QuietHoursStart = None, tq_QuietHoursEnd = None, tq_DefaultTimezone = ''UTC'', tq_RetentionDays = 396\<rparr>]"
  by (simp_all add: sample_tenant_world_def sample_world_def empty_world_def)

lemma sample_acceptance:
  obtains ids w1 where "run_state (AcceptEvents sample_app [sample_signup]) sample_tenant_world = (Inr ids, w1)"
proof -
  have frame: "w_windows (add_job p e i w) = w_windows w" "w_windows (add_outbox p e tp i w) = w_windows w"
    "w_windows (add_connector_jobs p e i w) = w_windows w" "w_now (add_job p e i w) = w_now w"
    "w_now (add_outbox p e tp i w) = w_now w" "w_now (add_connector_jobs p e i w) = w_now w"
    "w_pipelines (add_job p e i w) = w_pipelines w" "w_pipelines (add_outbox p e tp i w) = w_pipelines w" for p e i tp w
    by (simp_all add: add_job_def add_outbox_def add_connector_jobs_def Let_def)
  have "\<exists>ids w1. accept_tx sample_app [sample_signup] (ticked sample_tenant_world) = Inr (ids, w1)"
    by (simp add: accept_tx_def accept_one_def store_event_def row_valid_def normalized_event_def sample_app_def sample_signup_def
        tenant_principal_def mk_event_def count_window_def Let_def exports_def or_empty_obj_def window_key_def frame)
  then show thesis by (auto simp: AcceptEvents_def run_db intro: that)
qed

section \<open>Two profiles of one person, and the queue of projections\<close>

definition person :: "string \<Rightarrow> string option \<Rightarrow> profile_row" where
  "person i x = \<lparr>pr_TenantID = ''t'', pr_WorkspaceID = ''w'', pr_AppID = [], pr_ID = i, pr_External = x, pr_Anonymous = None,
     pr_Attributes = Some (JObj [(''email'', JStr ''a'')]), pr_Version = 1, pr_UpdatedAt = 0, pr_MergedInto = None\<rparr>"

definition known_as :: "string \<Rightarrow> string \<Rightarrow> string \<Rightarrow> alias_row" where
  "known_as n v i = \<lparr>al_TenantID = ''t'', al_AppID = [], al_Namespace = n, al_Value = v, al_ProfileID = i, al_SourceEventID = None\<rparr>"

definition two_people :: world where
  "two_people = empty_world\<lparr>w_profiles := [person ''p'' (Some ''x''), person ''q'' (Some ''y'')],
     w_namespaces := [\<lparr>ns_TenantID = ''t'', ns_AppID = [], ns_Namespace = ''email'', ns_Priority = 1\<rparr>,
                      \<lparr>ns_TenantID = ''t'', ns_AppID = [], ns_Namespace = ''user_id'', ns_Priority = 2\<rparr>],
     w_aliases := [known_as ''email'' ''a'' ''q'', known_as ''user_id'' ''x'' ''p'']\<rparr>"

definition same_person :: accepted_event where
  "same_person = sample_event\<lparr>ae_Payload := Some (JObj [(''email'', JStr ''A'')])\<rparr>"

definition unsubscribed :: accepted_event where
  "unsubscribed = sample_event\<lparr>ae_Type := ''consent.changed'',
     ae_Payload := Some (JObj [(''channel'', JStr ''email''), (''state'', JStr ''unsubscribed'')])\<rparr>"

definition sample_job :: projection_job where
  "sample_job = \<lparr>pj_EventID = ''ev'', pj_TenantID = ''t'', pj_PartitionKey = ''x'', pj_Status = ''pending'', pj_Attempts = 0,
     pj_AvailableAt = 0, pj_LockedUntil = None, pj_LastError = None, pj_CompletedAt = None\<rparr>"

definition job_world :: world where
  "job_world = two_people\<lparr>w_events := [unsubscribed], w_jobs := [sample_job]\<rparr>"

lemma two_people_ok: "healthy two_people" "identity_inv two_people" "mergeable same_person ''p'' ''q'' two_people"
proof -
  show "healthy two_people" by (simp add: two_people_def empty_world_def healthy_def)
  show "identity_inv two_people" by code_simp
  show "mergeable same_person ''p'' ''q'' two_people" by code_simp
qed

lemma unsubscribed_settles:
  "case run_state (settle_profile unsubscribed) (ticked job_world) of
     (r, w1) \<Rightarrow> r = Inr ''p'' \<and> consent_endpoint ''email'' ''p'' w1 = ''a''"
  "Option.bind (payload_members unsubscribed) dec_consent =
     Some \<lparr>cs_Channel = ''email'', cs_Topic = ''marketing'', cs_State = ''unsubscribed'', cs_Evidence = None\<rparr>"
  by code_simp+

lemma two_people_runs:
  "fst (run_state (resolveIdentity same_person) two_people) = Inr ''q''"
  "fst (run_state (mergeProfiles same_person ''p'' ''q'') two_people) = Inr ()"
  "fst (run_state (ProjectEvent unsubscribed) job_world) = Inr ()"
  "fst (run_state ClaimProjectionJob job_world) = Inr (Some unsubscribed)"
  by code_simp+

section \<open>Audit trails\<close>

definition one_trail :: world where
  "one_trail = audit (tenant_principal ''t'' ''w'') ''a'' ''r'' ''i'' [] empty_world"

definition two_trails :: world where
  "two_trails = audit (tenant_principal ''u'' ''w'') ''a'' ''r'' ''i'' [] one_trail"

lemma empty_chain: "chain_rows empty_world t = []" "seqs_unique empty_world t"
  by (simp_all add: chain_rows_def seqs_unique_def tenant_audit_def empty_world_def)

lemma one_trail_rows:
  "chain_rows one_trail ''t'' = [read_back (tenant_principal ''t'' ''w'') ''a'' ''r'' ''i'' [] empty_world]"
  "chain_rows two_trails ''t'' = chain_rows one_trail ''t''"
proof -
  let ?p = "tenant_principal ''t'' ''w''"
  have "p_TenantID ?p = ''t''" by (simp add: tenant_principal_def)
  with chain_rows_audit [of empty_world ?p] empty_chain show "chain_rows one_trail ''t'' = [read_back ?p ''a'' ''r'' ''i'' [] empty_world]"
    by (simp add: one_trail_def)
  show "chain_rows two_trails ''t'' = chain_rows one_trail ''t''"
    by (simp add: two_trails_def chain_rows_def tenant_audit_audit tenant_principal_def)
qed

lemma one_trail_ok:
  "run_state (VerifyAuditChain (tenant_principal ''t'' ''w'')) one_trail = (Inr (verifyAuditRows (chain_rows one_trail ''t'')), ticked one_trail)"
  "run_state (VerifyAuditChain (tenant_principal ''t'' ''w'')) two_trails = (Inr (verifyAuditRows (chain_rows one_trail ''t'')), ticked two_trails)"
  "av_Intact (verifyAuditRows (chain_rows one_trail ''t''))" "chain_rows one_trail ''t'' \<noteq> []"
  "chain_rows two_trails ''t'' = chain_rows one_trail ''t''" "p_TenantID (tenant_principal ''t'' ''w'') = ''t''"
  "list_all clean_row (chain_rows one_trail ''t'')" "inj_on sha256_hex (audit_text ` (set (chain_rows one_trail ''t'')))"
proof -
  let ?p = "tenant_principal ''t'' ''w''"
  show t: "p_TenantID ?p = ''t''" by (simp add: tenant_principal_def)
  show "chain_rows two_trails ''t'' = chain_rows one_trail ''t''" "chain_rows one_trail ''t'' \<noteq> []" by (simp_all add: one_trail_rows)
  then show "run_state (VerifyAuditChain ?p) one_trail = (Inr (verifyAuditRows (chain_rows one_trail ''t'')), ticked one_trail)"
    "run_state (VerifyAuditChain ?p) two_trails = (Inr (verifyAuditRows (chain_rows one_trail ''t'')), ticked two_trails)"
    by (simp_all add: VerifyAuditChain_run t two_trails_def one_trail_def empty_world_def)
  have "new_audit ?p ''a'' ''r'' ''i'' [] empty_world = read_back ?p ''a'' ''r'' ''i'' [] empty_world"
    by (simp add: read_back_def new_audit_def Let_def stored_time_def empty_world_def split: prod.splits)
  with audit_intact_iff [of empty_world ?p] empty_chain show "av_Intact (verifyAuditRows (chain_rows one_trail ''t''))"
    by (simp add: one_trail_def t verifyAuditRows_def)
  show "inj_on sha256_hex (audit_text ` (set (chain_rows one_trail ''t'')))" by (simp add: one_trail_rows)
  show "list_all clean_row (chain_rows one_trail ''t'')"
    by (simp add: one_trail_rows clean_row_def read_back_def new_audit_def Let_def last_link_def tenant_audit_def empty_world_def
        tenant_principal_def new_id_def actorType_def actorID_def pipe_free_def)
qed

text \<open>A trail in which somebody has changed the hash of the only row's predecessor.\<close>

definition forged_trail :: world where
  "forged_trail = empty_world\<lparr>w_audit := [\<lparr>au_ID = ''i'', au_TenantID = ''t'', au_WorkspaceID = ''w'', au_AppID = [],
     au_ActorType = ''user'', au_ActorID = ''m'', au_Action = ''a'', au_ResourceType = ''r'', au_ResourceID = ''x'',
     au_Metadata = JObj [], au_OccurredAt = 0, au_Seq = 1, au_PrevHash = ''forged'', au_RowHash = ''forged''\<rparr>]\<rparr>"

lemma forged_trail_ok:
  "fst (run_state BackfillAuditChain forged_trail) = Inr ()" "distinct (map au_ID (w_audit forged_trail))"
  "\<not> av_Intact (verifyAuditRows (chain_rows forged_trail ''t''))"
  by (simp_all add: forged_trail_def empty_world_def BackfillAuditChain_def run_attempt run_query run_db relink_def upd_rows_def
      seqs_ok_def ticked_def Let_def chain_rows_def tenant_audit_def verifyAuditRows_def read_audit_def tampered_def)

end
