(* ===== verification/DeliverFacts.thy ===== *)
theory DeliverFacts
  imports Engine
begin

text \<open>
  What \<^verbatim>\<open>DeliverNext\<close> hands to a provider. A delivery calls a channel adapter at most once, and only
  with a message to the endpoint of the claimed intent, under its idempotency key, when the intent
  has no final decision, the provider has not taken it before, the recipient is eligible and, if the
  database answers, quiet hours are over. A world records the messages handed to adapters in
  \<open>w_calls\<close>; the statements compare that record before and after.
\<close>

section \<open>Programs that hand nothing over\<close>

definition silent :: "world \<Rightarrow> world \<Rightarrow> bool" where
  "silent w w' \<longleftrightarrow> w_calls w' = w_calls w"

interpretation hush: store_evolution silent
  by unfold_locales (simp_all add: silent_def)

lemma silent_reads: "state_io_rel read_only m \<Longrightarrow> state_io_rel silent m"
  by (erule state_io_rel_mono) (auto simp: read_only_def silent_def)

lemma silent_tick: "state_io_rel silent (State (\<lambda>w. (f w, ticked w)))"
  by (simp add: state_io_rel_def silent_def)

lemma silent_writes:
  "state_io_rel silent (UpdateJourneyMessageIntent i)"
  "state_io_rel silent (RetireDeviceToken t a tok)"
  "state_io_rel silent (ClaimJourneyMessageIntent worker)"
  "state_io_rel silent (AcceptEvents p es)"
proof -
  show "state_io_rel silent (UpdateJourneyMessageIntent i)" "state_io_rel silent (RetireDeviceToken t a tok)"
    unfolding UpdateJourneyMessageIntent_def RetireDeviceToken_def by (rule hush.evolve_exec, simp add: silent_def)+
  show "state_io_rel silent (ClaimJourneyMessageIntent worker)"
    unfolding ClaimJourneyMessageIntent_def by (rule hush.evolve_db) (simp add: silent_def split: option.splits)
  show "state_io_rel silent (AcceptEvents p es)"
    unfolding AcceptEvents_def
    by (rule hush.evolve_db) (use frame_AcceptEvents in \<open>simp add: engine_frame_def untouched_def silent_def\<close>)
qed

lemma silent_finish:
  "state_io_rel silent (save_and_return i)" "state_io_rel silent (deliver_failed i d m)"
  "state_io_rel silent (deliver_completed i d m)" "state_io_rel silent (recover_panic i m)"
  "state_io_rel silent (reschedule_quiet i t)"
  unfolding deliver_failed_def deliver_completed_def save_and_return_def done_ok_def recover_panic_def reschedule_quiet_def Let_def
  by (intro hush.store_rules silent_writes)+

lemma silent_send_error: "state_io_rel silent (send_error i e)"
  unfolding send_error_def GetFirstAppID_def Let_def by (intro hush.store_rules silent_writes silent_finish)

lemma silent_emit: "state_io_rel silent (emit_sent p i f)"
  unfolding emit_sent_def requeue_sent_def done_ok_def Let_def by (intro hush.store_rules silent_writes)

lemma read_only_delivery_verdict: "state_io_rel read_only (delivery_verdict p i tpl f c)"
  unfolding delivery_verdict_def transactional_verdict_def IsSuppressed_def
  by (intro ro.store_rules read_only_Evaluate)

section \<open>At most one message\<close>

text \<open>From \<open>w\<close>, the program hands over nothing, or one message that satisfies \<open>P\<close>.\<close>

definition sends_at :: "(rendered_message \<Rightarrow> bool) \<Rightarrow> 'a prog \<Rightarrow> world \<Rightarrow> bool" where
  "sends_at P m w \<longleftrightarrow>
     w_calls (after w m) = w_calls w \<or> (\<exists>msg. w_calls (after w m) = w_calls w @ [msg] \<and> P msg)"

lemma sends_silent: "state_io_rel silent m \<Longrightarrow> sends_at P m w"
  by (simp add: sends_at_def state_io_rel_def silent_def)

lemmas sends_finish = silent_finish [THEN sends_silent] silent_emit [THEN sends_silent]

lemma sends_bind:
  assumes "state_io_rel silent m" and "\<And>x w'. run_state m w = (x, w') \<Longrightarrow> sends_at P (k x) w'"
  shows "sends_at P (State_Monad.bind m k) w"
proof -
  obtain x w' where m: "run_state m w = (x, w')" by (cases "run_state m w")
  from state_io_relD [OF assms(1) m] have "w_calls w' = w_calls w" by (simp add: silent_def)
  with assms(2) [OF m] m show ?thesis by (simp add: sends_at_def)
qed

lemma sends_attempt:
  assumes "state_io_rel silent m" and "\<And>e w'. run_state m w = (Inl e, w') \<Longrightarrow> sends_at P (h e) w'"
    and "\<And>x w'. run_state m w = (Inr x, w') \<Longrightarrow> sends_at P (k x) w'"
  shows "sends_at P (attempt m h k) w"
  unfolding attempt_def by (rule sends_bind) (auto split: sum.splits intro: assms)

lemma sends_if: "(b \<Longrightarrow> sends_at P p w) \<Longrightarrow> (\<not> b \<Longrightarrow> sends_at P q w) \<Longrightarrow> sends_at P (if b then p else q) w"
  by simp

lemma sends_and_emit: "P msg \<Longrightarrow> sends_at P (send_and_emit a p i f msg) w"
proof -
  assume P: "P msg"
  let ?k = "\<lambda>r. case r of Panicked m \<Rightarrow> recover_panic i m | Raised err \<Rightarrow> send_error i err
     | Returned (providerMsgID, costMicros) \<Rightarrow>
         (let sent = provider_sent i providerMsgID costMicros
          in attempt (UpdateJourneyMessageIntent sent) (\<lambda>err. ret (True, Some (ErrWrap ''persist provider_sent decision'' err)))
               (\<lambda>_. emit_sent p sent f))"
  have "state_io_rel silent (?k r)" for r
    by (auto split: outcome.splits prod.splits simp: Let_def
        intro!: hush.store_rules silent_writes silent_finish silent_send_error silent_emit)
  then have "w_calls (after w' (?k r)) = w_calls w'" for r w' by (simp add: state_io_rel_def silent_def)
  with P show ?thesis by (simp add: sends_at_def send_and_emit_def)
qed

lemma sends_part:
  assumes "\<And>x w'. read_only w w' \<Longrightarrow> sends_at P (k x) w'"
  shows "sends_at P (render_part cfg p i vars label tpl dflt k) w"
  unfolding render_part_def
proof (intro sends_if sends_bind silent_tick)
  show "sends_at P (k dflt) w" by (rule assms) simp
  fix r w' assume "run_state (State (\<lambda>w. (cf_Render cfg (w_tick w) p (the tpl) vars, ticked w))) w = (r, w')"
  then have "read_only w w'" by auto
  then show "sends_at P (case r of Returned txt \<Rightarrow> k txt
      | Raised err \<Rightarrow> deliver_completed i ''render_failed'' (label @ '' render error: '' @ error_text err)
      | Panicked m \<Rightarrow> recover_panic i m) w'"
    by (cases r) (auto intro: assms sends_silent silent_finish)
qed

lemma silent_tracking: "state_io_rel silent (add_tracking cfg subject html)"
  unfolding add_tracking_def Let_def by (intro hush.store_rules silent_tick)

lemma sends_message:
  assumes "\<And>msg w'. rm_Endpoint msg = mi_Endpoint i \<Longrightarrow> rm_Channel msg = te_Channel tpl \<Longrightarrow>
      rm_IdempotencyKey msg = sent_key i \<Longrightarrow> sends_at P (k msg) w'"
  shows "sends_at P (with_message cfg p i tpl f ident k) w"
  unfolding with_message_def Let_def
  by (intro sends_part sends_bind silent_tracking assms) (simp_all add: rendered_def)

section \<open>Who is sent to\<close>

text \<open>The caps a delivery applies: those of the tenant, or the defaults when they are unknown.\<close>

definition tenant_caps :: "world \<Rightarrow> string \<Rightarrow> int \<times> int \<Rightarrow> bool" where
  "tenant_caps w tenantID q \<longleftrightarrow>
     q = (5, 20) \<or> (\<exists>t. tenant_quota w tenantID = Some t \<and> q = (tq_MaxSends24h t, tq_MaxSends7d t))"

definition quiet_now :: "config_rec \<Rightarrow> world \<Rightarrow> message_intent \<Rightarrow> profile \<Rightarrow> bool" where
  "quiet_now cfg w i f \<longleftrightarrow> (\<exists>q t. tenant_quota w (mi_TenantID i) = Some q \<and>
     IsInQuietHours (cf_LoadLocation cfg) (w_now w) f (tq_QuietHoursStart q) (tq_QuietHoursEnd q) (tq_DefaultTimezone q) = Inr (True, t))"

definition undecided :: "message_intent \<Rightarrow> bool" where
  "undecided i \<longleftrightarrow> (\<forall>d. mi_Decision i = Some d \<longrightarrow> \<not> terminal_decision d \<and> d \<noteq> ''provider_sent'')"

definition permitted :: "config_rec \<Rightarrow> world \<Rightarrow> message_intent \<Rightarrow> rendered_message \<Rightarrow> bool" where
  "permitted cfg w i msg \<longleftrightarrow>
     rm_Endpoint msg = mi_Endpoint i \<and> rm_IdempotencyKey msg = sent_key i \<and> undecided i \<and>
     \<not> list_ex (suppresses (mi_TenantID i) (rm_Channel msg) (mi_Endpoint i)) (w_suppressions w) \<and>
     (mi_Transactional i \<or>
       (\<exists>r q. find (profile_at (mi_TenantID i) (mi_WorkspaceID i) (mi_ProfileID i)) (w_profiles w) = Some r \<and>
          tenant_caps w (mi_TenantID i) q \<and>
          eligible w (mi_TenantID i) (delivery_recipient i (pr_Profile r))
            \<lparr>cp_Channel = rm_Channel msg, cp_Topic = ''marketing'', cp_MaxSends24h = fst q, cp_MaxSends7d = snd q\<rparr> \<and>
          (healthy w \<longrightarrow> \<not> quiet_now cfg w i (pr_Profile r))))"

lemma verdict_sent:
  assumes "run_state (delivery_verdict p i tpl f c) w = (v, w')" and "vd_Decision v = ''sent''" and "cp_Channel c = te_Channel tpl"
  shows "\<not> list_ex (suppresses (p_TenantID p) (te_Channel tpl) (mi_Endpoint i)) (w_suppressions w) \<and>
    (mi_Transactional i \<or> eligible w (p_TenantID p) (delivery_recipient i f) c)"
proof (cases "mi_Transactional i")
  case True
  with assms show ?thesis
    by (auto simp: delivery_verdict_def transactional_verdict_def IsSuppressed_def run_attempt run_query split: if_splits)
next
  case False
  with assms(1) have "run_state (Policy.Evaluate p (delivery_recipient i f) c) w = (v, w')" by (simp add: delivery_verdict_def)
  from Evaluate_sent [OF this assms(2)] show ?thesis
    using assms(3) by (auto simp: eligible_def delivery_recipient_def)
qed

lemma eligible_read_only: "read_only w w' \<Longrightarrow> eligible w' t rcp c = eligible w t rcp c"
  by (auto simp: read_only_def eligible_def below_cap_def)

lemma read_only_tables:
  assumes "read_only w w'"
  shows "w_suppressions w' = w_suppressions w" "w_profiles w' = w_profiles w" "tenant_quota w' t = tenant_quota w t"
    "w_now w' = w_now w" "w_calls w' = w_calls w" "healthy w' = healthy w"
  using assms by (auto simp: read_only_def healthy_def)

lemma sends_quiet:
  assumes "p_TenantID p = mi_TenantID i"
    and "\<And>w'. read_only w w' \<Longrightarrow> (healthy w \<longrightarrow> mi_Transactional i \<or> \<not> quiet_now cfg w i f) \<Longrightarrow> sends_at P k w'"
  shows "sends_at P (with_quiet_hours cfg p i f k) w"
proof (cases "mi_Transactional i")
  case True
  then show ?thesis by (simp add: with_quiet_hours_def assms(2))
next
  case False
  have silent: "state_io_rel silent (GetTenantQuietHours p)" unfolding GetTenantQuietHours_def by (rule hush.evolve_query)
  have off: "sends_at P k w'" if "read_only w w'" "\<not> healthy w \<or> \<not> quiet_now cfg w i f" for w'
    using that by (intro assms(2)) auto
  let ?rest = "\<lambda>(start, stop, tz). if start = None \<or> stop = None then k
        else State_Monad.bind get_now (\<lambda>now.
          case IsInQuietHours (cf_LoadLocation cfg) now f start stop tz of
            Inl _ \<Rightarrow> k
          | Inr (inQuiet, nextOpen) \<Rightarrow> if inQuiet then reschedule_quiet i nextOpen else k)"
  have "sends_at P (attempt (GetTenantQuietHours p) (\<lambda>_. k) ?rest) w"
  proof (rule sends_attempt [OF silent])
    fix e w' assume "run_state (GetTenantQuietHours p) w = (Inl e, w')"
    then have "w' = ticked w" "w_fault w (w_tick w)"
      by (auto simp: GetTenantQuietHours_def run_query split: if_splits option.splits)
    then show "sends_at P k w'" by (intro off) (auto simp: healthy_def)
  next
    fix x w' assume x: "run_state (GetTenantQuietHours p) w = (Inr x, w')"
    then have w': "w' = ticked w" by (auto simp: GetTenantQuietHours_def run_query split: if_splits)
    obtain start stop tz where xs: "x = (start, stop, tz)" by (cases x)
    have q: "quiet_now cfg w i f \<Longrightarrow> \<exists>t. IsInQuietHours (cf_LoadLocation cfg) (w_now w) f start stop tz = Inr (True, t)"
      using x assms(1) by (auto simp: GetTenantQuietHours_def run_query quiet_now_def xs split: if_splits)
    have ns: "quiet_now cfg w i f \<Longrightarrow> start \<noteq> None \<and> stop \<noteq> None"
      using q by (auto simp: IsInQuietHours_def split: option.splits)
    show "sends_at P (?rest x) w'"
    proof (cases "quiet_now cfg w i f")
      case True
      then show ?thesis using q ns w' unfolding xs
        by (auto simp: sends_at_def) (use silent_finish(5) in \<open>simp add: state_io_rel_def silent_def\<close>)
    next
      case no: False
      have ro: "read_only w w'" using w' by simp
      have k: "sends_at P k w'" using off [OF ro] no by simp
      show ?thesis unfolding xs prod.case
        by (intro sends_if k sends_bind hush.evolve_now) (auto split: sum.splits intro!: k sends_silent silent_finish)
    qed
  qed
  with False show ?thesis by (simp add: with_quiet_hours_def)
qed

lemma sends_fresh:
  assumes "p_TenantID p = mi_TenantID i" and "undecided i" and q: "tenant_caps w (mi_TenantID i) q"
    and f: "find (profile_at (mi_TenantID i) (mi_WorkspaceID i) (mi_ProfileID i)) (w_profiles w) = Some r"
  shows "sends_at (permitted cfg w i) (deliver_fresh cfg p i tpl ident (delivery_caps tpl q) (pr_Profile r)) w"
  unfolding deliver_fresh_def
proof (intro sends_quiet assms(1) sends_bind silent_reads read_only_delivery_verdict)
  fix w1 v w2 assume w1: "read_only w w1" and quiet: "healthy w \<longrightarrow> mi_Transactional i \<or> \<not> quiet_now cfg w i (pr_Profile r)"
    and v: "run_state (delivery_verdict p i tpl (pr_Profile r) (delivery_caps tpl q)) w1 = (v, w2)"
  show "sends_at (permitted cfg w i) (let intent' = with_snapshot i v
      in if vd_Decision v \<noteq> ''sent'' then deliver_completed intent' (vd_Decision v) (vd_Reason v)
         else with_message cfg p intent' tpl (pr_Profile r) ident
                (send_and_emit (resolve_adapter cfg (si_Provider ident)) p intent' (pr_Profile r))) w2"
    unfolding Let_def
  proof (intro sends_if sends_finish sends_message sends_and_emit)
    fix msg :: rendered_message assume sent: "\<not> vd_Decision v \<noteq> ''sent''" and m: "rm_Endpoint msg = mi_Endpoint (with_snapshot i v)"
      "rm_Channel msg = te_Channel tpl" "rm_IdempotencyKey msg = sent_key (with_snapshot i v)"
    from verdict_sent [OF v] sent w1 assms(1)
    have "\<not> list_ex (suppresses (mi_TenantID i) (te_Channel tpl) (mi_Endpoint i)) (w_suppressions w)"
      "mi_Transactional i \<or> eligible w (mi_TenantID i) (delivery_recipient i (pr_Profile r)) (delivery_caps tpl q)"
      by (simp_all add: delivery_caps_def read_only_tables eligible_read_only)
    with m assms quiet show "permitted cfg w i msg"
      by (auto simp: permitted_def with_snapshot_def sent_key_def delivery_caps_def)
  qed
qed

lemma permitted_read_only: "read_only w w' \<Longrightarrow> permitted cfg w' i = permitted cfg w i"
  by (rule ext) (simp add: permitted_def read_only_tables eligible_read_only tenant_caps_def quiet_now_def)

lemma sends_decided:
  assumes "p_TenantID p = mi_TenantID i" and "tenant_caps w (mi_TenantID i) q"
  shows "sends_at (permitted cfg w i) (deliver_decided cfg p i tpl ident (delivery_caps tpl q)) w"
  unfolding deliver_decided_def
proof (intro sends_if sends_finish)
  assume d: "\<not> (case mi_Decision i of None \<Rightarrow> False | Some d \<Rightarrow> terminal_decision d)"
  show "sends_at (permitted cfg w i) (attempt (GetProfileByIDSystem (mi_TenantID i) (mi_WorkspaceID i) (mi_ProfileID i))
      (\<lambda>err. deliver_failed i ''failed'' (''failed to load profile: '' @ error_text err))
      (\<lambda>f. if mi_Decision i = Some ''provider_sent'' then emit_sent p i f
           else deliver_fresh cfg p i tpl ident (delivery_caps tpl q) f)) w"
  proof (rule sends_attempt)
    show "state_io_rel silent (GetProfileByIDSystem (mi_TenantID i) (mi_WorkspaceID i) (mi_ProfileID i))"
      unfolding GetProfileByIDSystem_def by (rule hush.evolve_query)
    fix f w' assume f: "run_state (GetProfileByIDSystem (mi_TenantID i) (mi_WorkspaceID i) (mi_ProfileID i)) w = (Inr f, w')"
    then obtain r where r: "find (profile_at (mi_TenantID i) (mi_WorkspaceID i) (mi_ProfileID i)) (w_profiles w) = Some r"
      "f = pr_Profile r" and w': "read_only w w'"
      by (auto simp: GetProfileByIDSystem_def run_query or_not_found_def split: if_splits option.splits)
    show "sends_at (permitted cfg w i) (if mi_Decision i = Some ''provider_sent'' then emit_sent p i f
        else deliver_fresh cfg p i tpl ident (delivery_caps tpl q) f) w'"
    proof (intro sends_if sends_finish)
      assume "mi_Decision i \<noteq> Some ''provider_sent''"
      with d have u: "undecided i" by (auto simp: undecided_def)
      from sends_fresh [OF assms(1) u, where w = w' and q = q and r = r and cfg = cfg and tpl = tpl and ident = ident] w' assms(2) r
      show "sends_at (permitted cfg w i) (deliver_fresh cfg p i tpl ident (delivery_caps tpl q) f) w'"
        by (simp add: read_only_tables tenant_caps_def permitted_read_only)
    qed
  qed (rule sends_finish)
qed

lemma sends_identity:
  assumes "\<And>x w'. read_only w w' \<Longrightarrow> sends_at P (k x) w'"
  shows "sends_at P (with_identity p i tpl k) w"
proof -
  have ro: "state_io_rel read_only (ListActiveDeviceTokens a b c)" "state_io_rel read_only (ListSendingIdentities p)"
    "state_io_rel read_only (GetSendingIdentity p d)" for a b c d
    unfolding ListActiveDeviceTokens_def ListSendingIdentities_def GetSendingIdentity_def by (rule ro.evolve_query)+
  note quiet = ro [THEN silent_reads]
  show ?thesis unfolding with_identity_def
    by (intro sends_if sends_attempt quiet)
      (auto split: option.splits intro!: sends_finish assms sends_attempt quiet
         dest!: state_io_relD [OF ro(1)] state_io_relD [OF ro(2)] state_io_relD [OF ro(3)] intro: read_only_trans)
qed

lemma sends_claimed: "sends_at (permitted cfg w i) (deliver_claimed cfg i) w"
proof -
  let ?t = "mi_TenantID i" and ?ws = "mi_WorkspaceID i"
  have ro: "state_io_rel read_only (GetFirstAppID ?t ?ws)" "state_io_rel read_only (GetTemplate p j)"
    "state_io_rel read_only (GetTenantFatigueQuotas p)" for p j
    unfolding GetFirstAppID_def GetTemplate_def GetTenantFatigueQuotas_def by (rule ro.evolve_query)+
  have quotas: "tenant_caps w ?t q" if "run_state (GetTenantFatigueQuotas p) w = (Inr q, w')" "p_TenantID p = ?t" for p q w w'
    using that by (auto simp: GetTenantFatigueQuotas_def run_query tenant_caps_def split: if_splits option.splits)
  have dflt: "tenant_caps w ?t (5, 20)" for w by (simp add: tenant_caps_def)
  have decided: "sends_at (permitted cfg w i) (deliver_decided cfg p i tpl ident (delivery_caps tpl q)) w'"
    if "read_only w w'" "p_TenantID p = ?t" "tenant_caps w' ?t q" for p tpl ident q w'
    using sends_decided [OF that(2,3), of cfg tpl ident] permitted_read_only [OF that(1)] by simp
  have caps: "sends_at (permitted cfg w i) (attempt (GetTenantFatigueQuotas p)
        (\<lambda>_. deliver_decided cfg p i tpl ident (delivery_caps tpl (5, 20)))
        (\<lambda>quotas. deliver_decided cfg p i tpl ident (delivery_caps tpl quotas))) w'"
    if w': "read_only w w'" "p_TenantID p = ?t" for p tpl ident w'
  proof (rule sends_attempt [OF silent_reads [OF ro(3)]])
    fix e w2 assume "run_state (GetTenantFatigueQuotas p) w' = (Inl e, w2)"
    then show "sends_at (permitted cfg w i) (deliver_decided cfg p i tpl ident (delivery_caps tpl (5, 20))) w2"
      using w' by (intro decided dflt) (auto dest: state_io_relD [OF ro(3)] intro: read_only_trans)
  next
    fix q w2 assume m: "run_state (GetTenantFatigueQuotas p) w' = (Inr q, w2)"
    have w2: "read_only w' w2" by (rule state_io_relD [OF ro(3) m])
    with quotas [OF m w'(2)] have "tenant_caps w2 ?t q" by (simp add: tenant_caps_def read_only_tables)
    then show "sends_at (permitted cfg w i) (deliver_decided cfg p i tpl ident (delivery_caps tpl q)) w2"
      using w' w2 by (intro decided) (auto intro: read_only_trans)
  qed
  show ?thesis unfolding deliver_claimed_def Let_def
  proof (rule sends_attempt [OF silent_reads [OF ro(1)]])
    fix appID w1 assume "run_state (GetFirstAppID ?t ?ws) w = (Inr appID, w1)"
    then have w1: "read_only w w1" by (rule state_io_relD [OF ro(1)])
    let ?p = "(tenant_principal ?t ?ws)\<lparr>p_AppID := appID, p_Scopes := [''*'']\<rparr>"
    show "sends_at (permitted cfg w i) (attempt (GetTemplate ?p (mi_TemplateID i))
        (\<lambda>err. deliver_failed i ''render_failed'' (''failed to get template: '' @ error_text err)) (\<lambda>tpl.
        with_identity ?p i tpl (\<lambda>identity. attempt (GetTenantFatigueQuotas ?p)
            (\<lambda>_. deliver_decided cfg ?p i tpl identity (delivery_caps tpl (5, 20)))
            (\<lambda>quotas. deliver_decided cfg ?p i tpl identity (delivery_caps tpl quotas))))) w1"
    proof (rule sends_attempt [OF silent_reads [OF ro(2)]])
      fix tpl w2 assume "run_state (GetTemplate ?p (mi_TemplateID i)) w1 = (Inr tpl, w2)"
      then have "read_only w w2" using w1 by (auto dest: state_io_relD [OF ro(2)] intro: read_only_trans)
      then show "sends_at (permitted cfg w i) (with_identity ?p i tpl (\<lambda>identity. attempt (GetTenantFatigueQuotas ?p)
            (\<lambda>_. deliver_decided cfg ?p i tpl identity (delivery_caps tpl (5, 20)))
            (\<lambda>quotas. deliver_decided cfg ?p i tpl identity (delivery_caps tpl quotas)))) w2"
        by (intro sends_identity caps) (auto simp: tenant_principal_def intro: read_only_trans)
    qed (rule sends_finish)
  qed (rule sends_finish)
qed

text \<open>The whole delivery: the message, if any, goes to the intent that was claimed.\<close>

definition claimed_intent :: "world \<Rightarrow> message_intent \<Rightarrow> bool" where
  "claimed_intent w i \<longleftrightarrow> (\<exists>j \<in> set (w_intents w). claimable_intent w j \<and> i = (taken_intent (w_now w) j)\<lparr>mi_CostMicros := 0\<rparr>)"

lemma ClaimJourneyMessageIntent_Some:
  assumes "run_state (ClaimJourneyMessageIntent worker) w = (Inr (Some i), w')"
  shows "claimed_intent w i"
proof -
  from assms obtain j where "least_by (\<lambda>i. (\<not> mi_Transactional i, mi_AvailableAt i))
      (filter (claimable_intent (ticked w)) (w_intents w)) = Some j" and i: "i = (taken_intent (w_now w) j)\<lparr>mi_CostMicros := 0\<rparr>"
    by (auto simp: ClaimJourneyMessageIntent_def run_db split: if_splits option.splits)
  from least_by_Some [OF this(1)] have "j \<in> set (w_intents w)" "claimable_intent (ticked w) j" by auto
  moreover have "claimable_intent (ticked w) j = claimable_intent w j"
    unfolding claimable_intent_def version_active_def tenant_in_flight_def ticked_simps ..
  ultimately show ?thesis using i by (auto simp: claimed_intent_def)
qed

lemma sends_next:
  "sends_at (\<lambda>msg. \<exists>i w1. claimed_intent w i \<and> run_state (ClaimJourneyMessageIntent worker) w = (Inr (Some i), w1) \<and>
      permitted cfg w1 i msg) (JourneyDeliver.DeliverNext cfg worker) w"
  unfolding JourneyDeliver.DeliverNext_def
proof (rule sends_attempt [OF silent_writes(3)])
  fix c w1 assume c: "run_state (ClaimJourneyMessageIntent worker) w = (Inr c, w1)"
  show "sends_at (\<lambda>msg. \<exists>i w1. claimed_intent w i \<and> run_state (ClaimJourneyMessageIntent worker) w = (Inr (Some i), w1) \<and>
      permitted cfg w1 i msg) (case c of None \<Rightarrow> ret (False, None) | Some i \<Rightarrow> deliver_claimed cfg i) w1"
  proof (cases c)
    case (Some i)
    then show ?thesis
      using sends_claimed [of cfg w1 i] c ClaimJourneyMessageIntent_Some [of worker w i w1] by (auto simp: sends_at_def)
  qed (simp add: sends_at_def)
qed (simp add: sends_at_def)

section \<open>What a provider has taken is recorded\<close>

text \<open>Every row of the intent carries the provider's identifier and a decision that rules out another send.\<close>

definition recorded :: "string \<Rightarrow> string \<Rightarrow> world \<Rightarrow> bool" where
  "recorded i mid w \<longleftrightarrow> (\<forall>j \<in> set (w_intents w). mi_ID j = i \<longrightarrow>
     mi_ProviderMessageID j = Some mid \<and> (mi_Decision j = Some ''sent'' \<or> mi_Decision j = Some ''provider_sent''))"

lemma update_recorded:
  assumes "healthy w" and "mi_ProviderMessageID i = Some mid" and "mi_Decision i = Some ''sent'' \<or> mi_Decision i = Some ''provider_sent''"
  shows "fst (run_state (UpdateJourneyMessageIntent i) w) = Inr () \<and>
    recorded (mi_ID i) mid (after w (UpdateJourneyMessageIntent i)) \<and> healthy (after w (UpdateJourneyMessageIntent i))"
  using assms by (auto simp: UpdateJourneyMessageIntent_def run_exec recorded_def upd_rows_def healthy_def)

lemma emit_recorded:
  assumes "healthy w" and "mi_ProviderMessageID i = Some mid" and "recorded (mi_ID i) mid w"
  shows "recorded (mi_ID i) mid (after w (emit_sent p i f))"
proof -
  obtain r w1 where a: "run_state (AcceptEvents p [sent_event i f (w_now w)]) w = (r, w1)"
    by (cases "run_state (AcceptEvents p [sent_event i f (w_now w)]) w")
  have "engine_frame w w1" using state_io_relD [OF frame.accept_ok a] .
  then have w1: "healthy w1" using assms(1) by (simp add: engine_frame_def healthy_def)
  show ?thesis
  proof (cases r)
    case (Inl e)
    let ?j = "i\<lparr>mi_Status := (if mi_Attempts i \<ge> 3 then ''dead'' else ''pending''),
       mi_ErrorMessage := (if mi_Attempts i \<ge> 3 then Some (''message.sent emission failed after '' @ itoa (mi_Attempts i)
                             @ '' attempts: '' @ error_text e) else mi_ErrorMessage i), mi_Decision := Some ''provider_sent''\<rparr>"
    from update_recorded [OF w1, of ?j mid] assms(2) show ?thesis
      by (cases "run_state (UpdateJourneyMessageIntent ?j) w1")
        (auto simp: emit_sent_def a Inl requeue_sent_def Let_def run_attempt)
  next
    case (Inr x)
    let ?j = "i\<lparr>mi_Status := ''completed'', mi_Decision := Some ''sent''\<rparr>"
    from update_recorded [OF w1, of ?j mid] assms(2) show ?thesis
      by (cases "run_state (UpdateJourneyMessageIntent ?j) w1")
        (auto simp: emit_sent_def a Inr run_attempt done_ok_def)
  qed
qed

lemma send_recorded:
  assumes "healthy w" and "a (w_tick w) msg = Returned (mid, cost)"
  shows "recorded (mi_ID i) mid (after w (send_and_emit a p i f msg))"
proof -
  let ?w = "(ticked w)\<lparr>w_calls := w_calls w @ [msg]\<rparr>" and ?s = "provider_sent i mid cost"
  have "healthy ?w" using assms(1) by (simp add: healthy_def)
  from update_recorded [OF this, of ?s mid] obtain w1 where
    u: "run_state (UpdateJourneyMessageIntent ?s) ?w = (Inr (), w1)" "healthy w1" "recorded (mi_ID ?s) mid w1"
    by (cases "run_state (UpdateJourneyMessageIntent ?s) ?w") (auto simp: provider_sent_def)
  from emit_recorded [OF u(2) _ u(3), of p f]
  have "recorded (mi_ID i) mid (after w1 (emit_sent p ?s f))" by (simp add: provider_sent_def)
  then show ?thesis using assms(2) u(1) by (simp add: send_and_emit_def Let_def)
qed

end
