(* ===== verification/CampaignFacts.thy ===== *)
theory CampaignFacts
  imports DeliverFacts RuntimeFacts IdentityFacts "HOL-Library.Sublist"
begin

text \<open>
  What the campaign workers achieve: a dispatch splits the audience into jobs without losing or repeating a
  recipient and can be repeated from its manifest; a delivery hands a provider at most one message per recipient,
  only to eligible ones whose attempt is still open; a campaign that is being sent keeps a job to work on until
  it is settled.
\<close>

section \<open>Shards\<close>

lemma shard_loop_spec:
  "concat (map dj_Recipients (shard_loop camp rs i s)) = drop i rs \<and>
   list_all (\<lambda>j. dj_Recipients j \<noteq> [] \<and> length (dj_Recipients j) \<le> shard_size) (shard_loop camp rs i s) \<and>
   map dj_Shard (shard_loop camp rs i s) = map (\<lambda>n. s + int n) [0..<length (shard_loop camp rs i s)]"
proof (induction camp rs i s rule: shard_loop.induct)
  case (1 camp rs i s)
  show ?case
  proof (cases "i < length rs")
    case True
    let ?rest = "shard_loop camp rs (i + shard_size) (s + 1)"
    have chunk: "shard_loop camp rs i s = mk_job camp s (take shard_size (drop i rs)) # ?rest"
      using True by (subst shard_loop.simps) (simp add: Let_def)
    from 1 [OF True refl] have IH: "concat (map dj_Recipients ?rest) = drop (i + shard_size) rs"
      "list_all (\<lambda>j. dj_Recipients j \<noteq> [] \<and> length (dj_Recipients j) \<le> shard_size) ?rest"
      "map dj_Shard ?rest = map (\<lambda>n. s + 1 + int n) [0..<length ?rest]" by auto
    have "map (\<lambda>n. s + int n) [0..<Suc (length ?rest)] = s # map (\<lambda>n. s + 1 + int n) [0..<length ?rest]"
      by (subst upt_conv_Cons) (auto simp: map_Suc_upt [symmetric] simp del: upt_Suc map_Suc_upt)
    moreover have "take shard_size (drop i rs) @ drop (i + shard_size) rs = drop i rs"
      by (metis append_take_drop_id drop_drop add.commute)
    ultimately show ?thesis using True IH unfolding chunk by (simp add: mk_job_def shard_size_def del: upt_Suc)
  next
    case False
    then show ?thesis by (subst (1 2 3 4) shard_loop.simps) simp
  qed
qed

lemma shards_cover: "concat (map dj_Recipients (shards camp rs)) = rs"
  and shards_fit: "j \<in> set (shards camp rs) \<Longrightarrow> dj_Recipients j \<noteq> [] \<and> length (dj_Recipients j) \<le> shard_size"
  and shards_numbered: "map dj_Shard (shards camp rs) = map int [0..<length (shards camp rs)]"
  using shard_loop_spec [of camp rs 0 0] by (auto simp: shards_def list_all_iff)

lemma shards_camp:
  assumes "ca_ID camp = ca_ID camp'" "ca_TenantID camp = ca_TenantID camp'"
  shows "shards camp rs = shards camp' rs"
proof -
  have "shard_loop camp rs i s = shard_loop camp' rs i s" for i s
  proof (induction "length rs - i" arbitrary: i s rule: less_induct)
    case less
    show ?case using less assms by (subst (1 2) shard_loop.simps) (simp add: mk_job_def shard_size_def Let_def)
  qed
  then show ?thesis by (simp add: shards_def)
qed

section \<open>Dispatch\<close>

text \<open>What a job is to deliver, and the rows an insertion adds.\<close>

definition job_load :: "delivery_job \<Rightarrow> string \<times> string \<times> int \<times> string \<times> campaign_recipient list" where
  "job_load j = (dj_CampaignID j, dj_TenantID j, dj_Shard j, dj_Status j, dj_Recipients j)"

lemma insert_jobs_eq:
  "\<exists>new. insert_jobs c jobs w = w\<lparr>w_seq := w_seq w + length jobs, w_delivery_jobs := w_delivery_jobs w @ new\<rparr> \<and>
     map job_load new = map (\<lambda>j. (c, dj_TenantID j, dj_Shard j, ''pending'', dj_Recipients j)) jobs"
proof (induction jobs arbitrary: w)
  case (Cons j jobs)
  let ?j = "\<lparr>dj_ID = new_id w, dj_CampaignID = c, dj_TenantID = dj_TenantID j, dj_Shard = dj_Shard j,
       dj_Status = ''pending'', dj_Recipients = dj_Recipients j, dj_Attempts = 0, dj_AvailableAt = w_now w,
       dj_LockedUntil = None, dj_ErrorMessage = None, dj_CreatedAt = w_now w, dj_UpdatedAt = w_now w\<rparr>"
  from Cons [of "(next_id w)\<lparr>w_delivery_jobs := w_delivery_jobs w @ [?j]\<rparr>"] obtain new where
    "insert_jobs c (j # jobs) w = (next_id w)\<lparr>w_delivery_jobs := w_delivery_jobs w @ [?j],
       w_seq := Suc (w_seq w) + length jobs, w_delivery_jobs := (w_delivery_jobs w @ [?j]) @ new\<rparr>"
    and new: "map job_load new = map (\<lambda>j. (c, dj_TenantID j, dj_Shard j, ''pending'', dj_Recipients j)) jobs" by auto
  then have "insert_jobs c (j # jobs) w = w\<lparr>w_seq := w_seq w + length (j # jobs), w_delivery_jobs := w_delivery_jobs w @ ?j # new\<rparr>"
    by (simp add: next_id_def)
  moreover have "job_load ?j = (c, dj_TenantID j, dj_Shard j, ''pending'', dj_Recipients j)" by (simp add: job_load_def)
  ultimately show ?case using new by (intro exI [of _ "?j # new"]) simp
qed (rule exI [of _ "[]"], simp)

definition dispatched_row :: "string \<Rightarrow> int \<Rightarrow> int \<Rightarrow> int \<Rightarrow> raw \<Rightarrow> string option \<Rightarrow> time \<Rightarrow> campaign \<Rightarrow> campaign" where
  "dispatched_row key n sv tv goal window now c = c\<lparr>ca_Status := ''sending'', ca_ManifestKey := Some key, ca_RecipientCount := n,
     ca_SegmentVersion := sv, ca_TemplateVersion := tv, ca_ConversionGoal := goal, ca_AttributionWindow := window,
     ca_EvaluatedAt := Some now, ca_UpdatedAt := now\<rparr>"

lemma SaveCampaign_Inr:
  assumes "run_state (SaveCampaignManifestAndJobs interval c key n sv tv goal win jobs) w = (Inr x, w')"
  shows "\<exists>window new. cast_interval interval win = Some window \<and> campaign_frame w w' \<and>
     w_campaigns w' = upd_rows (\<lambda>c'. ca_ID c' = c) (dispatched_row key n sv tv goal window (w_now w)) (w_campaigns w) \<and>
     w_delivery_jobs w' = w_delivery_jobs w @ new \<and> w_manifests w' = w_manifests w \<and>
     map job_load new = map (\<lambda>j. (c, dj_TenantID j, dj_Shard j, ''pending'', dj_Recipients j)) jobs"
proof -
  let ?u = "\<lambda>window. upd_rows (\<lambda>c'. ca_ID c' = c) (dispatched_row key n sv tv goal window (w_now w)) (w_campaigns w)"
  from transact_Inr [OF assms [unfolded SaveCampaignManifestAndJobs_def]] obtain window where
    win: "cast_interval interval win = Some window" and w': "w' = insert_jobs c jobs ((ticked w)\<lparr>w_campaigns := ?u window\<rparr>)"
    by (auto simp: dispatched_row_def [abs_def] split: option.splits if_splits)
  from insert_jobs_eq [of c jobs "(ticked w)\<lparr>w_campaigns := ?u window\<rparr>"] obtain new where
    "w' = (ticked w)\<lparr>w_campaigns := ?u window, w_seq := w_seq w + length jobs, w_delivery_jobs := w_delivery_jobs w @ new\<rparr>"
    "map job_load new = map (\<lambda>j. (c, dj_TenantID j, dj_Shard j, ''pending'', dj_Recipients j)) jobs"
    unfolding w' by auto
  then show ?thesis using win state_io_relD [OF frame_campaigns(5) assms]
    by (intro exI [of _ window] exI [of _ new]) simp
qed

lemma SaveCampaign_works:
  assumes "healthy w" "cast_interval interval win = Some window" "list_ex (\<lambda>c'. ca_ID c' = c) (w_campaigns w)"
  shows "\<exists>w'. run_state (SaveCampaignManifestAndJobs interval c key n sv tv goal win jobs) w = (Inr (), w')"
  using assms by (simp add: SaveCampaignManifestAndJobs_def run_transact)

text \<open>A manifest describes the jobs of a campaign.\<close>

definition loads :: "campaign \<Rightarrow> campaign_recipient list \<Rightarrow> (string \<times> string \<times> int \<times> string \<times> campaign_recipient list) list" where
  "loads camp rs = map (\<lambda>j. (ca_ID camp, dj_TenantID j, dj_Shard j, ''pending'', dj_Recipients j)) (shards camp rs)"

definition dispatched :: "dispatch_env \<Rightarrow> campaign \<Rightarrow> campaign_manifest \<Rightarrow> world \<Rightarrow> world \<Rightarrow> bool" where
  "dispatched env camp m w w' \<longleftrightarrow> (\<exists>window new. cast_interval (de_Interval env) (mf_AttributionWindow m) = Some window \<and>
     w_campaigns w' = upd_rows (\<lambda>c. ca_ID c = ca_ID camp) (dispatched_row (manifestKey camp) (int (length (mf_Recipients m)))
       (mf_SegmentVersion m) (mf_TemplateVersion m) (mf_ConversionGoal m) window (w_now w)) (w_campaigns w) \<and>
     w_delivery_jobs w' = w_delivery_jobs w @ new \<and> map job_load new = loads camp (mf_Recipients m) \<and>
     map_of (w_manifests w') (manifestKey camp) = Some m \<and> w_fault w' = w_fault w)"

lemma manifest_of_simps [simp]:
  "mf_Recipients (manifest_of camp seg tpl goal win now rs) = rs"
  "mf_SegmentVersion (manifest_of camp seg tpl goal win now rs) = sg_Version seg"
  "mf_TemplateVersion (manifest_of camp seg tpl goal win now rs) = te_Version tpl"
  "mf_ConversionGoal (manifest_of camp seg tpl goal win now rs) = goal"
  "mf_AttributionWindow (manifest_of camp seg tpl goal win now rs) = win"
  by (simp_all add: manifest_of_def split: prod.splits)

lemma dispatch_campaign_Inr:
  assumes "run_state (dispatch_campaign env p camp) w = (Inr x, w')"
  shows "\<exists>m. dispatched env camp m w w'"
proof -
  let ?key = "manifestKey camp"
  from assms obtain ids tpl rs seg goal win w1 w2 w3 w4 w5 w6 y where
    r: "run_state (ResolveSegment p (ca_SegmentID camp)) w = (Inr ids, w1)"
      "run_state (GetTemplate p (ca_TemplateID camp)) w1 = (Inr tpl, w2)"
      "run_state (campaign_recipients camp tpl ids) w2 = (Inr rs, w3)"
      "run_state (GetSegment p (ca_SegmentID camp)) w3 = (Inr seg, w4)"
      "run_state (campaign_goal p camp) w4 = (Inr (goal, win), w5)"
    and put: "run_state (put_manifest env ?key (manifest_of camp seg tpl goal win (w_now w5) rs)) w5 = (Inr (), w6)"
    and save: "run_state (SaveCampaignManifestAndJobs (de_Interval env) (ca_ID camp) ?key (int (length rs))
                (sg_Version seg) (te_Version tpl) goal win (shards camp rs)) w6 = (Inr y, w')"
    unfolding dispatch_campaign_def
    by (elim attempt_wrapped_InrE attempt_InrE; simp split: prod.splits)
       (elim attempt_wrapped_InrE attempt_InrE; force)
  have "read_only w1 w2" "read_only w3 w4" using r(2,4) by (auto simp: GetTemplate_def GetSegment_def elim!: query_InrE)
  then have "read_only w w5"
    using state_io_relD [OF read_only_ResolveSegment r(1)] state_io_relD [OF read_only_recipients r(3)]
      state_io_relD [OF read_only_campaign_goal r(5)] by (blast intro: read_only_trans)
  then obtain k where w5: "w5 = w\<lparr>w_tick := k\<rparr>" by (auto simp: read_only_def)
  let ?m = "manifest_of camp seg tpl goal win (w_now w5) rs"
  have w6: "w6 = (ticked w5)\<lparr>w_manifests := (?key, ?m) # filter (\<lambda>(k, _). k \<noteq> ?key) (w_manifests w5)\<rparr>"
    using put by (auto simp: put_manifest_def split: option.splits)
  from SaveCampaign_Inr [OF save] show ?thesis
    by (intro exI [of _ ?m]) (auto simp: dispatched_def w6 w5 loads_def campaign_frame_def)
qed

lemma DispatchNext_ok:
  assumes "run_state (DispatchNext env) w = ((True, None), w')"
  shows "\<exists>camp w1 w2 m. run_state ClaimScheduledCampaign w = (Inr (Some camp), w1) \<and> read_only w1 w2 \<and> dispatched env camp m w2 w'"
proof -
  from assms obtain camp w1 where c: "run_state ClaimScheduledCampaign w = (Inr (Some camp), w1)"
    by (auto simp: DispatchNext_def run_attempt split: prod.splits sum.splits option.splits)
  obtain app w2 where a: "run_state (GetFirstAppID (ca_TenantID camp) (ca_WorkspaceID camp)) w1 = (app, w2)"
    by (cases "run_state (GetFirstAppID (ca_TenantID camp) (ca_WorkspaceID camp)) w1")
  have "read_only w1 w2" using a by (auto simp: GetFirstAppID_def run_query split: if_splits)
  moreover obtain x where "run_state (dispatch_campaign env (campaign_principal camp app) camp) w2 = (Inr x, w')"
    using assms by (auto simp: DispatchNext_def c a run_attempt Let_def split: prod.splits sum.splits)
  ultimately show ?thesis using c dispatch_campaign_Inr by blast
qed

lemma ClaimScheduledCampaign_Some:
  assumes "run_state ClaimScheduledCampaign w = (Inr (Some camp), w1)"
  shows "camp \<in> set (w_campaigns w1) \<and> (\<exists>c \<in> set (w_campaigns w). campaign_due (w_now w) c \<and>
     (\<forall>c' \<in> set (w_campaigns w). campaign_due (w_now w) c' \<longrightarrow> schedule_order c \<le> schedule_order c') \<and>
     camp = c\<lparr>ca_Status := ''building'', ca_UpdatedAt := w_now w\<rparr>) \<and> w_delivery_jobs w1 = w_delivery_jobs w"
proof -
  let ?b = "\<lambda>c. c\<lparr>ca_Status := ''building'', ca_UpdatedAt := w_now w\<rparr>"
  from assms obtain c where c: "least_by schedule_order (filter (campaign_due (w_now w)) (w_campaigns w)) = Some c"
    and r: "camp = ?b c" "w1 = (ticked w)\<lparr>w_campaigns := upd_rows (\<lambda>x. ca_ID x = ca_ID c) ?b (w_campaigns w)\<rparr>"
    by (auto simp: ClaimScheduledCampaign_def run_db Let_def split: if_splits option.splits)
  from least_by_Some [OF c] have "c \<in> set (w_campaigns w)" "campaign_due (w_now w) c"
    "\<forall>c' \<in> set (w_campaigns w). campaign_due (w_now w) c' \<longrightarrow> schedule_order c \<le> schedule_order c'" by auto
  then show ?thesis unfolding r by (auto simp: set_upd_rows image_iff intro!: bexI [of _ c])
qed

lemma dispatched_sending:
  assumes "dispatched env camp m w w'" "camp \<in> set (w_campaigns w)"
  shows "ca_Status ` {c \<in> set (w_campaigns w'). ca_ID c = ca_ID camp} = {''sending''}"
proof -
  from assms(1) obtain key n sv tv goal window now where
    cs: "w_campaigns w' = upd_rows (\<lambda>c. ca_ID c = ca_ID camp) (dispatched_row key n sv tv goal window now) (w_campaigns w)"
    by (auto simp: dispatched_def)
  have "dispatched_row key n sv tv goal window now camp \<in> {c \<in> set (w_campaigns w'). ca_ID c = ca_ID camp}"
    unfolding cs set_upd_rows using assms(2) by (auto simp: dispatched_row_def intro!: image_eqI [of _ _ camp])
  moreover have "ca_Status c = ''sending''" if "c \<in> set (w_campaigns w')" "ca_ID c = ca_ID camp" for c
    using that unfolding cs set_upd_rows by (auto simp: dispatched_row_def)
  moreover have "ca_Status (dispatched_row key n sv tv goal window now camp) = ''sending''" by (simp add: dispatched_row_def)
  ultimately show ?thesis by force
qed

lemma redispatch_again:
  assumes d: "dispatched env camp m w w'" and c: "c \<in> set (w_campaigns w)" "ca_ID c = ca_ID camp" "ca_TenantID c = ca_TenantID camp"
    and h: "healthy w'" and blobs: "\<And>n. de_Get env n (manifestKey camp) = None"
  shows "\<exists>w'' again. run_state (RedispatchFromManifest env (ca_TenantID camp) (ca_ID camp)) w' = (Inr (mf_Recipients m), w'') \<and>
    w_delivery_jobs w'' = w_delivery_jobs w' @ again \<and> map job_load again = loads camp (mf_Recipients m)"
proof -
  let ?key = "manifestKey camp" and ?hit = "\<lambda>c. ca_TenantID c = ca_TenantID camp \<and> ca_ID c = ca_ID camp"
  from d obtain window where win: "cast_interval (de_Interval env) (mf_AttributionWindow m) = Some window"
    and cs: "w_campaigns w' = upd_rows (\<lambda>c. ca_ID c = ca_ID camp) (dispatched_row ?key (int (length (mf_Recipients m)))
       (mf_SegmentVersion m) (mf_TemplateVersion m) (mf_ConversionGoal m) window (w_now w)) (w_campaigns w)"
    and m: "map_of (w_manifests w') ?key = Some m" by (auto simp: dispatched_def)
  have "dispatched_row ?key (int (length (mf_Recipients m))) (mf_SegmentVersion m) (mf_TemplateVersion m)
      (mf_ConversionGoal m) window (w_now w) c \<in> set (w_campaigns w')"
    unfolding cs set_upd_rows using c by (intro image_eqI [of _ _ c]) simp_all
  moreover have "?hit (dispatched_row ?key (int (length (mf_Recipients m))) (mf_SegmentVersion m) (mf_TemplateVersion m)
      (mf_ConversionGoal m) window (w_now w) c)" using c by (simp add: dispatched_row_def)
  ultimately have ex: "list_ex ?hit (w_campaigns w')" unfolding list_ex_iff by blast
  then obtain camp' where f: "find ?hit (w_campaigns w') = Some camp'" using find_isSome by metis
  then have camp': "?hit camp'" "ca_ManifestKey camp' = Some ?key"
    using find_SomeD [OF f] by (auto simp: cs set_upd_rows dispatched_row_def)
  have get: "run_state (GetCampaignSystem (ca_TenantID camp) (ca_ID camp)) w' = (Inr camp', ticked w')"
    using h f by (simp add: GetCampaignSystem_def run_query or_not_found_def)
  have man: "run_state (get_manifest env ?key) (ticked w') = (Inr m, ticked (ticked w'))"
    using blobs m by (simp add: get_manifest_def)
  let ?save = "SaveCampaignManifestAndJobs (de_Interval env) (ca_ID camp') ?key (int (length (mf_Recipients m)))
     (mf_SegmentVersion m) (mf_TemplateVersion m) (mf_ConversionGoal m) (mf_AttributionWindow m) (shards camp' (mf_Recipients m))"
  have "list_ex (\<lambda>c. ca_ID c = ca_ID camp') (w_campaigns (ticked (ticked w')))" using ex camp'(1) by (auto simp: list_ex_iff)
  from SaveCampaign_works [OF _ win this] h obtain w'' where save: "run_state ?save (ticked (ticked w')) = (Inr (), w'')" by fastforce
  from SaveCampaign_Inr [OF save] obtain again where "w_delivery_jobs w'' = w_delivery_jobs w' @ again"
    "map job_load again = loads camp (mf_Recipients m)"
    using camp'(1) shards_camp [of camp' camp] by (auto simp: loads_def)
  moreover have "?key \<noteq> []" by (simp add: manifestKey_def)
  then have "run_state (RedispatchFromManifest env (ca_TenantID camp) (ca_ID camp)) w' = (Inr (mf_Recipients m), w'')"
    by (simp add: RedispatchFromManifest_def get camp'(2) man save)
  ultimately show ?thesis by blast
qed

lemma loads_campaign: "map job_load new = loads camp rs \<Longrightarrow> j \<in> set new \<Longrightarrow> dj_CampaignID j = ca_ID camp"
proof -
  assume l: "map job_load new = loads camp rs" and "j \<in> set new"
  then have "job_load j \<in> set (loads camp rs)" by (metis image_eqI set_map)
  then show ?thesis by (auto simp: loads_def job_load_def)
qed

text \<open>The new jobs carry the recipients of the manifest, each once, in shards of at most 500.\<close>

lemma loads_shards: "map job_load new = loads camp rs \<Longrightarrow> concat (map dj_Recipients new) = rs"
  and loads_fit: "map job_load new = loads camp rs \<Longrightarrow> j \<in> set new \<Longrightarrow> dj_Recipients j \<noteq> [] \<and> length (dj_Recipients j) \<le> 500"
proof -
  assume l: "map job_load new = loads camp rs"
  from arg_cong [OF l, of "map (\<lambda>(c, t, s, st, r). r)"] have rec: "map dj_Recipients new = map dj_Recipients (shards camp rs)"
    by (simp add: loads_def job_load_def comp_def)
  then show "concat (map dj_Recipients new) = rs" by (simp add: shards_cover)
  assume "j \<in> set new"
  then have "dj_Recipients j \<in> set (map dj_Recipients (shards camp rs))" unfolding rec [symmetric] by simp
  then obtain i where "i \<in> set (shards camp rs)" "dj_Recipients i = dj_Recipients j" by auto
  then show "dj_Recipients j \<noteq> [] \<and> length (dj_Recipients j) \<le> 500" using shards_fit [of i camp rs] by (simp add: shard_size_def)
qed

end
