(* ===== verification/CampaignSends.thy ===== *)
theory CampaignSends
  imports CampaignFacts
begin

text \<open>
  What a delivery job hands to the providers. An attempt is closed when it has a final decision or the provider
  has already taken its message; closed attempts stay closed, and no message goes out for them. Every message
  goes to an eligible recipient of the job, and no two messages of one run answer the same entry of its list.
\<close>

section \<open>Open and closed attempts\<close>

type_synonym attempt_key = "string \<times> string \<times> string \<times> string"

definition attempt_key :: "delivery_attempt \<Rightarrow> attempt_key" where
  "attempt_key a = (da_CampaignID a, da_ProfileID a, da_Channel a, da_Endpoint a)"

lemma attempt_is_key: "attempt_is c f ch ep = (\<lambda>a. attempt_key a = (c, f, ch, ep))"
  by (auto simp: attempt_is_def attempt_key_def)

definition closing_decision :: "string \<Rightarrow> bool" where
  "closing_decision s \<longleftrightarrow> \<not> open_decision s \<or> s = ''provider_sent''"

definition attempt_closed :: "world \<Rightarrow> attempt_key \<Rightarrow> bool" where
  "attempt_closed w k \<longleftrightarrow> (\<exists>a. find (\<lambda>a. attempt_key a = k) (w_attempts w) = Some a \<and> closing_decision (da_Decision a))"

definition attempted :: "world \<Rightarrow> attempt_key \<Rightarrow> bool" where
  "attempted w k \<longleftrightarrow> k \<in> attempt_key ` set (w_attempts w)"

lemma attempt_key_upd [simp]:
  "attempt_key (a\<lparr>da_Decision := dec, da_Reason := r, da_ProviderMessageID := m, da_PolicySnapshot := s, da_CostMicros := n\<rparr>) = attempt_key a"
  "attempt_key (a\<lparr>da_ExperimentID := e, da_Variant := v\<rparr>) = attempt_key a"
  by (simp_all add: attempt_key_def)

text \<open>The attempts with the keys in \<open>K\<close> that are closed stay closed.\<close>

definition closing_on :: "attempt_key set \<Rightarrow> world \<Rightarrow> world \<Rightarrow> bool" where
  "closing_on K w w' \<longleftrightarrow> (\<forall>k \<in> K. attempt_closed w k \<longrightarrow> attempt_closed w' k)"

abbreviation closing :: "world \<Rightarrow> world \<Rightarrow> bool" where
  "closing \<equiv> closing_on UNIV"

interpretation cls: store_evolution "closing_on K" for K
  by unfold_locales (simp_all add: closing_on_def attempt_closed_def)

lemma closing_same: "w_attempts w' = w_attempts w \<Longrightarrow> closing_on K w w'"
  by (simp add: closing_on_def attempt_closed_def)

lemma closingD: "closing_on K w w' \<Longrightarrow> k \<in> K \<Longrightarrow> attempt_closed w k \<Longrightarrow> attempt_closed w' k"
  by (simp add: closing_on_def)

lemma closing_reads: "state_io_rel read_only m \<Longrightarrow> state_io_rel (closing_on K) m"
  by (erule state_io_rel_mono) (auto simp: read_only_def intro!: closing_same)

lemma closing_tick: "state_io_rel (closing_on K) (State (\<lambda>w. (f w, ticked w)))"
  by (simp add: state_io_rel_def closing_same)

lemma closing_update:
  assumes "(c, f, ch, ep) \<notin> K \<or> closing_decision dec"
  shows "state_io_rel (closing_on K) (UpdateDeliveryAttempt c f ch ep dec reason mid snap cost)"
proof -
  let ?u = "\<lambda>a. a\<lparr>da_Decision := dec, da_Reason := reason, da_ProviderMessageID := mid,
    da_PolicySnapshot := or_empty_obj snap, da_CostMicros := cost\<rparr>"
  let ?hit = "\<lambda>a. attempt_key a = (c, f, ch, ep)"
  have "closing_on K w (w\<lparr>w_attempts := upd_rows ?hit ?u (w_attempts w)\<rparr>)" for w
  proof (unfold closing_on_def, intro ballI impI)
    fix k assume "k \<in> K" "attempt_closed w k"
    then obtain a where a: "find (\<lambda>a. attempt_key a = k) (w_attempts w) = Some a" "closing_decision (da_Decision a)"
      by (auto simp: attempt_closed_def)
    have "find (\<lambda>a. attempt_key a = k) (upd_rows ?hit ?u (w_attempts w)) = Some (if ?hit a then ?u a else a)"
      by (rule find_upd_rows [OF a(1)]) simp
    then show "attempt_closed (w\<lparr>w_attempts := upd_rows ?hit ?u (w_attempts w)\<rparr>) k"
      using a find_SomeD [OF a(1)] assms \<open>k \<in> K\<close> by (auto simp: attempt_closed_def)
  qed
  then show ?thesis unfolding UpdateDeliveryAttempt_def attempt_is_key transact_def
    by (intro cls.evolve_db) (auto simp: Let_def cls.evolution_refl)
qed

lemma closing_stamp: "state_io_rel (closing_on K) (SetDeliveryAttemptExperiment t c f ch e v)"
proof -
  have "attempt_closed (w\<lparr>w_attempts := upd_rows hit (\<lambda>a. a\<lparr>da_ExperimentID := Some e, da_Variant := v\<rparr>) (w_attempts w)\<rparr>) k"
    if "attempt_closed w k" for w k hit
  proof -
    from that obtain a where a: "find (\<lambda>a. attempt_key a = k) (w_attempts w) = Some a" "closing_decision (da_Decision a)"
      by (auto simp: attempt_closed_def)
    from find_upd_rows [OF a(1), of "\<lambda>a. a\<lparr>da_ExperimentID := Some e, da_Variant := v\<rparr>" hit] a(2)
    show ?thesis by (auto simp: attempt_closed_def)
  qed
  then show ?thesis unfolding SetDeliveryAttemptExperiment_def by (intro cls.evolve_db) (auto simp: Let_def closing_on_def)
qed

lemma closing_create: "state_io_rel (closing_on K) (CreateDeliveryAttempt a)"
proof -
  have "attempt_closed w k \<Longrightarrow> attempt_closed ((next_id w)\<lparr>w_attempts := w_attempts w @ [b]\<rparr>) k" for w k b
    unfolding attempt_closed_def by (auto simp: find_append)
  then show ?thesis unfolding CreateDeliveryAttempt_def transact_def
    by (intro cls.store_rules cls.evolve_db) (auto simp: closing_on_def)
qed

lemma closing_others:
  "state_io_rel (closing_on K) (AcceptEvents p es)" "state_io_rel (closing_on K) (RetireDeviceToken t app tok)"
  "state_io_rel (closing_on K) (AssignExperiment p e f v)" "state_io_rel (closing_on K) (send_message ad msg)"
proof -
  show "state_io_rel (closing_on K) (AcceptEvents p es)" "state_io_rel (closing_on K) (AssignExperiment p e f v)"
    by (rule state_io_rel_mono [OF frame.accept_ok] state_io_rel_mono [OF frame.assign_ok], simp add: engine_frame_def closing_same)+
  show "state_io_rel (closing_on K) (RetireDeviceToken t app tok)"
    unfolding RetireDeviceToken_def by (intro cls.evolve_exec closing_same) simp
  show "state_io_rel (closing_on K) (send_message ad msg)" by (simp add: state_io_rel_def closing_same)
qed

section \<open>Turns keep closed attempts closed\<close>

lemma fatigue_decision:
  assumes "run_state (fatigue_check p f l cap since s k) w = (v, w')"
    and "\<And>s' w1 v w'. run_state (k s') w1 = (v, w') \<Longrightarrow> closing_decision (vd_Decision v)"
  shows "closing_decision (vd_Decision v)"
proof -
  have own: "closing_decision ''send_failed''" "closing_decision ''fatigued''"
    by (simp_all add: closing_decision_def open_decision_def)
  show ?thesis using assms own
    by (auto simp: fatigue_check_def SentCountSince_def run_attempt run_query Let_def split: if_splits)
qed

lemma Evaluate_decision:
  assumes "run_state (Policy.Evaluate p rcp c) w = (v, w')"
  shows "closing_decision (vd_Decision v)"
proof -
  have own: "closing_decision ''send_failed''" "closing_decision ''suppressed''" "closing_decision ''no_consent''"
    "closing_decision ''sent''" by (simp_all add: closing_decision_def open_decision_def)
  have last: "closing_decision (vd_Decision v)"
    if "run_state (ret (verdict_of ''sent'' ''eligible'' s4)) w1 = (v, w')" for s4 w1 v w'
    using that own by auto
  have tired: "closing_decision (vd_Decision v)"
    if "run_state (fatigue_check p f ''24h'' c1 t1 s2 (\<lambda>s3. fatigue_check p f ''7d'' c2 t2 s3
      (\<lambda>s4. ret (verdict_of ''sent'' ''eligible'' s4)))) w1 = (v, w')" for f c1 t1 s2 c2 t2 w1 v w'
    by (rule fatigue_decision [OF that]) (rule fatigue_decision, assumption, rule last)
  show ?thesis using assms own tired
    by (auto simp: Policy.Evaluate_def IsSuppressed_def LatestConsent_def run_attempt run_query Let_def split: if_splits option.splits)
qed

definition recipient_key :: "delivery \<Rightarrow> campaign_recipient \<Rightarrow> template \<Rightarrow> attempt_key" where
  "recipient_key d rec tpl = (ca_ID (dv_Campaign d), cq_ProfileID rec, te_Channel tpl, cq_Endpoint rec)"

lemma closing_mark:
  "recipient_key d rec tpl \<notin> K \<or> closing_decision dec \<Longrightarrow> state_io_rel (closing_on K) (mark_attempt d rec tpl dec reason mid snap cost)"
  unfolding mark_attempt_def by (rule closing_update) (simp add: recipient_key_def)

lemma closing_next: "state_io_rel (closing_on K) next_recipient"
  unfolding next_recipient_def by (intro cls.store_rules)

lemma closing_settle:
  "recipient_key d rec tpl \<notin> K \<or> closing_decision dec \<Longrightarrow> state_io_rel (closing_on K) (settle_attempt d rec tpl dec reason)"
  unfolding settle_attempt_def by (intro cls.store_rules closing_mark closing_next)

lemma own_decisions:
  "closing_decision ''failed''" "closing_decision ''render_failed''" "closing_decision ''sent''" "closing_decision ''holdout''"
  "closing_decision ''provider_sent''" "closing_decision ''send_failed''"
  by (simp_all add: closing_decision_def open_decision_def)

lemma closing_emit: "state_io_rel (closing_on K) (emit_campaign d rec tpl v f snap mid cost)"
  unfolding emit_campaign_def by (intro cls.store_rules closing_mark closing_next closing_others disjI2 own_decisions)

lemma closing_send:
  "recipient_key d rec tpl \<notin> K \<Longrightarrow> state_io_rel (closing_on K) (send_campaign ad d rec tpl v f snap msg)"
  unfolding send_campaign_def campaign_send_error_def GetFirstAppID_def
  by (intro cls.evolve_bind closing_others)
    (auto split: outcome.splits prod.splits intro!: cls.store_rules closing_mark closing_settle closing_emit closing_others)

lemma closing_message:
  assumes "\<And>msg. state_io_rel (closing_on K) (k msg)"
  shows "state_io_rel (closing_on K) (with_campaign_message cfg d rec tpl f ident k)"
proof -
  have part: "state_io_rel (closing_on K) (campaign_part cfg d rec tpl vars src dflt k)"
    if "\<And>x. state_io_rel (closing_on K) (k x)" for vars src dflt k
    unfolding campaign_part_def
    by (intro cls.store_rules closing_tick) (auto split: outcome.splits intro!: that closing_settle cls.store_rules own_decisions)
  have "state_io_rel (closing_on K) (add_tracking cfg subject html)" for subject html
    unfolding add_tracking_def Let_def by (intro cls.store_rules closing_tick)
  then show ?thesis unfolding with_campaign_message_def Let_def by (intro cls.store_rules part assms)
qed

lemma closing_attempt:
  assumes "recipient_key d rec tpl \<notin> K \<or> da_Decision a = ''provider_sent''"
  shows "state_io_rel (closing_on K) (deliver_attempt cfg d rec tpl v ident a)"
proof -
  let ?rest = "\<lambda>f v'. if vd_Decision v' \<noteq> ''sent'' then
         State_Monad.bind (mark_attempt d rec tpl (vd_Decision v') (vd_Reason v') [] (verdict_snapshot v') 0) (\<lambda>_. next_recipient)
       else with_campaign_message cfg d rec tpl f ident (\<lambda>msg.
           if da_Decision a = ''provider_sent''
           then emit_campaign d rec tpl v f (verdict_snapshot v') (da_ProviderMessageID a) 0
           else send_campaign (adapterFor cfg (si_Provider ident)) d rec tpl v f (verdict_snapshot v') msg)"
  have rest: "state_io_rel (closing_on K) (?rest f v')" if "closing_decision (vd_Decision v')" for f v'
    using assms that
    by (intro cls.store_rules closing_mark closing_next closing_message closing_emit closing_send) auto
  have eval: "state_io_rel (closing_on K) (State_Monad.bind (Policy.Evaluate p rcp c) (?rest f))" for p rcp c f
    by (rule cls.evolve_bind_run [OF closing_reads [OF read_only_Evaluate]]) (rule rest, rule Evaluate_decision)
  show ?thesis unfolding deliver_attempt_def GetProfileByID_def
    by (intro cls.store_rules closing_settle eval disjI2 own_decisions)
qed

text \<open>The row a turn works on: new, or read back with its decision.\<close>

lemma Create_True:
  assumes "run_state (CreateDeliveryAttempt (new_attempt d rec tpl v)) w = (Inr True, w')"
  shows "\<not> attempted w (recipient_key d rec tpl) \<and> attempted w' (recipient_key d rec tpl)"
  using assms
  by (auto simp: CreateDeliveryAttempt_def run_transact attempt_is_key new_attempt_def attempted_def recipient_key_def
      attempt_key_def list_ex_iff image_iff split: if_splits)

lemma Create_False:
  assumes "run_state (CreateDeliveryAttempt (new_attempt d rec tpl v)) w = (Inr False, w')"
  shows "attempted w (recipient_key d rec tpl) \<and> w' = ticked w"
  using assms
  by (auto simp: CreateDeliveryAttempt_def run_transact attempt_is_key new_attempt_def attempted_def recipient_key_def
      attempt_key_def list_ex_iff image_iff split: if_splits) metis

lemma Get_Inr:
  assumes "run_state (GetDeliveryAttempt (ca_ID (dv_Campaign d)) (cq_ProfileID rec) (te_Channel tpl) (cq_Endpoint rec)) w = (Inr a, w')"
  shows "find (\<lambda>a. attempt_key a = recipient_key d rec tpl) (w_attempts w) = Some a \<and> w' = ticked w"
  using assms by (auto simp: GetDeliveryAttempt_def run_query or_not_found_def attempt_is_key recipient_key_def split: if_splits option.splits)

lemma absent_open: "\<not> attempted w k \<Longrightarrow> \<not> attempt_closed w k"
  by (auto simp: attempted_def attempt_closed_def dest: find_SomeD)

lemma closing_open: "closing_on (- {k}) w w' \<Longrightarrow> \<not> attempt_closed w k \<Longrightarrow> closing w w'"
  by (auto simp: closing_on_def)

lemma run_with_attempt:
  "run_state (with_attempt d rec tpl v k) w =
    (case run_state (CreateDeliveryAttempt (new_attempt d rec tpl v)) w of
       (Inl e, w1) \<Rightarrow> (Next, w1)
     | (Inr inserted, w1) \<Rightarrow>
         if inserted then run_state (k (new_attempt d rec tpl v)) w1
         else (case run_state (GetDeliveryAttempt (ca_ID (dv_Campaign d)) (cq_ProfileID rec) (te_Channel tpl) (cq_Endpoint rec)) w1 of
           (Inl e, w2) \<Rightarrow> (Next, w2)
         | (Inr a, w2) \<Rightarrow> if open_decision (da_Decision a) then run_state (k a) w2 else (Next, w2)))"
  unfolding with_attempt_def run_attempt next_recipient_def by (auto simp: run_attempt split: prod.split sum.split)

lemma closing_row:
  assumes k: "\<And>a. state_io_rel (closing_on (- {recipient_key d rec tpl})) (k a)"
    and taken: "\<And>a. da_Decision a = ''provider_sent'' \<Longrightarrow> state_io_rel closing (k a)"
  shows "state_io_rel closing (with_attempt d rec tpl v k)"
proof -
  let ?new = "new_attempt d rec tpl v" and ?k = "recipient_key d rec tpl"
  have "closing w (after w (with_attempt d rec tpl v k))" for w
  proof -
    obtain r w1 where c: "run_state (CreateDeliveryAttempt ?new) w = (r, w1)" by (cases "run_state (CreateDeliveryAttempt ?new) w")
    have w1: "closing_on K w w1" for K by (rule state_io_relD [OF closing_create c])
    have step: "closing_on (- {?k}) w (after w2 (k a))" if "closing_on (- {?k}) w w2" for w2 a
      by (rule cls.evolution_trans [OF that]) (use k in \<open>simp add: state_io_rel_def\<close>)
    consider e where "r = Inl e" | "r = Inr True" | "r = Inr False" by (cases r) auto
    then show ?thesis
    proof cases
      case 1
      then show ?thesis using c w1 by (simp add: run_with_attempt)
    next
      case 2
      with c have "after w (with_attempt d rec tpl v k) = after w1 (k ?new)" by (simp add: run_with_attempt)
      moreover have "\<not> attempt_closed w ?k" using Create_True [of d rec tpl v w w1] c 2 by (simp add: absent_open)
      ultimately show ?thesis using closing_open [OF step [OF w1]] by simp
    next
      case 3
      let ?get = "GetDeliveryAttempt (ca_ID (dv_Campaign d)) (cq_ProfileID rec) (te_Channel tpl) (cq_Endpoint rec)"
      have 31: "w1 = ticked w" using Create_False [of d rec tpl v w w1] c 3 by simp
      obtain r2 w2 where g: "run_state ?get w1 = (r2, w2)" by (cases "run_state ?get w1")
      have "closing w1 w2" by (rule state_io_relD [OF _ g]) (simp add: GetDeliveryAttempt_def cls.evolve_query)
      then have w2: "closing w w2" by (rule cls.evolution_trans [OF w1])
      show ?thesis
      proof (cases r2)
        case (Inl e)
        then show ?thesis using c 3 g w2 by (simp add: run_with_attempt)
      next
        case (Inr a)
        then have a: "find (\<lambda>a. attempt_key a = ?k) (w_attempts w) = Some a" using Get_Inr [of d rec tpl w1 a w2] g 31 by simp
        have run: "after w (with_attempt d rec tpl v k) = (if open_decision (da_Decision a) then after w2 (k a) else w2)"
          using c 3 g Inr by (simp add: run_with_attempt)
        consider "\<not> open_decision (da_Decision a)" | "da_Decision a = ''provider_sent''" "open_decision (da_Decision a)"
          | "\<not> closing_decision (da_Decision a)" "open_decision (da_Decision a)"
          unfolding closing_decision_def by blast
        then show ?thesis
        proof cases
          case 2
          then have "closing w2 (after w2 (k a))" using taken [of a] by (simp add: state_io_rel_def)
          then show ?thesis using run 2 cls.evolution_trans [OF w2] by simp
        next
          case 3
          then have "\<not> attempt_closed w ?k" using a by (simp add: attempt_closed_def)
          moreover have "closing_on (- {?k}) w w2" using w2 unfolding closing_on_def by blast
          ultimately have "closing w (after w2 (k a))" by (intro closing_open [OF step])
          then show ?thesis using run 3 by simp
        qed (use run w2 in simp)
      qed
    qed
  qed
  then show ?thesis by (simp add: state_io_rel_def)
qed

lemma closing_turn: "state_io_rel closing (deliver_recipient cfg d rec)"
proof -
  have variant: "state_io_rel closing (with_variant d rec k)" if "\<And>x y. state_io_rel closing (k x y)" for k
    unfolding with_variant_def GetTemplate_def by (intro cls.store_rules closing_others closing_next that)
  have ident: "state_io_rel closing (recipient_identity d rec tpl k)" if "\<And>x. state_io_rel closing (k x)" for tpl k
    unfolding recipient_identity_def ListActiveDeviceTokens_def ListSendingIdentities_def GetSendingIdentity_def
    by (intro cls.store_rules closing_next that)
  have stamp: "state_io_rel (closing_on K) (stamp_experiment d rec tpl v k)" if "state_io_rel (closing_on K) k" for K tpl v k
    unfolding stamp_experiment_def by (intro cls.store_rules closing_stamp closing_next closing_settle that disjI2 own_decisions)
  show ?thesis unfolding deliver_recipient_def
    by (intro variant ident closing_row stamp closing_attempt) simp_all
qed

lemma closing_turns: "state_io_rel closing (deliver_recipients cfg d recs acc)"
  by (induction recs arbitrary: acc) (auto intro!: cls.store_rules closing_turn split: stop.splits)

section \<open>At most one message a turn\<close>

text \<open>What a turn does before it sends: neither the policy's view of the recipient nor a closed attempt changes.\<close>

definition lead :: "world \<Rightarrow> world \<Rightarrow> bool" where
  "lead w w' \<longleftrightarrow> w_calls w' = w_calls w \<and> w_suppressions w' = w_suppressions w \<and> w_consents w' = w_consents w \<and>
     w_profiles w' = w_profiles w \<and> w_now w' = w_now w \<and> w_fault w' = w_fault w \<and>
     (\<forall>t f since. sent_count w' t f since = sent_count w t f since) \<and>
     (\<forall>k. attempted w k \<longrightarrow> attempted w' k)"

interpretation ld: store_evolution lead
  by unfold_locales (simp_all add: lead_def attempted_def)

lemma lead_reads: "state_io_rel read_only m \<Longrightarrow> state_io_rel lead m"
  by (erule state_io_rel_mono) (auto simp: read_only_def lead_def attempted_def)

lemma lead_eligible: "lead w w' \<Longrightarrow> eligible w' t rcp c = eligible w t rcp c"
  by (simp add: lead_def eligible_def below_cap_def latest_consent_def consent_rows_def)

lemma lead_attempted: "lead w w' \<Longrightarrow> attempted w k \<Longrightarrow> attempted w' k"
  unfolding lead_def by blast

lemma lead_silent: "lead w w' \<Longrightarrow> w_calls w' = w_calls w"
  by (simp add: lead_def)

lemma filter_upd_rows:
  "(\<And>r. Q r \<Longrightarrow> P (f r) = P r) \<Longrightarrow> length (filter P (upd_rows Q f rs)) = length (filter P rs)"
  by (induction rs) auto

lemma lead_stamp: "state_io_rel lead (SetDeliveryAttemptExperiment t c f ch e v)"
proof -
  have "attempt_key ` set (upd_rows Q (\<lambda>a. a\<lparr>da_ExperimentID := Some e, da_Variant := v\<rparr>) rs) = attempt_key ` set rs" for Q rs
    using map_upd_rows [of Q attempt_key "\<lambda>a. a\<lparr>da_ExperimentID := Some e, da_Variant := v\<rparr>" rs] by (metis attempt_key_upd(2) set_map)
  then show ?thesis unfolding SetDeliveryAttemptExperiment_def
    by (intro ld.evolve_db) (simp add: Let_def lead_def sent_count_def attempted_def filter_upd_rows)
qed

lemma lead_create: "da_Decision a \<noteq> ''sent'' \<Longrightarrow> state_io_rel lead (CreateDeliveryAttempt a)"
  unfolding CreateDeliveryAttempt_def transact_def
  by (intro ld.store_rules ld.evolve_db) (auto simp: lead_def sent_count_def attempted_def)

lemma lead_assign: "state_io_rel lead (AssignExperiment p e f v)"
  unfolding AssignExperiment_def assign_row_def
  by (intro ld.evolve_db) (auto simp: lead_def sent_count_def attempted_def Let_def split: option.splits)

definition hands_at :: "(rendered_message \<Rightarrow> 'a \<Rightarrow> world \<Rightarrow> bool) \<Rightarrow> 'a prog \<Rightarrow> world \<Rightarrow> bool" where
  "hands_at P m w \<longleftrightarrow> (case run_state m w of (r, w') \<Rightarrow>
     w_calls w' = w_calls w \<or> (\<exists>msg. w_calls w' = w_calls w @ [msg] \<and> P msg r w'))"

lemma hands_silent: "state_io_rel silent m \<Longrightarrow> hands_at P m w"
  by (auto simp: hands_at_def silent_def dest: state_io_relD split: prod.splits)

lemma hands_bind:
  assumes "state_io_rel lead m" "\<And>x w'. run_state m w = (x, w') \<Longrightarrow> lead w w' \<Longrightarrow> hands_at P (k x) w'"
  shows "hands_at P (State_Monad.bind m k) w"
proof -
  obtain x w' where m: "run_state m w = (x, w')" by (cases "run_state m w")
  have l: "lead w w'" by (rule state_io_relD [OF assms(1) m])
  from assms(2) [OF m l] show ?thesis using lead_silent [OF l] m by (simp add: hands_at_def)
qed

lemma hands_attempt:
  assumes "state_io_rel lead m" "\<And>e w'. hands_at P (h e) w'"
    and "\<And>x w'. run_state m w = (Inr x, w') \<Longrightarrow> lead w w' \<Longrightarrow> hands_at P (k x) w'"
  shows "hands_at P (attempt m h k) w"
  unfolding attempt_def by (rule hands_bind [OF assms(1)]) (auto split: sum.splits intro: assms(2,3))

lemma hands_if: "(b \<Longrightarrow> hands_at P p w) \<Longrightarrow> (\<not> b \<Longrightarrow> hands_at P q w) \<Longrightarrow> hands_at P (if b then p else q) w"
  by simp

lemma frame_silent: "state_io_rel campaign_frame m \<Longrightarrow> state_io_rel silent m"
  by (erule state_io_rel_mono) (simp add: campaign_frame_def untouched_def silent_def)

lemmas silent_calls = campaign_calls [THEN frame_silent]

lemma silent_turns:
  "state_io_rel silent next_recipient" "state_io_rel silent (mark_attempt d rec tpl dec reason mid snap cost)"
  "state_io_rel silent (settle_attempt d rec tpl dec reason)" "state_io_rel silent (emit_campaign d rec tpl v f snap mid cost)"
  "state_io_rel silent (campaign_send_error d rec tpl err)"
proof -
  show go: "state_io_rel silent next_recipient" unfolding next_recipient_def by (intro hush.store_rules)
  show mark: "state_io_rel silent (mark_attempt d rec tpl dec reason mid snap cost)" for dec reason mid snap cost
    unfolding mark_attempt_def by (rule silent_calls)
  show settle: "state_io_rel silent (settle_attempt d rec tpl dec reason)" for dec reason
    unfolding settle_attempt_def by (intro hush.store_rules mark go)
  show "state_io_rel silent (emit_campaign d rec tpl v f snap mid cost)"
    unfolding emit_campaign_def by (intro hush.store_rules mark go silent_writes)
  show "state_io_rel silent (campaign_send_error d rec tpl err)"
    unfolding campaign_send_error_def GetFirstAppID_def by (intro hush.store_rules mark settle silent_writes)
qed

lemmas hands_finish = silent_turns [THEN hands_silent]

section \<open>Whom a turn may send to\<close>

definition campaign_profile :: "delivery \<Rightarrow> campaign_recipient \<Rightarrow> profile_row \<Rightarrow> bool" where
  "campaign_profile d rec r \<longleftrightarrow> pr_TenantID r = ca_TenantID (dv_Campaign d) \<and> pr_AppID r = p_AppID (dv_Principal d) \<and>
     pr_ID r = cq_ProfileID rec"

definition campaign_permitted :: "delivery \<Rightarrow> world \<Rightarrow> campaign_recipient \<Rightarrow> rendered_message \<Rightarrow> bool" where
  "campaign_permitted d w rec msg \<longleftrightarrow>
     rm_Endpoint msg = cq_Endpoint rec \<and> rm_IdempotencyKey msg = campaign_key d rec \<and>
     \<not> attempt_closed w (ca_ID (dv_Campaign d), cq_ProfileID rec, rm_Channel msg, cq_Endpoint rec) \<and>
     (\<exists>r. find (campaign_profile d rec) (w_profiles w) = Some r \<and>
        eligible w (ca_TenantID (dv_Campaign d)) (policy_recipient rec (pr_Profile r))
          \<lparr>cp_Channel = rm_Channel msg, cp_Topic = ''marketing'', cp_MaxSends24h = fst (dv_Quotas d), cp_MaxSends7d = snd (dv_Quotas d)\<rparr>)"

text \<open>Afterwards, if the database answers and the turn neither fails for the moment nor panics, the attempt is closed.\<close>

definition handed_over :: "delivery \<Rightarrow> world \<Rightarrow> campaign_recipient \<Rightarrow> rendered_message \<Rightarrow> stop \<Rightarrow> world \<Rightarrow> bool" where
  "handed_over d w rec msg r w' \<longleftrightarrow> campaign_permitted d w rec msg \<and>
     (healthy w \<and> r = Next \<longrightarrow> attempt_closed w' (ca_ID (dv_Campaign d), cq_ProfileID rec, rm_Channel msg, cq_Endpoint rec))"

definition delivery_ok :: "delivery \<Rightarrow> bool" where
  "delivery_ok d \<longleftrightarrow> p_TenantID (dv_Principal d) = ca_TenantID (dv_Campaign d)"

lemma mark_closes:
  assumes "healthy w" "attempted w (recipient_key d rec tpl)" "closing_decision dec" "dec \<in> set attempt_decisions"
  shows "attempt_closed (after w (mark_attempt d rec tpl dec reason mid snap cost)) (recipient_key d rec tpl)"
proof -
  let ?k = "recipient_key d rec tpl"
  let ?u = "\<lambda>a. a\<lparr>da_Decision := dec, da_Reason := reason, da_ProviderMessageID := mid,
    da_PolicySnapshot := or_empty_obj snap, da_CostMicros := cost\<rparr>"
  from assms(2) have "list_ex (\<lambda>a. attempt_key a = ?k) (w_attempts w)" by (auto simp: attempted_def list_ex_iff)
  then obtain a where a: "find (\<lambda>a. attempt_key a = ?k) (w_attempts w) = Some a" using find_isSome by metis
  then have "attempt_key a = ?k" using find_SomeD by fastforce
  with find_upd_rows [OF a, of ?u "\<lambda>a. attempt_key a = ?k"]
  have "find (\<lambda>a. attempt_key a = ?k) (upd_rows (\<lambda>a. attempt_key a = ?k) ?u (w_attempts w)) = Some (?u a)" by simp
  then show ?thesis
    using assms by (simp add: mark_attempt_def UpdateDeliveryAttempt_def run_transact attempt_is_key recipient_key_def [symmetric] Let_def attempt_closed_def)
qed

lemma mark_healthy: "healthy w \<Longrightarrow> healthy (after w (mark_attempt d rec tpl dec reason mid snap cost))"
  using frame_attempts(2) unfolding mark_attempt_def state_io_rel_def campaign_frame_def healthy_def by metis

lemma settle_closes:
  assumes "healthy w" "attempted w (recipient_key d rec tpl)" "closing_decision dec" "dec \<in> set attempt_decisions"
  shows "attempt_closed (after w (settle_attempt d rec tpl dec reason)) (recipient_key d rec tpl)"
  using mark_closes [OF assms, of reason "[]" None 0]
  by (cases "run_state (mark_attempt d rec tpl dec reason [] None 0) w") (simp add: settle_attempt_def next_recipient_def)

lemma send_error_closes:
  assumes "healthy w" "attempted w (recipient_key d rec tpl)"
    and "run_state (campaign_send_error d rec tpl err) w = (Next, w')"
  shows "attempt_closed w' (recipient_key d rec tpl)"
proof -
  have dec: "''failed'' \<in> set attempt_decisions" "''send_failed'' \<in> set attempt_decisions" by (simp_all add: attempt_decisions_def)
  have last: "attempt_closed w' (recipient_key d rec tpl)" if "run_state (settle_attempt d rec tpl ''failed'' m) w1 = (Next, w')"
    "healthy w1" "w_attempts w1 = w_attempts w" for w1 m
    using settle_closes [OF that(2) _ own_decisions(1) dec(1), of d rec tpl m] that(1,3) assms(2)
    by (simp add: attempted_def)
  show ?thesis
  proof (cases "IsInvalidTokenError err")
    case True
    let ?app = "GetFirstAppID (ca_TenantID (dv_Campaign d)) (ca_WorkspaceID (dv_Campaign d))"
    obtain app w1 where g: "run_state ?app w = (app, w1)" by (cases "run_state ?app w")
    have w1: "healthy w1" "w_attempts w1 = w_attempts w"
      using g assms(1) by (auto simp: GetFirstAppID_def run_query healthy_def split: if_splits)
    let ?ret = "RetireDeviceToken (ca_TenantID (dv_Campaign d)) (case app of Inl _ \<Rightarrow> ''app-1'' | Inr a \<Rightarrow> a) (cq_Endpoint rec)"
    obtain x w2 where r: "run_state ?ret w1 = (x, w2)" by (cases "run_state ?ret w1")
    have "healthy w2" "w_attempts w2 = w_attempts w"
      using r w1 by (auto simp: RetireDeviceToken_def run_exec healthy_def split: if_splits)
    then show ?thesis using assms(3) g r True by (intro last [of "''invalid token retired: '' @ error_text err" w2]) (simp_all add: campaign_send_error_def)
  next
    case False
    show ?thesis
    proof (cases "IsRetryableError err")
      case True
      then show ?thesis using assms(3) False by (simp add: campaign_send_error_def split: prod.splits)
    next
      case no: False
      with settle_closes [OF assms(1,2) own_decisions(6) dec(2)] assms(3) False
      show ?thesis by (simp add: campaign_send_error_def) (metis snd_conv)
    qed
  qed
qed

lemma sent_closes:
  assumes "healthy w" "attempted w (recipient_key d rec tpl)"
  shows "attempt_closed (after w (State_Monad.bind (mark_attempt d rec tpl ''provider_sent'' reason mid snap cost)
    (\<lambda>_. emit_campaign d rec tpl v f snap mid cost))) (recipient_key d rec tpl)"
proof -
  let ?m = "mark_attempt d rec tpl ''provider_sent'' reason mid snap cost"
  have "''provider_sent'' \<in> set attempt_decisions" by (simp add: attempt_decisions_def)
  with mark_closes [OF assms own_decisions(5)] have "attempt_closed (after w ?m) (recipient_key d rec tpl)" .
  moreover have "closing (after w ?m) (after (after w ?m) (emit_campaign d rec tpl v f snap mid cost))"
    using closing_emit [of UNIV] by (simp add: state_io_rel_def)
  ultimately have "attempt_closed (after (after w ?m) (emit_campaign d rec tpl v f snap mid cost)) (recipient_key d rec tpl)"
    by (auto intro: closingD)
  then show ?thesis by (cases "run_state ?m w") simp
qed

lemma hands_send:
  assumes "campaign_permitted d w0 rec msg" "rm_Channel msg = te_Channel tpl" "lead w0 w" "attempted w (recipient_key d rec tpl)"
  shows "hands_at (handed_over d w0 rec) (send_campaign ad d rec tpl v f snap msg) w"
proof -
  let ?w = "(ticked w)\<lparr>w_calls := w_calls w @ [msg]\<rparr>"
  let ?k = "\<lambda>r. case r of Panicked m \<Rightarrow> ret (Crash m) | Raised err \<Rightarrow> campaign_send_error d rec tpl err
     | Returned (providerMsgID, cost) \<Rightarrow> State_Monad.bind (mark_attempt d rec tpl ''provider_sent'' ''eligible'' providerMsgID snap cost)
         (\<lambda>_. emit_campaign d rec tpl v f snap providerMsgID cost)"
  have at: "attempted ?w (recipient_key d rec tpl)" using assms(4) by (simp add: attempted_def)
  have h: "healthy w0 \<Longrightarrow> healthy ?w" using assms(3) by (simp add: lead_def healthy_def)
  have quiet: "state_io_rel silent (?k r)" for r
    by (auto split: outcome.splits prod.splits intro!: hush.store_rules silent_turns)
  have shut: "attempt_closed w' (recipient_key d rec tpl)" if "healthy ?w" "run_state (?k r) ?w = (Next, w')" for r w'
  proof (cases r)
    case (Returned x)
    then show ?thesis using that sent_closes [OF that(1) at, of "''eligible''" "fst x" snap "snd x" v f]
      by (cases x) simp
  next
    case (Raised err)
    then show ?thesis using that(2) send_error_closes [OF that(1) at] by simp
  qed (use that in simp)
  obtain r' w' where run: "run_state (?k (ad (w_tick w) msg)) ?w = (r', w')" by (cases "run_state (?k (ad (w_tick w) msg)) ?w")
  have calls: "w_calls w' = w_calls w @ [msg]" using state_io_relD [OF quiet run] by (simp add: silent_def)
  have "handed_over d w0 rec msg r' w'"
    using assms(1,2) h shut [of "ad (w_tick w) msg" w'] run by (auto simp: handed_over_def recipient_key_def)
  moreover have "run_state (send_campaign ad d rec tpl v f snap msg) w = (r', w')"
    using run by (simp add: send_campaign_def)
  ultimately show ?thesis using calls by (simp add: hands_at_def)
qed

lemma hands_message:
  assumes "\<And>msg w'. lead w w' \<Longrightarrow> rm_Endpoint msg = cq_Endpoint rec \<Longrightarrow> rm_Channel msg = te_Channel tpl \<Longrightarrow>
      rm_IdempotencyKey msg = campaign_key d rec \<Longrightarrow> hands_at P (k msg) w'"
  shows "hands_at P (with_campaign_message cfg d rec tpl f ident k) w"
proof -
  have tick: "state_io_rel lead (State (\<lambda>w. (g w, ticked w)))" for g :: "world \<Rightarrow> 'z" by (simp add: state_io_rel_def ld.tick_ok)
  have part: "hands_at P (campaign_part cfg d rec tpl vars src dflt k) w1"
    if "\<And>x w'. lead w1 w' \<Longrightarrow> hands_at P (k x) w'" for vars src dflt k w1
    unfolding campaign_part_def
  proof (intro hands_if hands_bind tick that ld.evolution_refl)
    fix r w' assume w': "lead w1 w'"
    show "hands_at P (case r of Returned txt \<Rightarrow> k txt
        | Raised err \<Rightarrow> settle_attempt d rec tpl ''render_failed'' (''render error: '' @ error_text err)
        | Panicked m \<Rightarrow> ret (Crash m)) w'"
      by (cases r) (simp_all add: that [OF w'] hands_finish hands_silent hush.evolve_ret)
  qed
  have tracking: "state_io_rel lead (add_tracking cfg subject html)" for subject html
    unfolding add_tracking_def Let_def by (intro ld.store_rules tick)
  show ?thesis unfolding with_campaign_message_def Let_def
    by (intro part hands_bind tracking assms)
      (simp_all add: campaign_message_def, (erule ld.evolution_trans)+, rule ld.evolution_refl)
qed

lemma hands_deliver:
  assumes "delivery_ok d" "lead w0 w" "attempted w (recipient_key d rec tpl)"
    and "da_Decision a \<noteq> ''provider_sent'' \<Longrightarrow> \<not> attempt_closed w0 (recipient_key d rec tpl)"
  shows "hands_at (handed_over d w0 rec) (deliver_attempt cfg d rec tpl v ident a) w"
  unfolding deliver_attempt_def
proof (intro hands_attempt hands_finish)
  show "state_io_rel lead (GetProfileByID (ca_TenantID (dv_Campaign d)) (p_AppID (dv_Principal d)) (cq_ProfileID rec))"
    unfolding GetProfileByID_def by (rule ld.evolve_query)
  fix prof w1
  assume p: "run_state (GetProfileByID (ca_TenantID (dv_Campaign d)) (p_AppID (dv_Principal d)) (cq_ProfileID rec)) w = (Inr prof, w1)"
    and "lead w w1"
  then have w1: "lead w0 w1" using assms(2) ld.evolution_trans by blast
  from p obtain r where "find (campaign_profile d rec) (w_profiles w) = Some r" and prof: "prof = pr_Profile r"
    by (auto simp: GetProfileByID_def campaign_profile_def [abs_def] run_query or_not_found_def split: if_splits option.splits)
  then have r: "find (campaign_profile d rec) (w_profiles w0) = Some r" using assms(2) by (simp add: lead_def)
  show "hands_at (handed_over d w0 rec) (State_Monad.bind (Policy.Evaluate (dv_Principal d) (policy_recipient rec prof) (campaign_caps d tpl)) (\<lambda>v'.
       if vd_Decision v' \<noteq> ''sent'' then
         State_Monad.bind (mark_attempt d rec tpl (vd_Decision v') (vd_Reason v') [] (verdict_snapshot v') 0) (\<lambda>_. next_recipient)
       else with_campaign_message cfg d rec tpl prof ident (\<lambda>msg.
           if da_Decision a = ''provider_sent''
           then emit_campaign d rec tpl v prof (verdict_snapshot v') (da_ProviderMessageID a) 0
           else send_campaign (adapterFor cfg (si_Provider ident)) d rec tpl v prof (verdict_snapshot v') msg))) w1"
  proof (rule hands_bind [OF lead_reads [OF read_only_Evaluate]])
    fix v' w2 assume e: "run_state (Policy.Evaluate (dv_Principal d) (policy_recipient rec prof) (campaign_caps d tpl)) w1 = (v', w2)"
      and w2: "lead w1 w2"
    have sends: "hands_at (handed_over d w0 rec) (send_campaign (adapterFor cfg (si_Provider ident)) d rec tpl v prof (verdict_snapshot v') msg) w3"
      if sent: "vd_Decision v' = ''sent''" and w3: "lead w2 w3" and a: "da_Decision a \<noteq> ''provider_sent''"
        and m: "rm_Endpoint msg = cq_Endpoint rec" "rm_Channel msg = te_Channel tpl" "rm_IdempotencyKey msg = campaign_key d rec" for msg w3
    proof -
      from Evaluate_sent [OF e sent] have "eligible w1 (p_TenantID (dv_Principal d)) (policy_recipient rec prof) (campaign_caps d tpl)" .
      then have el: "eligible w0 (ca_TenantID (dv_Campaign d)) (policy_recipient rec prof) (campaign_caps d tpl)"
        using assms(1) lead_eligible [OF w1] by (simp add: delivery_ok_def)
      have w03: "lead w0 w3" "lead w w3" using w1 w2 w3 \<open>lead w w1\<close> by (blast intro: ld.evolution_trans)+
      have "campaign_permitted d w0 rec msg"
        using el r m assms(4) [OF a] prof by (simp add: campaign_permitted_def campaign_caps_def recipient_key_def)
      then show ?thesis by (rule hands_send [OF _ m(2) w03(1) lead_attempted [OF w03(2) assms(3)]])
    qed
    show "hands_at (handed_over d w0 rec) (if vd_Decision v' \<noteq> ''sent'' then
         State_Monad.bind (mark_attempt d rec tpl (vd_Decision v') (vd_Reason v') [] (verdict_snapshot v') 0) (\<lambda>_. next_recipient)
       else with_campaign_message cfg d rec tpl prof ident (\<lambda>msg.
           if da_Decision a = ''provider_sent''
           then emit_campaign d rec tpl v prof (verdict_snapshot v') (da_ProviderMessageID a) 0
           else send_campaign (adapterFor cfg (si_Provider ident)) d rec tpl v prof (verdict_snapshot v') msg)) w2"
    proof (cases "vd_Decision v' = ''sent''")
      case True
      have "hands_at (handed_over d w0 rec) (with_campaign_message cfg d rec tpl prof ident (\<lambda>msg.
           if da_Decision a = ''provider_sent''
           then emit_campaign d rec tpl v prof (verdict_snapshot v') (da_ProviderMessageID a) 0
           else send_campaign (adapterFor cfg (si_Provider ident)) d rec tpl v prof (verdict_snapshot v') msg)) w2"
        by (rule hands_message, rule hands_if, rule hands_finish, rule sends [OF True])
      with True show ?thesis by simp
    next
      case False
      have "hands_at (handed_over d w0 rec)
        (State_Monad.bind (mark_attempt d rec tpl (vd_Decision v') (vd_Reason v') [] (verdict_snapshot v') 0) (\<lambda>_. next_recipient)) w2"
        by (intro hands_silent hush.store_rules silent_turns)
      with False show ?thesis by simp
    qed
  qed
qed

lemma hands_row:
  assumes "\<And>a w'. lead w w' \<Longrightarrow> attempted w' (recipient_key d rec tpl) \<Longrightarrow>
      (da_Decision a \<noteq> ''provider_sent'' \<Longrightarrow> \<not> attempt_closed w (recipient_key d rec tpl)) \<Longrightarrow> hands_at P (k a) w'"
  shows "hands_at P (with_attempt d rec tpl v k) w"
  unfolding with_attempt_def
proof (rule hands_attempt)
  show "state_io_rel lead (CreateDeliveryAttempt (new_attempt d rec tpl v))"
    by (rule lead_create) (simp add: new_attempt_def)
  show "hands_at P next_recipient w'" for w' by (rule hands_finish)
  fix inserted w1 assume c: "run_state (CreateDeliveryAttempt (new_attempt d rec tpl v)) w = (Inr inserted, w1)" and w1: "lead w w1"
  let ?get = "GetDeliveryAttempt (ca_ID (dv_Campaign d)) (cq_ProfileID rec) (te_Channel tpl) (cq_Endpoint rec)"
  show "hands_at P (if inserted then k (new_attempt d rec tpl v) else attempt ?get (\<lambda>_. next_recipient)
      (\<lambda>existing. if open_decision (da_Decision existing) then k existing else next_recipient)) w1"
  proof (cases inserted)
    case True
    with c Create_True [of d rec tpl v w w1] show ?thesis using w1 by (simp add: assms absent_open)
  next
    case False
    with c Create_False [of d rec tpl v w w1] have at: "attempted w (recipient_key d rec tpl)" and "w1 = ticked w" by auto
    then have k: "hands_at P (k a) w2" if "run_state ?get w1 = (Inr a, w2)" "open_decision (da_Decision a)" for a w2
    proof -
      from Get_Inr [OF that(1)] \<open>w1 = ticked w\<close> have a: "find (\<lambda>a. attempt_key a = recipient_key d rec tpl) (w_attempts w) = Some a"
        and "w2 = ticked w1" by simp_all
      then have w2: "lead w w2" using w1 ld.tick_ok ld.evolution_trans by blast
      show ?thesis by (rule assms [OF w2 lead_attempted [OF w2 at]])
          (use a that(2) in \<open>simp add: attempt_closed_def closing_decision_def\<close>)
    qed
    have "hands_at P (attempt ?get (\<lambda>_. next_recipient)
      (\<lambda>existing. if open_decision (da_Decision existing) then k existing else next_recipient)) w1"
    proof (rule hands_attempt)
      show "state_io_rel lead ?get" unfolding GetDeliveryAttempt_def by (rule ld.evolve_query)
      show "hands_at P next_recipient w'" for w' by (rule hands_finish)
      show "hands_at P (if open_decision (da_Decision a) then k a else next_recipient) w2"
        if "run_state ?get w1 = (Inr a, w2)" for a w2 using k [OF that] by (simp add: hands_finish)
    qed
    with False show ?thesis by simp
  qed
qed

lemma hands_stamp:
  assumes "\<And>w'. lead w w' \<Longrightarrow> hands_at P k w'"
  shows "hands_at P (stamp_experiment d rec tpl v k) w"
  unfolding stamp_experiment_def
  by (cases "dv_Experiment d") (auto intro!: hands_attempt lead_stamp hands_finish assms ld.evolution_refl)

text \<open>Assigning a variant and looking up the identity do not touch the attempts.\<close>

definition poise :: "world \<Rightarrow> world \<Rightarrow> bool" where
  "poise w w' \<longleftrightarrow> lead w w' \<and> w_attempts w' = w_attempts w"

interpretation ps: store_evolution poise
  by unfold_locales (auto simp: poise_def ld.tick_ok ld.evolution_refl intro: ld.evolution_trans)

lemma hands_poise:
  assumes "state_io_rel poise m" "\<And>e w'. hands_at P (h e) w'"
    and "\<And>x w'. run_state m w = (Inr x, w') \<Longrightarrow> poise w w' \<Longrightarrow> hands_at P (k x) w'"
  shows "hands_at P (attempt m h k) w"
  by (rule hands_attempt) (auto intro: assms state_io_rel_mono [OF assms(1)] dest: state_io_relD [OF assms(1)] simp: poise_def)

lemma poise_assign: "state_io_rel poise (AssignExperiment p e f v)"
  using lead_assign frame.assign_ok [of p e f v] by (simp add: state_io_rel_def poise_def engine_frame_def)

lemma hands_variant:
  assumes k: "\<And>tpl v w'. poise w w' \<Longrightarrow> hands_at P (k tpl v) w'"
  shows "hands_at P (with_variant d rec k) w"
proof (cases "dv_Experiment d")
  case None
  then show ?thesis by (simp add: with_variant_def k ps.evolution_refl)
next
  case (Some ev)
  obtain e vs where ev: "ev = (e, vs)" by (cases ev)
  have tpl: "state_io_rel poise (GetTemplate p i)" for p i unfolding GetTemplate_def by (rule ps.evolve_query)
  have "hands_at P (case find (\<lambda>v. xv_Label v = xa_Variant a \<and> xv_TemplateID v \<noteq> None \<and> xv_TemplateID v \<noteq> Some []) vs of
        None \<Rightarrow> k (dv_Template d) (xa_Variant a)
      | Some v \<Rightarrow> attempt (GetTemplate (dv_Principal d) (the (xv_TemplateID v))) (\<lambda>_. next_recipient) (\<lambda>tpl. k tpl (xa_Variant a))) w1"
    if w1: "poise w w1" for a w1
  proof (cases "find (\<lambda>v. xv_Label v = xa_Variant a \<and> xv_TemplateID v \<noteq> None \<and> xv_TemplateID v \<noteq> Some []) vs")
    case None
    then show ?thesis by (simp add: k w1)
  next
    case (Some v)
    have "hands_at P (k tpl (xa_Variant a)) w2" if "poise w1 w2" for tpl w2
      by (rule k [OF ps.evolution_trans [OF w1 that]])
    then have "hands_at P (attempt (GetTemplate (dv_Principal d) (the (xv_TemplateID v))) (\<lambda>_. next_recipient) (\<lambda>tpl. k tpl (xa_Variant a))) w1"
      by (intro hands_poise tpl hands_finish)
    with Some show ?thesis by simp
  qed
  then show ?thesis unfolding with_variant_def Some ev option.case prod.case by (intro hands_poise poise_assign hands_finish)
qed

lemma hands_identity:
  assumes k: "\<And>x w'. poise w w' \<Longrightarrow> hands_at P (k x) w'"
  shows "hands_at P (recipient_identity d rec tpl k) w"
proof -
  have q: "state_io_rel poise (ListActiveDeviceTokens a b c)" "state_io_rel poise (ListSendingIdentities p)"
    "state_io_rel poise (GetSendingIdentity p i)" for a b c p i
    unfolding ListActiveDeviceTokens_def ListSendingIdentities_def GetSendingIdentity_def by (rule ps.evolve_query)+
  have push: "hands_at P (attempt (ListSendingIdentities (dv_Principal d)) (\<lambda>_. k x) (\<lambda>idents. k (y idents))) w1" if w1: "poise w w1" for x y w1
  proof -
    have "hands_at P (k z) w2" if "poise w1 w2" for z w2 by (rule k [OF ps.evolution_trans [OF w1 that]])
    then show ?thesis unfolding attempt_def
      by (intro hands_bind state_io_rel_mono [OF q(2)]) (auto simp: poise_def split: sum.splits dest!: state_io_relD [OF q(2)])
  qed
  have tokens: "hands_at P (case find (\<lambda>t. dt_Token t = cq_Endpoint rec) ts of None \<Rightarrow> next_recipient
      | Some m \<Rightarrow> attempt (ListSendingIdentities (dv_Principal d)) (\<lambda>_. k (mk_identity ''push'' (dt_Provider m)))
                (\<lambda>idents. k (push_identity idents (dt_Provider m)))) w1" if "poise w w1" for ts w1
    by (cases "find (\<lambda>t. dt_Token t = cq_Endpoint rec) ts") (simp_all add: push that hands_finish)
  show ?thesis unfolding recipient_identity_def
    by (intro hands_if hands_poise q hands_finish tokens k ps.evolution_refl)
qed

lemma hands_turn:
  assumes "delivery_ok d"
  shows "hands_at (handed_over d w rec) (deliver_recipient cfg d rec) w"
proof -
  have row: "hands_at (handed_over d w rec) (with_attempt d rec tpl v (\<lambda>a. stamp_experiment d rec tpl v
      (deliver_attempt cfg d rec tpl v ident a))) w1" if w1: "poise w w1" for tpl v ident w1
  proof (rule hands_row)
    fix a :: delivery_attempt and w2 assume w2: "lead w1 w2" "attempted w2 (recipient_key d rec tpl)"
      and a: "da_Decision a \<noteq> ''provider_sent'' \<Longrightarrow> \<not> attempt_closed w1 (recipient_key d rec tpl)"
    have "lead w w2" using w1 w2(1) by (auto simp: poise_def intro: ld.evolution_trans)
    moreover have "da_Decision a \<noteq> ''provider_sent'' \<Longrightarrow> \<not> attempt_closed w (recipient_key d rec tpl)"
      using a w1 by (simp add: poise_def attempt_closed_def)
    ultimately show "hands_at (handed_over d w rec) (stamp_experiment d rec tpl v (deliver_attempt cfg d rec tpl v ident a)) w2"
      using w2(2) by (intro hands_stamp hands_deliver assms) (auto intro: ld.evolution_trans lead_attempted)
  qed
  have ident: "hands_at (handed_over d w rec) (recipient_identity d rec tpl (\<lambda>ident. with_attempt d rec tpl v (\<lambda>a. stamp_experiment d rec tpl v
      (deliver_attempt cfg d rec tpl v ident a)))) w1" if "poise w w1" for tpl v w1
    by (rule hands_identity, rule row, rule ps.evolution_trans [OF that])
  show ?thesis unfolding deliver_recipient_def by (rule hands_variant, rule ident)
qed

section \<open>One job\<close>

text \<open>
  The messages of the loop, matched with the entries of the list they answer; each was permitted when its turn
  began, so its attempt was open from the start.
\<close>

definition answers :: "delivery \<Rightarrow> world \<Rightarrow> rendered_message \<Rightarrow> campaign_recipient \<Rightarrow> bool" where
  "answers d w msg rec \<longleftrightarrow> (\<exists>w1. reaches w w1 \<and> closing w w1 \<and> campaign_permitted d w1 rec msg)"

lemma answers_back: "reaches w w1 \<Longrightarrow> closing w w1 \<Longrightarrow> answers d w1 msg rec \<Longrightarrow> answers d w msg rec"
  unfolding answers_def by (blast intro: rtranclp_trans cls.evolution_trans)

definition answered :: "delivery \<Rightarrow> world \<Rightarrow> rendered_message list \<Rightarrow> campaign_recipient list \<Rightarrow> bool" where
  "answered d w msgs recs \<longleftrightarrow> (\<exists>rs. subseq rs recs \<and> list_all2 (answers d w) msgs rs)"

lemma answered_Nil [simp]: "answered d w [] recs"
  unfolding answered_def by (rule exI [of _ "[]"]) simp

lemma answered_append: "answered d w ms rs \<Longrightarrow> answered d w ns ss \<Longrightarrow> answered d w (ms @ ns) (rs @ ss)"
  unfolding answered_def by (blast intro: list_emb_append_mono list_all2_appendI)

lemma answered_back: "reaches w w1 \<Longrightarrow> closing w w1 \<Longrightarrow> answered d w1 msgs recs \<Longrightarrow> answered d w msgs recs"
  unfolding answered_def by (blast intro: list_all2_mono answers_back)

lemma turn_answers:
  assumes "delivery_ok d" "run_state (deliver_recipient cfg d rec) w = (r, w')"
  shows "\<exists>msgs. w_calls w' = w_calls w @ msgs \<and> answered d w msgs [rec] \<and> reaches w w' \<and> closing w w'"
proof -
  have w': "reaches w w'" "closing w w'"
    using state_io_relD [OF ceng.evolve_deliver_recipient assms(2)] state_io_relD [OF closing_turn assms(2)] by auto
  from hands_turn [OF assms(1), of w rec cfg] assms(2)
  consider "w_calls w' = w_calls w" | msg where "w_calls w' = w_calls w @ [msg]" "campaign_permitted d w rec msg"
    by (auto simp: hands_at_def handed_over_def)
  then show ?thesis
  proof cases
    case 2
    then have "answers d w msg rec" unfolding answers_def using cls.evolution_refl by blast
    then have "answered d w [msg] [rec]" unfolding answered_def by (intro exI [of _ "[rec]"]) simp
    with 2 w' show ?thesis by blast
  qed (use w' in \<open>auto intro: exI [of _ "[]"]\<close>)
qed

lemma turns_answer:
  assumes "delivery_ok d"
  shows "\<exists>msgs. w_calls (after w (deliver_recipients cfg d recs acc)) = w_calls w @ msgs \<and> answered d w msgs recs"
proof (induction recs arbitrary: w acc)
  case (Cons rec recs)
  obtain r w1 where t: "run_state (deliver_recipient cfg d rec) w = (r, w1)" by (cases "run_state (deliver_recipient cfg d rec) w")
  from turn_answers [OF assms t] obtain ms where ms: "w_calls w1 = w_calls w @ ms" "answered d w ms [rec]"
    and w1: "reaches w w1" "closing w w1" by blast
  have more: "\<exists>msgs. w_calls (after w1 (deliver_recipients cfg d recs acc')) = w_calls w @ msgs \<and> answered d w msgs (rec # recs)"
    for acc'
  proof -
    from Cons [of acc' w1] obtain ns where ns: "w_calls (after w1 (deliver_recipients cfg d recs acc')) = w_calls w1 @ ns"
      "answered d w1 ns recs" by blast
    from answered_append [OF ms(2) answered_back [OF w1 ns(2)]] show ?thesis
      using ns(1) ms(1) by (intro exI [of _ "ms @ ns"]) simp
  qed
  have "answered d w ms (rec # recs)" using answered_append [OF ms(2), of "[]" recs] by simp
  with ms(1) t more show ?case by (cases r) auto
qed simp

text \<open>The job that was claimed and what its turns share.\<close>

definition claimed_job :: "world \<Rightarrow> delivery_job \<Rightarrow> bool" where
  "claimed_job w job \<longleftrightarrow> (\<exists>j \<in> set (w_delivery_jobs w). job_claimable (w_now w) j \<and> job = taken_delivery (w_now w) j)"

definition delivers :: "world \<Rightarrow> delivery_job \<Rightarrow> delivery \<Rightarrow> bool" where
  "delivers w job d \<longleftrightarrow> delivery_ok d \<and> dv_Campaign d \<in> set (w_campaigns w) \<and> ca_ID (dv_Campaign d) = dj_CampaignID job \<and>
     ca_TenantID (dv_Campaign d) = dj_TenantID job \<and> tenant_caps w (dj_TenantID job) (dv_Quotas d)"

lemma ClaimDeliveryJob_Some:
  assumes "run_state (ClaimDeliveryJob worker) w = (Inr (Some job), w1)"
  shows "claimed_job w job"
proof -
  from assms obtain j where "least_by dj_AvailableAt (filter (job_claimable (w_now w)) (w_delivery_jobs w)) = Some j"
    and "job = taken_delivery (w_now w) j"
    by (auto simp: ClaimDeliveryJob_def run_db split: if_splits option.splits)
  with least_by_Some [OF this(1)] show ?thesis by (auto simp: claimed_job_def)
qed

lemma silent_finish_delivery: "state_io_rel silent (finish_delivery job r)"
  unfolding finish_delivery_def done_ok_def Let_def by (cases r) (auto intro!: hush.store_rules silent_calls)

lemma silent_give_up: "state_io_rel silent (give_up_job job m)"
  unfolding give_up_job_def done_ok_def by (intro hush.store_rules silent_calls)

lemma after_silent: "state_io_rel silent m \<Longrightarrow> w_calls (after w m) = w_calls w"
  by (simp add: state_io_rel_def silent_def)

lemma after_read: "state_io_rel read_only m \<Longrightarrow> run_state m w = (x, w') \<Longrightarrow> read_only w w'"
  by (rule state_io_relD)

text \<open>A job is given up before its first turn, or its recipients take their turns.\<close>

lemma deliver_job_cases:
  obtains (gives_up) m w1 where "read_only w w1" "run_state (deliver_job cfg job) w = run_state (give_up_job job m) w1"
  | (turns) d w1 where "read_only w w1" "delivers w job d" "run_state (deliver_job cfg job) w =
      run_state (State_Monad.bind (deliver_recipients cfg d (dj_Recipients job) Next) (finish_delivery job)) w1"
proof -
  have ro: "state_io_rel read_only (GetCampaignSystem t i)" "state_io_rel read_only (GetFirstAppID t ws)"
    "state_io_rel read_only (GetTemplate p i)" "state_io_rel read_only (GetTenantFatigueQuotas p)" for t i ws p
    unfolding GetCampaignSystem_def GetFirstAppID_def GetTemplate_def GetTenantFatigueQuotas_def by (rule ro.evolve_query)+
  have exper: "state_io_rel read_only (job_experiment p camp)" for p camp
    unfolding job_experiment_def failed_def by (intro ro.store_rules read_only_GetExperiment)
  obtain c w1 where c: "run_state (GetCampaignSystem (dj_TenantID job) (dj_CampaignID job)) w = (c, w1)"
    by (cases "run_state (GetCampaignSystem (dj_TenantID job) (dj_CampaignID job)) w")
  note w1 = after_read [OF ro(1) c]
  show thesis
  proof (cases c)
    case (Inl e)
    then show thesis using gives_up [OF w1] c by (simp add: deliver_job_def)
  next
    case camp: (Inr camp)
    have row: "camp \<in> set (w_campaigns w)" "ca_TenantID camp = dj_TenantID job" "ca_ID camp = dj_CampaignID job"
      using c [unfolded camp] by (auto simp: GetCampaignSystem_def run_query or_not_found_def dest!: find_SomeD split: if_splits option.splits)
    obtain app w2 where app: "run_state (GetFirstAppID (ca_TenantID camp) (ca_WorkspaceID camp)) w1 = (app, w2)"
      by (cases "run_state (GetFirstAppID (ca_TenantID camp) (ca_WorkspaceID camp)) w1")
    let ?p = "campaign_principal camp app"
    have p: "p_TenantID ?p = ca_TenantID camp" by (simp add: campaign_principal_def tenant_principal_def)
    obtain tpl w3 where tpl: "run_state (GetTemplate ?p (ca_TemplateID camp)) w2 = (tpl, w3)"
      by (cases "run_state (GetTemplate ?p (ca_TemplateID camp)) w2")
    note w3 = read_only_trans [OF w1 read_only_trans [OF after_read [OF ro(2) app] after_read [OF ro(3) tpl]]]
    obtain q w4 where q: "run_state (GetTenantFatigueQuotas ?p) w3 = (q, w4)" by (cases "run_state (GetTenantFatigueQuotas ?p) w3")
    obtain e w5 where e: "run_state (job_experiment ?p camp) w4 = (e, w5)" by (cases "run_state (job_experiment ?p camp) w4")
    note w5 = read_only_trans [OF w3 read_only_trans [OF after_read [OF ro(4) q] after_read [OF exper e]]]
    have caps: "tenant_caps w (dj_TenantID job) (case q of Inl _ \<Rightarrow> (5, 20) | Inr q \<Rightarrow> q)"
      using q w3 p row(2) by (auto simp: GetTenantFatigueQuotas_def run_query tenant_caps_def read_only_def split: if_splits option.splits)
    note run = deliver_job_def Let_def c camp app tpl q e
    show thesis
    proof (cases "\<exists>m. tpl = Inl m \<or> e = Inl m")
      case True
      then show thesis using gives_up [OF w3] gives_up [OF w5] by (cases tpl) (auto simp: run)
    next
      case False
      then obtain tp x where ok: "tpl = Inr tp" "e = Inr x" by (cases tpl; cases e) auto
      let ?d = "\<lparr>dv_Campaign = camp, dv_Principal = ?p, dv_Template = tp,
            dv_Quotas = (case q of Inl _ \<Rightarrow> (5, 20) | Inr q \<Rightarrow> q), dv_Experiment = x\<rparr>"
      have "delivers w job ?d" using row caps p by (simp add: delivers_def delivery_ok_def)
      then show thesis by (rule turns [OF w5]) (simp add: run ok)
    qed
  qed
qed

lemma job_answers:
  "\<exists>msgs. w_calls (after w (deliver_job cfg job)) = w_calls w @ msgs \<and>
     (msgs = [] \<or> (\<exists>d w1. delivers w job d \<and> read_only w w1 \<and> answered d w1 msgs (dj_Recipients job)))"
proof (cases rule: deliver_job_cases [where w = w and cfg = cfg and job = job])
  case (gives_up m w1)
  then show ?thesis using after_silent [OF silent_give_up, of job m w1] by (auto simp: read_only_def)
next
  case (turns d w1)
  let ?m = "deliver_recipients cfg d (dj_Recipients job) Next"
  obtain r w2 where m: "run_state ?m w1 = (r, w2)" by (cases "run_state ?m w1")
  from turns_answer [of d cfg "dj_Recipients job" Next w1] turns(2) m obtain msgs where
    "w_calls w2 = w_calls w1 @ msgs" "answered d w1 msgs (dj_Recipients job)" by (auto simp: delivers_def)
  moreover have "w_calls w1 = w_calls w" using turns(1) by (auto simp: read_only_def)
  ultimately show ?thesis using after_silent [OF silent_finish_delivery, of job r w2] m turns by auto
qed

text \<open>A recipient whose message went out is not sent another one on the channel by this campaign.\<close>

lemma not_again:
  assumes h: "healthy w" and d: "delivery_ok d" and t: "run_state (deliver_recipient cfg d rec) w = (Next, w1)"
    and m: "w_calls w1 = w_calls w @ [msg]" and d': "delivery_ok d'" "ca_ID (dv_Campaign d') = ca_ID (dv_Campaign d)"
    and later: "w_calls (after w1 (deliver_recipients cfg' d' recs acc)) = w_calls w1 @ msgs" "msg' \<in> set msgs"
  shows "(rm_Channel msg', rm_Endpoint msg', rm_IdempotencyKey msg') \<noteq> (rm_Channel msg, rm_Endpoint msg, rm_IdempotencyKey msg)"
proof
  assume same: "(rm_Channel msg', rm_Endpoint msg', rm_IdempotencyKey msg') = (rm_Channel msg, rm_Endpoint msg, rm_IdempotencyKey msg)"
  from hands_turn [OF d, of w rec cfg] t m h have p: "campaign_permitted d w rec msg"
    and shut: "attempt_closed w1 (ca_ID (dv_Campaign d), cq_ProfileID rec, rm_Channel msg, cq_Endpoint rec)"
    by (auto simp: hands_at_def handed_over_def)
  from turns_answer [OF d'(1), of cfg' recs acc w1] later obtain rs where "list_all2 (answers d' w1) msgs rs"
    by (auto simp: answered_def)
  with later(2) obtain rec' where "answers d' w1 msg' rec'" by (metis in_set_conv_nth list_all2_conv_all_nth)
  then obtain w2 where w2: "closing w1 w2" "campaign_permitted d' w2 rec' msg'" by (auto simp: answers_def)
  have "cq_Endpoint rec' = cq_Endpoint rec" "campaign_key d' rec' = campaign_key d rec"
    using p w2(2) same by (auto simp: campaign_permitted_def)
  moreover from this(2) have "cq_ProfileID rec' = cq_ProfileID rec" using d'(2) by (simp add: campaign_key_def)
  ultimately have "\<not> attempt_closed w2 (ca_ID (dv_Campaign d), cq_ProfileID rec, rm_Channel msg, cq_Endpoint rec)"
    using w2(2) same d'(2) by (simp add: campaign_permitted_def)
  with closingD [OF w2(1) _ shut] show False by simp
qed

end
