(* ===== verification/CampaignState.thy ===== *)
theory CampaignState
  imports CampaignSends
begin

text \<open>
  The life of a campaign. The steps of the dispatcher, the delivery workers and the API on the tables of
  campaigns and jobs form a transition system; a campaign that is being sent to somebody has an active job in
  every state it reaches, so it can always be worked on and is settled with its last job. A campaign sent to
  nobody has no job, and no worker ever settles it.
\<close>

section \<open>Steps\<close>

inductive worker_step :: "world \<Rightarrow> world \<Rightarrow> bool" where
  elsewhere: "w_campaigns w' = w_campaigns w \<Longrightarrow> w_delivery_jobs w' = w_delivery_jobs w \<Longrightarrow>
    w_uuid w' = w_uuid w \<Longrightarrow> w_seq w \<le> w_seq w' \<Longrightarrow> worker_step w w'"
| claims: "worker_step w (after w (ClaimDeliveryJob worker))"
| completes: "worker_step w (after w (CompleteDeliveryJob jobID))"
| fails: "worker_step w (after w (FailDeliveryJob jobID msg))"

inductive campaign_step :: "world \<Rightarrow> world \<Rightarrow> bool" where
  works: "worker_step w w' \<Longrightarrow> campaign_step w w'"
| builds: "campaign_step w (after w ClaimScheduledCampaign)"
| saves: "jobs \<noteq> [] \<or> n = 0 \<Longrightarrow>
    campaign_step w (after w (SaveCampaignManifestAndJobs interval campaignID key n sv tv goal win jobs))"
| edits: "ca_Status c \<noteq> ''sending'' \<Longrightarrow> campaign_step w (after w (UpdateCampaign p c))"
| drafts: "ca_Status c \<noteq> ''sending'' \<Longrightarrow> campaign_step w (after w (CreateCampaign p c))"

inductive_cases worker_stepE: "worker_step w w'"

section \<open>The invariant\<close>

definition jobs_of :: "world \<Rightarrow> string \<Rightarrow> delivery_job list" where
  "jobs_of w c = filter (\<lambda>j. dj_CampaignID j = c) (w_delivery_jobs w)"

definition job_wf :: "delivery_job \<Rightarrow> bool" where
  "job_wf j \<longleftrightarrow> (dj_Status j = ''pending'' \<longrightarrow> dj_Attempts j < 3) \<and> (dj_Status j = ''processing'' \<longrightarrow> dj_LockedUntil j \<noteq> None)"

definition campaign_live :: "world \<Rightarrow> campaign \<Rightarrow> bool" where
  "campaign_live w c \<longleftrightarrow> (ca_Status c = ''sending'' \<and> ca_RecipientCount c \<noteq> 0 \<longrightarrow> list_ex job_active (jobs_of w (ca_ID c)))"

text \<open>The database hands out an identifier once, so those of the jobs are distinct.\<close>

definition job_ids :: "world \<Rightarrow> bool" where
  "job_ids w \<longleftrightarrow> inj (w_uuid w) \<and> distinct (map dj_ID (w_delivery_jobs w)) \<and>
     dj_ID ` set (w_delivery_jobs w) \<subseteq> w_uuid w ` {..<w_seq w}"

definition campaigns_ok :: "world \<Rightarrow> bool" where
  "campaigns_ok w \<longleftrightarrow> job_ids w \<and> list_all job_wf (w_delivery_jobs w) \<and> list_all (campaign_live w) (w_campaigns w)"

lemma job_ids_mono:
  assumes "job_ids w" "map dj_ID (w_delivery_jobs w') = map dj_ID (w_delivery_jobs w)" "w_uuid w' = w_uuid w" "w_seq w \<le> w_seq w'"
  shows "job_ids w'"
proof -
  have "dj_ID ` set (w_delivery_jobs w') = dj_ID ` set (w_delivery_jobs w)" using assms(2) by (metis set_map)
  moreover have "w_uuid w ` {..<w_seq w} \<subseteq> w_uuid w ` {..<w_seq w'}" using assms(4) by (intro image_mono) auto
  ultimately show ?thesis using assms unfolding job_ids_def by auto
qed

lemma campaigns_ok_mono:
  assumes "campaigns_ok w" "w_campaigns w' = w_campaigns w" "w_delivery_jobs w' = w_delivery_jobs w" "w_uuid w' = w_uuid w" "w_seq w \<le> w_seq w'"
  shows "campaigns_ok w'"
  using assms job_ids_mono [of w w'] by (simp add: campaigns_ok_def campaign_live_def [abs_def] jobs_of_def)

lemma ok_ticked: "campaigns_ok w \<Longrightarrow> campaigns_ok (ticked w)"
  using campaigns_ok_mono [of w "ticked w"] by simp

text \<open>A change of the jobs that keeps them well-formed, in their campaign, and active when they were.\<close>

lemma jobs_upd_ok:
  assumes "campaigns_ok w" "\<And>j. dj_ID (f j) = dj_ID j" "\<And>j. dj_CampaignID (f j) = dj_CampaignID j" "\<And>j. job_wf j \<Longrightarrow> job_wf (f j)"
    and "\<And>j. job_active j \<Longrightarrow> job_active (f j)"
  shows "campaigns_ok (w\<lparr>w_delivery_jobs := upd_rows P f (w_delivery_jobs w)\<rparr>)"
proof -
  let ?w = "w\<lparr>w_delivery_jobs := upd_rows P f (w_delivery_jobs w)\<rparr>"
  have "list_ex job_active (filter (\<lambda>j. dj_CampaignID j = c) (upd_rows P f js))"
    if "list_ex job_active (filter (\<lambda>j. dj_CampaignID j = c) js)" for c js
    using that assms(3,5) by (induction js) (auto split: if_splits)
  then have "campaign_live w c \<Longrightarrow> campaign_live ?w c" for c by (simp add: campaign_live_def jobs_of_def)
  then have "list_all (campaign_live ?w) (w_campaigns ?w)" using assms(1) by (simp add: campaigns_ok_def list_all_iff)
  moreover have "job_ids ?w"
    by (rule job_ids_mono [of w]) (use assms(1,2) in \<open>simp_all add: campaigns_ok_def map_upd_rows\<close>)
  moreover have "list_all job_wf (w_delivery_jobs ?w)"
    using assms(1,4) by (auto simp: campaigns_ok_def list_all_iff set_upd_rows)
  ultimately show ?thesis by (simp add: campaigns_ok_def)
qed

lemma claim_ok:
  assumes "campaigns_ok w"
  shows "campaigns_ok (after w (ClaimDeliveryJob worker))"
proof -
  have "campaigns_ok ((ticked w)\<lparr>w_delivery_jobs := upd_rows (\<lambda>x. dj_ID x = i) (taken_delivery now) (w_delivery_jobs (ticked w))\<rparr>)" for i now
    by (rule jobs_upd_ok) (simp_all add: ok_ticked assms taken_delivery_def job_wf_def job_active_def)
  with ok_ticked [OF assms] show ?thesis by (auto simp: ClaimDeliveryJob_def run_db split: option.split)
qed

text \<open>The last job settles its campaign.\<close>

lemma settle_ok:
  assumes wf: "job_ids w" "list_all job_wf (w_delivery_jobs w)" and live: "\<And>c. c \<in> set (w_campaigns w) \<Longrightarrow> ca_ID c \<noteq> i \<Longrightarrow> campaign_live w c"
  shows "campaigns_ok (settle_campaign i w)"
proof (cases "list_ex job_active (jobs_of w i)")
  case True
  then have "settle_campaign i w = w" by (simp add: settle_campaign_def jobs_of_def Let_def)
  moreover have "campaign_live w c" if "c \<in> set (w_campaigns w)" for c
    using True live [OF that] by (cases "ca_ID c = i") (simp_all add: campaign_live_def)
  ultimately show ?thesis using wf by (simp add: campaigns_ok_def list_all_iff)
next
  case False
  let ?s = "if list_ex job_failed (jobs_of w i) then ''failed'' else ''completed''"
  let ?f = "\<lambda>c. c\<lparr>ca_Status := ?s, ca_UpdatedAt := w_now w\<rparr>"
  have s: "settle_campaign i w = w\<lparr>w_campaigns := upd_rows (\<lambda>c. ca_ID c = i) ?f (w_campaigns w)\<rparr>"
    using False by (simp add: settle_campaign_def jobs_of_def Let_def)
  have "campaign_live w c" if "c \<in> set (upd_rows (\<lambda>c. ca_ID c = i) ?f (w_campaigns w))" for c
  proof -
    have "?s \<noteq> ''sending''" by simp
    with that live show ?thesis by (auto simp: set_upd_rows campaign_live_def)
  qed
  moreover have "job_ids (w\<lparr>w_campaigns := cs\<rparr>)" for cs using wf(1) by (simp add: job_ids_def)
  ultimately show ?thesis using wf(2) unfolding s by (simp add: campaigns_ok_def list_all_iff campaign_live_def jobs_of_def)
qed

lemma end_job_ok:
  assumes ok: "campaigns_ok w" and f: "\<And>w j. job_wf (f w j)" "\<And>w j. dj_CampaignID (f w j) = dj_CampaignID j" "\<And>w j. dj_ID (f w j) = dj_ID j"
  shows "campaigns_ok (after w (end_job f jobID))"
proof (cases "w_fault w (w_tick w) \<or> find (\<lambda>j. dj_ID j = jobID) (w_delivery_jobs w) = None")
  case True
  then show ?thesis using ok_ticked [OF ok] by (auto simp: end_job_def run_transact)
next
  case False
  then obtain j where j: "find (\<lambda>j. dj_ID j = jobID) (w_delivery_jobs w) = Some j" and up: "\<not> w_fault w (w_tick w)" by auto
  let ?w = "(ticked w)\<lparr>w_delivery_jobs := upd_rows (\<lambda>j. dj_ID j = jobID) (f (ticked w)) (w_delivery_jobs w)\<rparr>"
  have run: "after w (end_job f jobID) = settle_campaign (dj_CampaignID j) ?w"
    using j up by (simp add: end_job_def run_transact)
  have same: "x = j" if "x \<in> set (w_delivery_jobs w)" "dj_ID x = jobID" for x
    using that find_SomeD [OF j] ok by (auto simp: campaigns_ok_def job_ids_def distinct_map inj_on_def)
  have other: "jobs_of ?w c = jobs_of w c" if "c \<noteq> dj_CampaignID j" for c
  proof -
    have "filter (\<lambda>j. dj_CampaignID j = c) (upd_rows (\<lambda>j. dj_ID j = jobID) (f (ticked w)) js) = filter (\<lambda>j. dj_CampaignID j = c) js"
      if "set js \<subseteq> set (w_delivery_jobs w)" for js
      using that \<open>c \<noteq> dj_CampaignID j\<close> f(2) same by (induction js) auto
    then show ?thesis by (simp add: jobs_of_def)
  qed
  show ?thesis unfolding run
  proof (rule settle_ok)
    show "job_ids ?w" by (rule job_ids_mono [of w]) (use ok f(3) in \<open>simp_all add: campaigns_ok_def map_upd_rows\<close>)
    show "list_all job_wf (w_delivery_jobs ?w)" using ok f(1) by (auto simp: campaigns_ok_def list_all_iff set_upd_rows)
    show "campaign_live ?w c" if "c \<in> set (w_campaigns ?w)" "ca_ID c \<noteq> dj_CampaignID j" for c
      using that ok other by (simp add: campaigns_ok_def list_all_iff campaign_live_def)
  qed
qed

lemma worker_ok: "worker_step w w' \<Longrightarrow> campaigns_ok w \<Longrightarrow> campaigns_ok w'"
proof (induction rule: worker_step.induct)
  case (completes w jobID)
  then show ?case unfolding CompleteDeliveryJob_def by (rule end_job_ok) (simp_all add: completed_job_def job_wf_def)
next
  case (fails w jobID msg)
  then show ?case unfolding FailDeliveryJob_def by (rule end_job_ok) (simp_all add: failed_delivery_def job_wf_def)
qed (auto intro: campaigns_ok_mono claim_ok)

text \<open>Rows of campaigns that are not being sent may change freely.\<close>

lemma campaigns_upd_ok:
  assumes "campaigns_ok w" "w_delivery_jobs w' = w_delivery_jobs w" "w_uuid w' = w_uuid w" "w_seq w \<le> w_seq w'"
    and "\<And>c. c \<in> set (w_campaigns w') \<Longrightarrow> c \<in> set (w_campaigns w) \<or> ca_Status c \<noteq> ''sending''"
  shows "campaigns_ok w'"
proof -
  have "job_ids w'" using assms(1-4) job_ids_mono [of w w'] by (simp add: campaigns_ok_def)
  moreover have "campaign_live w' c" if "c \<in> set (w_campaigns w')" for c
    using assms(1,2) assms(5) [OF that] by (auto simp: campaigns_ok_def list_all_iff campaign_live_def jobs_of_def)
  ultimately show ?thesis using assms(1,2) by (simp add: campaigns_ok_def list_all_iff)
qed

lemma build_ok: "campaigns_ok w \<Longrightarrow> campaigns_ok (after w ClaimScheduledCampaign)"
  by (rule campaigns_upd_ok [of w])
    (auto simp: ClaimScheduledCampaign_def run_db Let_def set_upd_rows split: option.splits if_splits)

lemma seq_audit [simp]: "w_seq (audit p a b c m w) = Suc (w_seq w)"
  by (simp add: audit_def Let_def)

lemma edit_ok: "campaigns_ok w \<Longrightarrow> ca_Status c \<noteq> ''sending'' \<Longrightarrow> campaigns_ok (after w (UpdateCampaign p c))"
  by (rule campaigns_upd_ok [of w])
    (auto simp: UpdateCampaign_def run_transact Let_def set_upd_rows edited_campaign_def split: option.splits if_splits)

lemma draft_ok: "campaigns_ok w \<Longrightarrow> ca_Status c \<noteq> ''sending'' \<Longrightarrow> campaigns_ok (after w (CreateCampaign p c))"
  by (rule campaigns_upd_ok [of w]) (auto simp: CreateCampaign_def run_transact Let_def split: if_splits)

lemma insert_jobs_ids: "job_ids w \<Longrightarrow> job_ids (insert_jobs c jobs w)"
proof (induction c jobs w rule: insert_jobs.induct)
  case (2 c job jobs w)
  have new: "w_uuid w (w_seq w) \<notin> w_uuid w ` {..<w_seq w}" using 2(2) by (auto simp: job_ids_def dest: injD)
  show ?case unfolding insert_jobs.simps
    by (rule 2(1)) (use 2(2) new in \<open>auto simp: job_ids_def new_id_def lessThan_Suc\<close>)
qed simp

lemma insert_jobs_wf: "list_all job_wf (w_delivery_jobs w) \<Longrightarrow> list_all job_wf (w_delivery_jobs (insert_jobs c jobs w))"
  by (induction c jobs w rule: insert_jobs.induct) (simp_all add: job_wf_def)

lemma save_ok:
  assumes ok: "campaigns_ok w" and n: "jobs \<noteq> [] \<or> n = 0"
  shows "campaigns_ok (after w (SaveCampaignManifestAndJobs interval i key n sv tv goal win jobs))"
proof -
  let ?save = "SaveCampaignManifestAndJobs interval i key n sv tv goal win jobs"
  obtain r w' where run: "run_state ?save w = (r, w')" by (cases "run_state ?save w")
  show ?thesis
  proof (cases r)
    case (Inl e)
    then have "w' = ticked w" using run transact_Inl unfolding SaveCampaignManifestAndJobs_def by blast
    then show ?thesis using run ok_ticked [OF ok] by simp
  next
    case (Inr x)
    from SaveCampaign_Inr [OF run [unfolded Inr]] obtain window new where
      cs: "w_campaigns w' = upd_rows (\<lambda>c. ca_ID c = i) (dispatched_row key n sv tv goal window (w_now w)) (w_campaigns w)"
      and js: "w_delivery_jobs w' = w_delivery_jobs w @ new"
      and new: "map job_load new = map (\<lambda>j. (i, dj_TenantID j, dj_Shard j, ''pending'', dj_Recipients j)) jobs" by blast
    obtain u where w': "w' = insert_jobs i jobs u" and u: "job_ids u" "list_all job_wf (w_delivery_jobs u)"
    proof -
      have "\<exists>window. w' = insert_jobs i jobs ((ticked w)\<lparr>w_campaigns := window\<rparr>)"
        using transact_Inr [OF run [unfolded Inr SaveCampaignManifestAndJobs_def]] by (auto split: option.splits if_splits)
      then show ?thesis using ok that by (auto simp: campaigns_ok_def job_ids_def)
    qed
    have jobs: "jobs_of w' c = jobs_of w c @ filter (\<lambda>j. dj_CampaignID j = c) new" for c by (simp add: jobs_of_def js)
    have active: "n \<noteq> 0 \<Longrightarrow> list_ex job_active (jobs_of w' i)"
    proof -
      assume "n \<noteq> 0"
      with n obtain j js where "jobs = j # js" by (cases jobs) auto
      with new obtain b bs where b: "new = b # bs" "job_load b = (i, dj_TenantID j, dj_Shard j, ''pending'', dj_Recipients j)"
        by (cases new) auto
      then show ?thesis by (simp add: jobs job_load_def job_active_def)
    qed
    have "campaign_live w' c" if "c \<in> set (w_campaigns w')" for c
      using that ok active unfolding cs
      by (auto simp: set_upd_rows dispatched_row_def campaign_live_def campaigns_ok_def list_all_iff jobs)
    then show ?thesis using insert_jobs_ids [OF u(1)] insert_jobs_wf [OF u(2)] run
      by (simp add: campaigns_ok_def list_all_iff w')
  qed
qed

lemma campaign_step_ok: "campaign_step w w' \<Longrightarrow> campaigns_ok w \<Longrightarrow> campaigns_ok w'"
  by (induction rule: campaign_step.induct) (auto intro: worker_ok build_ok save_ok edit_ok draft_ok)

lemma campaign_steps_ok: "campaign_step\<^sup>*\<^sup>* w w' \<Longrightarrow> campaigns_ok w \<Longrightarrow> campaigns_ok w'"
  by (induction rule: rtranclp_induct) (auto intro: campaign_step_ok)

text \<open>The calls that leave the jobs, the campaigns and the identifiers alone are steps, so the programs are sequences of steps.\<close>

definition jobs_frame :: "world \<Rightarrow> world \<Rightarrow> bool" where
  "jobs_frame w w' \<longleftrightarrow> w_campaigns w' = w_campaigns w \<and> w_delivery_jobs w' = w_delivery_jobs w \<and> w_uuid w' = w_uuid w \<and> w_seq w \<le> w_seq w'"

interpretation jfr: store_evolution jobs_frame
  by unfold_locales (auto simp: jobs_frame_def)

lemma frame_steps: "state_io_rel jobs_frame m \<Longrightarrow> state_io_rel campaign_step\<^sup>*\<^sup>* m"
  by (erule state_io_rel_mono) (auto simp: jobs_frame_def intro: worker_step.elsewhere campaign_step.works)

lemma engine_jobs_frame: "state_io_rel engine_frame m \<Longrightarrow> state_io_rel jobs_frame m"
  by (erule state_io_rel_mono) (simp add: engine_frame_def jobs_frame_def)

lemma jobs_frame_calls:
  "state_io_rel jobs_frame (RetireDeviceToken t app tok)" "state_io_rel jobs_frame (send_message ad msg)"
  "state_io_rel jobs_frame (put_manifest env key m)" "state_io_rel jobs_frame (CreateDeliveryAttempt a)"
  "state_io_rel jobs_frame (UpdateDeliveryAttempt c f ch ep dec reason mid snap cost)"
  "state_io_rel jobs_frame (SetDeliveryAttemptExperiment t c f ch e v)"
proof -
  show "state_io_rel jobs_frame (RetireDeviceToken t app tok)"
    unfolding RetireDeviceToken_def by (intro jfr.evolve_exec) (simp add: jobs_frame_def)
  show "state_io_rel jobs_frame (send_message ad msg)" by (simp add: state_io_rel_def jobs_frame_def)
  show "state_io_rel jobs_frame (put_manifest env key m)"
    by (simp add: state_io_rel_def put_manifest_def jobs_frame_def split: option.splits)
  show "state_io_rel jobs_frame (CreateDeliveryAttempt a)"
    unfolding CreateDeliveryAttempt_def transact_def by (intro jfr.store_rules jfr.evolve_db) (auto simp: jobs_frame_def)
  show "state_io_rel jobs_frame (UpdateDeliveryAttempt c f ch ep dec reason mid snap cost)"
    unfolding UpdateDeliveryAttempt_def transact_def by (intro jfr.evolve_db) (simp add: jobs_frame_def Let_def)
  show "state_io_rel jobs_frame (SetDeliveryAttemptExperiment t c f ch e v)"
    unfolding SetDeliveryAttemptExperiment_def by (intro jfr.evolve_db) (simp add: jobs_frame_def Let_def)
qed

lemmas campaign_frames = jobs_frame_calls [THEN frame_steps]
  frame.profile_ok [THEN engine_jobs_frame, THEN frame_steps] frame.accept_ok [THEN engine_jobs_frame, THEN frame_steps]
  frame.assign_ok [THEN engine_jobs_frame, THEN frame_steps]

lemma call_steps: "(\<And>w. campaign_step w (after w m)) \<Longrightarrow> state_io_rel campaign_step\<^sup>*\<^sup>* m"
  by (simp add: state_io_rel_def r_into_rtranclp)

interpretation cst: campaign_effects "campaign_step\<^sup>*\<^sup>*"
proof unfold_locales
  show read: "campaign_step\<^sup>*\<^sup>* w w'" if "read_only w w'" for w w'
    using that by (auto simp: read_only_def intro!: r_into_rtranclp campaign_step.works worker_step.elsewhere)
  show "campaign_step\<^sup>*\<^sup>* w (ticked w)" for w by (rule read) simp
qed (auto intro: campaign_frames call_steps campaign_step.intros worker_step.intros simp del: run_send_message)

section \<open>Statuses and decisions\<close>

definition job_statuses :: "string list" where
  "job_statuses = [''pending'', ''processing'', ''completed'', ''failed'', ''dead'']"

text \<open>Every row holds one of the values its column allows.\<close>

definition rows_typed :: "world \<Rightarrow> bool" where
  "rows_typed w \<longleftrightarrow> list_all (\<lambda>c. ca_Status c \<in> set campaign_statuses) (w_campaigns w) \<and>
     list_all (\<lambda>j. dj_Status j \<in> set job_statuses) (w_delivery_jobs w) \<and>
     list_all (\<lambda>a. da_Decision a \<in> set attempt_decisions) (w_attempts w)"

definition typed_kept :: "world \<Rightarrow> world \<Rightarrow> bool" where
  "typed_kept w w' \<longleftrightarrow> (rows_typed w \<longrightarrow> rows_typed w')"

interpretation tyk: store_evolution typed_kept
  by unfold_locales (auto simp: typed_kept_def rows_typed_def)

lemma typed_transact: "(\<And>w x w'. f w = Inr (x, w') \<Longrightarrow> typed_kept w w') \<Longrightarrow> state_io_rel typed_kept (transact f)"
  unfolding transact_def by (rule tyk.evolve_db) (auto split: sum.splits prod.splits simp: tyk.evolution_refl)

lemma typed_statuses [simp]:
  "''building'' \<in> set campaign_statuses" "''sending'' \<in> set campaign_statuses" "''failed'' \<in> set campaign_statuses"
  "''completed'' \<in> set campaign_statuses" "''pending'' \<in> set job_statuses" "''processing'' \<in> set job_statuses"
  "''completed'' \<in> set job_statuses" "''failed'' \<in> set job_statuses" "''dead'' \<in> set job_statuses"
  by (simp_all add: campaign_statuses_def job_statuses_def)

lemma typed_ticked: "rows_typed (ticked w) = rows_typed w"
  by (simp add: rows_typed_def)

lemma typed_insert_jobs: "rows_typed w \<Longrightarrow> rows_typed (insert_jobs c jobs w)"
  by (induction c jobs w rule: insert_jobs.induct) (simp_all add: rows_typed_def)

lemma typed_settle: "rows_typed w \<Longrightarrow> rows_typed (settle_campaign c w)"
  by (auto simp: settle_campaign_def Let_def rows_typed_def list_all_iff set_upd_rows)

lemma typed_end_job:
  assumes "\<And>w j. dj_Status (f w j) \<in> set job_statuses"
  shows "state_io_rel typed_kept (end_job f jobID)"
  unfolding end_job_def
  by (intro typed_transact)
    (use assms in \<open>auto simp: typed_kept_def rows_typed_def list_all_iff set_upd_rows split: option.splits
      intro!: typed_settle [unfolded rows_typed_def list_all_iff]\<close>)

lemma typed_campaigns:
  "state_io_rel typed_kept ClaimScheduledCampaign" "state_io_rel typed_kept (UpdateCampaign p c)" "state_io_rel typed_kept (CreateCampaign p c)"
  "state_io_rel typed_kept (SaveCampaignManifestAndJobs interval i key n sv tv goal win jobs)"
proof -
  show "state_io_rel typed_kept ClaimScheduledCampaign"
    unfolding ClaimScheduledCampaign_def
    by (intro tyk.evolve_db) (auto simp: typed_kept_def rows_typed_def list_all_iff set_upd_rows Let_def split: option.splits)
  show "state_io_rel typed_kept (UpdateCampaign p c)"
    unfolding UpdateCampaign_def
    by (intro typed_transact) (auto simp: typed_kept_def rows_typed_def list_all_iff set_upd_rows Let_def edited_campaign_def
        campaign_valid_def split: option.splits if_splits)
  show "state_io_rel typed_kept (CreateCampaign p c)"
    unfolding CreateCampaign_def
    by (intro typed_transact) (auto simp: typed_kept_def rows_typed_def list_all_iff Let_def campaign_valid_def split: if_splits)
  show "state_io_rel typed_kept (SaveCampaignManifestAndJobs interval i key n sv tv goal win jobs)"
    unfolding SaveCampaignManifestAndJobs_def
    by (intro typed_transact)
      (auto simp: typed_kept_def rows_typed_def list_all_iff set_upd_rows split: option.splits if_splits
        intro!: typed_insert_jobs [unfolded rows_typed_def list_all_iff])
qed

lemma typed_jobs:
  "state_io_rel typed_kept (ClaimDeliveryJob worker)" "state_io_rel typed_kept (CompleteDeliveryJob j)"
  "state_io_rel typed_kept (FailDeliveryJob j msg)"
proof -
  show "state_io_rel typed_kept (ClaimDeliveryJob worker)"
    unfolding ClaimDeliveryJob_def
    by (intro tyk.evolve_db) (auto simp: typed_kept_def rows_typed_def list_all_iff set_upd_rows taken_delivery_def split: option.splits)
  show "state_io_rel typed_kept (CompleteDeliveryJob j)"
    unfolding CompleteDeliveryJob_def by (rule typed_end_job) (simp add: completed_job_def)
  show "state_io_rel typed_kept (FailDeliveryJob j msg)"
    unfolding FailDeliveryJob_def by (rule typed_end_job) (simp add: failed_delivery_def)
qed

lemma typed_attempts:
  "state_io_rel typed_kept (CreateDeliveryAttempt a)"
  "state_io_rel typed_kept (UpdateDeliveryAttempt c f ch ep dec reason mid snap cost)"
  "state_io_rel typed_kept (SetDeliveryAttemptExperiment t c f ch e v)"
proof -
  show "state_io_rel typed_kept (CreateDeliveryAttempt a)"
    unfolding CreateDeliveryAttempt_def
    by (intro tyk.store_rules typed_transact) (auto simp: typed_kept_def rows_typed_def split: if_splits)
  show "state_io_rel typed_kept (UpdateDeliveryAttempt c f ch ep dec reason mid snap cost)"
    unfolding UpdateDeliveryAttempt_def
    by (intro typed_transact) (auto simp: typed_kept_def rows_typed_def list_all_iff list_ex_iff set_upd_rows Let_def split: if_splits)
  show "state_io_rel typed_kept (SetDeliveryAttemptExperiment t c f ch e v)"
    unfolding SetDeliveryAttemptExperiment_def
    by (intro tyk.evolve_db) (auto simp: typed_kept_def rows_typed_def list_all_iff set_upd_rows Let_def)
qed

lemma typed_others:
  "state_io_rel typed_kept (RetireDeviceToken t app tok)" "state_io_rel typed_kept (send_message ad msg)"
  "state_io_rel typed_kept (put_manifest env key m)"
  unfolding RetireDeviceToken_def
  by (intro tyk.evolve_exec, simp add: typed_kept_def rows_typed_def)
    (simp_all add: state_io_rel_def put_manifest_def typed_kept_def rows_typed_def split: option.splits)

lemma typed_engine: "state_io_rel engine_frame m \<Longrightarrow> state_io_rel typed_kept m"
  by (erule state_io_rel_mono) (simp add: engine_frame_def typed_kept_def rows_typed_def)

interpretation tyc: campaign_effects typed_kept
proof unfold_locales
  show "typed_kept w w'" if "read_only w w'" for w w' using that by (auto simp: typed_kept_def read_only_def rows_typed_def)
qed (auto intro: typed_campaigns typed_jobs typed_attempts typed_others typed_engine frame.profile_ok frame.accept_ok frame.assign_ok)

section \<open>A campaign under way can be worked on\<close>

lemma active_claimable:
  assumes "job_active j" "job_wf j"
  shows "\<exists>t. \<forall>now \<ge> t. job_claimable now j"
proof -
  consider "dj_Status j = ''processing''" | "dj_Status j = ''pending''" | "dj_Status j = ''failed''" "dj_Attempts j < 3"
    using assms(1) by (auto simp: job_active_def)
  then show ?thesis
  proof cases
    case 1
    with assms(2) obtain t where "dj_LockedUntil j = Some t" by (auto simp: job_wf_def)
    with 1 show ?thesis by (intro exI [of _ t]) (simp add: job_claimable_def expired_def)
  qed (use assms(2) in \<open>auto intro!: exI [of _ "dj_AvailableAt j"] simp: job_claimable_def job_wf_def\<close>)
qed

lemma claim_gives:
  assumes "healthy w" "j \<in> set (w_delivery_jobs w)" "job_claimable (w_now w) j"
  shows "\<exists>job w'. run_state (ClaimDeliveryJob worker) w = (Inr (Some job), w')"
proof -
  have "least_by dj_AvailableAt (filter (job_claimable (w_now w)) (w_delivery_jobs w)) \<noteq> None"
    using assms(2,3) by (auto simp: least_by_None filter_empty_conv)
  then show ?thesis using assms(1) by (auto simp: ClaimDeliveryJob_def run_db)
qed

section \<open>A campaign sent to nobody\<close>

definition idle :: "string \<Rightarrow> world \<Rightarrow> bool" where
  "idle c w \<longleftrightarrow> jobs_of w c = [] \<and> ca_Status ` {camp \<in> set (w_campaigns w). ca_ID camp = c} = {''sending''}"

lemma jobs_of_upd:
  "(\<And>j. dj_CampaignID (f j) = dj_CampaignID j) \<Longrightarrow> jobs_of w c = [] \<Longrightarrow>
   jobs_of (w\<lparr>w_delivery_jobs := upd_rows P f (w_delivery_jobs w)\<rparr>) c = []"
  by (auto simp: jobs_of_def filter_empty_conv set_upd_rows)

lemma idle_upd:
  assumes "i \<noteq> c" "\<And>r. ca_ID (f r) = ca_ID r"
  shows "ca_Status ` {camp \<in> set (upd_rows (\<lambda>x. ca_ID x = i) f rs). ca_ID camp = c} = ca_Status ` {camp \<in> set rs. ca_ID camp = c}"
proof -
  have "{camp \<in> set (upd_rows (\<lambda>x. ca_ID x = i) f rs). ca_ID camp = c} = {camp \<in> set rs. ca_ID camp = c}"
    using assms by (induction rs) (auto split: if_splits)
  then show ?thesis by simp
qed

lemma idle_frame: "idle c w \<Longrightarrow> w_campaigns w' = w_campaigns w \<Longrightarrow> jobs_of w' c = jobs_of w c \<Longrightarrow> idle c w'"
  by (simp add: idle_def)

lemma idle_settle:
  assumes "idle c w" "i \<noteq> c"
  shows "idle c (settle_campaign i w)"
proof -
  have "jobs_of (settle_campaign i w) c = []" using assms(1) by (simp add: idle_def settle_campaign_def Let_def jobs_of_def)
  moreover have "ca_Status ` {camp \<in> set (w_campaigns (settle_campaign i w)). ca_ID camp = c} =
      ca_Status ` {camp \<in> set (w_campaigns w). ca_ID camp = c}"
    by (auto simp: settle_campaign_def Let_def simp del: Collect_conj_eq intro!: idle_upd [OF assms(2)])
  ultimately show ?thesis using assms(1) by (simp only: idle_def)
qed

lemma idle_end_job:
  assumes f: "\<And>w j. dj_CampaignID (f w j) = dj_CampaignID j" and idle: "idle c w"
  shows "idle c (after w (end_job f jobID))"
proof (cases "w_fault w (w_tick w) \<or> find (\<lambda>j. dj_ID j = jobID) (w_delivery_jobs w) = None")
  case True
  then have "after w (end_job f jobID) = ticked w" by (auto simp: end_job_def run_transact)
  then show ?thesis using idle_frame [OF idle, of "ticked w"] by (simp add: jobs_of_def)
next
  case False
  then obtain j where j: "find (\<lambda>j. dj_ID j = jobID) (w_delivery_jobs w) = Some j" and up: "\<not> w_fault w (w_tick w)" by auto
  let ?w = "(ticked w)\<lparr>w_delivery_jobs := upd_rows (\<lambda>j. dj_ID j = jobID) (f (ticked w)) (w_delivery_jobs w)\<rparr>"
  have none: "jobs_of w c = []" using idle by (simp add: idle_def)
  then have "dj_CampaignID j \<noteq> c" using find_SomeD [OF j] by (auto simp: jobs_of_def filter_empty_conv)
  moreover have "jobs_of ?w c = []" using jobs_of_upd [of "f (ticked w)" "ticked w" c] f none by (simp add: jobs_of_def)
  then have "idle c ?w" using none by (intro idle_frame [OF idle]) simp_all
  ultimately have "idle c (settle_campaign (dj_CampaignID j) ?w)" by (intro idle_settle)
  then show ?thesis using j up by (simp add: end_job_def run_transact)
qed

lemma idle_claim:
  assumes "idle c w"
  shows "idle c (after w (ClaimDeliveryJob worker))"
proof -
  have none: "jobs_of w c = []" using assms by (simp add: idle_def)
  have "jobs_of ((ticked w)\<lparr>w_delivery_jobs := upd_rows P (taken_delivery now) (w_delivery_jobs (ticked w))\<rparr>) c = []" for P now
    by (rule jobs_of_upd) (use none in \<open>simp_all add: taken_delivery_def jobs_of_def\<close>)
  then have "jobs_of (after w (ClaimDeliveryJob worker)) c = []" using none
    by (auto simp: ClaimDeliveryJob_def run_db jobs_of_def split: option.split)
  moreover have "w_campaigns (after w (ClaimDeliveryJob worker)) = w_campaigns w"
    by (auto simp: ClaimDeliveryJob_def run_db split: option.split)
  ultimately show ?thesis using none by (intro idle_frame [OF assms]) simp_all
qed

lemma idle_step: "worker_step w w' \<Longrightarrow> idle c w \<Longrightarrow> idle c w'"
proof (induction rule: worker_step.induct)
  case (elsewhere w' w)
  then show ?case by (intro idle_frame [OF elsewhere(5)]) (simp_all add: jobs_of_def)
next
  case (claims w worker)
  then show ?case by (rule idle_claim)
next
  case (completes w jobID)
  then show ?case unfolding CompleteDeliveryJob_def by (intro idle_end_job) (simp_all add: completed_job_def)
next
  case (fails w jobID msg)
  then show ?case unfolding FailDeliveryJob_def by (intro idle_end_job) (simp_all add: failed_delivery_def)
qed

lemma idle_steps: "worker_step\<^sup>*\<^sup>* w w' \<Longrightarrow> idle c w \<Longrightarrow> idle c w'"
  by (induction rule: rtranclp_induct) (auto intro: idle_step)

end
