(* ===== verification/CampaignSamples.thy ===== *)
theory CampaignSamples
  imports Samples CampaignState
begin

text \<open>
  A campaign on which the properties are instantiated: a segment with one manual member, who has an address and
  has subscribed, a template, and an adapter that takes every message.
\<close>

definition sample_segment :: segment where
  "sample_segment = \<lparr>sg_ID = ''sg'', sg_TenantID = ''t'', sg_WorkspaceID = ''w'', sg_Name = ''n'', sg_Description = [],
     sg_Type = ''static'', sg_Status = ''active'', sg_DSL = None, sg_Version = 1, sg_CreatedAt = 0, sg_UpdatedAt = 0\<rparr>"

definition sample_campaign :: campaign where
  "sample_campaign = \<lparr>ca_ID = ''c'', ca_TenantID = ''t'', ca_WorkspaceID = ''w'', ca_Name = ''n'', ca_Description = None,
     ca_SegmentID = ''sg'', ca_TemplateID = ''tpl'', ca_ExperimentID = None, ca_ConversionGoal = None, ca_AttributionWindow = None,
     ca_Status = ''scheduled'', ca_ScheduledAt = Some 0, ca_ManifestKey = None, ca_SegmentVersion = 0, ca_TemplateVersion = 0,
     ca_EvaluatedAt = None, ca_RecipientCount = 0, ca_CreatedAt = 0, ca_UpdatedAt = 0\<rparr>"

definition campaign_world :: world where
  "campaign_world = empty_world\<lparr>w_profiles := [(person ''p'' (Some ''x''))\<lparr>pr_AppID := ''app''\<rparr>],
     w_apps := [\<lparr>ap_ID = ''app'', ap_TenantID = ''t'', ap_WorkspaceID = ''w''\<rparr>],
     w_templates := [sample_template], w_segments := [sample_segment], w_campaigns := [sample_campaign],
     w_members := [\<lparr>sm_SegmentID = ''sg'', sm_ProfileID = ''p'', sm_TenantID = ''t'', sm_Membership = ''include'', sm_CreatedAt = 0\<rparr>],
     w_consents := [\<lparr>cr_TenantID = ''t'', cr_WorkspaceID = ''w'', cr_AppID = ''app'',
        cr_Consent = \<lparr>co_ProfileID = ''p'', co_Channel = ''email'', co_Topic = ''marketing'', co_State = ''subscribed'', co_OccurredAt = 0\<rparr>,
        cr_Evidence = None, cr_SourceEventID = None\<rparr>]\<rparr>"

definition blob_env :: dispatch_env where
  "blob_env = \<lparr>de_Interval = Some, de_Put = (\<lambda>_ _. None), de_Get = (\<lambda>_ _. None)\<rparr>"

definition sample_config :: config_rec where
  "sample_config = \<lparr>cf_TrackingSecretKey = [], cf_TrackingBaseURL = [], cf_Registry = None, cf_Adapter = Some (\<lambda>_ _. Returned (''m'', 7)),
     cf_SESAdapter = None, cf_WebhookAdapter = None, cf_FakeAdapter = None, cf_NewAdapter = (\<lambda>_ _ _. Returned (''m'', 7)),
     cf_Render = (\<lambda>_ _ s _. Returned s), cf_RewriteLinks = (\<lambda>_ h _. Inr h), cf_SignOpenToken = (\<lambda>_. Inr []),
     cf_LoadLocation = (\<lambda>_. None)\<rparr>"

definition sample_delivery :: delivery where
  "sample_delivery = \<lparr>dv_Campaign = sample_campaign, dv_Principal = campaign_principal sample_campaign (Inr ''app''),
     dv_Template = sample_template, dv_Quotas = (5, 20), dv_Experiment = None\<rparr>"

definition sample_recipient :: campaign_recipient where
  "sample_recipient = \<lparr>cq_ProfileID = ''p'', cq_Endpoint = ''a''\<rparr>"

lemma campaign_healthy: "healthy campaign_world"
  by (simp add: healthy_def campaign_world_def empty_world_def)

lemma sample_dispatch: "fst (run_state (DispatchNext blob_env) campaign_world) = (True, None)"
  by code_simp

lemma sample_turn:
  "fst (run_state (deliver_recipient sample_config sample_delivery sample_recipient) campaign_world) = Next"
  "length (w_calls (after campaign_world (deliver_recipient sample_config sample_delivery sample_recipient))) = 1"
  by code_simp+

lemma sample_dispatched:
  "w_campaigns (after campaign_world (DispatchNext blob_env)) \<noteq> []"
  "ca_Status (hd (w_campaigns (after campaign_world (DispatchNext blob_env)))) = ''sending''"
  "ca_RecipientCount (hd (w_campaigns (after campaign_world (DispatchNext blob_env)))) = 1"
proof -
  have "map (\<lambda>c. (ca_Status c, ca_RecipientCount c)) (w_campaigns (after campaign_world (DispatchNext blob_env))) = [(''sending'', 1)]"
    by code_simp
  then show "w_campaigns (after campaign_world (DispatchNext blob_env)) \<noteq> []"
    "ca_Status (hd (w_campaigns (after campaign_world (DispatchNext blob_env)))) = ''sending''"
    "ca_RecipientCount (hd (w_campaigns (after campaign_world (DispatchNext blob_env)))) = 1" by auto
qed

lemma campaign_world_ok: "campaigns_ok campaign_world" "rows_typed campaign_world"
proof -
  have "inj (w_uuid campaign_world)" by (auto simp: campaign_world_def empty_world_def inj_def dest: arg_cong [of _ _ length])
  then show "campaigns_ok campaign_world"
    by (simp add: campaigns_ok_def job_ids_def campaign_live_def campaign_world_def empty_world_def sample_campaign_def)
  show "rows_typed campaign_world" by code_simp
qed

text \<open>The same campaign with an empty segment.\<close>

definition nobody_world :: world where
  "nobody_world = campaign_world\<lparr>w_members := []\<rparr>"

lemma nobody_dispatched:
  "fst (run_state (DispatchNext blob_env) nobody_world) = (True, None)"
  "fst (run_state ClaimScheduledCampaign nobody_world) = Inr (Some (sample_campaign\<lparr>ca_Status := ''building''\<rparr>))"
  "w_delivery_jobs (after nobody_world (DispatchNext blob_env)) = []"
  by code_simp+

end
