(* ===== verification/Queues.thy ===== *)
theory Queues
  imports Projection Catalog Events
begin

text \<open>
  The queues beside the projection queue: the outbox of \<^verbatim>\<open>internal/postgres/outbox.go\<close> with the dispatcher of
  \<^verbatim>\<open>internal/dispatcher/dispatcher.go\<close>, the operation jobs of \<^verbatim>\<open>internal/postgres/operations.go\<close>, and the
  administration of dead letters in \<^verbatim>\<open>internal/postgres/admin.go\<close>.

  A worker claims a row for the time of a lease, and completes it or gives it back with a delay; after ten attempts
  the row is dead. The event publisher is an argument: what it answers to the \<open>n\<close>-th call.
\<close>

section \<open>The outbox\<close>

record outbox_event =
  oe_ID :: string
  oe_TenantID :: string
  oe_Topic :: string
  oe_PartitionKey :: string
  oe_EventID :: string
  oe_Payload :: json

definition outbox_event_of :: "outbox_row \<Rightarrow> outbox_event" where
  "outbox_event_of r = \<lparr>oe_ID = ob_ID r, oe_TenantID = ob_TenantID r, oe_Topic = ob_Topic r, oe_PartitionKey = ob_PartitionKey r,
     oe_EventID = ob_EventID r, oe_Payload = ob_Payload r\<rparr>"

definition lapsed :: "time \<Rightarrow> time option \<Rightarrow> bool" where
  "lapsed now l \<longleftrightarrow> (case l of None \<Rightarrow> False | Some t \<Rightarrow> t < now)"

definition outbox_ready :: "time \<Rightarrow> outbox_row \<Rightarrow> bool" where
  "outbox_ready now r \<longleftrightarrow> (ob_Status r = ''pending'' \<or> ob_Status r = ''processing'' \<and> lapsed now (ob_LockedUntil r)) \<and>
     ob_AvailableAt r \<le> now"

definition outbox_lease :: duration where
  "outbox_lease = 30 * second"

definition taken_outbox :: "time \<Rightarrow> outbox_row \<Rightarrow> outbox_row" where
  "taken_outbox now r = r\<lparr>ob_Status := ''processing'', ob_Attempts := ob_Attempts r + 1, ob_LockedUntil := Some (now + outbox_lease)\<rparr>"

definition claim_outbox :: "(outbox_row \<Rightarrow> bool) \<Rightarrow> outbox_event option call" where
  "claim_outbox topic = db (\<lambda>w.
     case least_by ob_CreatedAt (filter (\<lambda>r. topic r \<and> outbox_ready (w_now w) r) (w_outbox w)) of
       None \<Rightarrow> (Inr None, w)
     | Some r \<Rightarrow> (Inr (Some (outbox_event_of r)),
         w\<lparr>w_outbox := upd_rows (\<lambda>x. ob_ID x = ob_ID r) (taken_outbox (w_now w)) (w_outbox w)\<rparr>))"

definition general_topic :: "outbox_row \<Rightarrow> bool" where
  "general_topic r \<longleftrightarrow> \<not> has_prefix ''exports.'' (ob_Topic r)"

definition ClaimOutboxEvent :: "outbox_event option call" where
  "ClaimOutboxEvent = claim_outbox general_topic"

definition ClaimExportOutboxEvent :: "outbox_event option call" where
  "ClaimExportOutboxEvent = claim_outbox (\<lambda>r. ob_Topic r = ''exports.events.v1'')"

definition published_outbox :: "time \<Rightarrow> outbox_row \<Rightarrow> outbox_row" where
  "published_outbox now r = r\<lparr>ob_Status := ''published'', ob_PublishedAt := Some now, ob_LockedUntil := None, ob_LastError := None\<rparr>"

definition CompleteOutboxEvent :: "string \<Rightarrow> unit call" where
  "CompleteOutboxEvent i = exec (\<lambda>w. w\<lparr>w_outbox := upd_rows (\<lambda>r. ob_ID r = i) (published_outbox (w_now w)) (w_outbox w)\<rparr>)"

definition failed_outbox :: "time \<Rightarrow> string \<Rightarrow> outbox_row \<Rightarrow> outbox_row" where
  "failed_outbox now message r = r\<lparr>ob_Status := (if ob_Attempts r \<ge> 10 then ''dead'' else ''pending''),
     ob_AvailableAt := now + min (ob_Attempts r) 10 * (5 * second), ob_LockedUntil := None, ob_LastError := Some message\<rparr>"

definition FailOutboxEvent :: "string \<Rightarrow> err \<Rightarrow> unit call" where
  "FailOutboxEvent i publishErr = exec (\<lambda>w. w\<lparr>w_outbox := upd_rows (\<lambda>r. ob_ID r = i)
     (failed_outbox (w_now w) (take 1000 (error_text publishErr))) (w_outbox w)\<rparr>)"

text \<open>
  The replay of a window of events to an export pipeline. A null column is the empty string of the struct, and the
  text of a \<^verbatim>\<open>timestamptz\<close> in JSON is an argument. An event that has a row for the topic already is left out.
\<close>

definition json_text :: "string \<Rightarrow> json" where
  "json_text s = (if s = [] then JNull else JStr s)"

definition replay_payload :: "(time \<Rightarrow> string) \<Rightarrow> string \<Rightarrow> accepted_event \<Rightarrow> json" where
  "replay_payload ts pipelineID e = (let p = ae_Principal e in JObj
     [(''event_id'', JStr (ae_ID e)), (''tenant_id'', JStr (p_TenantID p)), (''workspace_id'', JStr (p_WorkspaceID p)),
      (''app_id'', JStr (p_AppID p)), (''event_type'', JStr (ae_Type e)), (''schema_version'', JInt (ae_SchemaVersion e)),
      (''external_id'', json_text (ae_ExternalID e)), (''anonymous_id'', json_text (ae_AnonymousID e)),
      (''occurred_at'', JStr (ts (ae_OccurredAt e))), (''received_at'', JStr (ts (ae_ReceivedAt e))),
      (''source'', JStr (ae_Source e)), (''source_event_id'', json_text (ae_SourceEventID e)),
      (''correlation_id'', json_text (ae_CorrelationID e)), (''causation_id'', json_text (ae_CausationID e)),
      (''traceparent'', json_text (ae_Traceparent e)), (''data_classification'', JStr (ae_DataClassification e)),
      (''consent_context'', json_of_raw (ae_ConsentContext e)), (''payload'', json_of_raw (ae_Payload e)),
      (''export_pipeline_ids'', JArr [JStr pipelineID])])"

definition nullableTime :: "time \<Rightarrow> time option" where
  "nullableTime t = (if t = zero_time then None else Some t)"

definition in_window :: "time \<Rightarrow> time \<Rightarrow> time \<Rightarrow> bool" where
  "in_window start stop t \<longleftrightarrow> (case nullableTime start of None \<Rightarrow> True | Some s \<Rightarrow> s \<le> t) \<and>
     (case nullableTime stop of None \<Rightarrow> True | Some s \<Rightarrow> t < s)"

definition replayed :: "world \<Rightarrow> string \<Rightarrow> string \<Rightarrow> string \<Rightarrow> time \<Rightarrow> time \<Rightarrow> accepted_event list" where
  "replayed w tenantID workspaceID appID start stop = filter (\<lambda>e.
     p_TenantID (ae_Principal e) = tenantID \<and> p_WorkspaceID (ae_Principal e) = workspaceID \<and> p_AppID (ae_Principal e) = appID \<and>
     in_window start stop (ae_OccurredAt e) \<and>
     \<not> list_ex (\<lambda>r. ob_Topic r = ''exports.events.v1'' \<and> ob_EventID r = ae_ID e) (w_outbox w)) (w_events w)"

definition replay_row :: "(time \<Rightarrow> string) \<Rightarrow> string \<Rightarrow> time \<Rightarrow> string \<Rightarrow> accepted_event \<Rightarrow> outbox_row" where
  "replay_row ts pipelineID now i e =
     \<lparr>ob_ID = i, ob_TenantID = p_TenantID (ae_Principal e), ob_Topic = ''exports.events.v1'',
      ob_PartitionKey = (if ae_ExternalID e \<noteq> [] then ae_ExternalID e else ae_AnonymousID e), ob_EventID = ae_ID e,
      ob_Payload = replay_payload ts pipelineID e, ob_Status = ''pending'', ob_Attempts = 0, ob_AvailableAt = now,
      ob_LockedUntil = None, ob_LastError = None, ob_CreatedAt = now, ob_PublishedAt = None\<rparr>"

definition ReplayExportEvents ::
  "(time \<Rightarrow> string) \<Rightarrow> string \<Rightarrow> string \<Rightarrow> string \<Rightarrow> string \<Rightarrow> time \<Rightarrow> time \<Rightarrow> nat call" where
  "ReplayExportEvents ts tenantID workspaceID appID pipelineID start stop = db (\<lambda>w.
     let es = replayed w tenantID workspaceID appID start stop
     in (Inr (length es), w\<lparr>w_seq := w_seq w + length es, w_outbox := w_outbox w @
           map (\<lambda>(k, e). replay_row ts pipelineID (w_now w) (w_uuid w k) e) (enumerate (w_seq w) es)\<rparr>))"

section \<open>The dispatcher\<close>

datatype publication = Published | PublishError err | PublishPanic string

type_synonym publisher = "nat \<Rightarrow> outbox_event \<Rightarrow> publication"

text \<open>A call of the publisher; a row it has taken is out in the world.\<close>

definition Publish_call :: "publisher \<Rightarrow> outbox_event \<Rightarrow> publication prog" where
  "Publish_call publisher event = State (\<lambda>w.
     let answer = publisher (w_tick w) event
     in (answer, if answer = Published
                 then (ticked w)\<lparr>w_published := w_published w @ filter (\<lambda>r. ob_ID r = oe_ID event) (w_outbox w)\<rparr>
                 else ticked w))"

definition publishOne :: "publisher \<Rightarrow> outbox_event \<Rightarrow> bool call" where
  "publishOne publisher event = State_Monad.bind (Publish_call publisher event) (\<lambda>answer.
     case answer of
       Published \<Rightarrow> attempt (CompleteOutboxEvent (oe_ID event)) failed (\<lambda>_. ret (Inr True))
     | PublishError e \<Rightarrow> attempt (FailOutboxEvent (oe_ID event) e) failed (\<lambda>_. ret (Inr False))
     | PublishPanic m \<Rightarrow>
         (let panicErr = ErrNew (''publish event panic: '' @ m)
          in attempt (FailOutboxEvent (oe_ID event) panicErr)
               (\<lambda>failErr. failed (ErrNew (''recover publish event '' @ oe_ID event @ '': '' @ error_text panicErr @
                  '' (fail event: '' @ error_text failErr @ '')''))) (\<lambda>_. ret (Inr False))))"

text \<open>\<^verbatim>\<open>Drain\<close> without \<^verbatim>\<open>watch\<close>. Failed items do not count, so the loop has a fuel; the result \<open>None\<close> is running out of it.\<close>

fun DrainOutbox :: "publisher \<Rightarrow> nat \<Rightarrow> nat \<Rightarrow> nat \<Rightarrow> (nat \<times> err option) option prog" where
  "DrainOutbox publisher fuel maxItems processed =
     (if processed \<ge> maxItems then ret (Some (processed, None))
      else case fuel of
        0 \<Rightarrow> ret None
      | Suc fuel' \<Rightarrow>
          attempt ClaimOutboxEvent (\<lambda>e. ret (Some (processed, Some e))) (\<lambda>claimed.
            case claimed of
              None \<Rightarrow> ret (Some (processed, None))
            | Some event \<Rightarrow>
                attempt (publishOne publisher event) (\<lambda>e. ret (Some (processed, Some e))) (\<lambda>completed.
                  DrainOutbox publisher fuel' maxItems (if completed then Suc processed else processed))))"

declare DrainOutbox.simps [simp del]

section \<open>Operation jobs\<close>

definition operation_ready :: "time \<Rightarrow> operation_job \<Rightarrow> bool" where
  "operation_ready now j \<longleftrightarrow> (oj_Status j = ''pending'' \<or> oj_Status j = ''processing'' \<and> lapsed now (oj_LockedUntil j)) \<and>
     oj_AvailableAt j \<le> now"

definition operation_lease :: duration where
  "operation_lease = 5 * minute"

definition taken_operation :: "time \<Rightarrow> operation_job \<Rightarrow> operation_job" where
  "taken_operation now j = j\<lparr>oj_Status := ''processing'', oj_Attempts := oj_Attempts j + 1, oj_LockedUntil := Some (now + operation_lease)\<rparr>"

definition ClaimOperationJob :: "operation_job option call" where
  "ClaimOperationJob = db (\<lambda>w.
     case least_by oj_CreatedAt (filter (operation_ready (w_now w)) (w_opjobs w)) of
       None \<Rightarrow> (Inr None, w)
     | Some j \<Rightarrow> (Inr (Some j), w\<lparr>w_opjobs := upd_rows (\<lambda>x. oj_ID x = oj_ID j) (taken_operation (w_now w)) (w_opjobs w)\<rparr>))"

definition done_operation :: "time \<Rightarrow> operation_job \<Rightarrow> operation_job" where
  "done_operation now j = j\<lparr>oj_Status := ''done'', oj_CompletedAt := Some now, oj_LockedUntil := None, oj_LastError := None\<rparr>"

definition CompleteOperationJob :: "string \<Rightarrow> unit call" where
  "CompleteOperationJob i = exec (\<lambda>w. w\<lparr>w_opjobs := upd_rows (\<lambda>j. oj_ID j = i) (done_operation (w_now w)) (w_opjobs w)\<rparr>)"

text \<open>A terminal error makes the job dead at once; any other one does after ten attempts.\<close>

definition failed_operation :: "bool \<Rightarrow> time \<Rightarrow> string \<Rightarrow> operation_job \<Rightarrow> operation_job" where
  "failed_operation terminal now message j =
     (if terminal then j\<lparr>oj_Status := ''dead'', oj_AvailableAt := now, oj_LockedUntil := None, oj_LastError := Some message\<rparr>
      else j\<lparr>oj_Status := (if oj_Attempts j \<ge> 10 then ''dead'' else ''pending''),
             oj_AvailableAt := now + min (oj_Attempts j) 10 * (30 * second), oj_LockedUntil := None, oj_LastError := Some message\<rparr>)"

text \<open>
  The request a dead job carries is marked failed. The updates of import, generation and scoring requests, whose
  tables are not modelled, precede the one of the privacy requests, which runs for every type but the connector ones.
\<close>

definition fail_privacy_request :: "string \<Rightarrow> string \<Rightarrow> world \<Rightarrow> world" where
  "fail_privacy_request requestID message w = w\<lparr>w_privacy := upd_rows (\<lambda>r. pq_ID r = requestID)
     (\<lambda>r. r\<lparr>pq_Status := ''failed'', pq_Error := Some message, pq_CompletedAt := Some (w_now w)\<rparr>) (w_privacy w)\<rparr>"

definition connector_types :: "string list" where
  "connector_types = [''warehouse.sync'', ''reverse_etl.run'', ''export.replay'']"

definition FailOperationJob :: "string \<Rightarrow> bool \<Rightarrow> err \<Rightarrow> unit call" where
  "FailOperationJob i terminal operationErr = transact (\<lambda>w.
     let message = take 1000 (error_text operationErr)
     in case find (\<lambda>j. oj_ID j = i) (w_opjobs w) of
          None \<Rightarrow> Inl ErrNoRows
        | Some j \<Rightarrow>
            (let w1 = w\<lparr>w_opjobs := upd_rows (\<lambda>j. oj_ID j = i) (failed_operation terminal (w_now w) message) (w_opjobs w)\<rparr>
             in Inr ((), if terminal \<or> oj_Attempts j < 10 then w1
                         else case str_field ''request_id'' (oj_Payload j) of
                           None \<Rightarrow> w1
                         | Some requestID \<Rightarrow>
                             if requestID = [] \<or> oj_Type j \<in> set connector_types then w1
                             else fail_privacy_request requestID message w1)))"

section \<open>Dead letters\<close>

record queue_status =
  qs_Queue :: string
  qs_Pending :: nat
  qs_Processing :: nat
  qs_Dead :: nat

definition count_status :: "string \<Rightarrow> string list \<Rightarrow> nat" where
  "count_status s statuses = length (filter (\<lambda>x. x = s) statuses)"

definition queue_row :: "string \<Rightarrow> string list \<Rightarrow> queue_status list" where
  "queue_row queue statuses =
     (if statuses = [] then []
      else [\<lparr>qs_Queue = queue, qs_Pending = count_status ''pending'' statuses, qs_Processing = count_status ''processing'' statuses,
             qs_Dead = count_status ''dead'' statuses\<rparr>])"

definition QueueStatus :: "principal \<Rightarrow> queue_status list call" where
  "QueueStatus p = query (\<lambda>w. Inr
     (queue_row ''operations'' (map oj_Status (filter (\<lambda>j. oj_TenantID j = p_TenantID p) (w_opjobs w))) @
      queue_row ''outbox'' (map ob_Status (filter (\<lambda>r. ob_TenantID r = p_TenantID p) (w_outbox w))) @
      queue_row ''projection'' (map pj_Status (filter (\<lambda>j. pj_TenantID j = p_TenantID p) (w_jobs w)))))"

definition discarded :: string where
  "discarded = ''discarded from dead letter queue''"

definition revive_job :: "bool \<Rightarrow> time \<Rightarrow> projection_job \<Rightarrow> projection_job" where
  "revive_job again now j =
     (if again then j\<lparr>pj_Status := ''pending'', pj_Attempts := 0, pj_AvailableAt := now, pj_LockedUntil := None, pj_LastError := None\<rparr>
      else j\<lparr>pj_Status := ''done'', pj_CompletedAt := Some now, pj_LockedUntil := None, pj_LastError := Some discarded\<rparr>)"

definition revive_outbox :: "bool \<Rightarrow> time \<Rightarrow> outbox_row \<Rightarrow> outbox_row" where
  "revive_outbox again now r =
     (if again then r\<lparr>ob_Status := ''pending'', ob_Attempts := 0, ob_AvailableAt := now, ob_LockedUntil := None, ob_LastError := None\<rparr>
      else r\<lparr>ob_Status := ''published'', ob_PublishedAt := Some now, ob_LockedUntil := None, ob_LastError := Some discarded\<rparr>)"

definition revive_operation :: "bool \<Rightarrow> time \<Rightarrow> operation_job \<Rightarrow> operation_job" where
  "revive_operation again now j =
     (if again then j\<lparr>oj_Status := ''pending'', oj_Attempts := 0, oj_AvailableAt := now, oj_LockedUntil := None, oj_LastError := None\<rparr>
      else j\<lparr>oj_Status := ''done'', oj_CompletedAt := Some now, oj_LockedUntil := None, oj_LastError := Some discarded\<rparr>)"

text \<open>The statement runs on the pool, not in the transaction of its callers; it gives the number of rows it has changed.\<close>

definition updateDeadLetter :: "principal \<Rightarrow> string \<Rightarrow> string \<Rightarrow> bool \<Rightarrow> nat call" where
  "updateDeadLetter p queue i again =
     (if queue = ''projection'' then db (\<lambda>w.
        let hit = (\<lambda>j. pj_EventID j = i \<and> pj_TenantID j = p_TenantID p \<and> pj_Status j = ''dead'')
        in (Inr (length (filter hit (w_jobs w))), w\<lparr>w_jobs := upd_rows hit (revive_job again (w_now w)) (w_jobs w)\<rparr>))
      else if queue = ''outbox'' then db (\<lambda>w.
        let hit = (\<lambda>r. ob_ID r = i \<and> ob_TenantID r = p_TenantID p \<and> ob_Status r = ''dead'')
        in (Inr (length (filter hit (w_outbox w))), w\<lparr>w_outbox := upd_rows hit (revive_outbox again (w_now w)) (w_outbox w)\<rparr>))
      else if queue = ''operations'' then db (\<lambda>w.
        let hit = (\<lambda>j. oj_ID j = i \<and> oj_TenantID j = p_TenantID p \<and> oj_WorkspaceID j = p_WorkspaceID p \<and> oj_Status j = ''dead'')
        in (Inr (length (filter hit (w_opjobs w))), w\<lparr>w_opjobs := upd_rows hit (revive_operation again (w_now w)) (w_opjobs w)\<rparr>))
      else failed (ErrNew ''queue must be projection, outbox, or operations''))"

definition settle_dead_letter :: "string \<Rightarrow> bool \<Rightarrow> principal \<Rightarrow> string \<Rightarrow> string \<Rightarrow> unit call" where
  "settle_dead_letter action again p queue i =
     attempt (query (\<lambda>_. Inr ())) failed (\<lambda>_.
     attempt (updateDeadLetter p queue i again) failed (\<lambda>tag.
     if tag \<noteq> 1 then failed ErrNotFound
     else exec (audit p action ''dead_letter'' (queue @ '':'' @ i) [])))"

definition RetryDeadLetter :: "principal \<Rightarrow> string \<Rightarrow> string \<Rightarrow> unit call" where
  "RetryDeadLetter = settle_dead_letter ''dlq.retry'' True"

definition DiscardDeadLetter :: "principal \<Rightarrow> string \<Rightarrow> string \<Rightarrow> unit call" where
  "DiscardDeadLetter = settle_dead_letter ''dlq.discard'' False"

end
