(* ===== verification/Privacy.thy ===== *)
theory Privacy
  imports Queues
begin

text \<open>
  The requests of data subjects and the retention of events: the privacy requests of
  \<^verbatim>\<open>internal/postgres/admin.go\<close>, their execution and the retention in \<^verbatim>\<open>internal/postgres/operations.go\<close>, and the
  worker of \<^verbatim>\<open>internal/operations/operations.go\<close>.

  A request is created unverified, and an operation job is queued when it is verified. The job exports the data of
  the subject, or deletes it and leaves a tombstone event. Deleting a row follows the foreign keys of the schema: rows
  that depend on a profile go with it, references to an event become null, and a reference from a suppression refuses
  the deletion. The bytes of a verification token, the failures of the object store and the job types that are not
  modelled are arguments.
\<close>

section \<open>Requests\<close>

record privacy_request =
  pv_ID :: string
  pv_ExternalID :: string
  pv_RequestType :: string
  pv_Status :: string
  pv_VerificationStatus :: string
  pv_VerificationToken :: string
  pv_SLADueAt :: "time option"
  pv_ArtifactKey :: string
  pv_Error :: string
  pv_CreatedAt :: time
  pv_CompletedAt :: "time option"

text \<open>The check of the column \<^verbatim>\<open>status\<close>.\<close>

definition privacy_statuses :: "string list" where
  "privacy_statuses = [''pending'', ''in_progress'', ''completed'', ''failed'', ''rejected'']"

definition verification_of :: "privacy_row \<Rightarrow> string" where
  "verification_of r = (case pq_VerificationStatus r of None \<Rightarrow> ''unverified'' | Some s \<Rightarrow> s)"

definition request_of :: "string \<Rightarrow> privacy_row \<Rightarrow> privacy_request" where
  "request_of token r = \<lparr>pv_ID = pq_ID r, pv_ExternalID = pq_ExternalID r, pv_RequestType = pq_RequestType r, pv_Status = pq_Status r,
     pv_VerificationStatus = verification_of r, pv_VerificationToken = token, pv_SLADueAt = pq_SLADueAt r,
     pv_ArtifactKey = coalesce (pq_ArtifactKey r), pv_Error = coalesce (pq_Error r), pv_CreatedAt = pq_CreatedAt r,
     pv_CompletedAt = pq_CompletedAt r\<rparr>"

text \<open>\<^verbatim>\<open>hex.EncodeToString\<close>\<close>

definition hex_encode :: "string \<Rightarrow> string" where
  "hex_encode s = concat (map (\<lambda>c. [hex_digit (of_char c div 16), hex_digit (of_char c mod 16)]) s)"

definition CreatePrivacyRequest :: "string \<Rightarrow> principal \<Rightarrow> string \<Rightarrow> string \<Rightarrow> privacy_request call" where
  "CreatePrivacyRequest buf p externalID requestType =
     (if externalID = [] \<or> requestType \<noteq> ''export'' \<and> requestType \<noteq> ''delete''
      then failed (ErrNew ''external_id and export/delete request_type are required'')
      else transact (\<lambda>w.
        let token = hex_encode buf;
            r = \<lparr>pq_ID = new_id w, pq_TenantID = p_TenantID p, pq_WorkspaceID = p_WorkspaceID p, pq_AppID = p_AppID p,
                 pq_ExternalID = externalID, pq_RequestType = requestType, pq_Status = ''pending'', pq_RequestedBy = actorID p,
                 pq_ArtifactKey = None, pq_Error = None, pq_VerificationStatus = Some ''unverified'',
                 pq_TokenHash = Some (sha256_hex token), pq_SLADueAt = Some (w_now w + 30 * (24 * hour)),
                 pq_CreatedAt = w_now w, pq_CompletedAt = None\<rparr>
        in if \<not> list_ex (\<lambda>a. ap_ID a = p_AppID p) (w_apps w) then Inl ErrDb
           else Inr (request_of token r, audit p (''privacy.'' @ requestType) ''privacy_request'' (pq_ID r)
             [(''external_id'', JStr externalID), (''verification_status'', JStr ''unverified'')]
             ((next_id w)\<lparr>w_privacy := w_privacy w @ [r]\<rparr>))))"

definition request_in :: "principal \<Rightarrow> string \<Rightarrow> privacy_row \<Rightarrow> bool" where
  "request_in p i r \<longleftrightarrow> pq_ID r = i \<and> pq_TenantID r = p_TenantID p \<and> pq_WorkspaceID r = p_WorkspaceID p"

definition GetPrivacyRequest :: "principal \<Rightarrow> string \<Rightarrow> privacy_request call" where
  "GetPrivacyRequest p i = query (\<lambda>w. or_not_found (map_option (request_of []) (find (request_in p i) (w_privacy w))))"

definition queue_privacy_job :: "privacy_row \<Rightarrow> principal \<Rightarrow> world \<Rightarrow> world" where
  "queue_privacy_job r p w = (next_id w)\<lparr>
     w_privacy := upd_rows (\<lambda>x. pq_ID x = pq_ID r) (\<lambda>x. x\<lparr>pq_VerificationStatus := Some ''verified''\<rparr>) (w_privacy w),
     w_opjobs := w_opjobs w @ [new_op_job (new_id w) (p_TenantID p) (p_WorkspaceID p) (''privacy.'' @ pq_RequestType r)
       [(''request_id'', JStr (pq_ID r))] (w_now w)]\<rparr>"

definition verify_tx :: "principal \<Rightarrow> string \<Rightarrow> string \<Rightarrow> world \<Rightarrow> (unit \<times> world) result" where
  "verify_tx p i token w =
     (case find (request_in p i) (w_privacy w) of
        None \<Rightarrow> Inl ErrNotFound
      | Some r \<Rightarrow>
          if verification_of r = ''rejected'' then Inl (ErrNew ''cannot verify a rejected privacy request'')
          else if token \<noteq> [] \<and> coalesce (pq_TokenHash r) \<noteq> [] \<and> sha256_hex token \<noteq> coalesce (pq_TokenHash r)
          then Inl ErrUnauthorized
          else Inr ((), audit p ''privacy.verify'' ''privacy_request'' i [(''external_id'', JStr (pq_ExternalID r))]
                 (if verification_of r \<noteq> ''verified'' then queue_privacy_job r p w else w)))"

definition VerifyPrivacyRequest :: "principal \<Rightarrow> string \<Rightarrow> string \<Rightarrow> privacy_request call" where
  "VerifyPrivacyRequest p i token = attempt (transact (verify_tx p i token)) failed (\<lambda>_. GetPrivacyRequest p i)"

definition reject_tx :: "principal \<Rightarrow> string \<Rightarrow> string \<Rightarrow> world \<Rightarrow> (unit \<times> world) result" where
  "reject_tx p i reason w =
     (case find (request_in p i) (w_privacy w) of
        None \<Rightarrow> Inl ErrNotFound
      | Some r \<Rightarrow>
          if pq_Status r = ''completed'' \<or> pq_Status r = ''in_progress''
          then Inl (ErrNew ''cannot reject a completed or in-progress privacy request'')
          else Inr ((), audit p ''privacy.reject'' ''privacy_request'' i
                 [(''external_id'', JStr (pq_ExternalID r)), (''reason'', JStr reason)]
                 (w\<lparr>w_privacy := upd_rows (\<lambda>x. pq_ID x = i) (\<lambda>x. x\<lparr>pq_VerificationStatus := Some ''rejected'',
                    pq_Status := ''rejected'', pq_Error := Some reason\<rparr>) (w_privacy w)\<rparr>)))"

definition RejectPrivacyRequest :: "principal \<Rightarrow> string \<Rightarrow> string \<Rightarrow> privacy_request call" where
  "RejectPrivacyRequest p i reason = attempt (transact (reject_tx p i reason)) failed (\<lambda>_. GetPrivacyRequest p i)"

section \<open>Exporting\<close>

record privacy_data =
  pd_RequestID :: string
  pd_TenantID :: string
  pd_Profile :: profile
  pd_Consents :: "consent list"
  pd_Events :: json
  pd_ExportedAt :: time

definition subject_event :: "string \<Rightarrow> string \<Rightarrow> string \<Rightarrow> accepted_event \<Rightarrow> bool" where
  "subject_event tenantID appID externalID e \<longleftrightarrow> p_TenantID (ae_Principal e) = tenantID \<and> p_AppID (ae_Principal e) = appID \<and>
     ae_ExternalID e = externalID"

definition subject_profile :: "string \<Rightarrow> string \<Rightarrow> string \<Rightarrow> profile_row \<Rightarrow> bool" where
  "subject_profile tenantID appID externalID r \<longleftrightarrow> pr_TenantID r = tenantID \<and> pr_AppID r = appID \<and> pr_External r = Some externalID"

text \<open>The text of a \<^verbatim>\<open>timestamptz\<close> in JSON is the argument \<open>ts\<close>.\<close>

definition exported_event :: "(time \<Rightarrow> string) \<Rightarrow> accepted_event \<Rightarrow> json" where
  "exported_event ts e = JObj [(''event_id'', JStr (ae_ID e)), (''event_type'', JStr (ae_Type e)),
     (''schema_version'', JInt (ae_SchemaVersion e)), (''occurred_at'', JStr (ts (ae_OccurredAt e))),
     (''received_at'', JStr (ts (ae_ReceivedAt e))), (''payload'', json_of_raw (ae_Payload e))]"

definition json_list :: "json list \<Rightarrow> json" where
  "json_list xs = (if xs = [] then JNull else JArr xs)"

definition ExportPrivacyData :: "(time \<Rightarrow> string) \<Rightarrow> string \<Rightarrow> privacy_data call" where
  "ExportPrivacyData ts requestID =
     attempt (query (\<lambda>w. case find (\<lambda>r. pq_ID r = requestID \<and> pq_RequestType r = ''export'') (w_privacy w) of
        None \<Rightarrow> Inl ErrNoRows | Some r \<Rightarrow> Inr r)) failed (\<lambda>r.
     State_Monad.bind get_now (\<lambda>now.
     attempt (query (\<lambda>w. case find (subject_profile (pq_TenantID r) (pq_AppID r) (pq_ExternalID r)) (w_profiles w) of
        None \<Rightarrow> Inl ErrNoRows | Some pr \<Rightarrow> Inr (pr_Profile pr))) failed (\<lambda>prof.
     attempt (query (\<lambda>w. Inr (sort_key co_OccurredAt (map cr_Consent
        (filter (\<lambda>c. cr_TenantID c = pq_TenantID r \<and> co_ProfileID (cr_Consent c) = pf_ID prof) (w_consents w)))))) failed (\<lambda>consents.
     attempt (query (\<lambda>w. Inr (map (exported_event ts) (sort_key ae_OccurredAt
        (filter (subject_event (pq_TenantID r) (pq_AppID r) (pq_ExternalID r)) (w_events w)))))) failed (\<lambda>events.
     ret (Inr \<lparr>pd_RequestID = requestID, pd_TenantID = pq_TenantID r, pd_Profile = prof, pd_Consents = consents,
               pd_Events = json_list events, pd_ExportedAt = now\<rparr>))))))"

text \<open>The update of a request obeys the check of its status.\<close>

definition complete_request :: "string \<Rightarrow> (privacy_row \<Rightarrow> privacy_row) \<Rightarrow> world \<Rightarrow> world result" where
  "complete_request i f w =
     (let rows = upd_rows (\<lambda>r. pq_ID r = i) (\<lambda>r. (f r)\<lparr>pq_Status := ''complete'', pq_CompletedAt := Some (w_now w)\<rparr>) (w_privacy w)
      in if list_all (\<lambda>r. pq_ID r = i \<longrightarrow> pq_Status r \<in> set privacy_statuses) rows then Inr (w\<lparr>w_privacy := rows\<rparr>) else Inl ErrDb)"

definition system_principal :: "string \<Rightarrow> string \<Rightarrow> string \<Rightarrow> principal" where
  "system_principal tenantID workspaceID appID = \<lparr>p_TenantID = tenantID, p_WorkspaceID = workspaceID, p_AppID = appID,
     p_KeyID = [], p_UserID = [], p_ActorType = ''system'', p_Scopes = []\<rparr>"

definition CompletePrivacyExport :: "string \<Rightarrow> string \<Rightarrow> unit call" where
  "CompletePrivacyExport requestID artifactKey = transact (\<lambda>w.
     case find (\<lambda>r. pq_ID r = requestID) (w_privacy w) of
       None \<Rightarrow> Inl ErrNoRows
     | Some r \<Rightarrow>
         (case complete_request requestID (\<lambda>r. r\<lparr>pq_ArtifactKey := Some artifactKey\<rparr>) w of
            Inl e \<Rightarrow> Inl e
          | Inr w1 \<Rightarrow> Inr ((), audit (system_principal (pq_TenantID r) (pq_WorkspaceID r) (pq_AppID r))
              ''privacy.export.complete'' ''privacy_request'' requestID [(''artifact_key'', JStr artifactKey)] w1)))"

section \<open>Deleting\<close>

text \<open>Deleting accepted events, with what the foreign keys do.\<close>

definition forget_event :: "string set \<Rightarrow> string option \<Rightarrow> string option" where
  "forget_event gone x = (case x of None \<Rightarrow> None | Some i \<Rightarrow> if i \<in> gone then None else Some i)"

definition delete_events :: "(accepted_event \<Rightarrow> bool) \<Rightarrow> world \<Rightarrow> world result" where
  "delete_events hit w =
     (let gone = set (map ae_ID (filter hit (w_events w)))
      in if list_ex (\<lambda>s. case su_SourceEventID s of None \<Rightarrow> False | Some i \<Rightarrow> i \<in> gone) (w_suppressions w) then Inl ErrDb
         else Inr (w\<lparr>w_events := filter (\<lambda>e. \<not> hit e) (w_events w),
           w_jobs := filter (\<lambda>j. pj_EventID j \<notin> gone) (w_jobs w),
           w_outbox := filter (\<lambda>r. ob_EventID r \<notin> gone) (w_outbox w),
           w_consents := map (\<lambda>c. c\<lparr>cr_SourceEventID := forget_event gone (cr_SourceEventID c)\<rparr>) (w_consents w),
           w_aliases := map (\<lambda>a. a\<lparr>al_SourceEventID := forget_event gone (al_SourceEventID a)\<rparr>) (w_aliases w),
           w_merges := map (\<lambda>m. m\<lparr>im_SourceEventID := forget_event gone (im_SourceEventID m)\<rparr>) (w_merges w)\<rparr>))"

text \<open>Deleting a profile: the merges, consents and aliases by statements of the source, the other rows by cascades.\<close>

definition delete_profile :: "string \<Rightarrow> world \<Rightarrow> world" where
  "delete_profile profileID w =
     (let runs = set (map jr_ID (filter (\<lambda>r. jr_ProfileID r = profileID) (w_runs w)))
      in w\<lparr>w_merges := filter (\<lambda>m. \<not> (im_TargetID m = profileID \<or> im_SourceID m = profileID)) (w_merges w),
           w_consents := filter (\<lambda>c. co_ProfileID (cr_Consent c) \<noteq> profileID) (w_consents w),
           w_aliases := filter (\<lambda>a. al_ProfileID a \<noteq> profileID) (w_aliases w),
           w_profiles := filter (\<lambda>r. pr_ID r \<noteq> profileID) (w_profiles w),
           w_members := filter (\<lambda>m. sm_ProfileID m \<noteq> profileID) (w_members w),
           w_runs := filter (\<lambda>r. jr_ProfileID r \<noteq> profileID) (w_runs w),
           w_steps := filter (\<lambda>s. js_RunID s \<notin> runs) (w_steps w),
           w_transitions := filter (\<lambda>t. jt_RunID t \<notin> runs) (w_transitions w),
           w_intents := filter (\<lambda>m. mi_RunID m \<notin> runs) (w_intents w),
           w_assignments := filter (\<lambda>a. xa_ProfileID a \<noteq> profileID) (w_assignments w),
           w_tokens := filter (\<lambda>t. dt_ProfileID t \<noteq> profileID) (w_tokens w),
           w_company_members := filter (\<lambda>m. cm_ProfileID m \<noteq> profileID) (w_company_members w),
           w_inapp := filter (\<lambda>m. ia_ProfileID m \<noteq> profileID) (w_inapp w)\<rparr>)"

definition date_path :: "time \<Rightarrow> string" where
  "date_path t = (case civil t of (y, m, d) \<Rightarrow> pad_int 4 y @ ''/'' @ pad_int 2 m @ ''/'' @ pad_int 2 d)"

definition event_object :: "string \<Rightarrow> accepted_event \<Rightarrow> string" where
  "event_object tenantID e = ''events/'' @ tenantID @ ''/'' @ date_path (ae_OccurredAt e) @ ''/'' @ ae_ID e @ ''.json''"

definition erase_subject :: "string \<Rightarrow> string \<Rightarrow> string \<Rightarrow> world \<Rightarrow> (string list \<times> world) result" where
  "erase_subject tenantID appID externalID w =
     (let hit = subject_event tenantID appID externalID;
          keys = map (event_object tenantID) (filter hit (w_events w));
          w1 = (case find (subject_profile tenantID appID externalID) (w_profiles w) of
                  None \<Rightarrow> w | Some r \<Rightarrow> delete_profile (pr_ID r) w);
          w2 = w1\<lparr>w_outbox := filter (\<lambda>r. \<not> list_ex (\<lambda>e. hit e \<and> ae_ID e = ob_EventID r) (w_events w1)) (w_outbox w1)\<rparr>
      in case delete_events hit w2 of Inl e \<Rightarrow> Inl e | Inr w3 \<Rightarrow> Inr (keys, w3))"

text \<open>The event that remains, with its row in the outbox; the idempotency key of an event is unique.\<close>

definition tombstone_key :: "string \<Rightarrow> string" where
  "tombstone_key requestID = ''privacy-delete-'' @ requestID"

definition tombstone_payload :: "string \<Rightarrow> string \<Rightarrow> string list \<Rightarrow> json" where
  "tombstone_payload requestID externalID keys = JObj
     [(''object_keys'', json_list (map JStr keys)), (''privacy_request_id'', JStr requestID),
      (''subject_hash'', JStr (sha256_hex externalID))]"

definition tombstone_envelope :: "string \<Rightarrow> principal \<Rightarrow> json \<Rightarrow> time \<Rightarrow> json" where
  "tombstone_envelope i p payload now = JObj
     [(''app_id'', JStr (p_AppID p)), (''data_classification'', JStr ''restricted''), (''event_id'', JStr i),
      (''event_type'', JStr ''privacy.deleted''), (''occurred_at'', JStr (rfc3339_nano now)), (''payload'', payload),
      (''received_at'', JStr (rfc3339_nano now)), (''schema_version'', JInt 1), (''source'', JStr ''system''),
      (''tenant_id'', JStr (p_TenantID p)), (''workspace_id'', JStr (p_WorkspaceID p))]"

definition tombstone_event :: "principal \<Rightarrow> string \<Rightarrow> json \<Rightarrow> event" where
  "tombstone_event p requestID payload = (mk_event ''privacy.deleted'' [] [] (tombstone_key requestID) 0 (Some payload))\<lparr>
     ev_Source := ''system'', ev_DataClassification := ''restricted'', ev_ConsentContext := Some (JObj [])\<rparr>"

definition leave_tombstone :: "principal \<Rightarrow> string \<Rightarrow> string \<Rightarrow> string list \<Rightarrow> world \<Rightarrow> world result" where
  "leave_tombstone p requestID externalID keys w =
     (let payload = tombstone_payload requestID externalID keys; e = tombstone_event p requestID payload; i = new_id w; w1 = next_id w
      in if list_ex (same_key p e) (w_events w) then Inl ErrDb
         else Inr ((next_id w1)\<lparr>
           w_events := w_events w @ [event_row p (e\<lparr>ev_OccurredAt := stored_time (w_now w)\<rparr>) i (w_now w)],
           w_outbox := w_outbox w @ [\<lparr>ob_ID = new_id w1, ob_TenantID = p_TenantID p, ob_Topic = ''events.accepted.v1'',
             ob_PartitionKey = sha256_hex externalID, ob_EventID = i, ob_Payload = tombstone_envelope i p payload (w_now w),
             ob_Status = ''pending'', ob_Attempts = 0, ob_AvailableAt = w_now w, ob_LockedUntil = None, ob_LastError = None,
             ob_CreatedAt = w_now w, ob_PublishedAt = None\<rparr>]\<rparr>))"

definition delete_tx :: "string \<Rightarrow> world \<Rightarrow> (string list \<times> world) result" where
  "delete_tx requestID w =
     (case find (\<lambda>r. pq_ID r = requestID \<and> pq_RequestType r = ''delete'') (w_privacy w) of
        None \<Rightarrow> Inl ErrNoRows
      | Some r \<Rightarrow>
          (case find (\<lambda>a. ap_ID a = pq_AppID r) (w_apps w) of
             None \<Rightarrow> Inl ErrNoRows
           | Some a \<Rightarrow>
               (let p = system_principal (pq_TenantID r) (ap_WorkspaceID a) (pq_AppID r)
                in case erase_subject (pq_TenantID r) (pq_AppID r) (pq_ExternalID r) w of
                     Inl e \<Rightarrow> Inl e
                   | Inr (keys, w1) \<Rightarrow>
                       (case leave_tombstone p requestID (pq_ExternalID r) keys w1 of
                          Inl e \<Rightarrow> Inl e
                        | Inr w2 \<Rightarrow>
                            (case complete_request requestID id w2 of
                               Inl e \<Rightarrow> Inl e
                             | Inr w3 \<Rightarrow> Inr (keys, audit p ''privacy.delete.complete'' ''privacy_request'' requestID
                                 [(''deleted_event_count'', JInt (int (length keys)))] w3))))))"

definition DeletePrivacyData :: "string \<Rightarrow> string list call" where
  "DeletePrivacyData requestID = transact (delete_tx requestID)"

section \<open>Retention\<close>

record data_retention_report =
  dr_TenantID :: string
  dr_RetentionDays :: int
  dr_Cutoff :: time
  dr_DeletedEvents :: nat

definition expired_event :: "string \<Rightarrow> time \<Rightarrow> accepted_event \<Rightarrow> bool" where
  "expired_event tenantID cutoff e \<longleftrightarrow> p_TenantID (ae_Principal e) = tenantID \<and> ae_ReceivedAt e < cutoff"

definition EnforceRetention :: "string \<Rightarrow> data_retention_report call" where
  "EnforceRetention tenantID =
     attempt (query (\<lambda>w. case find (\<lambda>q. tq_TenantID q = tenantID) (w_quotas w) of
        None \<Rightarrow> Inl ErrNoRows | Some q \<Rightarrow> Inr (tq_RetentionDays q))) failed (\<lambda>days.
     State_Monad.bind get_now (\<lambda>now.
     let cutoff = now - days * (24 * hour)
     in transact (\<lambda>w. case delete_events (expired_event tenantID cutoff) w of
          Inl e \<Rightarrow> Inl e
        | Inr w1 \<Rightarrow> Inr (\<lparr>dr_TenantID = tenantID, dr_RetentionDays = days, dr_Cutoff = cutoff,
            dr_DeletedEvents = length (filter (expired_event tenantID cutoff) (w_events w))\<rparr>, w1))))"

section \<open>The worker\<close>

text \<open>
  The outcome of a job: an error, with whether it is terminal, or nothing. The environment has the failures of the
  object store, by the number of the call, and the job types that are not modelled.
\<close>

type_synonym outcome = "(world, (err \<times> bool) + unit) state"

record operation_env =
  pe_Put :: "nat \<Rightarrow> string \<Rightarrow> err option"
  pe_Delete :: "nat \<Rightarrow> string \<Rightarrow> err option"
  pe_Timestamp :: "time \<Rightarrow> string"
  pe_Other :: "string \<Rightarrow> (string \<times> json) list \<Rightarrow> outcome"

definition put_object :: "operation_env \<Rightarrow> string \<Rightarrow> unit call" where
  "put_object env key = State (\<lambda>w.
     case pe_Put env (w_tick w) key of
       Some e \<Rightarrow> (Inl e, ticked w)
     | None \<Rightarrow> (Inr (), (ticked w)\<lparr>w_objects := key # removeAll key (w_objects w)\<rparr>))"

definition delete_object :: "operation_env \<Rightarrow> string \<Rightarrow> unit call" where
  "delete_object env key = State (\<lambda>w.
     case pe_Delete env (w_tick w) key of
       Some e \<Rightarrow> (Inl e, ticked w)
     | None \<Rightarrow> (Inr (), (ticked w)\<lparr>w_objects := removeAll key (w_objects w)\<rparr>))"

fun delete_objects :: "operation_env \<Rightarrow> string list \<Rightarrow> unit call" where
  "delete_objects env [] = ret (Inr ())"
| "delete_objects env (key # keys) = attempt (delete_object env key) failed (\<lambda>_. delete_objects env keys)"

definition refused :: "string \<Rightarrow> outcome" where
  "refused m = ret (Inl (ErrNew m, False))"

definition plain :: "unit call \<Rightarrow> outcome" where
  "plain m = State_Monad.bind m (\<lambda>r. ret (case r of Inl e \<Rightarrow> Inl (e, False) | Inr _ \<Rightarrow> Inr ()))"

definition string_fields :: "string list" where
  "string_fields = [''request_id'', ''tenant_id'', ''workspace_id'', ''app_id'', ''pipeline_id'', ''cursor'', ''task_type'']"

definition decodable :: "(string \<times> json) list \<Rightarrow> bool" where
  "decodable payload \<longleftrightarrow> list_all (\<lambda>f. str_field f payload \<noteq> None) string_fields \<and> strs_field ''scopes'' payload \<noteq> None"

definition payload_str :: "string \<Rightarrow> (string \<times> json) list \<Rightarrow> string" where
  "payload_str name payload = coalesce (str_field name payload)"

definition export_privacy :: "operation_env \<Rightarrow> string \<Rightarrow> unit call" where
  "export_privacy env requestID =
     attempt (ExportPrivacyData (pe_Timestamp env) requestID) failed (\<lambda>data.
     let key = ''privacy/'' @ pd_TenantID data @ ''/'' @ requestID @ ''/export.json''
     in attempt (put_object env key) failed (\<lambda>_. CompletePrivacyExport requestID key))"

definition delete_privacy :: "operation_env \<Rightarrow> string \<Rightarrow> unit call" where
  "delete_privacy env requestID = attempt (DeletePrivacyData requestID) failed (delete_objects env)"

definition execute_operation :: "operation_env \<Rightarrow> string \<Rightarrow> (string \<times> json) list \<Rightarrow> outcome" where
  "execute_operation env jobType payload =
     (let requestID = payload_str ''request_id'' payload; tenantID = payload_str ''tenant_id'' payload
      in if \<not> decodable payload then refused ''operation payload must be a JSON object''
         else if jobType = ''privacy.export'' then
           (if requestID = [] then refused ''privacy.export payload requires request_id'' else plain (export_privacy env requestID))
         else if jobType = ''privacy.delete'' then
           (if requestID = [] then refused ''privacy.delete payload requires request_id'' else plain (delete_privacy env requestID))
         else if jobType = ''retention.enforce'' then
           (if tenantID = [] then refused ''retention.enforce payload requires tenant_id''
            else plain (attempt (EnforceRetention tenantID) failed (\<lambda>_. ret (Inr ()))))
         else pe_Other env jobType payload)"

text \<open>One turn of the worker on a claimed job: whether it was completed.\<close>

definition run_job :: "operation_env \<Rightarrow> operation_job \<Rightarrow> bool call" where
  "run_job env job = State_Monad.bind (execute_operation env (oj_Type job) (oj_Payload job)) (\<lambda>r.
     case r of
       Inl (e, terminal) \<Rightarrow> attempt (FailOperationJob (oj_ID job) terminal e) failed (\<lambda>_. ret (Inr False))
     | Inr _ \<Rightarrow> attempt (CompleteOperationJob (oj_ID job)) failed (\<lambda>_. ret (Inr True)))"

text \<open>\<^verbatim>\<open>DrainWithGatewayAndExtensions\<close> without \<^verbatim>\<open>watch\<close>, with fuel as for the outbox.\<close>

fun DrainOperations :: "operation_env \<Rightarrow> nat \<Rightarrow> nat \<Rightarrow> nat \<Rightarrow> (nat \<times> err option) option prog" where
  "DrainOperations env fuel maxItems processed =
     (if processed \<ge> maxItems then ret (Some (processed, None))
      else case fuel of
        0 \<Rightarrow> ret None
      | Suc fuel' \<Rightarrow>
          attempt ClaimOperationJob (\<lambda>e. ret (Some (processed, Some e))) (\<lambda>claimed.
            case claimed of
              None \<Rightarrow> ret (Some (processed, None))
            | Some job \<Rightarrow>
                attempt (run_job env job) (\<lambda>e. ret (Some (processed, Some e))) (\<lambda>completed.
                  DrainOperations env fuel' maxItems (if completed then Suc processed else processed))))"

declare DrainOperations.simps [simp del]

end
