(* ===== verification/QueueFacts.thy ===== *)
theory QueueFacts
  imports Queues Leases
begin

text \<open>
  The outbox and the operation jobs keep the contract of \<open>leased_queue\<close>; draining the outbox ends, and marks a row as
  published only after the publisher has taken it.
\<close>

section \<open>Leases\<close>

lemma delay_pos: "1 \<le> (n :: int) \<Longrightarrow> 0 < k \<Longrightarrow> 0 < min n 10 * (k * second)"
  by (simp add: second_def zero_less_mult_iff)

interpretation obq: leased_queue ob_ID ob_Attempts outbox_ready taken_outbox failed_outbox published_outbox outbox_lease
proof unfold_locales
  show "\<not> outbox_ready now (failed_outbox now m r)" if "1 \<le> ob_Attempts r" for now m r
    using delay_pos [OF that, of 5] by (simp add: outbox_ready_def failed_outbox_def)
qed (simp_all add: outbox_ready_def taken_outbox_def failed_outbox_def published_outbox_def outbox_lease_def lapsed_def second_def)

interpretation opq: leased_queue oj_ID oj_Attempts operation_ready taken_operation "failed_operation terminal" done_operation operation_lease
  for terminal
proof unfold_locales
  show "\<not> operation_ready now (failed_operation terminal now m r)" if "1 \<le> oj_Attempts r" for now m r
    using delay_pos [OF that, of 30] by (simp add: operation_ready_def failed_operation_def)
qed (simp_all add: operation_ready_def taken_operation_def failed_operation_def done_operation_def operation_lease_def lapsed_def
  minute_def second_def)

lemma claim_operation_Some:
  assumes "run_state ClaimOperationJob w = (Inr (Some j), w1)"
  shows "j \<in> set (w_opjobs w) \<and> operation_ready (w_now w) j \<and>
    w1 = (ticked w)\<lparr>w_opjobs := upd_rows (\<lambda>x. oj_ID x = oj_ID j) (taken_operation (w_now w)) (w_opjobs w)\<rparr>"
proof -
  from assms have "least_by oj_CreatedAt (filter (operation_ready (w_now w)) (w_opjobs w)) = Some j"
    and w1: "w1 = (ticked w)\<lparr>w_opjobs := upd_rows (\<lambda>x. oj_ID x = oj_ID j) (taken_operation (w_now w)) (w_opjobs w)\<rparr>"
    by (auto simp: ClaimOperationJob_def run_db split: if_splits option.splits)
  from least_by_Some [OF this(1)] w1 show ?thesis by simp
qed

section \<open>The outbox\<close>

lemma claim_outbox_Some:
  assumes "run_state (claim_outbox topic) w = (Inr (Some e), w1)"
  obtains r where "r \<in> set (w_outbox w)" "topic r" "outbox_ready (w_now w) r" "e = outbox_event_of r"
    "w1 = (ticked w)\<lparr>w_outbox := upd_rows (\<lambda>x. ob_ID x = oe_ID e) (taken_outbox (w_now w)) (w_outbox w)\<rparr>"
proof -
  from assms obtain r where r: "least_by ob_CreatedAt (filter (\<lambda>r. topic r \<and> outbox_ready (w_now w) r) (w_outbox w)) = Some r"
    and e: "e = outbox_event_of r"
    and w1: "w1 = (ticked w)\<lparr>w_outbox := upd_rows (\<lambda>x. ob_ID x = ob_ID r) (taken_outbox (w_now w)) (w_outbox w)\<rparr>"
    by (auto simp: claim_outbox_def run_db split: if_splits option.splits)
  from least_by_Some [OF r] show thesis by (intro that [of r]) (simp_all add: e w1 outbox_event_of_def)
qed

text \<open>What one claim has taken, the next one does not give while the lease lasts and the row is as it was left.\<close>

lemma outbox_claim_held:
  assumes "run_state ClaimOutboxEvent w = (Inr (Some e), w1)" and "run_state ClaimOutboxEvent w2 = (Inr (Some e2), w3)"
    and same: "{r \<in> set (w_outbox w2). ob_ID r = oe_ID e} \<subseteq> set (w_outbox w1)" and soon: "w_now w2 \<le> w_now w + outbox_lease"
  shows "oe_ID e2 \<noteq> oe_ID e"
proof
  assume eq: "oe_ID e2 = oe_ID e"
  from assms(1) [unfolded ClaimOutboxEvent_def] obtain r1
    where "w1 = (ticked w)\<lparr>w_outbox := upd_rows (\<lambda>x. ob_ID x = oe_ID e) (taken_outbox (w_now w)) (w_outbox w)\<rparr>"
    by (rule claim_outbox_Some)
  then have w1: "w_outbox w1 = upd_rows (\<lambda>x. ob_ID x = oe_ID e) (taken_outbox (w_now w)) (w_outbox w)" by simp
  from assms(2) [unfolded ClaimOutboxEvent_def] obtain r where r: "r \<in> set (w_outbox w2)" "outbox_ready (w_now w2) r"
    and e2: "e2 = outbox_event_of r" by (rule claim_outbox_Some)
  from e2 eq have i: "ob_ID r = oe_ID e" by (simp add: outbox_event_of_def)
  have "r \<in> set (w_outbox w1)" by (rule subsetD [OF same]) (simp add: r(1) i)
  from obq.held [OF this [unfolded w1] soon r(2)] i show False by simp
qed

lemma operation_claim_held:
  assumes "run_state ClaimOperationJob w = (Inr (Some j), w1)" and "run_state ClaimOperationJob w2 = (Inr (Some j2), w3)"
    and same: "{r \<in> set (w_opjobs w2). oj_ID r = oj_ID j} \<subseteq> set (w_opjobs w1)" and soon: "w_now w2 \<le> w_now w + operation_lease"
  shows "oj_ID j2 \<noteq> oj_ID j"
proof
  assume eq: "oj_ID j2 = oj_ID j"
  from claim_operation_Some [OF assms(1)]
  have w1: "w_opjobs w1 = upd_rows (\<lambda>x. oj_ID x = oj_ID j) (taken_operation (w_now w)) (w_opjobs w)" by simp
  from claim_operation_Some [OF assms(2)] have r: "j2 \<in> set (w_opjobs w2)" "operation_ready (w_now w2) j2" by simp_all
  have "j2 \<in> set (w_opjobs w1)" by (rule subsetD [OF same]) (simp add: r(1) eq)
  from opq.held [OF this [unfolded w1] soon r(2)] eq show False by simp
qed

abbreviation outbox_left :: "world \<Rightarrow> nat" where
  "outbox_left w \<equiv> waiting outbox_ready (w_now w) (w_outbox w)"

abbreviation outbox_tried :: "string option \<Rightarrow> world \<Rightarrow> bool" where
  "outbox_tried started w \<equiv> tried ob_ID ob_Attempts started (w_outbox w)"

lemma claim_outbox_shrinks:
  assumes "run_state (claim_outbox topic) w = (Inr (Some e), w1)" and "outbox_tried None w"
  shows "outbox_left w1 < outbox_left w \<and> outbox_tried (Some (oe_ID e)) w1"
proof -
  from assms(1) obtain r where r: "r \<in> set (w_outbox w)" "outbox_ready (w_now w) r" "e = outbox_event_of r"
    and w1: "w1 = (ticked w)\<lparr>w_outbox := upd_rows (\<lambda>x. ob_ID x = oe_ID e) (taken_outbox (w_now w)) (w_outbox w)\<rparr>"
    by (rule claim_outbox_Some)
  from obq.take_shrinks [OF r(1,2)] obq.take_tried [OF assms(2)] r(3) show ?thesis by (simp add: w1 outbox_event_of_def)
qed

lemma Publish_call_frame:
  assumes "run_state (Publish_call publisher e) w = (answer, w1)"
  shows "w_outbox w1 = w_outbox w" "w_now w1 = w_now w" "w_fault w1 = w_fault w"
  using assms by (auto simp: Publish_call_def Let_def split: if_splits)

text \<open>The answers of the publisher, and what becomes of the row.\<close>

lemma publishOne_cases:
  assumes "run_state (publishOne publisher e) w = (r, w')"
  obtains (published) w1 r2 where "run_state (Publish_call publisher e) w = (Published, w1)"
      "run_state (CompleteOutboxEvent (oe_ID e)) w1 = (r2, w')" "r = (case r2 of Inl x \<Rightarrow> Inl x | Inr _ \<Rightarrow> Inr True)"
  | (refused) x w1 r2 where "run_state (FailOutboxEvent (oe_ID e) x) w1 = (r2, w')" "r \<noteq> Inr True"
      "w_outbox w1 = w_outbox w" "w_now w1 = w_now w" "w_published w1 = w_published w"
proof -
  obtain answer w1 where a: "run_state (Publish_call publisher e) w = (answer, w1)" by (cases "run_state (Publish_call publisher e) w")
  show thesis
  proof (cases answer)
    case Published
    obtain r2 w2 where "run_state (CompleteOutboxEvent (oe_ID e)) w1 = (r2, w2)" by (cases "run_state (CompleteOutboxEvent (oe_ID e)) w1")
    with assms a Published show thesis
      by (intro that(1) [of w1 r2]) (auto simp: publishOne_def run_attempt split: sum.splits)
  next
    case (PublishError x)
    obtain r2 w2 where f: "run_state (FailOutboxEvent (oe_ID e) x) w1 = (r2, w2)" by (cases "run_state (FailOutboxEvent (oe_ID e) x) w1")
    have "w_published w1 = w_published w" using a PublishError by (auto simp: Publish_call_def Let_def split: if_splits)
    with assms a PublishError f Publish_call_frame [OF a] show thesis
      by (intro that(2) [of x w1 r2]) (auto simp: publishOne_def run_attempt split: sum.splits)
  next
    case (PublishPanic m)
    let ?x = "ErrNew (''publish event panic: '' @ m)"
    obtain r2 w2 where f: "run_state (FailOutboxEvent (oe_ID e) ?x) w1 = (r2, w2)" by (cases "run_state (FailOutboxEvent (oe_ID e) ?x) w1")
    have "w_published w1 = w_published w" using a PublishPanic by (auto simp: Publish_call_def Let_def split: if_splits)
    with assms a PublishPanic f Publish_call_frame [OF a] show thesis
      by (intro that(2) [of ?x w1 r2]) (auto simp: publishOne_def run_attempt Let_def split: sum.splits)
  qed
qed

lemma publishOne_keeps:
  assumes "outbox_tried (Some (oe_ID e)) w" and "run_state (publishOne publisher e) w = (r, w')"
  shows "outbox_left w' \<le> outbox_left w \<and> outbox_tried (Some (oe_ID e)) w'"
  using assms(2)
proof (cases rule: publishOne_cases)
  case (published w1 r2)
  with obq.finish_keeps [OF assms(1)] assms(1) Publish_call_frame [OF published(1)]
  show ?thesis by (auto simp: CompleteOutboxEvent_def run_exec split: if_splits)
next
  case (refused x w1 r2)
  with obq.drop_keeps [OF assms(1)] assms(1) show ?thesis by (auto simp: FailOutboxEvent_def run_exec split: if_splits)
qed

interpretation obl: queue_loop ClaimOutboxEvent "publishOne publisher" "DrainOutbox publisher" "outbox_tried None" outbox_left
  for publisher
proof unfold_locales
  fix w e w1 b w2
  assume "outbox_tried None w" "run_state ClaimOutboxEvent w = (Inr (Some e), w1)" "run_state (publishOne publisher e) w1 = (Inr b, w2)"
  with claim_outbox_shrinks [of general_topic w e w1] publishOne_keeps [of e w1 publisher "Inr b" w2]
    tried_None [of _ _ "Some (oe_ID e)" "w_outbox w2"]
  show "outbox_tried None w2 \<and> outbox_left w2 < outbox_left w" by (auto simp: ClaimOutboxEvent_def)
qed (rule DrainOutbox.simps)

section \<open>What is published\<close>

text \<open>The rows stay, and a row that has become published was taken by the publisher.\<close>

definition marked :: "outbox_row list \<Rightarrow> string set" where
  "marked rows = ob_ID ` {r \<in> set rows. ob_Status r = ''published''}"

definition handed_over :: "world \<Rightarrow> world \<Rightarrow> bool" where
  "handed_over w w' \<longleftrightarrow> map ob_ID (w_outbox w') = map ob_ID (w_outbox w) \<and>
     set (map ob_ID (w_published w)) \<subseteq> set (map ob_ID (w_published w')) \<and>
     marked (w_outbox w') \<subseteq> marked (w_outbox w) \<union> set (map ob_ID (w_published w'))"

lemma union_chain: "B \<subseteq> A \<union> X \<Longrightarrow> X \<subseteq> Y \<Longrightarrow> C \<subseteq> B \<union> Y \<Longrightarrow> C \<subseteq> A \<union> Y"
  by blast

interpretation hov: store_evolution handed_over
proof unfold_locales
  fix s t u
  assume st: "handed_over s t" and tu: "handed_over t u"
  from st have s: "set (map ob_ID (w_published s)) \<subseteq> set (map ob_ID (w_published t))"
    "marked (w_outbox t) \<subseteq> marked (w_outbox s) \<union> set (map ob_ID (w_published t))" by (simp_all only: handed_over_def)
  from tu have t: "set (map ob_ID (w_published t)) \<subseteq> set (map ob_ID (w_published u))"
    "marked (w_outbox u) \<subseteq> marked (w_outbox t) \<union> set (map ob_ID (w_published u))" by (simp_all only: handed_over_def)
  note subset_trans [OF s(1) t(1)]
  moreover note union_chain [OF s(2) t(1) t(2)]
  ultimately show "handed_over s u" using st tu by (simp add: handed_over_def)
qed (simp_all add: handed_over_def)

lemma marked_update:
  assumes "\<And>r. ob_ID (f r) = ob_ID r"
  shows "marked (upd_rows P f rows) \<subseteq> marked rows \<union> ob_ID ` {r \<in> set rows. P r \<and> ob_Status (f r) = ''published''}"
proof
  fix i
  assume "i \<in> marked (upd_rows P f rows)"
  then obtain r where r: "r \<in> set rows" "i = ob_ID r" "ob_Status (if P r then f r else r) = ''published''"
    using assms by (auto simp: marked_def upd_rows_def)
  then show "i \<in> marked rows \<union> ob_ID ` {r \<in> set rows. P r \<and> ob_Status (f r) = ''published''}"
    by (cases "P r") (simp_all add: marked_def)
qed

lemma handed_over_claim: "state_io_rel handed_over (claim_outbox topic)"
  unfolding claim_outbox_def
proof (rule hov.evolve_db)
  fix w :: world
  have "marked (upd_rows P (taken_outbox (w_now w)) (w_outbox w)) \<subseteq> marked (w_outbox w)" for P
    using marked_update [of "taken_outbox (w_now w)" P "w_outbox w"] by (simp add: taken_outbox_def)
  then show "handed_over w (snd (case least_by ob_CreatedAt (filter (\<lambda>r. topic r \<and> outbox_ready (w_now w) r) (w_outbox w)) of
       None \<Rightarrow> (Inr None, w)
     | Some r \<Rightarrow> (Inr (Some (outbox_event_of r)),
         w\<lparr>w_outbox := upd_rows (\<lambda>x. ob_ID x = ob_ID r) (taken_outbox (w_now w)) (w_outbox w)\<rparr>)))"
    by (auto simp: handed_over_def map_upd_rows taken_outbox_def split: option.split)
qed

lemma handed_over_publish: "state_io_rel handed_over (publishOne publisher e)"
  unfolding state_io_rel_def
proof
  fix w
  obtain r w' where run: "run_state (publishOne publisher e) w = (r, w')" by (cases "run_state (publishOne publisher e) w")
  then have "handed_over w w'"
  proof (cases rule: publishOne_cases)
    case (published w1 r2)
    then have w1: "w1 = (ticked w)\<lparr>w_published := w_published w @ filter (\<lambda>r. ob_ID r = oe_ID e) (w_outbox w)\<rparr>"
      by (auto simp: Publish_call_def Let_def split: if_splits)
    have "marked (upd_rows (\<lambda>r. ob_ID r = oe_ID e) (published_outbox (w_now w)) (w_outbox w)) \<subseteq>
        marked (w_outbox w) \<union> ob_ID ` (set (w_published w) \<union> {r \<in> set (w_outbox w). ob_ID r = oe_ID e})"
      by (rule subset_trans [OF marked_update]) (simp add: published_outbox_def, rule Un_mono [OF subset_refl image_mono], blast)
    with published(2) w1 show ?thesis
      by (auto simp: image_Un handed_over_def CompleteOutboxEvent_def run_exec map_upd_rows published_outbox_def split: if_splits)
  next
    case (refused x w1 r2)
    have "ob_Status (failed_outbox (w_now w) m r) \<noteq> ''published''" "ob_ID (failed_outbox (w_now w) m r) = ob_ID r" for m r
      by (simp_all add: failed_outbox_def)
    then have "marked (upd_rows P (failed_outbox (w_now w) m) (w_outbox w)) \<subseteq> marked (w_outbox w)" for P m
      using marked_update [of "failed_outbox (w_now w) m" P "w_outbox w"] by simp
    from subsetD [OF this] refused show ?thesis
      by (auto simp: handed_over_def FailOutboxEvent_def run_exec map_upd_rows failed_outbox_def split: if_splits)
  qed
  with run show "handed_over w (snd (run_state (publishOne publisher e) w))" by simp
qed

lemma handed_over_drain: "state_io_rel handed_over (DrainOutbox publisher fuel maxItems processed)"
proof (induction fuel arbitrary: processed)
  case (Suc fuel)
  show ?case
    by (subst DrainOutbox.simps)
      (auto simp: ClaimOutboxEvent_def split: option.splits intro!: hov.evolve_rules handed_over_claim handed_over_publish Suc.IH)
qed (auto simp: DrainOutbox.simps [of publisher 0] intro!: hov.evolve_rules)

section \<open>Dead letters\<close>

text \<open>
  Reviving a dead letter and auditing it are two transactions: when the second one fails, the row has been revived and
  the trail does not show it.
\<close>

lemma revived_without_a_trace:
  assumes "\<not> w_fault w (w_tick w)" "\<not> w_fault w (Suc (w_tick w))" "w_fault w (Suc (Suc (w_tick w)))"
    and "filter (\<lambda>r. ob_ID r = i \<and> ob_TenantID r = p_TenantID p \<and> ob_Status r = ''dead'') (w_outbox w) = [r]"
  shows "\<exists>w'. run_state (RetryDeadLetter p ''outbox'' i) w = (Inl ErrDb, w') \<and> w_audit w' = w_audit w \<and>
    revive_outbox True (w_now w) r \<in> set (w_outbox w')"
proof -
  let ?hit = "\<lambda>r. ob_ID r = i \<and> ob_TenantID r = p_TenantID p \<and> ob_Status r = ''dead''"
  from assms(4) have "r \<in> set (filter ?hit (w_outbox w))" by simp
  then have "revive_outbox True (w_now w) r \<in> set (upd_rows ?hit (revive_outbox True (w_now w)) (w_outbox w))"
    by (auto simp: upd_rows_def)
  with assms show ?thesis
    by (simp add: RetryDeadLetter_def settle_dead_letter_def updateDeadLetter_def run_attempt run_call Let_def)
qed

end
