(* ===== verification/PrivacyFacts.thy ===== *)
theory PrivacyFacts
  imports Privacy QueueFacts Engine
begin

text \<open>
  The life of a privacy request: its job is queued once, after the request is verified, and neither an export nor a
  deletion can complete it, because the status they write is not one the schema allows. Deleting events, for a subject
  or for the retention of a tenant, is refused when a suppression cites one of them.
\<close>

section \<open>Completing\<close>

lemma complete_request_refused:
  assumes "list_ex (\<lambda>r. pq_ID r = i) (w_privacy w)" and "\<And>r. pq_ID (f r) = pq_ID r"
  shows "complete_request i f w = Inl ErrDb"
proof -
  from assms(1) obtain r where r: "r \<in> set (w_privacy w)" "pq_ID r = i" by (auto simp: list_ex_iff)
  have "(f r)\<lparr>pq_Status := ''complete'', pq_CompletedAt := Some (w_now w)\<rparr> \<in>
      set (upd_rows (\<lambda>r. pq_ID r = i) (\<lambda>r. (f r)\<lparr>pq_Status := ''complete'', pq_CompletedAt := Some (w_now w)\<rparr>) (w_privacy w))"
    using r by (force simp: upd_rows_def)
  from bexI [OF _ this] r assms(2) show ?thesis
    by (auto simp: complete_request_def Let_def list_all_iff privacy_statuses_def)
qed

lemma export_refused: "\<exists>e. run_state (CompletePrivacyExport i key) w = (Inl e, ticked w)"
proof (cases "find (\<lambda>r. pq_ID r = i) (w_privacy w)")
  case None
  then show ?thesis by (simp add: CompletePrivacyExport_def transact_def run_db)
next
  case (Some r)
  have "list_ex (\<lambda>r. pq_ID r = i) (w_privacy w)" using find_SomeD [OF Some] by (auto simp: list_ex_iff)
  with Some show ?thesis by (simp add: CompletePrivacyExport_def transact_def run_db complete_request_refused)
qed

lemma delete_events_frame:
  assumes "delete_events hit w = Inr w'"
  shows "w_privacy w' = w_privacy w" "w_opjobs w' = w_opjobs w" "w_uuid w' = w_uuid w" "w_seq w' = w_seq w"
  using assms by (auto simp: delete_events_def Let_def split: if_splits)

lemma erase_subject_frame:
  assumes "erase_subject t a x w = Inr (keys, w')"
  shows "w_privacy w' = w_privacy w"
  using assms by (auto simp: erase_subject_def Let_def delete_profile_def dest!: delete_events_frame(1) split: sum.splits option.splits)

lemma leave_tombstone_frame: "leave_tombstone p i x keys w = Inr w' \<Longrightarrow> w_privacy w' = w_privacy w"
  by (auto simp: leave_tombstone_def Let_def split: if_splits)

lemma delete_refused: "\<exists>e. run_state (DeletePrivacyData i) w = (Inl e, ticked w)"
proof -
  have "\<exists>e. delete_tx i w = Inl e" for w
  proof (cases "delete_tx i w")
    case (Inr res)
    then obtain r keys w1 w2 w3 p where r: "find (\<lambda>r. pq_ID r = i \<and> pq_RequestType r = ''delete'') (w_privacy w) = Some r"
      and w1: "erase_subject (pq_TenantID r) (pq_AppID r) (pq_ExternalID r) w = Inr (keys, w1)"
      and w2: "leave_tombstone p i (pq_ExternalID r) keys w1 = Inr w2" and w3: "complete_request i id w2 = Inr w3"
      by (auto simp: delete_tx_def Let_def split: option.splits sum.splits prod.splits)
    have "list_ex (\<lambda>r. pq_ID r = i) (w_privacy w2)"
      using find_SomeD [OF r] erase_subject_frame [OF w1] leave_tombstone_frame [OF w2] by (auto simp: list_ex_iff)
    from complete_request_refused [OF this, of id] w3 show ?thesis by simp
  qed simp
  from this [of "ticked w"] show ?thesis by (auto simp: DeletePrivacyData_def transact_def run_db)
qed

lemma privacy_jobs_fail:
  assumes "jobType \<in> {''privacy.export'', ''privacy.delete''}"
  shows "\<exists>e. fst (run_state (execute_operation env jobType payload) w) = Inl (e, False)"
proof -
  have export: "\<exists>e w'. run_state (export_privacy env i) w = (Inl e, w')" for i
  proof -
    obtain r w1 where r: "run_state (ExportPrivacyData (pe_Timestamp env) i) w = (r, w1)"
      by (cases "run_state (ExportPrivacyData (pe_Timestamp env) i) w")
    obtain q w2 where q: "run_state (put_object env (''privacy/'' @ pd_TenantID (projr r) @ ''/'' @ i @ ''/export.json'')) w1 = (q, w2)"
      by (cases "run_state (put_object env (''privacy/'' @ pd_TenantID (projr r) @ ''/'' @ i @ ''/export.json'')) w1")
    show ?thesis
      using r q export_refused [of i "''privacy/'' @ pd_TenantID (projr r) @ ''/'' @ i @ ''/export.json''" w2]
      by (cases r; cases q) (auto simp: export_privacy_def run_attempt Let_def)
  qed
  have delete: "\<exists>e w'. run_state (delete_privacy env i) w = (Inl e, w')" for i
    using delete_refused [of i w] by (auto simp: delete_privacy_def run_attempt)
  have plain: "\<exists>e. fst (run_state (plain m) w) = Inl (e, False)" if "\<exists>e w'. run_state m w = (Inl e, w')" for m
    using that by (auto simp: plain_def)
  have "\<exists>e. fst (run_state (refused m) w) = Inl (e, False)" for m by (simp add: refused_def)
  with assms plain [OF export] plain [OF delete] show ?thesis by (auto simp: execute_operation_def Let_def)
qed

section \<open>Deleting\<close>

text \<open>A suppression that cites an event that is to be deleted.\<close>

definition cited :: "(accepted_event \<Rightarrow> bool) \<Rightarrow> world \<Rightarrow> bool" where
  "cited hit w \<longleftrightarrow> (\<exists>s\<in>set (w_suppressions w). \<exists>e\<in>set (w_events w). hit e \<and> su_SourceEventID s = Some (ae_ID e))"

lemma cites_one_of:
  "(case x of None \<Rightarrow> False | Some i \<Rightarrow> i \<in> set (map ae_ID (filter hit es))) \<longleftrightarrow> (\<exists>e\<in>set es. hit e \<and> x = Some (ae_ID e))"
  by (auto split: option.split)

lemma delete_events_Inl: "delete_events hit w = Inl e \<longleftrightarrow> cited hit w \<and> e = ErrDb"
  by (auto simp: delete_events_def Let_def cites_one_of cited_def list_ex_iff simp del: set_map set_filter)

lemma delete_events_Inr:
  assumes "delete_events hit w = Inr w'"
  shows "w_events w' = filter (\<lambda>e. \<not> hit e) (w_events w)"
    and "w_outbox w' = filter (\<lambda>r. \<not> (\<exists>e\<in>set (w_events w). hit e \<and> ob_EventID r = ae_ID e)) (w_outbox w)"
    and "w_jobs w' = filter (\<lambda>j. \<not> (\<exists>e\<in>set (w_events w). hit e \<and> pj_EventID j = ae_ID e)) (w_jobs w)"
    and "w_profiles w' = w_profiles w" "w_runs w' = w_runs w" "w_intents w' = w_intents w" "w_audit w' = w_audit w"
  using assms by (auto simp: delete_events_def Let_def image_iff split: if_splits intro!: filter_cong)

text \<open>What the retention of a tenant deletes, and when it is refused.\<close>

lemma run_retention:
  assumes "\<not> w_fault w (w_tick w)" "\<not> w_fault w (Suc (w_tick w))" "find (\<lambda>q. tq_TenantID q = t) (w_quotas w) = Some q"
  defines "hit \<equiv> expired_event t (w_now w - tq_RetentionDays q * (24 * hour))"
  shows "run_state (EnforceRetention t) w = (case delete_events hit (ticked (ticked w)) of
     Inl e \<Rightarrow> (Inl e, ticked (ticked w))
   | Inr w' \<Rightarrow> (Inr \<lparr>dr_TenantID = t, dr_RetentionDays = tq_RetentionDays q, dr_Cutoff = w_now w - tq_RetentionDays q * (24 * hour),
       dr_DeletedEvents = length (filter hit (w_events w))\<rparr>, w'))"
  using assms by (simp add: EnforceRetention_def run_attempt run_query transact_def run_db Let_def split: sum.split)

text \<open>What erasing a subject leaves: nothing that names the profile, no event of the subject and no message about one.\<close>

lemma erase_subject_Inr:
  assumes "erase_subject t a x w = Inr (keys, w')"
  shows "keys = map (event_object t) (filter (subject_event t a x) (w_events w))"
    and "w_events w' = filter (\<lambda>e. \<not> subject_event t a x e) (w_events w)"
    and "\<And>r e. r \<in> set (w_outbox w') \<Longrightarrow> e \<in> set (w_events w) \<Longrightarrow> subject_event t a x e \<Longrightarrow> ob_EventID r \<noteq> ae_ID e"
proof -
  define w1 where "w1 = (case find (subject_profile t a x) (w_profiles w) of None \<Rightarrow> w | Some r \<Rightarrow> delete_profile (pr_ID r) w)"
  have ev: "w_events w1 = w_events w" by (simp add: w1_def delete_profile_def Let_def split: option.split)
  show "keys = map (event_object t) (filter (subject_event t a x) (w_events w))"
    using assms by (auto simp: erase_subject_def Let_def split: sum.splits)
  obtain o1 where d: "delete_events (subject_event t a x) (w1\<lparr>w_outbox := o1\<rparr>) = Inr w'"
    using assms unfolding erase_subject_def Let_def w1_def [symmetric] by (auto split: sum.splits)
  from delete_events_Inr(1) [OF d] ev show "w_events w' = filter (\<lambda>e. \<not> subject_event t a x e) (w_events w)" by simp
  show "ob_EventID r \<noteq> ae_ID e" if "r \<in> set (w_outbox w')" "e \<in> set (w_events w)" "subject_event t a x e" for r e
    using delete_events_Inr(2) [OF d] that ev by auto
qed

section \<open>Requests and their jobs\<close>

definition privacy_job :: "operation_job \<Rightarrow> bool" where
  "privacy_job j \<longleftrightarrow> oj_Type j = ''privacy.export'' \<or> oj_Type j = ''privacy.delete''"

definition job_request :: "operation_job \<Rightarrow> string" where
  "job_request j = payload_str ''request_id'' (oj_Payload j)"

definition privacy_jobs :: "world \<Rightarrow> string list" where
  "privacy_jobs w = map job_request (filter privacy_job (w_opjobs w))"

text \<open>
  A request has one job at most, and none while it is unverified; the identifiers of requests are those the database
  has generated.
\<close>

definition unverified :: "privacy_row \<Rightarrow> bool" where
  "unverified r \<longleftrightarrow> verification_of r \<notin> {''verified'', ''rejected''}"

definition privacy_ok :: "world \<Rightarrow> bool" where
  "privacy_ok w \<longleftrightarrow> inj (w_uuid w) \<and> distinct (privacy_jobs w) \<and> set (privacy_jobs w) \<subseteq> w_uuid w ` {..<w_seq w} \<and>
     set (map pq_ID (w_privacy w)) \<subseteq> w_uuid w ` {..<w_seq w} \<and>
     (\<forall>r\<in>set (w_privacy w). unverified r \<longrightarrow> pq_ID r \<notin> set (privacy_jobs w)) \<and>
     (\<forall>r\<in>set (w_privacy w). pq_RequestType r = ''export'' \<or> pq_RequestType r = ''delete'')"

definition later_row :: "privacy_row \<Rightarrow> privacy_row \<Rightarrow> bool" where
  "later_row r r' \<longleftrightarrow> pq_ID r' = pq_ID r \<and> pq_RequestType r' = pq_RequestType r \<and>
     (unverified r' \<longrightarrow> unverified r)"

text \<open>The frame of all operations but the creation and the verification of a request.\<close>

definition calmer :: "world \<Rightarrow> world \<Rightarrow> bool" where
  "calmer w w' \<longleftrightarrow> w_uuid w' = w_uuid w \<and> w_seq w \<le> w_seq w' \<and> privacy_jobs w' = privacy_jobs w \<and>
     list_all2 later_row (w_privacy w) (w_privacy w')"

lemma later_row_refl [simp]: "later_row r r"
  by (simp add: later_row_def)

lemma later_rows [simp]: "list_all2 later_row rows rows"
  by (simp add: list_all2_refl)

interpretation clm: store_evolution calmer
proof unfold_locales
  fix s t u
  assume "calmer s t" "calmer t u"
  moreover have "list_all2 later_row (w_privacy s) (w_privacy u)"
    if "list_all2 later_row (w_privacy s) (w_privacy t)" "list_all2 later_row (w_privacy t) (w_privacy u)"
    by (rule list_all2_trans [OF _ that]) (simp add: later_row_def)
  ultimately show "calmer s u" by (auto simp: calmer_def)
qed (simp_all add: calmer_def privacy_jobs_def)

lemma later_rows_upd: "(\<And>r. later_row r (f r)) \<Longrightarrow> list_all2 later_row rows (upd_rows P f rows)"
  by (simp add: upd_rows_def list_all2_map2 list_all2_conv_all_nth)

lemma privacy_jobs_upd_rows:
  "(\<And>j. oj_Type (f j) = oj_Type j) \<Longrightarrow> (\<And>j. oj_Payload (f j) = oj_Payload j) \<Longrightarrow>
   privacy_jobs (w\<lparr>w_opjobs := upd_rows P f js\<rparr>) = privacy_jobs (w\<lparr>w_opjobs := js\<rparr>)"
  by (induction js) (simp_all add: privacy_jobs_def upd_rows_def privacy_job_def job_request_def)

lemma calmer_ok:
  assumes "calmer w w'" and "privacy_ok w"
  shows "privacy_ok w'"
proof -
  from assms(1) have c: "w_uuid w' = w_uuid w" "w_seq w \<le> w_seq w'" "privacy_jobs w' = privacy_jobs w"
    "list_all2 later_row (w_privacy w) (w_privacy w')" by (simp_all add: calmer_def)
  have rows: "\<exists>r\<in>set (w_privacy w). later_row r r'" if "r' \<in> set (w_privacy w')" for r'
    using c(4) that by (metis in_set_conv_nth list_all2_conv_all_nth)
  have "w_uuid w ` {..<w_seq w} \<subseteq> w_uuid w ` {..<w_seq w'}" using c(2) by auto
  with assms(2) c(1,3) have "inj (w_uuid w')" "distinct (privacy_jobs w')" "set (privacy_jobs w') \<subseteq> w_uuid w' ` {..<w_seq w'}"
    by (auto simp: privacy_ok_def)
  moreover have "pq_ID r' \<in> w_uuid w' ` {..<w_seq w'}"
    "unverified r' \<longrightarrow> pq_ID r' \<notin> set (privacy_jobs w')"
    "pq_RequestType r' = ''export'' \<or> pq_RequestType r' = ''delete''" if r': "r' \<in> set (w_privacy w')" for r'
  proof -
    from rows [OF r'] obtain r where r: "r \<in> set (w_privacy w)" "later_row r r'" ..
    with assms(2) have "pq_ID r \<in> w_uuid w ` {..<w_seq w}" by (auto simp: privacy_ok_def)
    with r c(2) show "pq_ID r' \<in> w_uuid w' ` {..<w_seq w'}" by (auto simp: c(1) later_row_def)
    from r assms(2) show "unverified r' \<longrightarrow> pq_ID r' \<notin> set (privacy_jobs w')"
      "pq_RequestType r' = ''export'' \<or> pq_RequestType r' = ''delete''"
      by (simp_all add: c(3) privacy_ok_def later_row_def)
  qed
  ultimately show ?thesis by (auto simp: privacy_ok_def)
qed

subsection \<open>The operations\<close>

lemma calmer_opjobs:
  "(\<And>j. oj_Type (f j) = oj_Type j) \<Longrightarrow> (\<And>j. oj_Payload (f j) = oj_Payload j) \<Longrightarrow> calmer w (w\<lparr>w_opjobs := upd_rows P f (w_opjobs w)\<rparr>)"
  by (simp add: calmer_def privacy_jobs_upd_rows)

lemma calmer_elsewhere: "calmer w (w\<lparr>w_jobs := js\<rparr>)" "calmer w (w\<lparr>w_outbox := os\<rparr>)"
  by (simp_all add: calmer_def privacy_jobs_def)

lemma calmer_opjobs_claim: "state_io_rel calmer ClaimOperationJob"
  unfolding ClaimOperationJob_def
  by (rule clm.evolve_db) (auto simp: taken_operation_def clm.evolution_refl intro: calmer_opjobs split: option.split)

lemma calmer_complete_job: "state_io_rel calmer (CompleteOperationJob i)"
  unfolding CompleteOperationJob_def by (rule clm.evolve_exec) (auto simp: done_operation_def intro: calmer_opjobs)

lemma calmer_requests: "(\<And>r. later_row r (f r)) \<Longrightarrow> calmer w (w\<lparr>w_privacy := upd_rows P f (w_privacy w)\<rparr>)"
  by (simp add: calmer_def privacy_jobs_def later_rows_upd)

lemma calmer_fail_job: "state_io_rel calmer (FailOperationJob i terminal e)"
  unfolding FailOperationJob_def transact_def
proof (rule clm.evolve_db)
  fix w :: world
  let ?w1 = "\<lambda>terminal. w\<lparr>w_opjobs := upd_rows (\<lambda>j. oj_ID j = i) (failed_operation terminal (w_now w) (take 1000 (error_text e))) (w_opjobs w)\<rparr>"
  have 1: "calmer w (?w1 b)" for b by (rule calmer_opjobs) (simp_all add: failed_operation_def)
  have "calmer (?w1 b) (fail_privacy_request q m (?w1 b))" for q m b
    unfolding fail_privacy_request_def by (rule calmer_requests) (simp add: later_row_def unverified_def verification_of_def)
  from clm.evolution_trans [OF 1 this] 1
  show "calmer w (snd (case let message = take 1000 (error_text e)
     in case find (\<lambda>j. oj_ID j = i) (w_opjobs w) of
          None \<Rightarrow> Inl ErrNoRows
        | Some j \<Rightarrow>
            (let w1 = w\<lparr>w_opjobs := upd_rows (\<lambda>j. oj_ID j = i) (failed_operation terminal (w_now w) message) (w_opjobs w)\<rparr>
             in Inr ((), if terminal \<or> oj_Attempts j < 10 then w1
                         else case str_field ''request_id'' (oj_Payload j) of
                           None \<Rightarrow> w1
                         | Some requestID \<Rightarrow>
                             if requestID = [] \<or> oj_Type j \<in> set connector_types then w1
                             else fail_privacy_request requestID message w1)) of Inl e \<Rightarrow> (Inl e, w) | Inr (x, w') \<Rightarrow> (Inr x, w')))"
    by (simp add: Let_def clm.evolution_refl split: option.split)
qed

lemma calmer_audit: "calmer w (audit p a t i d w)"
  by (simp add: calmer_def privacy_jobs_def audit_def Let_def)

lemma calmer_reject: "state_io_rel calmer (RejectPrivacyRequest p i reason)"
proof -
  have "state_io_rel calmer (transact (reject_tx p i reason))"
    unfolding transact_def reject_tx_def
    by (rule clm.evolve_db) (auto simp: clm.evolution_refl later_row_def unverified_def verification_of_def
      intro!: clm.evolution_trans [OF calmer_requests calmer_audit] split: option.split)
  then show ?thesis
    unfolding RejectPrivacyRequest_def GetPrivacyRequest_def by (intro clm.evolve_rules clm.evolve_query)
qed

lemma calmer_retention: "state_io_rel calmer (EnforceRetention t)"
proof -
  have "calmer w w'" if "delete_events hit w = Inr w'" for hit w w'
    using delete_events_frame [OF that] by (simp add: calmer_def privacy_jobs_def)
  then show ?thesis
    unfolding EnforceRetention_def transact_def Let_def get_now_def
    by (auto simp: clm.evolution_refl intro!: clm.evolve_rules clm.evolve_query clm.evolve_db split: sum.split)
qed

lemma calmer_dead_letter: "state_io_rel calmer (settle_dead_letter action again p queue i)"
proof -
  have "state_io_rel calmer (updateDeadLetter p queue i again)"
    unfolding updateDeadLetter_def Let_def
    by (intro clm.evolve_if clm.evolve_db clm.evolve_failed) (simp_all add: calmer_elsewhere calmer_opjobs revive_operation_def)
  then show ?thesis
    unfolding settle_dead_letter_def by (intro clm.evolve_rules clm.evolve_query clm.evolve_exec calmer_audit)
qed

lemma calmer_refused: "state_io_rel calmer (CompletePrivacyExport i key)" "state_io_rel calmer (DeletePrivacyData i)"
  unfolding state_io_rel_def using export_refused [of i key] delete_refused [of i] by (metis clm.tick_ok snd_conv)+

text \<open>A fresh identifier is not one of those in use.\<close>

lemma new_id_fresh: "inj (w_uuid w) \<Longrightarrow> new_id w \<notin> w_uuid w ` {..<w_seq w}"
  by (auto simp: new_id_def inj_eq)

lemma new_id_range: "new_id w \<in> w_uuid w ` {..<Suc (w_seq w)}"
  by (simp add: new_id_def)

lemma calmer_run: "state_io_rel calmer m \<Longrightarrow> privacy_ok w \<Longrightarrow> privacy_ok (after w m)"
  by (rule calmer_ok) (simp_all add: state_io_rel_def)

lemma create_ok:
  assumes "privacy_ok w"
  shows "privacy_ok (snd (run_state (CreatePrivacyRequest buf p x ty) w))"
proof -
  have add: "privacy_ok ((next_id w)\<lparr>w_privacy := w_privacy w @ [r]\<rparr>)"
    if ok: "privacy_ok w" and r: "pq_ID r = new_id w" "pq_RequestType r = ''export'' \<or> pq_RequestType r = ''delete''" for w r
  proof -
    from ok have i: "inj (w_uuid w)" and s: "set (privacy_jobs w) \<subseteq> w_uuid w ` {..<w_seq w}"
      "set (map pq_ID (w_privacy w)) \<subseteq> w_uuid w ` {..<w_seq w}" by (simp_all add: privacy_ok_def)
    from new_id_fresh [OF i] s(1) have "new_id w \<notin> set (privacy_jobs w)" by auto
    moreover have "w_uuid w ` {..<w_seq w} \<subseteq> w_uuid w ` {..<Suc (w_seq w)}" by auto
    ultimately show ?thesis
      using ok s r new_id_range [of w] by (auto simp: privacy_ok_def privacy_jobs_def next_id_def)
  qed
  have tick: "privacy_ok (ticked w)" by (rule calmer_ok [OF clm.tick_ok assms])
  from add [OF this] have "privacy_ok ((next_id (ticked w))\<lparr>w_privacy := w_privacy w @ [r]\<rparr>)"
    if "pq_ID r = new_id (ticked w)" "pq_RequestType r = ''export'' \<or> pq_RequestType r = ''delete''" for r using that by simp
  then show ?thesis
    unfolding CreatePrivacyRequest_def transact_def
    by (auto simp: run_db Let_def assms tick intro!: calmer_ok [OF calmer_audit])
qed

lemma verify_tx_ok:
  assumes "privacy_ok w" and "verify_tx p i token w = Inr (u, w')"
  shows "privacy_ok w'"
proof -
  have lower: "to_lower ''request_id'' = ''request_id''" by code_simp
  have queued: "privacy_ok (queue_privacy_job r p w)" if r: "r \<in> set (w_privacy w)" "unverified r" for r
  proof -
    from r assms(1) have new: "pq_ID r \<notin> set (privacy_jobs w)" and ty: "pq_RequestType r = ''export'' \<or> pq_RequestType r = ''delete''"
      and i: "pq_ID r \<in> w_uuid w ` {..<w_seq w}" by (auto simp: privacy_ok_def)
    have jobs: "privacy_jobs (queue_privacy_job r p w) = privacy_jobs w @ [pq_ID r]"
      using ty lower by (auto simp: privacy_jobs_def queue_privacy_job_def privacy_job_def job_request_def new_op_job_def payload_str_def
        coalesce_def next_id_def)
    have "w_uuid w ` {..<w_seq w} \<subseteq> w_uuid w ` {..<Suc (w_seq w)}" by auto
    with assms(1) new i show ?thesis
      unfolding privacy_ok_def jobs
      by (auto simp: queue_privacy_job_def next_id_def set_upd_rows unverified_def verification_of_def)
  qed
  from assms(2) obtain r where f: "find (request_in p i) (w_privacy w) = Some r" and r: "verification_of r \<noteq> ''rejected''"
    and w': "w' = audit p ''privacy.verify'' ''privacy_request'' i [(''external_id'', JStr (pq_ExternalID r))]
      (if verification_of r \<noteq> ''verified'' then queue_privacy_job r p w else w)"
    by (auto simp: verify_tx_def split: option.splits if_splits)
  have "privacy_ok (if verification_of r \<noteq> ''verified'' then queue_privacy_job r p w else w)"
    using queued [of r] find_SomeD [OF f] r assms(1) by (simp add: unverified_def)
  from calmer_ok [OF calmer_audit this] show ?thesis by (simp add: w')
qed

lemma verify_ok:
  assumes "privacy_ok w"
  shows "privacy_ok (snd (run_state (VerifyPrivacyRequest p i token) w))"
proof -
  have tick: "privacy_ok (ticked w)" if "privacy_ok w" for w by (rule calmer_ok [OF clm.tick_ok that])
  have "privacy_ok (snd (run_state (GetPrivacyRequest p i) w))" if "privacy_ok w" for w
    using tick [OF that] by (simp add: GetPrivacyRequest_def run_query)
  then show ?thesis
    unfolding VerifyPrivacyRequest_def transact_def
    using verify_tx_ok [OF tick [OF assms], of p i token] tick [OF assms]
    by (auto simp: run_attempt run_db split: sum.split prod.split)
qed

section \<open>Reachable worlds\<close>

text \<open>The calls on requests and operation jobs, in any order, with steps of the rest of the system that leave both alone.\<close>

inductive privacy_step :: "world \<Rightarrow> world \<Rightarrow> bool" where
  create: "privacy_step w (after w (CreatePrivacyRequest buf p x ty))"
| verify: "privacy_step w (after w (VerifyPrivacyRequest p i token))"
| reject: "privacy_step w (after w (RejectPrivacyRequest p i reason))"
| claim: "privacy_step w (after w ClaimOperationJob)"
| complete: "privacy_step w (after w (CompleteOperationJob i))"
| fail: "privacy_step w (after w (FailOperationJob i terminal e))"
| export: "privacy_step w (after w (CompletePrivacyExport i key))"
| delete: "privacy_step w (after w (DeletePrivacyData i))"
| retain: "privacy_step w (after w (EnforceRetention t))"
| retry: "privacy_step w (after w (RetryDeadLetter p queue i))"
| discard: "privacy_step w (after w (DiscardDeadLetter p queue i))"
| elsewhere: "w_privacy w' = w_privacy w \<Longrightarrow> filter privacy_job (w_opjobs w') = filter privacy_job (w_opjobs w) \<Longrightarrow>
    w_uuid w' = w_uuid w \<Longrightarrow> w_seq w \<le> w_seq w' \<Longrightarrow> privacy_step w w'"

lemma privacy_step_ok: "privacy_step w w' \<Longrightarrow> privacy_ok w \<Longrightarrow> privacy_ok w'"
proof (induction rule: privacy_step.induct)
  case (elsewhere w' w)
  then have "calmer w w'" by (simp add: calmer_def privacy_jobs_def)
  then show ?case using elsewhere by (blast intro: calmer_ok)
qed (auto simp: create_ok verify_ok RetryDeadLetter_def DiscardDeadLetter_def
  intro: calmer_run calmer_reject calmer_opjobs_claim calmer_complete_job calmer_fail_job calmer_refused
    calmer_retention calmer_dead_letter)

lemma privacy_reachable_ok: "privacy_step\<^sup>*\<^sup>* w w' \<Longrightarrow> privacy_ok w \<Longrightarrow> privacy_ok w'"
  by (induction rule: rtranclp_induct) (auto intro: privacy_step_ok)

end
