(* ===== verification/QueueSamples.thy ===== *)
theory QueueSamples
  imports Samples PrivacyFacts
begin

text \<open>Small worlds for the queues, the requests of data subjects and the retention.\<close>

definition waiting_row :: outbox_row where
  "waiting_row = \<lparr>ob_ID = ''o'', ob_TenantID = ''t'', ob_Topic = ''events.accepted.v1'', ob_PartitionKey = ''x'', ob_EventID = ''e'',
     ob_Payload = JObj [], ob_Status = ''pending'', ob_Attempts = 0, ob_AvailableAt = 0, ob_LockedUntil = None, ob_LastError = None,
     ob_CreatedAt = 0, ob_PublishedAt = None\<rparr>"

definition outbox_world :: world where
  "outbox_world = empty_world\<lparr>w_outbox := [waiting_row]\<rparr>"

definition takes_all :: publisher where
  "takes_all n e = Published"

lemma outbox_claimed:
  "fst (run_state ClaimOutboxEvent outbox_world) = Inr (Some (outbox_event_of waiting_row))"
  "fst (run_state ClaimOutboxEvent (outbox_world\<lparr>w_outbox := [waiting_row\<lparr>ob_ID := ''p''\<rparr>]\<rparr>)) =
     Inr (Some (outbox_event_of (waiting_row\<lparr>ob_ID := ''p''\<rparr>)))"
  by code_simp+

lemma outbox_published:
  "map ob_Status (w_outbox (after outbox_world (DrainOutbox takes_all 3 10 0))) = [''published'']"
  by code_simp

text \<open>An event of long ago and one of today.\<close>

definition retention_world :: world where
  "retention_world = sample_tenant_world\<lparr>w_events := [sample_event\<lparr>ae_ID := ''old'', ae_ReceivedAt := - (400 * (24 * hour))\<rparr>, sample_event]\<rparr>"

lemma retention_keeps:
  "filter (\<lambda>e. \<not> expired_event ''t'' (- (396 * (24 * hour))) e) (w_events retention_world) = [sample_event]"
  by (simp add: retention_world_def expired_event_def sample_event_def tenant_principal_def hour_def minute_def second_def)

lemma one_request_verified:
  "privacy_jobs (after (after sample_tenant_world
     (CreatePrivacyRequest ''bytes'' sample_app ''x'' ''delete'')) (VerifyPrivacyRequest sample_app [] [])) = [[]]"
proof -
  have "to_lower ''request_id'' = ''request_id''" by code_simp
  then show ?thesis
    by (simp add: CreatePrivacyRequest_def VerifyPrivacyRequest_def GetPrivacyRequest_def transact_def run_attempt run_call Let_def
      sample_app_def tenant_principal_def verify_tx_def request_in_def verification_of_def audit_def queue_privacy_job_def
      privacy_jobs_def privacy_job_def job_request_def payload_str_def new_op_job_def new_id_def next_id_def coalesce_def
      sample_tenant_world_def sample_world_def empty_world_def)
qed

end
