(* ===== verification/Access.thy ===== *)
theory Access
  imports Directory JourneyStore AuditLog Publish "HOL-Library.List_Lexorder" "HOL-Library.Char_ord"
begin

text \<open>
  Who may do what: the credentials of \<^verbatim>\<open>internal/postgres/auth.go\<close> and of \<^verbatim>\<open>internal/postgres/store.go\<close>, the API keys of
  \<^verbatim>\<open>internal/postgres/admin.go\<close>, roles and users of \<^verbatim>\<open>internal/postgres/rbac.go\<close>, and the teams of
  \<^verbatim>\<open>internal/postgres/teams.go\<close>.

  The password hash (\<^verbatim>\<open>bcrypt\<close>) and the random bytes of a credential are arguments. Where the database collects distinct
  permissions into an array, the array is in the order of the rows; the program asks only for its elements.
\<close>

definition on_dir :: "(directory \<Rightarrow> directory) \<Rightarrow> world \<Rightarrow> world" where
  "on_dir f w = w\<lparr>w_dir := f (w_dir w)\<rparr>"

section \<open>Effective roles\<close>

definition joined_roles :: "string \<Rightarrow> string \<Rightarrow> directory \<Rightarrow> role_row list" where
  "joined_roles tenantID roleID d = filter (\<lambda>r. rl_ID r = roleID \<and> rl_TenantID r = tenantID) (dir_roles d)"

text \<open>The lateral subquery: one row for each binding of the user and for each role of each team of the user.\<close>

definition bound_roles :: "string \<Rightarrow> string \<Rightarrow> string \<Rightarrow> directory \<Rightarrow> role_row list" where
  "bound_roles tenantID workspaceID userID d = concat (map (\<lambda>b. joined_roles tenantID (rb_RoleID b) d)
     (filter (\<lambda>b. rb_UserID b = userID \<and> rb_TenantID b = tenantID \<and>
        (rb_WorkspaceID b = None \<or> rb_WorkspaceID b = Some workspaceID)) (dir_bindings d)))"

definition team_roles :: "string \<Rightarrow> string \<Rightarrow> string \<Rightarrow> directory \<Rightarrow> role_row list" where
  "team_roles tenantID workspaceID userID d = concat (map (\<lambda>m.
     concat (map (\<lambda>t. concat (map (\<lambda>tr. joined_roles tenantID (snd tr) d)
         (filter (\<lambda>tr. fst tr = tm_ID t) (dir_team_roles d))))
       (filter (\<lambda>t. tm_ID t = fst m \<and> tm_TenantID t = tenantID \<and> tm_WorkspaceID t = workspaceID) (dir_teams d))))
     (filter (\<lambda>m. snd m = userID) (dir_members d)))"

definition effective_roles :: "string \<Rightarrow> string \<Rightarrow> string \<Rightarrow> directory \<Rightarrow> role_row list" where
  "effective_roles tenantID workspaceID userID d = bound_roles tenantID workspaceID userID d @ team_roles tenantID workspaceID userID d"

text \<open>The distinct permissions; there is no row at all for a user without a role.\<close>

definition granted :: "string \<Rightarrow> string \<Rightarrow> string \<Rightarrow> directory \<Rightarrow> string list option" where
  "granted tenantID workspaceID userID d = (case effective_roles tenantID workspaceID userID d of
     [] \<Rightarrow> None
   | r # rs \<Rightarrow> Some (remdups (concat (map rl_Permissions (r # rs)))))"

definition user_principal :: "string \<Rightarrow> string \<Rightarrow> string \<Rightarrow> string \<Rightarrow> string list \<Rightarrow> principal" where
  "user_principal tenantID workspaceID appID userID scopes = \<lparr>p_TenantID = tenantID, p_WorkspaceID = workspaceID, p_AppID = appID,
     p_KeyID = [], p_UserID = userID, p_ActorType = ''user'', p_Scopes = scopes\<rparr>"

section \<open>API keys\<close>

definition allowedPermissions :: "string list" where
  "allowedPermissions = [''*'', ''events:write'', ''profiles:read'', ''schemas:read'', ''schemas:write'',
     ''api_keys:read'', ''api_keys:write'', ''privacy:write'', ''operations:read'', ''operations:write'',
     ''users:read'', ''users:write'', ''roles:read'', ''roles:write'',
     ''segments:read'', ''segments:write'', ''templates:read'', ''templates:write'',
     ''campaigns:read'', ''campaigns:write'', ''suppressions:read'', ''suppressions:write'',
     ''journeys:read'', ''journeys:write'', ''journeys:publish'',
     ''experiments:read'', ''experiments:write'', ''reports:read'', ''reports:write'',
     ''device_tokens:read'', ''device_tokens:write'',
     ''ai:read'', ''ai:configure'', ''ai:invoke'', ''prompts:read'', ''prompts:write'',
     ''scoring:read'', ''scoring:write'', ''scoring:compute'',
     ''forms:read'', ''forms:write'', ''forms:publish'',
     ''pages:read'', ''pages:write'', ''pages:publish'',
     ''assets:read'', ''assets:write'', ''links:read'', ''links:write'',
     ''companies:read'', ''companies:write'', ''stages:read'', ''stages:write'',
     ''imports:read'', ''imports:write'',
     ''extensions:read'', ''extensions:write'', ''extensions:install'',
     ''connectors:read'', ''connectors:write'', ''connectors:run'',
     ''messages:read'', ''messages:write'',
     ''flags:read'', ''flags:write'',
     ''catalogs:read'', ''catalogs:write'',
     ''teams:read'', ''teams:write'',
     ''audit:read'', ''privacy:read'', ''privacy:approve'', ''scim:manage'', ''sso:manage'']"

text \<open>\<^verbatim>\<open>base64.RawURLEncoding\<close>\<close>

definition base64_digit :: "int \<Rightarrow> char" where
  "base64_digit n = ''ABCDEFGHIJKLMNOPQRSTUVWXYZabcdefghijklmnopqrstuvwxyz0123456789-_'' ! nat n"

fun base64_raw_url :: "int list \<Rightarrow> string" where
  "base64_raw_url [] = []"
| "base64_raw_url [a] = map base64_digit [a div 4, a mod 4 * 16]"
| "base64_raw_url [a, b] = map base64_digit [a div 4, a mod 4 * 16 + b div 16, b mod 16 * 4]"
| "base64_raw_url (a # b # c # rest) =
     map base64_digit [a div 4, a mod 4 * 16 + b div 16, b mod 16 * 4 + c div 64, c mod 64] @ base64_raw_url rest"

definition key_of :: "api_key_row \<Rightarrow> api_key" where
  "key_of k = \<lparr>ky_ID = ak_ID k, ky_Name = ak_Name k, ky_Scopes = ak_Scopes k, ky_ExpiresAt = ak_ExpiresAt k,
     ky_RevokedAt = ak_RevokedAt k, ky_LastUsedAt = ak_LastUsedAt k, ky_CreatedAt = ak_CreatedAt k\<rparr>"

text \<open>Keys of the same time are listed in the order in which they were created.\<close>

definition ListAPIKeys :: "principal \<Rightarrow> api_key list call" where
  "ListAPIKeys p = query (\<lambda>w. Inr (map key_of (sort_key (\<lambda>k. - ak_CreatedAt k)
     (filter (\<lambda>k. ak_TenantID k = p_TenantID p \<and> ak_WorkspaceID k = p_WorkspaceID p \<and> ak_AppID k = p_AppID p) (dir_keys (w_dir w))))))"

definition unknown_scope :: "string list \<Rightarrow> string option" where
  "unknown_scope scopes = find (\<lambda>s. s \<notin> set allowedPermissions) scopes"

definition new_key :: "principal \<Rightarrow> string \<Rightarrow> string list \<Rightarrow> time option \<Rightarrow> string \<Rightarrow> world \<Rightarrow> api_key_row" where
  "new_key p name scopes expiresAt raw w = \<lparr>ak_ID = new_id w, ak_TenantID = p_TenantID p, ak_WorkspaceID = p_WorkspaceID p,
     ak_AppID = p_AppID p, ak_Name = name, ak_KeyHash = sha256_hex raw, ak_Scopes = scopes, ak_ExpiresAt = expiresAt, ak_RevokedAt = None,
     ak_LastUsedAt = None, ak_CreatedAt = w_now w\<rparr>"

definition create_key_tx :: "int list \<Rightarrow> principal \<Rightarrow> string \<Rightarrow> string list \<Rightarrow> time option \<Rightarrow> world \<Rightarrow> ((api_key \<times> string) \<times> world) result" where
  "create_key_tx random p name scopes expiresAt w =
     (if name = [] \<or> scopes = [] then Inl (ErrNew ''name and at least one scope are required'')
      else case unknown_scope scopes of
        Some s \<Rightarrow> Inl (ErrNew (''unknown scope: '' @ s))
      | None \<Rightarrow>
          (let raw = ''oj_'' @ base64_raw_url random;
               k = new_key p name scopes expiresAt raw w
           in if ak_KeyHash k \<in> set (map ak_KeyHash (dir_keys (w_dir w))) \<or> \<not> list_ex (\<lambda>a. ap_ID a = p_AppID p) (w_apps w) then Inl ErrDb
              else Inr ((key_of k, raw), audit p ''api_key.create'' ''api_key'' (ak_ID k) [(''scopes'', JArr (map JStr scopes))]
                (on_dir (\<lambda>d. d\<lparr>dir_keys := dir_keys d @ [k]\<rparr>) (next_id w)))))"

definition CreateAPIKey :: "int list \<Rightarrow> principal \<Rightarrow> string \<Rightarrow> string list \<Rightarrow> time option \<Rightarrow> (api_key \<times> string) call" where
  "CreateAPIKey random p name scopes expiresAt = transact (create_key_tx random p name scopes expiresAt)"

definition revocable :: "principal \<Rightarrow> string \<Rightarrow> api_key_row \<Rightarrow> bool" where
  "revocable p i k \<longleftrightarrow> ak_ID k = i \<and> ak_TenantID k = p_TenantID p \<and> ak_WorkspaceID k = p_WorkspaceID p \<and> ak_AppID k = p_AppID p \<and>
     ak_RevokedAt k = None"

definition RevokeAPIKey :: "principal \<Rightarrow> string \<Rightarrow> unit call" where
  "RevokeAPIKey p i = transact (\<lambda>w.
     if length (filter (revocable p i) (dir_keys (w_dir w))) \<noteq> 1 then Inl ErrNotFound
     else Inr ((), audit p ''api_key.revoke'' ''api_key'' i []
       (on_dir (\<lambda>d. d\<lparr>dir_keys := upd_rows (revocable p i) (\<lambda>k. k\<lparr>ak_RevokedAt := Some (w_now w)\<rparr>) (dir_keys d)\<rparr>) w)))"

section \<open>Authentication\<close>

definition live_session :: "time \<Rightarrow> string \<Rightarrow> session_row \<Rightarrow> bool" where
  "live_session now hash s \<longleftrightarrow> ss_TokenHash s = hash \<and> ss_RevokedAt s = None \<and> now < ss_ExpiresAt s"

definition enabled_user :: "string \<Rightarrow> string \<Rightarrow> user_row \<Rightarrow> bool" where
  "enabled_user tenantID userID u \<longleftrightarrow> us_ID u = userID \<and> us_TenantID u = tenantID \<and> us_DisabledAt u = None"

text \<open>The update of the session is part of the statement, also when the join finds no row.\<close>

definition authenticateSession :: "string \<Rightarrow> principal call" where
  "authenticateSession hash = db (\<lambda>w.
     let d = w_dir w; live = live_session (w_now w) hash;
         w1 = on_dir (\<lambda>d. d\<lparr>dir_sessions := upd_rows live (\<lambda>s. s\<lparr>ss_LastUsedAt := Some (w_now w)\<rparr>) (dir_sessions d)\<rparr>) w
     in case find live (dir_sessions d) of
          None \<Rightarrow> (Inl ErrUnauthorized, w1)
        | Some s \<Rightarrow>
            if \<not> list_ex (enabled_user (ss_TenantID s) (ss_UserID s)) (dir_users d) then (Inl ErrUnauthorized, w1)
            else case granted (ss_TenantID s) (ss_WorkspaceID s) (ss_UserID s) d of
              None \<Rightarrow> (Inl ErrUnauthorized, w1)
            | Some scopes \<Rightarrow> (Inr (user_principal (ss_TenantID s) (ss_WorkspaceID s) (ss_AppID s) (ss_UserID s) scopes), w1))"

definition live_key :: "time \<Rightarrow> string \<Rightarrow> api_key_row \<Rightarrow> bool" where
  "live_key now hash k \<longleftrightarrow> ak_KeyHash k = hash \<and> ak_RevokedAt k = None \<and> (case ak_ExpiresAt k of None \<Rightarrow> True | Some t \<Rightarrow> now < t)"

definition key_principal :: "api_key_row \<Rightarrow> principal" where
  "key_principal k = \<lparr>p_TenantID = ak_TenantID k, p_WorkspaceID = ak_WorkspaceID k, p_AppID = ak_AppID k, p_KeyID = ak_ID k,
     p_UserID = [], p_ActorType = ''api_key'', p_Scopes = ak_Scopes k\<rparr>"

definition Authenticate :: "string \<Rightarrow> principal call" where
  "Authenticate rawKey =
     (let hash = sha256_hex rawKey
      in attempt (db (\<lambda>w. (Inr (find (live_key (w_now w) hash) (dir_keys (w_dir w))),
           on_dir (\<lambda>d. d\<lparr>dir_keys := upd_rows (live_key (w_now w) hash) (\<lambda>k. k\<lparr>ak_LastUsedAt := Some (w_now w)\<rparr>) (dir_keys d)\<rparr>) w)))
         failed (\<lambda>found. case found of None \<Rightarrow> authenticateSession hash | Some k \<Rightarrow> ret (Inr (key_principal k))))"

text \<open>The local users have one address per tenant, as long as they are enabled.\<close>

definition local_user :: "user_row \<Rightarrow> bool" where
  "local_user u \<longleftrightarrow> us_PasswordHash u \<noteq> None \<and> us_DisabledAt u = None"

definition email_taken :: "user_row \<Rightarrow> user_row list \<Rightarrow> bool" where
  "email_taken u us \<longleftrightarrow> local_user u \<and> us_Email u \<noteq> None \<and>
     list_ex (\<lambda>x. us_ID x \<noteq> us_ID u \<and> local_user x \<and> us_TenantID x = us_TenantID u \<and>
       map_option to_lower (us_Email x) = map_option to_lower (us_Email u)) us"

definition renamed_user :: "time \<Rightarrow> oidc_claims \<Rightarrow> user_row \<Rightarrow> user_row" where
  "renamed_user now claims u = u\<lparr>us_Email := nullif (oc_Email claims), us_DisplayName := nullif (oc_Name claims), us_UpdatedAt := now\<rparr>"

definition oidc_user :: "oidc_claims \<Rightarrow> user_row \<Rightarrow> bool" where
  "oidc_user claims u \<longleftrightarrow> us_OIDCIssuer u = oc_Issuer claims \<and> us_OIDCSubject u = oc_Subject claims \<and> us_TenantID u = oc_TenantID claims \<and>
     us_DisabledAt u = None"

definition AuthenticateOIDC :: "oidc_claims \<Rightarrow> principal call" where
  "AuthenticateOIDC claims =
     attempt (query (\<lambda>w. let d = w_dir w in
        if \<not> list_ex (\<lambda>a. ap_ID a = oc_AppID claims \<and> ap_WorkspaceID a = oc_WorkspaceID claims \<and> ap_TenantID a = oc_TenantID claims) (w_apps w)
        then Inl ErrUnauthorized
        else case find (oidc_user claims) (dir_users d) of
          None \<Rightarrow> Inl ErrUnauthorized
        | Some u \<Rightarrow>
            (case granted (oc_TenantID claims) (oc_WorkspaceID claims) (us_ID u) d of
               None \<Rightarrow> Inl ErrUnauthorized
             | Some scopes \<Rightarrow> Inr (user_principal (oc_TenantID claims) (oc_WorkspaceID claims) (oc_AppID claims) (us_ID u) scopes))))
       failed (\<lambda>p.
     attempt (db (\<lambda>w. let us = upd_rows (\<lambda>u. us_ID u = p_UserID p) (renamed_user (w_now w) claims) (dir_users (w_dir w)) in
        if list_ex (\<lambda>u. us_ID u = p_UserID p \<and> email_taken u us) us then (Inl ErrDb, w)
        else (Inr (), on_dir (\<lambda>d. d\<lparr>dir_users := us\<rparr>) w)))
       (\<lambda>_. ret (Inr p)) (\<lambda>_. ret (Inr p)))"

section \<open>Sessions of local users\<close>

record auth_env =
  au_Compare :: "string \<Rightarrow> string \<Rightarrow> bool"
  au_Generate :: "string \<Rightarrow> string result"

definition hashPassword :: "auth_env \<Rightarrow> string \<Rightarrow> string result" where
  "hashPassword env password =
     (if length password < 12 then Inl (ErrNew ''password must be at least 12 characters'') else au_Generate env password)"

text \<open>A candidate of the query: a user, an application of the tenant, and the permissions there.\<close>

definition login_candidates :: "string \<Rightarrow> world \<Rightarrow> (user_row \<times> app_row \<times> string list) list" where
  "login_candidates email w = concat (map (\<lambda>u.
     List.map_filter (\<lambda>a. map_option (\<lambda>scopes. (u, a, scopes)) (granted (us_TenantID u) (ap_WorkspaceID a) (us_ID u) (w_dir w)))
       (filter (\<lambda>a. ap_TenantID a = us_TenantID u) (w_apps w)))
     (filter (\<lambda>u. map_option to_lower (us_Email u) = Some (to_lower email) \<and> local_user u) (dir_users (w_dir w))))"

definition new_session :: "user_row \<Rightarrow> app_row \<Rightarrow> string \<Rightarrow> duration \<Rightarrow> world \<Rightarrow> session_row" where
  "new_session u a raw ttl w = \<lparr>ss_ID = new_id w, ss_TenantID = us_TenantID u, ss_WorkspaceID = ap_WorkspaceID a, ss_AppID = ap_ID a,
     ss_UserID = us_ID u, ss_TokenHash = sha256_hex raw, ss_ExpiresAt = w_now w + ttl, ss_RevokedAt = None,
     ss_LastUsedAt = Some (w_now w), ss_CreatedAt = w_now w\<rparr>"

definition login_tx :: "auth_env \<Rightarrow> int list \<Rightarrow> string \<Rightarrow> string \<Rightarrow> duration \<Rightarrow> world \<Rightarrow> (auth_session \<times> world) result" where
  "login_tx env random email0 password ttl0 w =
     (let email = trim_space (to_lower email0)
      in if email = [] \<or> password = [] then Inl ErrUnauthorized
         else case least_by (\<lambda>(u, _). us_CreatedAt u) (login_candidates email w) of
           None \<Rightarrow> Inl ErrUnauthorized
         | Some (u, a, scopes) \<Rightarrow>
             if \<not> au_Compare env (coalesce (us_PasswordHash u)) password then Inl ErrUnauthorized
             else
               (let ttl = (if ttl0 \<le> 0 then 12 * hour else ttl0);
                    raw = ''ojs_'' @ base64_raw_url random;
                    s = new_session u a raw ttl w
                in if ss_TokenHash s \<in> set (map ss_TokenHash (dir_sessions (w_dir w))) then Inl ErrDb
                   else Inr (\<lparr>at_AccessToken = raw, at_TokenType = ''Bearer'', at_ExpiresAt = ss_ExpiresAt s\<rparr>,
                     audit (user_principal (us_TenantID u) (ap_WorkspaceID a) (ap_ID a) (us_ID u) scopes) ''auth.login'' ''user_session'' [] []
                       (on_dir (\<lambda>d. d\<lparr>dir_sessions := dir_sessions d @ [s]\<rparr>) (next_id w)))))"

definition CreateLocalSession :: "auth_env \<Rightarrow> int list \<Rightarrow> string \<Rightarrow> string \<Rightarrow> duration \<Rightarrow> auth_session call" where
  "CreateLocalSession env random email password ttl = transact (login_tx env random email password ttl)"

definition RevokeLocalSession :: "string \<Rightarrow> unit call" where
  "RevokeLocalSession rawToken0 =
     (let rawToken = trim_space rawToken0
      in if rawToken = [] then ret (Inr ())
         else exec (\<lambda>w. on_dir (\<lambda>d. d\<lparr>dir_sessions := upd_rows (\<lambda>s. ss_TokenHash s = sha256_hex rawToken \<and> ss_RevokedAt s = None)
           (\<lambda>s. s\<lparr>ss_RevokedAt := Some (w_now w)\<rparr>) (dir_sessions d)\<rparr>) w))"

section \<open>Roles\<close>

definition role_of :: "role_row \<Rightarrow> role" where
  "role_of r = \<lparr>ro_ID = rl_ID r, ro_Name = rl_Name r, ro_Permissions = rl_Permissions r, ro_System = rl_System r, ro_CreatedAt = rl_CreatedAt r\<rparr>"

definition unknown_permission :: "string list \<Rightarrow> directory \<Rightarrow> string option" where
  "unknown_permission permissions d = find (\<lambda>x. x \<notin> set (dir_permissions d)) permissions"

definition role_name_taken :: "string \<Rightarrow> string \<Rightarrow> string \<Rightarrow> directory \<Rightarrow> bool" where
  "role_name_taken tenantID i name d \<longleftrightarrow> list_ex (\<lambda>r. rl_TenantID r = tenantID \<and> rl_Name r = name \<and> rl_ID r \<noteq> i) (dir_roles d)"

definition create_role_tx :: "principal \<Rightarrow> string \<Rightarrow> string list \<Rightarrow> world \<Rightarrow> (role \<times> world) result" where
  "create_role_tx p name permissions w =
     (if name = [] \<or> permissions = [] then Inl (ErrNew ''name and permissions are required'')
      else case unknown_permission permissions (w_dir w) of
        Some x \<Rightarrow> Inl (ErrNew (''unknown permission: '' @ x))
      | None \<Rightarrow>
          (let r = \<lparr>rl_ID = new_id w, rl_TenantID = p_TenantID p, rl_Name = name, rl_Permissions = permissions, rl_System = False,
                    rl_CreatedAt = w_now w\<rparr>
           in if role_name_taken (p_TenantID p) (rl_ID r) name (w_dir w) then Inl ErrDb
              else Inr (role_of r, audit p ''role.create'' ''role'' (rl_ID r) [(''permissions'', JArr (map JStr permissions))]
                (on_dir (\<lambda>d. d\<lparr>dir_roles := dir_roles d @ [r]\<rparr>) (next_id w)))))"

definition CreateRole :: "principal \<Rightarrow> string \<Rightarrow> string list \<Rightarrow> role call" where
  "CreateRole p name permissions = transact (create_role_tx p name permissions)"

definition is_role :: "principal \<Rightarrow> string \<Rightarrow> role_row \<Rightarrow> bool" where
  "is_role p i r \<longleftrightarrow> rl_TenantID r = p_TenantID p \<and> rl_ID r = i"

definition update_role_tx :: "principal \<Rightarrow> string \<Rightarrow> string \<Rightarrow> string list \<Rightarrow> world \<Rightarrow> (role \<times> world) result" where
  "update_role_tx p i name permissions w =
     (if i = [] \<or> name = [] \<or> permissions = [] then Inl (ErrNew ''id, name, and permissions are required'')
      else case unknown_permission permissions (w_dir w) of
        Some x \<Rightarrow> Inl (ErrNew (''unknown permission: '' @ x))
      | None \<Rightarrow>
          (case find (is_role p i) (dir_roles (w_dir w)) of
             None \<Rightarrow> Inl (ErrNew ''role not found'')
           | Some r \<Rightarrow>
               if rl_System r then Inl (ErrNew ''cannot update system role'')
               else if role_name_taken (p_TenantID p) i name (w_dir w) then Inl ErrDb
               else Inr (role_of (r\<lparr>rl_Name := name, rl_Permissions := permissions\<rparr>),
                 audit p ''role.update'' ''role'' i [(''name'', JStr name), (''permissions'', JArr (map JStr permissions))]
                   (on_dir (\<lambda>d. d\<lparr>dir_roles := upd_rows (\<lambda>r. is_role p i r \<and> \<not> rl_System r)
                      (\<lambda>r. r\<lparr>rl_Name := name, rl_Permissions := permissions\<rparr>) (dir_roles d)\<rparr>) w))))"

definition UpdateRole :: "principal \<Rightarrow> string \<Rightarrow> string \<Rightarrow> string list \<Rightarrow> role call" where
  "UpdateRole p i name permissions = transact (update_role_tx p i name permissions)"

text \<open>The bindings and the team roles of a deleted role go with it.\<close>

definition delete_role_tx :: "principal \<Rightarrow> string \<Rightarrow> world \<Rightarrow> (unit \<times> world) result" where
  "delete_role_tx p i w =
     (if i = [] then Inl (ErrNew ''id is required'')
      else case find (is_role p i) (dir_roles (w_dir w)) of
        None \<Rightarrow> Inl (ErrNew ''role not found'')
      | Some r \<Rightarrow>
          if rl_System r then Inl (ErrNew ''cannot delete system role'')
          else Inr ((), audit p ''role.delete'' ''role'' i []
            (on_dir (\<lambda>d. d\<lparr>dir_roles := filter (\<lambda>r. \<not> (is_role p i r \<and> \<not> rl_System r)) (dir_roles d),
               dir_bindings := filter (\<lambda>b. rb_RoleID b \<noteq> i) (dir_bindings d),
               dir_team_roles := filter (\<lambda>(_, roleID). roleID \<noteq> i) (dir_team_roles d)\<rparr>) w)))"

definition DeleteRole :: "principal \<Rightarrow> string \<Rightarrow> unit call" where
  "DeleteRole p i = transact (delete_role_tx p i)"

definition seedDevelopmentRole :: "string \<Rightarrow> unit call" where
  "seedDevelopmentRole tenantID = exec (\<lambda>w.
     if list_ex (\<lambda>r. rl_TenantID r = tenantID \<and> rl_Name r = ''Administrator'') (dir_roles (w_dir w)) then w
     else on_dir (\<lambda>d. d\<lparr>dir_roles := dir_roles d @ [\<lparr>rl_ID = new_id w, rl_TenantID = tenantID, rl_Name = ''Administrator'',
       rl_Permissions = [''*''], rl_System = True, rl_CreatedAt = w_now w\<rparr>]\<rparr>) (next_id w))"

section \<open>Users\<close>

definition normalized_user :: "user \<Rightarrow> user result" where
  "normalized_user input =
     (if ur_RoleIDs input = [] then Inl (ErrNew ''role_ids are required'')
      else if ur_Password input \<noteq> [] then
        (let email = trim_space (to_lower (ur_Email input))
         in if email = [] then Inl (ErrNew ''email is required for local users'')
            else Inr (input\<lparr>ur_Email := email, ur_OIDCIssuer := ''local'', ur_OIDCSubject := email\<rparr>))
      else if ur_OIDCIssuer input = [] \<or> ur_OIDCSubject input = []
      then Inl (ErrNew ''oidc_issuer and oidc_subject are required for OIDC users'')
      else Inr input)"

definition role_in :: "string \<Rightarrow> string \<Rightarrow> directory \<Rightarrow> role_row option" where
  "role_in tenantID roleID d = find (\<lambda>r. rl_ID r = roleID \<and> rl_TenantID r = tenantID) (dir_roles d)"

fun bind_roles :: "principal \<Rightarrow> string \<Rightarrow> string list \<Rightarrow> world \<Rightarrow> world result" where
  "bind_roles p userID [] w = Inr w"
| "bind_roles p userID (roleID # rest) w =
     (case role_in (p_TenantID p) roleID (w_dir w) of
        None \<Rightarrow> Inl ErrNotFound
      | Some r \<Rightarrow>
          if list_ex (\<lambda>b. rb_WorkspaceID b = Some (p_WorkspaceID p) \<and> rb_UserID b = userID \<and> rb_RoleID b = roleID) (dir_bindings (w_dir w))
          then Inl ErrDb
          else bind_roles p userID rest (on_dir (\<lambda>d. d\<lparr>dir_bindings := dir_bindings d @
            [\<lparr>rb_ID = new_id w, rb_TenantID = p_TenantID p, rb_WorkspaceID = Some (p_WorkspaceID p), rb_UserID = userID,
              rb_RoleID = roleID\<rparr>]\<rparr>) (next_id w)))"

definition new_user :: "principal \<Rightarrow> user \<Rightarrow> string \<Rightarrow> world \<Rightarrow> user_row" where
  "new_user p input passwordHash w = \<lparr>us_ID = new_id w, us_TenantID = p_TenantID p, us_OIDCIssuer = ur_OIDCIssuer input,
     us_OIDCSubject = ur_OIDCSubject input, us_Email = nullif (ur_Email input), us_DisplayName = nullif (ur_DisplayName input),
     us_PasswordHash = nullif passwordHash, us_DisabledAt = None, us_CreatedAt = w_now w, us_UpdatedAt = w_now w\<rparr>"

definition create_user_tx :: "principal \<Rightarrow> user \<Rightarrow> string \<Rightarrow> world \<Rightarrow> (user \<times> world) result" where
  "create_user_tx p input passwordHash w =
     (let u = new_user p input passwordHash w; us = dir_users (w_dir w)
      in if list_ex (\<lambda>x. us_OIDCIssuer x = us_OIDCIssuer u \<and> us_OIDCSubject x = us_OIDCSubject u) us \<or> email_taken u us then Inl ErrDb
         else case bind_roles p (us_ID u) (ur_RoleIDs input) (on_dir (\<lambda>d. d\<lparr>dir_users := dir_users d @ [u]\<rparr>) (next_id w)) of
           Inl e \<Rightarrow> Inl e
         | Inr w1 \<Rightarrow> Inr (input\<lparr>ur_ID := us_ID u, ur_Local := us_PasswordHash u \<noteq> None, ur_CreatedAt := us_CreatedAt u, ur_Password := []\<rparr>,
             audit p ''user.create'' ''user'' (us_ID u) [(''roles'', JArr (map JStr (ur_RoleIDs input)))] w1))"

definition CreateUser :: "auth_env \<Rightarrow> principal \<Rightarrow> user \<Rightarrow> user call" where
  "CreateUser env p input0 =
     (case normalized_user input0 of
        Inl e \<Rightarrow> failed e
      | Inr input \<Rightarrow>
          (case (if ur_Password input \<noteq> [] then hashPassword env (ur_Password input) else Inr []) of
             Inl e \<Rightarrow> failed e
           | Inr passwordHash \<Rightarrow> transact (create_user_tx p input passwordHash)))"

section \<open>Teams\<close>

definition team_of :: "team_row \<Rightarrow> string list \<Rightarrow> string list \<Rightarrow> team" where
  "team_of t members roles = \<lparr>ta_ID = tm_ID t, ta_TenantID = tm_TenantID t, ta_WorkspaceID = tm_WorkspaceID t, ta_Name = tm_Name t,
     ta_Description = tm_Description t, ta_MemberIDs = members, ta_RoleIDs = roles, ta_CreatedAt = tm_CreatedAt t, ta_UpdatedAt = tm_UpdatedAt t\<rparr>"

definition team_name_taken :: "principal \<Rightarrow> string \<Rightarrow> string \<Rightarrow> directory \<Rightarrow> bool" where
  "team_name_taken p i name d \<longleftrightarrow> list_ex (\<lambda>t. tm_TenantID t = p_TenantID p \<and> tm_WorkspaceID t = p_WorkspaceID p \<and> tm_Name t = name \<and>
     tm_ID t \<noteq> i) (dir_teams d)"

text \<open>A blank identifier is skipped; an insert that changes no row, also for one that is there already, ends the transaction.\<close>

fun add_members :: "principal \<Rightarrow> string \<Rightarrow> string list \<Rightarrow> directory \<Rightarrow> (string list \<times> directory) result" where
  "add_members p teamID [] d = Inr ([], d)"
| "add_members p teamID (uid # rest) d =
     (if trim_space uid = [] then add_members p teamID rest d
      else if \<not> list_ex (\<lambda>u. us_ID u = uid \<and> us_TenantID u = p_TenantID p) (dir_users d) \<or> (teamID, uid) \<in> set (dir_members d)
      then Inl (ErrNew ''team member is not in the tenant'')
      else case add_members p teamID rest (d\<lparr>dir_members := dir_members d @ [(teamID, uid)]\<rparr>) of
        Inl e \<Rightarrow> Inl e | Inr (ids, d1) \<Rightarrow> Inr (uid # ids, d1))"

fun add_team_roles :: "principal \<Rightarrow> string \<Rightarrow> string list \<Rightarrow> directory \<Rightarrow> (string list \<times> directory) result" where
  "add_team_roles p teamID [] d = Inr ([], d)"
| "add_team_roles p teamID (rid # rest) d =
     (if trim_space rid = [] then add_team_roles p teamID rest d
      else if role_in (p_TenantID p) rid d = None \<or> (teamID, rid) \<in> set (dir_team_roles d)
      then Inl (ErrNew ''team role is not in the tenant'')
      else case add_team_roles p teamID rest (d\<lparr>dir_team_roles := dir_team_roles d @ [(teamID, rid)]\<rparr>) of
        Inl e \<Rightarrow> Inl e | Inr (ids, d1) \<Rightarrow> Inr (rid # ids, d1))"

definition staff_team :: "principal \<Rightarrow> team_row \<Rightarrow> team \<Rightarrow> directory \<Rightarrow> (team \<times> directory) result" where
  "staff_team p t input d =
     (case add_members p (tm_ID t) (ta_MemberIDs input) d of
        Inl e \<Rightarrow> Inl e
      | Inr (members, d1) \<Rightarrow>
          (case add_team_roles p (tm_ID t) (ta_RoleIDs input) d1 of
             Inl e \<Rightarrow> Inl e
           | Inr (roles, d2) \<Rightarrow> Inr (team_of t members roles, d2)))"

definition team_exists :: err where
  "team_exists = ErrNew ''team with this name already exists in this workspace''"

definition create_team_tx :: "principal \<Rightarrow> team \<Rightarrow> world \<Rightarrow> (team \<times> world) result" where
  "create_team_tx p input w =
     (let t = \<lparr>tm_ID = new_id w, tm_TenantID = p_TenantID p, tm_WorkspaceID = p_WorkspaceID p, tm_Name = trim_space (ta_Name input),
               tm_Description = ta_Description input, tm_CreatedAt = w_now w, tm_UpdatedAt = w_now w\<rparr>
      in if team_name_taken p (tm_ID t) (tm_Name t) (w_dir w) then Inl team_exists
         else case staff_team p t input ((w_dir w)\<lparr>dir_teams := dir_teams (w_dir w) @ [t]\<rparr>) of
           Inl e \<Rightarrow> Inl e
         | Inr (team, d) \<Rightarrow> Inr (team, audit p ''team.create'' ''team'' (tm_ID t) [(''name'', JStr (tm_Name t))] (on_dir (\<lambda>_. d) (next_id w))))"

definition CreateTeam :: "principal \<Rightarrow> team \<Rightarrow> team call" where
  "CreateTeam p input = (if trim_space (ta_Name input) = [] then failed (ErrNew ''team name is required'') else transact (create_team_tx p input))"

definition team_in :: "principal \<Rightarrow> string \<Rightarrow> team_row \<Rightarrow> bool" where
  "team_in p i t \<longleftrightarrow> tm_TenantID t = p_TenantID p \<and> tm_WorkspaceID t = p_WorkspaceID p \<and> tm_ID t = i"

definition GetTeam :: "principal \<Rightarrow> string \<Rightarrow> team call" where
  "GetTeam p i =
     attempt (query (\<lambda>w. or_not_found (find (team_in p i) (dir_teams (w_dir w))))) failed (\<lambda>t.
     attempt (query (\<lambda>w. Inr (sort (map snd (filter (\<lambda>(x, _). x = tm_ID t) (dir_members (w_dir w))))))) failed (\<lambda>members.
     attempt (query (\<lambda>w. Inr (sort (map snd (filter (\<lambda>(x, _). x = tm_ID t) (dir_team_roles (w_dir w))))))) failed (\<lambda>roles.
     ret (Inr (team_of t members roles)))))"

text \<open>The members and the roles are replaced as a whole.\<close>

definition update_team_tx :: "principal \<Rightarrow> team \<Rightarrow> world \<Rightarrow> (team \<times> world) result" where
  "update_team_tx p input w =
     (let name = trim_space (ta_Name input); d = w_dir w
      in case find (team_in p (ta_ID input)) (dir_teams d) of
           None \<Rightarrow> Inl ErrNotFound
         | Some t0 \<Rightarrow>
             if team_name_taken p (ta_ID input) name d then Inl team_exists
             else
               (let t = t0\<lparr>tm_Name := name, tm_Description := ta_Description input, tm_UpdatedAt := w_now w\<rparr>
                in case staff_team p t input (d\<lparr>dir_teams := upd_rows (team_in p (ta_ID input))
                       (\<lambda>x. x\<lparr>tm_Name := name, tm_Description := ta_Description input, tm_UpdatedAt := w_now w\<rparr>) (dir_teams d),
                     dir_members := filter (\<lambda>(x, _). x \<noteq> tm_ID t) (dir_members d),
                     dir_team_roles := filter (\<lambda>(x, _). x \<noteq> tm_ID t) (dir_team_roles d)\<rparr>) of
                   Inl e \<Rightarrow> Inl e
                 | Inr (team, d1) \<Rightarrow> Inr (team, audit p ''team.update'' ''team'' (tm_ID t) [(''name'', JStr name)] (on_dir (\<lambda>_. d1) w))))"

definition UpdateTeam :: "principal \<Rightarrow> team \<Rightarrow> team call" where
  "UpdateTeam p input = (if trim_space (ta_Name input) = [] then failed (ErrNew ''team name is required'') else transact (update_team_tx p input))"

definition DeleteTeam :: "principal \<Rightarrow> string \<Rightarrow> unit call" where
  "DeleteTeam p i = transact (\<lambda>w.
     if \<not> list_ex (team_in p i) (dir_teams (w_dir w)) then Inl ErrNotFound
     else Inr ((), audit p ''team.delete'' ''team'' i []
       (on_dir (\<lambda>d. d\<lparr>dir_teams := filter (\<lambda>t. \<not> team_in p i t) (dir_teams d),
          dir_members := filter (\<lambda>(x, _). x \<noteq> i) (dir_members d),
          dir_team_roles := filter (\<lambda>(x, _). x \<noteq> i) (dir_team_roles d)\<rparr>) w)))"

end
