(* ===== verification/AccessFacts.thy ===== *)
theory AccessFacts
  imports Access Engine
begin

text \<open>
  What a credential is worth: the permissions of a session are those of the roles bound to its user, a created key
  authenticates with the scopes it was given, and a credential that was revoked stays revoked. The relation \<open>dir_kept\<close>
  has what every operation on the directory keeps.
\<close>

section \<open>Effective permissions\<close>

text \<open>The permissions of a user in a workspace, as the roles, bindings and teams define them.\<close>

definition holds_role :: "string \<Rightarrow> string \<Rightarrow> string \<Rightarrow> directory \<Rightarrow> role_row \<Rightarrow> bool" where
  "holds_role tenantID workspaceID userID d r \<longleftrightarrow> r \<in> set (dir_roles d) \<and> rl_TenantID r = tenantID \<and>
     ((\<exists>b\<in>set (dir_bindings d). rb_UserID b = userID \<and> rb_TenantID b = tenantID \<and> rb_RoleID b = rl_ID r \<and>
         (rb_WorkspaceID b = None \<or> rb_WorkspaceID b = Some workspaceID)) \<or>
      (\<exists>t\<in>set (dir_teams d). tm_TenantID t = tenantID \<and> tm_WorkspaceID t = workspaceID \<and>
         (tm_ID t, userID) \<in> set (dir_members d) \<and> (tm_ID t, rl_ID r) \<in> set (dir_team_roles d)))"

lemma set_effective_roles: "set (effective_roles tenantID workspaceID userID d) = {r. holds_role tenantID workspaceID userID d r}"
proof -
  have "set (bound_roles tenantID workspaceID userID d) = {r \<in> set (dir_roles d). rl_TenantID r = tenantID \<and>
      (\<exists>b\<in>set (dir_bindings d). rb_UserID b = userID \<and> rb_TenantID b = tenantID \<and> rb_RoleID b = rl_ID r \<and>
         (rb_WorkspaceID b = None \<or> rb_WorkspaceID b = Some workspaceID))}"
    by (auto simp: bound_roles_def joined_roles_def)
  moreover have "set (team_roles tenantID workspaceID userID d) = {r \<in> set (dir_roles d). rl_TenantID r = tenantID \<and>
      (\<exists>t\<in>set (dir_teams d). tm_TenantID t = tenantID \<and> tm_WorkspaceID t = workspaceID \<and>
         (tm_ID t, userID) \<in> set (dir_members d) \<and> (tm_ID t, rl_ID r) \<in> set (dir_team_roles d))}"
    by (force simp: team_roles_def joined_roles_def)
  ultimately show ?thesis unfolding effective_roles_def by (auto simp: holds_role_def)
qed

lemma granted_Some:
  assumes "granted tenantID workspaceID userID d = Some scopes"
  shows "set scopes = (\<Union>r\<in>{r. holds_role tenantID workspaceID userID d r}. set (rl_Permissions r))"
    and "\<exists>r. holds_role tenantID workspaceID userID d r"
proof -
  from assms obtain r rs where e: "effective_roles tenantID workspaceID userID d = r # rs"
    and s: "scopes = remdups (concat (map rl_Permissions (r # rs)))"
    by (auto simp: granted_def split: list.splits)
  from e have "set (r # rs) = {r. holds_role tenantID workspaceID userID d r}" by (metis set_effective_roles)
  with s show "set scopes = (\<Union>r\<in>{r. holds_role tenantID workspaceID userID d r}. set (rl_Permissions r))"
    and "\<exists>r. holds_role tenantID workspaceID userID d r" by (auto simp: set_eq_iff)
qed

text \<open>The two ways in which a credential is accepted.\<close>

lemma Authenticate_cases:
  assumes "run_state (Authenticate raw) w = (Inr p, w')"
  obtains (key) k where "k \<in> set (dir_keys (w_dir w))" "live_key (w_now w) (sha256_hex raw) k" "p = key_principal k"
  | (session) s scopes where "s \<in> set (dir_sessions (w_dir w))" "live_session (w_now w) (sha256_hex raw) s"
      "list_ex (enabled_user (ss_TenantID s) (ss_UserID s)) (dir_users (w_dir w))"
      "granted (ss_TenantID s) (ss_WorkspaceID s) (ss_UserID s) (w_dir w) = Some scopes"
      "p = user_principal (ss_TenantID s) (ss_WorkspaceID s) (ss_AppID s) (ss_UserID s) scopes"
proof (cases "find (live_key (w_now w) (sha256_hex raw)) (dir_keys (w_dir w))")
  case (Some k)
  with assms have "p = key_principal k" by (auto simp: Authenticate_def run_attempt run_db Let_def split: if_splits)
  with find_SomeD [OF Some] show thesis by (intro that(1) [of k]) simp_all
next
  case None
  let ?d1 = "(w_dir w)\<lparr>dir_keys := upd_rows (live_key (w_now w) (sha256_hex raw)) (\<lambda>k. k\<lparr>ak_LastUsedAt := Some (w_now w)\<rparr>) (dir_keys (w_dir w))\<rparr>"
  have roles: "granted t ws u ?d1 = granted t ws u (w_dir w)" for t ws u
    by (simp add: granted_def effective_roles_def bound_roles_def team_roles_def joined_roles_def)
  obtain s scopes where s: "find (live_session (w_now w) (sha256_hex raw)) (dir_sessions (w_dir w)) = Some s"
    and rest: "list_ex (enabled_user (ss_TenantID s) (ss_UserID s)) (dir_users (w_dir w))"
      "granted (ss_TenantID s) (ss_WorkspaceID s) (ss_UserID s) (w_dir w) = Some scopes"
      "p = user_principal (ss_TenantID s) (ss_WorkspaceID s) (ss_AppID s) (ss_UserID s) scopes"
    using assms None
    by (auto simp: Authenticate_def authenticateSession_def run_attempt run_db Let_def on_dir_def roles split: if_splits option.splits)
  from find_SomeD [OF s] rest show thesis by (intro that(2) [of s scopes]) simp_all
qed

section \<open>What the operations keep\<close>

definition revoked_keys :: "directory \<Rightarrow> string set" where
  "revoked_keys d = ak_KeyHash ` {k \<in> set (dir_keys d). ak_RevokedAt k \<noteq> None}"

definition revoked_sessions :: "directory \<Rightarrow> string set" where
  "revoked_sessions d = ss_TokenHash ` {s \<in> set (dir_sessions d). ss_RevokedAt s \<noteq> None}"

text \<open>The digests of the credentials and the subjects of the users are unique; keys and custom roles have known scopes only.\<close>

definition dir_ok :: "directory \<Rightarrow> bool" where
  "dir_ok d \<longleftrightarrow> distinct (map ak_KeyHash (dir_keys d)) \<and> distinct (map ss_TokenHash (dir_sessions d)) \<and>
     distinct (map (\<lambda>u. (us_OIDCIssuer u, us_OIDCSubject u)) (dir_users d)) \<and>
     (\<forall>k\<in>set (dir_keys d). set (ak_Scopes k) \<subseteq> set allowedPermissions) \<and>
     (\<forall>r\<in>set (dir_roles d). rl_System r \<or> set (rl_Permissions r) \<subseteq> set (dir_permissions d))"

definition dir_kept :: "directory \<Rightarrow> directory \<Rightarrow> bool" where
  "dir_kept d d' \<longleftrightarrow> (dir_ok d \<longrightarrow> dir_ok d') \<and> revoked_keys d \<subseteq> revoked_keys d' \<and> revoked_sessions d \<subseteq> revoked_sessions d'"

lemma dir_kept_refl [simp]: "dir_kept d d"
  by (simp add: dir_kept_def)

lemma dir_kept_trans: "dir_kept c d \<Longrightarrow> dir_kept d e \<Longrightarrow> dir_kept c e"
  by (auto simp: dir_kept_def)

definition access_kept :: "world \<Rightarrow> world \<Rightarrow> bool" where
  "access_kept w w' \<longleftrightarrow> dir_kept (w_dir w) (w_dir w')"

interpretation acc: store_evolution access_kept
  by unfold_locales (auto simp: access_kept_def intro: dir_kept_trans)

lemma kept_transact:
  assumes "\<And>w x w'. f w = Inr (x, w') \<Longrightarrow> dir_kept (w_dir w) (w_dir w')"
  shows "state_io_rel access_kept (transact f)"
  unfolding transact_def
  by (rule acc.evolve_db) (auto simp: access_kept_def dest: assms split: sum.split)

lemma w_dir_on_dir [simp]: "w_dir (on_dir f w) = f (w_dir w)"
  by (simp add: on_dir_def)

subsection \<open>Changes of the directory\<close>

lemma kept_upd_keys:
  assumes "\<And>k. ak_KeyHash (f k) = ak_KeyHash k" "\<And>k. ak_Scopes (f k) = ak_Scopes k" "\<And>k. ak_RevokedAt k \<noteq> None \<Longrightarrow> ak_RevokedAt (f k) \<noteq> None"
  shows "dir_kept d (d\<lparr>dir_keys := upd_rows P f (dir_keys d)\<rparr>)"
proof -
  have "map ak_KeyHash (upd_rows P f (dir_keys d)) = map ak_KeyHash (dir_keys d)"
    using assms(1) by (simp add: upd_rows_def)
  moreover have "revoked_keys d \<subseteq> revoked_keys (d\<lparr>dir_keys := upd_rows P f (dir_keys d)\<rparr>)"
  proof
    fix h assume "h \<in> revoked_keys d"
    then obtain k where k: "k \<in> set (dir_keys d)" "ak_RevokedAt k \<noteq> None" "h = ak_KeyHash k" by (auto simp: revoked_keys_def)
    let ?k = "if P k then f k else k"
    have "?k \<in> set (upd_rows P f (dir_keys d))" "ak_RevokedAt ?k \<noteq> None" "h = ak_KeyHash ?k"
      using k assms by (auto simp: upd_rows_def)
    then show "h \<in> revoked_keys (d\<lparr>dir_keys := upd_rows P f (dir_keys d)\<rparr>)" by (auto simp: revoked_keys_def)
  qed
  moreover have "\<forall>k\<in>set (upd_rows P f (dir_keys d)). set (ak_Scopes k) \<subseteq> A" if "\<forall>k\<in>set (dir_keys d). set (ak_Scopes k) \<subseteq> A" for A
  proof
    fix k assume "k \<in> set (upd_rows P f (dir_keys d))"
    then obtain k0 where "k0 \<in> set (dir_keys d)" "ak_Scopes k = ak_Scopes k0" using assms(2) by (auto simp: upd_rows_def)
    with that show "set (ak_Scopes k) \<subseteq> A" by simp
  qed
  ultimately show ?thesis by (simp add: dir_kept_def dir_ok_def revoked_sessions_def)
qed

lemma kept_upd_sessions:
  assumes "\<And>s. ss_TokenHash (f s) = ss_TokenHash s" "\<And>s. ss_RevokedAt s \<noteq> None \<Longrightarrow> ss_RevokedAt (f s) \<noteq> None"
  shows "dir_kept d (d\<lparr>dir_sessions := upd_rows P f (dir_sessions d)\<rparr>)"
proof -
  have "map ss_TokenHash (upd_rows P f (dir_sessions d)) = map ss_TokenHash (dir_sessions d)"
    using assms(1) by (simp add: upd_rows_def)
  moreover have "revoked_sessions d \<subseteq> revoked_sessions (d\<lparr>dir_sessions := upd_rows P f (dir_sessions d)\<rparr>)"
  proof
    fix h assume "h \<in> revoked_sessions d"
    then obtain s where s: "s \<in> set (dir_sessions d)" "ss_RevokedAt s \<noteq> None" "h = ss_TokenHash s" by (auto simp: revoked_sessions_def)
    let ?s = "if P s then f s else s"
    have "?s \<in> set (upd_rows P f (dir_sessions d))" "ss_RevokedAt ?s \<noteq> None" "h = ss_TokenHash ?s"
      using s assms by (auto simp: upd_rows_def)
    then show "h \<in> revoked_sessions (d\<lparr>dir_sessions := upd_rows P f (dir_sessions d)\<rparr>)" by (auto simp: revoked_sessions_def)
  qed
  ultimately show ?thesis by (auto simp: dir_kept_def dir_ok_def revoked_keys_def)
qed

lemma kept_frame:
  assumes "dir_keys d' = dir_keys d" "dir_sessions d' = dir_sessions d" "dir_users d' = dir_users d" "dir_roles d' = dir_roles d"
    "dir_permissions d' = dir_permissions d"
  shows "dir_kept d d'"
  using assms by (simp add: dir_kept_def dir_ok_def revoked_keys_def revoked_sessions_def)

lemma kept_roles:
  assumes "dir_keys d' = dir_keys d" "dir_sessions d' = dir_sessions d" "dir_users d' = dir_users d"
    "dir_permissions d' = dir_permissions d"
    and "\<And>r. r \<in> set (dir_roles d') \<Longrightarrow> r \<in> set (dir_roles d) \<or> rl_System r \<or> set (rl_Permissions r) \<subseteq> set (dir_permissions d)"
  shows "dir_kept d d'"
proof -
  from assms(5) have "dir_ok d \<Longrightarrow> r \<in> set (dir_roles d') \<Longrightarrow> rl_System r \<or> set (rl_Permissions r) \<subseteq> set (dir_permissions d)" for r
    unfolding dir_ok_def by blast
  with assms(1-4) show ?thesis by (simp add: dir_kept_def dir_ok_def revoked_keys_def revoked_sessions_def)
qed

lemma unknown_None: "unknown_scope scopes = None \<Longrightarrow> set scopes \<subseteq> set allowedPermissions"
  "unknown_permission permissions d = None \<Longrightarrow> set permissions \<subseteq> set (dir_permissions d)"
  by (auto simp: unknown_scope_def unknown_permission_def find_None_iff)

subsection \<open>The operations\<close>

lemma kept_create_key: "state_io_rel access_kept (CreateAPIKey random p name scopes expiresAt)"
  unfolding CreateAPIKey_def
proof (rule kept_transact)
  fix w x w' assume "create_key_tx random p name scopes expiresAt w = Inr (x, w')"
  then have k: "ak_KeyHash (new_key p name scopes expiresAt (''oj_'' @ base64_raw_url random) w) \<notin> set (map ak_KeyHash (dir_keys (w_dir w)))"
      "unknown_scope scopes = None"
    and w': "w_dir w' = (w_dir w)\<lparr>dir_keys := dir_keys (w_dir w) @ [new_key p name scopes expiresAt (''oj_'' @ base64_raw_url random) w]\<rparr>"
    by (auto simp: create_key_tx_def Let_def split: if_splits option.splits)
  have "ak_Scopes (new_key p name scopes expiresAt raw w) = scopes" for raw by (simp add: new_key_def)
  with k(1) w' unknown_None(1) [OF k(2)] show "dir_kept (w_dir w) (w_dir w')"
    by (auto simp: dir_kept_def dir_ok_def revoked_keys_def revoked_sessions_def)
qed

lemma kept_revoke_key: "state_io_rel access_kept (RevokeAPIKey p i)"
  unfolding RevokeAPIKey_def by (rule kept_transact) (auto split: if_splits intro!: kept_upd_keys)

lemma kept_authenticate: "state_io_rel access_kept (Authenticate raw)"
proof -
  have "state_io_rel access_kept (authenticateSession h)" for h
    unfolding authenticateSession_def
    by (rule acc.evolve_db) (auto simp: Let_def access_kept_def intro: kept_upd_sessions split: option.split)
  then show ?thesis
    unfolding Authenticate_def Let_def
    by (intro acc.evolve_rules acc.evolve_db) (simp_all add: access_kept_def kept_upd_keys)
qed

lemma kept_login: "state_io_rel access_kept (CreateLocalSession env random email password ttl)"
  unfolding CreateLocalSession_def
proof (rule kept_transact)
  fix w x w' assume "login_tx env random email password ttl w = Inr (x, w')"
  then obtain u a raw t where s: "ss_TokenHash (new_session u a raw t w) \<notin> set (map ss_TokenHash (dir_sessions (w_dir w)))"
    and w': "w_dir w' = (w_dir w)\<lparr>dir_sessions := dir_sessions (w_dir w) @ [new_session u a raw t w]\<rparr>"
    by (auto simp: login_tx_def Let_def split: if_splits option.splits)
  then show "dir_kept (w_dir w) (w_dir w')"
    by (auto simp: dir_kept_def dir_ok_def revoked_keys_def revoked_sessions_def)
qed

lemma kept_logout: "state_io_rel access_kept (RevokeLocalSession raw)"
  unfolding RevokeLocalSession_def Let_def
  by (intro acc.evolve_rules acc.evolve_exec) (simp add: access_kept_def kept_upd_sessions)

lemma kept_rename:
  assumes "\<And>u. us_OIDCIssuer (f u) = us_OIDCIssuer u" "\<And>u. us_OIDCSubject (f u) = us_OIDCSubject u"
  shows "dir_kept d (d\<lparr>dir_users := upd_rows P f (dir_users d)\<rparr>)"
proof -
  have "map (\<lambda>u. (us_OIDCIssuer u, us_OIDCSubject u)) (upd_rows P f (dir_users d)) = map (\<lambda>u. (us_OIDCIssuer u, us_OIDCSubject u)) (dir_users d)"
    using assms by (simp add: upd_rows_def)
  then show ?thesis by (simp add: dir_kept_def dir_ok_def revoked_keys_def revoked_sessions_def)
qed

lemma kept_oidc: "state_io_rel access_kept (AuthenticateOIDC claims)"
  unfolding AuthenticateOIDC_def Let_def
  by (intro acc.evolve_rules acc.evolve_db acc.evolve_query) (auto simp: access_kept_def renamed_user_def intro: kept_rename)

lemma kept_create_role: "state_io_rel access_kept (CreateRole p name permissions)"
  unfolding CreateRole_def
  by (rule kept_transact)
    (auto simp: create_role_tx_def Let_def split: if_splits option.splits intro!: kept_roles dest!: unknown_None(2))

lemma kept_update_role: "state_io_rel access_kept (UpdateRole p i name permissions)"
  unfolding UpdateRole_def
proof (rule kept_transact)
  fix w x w' assume "update_role_tx p i name permissions w = Inr (x, w')"
  then have known: "unknown_permission permissions (w_dir w) = None"
    and w': "w_dir w' = (w_dir w)\<lparr>dir_roles := upd_rows (\<lambda>r. is_role p i r \<and> \<not> rl_System r)
      (\<lambda>r. r\<lparr>rl_Name := name, rl_Permissions := permissions\<rparr>) (dir_roles (w_dir w))\<rparr>"
    by (auto simp: update_role_tx_def split: if_splits option.splits)
  have "r \<in> set rows \<or> rl_Permissions r = permissions"
    if "r \<in> set (upd_rows P (\<lambda>r. r\<lparr>rl_Name := name, rl_Permissions := permissions\<rparr>) rows)" for r P rows
    using that by (auto simp: upd_rows_def split: if_splits)
  with unknown_None(2) [OF known] show "dir_kept (w_dir w) (w_dir w')"
    by (intro kept_roles) (auto simp: w' simp del: set_upd_rows)
qed

lemma kept_delete_role: "state_io_rel access_kept (DeleteRole p i)"
  unfolding DeleteRole_def
  by (rule kept_transact) (auto simp: delete_role_tx_def split: if_splits option.splits intro!: kept_roles)

lemma kept_seed_role: "state_io_rel access_kept (seedDevelopmentRole t)"
  unfolding seedDevelopmentRole_def
  by (rule acc.evolve_exec) (auto simp: access_kept_def intro!: kept_roles)

lemma bind_roles_frame:
  "bind_roles p u ids w = Inr w' \<Longrightarrow> \<exists>bs. w_dir w' = (w_dir w)\<lparr>dir_bindings := bs\<rparr>"
proof (induction ids arbitrary: w)
  case Nil
  then have "w_dir w' = (w_dir w)\<lparr>dir_bindings := dir_bindings (w_dir w)\<rparr>" by simp
  then show ?case ..
next
  case (Cons i ids)
  then show ?case by (fastforce split: option.splits if_splits)
qed

lemma kept_create_user: "state_io_rel access_kept (CreateUser env p input)"
proof -
  have "state_io_rel access_kept (transact (create_user_tx p i h))" for i h
  proof (rule kept_transact)
    fix w x w' assume run: "create_user_tx p i h w = Inr (x, w')"
    let ?u = "new_user p i h w"
    from run obtain w1 where n: "\<forall>x\<in>set (dir_users (w_dir w)). us_OIDCIssuer x = us_OIDCIssuer ?u \<longrightarrow> us_OIDCSubject x \<noteq> us_OIDCSubject ?u"
      and w1: "bind_roles p (us_ID ?u) (ur_RoleIDs i) (on_dir (\<lambda>d. d\<lparr>dir_users := dir_users d @ [?u]\<rparr>) (next_id w)) = Inr w1"
      and w': "w_dir w' = w_dir w1"
      by (auto simp: create_user_tx_def Let_def list_ex_iff split: if_splits sum.splits)
    from n have new: "(us_OIDCIssuer ?u, us_OIDCSubject ?u) \<notin> (\<lambda>u. (us_OIDCIssuer u, us_OIDCSubject u)) ` set (dir_users (w_dir w))"
      by auto
    from bind_roles_frame [OF w1] obtain bs where "w_dir w1 = (w_dir w)\<lparr>dir_users := dir_users (w_dir w) @ [?u], dir_bindings := bs\<rparr>" by auto
    with new w' show "dir_kept (w_dir w) (w_dir w')"
      by (simp add: dir_kept_def dir_ok_def revoked_keys_def revoked_sessions_def)
  qed
  then show ?thesis unfolding CreateUser_def by (auto split: sum.split intro: acc.evolve_rules)
qed

lemma add_members_frame: "add_members p t ids d = Inr (xs, d') \<Longrightarrow> \<exists>ms. d' = d\<lparr>dir_members := ms\<rparr>"
proof (induction ids arbitrary: d xs)
  case Nil
  then have "d' = d\<lparr>dir_members := dir_members d\<rparr>" by simp
  then show ?case ..
next
  case (Cons i ids)
  then show ?case by (fastforce split: if_splits sum.splits prod.splits)
qed

lemma add_team_roles_frame: "add_team_roles p t ids d = Inr (xs, d') \<Longrightarrow> \<exists>rs. d' = d\<lparr>dir_team_roles := rs\<rparr>"
proof (induction ids arbitrary: d xs)
  case Nil
  then have "d' = d\<lparr>dir_team_roles := dir_team_roles d\<rparr>" by simp
  then show ?case ..
next
  case (Cons i ids)
  then show ?case by (fastforce split: if_splits sum.splits prod.splits)
qed

lemma staff_team_kept:
  assumes "staff_team p t input d = Inr (team, d')"
  shows "dir_kept d d'"
proof -
  from assms obtain members d1 roles where "add_members p (tm_ID t) (ta_MemberIDs input) d = Inr (members, d1)"
    "add_team_roles p (tm_ID t) (ta_RoleIDs input) d1 = Inr (roles, d')"
    by (auto simp: staff_team_def split: sum.splits)
  from add_members_frame [OF this(1)] add_team_roles_frame [OF this(2)] show ?thesis by (auto intro: kept_frame)
qed

lemma kept_teams:
  "state_io_rel access_kept (CreateTeam p input)" "state_io_rel access_kept (UpdateTeam p input)" "state_io_rel access_kept (DeleteTeam p i)"
proof -
  have staffed: "dir_kept d d'"
    if "staff_team p t input d1 = Inr (team, d')" "dir_keys d1 = dir_keys d" "dir_sessions d1 = dir_sessions d" "dir_users d1 = dir_users d"
      "dir_roles d1 = dir_roles d" "dir_permissions d1 = dir_permissions d" for t d d1 d' team
    by (rule dir_kept_trans [OF kept_frame staff_team_kept [OF that(1)]]) (use that in simp_all)
  have "state_io_rel access_kept (transact (create_team_tx p input))"
    by (rule kept_transact)
      (auto simp: create_team_tx_def Let_def split: if_splits sum.splits elim!: staffed)
  then show "state_io_rel access_kept (CreateTeam p input)" unfolding CreateTeam_def by (intro acc.evolve_rules)
  have "state_io_rel access_kept (transact (update_team_tx p input))"
    by (rule kept_transact)
      (auto simp: update_team_tx_def Let_def split: if_splits sum.splits option.splits elim!: staffed)
  then show "state_io_rel access_kept (UpdateTeam p input)" unfolding UpdateTeam_def by (intro acc.evolve_rules)
  show "state_io_rel access_kept (DeleteTeam p i)"
    unfolding DeleteTeam_def by (rule kept_transact) (auto split: if_splits intro: kept_frame)
qed

section \<open>Reachable worlds\<close>

text \<open>The calls on the directory, in any order, with steps of the rest of the system.\<close>

inductive access_step :: "world \<Rightarrow> world \<Rightarrow> bool" where
  create_key: "access_step w (after w (CreateAPIKey random p name scopes expiresAt))"
| revoke_key: "access_step w (after w (RevokeAPIKey p i))"
| authenticate: "access_step w (after w (Authenticate raw))"
| oidc: "access_step w (after w (AuthenticateOIDC claims))"
| login: "access_step w (after w (CreateLocalSession env random email password ttl))"
| logout: "access_step w (after w (RevokeLocalSession raw))"
| create_role: "access_step w (after w (CreateRole p name permissions))"
| update_role: "access_step w (after w (UpdateRole p i name permissions))"
| delete_role: "access_step w (after w (DeleteRole p i))"
| seed_role: "access_step w (after w (seedDevelopmentRole t))"
| create_user: "access_step w (after w (CreateUser env p input))"
| create_team: "access_step w (after w (CreateTeam p team))"
| update_team: "access_step w (after w (UpdateTeam p team))"
| delete_team: "access_step w (after w (DeleteTeam p i))"
| elsewhere: "w_dir w' = w_dir w \<Longrightarrow> access_step w w'"

lemma access_run: "state_io_rel access_kept m \<Longrightarrow> access_kept w (after w m)"
  by (simp add: state_io_rel_def)

lemma access_step_kept: "access_step w w' \<Longrightarrow> access_kept w w'"
proof (induction rule: access_step.induct)
  case (elsewhere w' w)
  then show ?case by (simp add: access_kept_def)
qed (rule access_run, rule kept_create_key kept_revoke_key kept_authenticate kept_oidc kept_login kept_logout kept_create_role
  kept_update_role kept_delete_role kept_seed_role kept_create_user kept_teams)+

lemma access_reachable_kept: "access_step\<^sup>*\<^sup>* w w' \<Longrightarrow> dir_kept (w_dir w) (w_dir w')"
proof (induction rule: rtranclp_induct)
  case (step y z)
  from access_step_kept [OF step(2)] have "dir_kept (w_dir y) (w_dir z)" by (simp add: access_kept_def)
  with step.IH show ?case by (rule dir_kept_trans)
qed simp

text \<open>The digests of revoked credentials open nothing.\<close>

lemma revoked_key_refused: "dir_ok d \<Longrightarrow> h \<in> revoked_keys d \<Longrightarrow> k \<in> set (dir_keys d) \<Longrightarrow> \<not> live_key now h k"
  by (auto simp: dir_ok_def revoked_keys_def live_key_def distinct_map inj_on_def)

lemma revoked_session_refused: "dir_ok d \<Longrightarrow> h \<in> revoked_sessions d \<Longrightarrow> s \<in> set (dir_sessions d) \<Longrightarrow> \<not> live_session now h s"
  by (auto simp: dir_ok_def revoked_sessions_def live_session_def distinct_map inj_on_def)

section \<open>Created keys\<close>

lemma find_appended: "(\<And>x. x \<in> set xs \<Longrightarrow> \<not> P x) \<Longrightarrow> P y \<Longrightarrow> find P (xs @ [y]) = Some y"
  by (induction xs) auto

lemma created_key:
  assumes "run_state (CreateAPIKey random p name scopes expiresAt) w = (Inr (item, raw), w1)"
  shows "raw = ''oj_'' @ base64_raw_url random" "ky_ID item = new_id w" "w_now w1 = w_now w"
    and "\<exists>k0. dir_keys (w_dir w1) = k0 @ [new_key p name scopes expiresAt raw (ticked w)] \<and> sha256_hex raw \<notin> ak_KeyHash ` set k0"
proof -
  let ?raw = "''oj_'' @ base64_raw_url random"
  have run: "create_key_tx random p name scopes expiresAt (ticked w) = Inr ((item, raw), w1)"
    using assms by (auto simp: CreateAPIKey_def transact_def run_db split: if_splits sum.splits)
  then have "raw = ?raw \<and> item = key_of (new_key p name scopes expiresAt ?raw (ticked w)) \<and> w_now w1 = w_now w \<and>
      dir_keys (w_dir w1) = dir_keys (w_dir w) @ [new_key p name scopes expiresAt ?raw (ticked w)] \<and>
      ak_KeyHash (new_key p name scopes expiresAt ?raw (ticked w)) \<notin> ak_KeyHash ` set (dir_keys (w_dir w))"
    by (auto simp: create_key_tx_def Let_def on_dir_def split: if_splits option.splits)
  then show "raw = ?raw" "ky_ID item = new_id w" "w_now w1 = w_now w"
    and "\<exists>k0. dir_keys (w_dir w1) = k0 @ [new_key p name scopes expiresAt raw (ticked w)] \<and> sha256_hex raw \<notin> ak_KeyHash ` set k0"
    by (auto simp: key_of_def new_key_def new_id_def)
qed

lemma created_key_authenticates:
  assumes "run_state (CreateAPIKey random p name scopes expiresAt) w = (Inr (item, raw), w1)"
    and "\<not> w_fault w1 (w_tick w1)" and "case expiresAt of None \<Rightarrow> True | Some t \<Rightarrow> w_now w1 < t"
  shows "fst (run_state (Authenticate raw) w1) = Inr \<lparr>p_TenantID = p_TenantID p, p_WorkspaceID = p_WorkspaceID p, p_AppID = p_AppID p,
    p_KeyID = ky_ID item, p_UserID = [], p_ActorType = ''api_key'', p_Scopes = scopes\<rparr>"
proof -
  note c = created_key [OF assms(1)]
  from c(4) obtain k0 where k0: "dir_keys (w_dir w1) = k0 @ [new_key p name scopes expiresAt raw (ticked w)]"
    "sha256_hex raw \<notin> ak_KeyHash ` set k0" by blast
  have "find (live_key (w_now w1) (sha256_hex raw)) (dir_keys (w_dir w1)) = Some (new_key p name scopes expiresAt raw (ticked w))"
    unfolding k0(1) by (rule find_appended) (use k0(2) assms(3) in \<open>force simp: live_key_def new_key_def split: option.splits\<close>)+
  with assms(2) c(2) show ?thesis
    by (simp add: Authenticate_def run_attempt run_db Let_def key_principal_def new_key_def new_id_def)
qed

end
