(* ===== verification/AccessSamples.thy ===== *)
theory AccessSamples
  imports Samples AccessFacts
begin

text \<open>A directory with one operator, who holds a role of the workspace and one through a team, and one API key.\<close>

definition office :: directory where
  "office = empty_directory\<lparr>
     dir_permissions := [''*'', ''journeys:read'', ''journeys:write''],
     dir_users := [\<lparr>us_ID = ''u'', us_TenantID = ''t'', us_OIDCIssuer = ''local'', us_OIDCSubject = ''a@b'', us_Email = Some ''a@b'',
       us_DisplayName = None, us_PasswordHash = Some ''h'', us_DisabledAt = None, us_CreatedAt = 0, us_UpdatedAt = 0\<rparr>],
     dir_roles := [\<lparr>rl_ID = ''r1'', rl_TenantID = ''t'', rl_Name = ''Reader'', rl_Permissions = [''journeys:read''], rl_System = False, rl_CreatedAt = 0\<rparr>,
       \<lparr>rl_ID = ''r2'', rl_TenantID = ''t'', rl_Name = ''Author'', rl_Permissions = [''journeys:write''], rl_System = False, rl_CreatedAt = 0\<rparr>],
     dir_bindings := [\<lparr>rb_ID = ''b'', rb_TenantID = ''t'', rb_WorkspaceID = Some ''w'', rb_UserID = ''u'', rb_RoleID = ''r1''\<rparr>],
     dir_teams := [\<lparr>tm_ID = ''m'', tm_TenantID = ''t'', tm_WorkspaceID = ''w'', tm_Name = ''Authors'', tm_Description = [], tm_CreatedAt = 0, tm_UpdatedAt = 0\<rparr>],
     dir_members := [(''m'', ''u'')], dir_team_roles := [(''m'', ''r2'')],
     dir_sessions := [\<lparr>ss_ID = ''s'', ss_TenantID = ''t'', ss_WorkspaceID = ''w'', ss_AppID = ''app'', ss_UserID = ''u'',
       ss_TokenHash = sha256_hex ''ojs_x'', ss_ExpiresAt = 10, ss_RevokedAt = None, ss_LastUsedAt = None, ss_CreatedAt = 0\<rparr>]\<rparr>"

definition office_world :: world where
  "office_world = empty_world\<lparr>w_dir := office\<rparr>"

definition operator :: principal where
  "operator = user_principal ''t'' ''w'' ''app'' ''u'' [''journeys:read'', ''journeys:write'']"

lemma operator_authenticates: "fst (run_state (Authenticate ''ojs_x'') office_world) = Inr operator"
  by (simp add: Authenticate_def authenticateSession_def run_attempt run_db Let_def office_world_def office_def empty_world_def
    empty_directory_def on_dir_def live_session_def enabled_user_def granted_def effective_roles_def bound_roles_def team_roles_def
    joined_roles_def operator_def)

definition web_key :: api_key_row where
  "web_key = \<lparr>ak_ID = ''key'', ak_TenantID = ''t'', ak_WorkspaceID = ''w'', ak_AppID = ''app'', ak_Name = ''Web'',
     ak_KeyHash = sha256_hex ''oj_x'', ak_Scopes = [''events:write''], ak_ExpiresAt = None, ak_RevokedAt = None, ak_LastUsedAt = None,
     ak_CreatedAt = 0\<rparr>"

definition keyed_world :: world where
  "keyed_world = empty_world\<lparr>w_dir := empty_directory\<lparr>dir_keys := [web_key]\<rparr>\<rparr>"

lemma keyed_world_ok: "dir_ok (w_dir keyed_world)"
  by (simp add: keyed_world_def dir_ok_def empty_directory_def web_key_def allowedPermissions_def)

lemma key_is_revoked: "sha256_hex ''oj_x'' \<in> revoked_keys (w_dir (after keyed_world (RevokeAPIKey sample_app ''key'')))"
proof -
  have "revocable sample_app ''key'' web_key" by (simp add: revocable_def web_key_def sample_app_def tenant_principal_def)
  then have "dir_keys (w_dir (after keyed_world (RevokeAPIKey sample_app ''key''))) = [web_key\<lparr>ak_RevokedAt := Some 0\<rparr>]"
    by (simp add: RevokeAPIKey_def transact_def run_db keyed_world_def empty_world_def)
  moreover have "ak_KeyHash (web_key\<lparr>ak_RevokedAt := Some 0\<rparr>) = sha256_hex ''oj_x''" by (simp add: web_key_def)
  ultimately show ?thesis unfolding revoked_keys_def by (intro image_eqI [of _ _ "web_key\<lparr>ak_RevokedAt := Some 0\<rparr>"]) simp_all
qed

lemma star_key:
  obtains item raw w1 where "run_state (CreateAPIKey [1, 2, 3] sample_app ''key'' [''*''] None) sample_tenant_world = (Inr (item, raw), w1)"
    "\<not> w_fault w1 (w_tick w1)"
proof -
  have "w_dir sample_tenant_world = empty_directory" "w_fault sample_tenant_world = (\<lambda>_. False)"
    by (simp_all add: sample_tenant_world_def sample_world_def empty_world_def)
  then have "\<exists>item raw w1. run_state (CreateAPIKey [1, 2, 3] sample_app ''key'' [''*''] None) sample_tenant_world = (Inr (item, raw), w1) \<and>
      w_fault w1 = (\<lambda>_. False)"
    by (simp add: CreateAPIKey_def transact_def run_db create_key_tx_def unknown_scope_def allowedPermissions_def Let_def empty_directory_def
      sample_app_def tenant_principal_def on_dir_def)
  then show thesis by (auto intro: that)
qed

end
