(* ===== verification/Stages.thy ===== *)
theory Stages
  imports Audience Events JourneyStore AuditLog "HOL-Library.Product_Lexorder"
begin

text \<open>
  Lifecycle stages: the rules of \<^verbatim>\<open>internal/postgres/stages.go\<close> and \<^verbatim>\<open>internal/postgres/journey_runtime.go\<close>, and their
  application in \<^verbatim>\<open>internal/stages/stages.go\<close>. A profile gets the stage of the first rule, by priority, whose segment has it;
  the change is accepted as two events, and the projector writes it to the profile. A rule without a segment has the empty
  identifier.
\<close>

section \<open>Rules\<close>

definition stage_taken :: "stage_rule \<Rightarrow> world \<Rightarrow> bool" where
  "stage_taken r w \<longleftrightarrow> list_ex (\<lambda>x. sr_TenantID x = sr_TenantID r \<and> sr_WorkspaceID x = sr_WorkspaceID r \<and> sr_Stage x = sr_Stage r) (w_stage_rules w)"

definition create_rule_tx :: "principal \<Rightarrow> stage_rule \<Rightarrow> world \<Rightarrow> (stage_rule \<times> world) result" where
  "create_rule_tx p input w =
     (if sr_Stage input = [] \<or> sr_SegmentID input = [] then Inl (ErrNew ''stage and segment_id are required'')
      else
        (let r = \<lparr>sr_ID = new_id w, sr_TenantID = p_TenantID p, sr_WorkspaceID = p_WorkspaceID p, sr_Stage = sr_Stage input,
                  sr_SegmentID = sr_SegmentID input, sr_Priority = sr_Priority input, sr_Enabled = True, sr_CreatedAt = w_now w\<rparr>
         in if stage_taken r w \<or> \<not> list_ex (\<lambda>s. sg_ID s = sr_SegmentID r) (w_segments w) then Inl ErrDb
            else Inr (r, audit p ''stage_rule.create'' ''stage_rule'' (sr_ID r) [(''stage'', JStr (sr_Stage r))]
              ((next_id w)\<lparr>w_stage_rules := w_stage_rules w @ [r]\<rparr>))))"

definition CreateStageRule :: "principal \<Rightarrow> stage_rule \<Rightarrow> stage_rule call" where
  "CreateStageRule p input = transact (create_rule_tx p input)"

text \<open>By descending priority, and by identifier among equals.\<close>

definition by_priority :: "stage_rule list \<Rightarrow> stage_rule list" where
  "by_priority rules = sort_key (\<lambda>r. - sr_Priority r) (sort_key sr_ID rules)"

definition ListStageRules :: "string \<Rightarrow> string \<Rightarrow> stage_rule list call" where
  "ListStageRules tenantID workspaceID = query (\<lambda>w. Inr (by_priority
     (filter (\<lambda>r. sr_TenantID r = tenantID \<and> sr_WorkspaceID r = workspaceID \<and> sr_Enabled r) (w_stage_rules w))))"

definition ListStageRuleScopes :: "(string \<times> string) list call" where
  "ListStageRuleScopes = query (\<lambda>w. Inr (sort (remdups (map (\<lambda>r. (sr_TenantID r, sr_WorkspaceID r)) (filter sr_Enabled (w_stage_rules w))))))"

section \<open>Application\<close>

text \<open>The map of assignments is the list of its entries; an entry that is there is kept.\<close>

definition assign_members :: "stage_rule \<Rightarrow> string list \<Rightarrow> (string \<times> stage_rule) list \<Rightarrow> (string \<times> stage_rule) list" where
  "assign_members r ids assigned = fold (\<lambda>i a. if i \<in> set (map fst a) then a else a @ [(i, r)]) ids assigned"

fun assign_rules :: "principal \<Rightarrow> stage_rule list \<Rightarrow> (string \<times> stage_rule) list \<Rightarrow> (string \<times> stage_rule) list call" where
  "assign_rules p [] assigned = ret (Inr assigned)"
| "assign_rules p (r # rules) assigned =
     (if \<not> sr_Enabled r \<or> sr_SegmentID r = [] then assign_rules p rules assigned
      else attempt (ResolveSegment p (sr_SegmentID r)) (wrapped (''resolve stage rule '' @ sr_ID r)) (\<lambda>profileIDs.
        assign_rules p rules (assign_members r profileIDs assigned)))"

definition in_stage :: "profile \<Rightarrow> string \<Rightarrow> bool" where
  "in_stage f stage \<longleftrightarrow> (case pf_Attributes f of Some (JObj kvs) \<Rightarrow> obj_get kvs ''stage'' = Some (JStr stage) | _ \<Rightarrow> False)"

definition stage_changed :: "profile \<Rightarrow> string \<Rightarrow> stage_rule \<Rightarrow> time \<Rightarrow> event" where
  "stage_changed f profileID r now = (mk_event ''stage.changed'' (pf_ExternalID f) (pf_AnonymousID f)
     (''stage:'' @ sr_ID r @ '':'' @ profileID) now
     (Some (JObj [(''profile_id'', JStr profileID), (''rule_id'', JStr (sr_ID r)), (''stage'', JStr (sr_Stage r))])))\<lparr>ev_Source := ''stage_rules''\<rparr>"

definition stage_profile_updated :: "profile \<Rightarrow> string \<Rightarrow> stage_rule \<Rightarrow> time \<Rightarrow> event" where
  "stage_profile_updated f profileID r now = (mk_event ''profile.updated'' (pf_ExternalID f) (pf_AnonymousID f)
     (''stage-profile:'' @ sr_ID r @ '':'' @ profileID) now
     (Some (JObj [(''attributes'', JObj [(''stage'', JStr (sr_Stage r))])])))\<lparr>ev_Source := ''stage_rules''\<rparr>"

fun change_stages :: "principal \<Rightarrow> (string \<times> stage_rule) list \<Rightarrow> nat \<Rightarrow> nat call" where
  "change_stages p [] changed = ret (Inr changed)"
| "change_stages p ((profileID, r) # rest) changed =
     attempt (GetProfileByIDSystem (p_TenantID p) (p_WorkspaceID p) profileID) failed (\<lambda>f.
       if in_stage f (sr_Stage r) then change_stages p rest changed
       else State_Monad.bind get_now (\<lambda>now.
         attempt (AcceptEvents p [stage_changed f profileID r now, stage_profile_updated f profileID r now]) failed (\<lambda>_.
           change_stages p rest (Suc changed))))"

definition stage_principal :: "string \<Rightarrow> string \<Rightarrow> string \<Rightarrow> principal" where
  "stage_principal tenantID workspaceID appID = \<lparr>p_TenantID = tenantID, p_WorkspaceID = workspaceID, p_AppID = appID, p_KeyID = [],
     p_UserID = [], p_ActorType = ''system'', p_Scopes = [''*'']\<rparr>"

definition Apply :: "string \<Rightarrow> string \<Rightarrow> nat call" where
  "Apply tenantID workspaceID =
     attempt (ListStageRules tenantID workspaceID) failed (\<lambda>rules.
     attempt (GetFirstAppID tenantID workspaceID) failed (\<lambda>appID.
     let p = stage_principal tenantID workspaceID appID in
     attempt (assign_rules p (by_priority rules) []) failed (\<lambda>assigned.
     State_Monad.bind (map_order (map fst assigned)) (\<lambda>keys.
       change_stages p (List.map_filter (\<lambda>k. map_option (Pair k) (map_of assigned k)) keys) 0))))"

fun apply_scopes :: "(string \<times> string) list \<Rightarrow> nat \<Rightarrow> (nat \<times> err option) prog" where
  "apply_scopes [] n = ret (n, None)"
| "apply_scopes ((tenantID, workspaceID) # scopes) n =
     attempt (Apply tenantID workspaceID) (\<lambda>e. ret (n, Some e)) (\<lambda>changed. apply_scopes scopes (n + changed))"

definition ApplyAll :: "(nat \<times> err option) prog" where
  "ApplyAll = attempt ListStageRuleScopes (\<lambda>e. ret (0, Some e)) (\<lambda>scopes. apply_scopes scopes 0)"

section \<open>Facts\<close>

text \<open>The first rule that has a profile keeps it.\<close>

lemma map_of_assign_members:
  "map_of (assign_members r ids assigned) i = (case map_of assigned i of Some x \<Rightarrow> Some x | None \<Rightarrow> if i \<in> set ids then Some r else None)"
proof (induction ids arbitrary: assigned)
  case (Cons j ids)
  have "map_of (if j \<in> set (map fst assigned) then assigned else assigned @ [(j, r)]) i =
      (case map_of assigned i of Some x \<Rightarrow> Some x | None \<Rightarrow> if i = j then Some r else None)"
  proof -
    have j: "j \<in> set (map fst assigned) \<longleftrightarrow> map_of assigned j \<noteq> None" by (simp add: map_of_eq_None_iff)
    show ?thesis unfolding j by (cases "map_of assigned i"; cases "map_of assigned j"; cases "i = j") (simp_all add: map_add_def)
  qed
  with Cons show ?case by (auto simp: assign_members_def split: option.splits)
qed (simp add: assign_members_def split: option.split)

text \<open>An event under the key of the change, with another time, stands in the way of the change.\<close>

definition blocked :: "principal \<Rightarrow> string \<Rightarrow> stage_rule \<Rightarrow> world \<Rightarrow> bool" where
  "blocked p i r w \<longleftrightarrow>
     (\<exists>row a. find (profile_at (p_TenantID p) (p_WorkspaceID p) i) (w_profiles w) = Some row \<and> \<not> in_stage (pr_Profile row) (sr_Stage r) \<and>
        find (\<lambda>a. event_key a = (p_TenantID p, p_AppID p, ''stage:'' @ sr_ID r @ '':'' @ i)) (w_events w) = Some a \<and>
        ae_OccurredAt a \<noteq> w_now w div 1000 * 1000)"

text \<open>What a change of another profile leaves as it was.\<close>

definition stage_frame :: "world \<Rightarrow> world \<Rightarrow> bool" where
  "stage_frame w w' \<longleftrightarrow> w_profiles w' = w_profiles w \<and> w_now w' = w_now w \<and> (\<exists>more. w_events w' = w_events w @ more)"

interpretation stf: store_evolution stage_frame
  by unfold_locales (auto simp: stage_frame_def)

lemma stage_frame_parts:
  "stage_frame w v \<Longrightarrow> stage_frame w (add_job p e i v)" "stage_frame w v \<Longrightarrow> stage_frame w (add_outbox p e t i v)"
  "stage_frame w v \<Longrightarrow> stage_frame w (add_connector_jobs p e i v)" "stage_frame w v \<Longrightarrow> stage_frame w (audit p a b c m v)"
  by (auto simp: stage_frame_def add_job_def add_outbox_def add_connector_jobs_def Let_def)

lemma stage_frame_accept_one: "accept_one p e w = Inr (i, w') \<Longrightarrow> stage_frame w w'"
proof -
  have "stage_frame w w1" if "store_event p e w = Inr (i, w1)" for e w1
    using that by (auto simp: store_event_def stage_frame_def next_id_def split: if_splits option.splits)
  then show "accept_one p e w = Inr (i, w') \<Longrightarrow> stage_frame w w'"
    by (auto simp: accept_one_def Let_def intro!: stage_frame_parts split: sum.splits)
qed

lemma stage_frame_accept_all: "accept_all p es w = Inr (ids, w') \<Longrightarrow> stage_frame w w'"
  by (induction es arbitrary: w ids)
    (auto split: sum.splits prod.splits dest!: stage_frame_accept_one intro: stf.evolution_trans stf.evolution_refl)

lemma stage_frame_accept: "state_io_rel stage_frame (AcceptEvents p es)"
  unfolding AcceptEvents_def
proof (rule stf.evolve_db)
  fix w :: world
  have "stage_frame w w'" if run: "accept_tx p es w = Inr (ids, w')" for ids w'
  proof -
    from run obtain w1 where "accept_all p es w = Inr (ids, w1)"
      "w' = audit p ''events.accept'' ''event_batch'' [] [(''count'', JInt (int (length es)))] (snd (count_window p (length es) w1))"
      by (auto simp: accept_tx_def split: option.splits if_splits sum.splits prod.splits)
    with stage_frame_accept_all show ?thesis by (auto simp: stage_frame_def count_window_def Let_def)
  qed
  then show "stage_frame w (snd (case accept_tx p es w of Inl e \<Rightarrow> (Inl e, w) | Inr (ids, w') \<Rightarrow> (Inr ids, w')))"
    by (auto simp: stf.evolution_refl split: sum.split)
qed

lemma blocked_frame: "stage_frame w w' \<Longrightarrow> blocked p i r w \<Longrightarrow> blocked p i r w'"
  by (auto simp: blocked_def stage_frame_def find_append)

lemma blocked_change_fails:
  assumes "find (\<lambda>a. event_key a = (p_TenantID p, p_AppID p, ''stage:'' @ sr_ID r @ '':'' @ i)) (w_events w) = Some a"
    and "ae_OccurredAt a \<noteq> w_now w div 1000 * 1000"
  shows "\<exists>e w'. run_state (AcceptEvents p [stage_changed f i r (w_now w), x]) w = (Inl e, w')"
proof -
  let ?e = "normalized_event (stage_changed f i r (w_now w))"
  have "same_key p ?e = (\<lambda>a. event_key a = (p_TenantID p, p_AppID p, ''stage:'' @ sr_ID r @ '':'' @ i))"
    by (simp add: fun_eq_iff same_key_def normalized_event_def stage_changed_def mk_event_def)
  moreover have "\<not> same_event ?e a" using assms(2) by (simp add: same_event_def normalized_event_def stage_changed_def mk_event_def)
  ultimately have "\<exists>e. accept_one p (stage_changed f i r (w_now w)) (ticked w) = Inl e"
    using assms(1) by (simp add: accept_one_def store_event_def Let_def)
  then have "\<exists>e. accept_tx p [stage_changed f i r (w_now w), x] (ticked w) = Inl e"
    by (auto simp: accept_tx_def split: option.split)
  then show ?thesis by (auto simp: AcceptEvents_def run_db)
qed

lemma blocked_changes_fail:
  assumes "(i, r) \<in> set assigned" and "blocked p i r w"
  shows "\<exists>e w'. run_state (change_stages p assigned n) w = (Inl e, w')"
  using assms
proof (induction assigned arbitrary: w n)
  case (Cons x rest)
  obtain j q where x: "x = (j, q)" by (cases x)
  obtain f w1 where f: "run_state (GetProfileByIDSystem (p_TenantID p) (p_WorkspaceID p) j) w = (f, w1)"
    by (cases "run_state (GetProfileByIDSystem (p_TenantID p) (p_WorkspaceID p) j) w")
  have fr1: "stage_frame w w1" using f stf.tick_ok [of w] by (auto simp: GetProfileByIDSystem_def run_query split: if_splits)
  show ?case
  proof (cases f)
    case (Inr prof)
    let ?es = "[stage_changed prof j q (w_now w1), stage_profile_updated prof j q (w_now w1)]"
    obtain r2 w2 where a: "run_state (AcceptEvents p ?es) w1 = (r2, w2)" by (cases "run_state (AcceptEvents p ?es) w1")
    from state_io_relD [OF stage_frame_accept a] have fr2: "stage_frame w1 w2" .
    show ?thesis
    proof (cases "(i, r) \<in> set rest")
      case True
      from Cons.IH [OF True blocked_frame [OF fr1 Cons.prems(2)]]
        Cons.IH [OF True blocked_frame [OF fr2 blocked_frame [OF fr1 Cons.prems(2)]]]
      show ?thesis using f Inr a x by (cases r2) (auto simp: run_attempt)
    next
      case False
      with Cons.prems(1) x have ji: "j = i" "q = r" by auto
      from Cons.prems(2) obtain row b where row: "find (profile_at (p_TenantID p) (p_WorkspaceID p) i) (w_profiles w) = Some row"
        "\<not> in_stage (pr_Profile row) (sr_Stage r)" and b: "find (\<lambda>a. event_key a = (p_TenantID p, p_AppID p, ''stage:'' @ sr_ID r @ '':'' @ i)) (w_events w) = Some b"
        "ae_OccurredAt b \<noteq> w_now w div 1000 * 1000" by (auto simp: blocked_def)
      have w1: "w1 = ticked w" and prof: "prof = pr_Profile row"
        using f Inr row(1) ji by (auto simp: GetProfileByIDSystem_def run_query or_not_found_def split: if_splits)
      have "\<exists>e w'. run_state (AcceptEvents p ?es) w1 = (Inl e, w')"
        unfolding ji by (rule blocked_change_fails) (use b w1 in simp_all)
      then show ?thesis using f Inr x ji prof row(2) by (auto simp: run_attempt)
    qed
  qed (use f x in \<open>simp add: run_attempt\<close>)
qed simp

text \<open>A change that was accepted is in the log under its key, with its time.\<close>

lemma changed_once:
  assumes "run_state (change_stages p [(i, r)] n) w = (Inr (Suc n), w1)"
  shows "\<exists>a. find (\<lambda>a. event_key a = (p_TenantID p, p_AppID p, ''stage:'' @ sr_ID r @ '':'' @ i)) (w_events w1) = Some a \<and>
    ae_OccurredAt a = w_now w div 1000 * 1000"
proof -
  obtain f w0 where f: "run_state (GetProfileByIDSystem (p_TenantID p) (p_WorkspaceID p) i) w = (f, w0)"
    by (cases "run_state (GetProfileByIDSystem (p_TenantID p) (p_WorkspaceID p) i) w")
  have now: "w_now w0 = w_now w" using f by (auto simp: GetProfileByIDSystem_def run_query split: if_splits)
  from assms f obtain prof ids where
    run: "run_state (AcceptEvents p [stage_changed prof i r (w_now w), stage_profile_updated prof i r (w_now w)]) w0 = (Inr ids, w1)"
    by (cases f) (auto simp: run_attempt now split: if_splits sum.splits prod.splits)
  let ?es = "[stage_changed prof i r (w_now w), stage_profile_updated prof i r (w_now w)]" and ?e = "normalized_event (stage_changed prof i r (w_now w))"
  from run have "accept_tx p ?es (ticked w0) = Inr (ids, w1)" by (auto simp: AcceptEvents_def run_db split: if_splits sum.splits)
  then obtain w2 where all: "accept_all p ?es (ticked w0) = Inr (ids, w2)" and ev: "w_events w1 = w_events w2"
    by (auto simp: accept_tx_def count_window_def Let_def split: option.splits if_splits sum.splits prod.splits)
  from accept_all_settles [OF all] obtain j where "settled w2 p ?e j" by (auto simp: list_all2_Cons1)
  then obtain a where "find (same_key p ?e) (w_events w1) = Some a" "same_event ?e a" by (auto simp: settled_def ev)
  moreover have "same_key p ?e = (\<lambda>a. event_key a = (p_TenantID p, p_AppID p, ''stage:'' @ sr_ID r @ '':'' @ i))"
    by (simp add: fun_eq_iff same_key_def normalized_event_def stage_changed_def mk_event_def)
  ultimately show ?thesis by (auto simp: same_event_def normalized_event_def stage_changed_def mk_event_def)
qed

end
