(* ===== verification/StageSamples.thy ===== *)
theory StageSamples
  imports Samples Stages
begin

text \<open>A profile that a rule moves to a stage, and the same world a second later, before the projection.\<close>

definition sample_rule :: stage_rule where
  "sample_rule = \<lparr>sr_ID = ''rule'', sr_TenantID = ''t'', sr_WorkspaceID = ''w'', sr_Stage = ''lead'', sr_SegmentID = ''s'', sr_Priority = 1,
     sr_Enabled = True, sr_CreatedAt = 0\<rparr>"

definition stage_world :: world where
  "stage_world = sample_tenant_world\<lparr>w_profiles := [person ''p'' (Some ''x'')]\<rparr>"

lemma stage_world_moved: "\<exists>w1. run_state (change_stages sample_app [(''p'', sample_rule)] 0) stage_world = (Inr 1, w1)"
proof -
  have tables: "w_fault stage_world n = False" "w_events stage_world = []" "w_pipelines stage_world = []" "w_windows stage_world = []"
    "w_now stage_world = 0" "w_apps stage_world = w_apps sample_tenant_world" "w_quotas stage_world = w_quotas sample_tenant_world"
    "w_profiles stage_world = [person ''p'' (Some ''x'')]" for n
    by (simp_all add: stage_world_def)
  have frame: "w_windows (add_job p e i w) = w_windows w" "w_windows (add_outbox p e tp i w) = w_windows w"
    "w_windows (add_connector_jobs p e i w) = w_windows w" "w_now (add_job p e i w) = w_now w"
    "w_now (add_outbox p e tp i w) = w_now w" "w_now (add_connector_jobs p e i w) = w_now w"
    "w_pipelines (add_job p e i w) = w_pipelines w" "w_pipelines (add_outbox p e tp i w) = w_pipelines w"
    "w_pipelines (add_connector_jobs p e i w) = w_pipelines w" "w_apps (add_connector_jobs p e i w) = w_apps w"
    "w_apps (add_job p e i w) = w_apps w" "w_apps (add_outbox p e tp i w) = w_apps w" for p e i tp w
    by (simp_all add: add_job_def add_outbox_def add_connector_jobs_def Let_def)
  have "\<exists>ids w1. accept_tx sample_app [stage_changed f ''p'' sample_rule 0, stage_profile_updated f ''p'' sample_rule 0] (ticked (ticked stage_world)) = Inr (ids, w1)" for f
    by (simp add: accept_tx_def accept_one_def store_event_def row_valid_def normalized_event_def sample_app_def same_key_def event_key_def event_row_def
        tenant_principal_def mk_event_def stage_changed_def stage_profile_updated_def sample_rule_def count_window_def Let_def exports_def
        or_empty_obj_def window_key_def frame tables)
  then obtain ids w1 where "accept_tx sample_app [stage_changed (pr_Profile (person ''p'' (Some ''x''))) ''p'' sample_rule 0,
      stage_profile_updated (pr_Profile (person ''p'' (Some ''x''))) ''p'' sample_rule 0] (ticked (ticked stage_world)) = Inr (ids, w1)" by blast
  moreover have "profile_at (p_TenantID sample_app) (p_WorkspaceID sample_app) ''p'' (person ''p'' (Some ''x''))"
    by (simp add: profile_at_def sample_app_def tenant_principal_def person_def)
  moreover have "\<not> in_stage (pr_Profile (person ''p'' (Some ''x''))) (sr_Stage sample_rule)"
    by (simp add: in_stage_def pr_Profile_def person_def obj_get_def)
  ultimately show ?thesis
    by (simp add: run_attempt GetProfileByIDSystem_def run_query or_not_found_def tables AcceptEvents_def run_db)
qed

end
