(* ===== verification/Replay.thy ===== *)
theory Replay
  imports Projection
begin

text \<open>
  The replay of a log of events into profiles: \<^verbatim>\<open>internal/replay/replay.go\<close>, whose result is compared with the live
  profiles. The program shares the profiles between a slice and two maps by pointers; here a pointer is the position of a
  profile in a heap. A \<^verbatim>\<open>map[string]any\<close> is the list of its members. Profiles with the same sort key, which
  \<^verbatim>\<open>sort.Slice\<close> may put in any order, stay in the order of the slice.

  The facts: without explicit merges every pointer of the maps is one of the slice, so no attribute of the log is lost; with
  one, the maps can keep a pointer to a profile that is no longer part of the result.
\<close>

section \<open>Profiles\<close>

record canonical_consent =
  cc_Channel :: string
  cc_Topic :: string
  cc_State :: string
  cc_OccurredAt :: time

record canonical_profile =
  cp_ExternalID :: string
  cp_AnonymousID :: string
  cp_Attributes :: "(string \<times> json) list"
  cp_Consents :: "(string \<times> canonical_consent) list"

definition empty_profile :: canonical_profile where
  "empty_profile = \<lparr>cp_ExternalID = [], cp_AnonymousID = [], cp_Attributes = [], cp_Consents = []\<rparr>"

definition put_consent :: "string \<Rightarrow> canonical_consent \<Rightarrow> (string \<times> canonical_consent) list \<Rightarrow> (string \<times> canonical_consent) list" where
  "put_consent k c cs = filter (\<lambda>(k', _). k' \<noteq> k) cs @ [(k, c)]"

definition merge_consents :: "(string \<times> canonical_consent) list \<Rightarrow> (string \<times> canonical_consent) list \<Rightarrow> (string \<times> canonical_consent) list" where
  "merge_consents target source = fold (\<lambda>(k, c) t. case map_of t k of
       None \<Rightarrow> put_consent k c t
     | Some current \<Rightarrow> if cc_OccurredAt current < cc_OccurredAt c then put_consent k c t else t) source target"

text \<open>The attributes of the target win.\<close>

definition merge :: "canonical_profile \<Rightarrow> canonical_profile \<Rightarrow> canonical_profile" where
  "merge target source = target\<lparr>
     cp_Attributes := jsonb_concat (cp_Attributes source) (cp_Attributes target),
     cp_Consents := merge_consents (cp_Consents target) (cp_Consents source),
     cp_AnonymousID := (if cp_AnonymousID target = [] then cp_AnonymousID source else cp_AnonymousID target)\<rparr>"

section \<open>The replay\<close>

record replay_state =
  rs_heap :: "canonical_profile list"
  rs_profiles :: "nat list"
  rs_byExternal :: "string \<rightharpoonup> nat"
  rs_byAnonymous :: "string \<rightharpoonup> nat"

definition replay_start :: replay_state where
  "replay_start = \<lparr>rs_heap = [], rs_profiles = [], rs_byExternal = Map.empty, rs_byAnonymous = Map.empty\<rparr>"

definition repoint :: "nat \<Rightarrow> nat \<Rightarrow> (string \<rightharpoonup> nat) \<Rightarrow> (string \<rightharpoonup> nat)" where
  "repoint old new m = (\<lambda>k. if m k = Some old then Some new else m k)"

text \<open>Merging the profile at one pointer into the one at another, and \<^verbatim>\<open>removeProfile\<close>.\<close>

definition absorb :: "nat \<Rightarrow> nat \<Rightarrow> replay_state \<Rightarrow> replay_state" where
  "absorb target source st = st\<lparr>rs_heap := (rs_heap st)[target := merge (rs_heap st ! target) (rs_heap st ! source)],
     rs_profiles := remove1 source (rs_profiles st)\<rparr>"

definition name_profile :: "accepted_event \<Rightarrow> nat \<Rightarrow> replay_state \<Rightarrow> replay_state" where
  "name_profile event a st =
     (let st1 = (if ae_ExternalID event = [] then st
                 else st\<lparr>rs_heap := (rs_heap st)[a := (rs_heap st ! a)\<lparr>cp_ExternalID := ae_ExternalID event\<rparr>],
                         rs_byExternal := (rs_byExternal st)(ae_ExternalID event \<mapsto> a)\<rparr>)
      in if ae_AnonymousID event = [] then st1
         else st1\<lparr>rs_heap := (rs_heap st1)[a := (rs_heap st1 ! a)\<lparr>cp_AnonymousID := ae_AnonymousID event\<rparr>],
                  rs_byAnonymous := (rs_byAnonymous st1)(ae_AnonymousID event \<mapsto> a)\<rparr>)"

definition ensure :: "accepted_event \<Rightarrow> replay_state \<Rightarrow> nat \<times> replay_state" where
  "ensure event st =
     (let external = (if ae_ExternalID event = [] then None else rs_byExternal st (ae_ExternalID event));
          anonymous = (if ae_AnonymousID event = [] then None else rs_byAnonymous st (ae_AnonymousID event))
      in case (external, anonymous) of
           (Some x, Some y) \<Rightarrow>
             if x \<noteq> y then
               (let st1 = absorb x y st
                in (x, st1\<lparr>rs_byExternal := repoint y x (rs_byExternal st1), rs_byAnonymous := repoint y x (rs_byAnonymous st1)\<rparr>))
             else (x, name_profile event x st)
         | (Some x, None) \<Rightarrow> (x, name_profile event x st)
         | (None, Some y) \<Rightarrow> (y, name_profile event y st)
         | (None, None) \<Rightarrow>
             (let a = length (rs_heap st)
              in (a, name_profile event a (st\<lparr>rs_heap := rs_heap st @ [empty_profile], rs_profiles := rs_profiles st @ [a]\<rparr>))))"

definition update_at :: "nat \<Rightarrow> (canonical_profile \<Rightarrow> canonical_profile) \<Rightarrow> replay_state \<Rightarrow> replay_state" where
  "update_at a f st = st\<lparr>rs_heap := (rs_heap st)[a := f (rs_heap st ! a)]\<rparr>"

definition replay_updated :: "accepted_event \<Rightarrow> nat \<Rightarrow> replay_state \<Rightarrow> replay_state" where
  "replay_updated event a st =
     (case Option.bind (payload_members event) dec_attributes of
        None \<Rightarrow> st
      | Some attrs \<Rightarrow> update_at a (\<lambda>f. f\<lparr>cp_Attributes := jsonb_concat (cp_Attributes f) attrs\<rparr>) st)"

definition replay_consent :: "accepted_event \<Rightarrow> nat \<Rightarrow> replay_state \<Rightarrow> replay_state" where
  "replay_consent event a st =
     (case payload_members event of
        None \<Rightarrow> st
      | Some kvs \<Rightarrow>
          (case (str_field ''channel'' kvs, str_field ''topic'' kvs, str_field ''state'' kvs) of
             (Some ch, Some topic0, Some state) \<Rightarrow>
               (let topic = (if topic0 = [] then ''marketing'' else topic0); channel = to_lower ch
                in update_at a (\<lambda>f. f\<lparr>cp_Consents := put_consent (channel @ '':'' @ topic)
                     \<lparr>cc_Channel = channel, cc_Topic = topic, cc_State = state, cc_OccurredAt = ae_OccurredAt event\<rparr> (cp_Consents f)\<rparr>) st)
           | _ \<Rightarrow> st))"

definition replay_merge :: "accepted_event \<Rightarrow> nat \<Rightarrow> replay_state \<Rightarrow> replay_state" where
  "replay_merge event a st =
     (case Option.bind (payload_members event) (str_field ''source_external_id'') of
        None \<Rightarrow> st
      | Some ext \<Rightarrow>
          (case rs_byExternal st ext of
             None \<Rightarrow> st
           | Some source \<Rightarrow>
               if source = a then st
               else
                 (let st1 = absorb a source st
                  in st1\<lparr>rs_byExternal := (rs_byExternal st1)(ext := None), rs_byAnonymous := repoint source a (rs_byAnonymous st1)\<rparr>)))"

definition replay_event :: "accepted_event \<Rightarrow> replay_state \<Rightarrow> replay_state" where
  "replay_event event st =
     (if ae_Type event = ''privacy.deleted'' then st
      else case ensure event st of (a, st1) \<Rightarrow>
        if ae_Type event = ''profile.updated'' then replay_updated event a st1
        else if ae_Type event = ''consent.changed'' then replay_consent event a st1
        else if ae_Type event = ''identity.merge'' then replay_merge event a st1
        else st1)"

definition profile_sort_key :: "canonical_profile \<Rightarrow> string" where
  "profile_sort_key f = cp_ExternalID f @ CHR 0x00 # cp_AnonymousID f"

definition Normalize :: "canonical_profile list \<Rightarrow> canonical_profile list" where
  "Normalize profiles = sort_key profile_sort_key profiles"

definition Build :: "accepted_event list \<Rightarrow> canonical_profile list" where
  "Build events = (let st = fold replay_event events replay_start in Normalize (map ((!) (rs_heap st)) (rs_profiles st)))"

section \<open>Nothing is lost without a merge\<close>

text \<open>The maps point at profiles of the slice, and the slice has every profile once.\<close>

definition replay_ok :: "replay_state \<Rightarrow> bool" where
  "replay_ok st \<longleftrightarrow> distinct (rs_profiles st) \<and> (\<forall>a \<in> set (rs_profiles st). a < length (rs_heap st)) \<and>
     ran (rs_byExternal st) \<subseteq> set (rs_profiles st) \<and> ran (rs_byAnonymous st) \<subseteq> set (rs_profiles st)"

definition known :: "replay_state \<Rightarrow> string \<Rightarrow> bool" where
  "known st k \<longleftrightarrow> (\<exists>a \<in> set (rs_profiles st). obj_get (cp_Attributes (rs_heap st ! a)) k \<noteq> None)"

definition replay_grows :: "replay_state \<Rightarrow> replay_state \<Rightarrow> bool" where
  "replay_grows st st' \<longleftrightarrow> replay_ok st' \<and> (\<forall>k. known st k \<longrightarrow> known st' k)"

lemma replay_grows_refl: "replay_ok st \<Longrightarrow> replay_grows st st"
  by (simp add: replay_grows_def)

lemma replay_grows_trans: "\<lbrakk>replay_grows st st'; replay_grows st' st''\<rbrakk> \<Longrightarrow> replay_grows st st''"
  by (simp add: replay_grows_def)

lemma ran_upd_subset: "\<lbrakk>ran m \<subseteq> A; a \<in> A\<rbrakk> \<Longrightarrow> ran (m(k \<mapsto> a)) \<subseteq> A"
  by (auto simp: ran_def split: if_splits)

lemma ran_repoint: "ran m \<subseteq> A \<Longrightarrow> a \<in> A \<Longrightarrow> b \<noteq> a \<Longrightarrow> ran (repoint b a m) \<subseteq> A - {b}"
  by (auto simp: ran_def repoint_def split: if_splits)

lemma replay_update_at:
  assumes "replay_ok st" "\<And>f k. obj_get (cp_Attributes f) k \<noteq> None \<Longrightarrow> obj_get (cp_Attributes (g f)) k \<noteq> None"
  shows "replay_grows st (update_at a g st)"
  unfolding replay_grows_def
proof (intro conjI allI impI)
  show "replay_ok (update_at a g st)" using assms(1) by (simp add: replay_ok_def update_at_def)
next
  fix k
  assume "known st k"
  then obtain b where b: "b \<in> set (rs_profiles st)" "obj_get (cp_Attributes (rs_heap st ! b)) k \<noteq> None" "b < length (rs_heap st)"
    using assms(1) by (auto simp: known_def replay_ok_def)
  have "obj_get (cp_Attributes (rs_heap (update_at a g st) ! b)) k \<noteq> None"
    using b(2,3) assms(2) [OF b(2)] by (cases "a = b") (simp_all add: update_at_def)
  then show "known (update_at a g st) k" using b(1) by (auto simp: known_def update_at_def)
qed

lemma replay_point:
  assumes "replay_ok st" "a \<in> set (rs_profiles st)"
  shows "replay_grows st (st\<lparr>rs_byExternal := (rs_byExternal st)(k \<mapsto> a)\<rparr>)"
    and "replay_grows st (st\<lparr>rs_byAnonymous := (rs_byAnonymous st)(k \<mapsto> a)\<rparr>)"
  using assms ran_upd_subset [of "rs_byExternal st" "set (rs_profiles st)" a k]
    ran_upd_subset [of "rs_byAnonymous st" "set (rs_profiles st)" a k]
  by (simp_all add: replay_grows_def replay_ok_def known_def)

lemma name_profile_steps:
  "name_profile event a st =
     (let st1 = (if ae_ExternalID event = [] then st
                 else (update_at a (\<lambda>f. f\<lparr>cp_ExternalID := ae_ExternalID event\<rparr>) st)\<lparr>rs_byExternal := (rs_byExternal st)(ae_ExternalID event \<mapsto> a)\<rparr>)
      in if ae_AnonymousID event = [] then st1
         else (update_at a (\<lambda>f. f\<lparr>cp_AnonymousID := ae_AnonymousID event\<rparr>) st1)\<lparr>rs_byAnonymous := (rs_byAnonymous st1)(ae_AnonymousID event \<mapsto> a)\<rparr>)"
  by (simp add: name_profile_def update_at_def Let_def)

lemma update_at_simps [simp]:
  "rs_profiles (update_at a g st) = rs_profiles st"
  "rs_byExternal (update_at a g st) = rs_byExternal st"
  "rs_byAnonymous (update_at a g st) = rs_byAnonymous st"
  by (simp_all add: update_at_def)

lemma replay_named:
  assumes "replay_ok st" "a \<in> set (rs_profiles st)"
  shows "replay_grows st ((update_at a (\<lambda>f. f\<lparr>cp_ExternalID := x\<rparr>) st)\<lparr>rs_byExternal := (rs_byExternal st)(x \<mapsto> a)\<rparr>)" (is ?external)
    and "replay_grows st ((update_at a (\<lambda>f. f\<lparr>cp_AnonymousID := x\<rparr>) st)\<lparr>rs_byAnonymous := (rs_byAnonymous st)(x \<mapsto> a)\<rparr>)" (is ?anonymous)
proof -
  have e: "replay_grows st (update_at a (\<lambda>f. f\<lparr>cp_ExternalID := x\<rparr>) st)"
    by (rule replay_update_at [OF assms(1)]) simp
  have n: "replay_grows st (update_at a (\<lambda>f. f\<lparr>cp_AnonymousID := x\<rparr>) st)"
    by (rule replay_update_at [OF assms(1)]) simp
  show ?external
    using replay_grows_trans [OF e replay_point(1)] e assms(2) by (simp add: replay_grows_def)
  show ?anonymous
    using replay_grows_trans [OF n replay_point(2)] n assms(2) by (simp add: replay_grows_def)
qed

lemma name_profile_profiles [simp]: "rs_profiles (name_profile event a st) = rs_profiles st"
  by (simp add: name_profile_steps Let_def)

lemma replay_name:
  assumes "replay_ok st" "a \<in> set (rs_profiles st)"
  shows "replay_grows st (name_profile event a st)"
proof -
  let ?st1 = "if ae_ExternalID event = [] then st
     else (update_at a (\<lambda>f. f\<lparr>cp_ExternalID := ae_ExternalID event\<rparr>) st)\<lparr>rs_byExternal := (rs_byExternal st)(ae_ExternalID event \<mapsto> a)\<rparr>"
  have one: "replay_grows st ?st1" using replay_named(1) [OF assms] replay_grows_refl [OF assms(1)] by simp
  then have "replay_ok ?st1" by (simp add: replay_grows_def)
  moreover have "a \<in> set (rs_profiles ?st1)" using assms(2) by simp
  ultimately have "replay_grows ?st1 (name_profile event a st)"
    using replay_named(2) [of ?st1 a "ae_AnonymousID event"] replay_grows_refl [of ?st1]
    unfolding name_profile_steps Let_def by (cases "ae_AnonymousID event = []") simp_all
  then show ?thesis using one replay_grows_trans by blast
qed

lemma replay_absorb:
  assumes "replay_ok st" "x \<in> set (rs_profiles st)" "y \<in> set (rs_profiles st)" "x \<noteq> y"
  defines "st' \<equiv> (absorb x y st)\<lparr>rs_byExternal := repoint y x (rs_byExternal st), rs_byAnonymous := repoint y x (rs_byAnonymous st)\<rparr>"
  shows "replay_grows st st'" and "x \<in> set (rs_profiles st')"
proof -
  have live: "set (rs_profiles st') = set (rs_profiles st) - {y}"
    using assms(1) by (simp add: st'_def absorb_def replay_ok_def)
  then show "x \<in> set (rs_profiles st')" using assms(2,4) by simp
  have ok: "replay_ok st'"
    using assms(1,2,4) live ran_repoint [of _ "set (rs_profiles st)" x y]
    by (auto simp: replay_ok_def st'_def absorb_def)
  have heap: "rs_heap st' = (rs_heap st)[x := merge (rs_heap st ! x) (rs_heap st ! y)]" by (simp add: st'_def absorb_def)
  have "known st' k" if known: "known st k" for k
  proof -
    obtain b where b: "b \<in> set (rs_profiles st)" "obj_get (cp_Attributes (rs_heap st ! b)) k \<noteq> None"
      using known unfolding known_def by blast
    have bound: "x < length (rs_heap st)" using assms(1,2) by (simp add: replay_ok_def)
    show ?thesis
    proof (cases "b = x \<or> b = y")
      case True
      have "obj_get (cp_Attributes (rs_heap st' ! x)) k \<noteq> None"
        using True b(2) bound by (auto simp: heap merge_def obj_get_jsonb_concat split: option.splits)
      then show ?thesis using live assms(2,4) by (auto simp: known_def)
    next
      case False
      then have "rs_heap st' ! b = rs_heap st ! b" by (simp add: heap)
      then show ?thesis unfolding known_def using live b False by (intro bexI [of _ b]) simp_all
    qed
  qed
  then show "replay_grows st st'" using ok by (simp add: replay_grows_def)
qed

lemma replay_fresh:
  assumes "replay_ok st"
  defines "st' \<equiv> st\<lparr>rs_heap := rs_heap st @ [empty_profile], rs_profiles := rs_profiles st @ [length (rs_heap st)]\<rparr>"
  shows "replay_grows st st'"
proof -
  have "replay_ok st'" using assms(1) by (fastforce simp: st'_def replay_ok_def)
  moreover have "known st' k" if "known st k" for k
    using that assms(1) by (auto simp: known_def st'_def replay_ok_def nth_append)
  ultimately show ?thesis by (simp add: replay_grows_def)
qed

lemma replay_ensure:
  assumes ok: "replay_ok st" and "ensure event st = (a, st')"
  shows "replay_grows st st' \<and> a \<in> set (rs_profiles st')"
proof -
  define ext where "ext = (if ae_ExternalID event = [] then None else rs_byExternal st (ae_ExternalID event))"
  define anon where "anon = (if ae_AnonymousID event = [] then None else rs_byAnonymous st (ae_AnonymousID event))"
  have live: "x \<in> set (rs_profiles st)" if "ext = Some x \<or> anon = Some x" for x
    using that ok by (auto simp: ext_def anon_def replay_ok_def intro: ranI split: if_splits)
  note ens = assms(2) [unfolded ensure_def Let_def, folded ext_def anon_def]
  consider (both) x y where "ext = Some x" "anon = Some y" "x \<noteq> y"
    | (one) x where "a = x" "x \<in> set (rs_profiles st)" "st' = name_profile event x st"
    | (none) "ext = None" "anon = None"
    using ens live by (cases ext; cases anon) (auto split: if_splits)
  then show ?thesis
  proof cases
    case both
    then have "a = x" "st' = (absorb x y st)\<lparr>rs_byExternal := repoint y x (rs_byExternal st), rs_byAnonymous := repoint y x (rs_byAnonymous st)\<rparr>"
      using ens by (auto simp: absorb_def)
    then show ?thesis using replay_absorb [OF ok _ _ both(3)] live both(1,2) by simp
  next
    case one
    then show ?thesis using replay_name [OF ok] by simp
  next
    case none
    let ?st = "st\<lparr>rs_heap := rs_heap st @ [empty_profile], rs_profiles := rs_profiles st @ [length (rs_heap st)]\<rparr>"
    have fresh: "replay_grows st ?st" by (rule replay_fresh [OF ok])
    then have "replay_grows ?st (name_profile event (length (rs_heap st)) ?st)"
      by (intro replay_name) (simp_all add: replay_grows_def)
    then show ?thesis using none ens replay_grows_trans [OF fresh] by auto
  qed
qed

lemma replay_updated_grows: "replay_ok st \<Longrightarrow> replay_grows st (replay_updated event a st)"
  by (auto simp: replay_updated_def replay_grows_refl obj_get_jsonb_concat split: option.splits intro!: replay_update_at)

lemma replay_consent_grows: "replay_ok st \<Longrightarrow> replay_grows st (replay_consent event a st)"
  by (auto simp: replay_consent_def Let_def replay_grows_refl split: option.splits intro!: replay_update_at)

lemma replay_event_grows:
  assumes "replay_ok st" "ae_Type event \<noteq> ''identity.merge''"
  shows "replay_grows st (replay_event event st)"
proof -
  obtain a st1 where e: "ensure event st = (a, st1)" by fastforce
  then have g: "replay_grows st st1" using replay_ensure [OF assms(1)] by blast
  then have ok: "replay_ok st1" by (simp add: replay_grows_def)
  show ?thesis
    using assms g e replay_grows_trans [OF g replay_updated_grows [OF ok]] replay_grows_trans [OF g replay_consent_grows [OF ok]]
    by (simp add: replay_event_def replay_grows_refl)
qed

lemma replay_event_writes:
  assumes "replay_ok st" "ae_Type event = ''profile.updated''"
    and "Option.bind (payload_members event) dec_attributes = Some attrs" "obj_get attrs k \<noteq> None"
  shows "known (replay_event event st) k"
proof -
  obtain a st1 where e: "ensure event st = (a, st1)" by fastforce
  then have a: "replay_ok st1" "a \<in> set (rs_profiles st1)" using replay_ensure [OF assms(1)] by (auto simp: replay_grows_def)
  then have "a < length (rs_heap st1)" by (simp add: replay_ok_def)
  then have "obj_get (cp_Attributes (rs_heap (replay_updated event a st1) ! a)) k \<noteq> None"
    using assms(3,4) by (auto simp: replay_updated_def update_at_def obj_get_jsonb_concat split: option.splits)
  moreover have "a \<in> set (rs_profiles (replay_updated event a st1))" using a(2) assms(3) by (simp add: replay_updated_def)
  ultimately show ?thesis using e assms(2) by (auto simp: replay_event_def known_def)
qed

lemma replay_fold_grows:
  assumes "replay_ok st" "list_all (\<lambda>e. ae_Type e \<noteq> ''identity.merge'') events"
  shows "replay_grows st (fold replay_event events st)"
  using assms
proof (induction events arbitrary: st)
  case Nil
  then show ?case by (simp add: replay_grows_refl)
next
  case (Cons e events)
  then have one: "replay_grows st (replay_event e st)" by (simp add: replay_event_grows)
  then have "replay_grows (replay_event e st) (fold replay_event events (replay_event e st))"
    using Cons by (simp add: replay_grows_def)
  then show ?case using replay_grows_trans [OF one] by simp
qed

lemma known_Build:
  "known (fold replay_event events replay_start) k \<longleftrightarrow> (\<exists>f \<in> set (Build events). obj_get (cp_Attributes f) k \<noteq> None)"
  by (simp add: Build_def Normalize_def Let_def known_def)

lemma replay_start_ok: "replay_ok replay_start"
  by (simp add: replay_ok_def replay_start_def)

lemma Build_keeps_attributes:
  assumes merges: "list_all (\<lambda>e. ae_Type e \<noteq> ''identity.merge'') events"
    and "event \<in> set events" "ae_Type event = ''profile.updated''"
    and "Option.bind (payload_members event) dec_attributes = Some attrs" "obj_get attrs k \<noteq> None"
  shows "\<exists>f \<in> set (Build events). obj_get (cp_Attributes f) k \<noteq> None"
proof -
  obtain pre post where log: "events = pre @ event # post" using assms(2) split_list by metis
  let ?st = "fold replay_event pre replay_start"
  have ok: "replay_ok ?st" using replay_fold_grows [OF replay_start_ok, of pre] merges log by (simp add: replay_grows_def)
  then have "replay_grows (replay_event event ?st) (fold replay_event post (replay_event event ?st))"
    using replay_event_grows [OF ok] merges log by (intro replay_fold_grows) (simp_all add: replay_grows_def)
  then have "known (fold replay_event events replay_start) k"
    using replay_event_writes [OF ok assms(3,4,5)] log by (simp add: replay_grows_def)
  then show ?thesis by (simp add: known_Build)
qed

section \<open>What a merge loses\<close>

text \<open>
  A profile is named \<open>x\<close> and then \<open>y\<close>, and merged under its first name. The merge forgets that name only: the update
  addressed to \<open>y\<close> that follows goes to the profile that has been removed.
\<close>

definition logged :: "string \<Rightarrow> string \<Rightarrow> string \<Rightarrow> (string \<times> json) list \<Rightarrow> accepted_event" where
  "logged ty external anonymous payload = \<lparr>ae_ID = [], ae_Principal = tenant_principal ''t'' ''w'', ae_Type = ty, ae_SchemaVersion = 1,
     ae_ExternalID = external, ae_AnonymousID = anonymous, ae_IdempotencyKey = ''k'', ae_OccurredAt = 0, ae_ReceivedAt = 0,
     ae_Source = ''api'', ae_SourceEventID = [], ae_CorrelationID = [], ae_CausationID = [], ae_Traceparent = [],
     ae_DataClassification = ''internal'', ae_ConsentContext = None, ae_Payload = Some (JObj payload)\<rparr>"

definition sets_attribute :: "string \<Rightarrow> (string \<times> json) list" where
  "sets_attribute k = [(''attributes'', JObj [(k, JInt 1)])]"

definition two_names :: "accepted_event list" where
  "two_names = [logged ''profile.updated'' ''x'' ''n'' (sets_attribute ''a''), logged ''page.viewed'' ''y'' ''n'' [],
     logged ''profile.updated'' ''y'' [] (sets_attribute ''b'')]"

definition two_names_merged :: "accepted_event list" where
  "two_names_merged = [logged ''profile.updated'' ''x'' ''n'' (sets_attribute ''a''), logged ''page.viewed'' ''y'' ''n'' [],
     logged ''identity.merge'' ''z'' [] [(''source_external_id'', JStr ''x'')],
     logged ''profile.updated'' ''y'' [] (sets_attribute ''b'')]"

lemma merges_can_lose_attributes:
  "list_all (\<lambda>f. cp_ExternalID f = ''z'' \<and> obj_get (cp_Attributes f) ''a'' = Some (JInt 1) \<and> obj_get (cp_Attributes f) ''b'' = None)
     (Build two_names_merged) \<and> length (Build two_names_merged) = 1"
  by code_simp

end
