(* ===== verification/EnrollFacts.thy ===== *)
theory EnrollFacts
  imports Engine
begin

text \<open>
  Enrollment and publication: an enrollment key is used once, also across everything else the engine
  does in between; a journey that admits a profile once admits it once; and a version comes only from
  a draft that parses, validates and is the one the manifest was written for, approved by somebody
  who did not edit it where the tenant asks for that.
\<close>

section \<open>Enrollment\<close>

lemma enroll_key_defaulted [simp]: "enroll_key (defaulted_run w run) = enroll_key run"
  by (simp add: enroll_key_def defaulted_run_def)

lemma enroll_key_new_id [simp]: "enroll_key (run\<lparr>jr_ID := i\<rparr>) = enroll_key run"
  by (simp add: enroll_key_def)

lemma EnrollJourneyRun_stores:
  assumes "run_state (EnrollJourneyRun run step) w = (Inr r, w')"
  shows "enroll_key run \<in> set (map enroll_key (w_runs w'))"
  using assms
  by (auto simp: EnrollJourneyRun_def transact_def run_db insert_run_def insert_step_def with_steps_def Let_def next_id_def
      split: if_splits sum.splits)

lemma EnrollJourneyRun_again:
  assumes "enroll_key run \<in> set (map enroll_key (w_runs w))" and "run_state (EnrollJourneyRun run step) w = (Inr r, w')"
  shows "r = ([], False) \<and> w' = ticked w"
  using assms
  by (auto simp: EnrollJourneyRun_def transact_def run_db insert_run_def split: if_splits)

text \<open>An enrollment key in use stays in use.\<close>

lemma reaches_enroll_key:
  assumes "reaches w w'" and "k \<in> set (map enroll_key (w_runs w))"
  shows "k \<in> set (map enroll_key (w_runs w'))"
proof -
  from assms(2) obtain r where r: "r \<in> set (w_runs w)" "k = enroll_key r" by auto
  have "grown run_kept (w_runs w) (w_runs w')" using reaches_evolves [OF assms(1)] by (simp add: evolves_def history_def)
  from grown_mem [OF this r(1)] obtain r' where r': "r' \<in> set (w_runs w')" "run_identity r' = run_identity r"
    by (auto simp: run_kept_def)
  then have "enroll_key (run_identity r') = enroll_key (run_identity r)" by simp
  then have "enroll_key r' = k" using r(2) by (simp add: run_identity_def enroll_key_def)
  with r'(1) show ?thesis by force
qed

text \<open>The runs of a profile in a version.\<close>

abbreviation runs_of :: "string \<Rightarrow> string \<Rightarrow> world \<Rightarrow> journey_run list" where
  "runs_of vid pid w \<equiv> filter (\<lambda>r. jr_JourneyVersionID r = vid \<and> jr_ProfileID r = pid) (w_runs w)"

lemma version_runs_empty: "version_runs w vid pid = [] \<longleftrightarrow> runs_of vid pid w = []"
proof -
  have "set (version_runs w vid pid) = set (runs_of vid pid w)" by (simp add: version_runs_def)
  then show ?thesis by (metis set_empty)
qed

lemma insert_step_runs: "insert_step s w = Inr w' \<Longrightarrow> w_runs w' = w_runs w"
  by (auto simp: insert_step_def with_steps_def next_id_def split: if_splits)

lemma enroll_items_once:
  assumes "\<forall>v \<in> set items. jv_ID v = vid \<longrightarrow> jv_ReentryPolicy v = ''once''" and "runs_of vid pid w \<noteq> []"
    and "enroll_items event pid items w = Inr w'"
  shows "runs_of vid pid w' = runs_of vid pid w"
  using assms
proof (induction items arbitrary: w)
  case (Cons it items)
  show ?case
  proof (cases "jv_ID it = vid")
    case True
    with Cons.prems(1,2) have "reentry_sequence (jv_ReentryPolicy it) (jv_MaxReentries it) (version_runs w (jv_ID it) pid) = None"
      by (cases "version_runs w vid pid") (auto simp: reentry_sequence_def version_runs_empty)
    with Cons show ?thesis by auto
  next
    case False
    have step: "runs_of vid pid w' = runs_of vid pid w"
      if "enroll_items event pid items w2 = Inr w'" "runs_of vid pid w2 = runs_of vid pid w" for w2
      using Cons.IH [of w2] Cons.prems(1,2) that by auto
    show ?thesis
      using Cons.prems(3) step False
      by (auto simp: insert_run_def event_run_def next_id_def split: option.splits if_splits sum.splits dest!: insert_step_runs)
  qed
qed simp

lemma enrollEventTriggered_once:
  assumes "\<forall>v \<in> set (w_versions w). jv_ID v = vid \<longrightarrow> jv_ReentryPolicy v = ''once''" and "runs_of vid pid w \<noteq> []"
    and "enrollEventTriggered event pid w = Inr w'"
  shows "runs_of vid pid w' = runs_of vid pid w"
  by (rule enroll_items_once [OF _ assms(2) assms(3) [unfolded enrollEventTriggered_def]]) (use assms(1) in simp)

section \<open>Publication\<close>

lemma PublishJourney_Inr:
  assumes "run_state (PublishJourney env p j approver key) w = (Inr v, w')"
  obtains draft graph where "find (journey_in p j) (w_journeys w) = Some draft" "ParseGraph (jv_Graph v) = Inr graph"
    "Validate (Some graph) = Inr ()" "jv_Version v = jo_LatestVersion draft + 1" "w_versions w' = w_versions w @ [v]"
    "jv_Status v = ''active''" "str_contains ''/manifests/'' key \<longrightarrow> has_suffix (manifest_suffix env graph) key"
proof -
  from assms obtain w1 where c: "run_state (CheckMakerChecker p ''journeys'' j []) w = (Inr (), w1)"
    and t: "run_state (transact (publish_tx env p j approver key)) w1 = (Inr v, w')"
    by (auto simp: PublishJourney_def run_attempt split: if_splits sum.splits prod.splits)
  from state_io_relD [OF read_only_CheckMakerChecker c] have w1: "w_journeys w1 = w_journeys w" "w_versions w1 = w_versions w"
    by (auto simp: read_only_def)
  from t have tx: "publish_tx env p j approver key (ticked w1) = Inr (v, w')"
    by (auto simp: transact_def run_db split: if_splits sum.splits prod.splits)
  from this obtain draft graph entry goal win where d: "find (journey_in p j) (w_journeys (ticked w1)) = Some draft"
    "ParseGraph (jo_Graph draft) = Inr graph" "Validate (Some graph) = Inr ()"
    "v = new_version (ticked w1) draft entry goal win approver key" "publish_writes env p draft v (ticked w1) = Inr (v, w')"
    "str_contains ''/manifests/'' key \<longrightarrow> has_suffix (manifest_suffix env graph) key"
    by (rule publish_tx_Inr)
  show ?thesis
    by (rule that [of draft graph])
      (use d w1 in \<open>auto simp: new_version_def publish_writes_def audit_def next_id_def split: if_splits\<close>)
qed

section \<open>Separation of duties\<close>

definition checker_on :: "world \<Rightarrow> principal \<Rightarrow> string \<Rightarrow> bool" where
  "checker_on w p ty \<longleftrightarrow> map_of (w_checkers w) (p_TenantID p, ty) = Some True"

lemma EvaluateMakerChecker_loop_Inr: "EvaluateMakerChecker_loop u ids = Inr () \<longleftrightarrow> u = [] \<or> u \<notin> set ids"
  by (induction ids) auto

lemma CheckMakerChecker_iff:
  assumes "healthy w" and "ty \<noteq> []" and "i \<noteq> []"
  shows "fst (run_state (CheckMakerChecker p ty i []) w) = Inr () \<longleftrightarrow>
    p_ActorType p = ''user'' \<and> p_UserID p \<noteq> [] \<and>
    (\<not> checker_on w p ty \<or> audit_actors w (p_TenantID p) ty i \<noteq> [] \<and> p_UserID p \<notin> set (audit_actors w (p_TenantID p) ty i))"
  using assms
  by (auto simp: CheckMakerChecker_def GetMakerCheckerPolicy_def run_attempt run_query checker_on_def EvaluateMakerChecker_def
      EvaluateMakerChecker_loop_Inr audit_actors_def split: option.splits)

lemma PublishJourney_blocked:
  assumes "checker_on w p ''journeys''" and "\<forall>a \<in> set (w_audit w). au_ResourceType a \<noteq> ''journeys''"
  shows "\<exists>e. fst (run_state (PublishJourney env p j approver key) w) = Inl e"
proof -
  have none: "audit_actors w' (p_TenantID p) ''journeys'' j = []" if "w_audit w' = w_audit w" for w'
    using assms(2) that by (auto simp: audit_actors_def filter_empty_conv)
  have "fst (run_state (CheckMakerChecker p ''journeys'' j []) w) \<noteq> Inr ()"
    using assms(1) none [of "ticked (ticked w)"]
    by (auto simp: CheckMakerChecker_def GetMakerCheckerPolicy_def run_attempt run_query checker_on_def EvaluateMakerChecker_def
        split: option.splits if_splits)
  then show ?thesis
    by (cases "run_state (CheckMakerChecker p ''journeys'' j []) w"; cases "fst (run_state (CheckMakerChecker p ''journeys'' j []) w)")
      (auto simp: PublishJourney_def run_attempt)
qed

end
