(* ===== verification/Manifest.thy ===== *)
theory Manifest
  imports JourneyGraph
begin

text \<open>
  The value \<^verbatim>\<open>json.Marshal\<close> writes for a graph (the struct tags of \<^verbatim>\<open>internal/journey/graph.go\<close>), which
  publication stores as the manifest of a version, and the proof that reading a manifest gives the
  graph back: a node without configuration comes back with the literal null, which decodes alike.
\<close>

definition marshal_node :: "node \<Rightarrow> json" where
  "marshal_node n = JObj [(''id'', JStr (n_ID n)), (''type'', JStr (n_Type n)),
     (''config'', case n_Config n of None \<Rightarrow> JNull | Some c \<Rightarrow> c)]"

definition marshal_edge :: "edge \<Rightarrow> json" where
  "marshal_edge e = JObj ([(''from'', JStr (e_From e)), (''to'', JStr (e_To e))] @
     (if e_Branch e = [] then [] else [(''branch'', JStr (e_Branch e))]))"

definition marshal_graph :: "graph \<Rightarrow> json" where
  "marshal_graph g = JObj [(''entry_node_id'', JStr (g_EntryNodeID g)), (''nodes'', JArr (map marshal_node (g_Nodes g))),
     (''edges'', JArr (map marshal_edge (g_Edges g)))]"

definition null_config :: "node \<Rightarrow> node" where
  "null_config n = n\<lparr>n_Config := Some (case n_Config n of None \<Rightarrow> JNull | Some c \<Rightarrow> c)\<rparr>"

definition null_configs :: "graph \<Rightarrow> graph" where
  "null_configs g = g\<lparr>g_Nodes := map null_config (g_Nodes g)\<rparr>"

lemma those_map: "(\<And>x. x \<in> set xs \<Longrightarrow> f (h x) = Some (k x)) \<Longrightarrow> those (map f (map h xs)) = Some (map k xs)"
  by (induction xs) auto

lemma dec_marshal_node: "dec_node (marshal_node n) = Some (null_config n)"
  by (simp add: dec_node_def marshal_node_def null_config_def to_lower_def lower_char_def)

lemma dec_marshal_edge: "dec_edge (marshal_edge e) = Some e"
  by (simp add: dec_edge_def marshal_edge_def to_lower_def lower_char_def)

lemma dec_marshal_graph: "dec_graph (marshal_graph g) = Some (null_configs g)"
proof -
  have nodes: "those (map dec_node (map marshal_node (g_Nodes g))) = Some (map null_config (g_Nodes g))"
    by (rule those_map) (rule dec_marshal_node)
  have edges: "those (map dec_edge (map marshal_edge (g_Edges g))) = Some (map (\<lambda>e. e) (g_Edges g))"
    by (rule those_map) (rule dec_marshal_edge)
  show ?thesis
    using nodes edges by (simp add: dec_graph_def marshal_graph_def null_configs_def to_lower_def lower_char_def)
qed

lemma decode_null: "decodeNodeConfig dec (null_config n) = decodeNodeConfig dec n"
  by (auto simp: decodeNodeConfig_def null_config_def or_empty_obj_def split: option.splits)

lemma DecodeConfig_null: "DecodeConfig (null_config n) = DecodeConfig n"
proof -
  have "n_Type (null_config n) = n_Type n" by (simp add: null_config_def)
  then show ?thesis by (simp add: DecodeConfig_def Let_def decode_null)
qed

lemma decode_all_null: "decode_all (map null_config ns) = decode_all ns"
  by (induction ns) (simp_all add: DecodeConfig_null split: sum.split)

lemma ParseGraph_marshal:
  assumes "ParseGraph data = Inr g"
  shows "ParseGraph (Some (marshal_graph g)) = Inr (null_configs g)"
proof -
  from assms have "decode_all (g_Nodes g) = Inr ()"
    by (auto simp: ParseGraph_def split: option.splits sum.splits)
  then show ?thesis by (simp add: ParseGraph_def dec_marshal_graph null_configs_def decode_all_null)
qed

end
