(* ===== verification/Spec2Isabelle.thy ===== *)
theory Spec2Isabelle
  imports CampaignSamples QueueSamples AccessSamples StageSamples Replay DeliverFacts EnrollFacts Manifest AuditFacts IdentityFacts
begin

text \<open>
  A verification development for OpenJourney, a customer-engagement platform written in Go: events of
  an application are accepted and projected onto profiles, profiles enter journeys (graphs of nodes),
  workers move their runs from node to node, campaigns are sent to whole segments, and messages leave through channel adapters when the
  delivery policy permits it. The state of the program is its PostgreSQL database; the API, the event
  projector and any number of workers run at the same time and meet only there.

  \<^bold>\<open>How the parts fit together\<close>

  The API accepts events (\<^verbatim>\<open>postgres/store.go\<close>) and edits and publishes journeys
  (\<^verbatim>\<open>postgres/journeys.go\<close>, \<^verbatim>\<open>journey/publish.go\<close>). The projector turns an accepted event into
  enrollments and wakes runs that wait for it; schedules and backfills enroll whole audiences. A worker
  claims a due step, executes its node, and advances the run in one transaction. A message node leaves
  a message intent, which the delivery worker claims, checks against consent, suppressions, caps and
  quiet hours, renders, and hands to a channel adapter. A campaign is claimed by the dispatcher when it is
  due: its segment is resolved, the recipients are frozen in a manifest in the object store and split
  into delivery jobs, and the campaign worker claims the jobs and sends to each recipient once. Accepted
  events also leave through the outbox, which the dispatcher publishes; the operations worker executes
  queued jobs, among them the export and the deletion of a subject's data and the retention of events.

  \<^bold>\<open>Theories and the code they model\<close> (paths under \<^verbatim>\<open>src/internal\<close>)

  \<^item> \<open>Prelude\<close>, \<open>Json\<close>, \<open>Sha256\<close>, \<open>Clock\<close>: errors, the monad of fallible programs over a state, the parts of the
    Go library the source calls (\<^verbatim>\<open>strings\<close>, \<^verbatim>\<open>strconv\<close>, \<^verbatim>\<open>time.ParseDuration\<close>, \<^verbatim>\<open>encoding/json\<close>,
    \<^verbatim>\<open>crypto/sha256\<close>, the calendar of \<^verbatim>\<open>time\<close>), and the locale \<open>evolution\<close>.
  \<^item> \<open>Domain\<close>, \<open>World\<close>: the records of \<^verbatim>\<open>domain/domain.go\<close> and the database as one record \<open>world\<close>, a table
    being the list of its rows; queries and transactions that may fail at any call; the locale
    \<open>store_evolution\<close>.
  \<^item> \<open>JourneyGraph\<close>, \<open>Manifest\<close>: \<^verbatim>\<open>journey/graph.go\<close>, \<^verbatim>\<open>journey/validate.go\<close> and the configurations of
    \<^verbatim>\<open>journey/nodes.go\<close>; the marshalled form of a graph.
  \<^item> \<open>JourneyNodes\<close>, \<open>JourneyRuntime\<close>: \<^verbatim>\<open>Node.execute\<close> of \<^verbatim>\<open>journey/nodes.go\<close> with every case, and the
    worker loop of \<^verbatim>\<open>journey/runtime.go\<close>.
  \<^item> \<open>JourneyStore\<close>: \<^verbatim>\<open>postgres/journey_runtime.go\<close>, that is claiming, advancing, resuming and canceling runs,
    event-triggered enrollment, message intents, dead letters.
  \<^item> \<open>Schedule\<close>, \<open>JourneyEnroll\<close>: \<^verbatim>\<open>journey/enroll.go\<close>.
  \<^item> \<open>QuietHours\<close>, \<open>JourneyDeliver\<close>: \<^verbatim>\<open>journey/quiethours.go\<close>, \<^verbatim>\<open>journey/deliver.go\<close> and the error
    classification of \<^verbatim>\<open>channels\<close>.
  \<^item> \<open>Publish\<close>: \<^verbatim>\<open>postgres/journeys.go\<close>, \<^verbatim>\<open>postgres/maker_checker.go\<close>, \<^verbatim>\<open>journey/publish.go\<close>.
  \<^item> \<open>Events\<close>: \<^verbatim>\<open>AcceptEvents\<close> of \<^verbatim>\<open>postgres/store.go\<close>.
  \<^item> \<open>Identity\<close>, \<open>Projection\<close>: \<^verbatim>\<open>ProjectEvent\<close> of \<^verbatim>\<open>postgres/store.go\<close> with identity resolution, merging and
    unmerging, \<^verbatim>\<open>postgres/fact_projection.go\<close>, the projection queue and \<^verbatim>\<open>projector/projector.go\<close>. Transactions
    are rolled back when their body fails; the snapshots in the object store are not.
  \<^item> \<open>CampaignStore\<close>, \<open>Campaigns\<close>: \<^verbatim>\<open>postgres/campaigns.go\<close>, \<^verbatim>\<open>campaigns/dispatch.go\<close> and
    \<^verbatim>\<open>campaigns/deliver.go\<close>, with panics of adapters and the renderer. \<open>CampaignState\<close> holds the step relations
    of the campaign tables.
  \<^item> \<open>Queues\<close>: \<^verbatim>\<open>postgres/outbox.go\<close> and \<^verbatim>\<open>dispatcher/dispatcher.go\<close>, the operation jobs of \<^verbatim>\<open>postgres/operations.go\<close>,
    and the dead letters of \<^verbatim>\<open>postgres/admin.go\<close>.
  \<^item> \<open>Privacy\<close>: the privacy requests of \<^verbatim>\<open>postgres/admin.go\<close>, their execution and the retention in
    \<^verbatim>\<open>postgres/operations.go\<close>, and the worker of \<^verbatim>\<open>operations/operations.go\<close>, with what the foreign keys of the
    schema delete, clear and refuse.
  \<^item> \<open>Stages\<close>: \<^verbatim>\<open>stages/stages.go\<close> and \<^verbatim>\<open>postgres/stages.go\<close>.
  \<^item> \<open>Replay\<close>: \<^verbatim>\<open>replay/replay.go\<close>, with the profiles its slice and maps share as positions in a heap.
  \<^item> \<open>Directory\<close>, \<open>Access\<close>: the tables of users, roles, teams, keys and sessions with their structs, and
    \<^verbatim>\<open>postgres/auth.go\<close>, \<^verbatim>\<open>postgres/rbac.go\<close>, \<^verbatim>\<open>postgres/teams.go\<close>, \<^verbatim>\<open>Authenticate\<close> of \<^verbatim>\<open>postgres/store.go\<close> and the API keys of
    \<^verbatim>\<open>postgres/admin.go\<close>.
  \<^item> \<open>AuditLog\<close>: the hash-chained audit trail of \<^verbatim>\<open>postgres/admin.go\<close>, which the operations above append to.
  \<^item> \<open>Policy\<close>: \<^verbatim>\<open>policy/policy.go\<close> and \<^verbatim>\<open>postgres/delivery.go\<close>.
  \<^item> \<open>Audience\<close>: the segment language of \<^verbatim>\<open>audience\<close>, its parser, its two SQL compilers and its evaluation,
    with \<^verbatim>\<open>postgres/segments.go\<close>.
  \<^item> \<open>Experiment\<close>, \<open>Flags\<close>, \<open>Catalog\<close>: \<^verbatim>\<open>experiment/assign.go\<close>, \<^verbatim>\<open>flags/evaluate.go\<close>, and the reads and the
    sticky assignment of the catalog tables.
  \<^item> \<open>StoreFacts\<close>, \<open>NodeFacts\<close>, \<open>RuntimeFacts\<close>, \<open>DeliverFacts\<close>, \<open>EnrollFacts\<close>, \<open>ProjectionFacts\<close>,
    \<open>IdentityFacts\<close>, \<open>AuditFacts\<close>, \<open>CampaignEffects\<close>, \<open>CampaignFacts\<close>, \<open>CampaignSends\<close>, \<open>QueueFacts\<close>, \<open>PrivacyFacts\<close>,
    \<open>AccessFacts\<close>, \<open>Engine\<close>: the lemmas that span components. \<open>Leases\<close> has the contract of a leased queue. \<open>Samples\<close>,
    \<open>CampaignSamples\<close>, \<open>QueueSamples\<close>, \<open>AccessSamples\<close> and \<open>StageSamples\<close> hold the concrete journey, campaign, requests and databases the witnesses
    run on.

  \<^bold>\<open>What is shown\<close>

  The locale \<open>evolution\<close> is the interface between the database and every program on it: a preorder on
  worlds that the primitive operations respect is respected by each program built from them. It is
  interpreted three times on the model: for \<open>evolves\<close> (the invariant of the tables together with the
  history that is never rewritten), for \<open>reaches\<close> (the reflexive transitive closure of the atomic steps
  of the engine), and for \<open>silent\<close> (no message leaves). The first gives the invariants of the engine
  under any interleaving and any pattern of database failures, the second says that the worker loops
  and API programs are sequences of engine steps, so the first applies to all of them, and the third
  gives what the delivery worker may send. Two extensions of it, \<open>fact_effects\<close> and \<open>projection_effects\<close>,
  list what a projection writes; they are interpreted for the engine, for the uniqueness of identifiers,
  for the queue of projections and for the tables a journey leaves alone. A third, \<open>campaign_effects\<close>, lists what
  the dispatcher and the campaign worker write; it is interpreted for the engine, for the steps of the
  campaign tables (which keep campaigns consistent with their jobs), for the ranges of the status columns
  and for the failures of the database. What a turn of the campaign worker may hand over rests on further
  interpretations of \<open>store_evolution\<close>, for attempts that are closed and the calls that follow.
  On top of these the development shows at-most-once advancement and enrollment, exclusive leases,
  progress of claimed steps, that validation accepts exactly the well-formed graphs and makes nodes
  proceed, that compiled audience queries are closed and audiences evaluate to their meaning, that
  assignment at 64 bits computes the reference over the naturals with the shares the weights promise,
  and the functional behaviour of policy, quiet hours, schedules, flags and publication. Identity
  resolution is shown to converge and merges to be reversible, projections to keep the order of a
  subject's events and to drain, unsubscriptions to reach the policy, and the audit chain to show
  tampering, with the two ways in which it fails to. Campaigns are shown to cover their audience, to be
  repeatable from the manifest, to send each permitted message once, and to have work left while they
  are being sent, except when their audience is empty.

  The locale \<open>leased_queue\<close> is the contract of a queue in a table, and \<open>queue_loop\<close> that of a worker which drains
  one: the projection queue and the outbox interpret both, the operation jobs the first. They give that a claimed
  row is held for its lease and that draining ends. The outbox is shown to mark as published only what the publisher
  has taken. For privacy requests the step relation \<open>privacy_step\<close> has the calls in any order; a request has one job
  at most, and none before it is verified, but no such job can complete. Retention deletes exactly the expired events,
  unless a suppression cites one. Retention and the deletion of a subject are outside the steps of the engine, in which
  accepted events are only added. An accepted credential is shown to carry exactly what was granted, a revoked one to stay
  out whatever \<open>access_step\<close> does with the directory, and a created key to carry the scopes that were asked for, which need
  not be those of its maker. A stage rule is shown to move a profile only once, and a replay
  of the log to lose no attribute, except after an explicit merge.

  \<^bold>\<open>Bounds and fuel\<close>

  Machine integers are kept at their width: SHA-256 and bucket arithmetic are words, durations and
  products of timeouts are reduced with \<open>wrap64\<close>. Loops are recursive functions with termination
  proofs; the search for reachable nodes terminates because every round consumes unvisited nodes. The
  one loop without a bound in the source, paging through an audience, has the fuel \<open>page_fuel\<close>, one more
  than the number of rows, and the evaluation theorem shows that this is enough. Draining the
  projection queue, the outbox or the operation jobs has a fuel too; for the first two, one more than the number of ready
  rows is shown to be enough.

  \<^bold>\<open>Parameters\<close>

  Code that is not part of the repository is an argument of the definitions: the failure and identifier
  streams of the database, the rows PostgreSQL and ClickHouse select for an audience query, the
  iteration order of Go maps, the AI gateway and the extension host (as the node executor sees them),
  the channel adapters, the object store, the Liquid renderer, time zones, the bytes \<^verbatim>\<open>json.Marshal\<close> produces, the event
  publisher, \<^verbatim>\<open>bcrypt\<close>, the random bytes of a token, and PostgreSQL's readings of intervals, UUIDs and timestamps. The operation
  jobs that are not modelled (imports, generation, scoring, connectors) are an argument of the operations worker; nothing
  is claimed about them.

  \<^bold>\<open>Not modelled\<close>

  HTTP routing, analytics reports (their logic is SQL text), imports and connector jobs (object storage and
  external systems), provider clients, the WebAssembly host, single sign-on and provisioning, forms and pages,
  scores (floating-point arithmetic over the syntax trees of the Go parser), event schemas (a JSON Schema library), the checksum of a replay
  and the live rows it is compared with, telemetry, configuration and start-up.
\<close>

section \<open>The engine under concurrency\<close>

text \<open>C1: Whatever the workers, the API and the projector do, in any order and with any failures of the
  database, an enrollment exists at most once per version, profile, entry key and re-entry sequence, a
  message intent at most once per run, node and endpoint, a run has at most one live step, and an
  event key is stored once.\<close>

theorem engine_invariant:
  assumes "reaches w w'" and "journey_inv w"
  shows "journey_inv w'"
  using reaches_evolves [OF assms(1)] assms(2) by (simp add: evolves_def)

theorem engine_invariant_witness:
  "journey_inv (after sample_world (EnrollJourneyRun sample_run sample_step))"
  by (rule engine_invariant [OF engine_step_reaches [OF engine_step.enrolls] sample_inv(1)])



text \<open>A run keeps its identity, its profile, its enrollment key and the version it was enrolled on.\<close>

lemma runs_stay_on_their_version:
  assumes "reaches w w'" and "r \<in> set (w_runs w)"
  shows "\<exists>r' \<in> set (w_runs w'). jr_ID r' = jr_ID r \<and> jr_JourneyVersionID r' = jr_JourneyVersionID r \<and>
      jr_ProfileID r' = jr_ProfileID r \<and> enroll_key r' = enroll_key r"
proof -
  have g: "grown run_kept (w_runs w) (w_runs w')" using reaches_evolves [OF assms(1)] by (simp add: evolves_def history_def)
  from grown_mem [OF g assms(2)] obtain r' where r': "r' \<in> set (w_runs w')" and e: "run_identity r' = run_identity r"
    by (auto simp: run_kept_def)
  from e have "jr_ID (run_identity r') = jr_ID (run_identity r)" "enroll_key (run_identity r') = enroll_key (run_identity r)" by simp_all
  with r' show ?thesis by (auto simp: run_identity_def enroll_key_def)
qed

text \<open>A published version keeps its graph and its entry settings; only its status and the time of that change may.\<close>

lemma versions_are_immutable:
  assumes "reaches w w'" and "v \<in> set (w_versions w)"
  shows "\<exists>v' \<in> set (w_versions w'). v' = v\<lparr>jv_Status := jv_Status v', jv_PublishedAt := jv_PublishedAt v'\<rparr>"
proof -
  have g: "grown version_kept (w_versions w) (w_versions w')"
    using reaches_evolves [OF assms(1)] by (simp add: evolves_def history_def)
  from grown_mem [OF g assms(2)] obtain v' where v': "v' \<in> set (w_versions w')" and e: "version_content v' = version_content v"
    by (auto simp: version_kept_def)
  from e have "v' = v\<lparr>jv_Status := jv_Status v', jv_PublishedAt := jv_PublishedAt v'\<rparr>" by (cases v, cases v') (simp add: version_content_def)
  with v' show ?thesis by blast
qed

text \<open>The history of a run is an append-only log, and so are the accepted events and the record of
  messages handed to providers.\<close>

lemma history_is_append_only:
  assumes "reaches w w'"
  shows "\<exists>ts es ms. w_transitions w' = w_transitions w @ ts \<and> w_events w' = w_events w @ es \<and> w_calls w' = w_calls w @ ms"
  using reaches_evolves [OF assms] by (auto simp: evolves_def history_def appended_def)


section \<open>Advancing runs\<close>



text \<open>An advance that fails, for whatever reason, has changed nothing: there are no partial advances.\<close>

lemma advance_is_atomic:
  assumes "run_state (AdvanceRunTx runID run stepID nextStep trn intents) w = (Inl e, w')"
  shows "w' = ticked w"
  using assms unfolding AdvanceRunTx_def by (rule transact_Inl)

text \<open>A claimed step was due, belongs to a run that is at its node in the matching state and to an active
  version, is the earliest such step, and has been attempted at most ten times including this one.\<close>

lemma claim_takes_the_earliest_due_step:
  assumes "run_state ClaimJourneyStep w = (Inr (Some s), w')"
  shows "\<exists>s0 \<in> set (w_steps w). claimable_step w s0 \<and> js_ID s0 = js_ID s \<and> js_Attempts s = js_Attempts s0 + 1 \<and>
      js_Attempts s \<le> 10 \<and> js_LockedUntil s = Some (w_now w + lease) \<and>
      (\<forall>t \<in> set (w_steps w). claimable_step w t \<longrightarrow> js_AvailableAt s0 \<le> js_AvailableAt t)"
proof -
  from assms obtain s0 where s0: "s0 \<in> set (w_steps w)" "claimable_step w s0" "s = taken_step (w_now w) s0"
    "\<forall>t \<in> set (w_steps w). claimable_step w t \<longrightarrow> js_AvailableAt s0 \<le> js_AvailableAt t"
    by (rule ClaimJourneyStep_Some)
  then have "js_Attempts s0 < 10" by (auto simp: claimable_step_def step_due_def)
  with s0 show ?thesis by (intro bexI [of _ s0]) (auto simp: taken_step_def)
qed



text \<open>C5: When the database answers, a worker never leaves the step it claimed hanging: the tick reports
  success and the step is completed, put back, failed or dead, whatever the node did and whatever the
  AI gateway and the extension host answered.\<close>

theorem tick_releases_the_claimed_step:
  assumes "healthy w" and "distinct (map js_ID (w_steps w))" and "run_state ClaimJourneyStep w = (Inr (Some s), w1)"
  shows "\<exists>w'. run_state (TickNext d) w = (Inr True, w') \<and> released (js_ID s) w'"
  using assms by (rule TickNext_settles)

theorem tick_releases_the_claimed_step_witness:
  "\<exists>w'. run_state (TickNext \<lparr>d_LateThreshold = 0, d_AIGateway = None, d_ExtensionHost = None\<rparr>) sample_world = (Inr True, w') \<and>
     released ''s'' w'"
proof -
  have "js_ID (taken_step 0 sample_step) = ''s''" by (simp add: taken_step_def sample_step_def)
  moreover have "distinct (map js_ID (w_steps sample_world))" by (simp add: sample_world_def)
  ultimately show ?thesis using tick_releases_the_claimed_step [OF sample_healthy(1) _ sample_claim] by metis
qed

section \<open>Nodes and graphs\<close>

text \<open>C6: Executing a node moves the run along one of the node's edges, makes it wait at a wait node until the
  timeout of its new step, or finishes it at an exit; the recorded transition and the message intents
  belong to the run and the node.\<close>

theorem node_results_follow_the_graph:
  assumes "run_state (execute d n run g now kind) w = (Inr res, w')"
  shows "node_result g n run res"
  using execute_result assms by (rule yieldsD)

theorem node_results_follow_the_graph_witness:
  "node_result sample_graph sample_exit sample_run (execExit sample_exit sample_run 5)"
proof (rule node_results_follow_the_graph)
  show "run_state (execute \<lparr>d_LateThreshold = 0, d_AIGateway = None, d_ExtensionHost = None\<rparr> sample_exit sample_run sample_graph 5
      ''advance'') sample_world = (Inr (execExit sample_exit sample_run 5), sample_world)"
    by (simp add: execute_def Let_def sample_exit_def node_types)
qed

text \<open>C7: In a graph the validator accepts, entry, delay, goal, exit, wait, AI-decision and extension nodes
  always produce a result, whatever the database, the AI gateway and the extension host do.\<close>

theorem validated_nodes_always_proceed:
  assumes "Validate (Some g) = Inr ()" and "n \<in> set (g_Nodes g)" and "n_Type n \<in> self_contained"
  shows "\<exists>res w'. run_state (execute d n run g now kind) w = (Inr res, w')"
  using assms execute_total by (simp add: Validate_iff)

theorem validated_nodes_always_proceed_witness:
  "\<exists>res w'. run_state (execute \<lparr>d_LateThreshold = 0, d_AIGateway = None, d_ExtensionHost = None\<rparr> sample_delay sample_run sample_graph 0
     ''advance'') sample_world = (Inr res, w')"
  by (rule validated_nodes_always_proceed)
    (simp_all add: Validate_iff sample_wf, simp_all add: sample_graph_def sample_delay_def node_types)


text \<open>C9: The reachability search terminates and returns exactly the nodes reachable from the entry.\<close>

theorem reachableNodes_is_reachability: "set (reachableNodes r outgoing) = (out_rel outgoing)\<^sup>* `` {r}"
  by (rule reachableNodes_correct)

text \<open>A schedule fires at a time exactly if it is accepted and the minute matches what it denotes.\<close>

lemma schedules_fire_when_they_say:
  "isScheduledDue schedule now \<longleftrightarrow> (\<exists>spec. denotes schedule spec \<and> valid_spec spec \<and> fires_at spec (utc_minute now))"
  by (rule isScheduledDue_iff)

section \<open>Experiments, flags and delivery policy\<close>

text \<open>C17: The 64-bit arithmetic of the assignment computes the reference definition over the naturals, for all
  weights whose products stay inside 64 bits.\<close>

theorem Assign_computes_the_reference:
  assumes "weights_fit vs"
  shows "Assign seed pid vs p = assign_ref (unat (BucketOf (seed @ '':'' @ pid) 10000)) vs p"
  using assms by (rule Assign_ref)

theorem Assign_computes_the_reference_witness:
  "Assign ''s'' ''p'' [\<lparr>v_Label = ''a'', v_Weight = 1\<rparr>, \<lparr>v_Label = ''b'', v_Weight = 3\<rparr>] 10 =
   assign_ref (unat (BucketOf (''s'' @ '':'' @ ''p'') 10000)) [\<lparr>v_Label = ''a'', v_Weight = 1\<rparr>, \<lparr>v_Label = ''b'', v_Weight = 3\<rparr>] 10"
  by (rule Assign_computes_the_reference) (simp add: weights_fit_def weight_sum_def weight_of_def)

text \<open>C13: When the database answers, the policy lets a message through exactly for the recipients who are not
  suppressed, have subscribed and are below both caps.\<close>

theorem policy_sends_exactly_to_the_eligible:
  assumes "healthy w"
  shows "vd_Decision (fst (run_state (Policy.Evaluate p rcp c) w)) = ''sent'' \<longleftrightarrow> eligible w (p_TenantID p) rcp c"
  using Evaluate_eligible [OF assms] Evaluate_sent by (metis prod.collapse)

theorem policy_sends_exactly_to_the_eligible_witness:
  "vd_Decision (fst (run_state (Policy.Evaluate (tenant_principal ''t'' ''w'') \<lparr>rc_ProfileID = ''p'', rc_ExternalID = ''x'', rc_Endpoint = ''e''\<rparr>
      \<lparr>cp_Channel = ''email'', cp_Topic = [], cp_MaxSends24h = 5, cp_MaxSends7d = 20\<rparr>) sample_world)) = ''sent'' \<longleftrightarrow>
   eligible sample_world ''t'' \<lparr>rc_ProfileID = ''p'', rc_ExternalID = ''x'', rc_Endpoint = ''e''\<rparr>
      \<lparr>cp_Channel = ''email'', cp_Topic = [], cp_MaxSends24h = 5, cp_MaxSends7d = 20\<rparr>"
  using policy_sends_exactly_to_the_eligible [OF sample_healthy(1), of "tenant_principal ''t'' ''w''"] by (simp add: tenant_principal_def)

section \<open>Delivery\<close>

text \<open>C11: One round of the delivery worker hands over nothing, or exactly one message: to the endpoint and under
  the idempotency key of the intent it claimed, when that intent is undecided, its endpoint is not
  suppressed and the recipient is eligible under the tenant's caps (or the message is transactional),
  and, if the database answers, outside the recipient's quiet hours.\<close>

theorem delivery_sends_only_what_is_permitted:
  "w_calls (after w (JourneyDeliver.DeliverNext cfg worker)) = w_calls w \<or>
   (\<exists>msg i w1. w_calls (after w (JourneyDeliver.DeliverNext cfg worker)) = w_calls w @ [msg] \<and> claimed_intent w i \<and>
      run_state (ClaimJourneyMessageIntent worker) w = (Inr (Some i), w1) \<and> permitted cfg w1 i msg)"
  using sends_next [of w worker cfg] unfolding sends_at_def by blast

text \<open>A message the provider has taken is recorded whatever happens to the event that reports it: every row of
  the intent carries the provider's identifier and a decision under which it is not sent again.\<close>

lemma taken_messages_are_recorded:
  assumes "healthy w" and "a (w_tick w) msg = Returned (mid, cost)"
  shows "recorded (mi_ID i) mid (after w (send_and_emit a p i f msg))"
  using assms by (rule send_recorded)

text \<open>Quiet hours cover exactly the local hours from their start to their end, over midnight when the end
  is the smaller.\<close>

lemma quiet_hours_cover_their_hours:
  assumes "start \<noteq> stop"
  shows "\<exists>t. IsInQuietHours load now f (Some start) (Some stop) tz =
    Inr (quiet_hour start stop (local_hour (recipient_zone load f tz) now), t)"
  using assms by (rule IsInQuietHours_iff)

text \<open>Inside quiet hours, the time a message is put back to is the first moment outside them: everything
  before it is quiet, it is on a full hour, within a day, and not quiet itself.\<close>

lemma quiet_hours_reopen_at_their_end:
  assumes "start \<noteq> stop" and "0 \<le> start" and "start \<le> 23" and "0 \<le> stop" and "stop \<le> 23"
    and "recipient_zone load f tz = fixed_zone off" and "in_range now" and "\<bar>off\<bar> \<le> day_length"
    and "IsInQuietHours load now f (Some start) (Some stop) tz = Inr (True, t)"
  shows "open_again start stop off now t"
  using assms by (rule IsInQuietHours_reopens)

section \<open>Enrollment and publication\<close>

text \<open>An enrollment happens once: whatever the engine does after a successful enrollment, another
  enrollment under the same version, profile, entry key and sequence creates nothing.\<close>

lemma enrollment_happens_once:
  assumes "run_state (EnrollJourneyRun run step) w = (Inr r, w1)" and "reaches w1 w2"
    and "enroll_key run' = enroll_key run" and "run_state (EnrollJourneyRun run' step') w2 = (Inr r', w3)"
  shows "r' = ([], False) \<and> w_runs w3 = w_runs w2 \<and> w_steps w3 = w_steps w2"
proof -
  have "enroll_key run' \<in> set (map enroll_key (w_runs w2))"
    using reaches_enroll_key [OF assms(2) EnrollJourneyRun_stores [OF assms(1)]] by (simp only: assms(3))
  from EnrollJourneyRun_again [OF this assms(4)] show ?thesis by simp
qed

text \<open>A version with the re-entry policy once never admits a profile by event a second time.\<close>

lemma once_means_once:
  assumes "\<forall>v \<in> set (w_versions w). jv_ID v = vid \<longrightarrow> jv_ReentryPolicy v = ''once''" and "runs_of vid pid w \<noteq> []"
    and "enrollEventTriggered event pid w = Inr w'"
  shows "runs_of vid pid w' = runs_of vid pid w"
  using assms by (rule enrollEventTriggered_once)

text \<open>Only well-formed graphs are published: the new version is the next of its journey, active, appended to
  the versions, its graph parses and satisfies every rule of the validator, and a content-addressed
  manifest key carries the digest of that graph.\<close>

lemma published_versions_are_valid:
  assumes "run_state (PublishJourney env p j approver key) w = (Inr v, w')"
  shows "\<exists>draft graph. find (journey_in p j) (w_journeys w) = Some draft \<and> ParseGraph (jv_Graph v) = Inr graph \<and> graph_wf graph \<and>
    jv_Version v = jo_LatestVersion draft + 1 \<and> jv_Status v = ''active'' \<and> w_versions w' = w_versions w @ [v] \<and>
    (str_contains ''/manifests/'' key \<longrightarrow> has_suffix (manifest_suffix env graph) key)"
  using assms by (rule PublishJourney_Inr) (auto simp: Validate_iff)

text \<open>Where a tenant asks for a second pair of eyes, the check passes exactly for an authenticated user who is
  not among the recorded editors of the resource, and never when no editor is recorded.\<close>

lemma maker_checker_needs_a_second_user:
  assumes "healthy w" and "ty \<noteq> []" and "i \<noteq> []"
  shows "fst (run_state (CheckMakerChecker p ty i []) w) = Inr () \<longleftrightarrow>
    p_ActorType p = ''user'' \<and> p_UserID p \<noteq> [] \<and>
    (\<not> checker_on w p ty \<or> audit_actors w (p_TenantID p) ty i \<noteq> [] \<and> p_UserID p \<notin> set (audit_actors w (p_TenantID p) ty i))"
  using assms by (rule CheckMakerChecker_iff)



text \<open>C12: A manifest read back is the graph that was published: parsing what \<^verbatim>\<open>json.Marshal\<close> writes for a parsed
  graph gives the graph again, a missing configuration now spelled null.\<close>

theorem manifests_round_trip:
  assumes "ParseGraph data = Inr g"
  shows "ParseGraph (Some (marshal_graph g)) = Inr (null_configs g)"
  using assms by (rule ParseGraph_marshal)

theorem manifests_round_trip_witness:
  "ParseGraph (Some (marshal_graph sample_graph)) = Inr (null_configs sample_graph)"
  by (rule manifests_round_trip [OF sample_parse])

section \<open>Experiments, flags, audiences and events in detail\<close>

text \<open>Of the 10000 buckets, each variant gets its share: the number the 64-bit code gives to it differs by less
  than one from its weight's fraction of the buckets outside the holdout.\<close>

lemma variants_get_their_share:
  assumes "weights_fit vs" and "distinct (map v_Label vs)" and "v \<in> set vs" and "0 < weight_sum vs"
  shows "weight_sum vs * card {b :: 64 word. b < 10000 \<and> assign_bucket b vs p = (v_Label v, False)}
           < weight_of v * (10000 - holdout_buckets p) + weight_sum vs \<and>
         weight_of v * (10000 - holdout_buckets p)
           < weight_sum vs * card {b :: 64 word. b < 10000 \<and> assign_bucket b vs p = (v_Label v, False)} + weight_sum vs"
  using assign_bucket_share [OF assms] by simp

text \<open>An assignment is the holdout, nothing when no variant has weight, or the label of a variant with weight.\<close>

lemma assignments_name_a_variant:
  assumes "weights_fit vs"
  shows "Assign seed pid vs p = (''holdout'', True) \<or> Assign seed pid vs p = ([], False) \<and> weight_sum vs = 0 \<or>
    (\<exists>v \<in> set vs. 0 < weight_of v \<and> Assign seed pid vs p = (v_Label v, False))"
  using assign_ref_cases [OF unat_BucketOf, of "seed @ '':'' @ pid" vs p] by (auto simp: Assign_ref [OF assms])

text \<open>The variant of a profile in an experiment is decided once: whatever other assignments are requested in
  between, a later request is answered with the first variant.\<close>

lemma assignments_are_sticky:
  assumes "fst (propose_variant p k v w) = Some x"
    and "fst (propose_variant p k v' (assigned.propose_all p kvs (snd (propose_variant p k v w)))) = Some y"
  shows "y = x"
  using assms by (rule assigned.sticky)

text \<open>A flag evaluation returns the default without a variant, or a declared variant with its own value.\<close>

lemma flag_results_are_declared:
  assumes "run_state (Flags.Evaluate eval flag pid) w = (Inr r, w')"
  shows "(er_Variant r = [] \<and> er_Value r = ff_DefaultValue flag \<and> er_Reason r \<in> {''disabled'', ''rollout_excluded''}) \<or>
    ((\<exists>v \<in> set (ff_Variants flag). fv_Label v = er_Variant r \<and> fv_Value v = er_Value r) \<and> er_Reason r \<in> {''targeted'', ''rollout''})"
  using Evaluate_ok [OF assms] by (simp add: result_ok_def)

text \<open>The first targeting rule whose audience matches decides the result of an enabled flag.\<close>

lemma first_matching_rule_decides:
  assumes "\<And>dsl w. run_state (eval pid dsl) w = (Inr (m dsl), w)" and "ff_Status flag \<noteq> ''disabled''" and "ff_Enabled flag"
    and "first_rule m (ff_TargetingRules flag) = Some r" and "find_variant (ff_Variants flag) (fr_Variant r) = Some v"
  shows "run_state (Flags.Evaluate eval flag pid) w = (Inr (flag_result (fr_Variant r) (fv_Value v) ''targeted''), w)"
  using assms(2-) by (simp add: Flags.Evaluate_def run_attempt targeting_first [of eval pid m, OF assms(1)])

text \<open>The bucket that admits a profile to a rollout also picks its variant: with two variants of equal weight and a
  rollout of at most half of the profiles, the second variant is never served by the rollout.\<close>

lemma half_rollout_serves_one_variant:
  assumes "ff_Variants flag = [a, b]" and "fv_Weight a = fv_Weight b" and "0 < fv_Weight a"
    and "weights_fit (flag_variants flag)" and "0 \<le> ff_RolloutPct flag" and "ff_RolloutPct flag \<le> 50"
    and "fv_Label a \<noteq> fv_Label b" and "fv_Label b \<noteq> []"
  shows "er_Variant (rollout flag pid) \<noteq> fv_Label b"
  using assms by (rule rollout_half)

text \<open>C15: The SQL compiled from an audience cannot be broken out of: values only appear as parameters, the parameters
  are numbered by the arguments one to one, and every piece of text has balanced quotes and no
  placeholder sign.\<close>

theorem compiled_audiences_are_closed:
  assumes "compileProfileNode n args = Inr (toks, args')"
  shows "(\<exists>new. args' = args @ new) \<and> pars toks - {1, 2} = {length args + 3..<length args' + 3} \<and> list_all tok_ok toks"
  using assms by (rule compile_ok(1))

theorem compiled_audiences_are_closed_witness:
  "list_all tok_ok (fst (projr (compileProfileNode (NProfileAttribute ''plan'' ''equals'' (Some (JStr ''x''))) [])))"
proof -
  obtain toks args' where c: "compileProfileNode (NProfileAttribute ''plan'' ''equals'' (Some (JStr ''x''))) [] = Inr (toks, args')"
    by (simp add: field_safe_def safe_char_def attr_test_def)
  from compiled_audiences_are_closed [OF c] c show ?thesis by simp
qed

text \<open>C16: When the database answers, evaluating a supported audience for a profile terminates with its meaning.\<close>

theorem audience_evaluation_is_its_meaning:
  assumes "healthy w" and "w_ch w \<noteq> None" and "evaluable n"
  shows "\<exists>w'. run_state (Matches t ws app pid n) w = (Inr (sat w t ws app pid n), w')"
  using Matches_returns(1) [OF assms, of t ws app pid] Matches_sound(1) [of t ws app pid n w] by (auto simp: returns_def)

theorem audience_evaluation_is_its_meaning_witness:
  "\<exists>w'. run_state (Matches ''t'' ''w'' ''app'' ''p'' (NNot (NConsent ''email'' ''marketing'' ''subscribed''))) sample_world =
     (Inr (sat sample_world ''t'' ''w'' ''app'' ''p'' (NNot (NConsent ''email'' ''marketing'' ''subscribed''))), w')"
  by (rule audience_evaluation_is_its_meaning [OF sample_healthy(1)]) (simp_all add: sample_world_def empty_world_def)

text \<open>C14: Accepting a batch again adds no event, job, outbox record or connector job, and a repeated acceptance that
  succeeds returns the identifiers of the first.\<close>

theorem accepted_batches_are_idempotent:
  assumes "run_state (AcceptEvents p es) w = (Inr ids, w1)" and "run_state (AcceptEvents p es) w1 = (r, w2)"
  shows "(r = Inr ids \<or> (\<exists>e. r = Inl e)) \<and> w_events w2 = w_events w1 \<and> w_jobs w2 = w_jobs w1 \<and> w_outbox w2 = w_outbox w1 \<and>
    w_opjobs w2 = w_opjobs w1"
  using assms by (rule AcceptEvents_replay)

theorem accepted_batches_are_idempotent_witness:
  "w_events (after (after sample_tenant_world (AcceptEvents sample_app [sample_signup])) (AcceptEvents sample_app [sample_signup])) =
   w_events (after sample_tenant_world (AcceptEvents sample_app [sample_signup]))"
proof -
  obtain ids w1 where a: "run_state (AcceptEvents sample_app [sample_signup]) sample_tenant_world = (Inr ids, w1)"
    by (rule sample_acceptance)
  obtain r w2 where b: "run_state (AcceptEvents sample_app [sample_signup]) w1 = (r, w2)"
    by (cases "run_state (AcceptEvents sample_app [sample_signup]) w1")
  from accepted_batches_are_idempotent [OF a b] show ?thesis by (simp add: a b)
qed

text \<open>The validator limits the timeout of a decision node by a product that wraps at 64 bits: a declared timeout
  of 584 years passes the limit of five seconds.\<close>

lemma huge_timeouts_pass_the_limit:
  "validateDurations \<lparr>n_ID = ''n'', n_Type = ''ai_decision'',
     n_Config = Some (JObj [(''prompt_version_id'', JStr ''v''), (''timeout_ms'', JInt 18446744073710),
                           (''max_cost_cents'', JInt 1)])\<rparr> = Inr ()"
  by code_simp

section \<open>Identity and projection\<close>

text \<open>C19: Resolution settles who the event is about: the winner is a profile one of the event's keys named before, and
  afterwards every key of the event that names a live profile names the winner.\<close>

theorem resolution_converges:
  assumes "run_state (resolveIdentity event) w = (Inr winner, w')" and "identity_inv w" and "winner \<noteq> []"
  shows "(\<exists>key\<in>set (identityKeys event). names event w key winner) \<and>
    (\<forall>key\<in>set (identityKeys event). \<forall>p. names event w' key p \<longrightarrow> p = winner)"
  using resolveIdentity_Inr [OF assms(1) _ assms(3)] assms(2) by (simp add: identity_inv_def)

theorem resolution_converges_witness:
  "\<not> names same_person (snd (run_state (resolveIdentity same_person) two_people)) (''user_id'', ''x'') ''p''"
proof -
  have "(''user_id'', ''x'') \<in> set (identityKeys same_person)" by code_simp
  moreover have "\<forall>key\<in>set (identityKeys same_person). \<forall>p.
      names same_person (snd (run_state (resolveIdentity same_person) two_people)) key p \<longrightarrow> p = ''q''"
    using resolution_converges [of same_person two_people "''q''" "snd (run_state (resolveIdentity same_person) two_people)"]
      two_people_runs(1) two_people_ok(2) by (simp add: prod_eq_iff)
  ultimately show ?thesis by auto
qed

text \<open>C20: A merge can be taken back: the merged profile is again exactly what it was, with the aliases it had; the
  profile it was merged into keeps the attributes it absorbed and is otherwise unchanged, and so are all the others.\<close>

theorem unmerging_undoes_a_merge:
  assumes "mergeable event src target w" and "healthy w"
    and "run_state (mergeProfiles event src target) w = (Inr (), w1)"
    and "im_SourceID m = src" "im_TargetID m = target" "im_ReversalRef m = snapshot_key event src"
    and "p_TenantID (ae_Principal undo) = p_TenantID (ae_Principal event)" "p_AppID (ae_Principal undo) = p_AppID (ae_Principal event)"
  shows "\<exists>q w2. find_profile src w = Some q \<and> run_state (apply_unmerge undo m) w1 = (Inr (), w2) \<and>
    w_profiles w2 = upd_rows (profile_id_is target) (absorbed w (pr_Attributes q)) (w_profiles w) \<and> w_aliases w2 = w_aliases w"
  using merge_then_unmerge [OF assms] by metis

theorem unmerging_undoes_a_merge_witness:
  "\<exists>q w2. find_profile ''p'' two_people = Some q \<and>
    run_state (apply_unmerge same_person \<lparr>im_ID = ''m'', im_TenantID = ''t'', im_AppID = [], im_SourceID = ''p'', im_TargetID = ''q'',
      im_SourceEventID = None, im_ReversalRef = snapshot_key same_person ''p'', im_UndoneAt = None, im_MergedAt = 0\<rparr>)
      (snd (run_state (mergeProfiles same_person ''p'' ''q'') two_people)) = (Inr (), w2) \<and>
    w_profiles w2 = upd_rows (profile_id_is ''q'') (absorbed two_people (pr_Attributes q)) (w_profiles two_people) \<and>
    w_aliases w2 = w_aliases two_people"
  by (rule unmerging_undoes_a_merge [OF two_people_ok(3,1)]) (use two_people_runs(2) in \<open>simp_all add: prod_eq_iff\<close>)

text \<open>C21: Nobody is written to on an address that was unsubscribed: once the event is projected, the policy refuses
  the channel at the address the profile had, whoever the message is for and whatever the caps.\<close>

theorem unsubscribing_stops_marketing:
  assumes "run_state (ProjectEvent event) w = (Inr (), w')" and "ae_Type event = ''consent.changed''"
    and "Option.bind (payload_members event) dec_consent = Some b" and "cs_State b = ''unsubscribed''"
  shows "\<exists>pid w1. run_state (settle_profile event) (ticked w) = (Inr pid, w1) \<and>
    (\<forall>rcp c. cp_Channel c = cs_Channel b \<and> rc_Endpoint rcp = consent_endpoint (cs_Channel b) pid w1 \<and> rc_Endpoint rcp \<noteq> [] \<longrightarrow>
       \<not> eligible w' (p_TenantID (ae_Principal event)) rcp c)"
proof (rule unsubscribe_suppresses [OF assms])
  fix pid w1
  assume "run_state (settle_profile event) (ticked w) = (Inr pid, w1)"
    and "consent_endpoint (cs_Channel b) pid w1 \<noteq> [] \<Longrightarrow>
      list_ex (suppresses (p_TenantID (ae_Principal event)) (cs_Channel b) (consent_endpoint (cs_Channel b) pid w1)) (w_suppressions w')"
  then show ?thesis by (intro exI [of _ pid] exI [of _ w1]) (auto simp: eligible_def)
qed

theorem unsubscribing_stops_marketing_witness:
  "\<not> eligible (snd (run_state (ProjectEvent unsubscribed) job_world)) ''t'' \<lparr>rc_ProfileID = ''p'', rc_ExternalID = ''x'', rc_Endpoint = ''a''\<rparr>
     \<lparr>cp_Channel = ''email'', cp_Topic = [], cp_MaxSends24h = 0, cp_MaxSends7d = 0\<rparr>"
proof -
  have "p_TenantID (ae_Principal unsubscribed) = ''t''" by code_simp
  with unsubscribing_stops_marketing [OF _ _ unsubscribed_settles(2), of job_world "snd (run_state (ProjectEvent unsubscribed) job_world)"]
    two_people_runs(3) obtain pid w1 where "run_state (settle_profile unsubscribed) (ticked job_world) = (Inr pid, w1)"
    and "\<And>rcp c. cp_Channel c = ''email'' \<Longrightarrow> rc_Endpoint rcp = consent_endpoint ''email'' pid w1 \<Longrightarrow> rc_Endpoint rcp \<noteq> [] \<Longrightarrow>
       \<not> eligible (snd (run_state (ProjectEvent unsubscribed) job_world)) ''t'' rcp c"
    by (auto simp: unsubscribed_def prod_eq_iff)
  with unsubscribed_settles(1) show ?thesis by simp
qed



text \<open>C23: Draining the queue ends: every turn takes a job that was ready out of the ready ones and none comes back
  before its delay, whether the projections succeed or fail, so the number of ready jobs bounds the turns.\<close>

theorem draining_ends:
  assumes "list_all (\<lambda>j. 0 \<le> pj_Attempts j) (w_jobs w)" and "length (filter (job_ready (w_now w)) (w_jobs w)) < fuel"
  shows "\<exists>n e w'. run_state (Drain fuel maxItems processed) w = (Some (n, e), w')"
  by (rule prl.drain_returns) (use assms in \<open>simp_all add: tried_def waiting_def\<close>)

theorem draining_ends_witness:
  "\<exists>n e w'. run_state (Drain 2 100 0) job_world = (Some (n, e), w')"
  by (rule draining_ends) (simp_all add: job_world_def sample_job_def job_ready_def)



section \<open>The audit trail\<close>



text \<open>The row is hashed with the nanoseconds of the clock and with the metadata as the program writes them, but the
  database keeps microseconds: with a finer clock the text the verification hashes is another one, so the chain of
  the tenant is intact afterwards only if SHA-256 gives the two texts the same hash.\<close>

lemma fine_clocks_break_the_chain:
  assumes "seqs_unique w (p_TenantID p)" and "w_now w mod 1000 \<noteq> 0"
  shows "audit_text (read_back p act rt rid m w) \<noteq> audit_text (new_audit p act rt rid m w) \<and>
    (av_Intact (verifyAuditRows (chain_rows (audit p act rt rid m w) (p_TenantID p))) \<longleftrightarrow>
     av_Intact (verifyAuditRows (chain_rows w (p_TenantID p))) \<and>
     sha256_hex (audit_text (new_audit p act rt rid m w)) = sha256_hex (audit_text (read_back p act rt rid m w)))"
  using read_back_text [OF assms(2)] audit_intact_iff [OF assms(1)] by (simp add: ComputeAuditRowHash_def audit_text_def)

text \<open>C40: The backfill that runs with every migration gives the rows of every tenant new numbers and hashes where they do
  not fit: whatever was done to the trail before, once it succeeds every chain verifies as intact.\<close>

theorem backfill_hides_tampering:
  assumes "distinct (map au_ID (w_audit w))" and "run_state BackfillAuditChain w = (Inr (), w')"
  shows "av_Intact (verifyAuditRows (chain_rows w' tenantID))"
  using assms by (rule BackfillAuditChain_launders)

theorem backfill_hides_tampering_witness:
  "\<not> av_Intact (verifyAuditRows (chain_rows forged_trail ''t'')) \<and>
   av_Intact (verifyAuditRows (chain_rows (snd (run_state BackfillAuditChain forged_trail)) ''t''))"
  using backfill_hides_tampering [of forged_trail "snd (run_state BackfillAuditChain forged_trail)"] forged_trail_ok
  by (simp add: prod_eq_iff)

section \<open>Campaigns\<close>








text \<open>A campaign without recipients never finishes: when a dispatch creates no job and the campaign had none, its status
  is still sending after any sequence of claims, completions and failures of delivery jobs.\<close>

lemma empty_campaigns_never_finish:
  assumes "run_state (DispatchNext env) w = ((True, None), w1)" and "run_state ClaimScheduledCampaign w = (Inr (Some camp), w0)"
    and "w_delivery_jobs w1 = w_delivery_jobs w" and "jobs_of w (ca_ID camp) = []" and "worker_step\<^sup>*\<^sup>* w1 w2"
  shows "ca_Status ` {c \<in> set (w_campaigns w2). ca_ID c = ca_ID camp} = {''sending''}"
proof -
  from DispatchNext_ok [OF assms(1)] assms(2) obtain w3 m where ro: "read_only w0 w3" and d: "dispatched env camp m w3 w1" by auto
  have "camp \<in> set (w_campaigns w3)" using ClaimScheduledCampaign_Some [OF assms(2)] ro by (auto simp: read_only_def)
  then have "idle (ca_ID camp) w1" using dispatched_sending [OF d] assms(3,4) by (simp add: idle_def jobs_of_def)
  from idle_steps [OF assms(5) this] show ?thesis by (simp add: idle_def)
qed



section \<open>The queues\<close>

text \<open>C38: Draining the outbox keeps its rows, and marks a row as published only after the publisher has taken it: every row
  that is published afterwards was so before or is among those handed over, whatever the publisher and the database answer.\<close>

theorem published_rows_were_handed_over:
  "map ob_ID (w_outbox (after w (DrainOutbox publisher fuel maxItems processed))) = map ob_ID (w_outbox w) \<and>
   ob_ID ` {r \<in> set (w_outbox (after w (DrainOutbox publisher fuel maxItems processed))). ob_Status r = ''published''} \<subseteq>
     ob_ID ` {r \<in> set (w_outbox w). ob_Status r = ''published''} \<union>
     ob_ID ` set (w_published (after w (DrainOutbox publisher fuel maxItems processed)))"
  using handed_over_drain [of publisher fuel maxItems processed] by (simp add: state_io_rel_def handed_over_def marked_def)

text \<open>Draining the outbox ends: a row that was taken is not ready again before its lease or its delay is over, so the
  number of ready rows bounds the turns.\<close>

lemma dispatching_ends:
  assumes "list_all (\<lambda>r. 0 \<le> ob_Attempts r) (w_outbox w)" and "length (filter (outbox_ready (w_now w)) (w_outbox w)) < fuel"
  shows "\<exists>n e w'. run_state (DrainOutbox publisher fuel maxItems processed) w = (Some (n, e), w')"
  by (rule obl.drain_returns) (use assms in \<open>simp_all add: tried_def waiting_def\<close>)

text \<open>A claimed row is held: as long as its lease lasts and nobody else has changed it, the next claim gives another
  row, whatever has happened to the rest of the queue. So for the outbox, with a lease of thirty seconds, and for the
  operation jobs, with one of five minutes.\<close>

lemma claimed_rows_are_held:
  shows "run_state ClaimOutboxEvent w = (Inr (Some e), w1) \<Longrightarrow> run_state ClaimOutboxEvent w2 = (Inr (Some e2), w3) \<Longrightarrow>
      {r \<in> set (w_outbox w2). ob_ID r = oe_ID e} \<subseteq> set (w_outbox w1) \<Longrightarrow> w_now w2 \<le> w_now w + outbox_lease \<Longrightarrow> oe_ID e2 \<noteq> oe_ID e"
    and "run_state ClaimOperationJob w = (Inr (Some j), w1) \<Longrightarrow> run_state ClaimOperationJob w2 = (Inr (Some j2), w3) \<Longrightarrow>
      {r \<in> set (w_opjobs w2). oj_ID r = oj_ID j} \<subseteq> set (w_opjobs w1) \<Longrightarrow> w_now w2 \<le> w_now w + operation_lease \<Longrightarrow> oj_ID j2 \<noteq> oj_ID j"
  by (erule (3) outbox_claim_held, erule (3) operation_claim_held)

section \<open>Data subjects and retention\<close>




text \<open>C36: A request of a data subject has at most one operation job, and an unverified request has none: so whatever sequence of
  calls creates, verifies and rejects requests, claims, completes, fails and revives jobs, a deletion or an export is queued
  only after the request has been verified, and only once.\<close>

theorem one_job_per_verified_request:
  assumes "w_privacy w = []" "filter privacy_job (w_opjobs w) = []" "inj (w_uuid w)" and "privacy_step\<^sup>*\<^sup>* w w'"
  shows "distinct (map job_request (filter privacy_job (w_opjobs w'))) \<and>
    pq_ID ` {r \<in> set (w_privacy w'). unverified r} \<inter> job_request ` {j \<in> set (w_opjobs w'). privacy_job j} = {}"
proof (rule conjI)
  from assms(1-3) have "privacy_ok w" by (simp add: privacy_ok_def privacy_jobs_def)
  from privacy_reachable_ok [OF assms(4) this] have ok: "privacy_ok w'" .
  then show "distinct (map job_request (filter privacy_job (w_opjobs w')))" by (simp add: privacy_ok_def privacy_jobs_def)
  from ok have "pq_ID r \<notin> job_request ` {j \<in> set (w_opjobs w'). privacy_job j}" if "r \<in> set (w_privacy w')" "unverified r" for r
    using that by (simp add: privacy_ok_def privacy_jobs_def)
  then show "pq_ID ` {r \<in> set (w_privacy w'). unverified r} \<inter> job_request ` {j \<in> set (w_opjobs w'). privacy_job j} = {}" by blast
qed

theorem one_job_per_verified_request_witness:
  "distinct (map job_request (filter privacy_job (w_opjobs (after (after sample_tenant_world
     (CreatePrivacyRequest ''bytes'' sample_app ''x'' ''delete'')) (VerifyPrivacyRequest sample_app [] []))))) \<and>
   privacy_jobs (after (after sample_tenant_world
     (CreatePrivacyRequest ''bytes'' sample_app ''x'' ''delete'')) (VerifyPrivacyRequest sample_app [] [])) = [[]]"
proof -
  let ?w1 = "after sample_tenant_world (CreatePrivacyRequest ''bytes'' sample_app ''x'' ''delete'')"
  let ?w2 = "after ?w1 (VerifyPrivacyRequest sample_app [] [])"
  have steps: "privacy_step\<^sup>*\<^sup>* sample_tenant_world ?w2"
    by (rule rtranclp_trans [OF r_into_rtranclp r_into_rtranclp]) (rule privacy_step.create, rule privacy_step.verify)
  have inj: "inj (w_uuid sample_tenant_world)"
    by (rule injI) (auto simp: sample_tenant_world_def sample_world_def empty_world_def dest: arg_cong [of _ _ length])
  have "distinct (map job_request (filter privacy_job (w_opjobs ?w2)))"
    by (rule conjunct1, rule one_job_per_verified_request [OF _ _ inj steps])
      (simp_all add: sample_tenant_world_def sample_world_def empty_world_def)
  then show ?thesis using one_request_verified by simp
qed

section \<open>Credentials and permissions\<close>

text \<open>C31: A credential is worth what was granted: when it is accepted it is a live API key, whose scopes it has, or a live
  session of an enabled user who holds a role, and then its scopes are exactly the permissions of the roles bound to the user
  in the tenant or the workspace and of the roles of the user's teams in the workspace.\<close>

theorem principals_have_what_was_granted:
  assumes "run_state (Authenticate raw) w = (Inr p, w')"
  shows "(\<exists>k\<in>set (dir_keys (w_dir w)). live_key (w_now w) (sha256_hex raw) k \<and> p_KeyID p = ak_ID k \<and> p_Scopes p = ak_Scopes k \<and>
      p_TenantID p = ak_TenantID k \<and> p_WorkspaceID p = ak_WorkspaceID k) \<or>
    (\<exists>s\<in>set (dir_sessions (w_dir w)). live_session (w_now w) (sha256_hex raw) s \<and> p_UserID p = ss_UserID s \<and>
      p_TenantID p = ss_TenantID s \<and> p_WorkspaceID p = ss_WorkspaceID s \<and>
      list_ex (enabled_user (ss_TenantID s) (ss_UserID s)) (dir_users (w_dir w)) \<and>
      set (p_Scopes p) = (\<Union>r\<in>{r. holds_role (ss_TenantID s) (ss_WorkspaceID s) (ss_UserID s) (w_dir w) r}. set (rl_Permissions r)) \<and>
      (\<exists>r. holds_role (ss_TenantID s) (ss_WorkspaceID s) (ss_UserID s) (w_dir w) r))"
  using assms
proof (cases rule: Authenticate_cases)
  case (key k)
  then have "live_key (w_now w) (sha256_hex raw) k \<and> p_KeyID p = ak_ID k \<and> p_Scopes p = ak_Scopes k \<and>
      p_TenantID p = ak_TenantID k \<and> p_WorkspaceID p = ak_WorkspaceID k" by (simp add: key_principal_def)
  with key(1) show ?thesis by blast
next
  case (session s scopes)
  have "live_session (w_now w) (sha256_hex raw) s \<and> p_UserID p = ss_UserID s \<and>
      p_TenantID p = ss_TenantID s \<and> p_WorkspaceID p = ss_WorkspaceID s \<and>
      list_ex (enabled_user (ss_TenantID s) (ss_UserID s)) (dir_users (w_dir w)) \<and>
      set (p_Scopes p) = (\<Union>r\<in>{r. holds_role (ss_TenantID s) (ss_WorkspaceID s) (ss_UserID s) (w_dir w) r}. set (rl_Permissions r)) \<and>
      (\<exists>r. holds_role (ss_TenantID s) (ss_WorkspaceID s) (ss_UserID s) (w_dir w) r)"
    using session(2,3,5) granted_Some [OF session(4)] by (simp add: user_principal_def)
  with session(1) show ?thesis by (intro disjI2 bexI [of _ s])
qed

theorem principals_have_what_was_granted_witness:
  "\<exists>s\<in>set (dir_sessions (w_dir office_world)). set (p_Scopes operator) =
     (\<Union>r\<in>{r. holds_role (ss_TenantID s) (ss_WorkspaceID s) (ss_UserID s) (w_dir office_world) r}. set (rl_Permissions r)) \<and>
     p_Scopes operator = [''journeys:read'', ''journeys:write'']"
proof -
  have run: "run_state (Authenticate ''ojs_x'') office_world = (Inr operator, after office_world (Authenticate ''ojs_x''))"
    using operator_authenticates by (simp add: prod_eq_iff)
  have "dir_keys (w_dir office_world) = []" by (simp add: office_world_def office_def empty_directory_def)
  then obtain s where "s \<in> set (dir_sessions (w_dir office_world))" "set (p_Scopes operator) =
     (\<Union>r\<in>{r. holds_role (ss_TenantID s) (ss_WorkspaceID s) (ss_UserID s) (w_dir office_world) r}. set (rl_Permissions r))"
    using principals_have_what_was_granted [OF run] by auto
  moreover have "p_Scopes operator = [''journeys:read'', ''journeys:write'']" by (simp add: operator_def user_principal_def)
  ultimately show ?thesis by (intro bexI [of _ s] conjI)
qed

text \<open>C32: A revoked credential stays out: whatever is done with keys, sessions, users, roles and teams after a key or a session
  was revoked, its secret is never again accepted as a key or, respectively, as a session.\<close>

theorem revoked_credentials_stay_out:
  assumes "dir_ok (w_dir w)" and "access_step\<^sup>*\<^sup>* w w'" and "run_state (Authenticate raw) w' = (Inr p, w'')"
  shows "(sha256_hex raw \<in> revoked_keys (w_dir w) \<longrightarrow> p_ActorType p = ''user'') \<and>
    (sha256_hex raw \<in> revoked_sessions (w_dir w) \<longrightarrow> p_ActorType p = ''api_key'')"
proof -
  from access_reachable_kept [OF assms(2)] assms(1) have ok: "dir_ok (w_dir w')" and k: "revoked_keys (w_dir w) \<subseteq> revoked_keys (w_dir w')"
    and s: "revoked_sessions (w_dir w) \<subseteq> revoked_sessions (w_dir w')" by (simp_all add: dir_kept_def)
  from assms(3) show ?thesis
  proof (cases rule: Authenticate_cases)
    case (key x)
    with revoked_key_refused [OF ok _ key(1)] k show ?thesis by (auto simp: key_principal_def)
  next
    case (session x scopes)
    with revoked_session_refused [OF ok _ session(1)] s show ?thesis by (auto simp: user_principal_def)
  qed
qed

theorem revoked_credentials_stay_out_witness:
  "dir_ok (w_dir (after keyed_world (RevokeAPIKey sample_app ''key''))) \<and>
   (\<nexists>p w''. run_state (Authenticate ''oj_x'') (after keyed_world (RevokeAPIKey sample_app ''key'')) = (Inr p, w'') \<and> p_ActorType p = ''api_key'')"
proof -
  let ?w = "after keyed_world (RevokeAPIKey sample_app ''key'')"
  have "access_step\<^sup>*\<^sup>* keyed_world ?w" by (rule r_into_rtranclp) (rule access_step.revoke_key)
  from access_reachable_kept [OF this] keyed_world_ok have ok: "dir_ok (w_dir ?w)" by (simp add: dir_kept_def)
  have "p_ActorType p = ''user''" if "run_state (Authenticate ''oj_x'') ?w = (Inr p, w'')" for p w''
    using revoked_credentials_stay_out [OF ok rtranclp.rtrancl_refl that] key_is_revoked by simp
  with ok show ?thesis by fastforce
qed

text \<open>C33: A created key authenticates with exactly the scopes that were asked for, in the application of its maker, until it
  expires; the scopes of the maker play no part, so a key may carry more than its maker has.\<close>

theorem created_keys_carry_the_scopes_asked_for:
  assumes "run_state (CreateAPIKey random p name scopes expiresAt) w = (Inr (item, raw), w1)"
    and "\<not> w_fault w1 (w_tick w1)" and "case expiresAt of None \<Rightarrow> True | Some t \<Rightarrow> w_now w1 < t"
  shows "fst (run_state (Authenticate raw) w1) = Inr \<lparr>p_TenantID = p_TenantID p, p_WorkspaceID = p_WorkspaceID p, p_AppID = p_AppID p,
    p_KeyID = ky_ID item, p_UserID = [], p_ActorType = ''api_key'', p_Scopes = scopes\<rparr>"
  using assms by (rule created_key_authenticates)

theorem created_keys_carry_the_scopes_asked_for_witness:
  "\<exists>item raw w1. run_state (CreateAPIKey [1, 2, 3] sample_app ''key'' [''*''] None) sample_tenant_world = (Inr (item, raw), w1) \<and>
     p_Scopes sample_app = [] \<and> p_Scopes (projr (fst (run_state (Authenticate raw) w1))) = [''*'']"
proof -
  obtain item raw w1 where run: "run_state (CreateAPIKey [1, 2, 3] sample_app ''key'' [''*''] None) sample_tenant_world = (Inr (item, raw), w1)"
    and f: "\<not> w_fault w1 (w_tick w1)" by (rule star_key)
  from created_keys_carry_the_scopes_asked_for [OF run f] run show ?thesis by (auto simp: sample_app_def tenant_principal_def)
qed

section \<open>Lifecycle stages\<close>



section \<open>Replaying the log\<close>

text \<open>C39: Replaying a log without explicit merges loses no attribute: whatever a profile update of the log sets, some profile of the
  result has, however the events that name profiles by their external and anonymous identifiers have joined them.\<close>

theorem replays_keep_attributes:
  assumes "list_all (\<lambda>e. ae_Type e \<noteq> ''identity.merge'') events"
    and "event \<in> set events" "ae_Type event = ''profile.updated''"
    and "Option.bind (payload_members event) dec_attributes = Some attrs" "obj_get attrs k \<noteq> None"
  shows "\<exists>f \<in> set (Build events). obj_get (cp_Attributes f) k \<noteq> None"
  by (rule Build_keeps_attributes [OF assms])

theorem replays_keep_attributes_witness: "\<exists>f \<in> set (Build two_names). obj_get (cp_Attributes f) ''b'' \<noteq> None"
proof (rule replays_keep_attributes)
  show "list_all (\<lambda>e. ae_Type e \<noteq> ''identity.merge'') two_names" by (simp add: two_names_def logged_def)
  show "logged ''profile.updated'' ''y'' [] (sets_attribute ''b'') \<in> set two_names" by (simp add: two_names_def)
  show "ae_Type (logged ''profile.updated'' ''y'' [] (sets_attribute ''b'')) = ''profile.updated''" by (simp add: logged_def)
  show "Option.bind (payload_members (logged ''profile.updated'' ''y'' [] (sets_attribute ''b''))) dec_attributes = Some [(''b'', JInt 1)]"
    by code_simp
  show "obj_get [(''b'', JInt 1)] ''b'' \<noteq> None" by code_simp
qed

end
